(* ===== verification/Prelude.thy ===== *)
theory Prelude
  imports Main "HOL-Library.Sublist"
begin

text \<open>
  What every component of the development shares: errors as values, the state-and-error
  operations that model database transactions of the control plane, the combinators the
  handlers are written with, and two generic proof principles over them. \<open>relates\<close> bounds an
  operation by a relation between the state before and the state after; the locale
  \<open>evolution\<close> lifts such a bound from the primitive writes to whole handlers whenever the
  relation is reflexive and transitive. Association tables are lists of rows in insertion
  order, which is the order of the \<open>seq\<close> identity column the SQL orders by.
\<close>

section \<open>Errors and operations\<close>

text \<open>
  \<open>Refused\<close> is an \<open>ExecutionError\<close> or \<open>OrganizationDomainError\<close> (HTTP status and code),
  \<open>Constraint\<close> a constraint failure of the database (its kind and the constraint's name),
  \<open>Trigger\<close> an exception raised in the database (a trigger's message, a row-level security
  violation), \<open>Raised\<close> any other JavaScript \<open>Error\<close>.
\<close>

datatype constraint_kind = UNIQUE | CHECK | FOREIGN_KEY | NOT_NULL

datatype failure =
    Refused nat string
  | Constraint constraint_kind string
  | Trigger string
  | Raised string

text \<open>
  An operation maps the state to a failure or to a result and the next state. A failure
  carries no state: the transaction is rolled back.
\<close>

type_synonym ('s, 'a) op = "'s \<Rightarrow> failure + ('a \<times> 's)"

definition ret :: "'a \<Rightarrow> ('s, 'a) op" where
  "ret x s = Inr (x, s)"

definition throw :: "failure \<Rightarrow> ('s, 'a) op" where
  "throw e s = Inl e"

definition andThen :: "('s, 'a) op \<Rightarrow> ('a \<Rightarrow> ('s, 'b) op) \<Rightarrow> ('s, 'b) op" where
  "andThen m f s = (case m s of Inl e \<Rightarrow> Inl e | Inr (x, s') \<Rightarrow> f x s')"

definition gets :: "('s \<Rightarrow> 'a) \<Rightarrow> ('s, 'a) op" where
  "gets f s = Inr (f s, s)"

definition modify :: "('s \<Rightarrow> 's) \<Rightarrow> ('s, unit) op" where
  "modify f s = Inr ((), f s)"

text \<open>\<open>demand c e\<close> is the source's \<open>if (!c) throw e\<close>.\<close>

definition demand :: "bool \<Rightarrow> failure \<Rightarrow> ('s, unit) op" where
  "demand c e = (if c then ret () else throw e)"

definition whenever :: "bool \<Rightarrow> ('s, unit) op \<Rightarrow> ('s, unit) op" where
  "whenever c m = (if c then m else ret ())"

text \<open>A \<open>for ... of\<close> loop over rows already read.\<close>

fun each :: "('x \<Rightarrow> ('s, unit) op) \<Rightarrow> 'x list \<Rightarrow> ('s, unit) op" where
  "each f [] = ret ()"
| "each f (x # xs) = andThen (f x) (\<lambda>_. each f xs)"

text \<open>The same, collecting what each round returns.\<close>

fun gather :: "('x \<Rightarrow> ('s, 'a) op) \<Rightarrow> 'x list \<Rightarrow> ('s, 'a list) op" where
  "gather f [] = ret []"
| "gather f (x # xs) = andThen (f x) (\<lambda>y. andThen (gather f xs) (\<lambda>ys. ret (y # ys)))"

text \<open>A loop that returns the first result a round comes to.\<close>

fun first_of_each :: "('x \<Rightarrow> ('s, 'a option) op) \<Rightarrow> 'x list \<Rightarrow> ('s, 'a option) op" where
  "first_of_each f [] = ret None"
| "first_of_each f (x # xs) = andThen (f x) (\<lambda>y. case y of None \<Rightarrow> first_of_each f xs | Some r \<Rightarrow> ret (Some r))"

text \<open>\<open>try m catch h\<close> for a body that writes nothing before it can throw.\<close>

definition attempt :: "('s, 'a) op \<Rightarrow> (failure \<Rightarrow> ('s, 'a) op) \<Rightarrow> ('s, 'a) op" where
  "attempt m h s = (case m s of Inl e \<Rightarrow> h e s | Inr r \<Rightarrow> Inr r)"

lemma ret_Inr [simp]: "ret x s = Inr (y, s') \<longleftrightarrow> y = x \<and> s' = s"
  by (auto simp: ret_def)

lemma throw_Inr [simp]: "throw e s \<noteq> Inr r"
  by (simp add: throw_def)

lemma gets_Inr [simp]: "gets f s = Inr (y, s') \<longleftrightarrow> y = f s \<and> s' = s"
  by (auto simp: gets_def)

lemma modify_Inr [simp]: "modify f s = Inr (y, s') \<longleftrightarrow> s' = f s"
  by (auto simp: modify_def)

lemma demand_Inr [simp]: "demand c e s = Inr (y, s') \<longleftrightarrow> c \<and> s' = s"
  by (auto simp: demand_def)

lemma whenever_Inr:
  "whenever c m s = Inr (y, s') \<longleftrightarrow> (if c then m s = Inr (y, s') else s' = s)"
  by (auto simp: whenever_def)

lemma andThen_Inr:
  "andThen m f s = Inr (y, s'') \<longleftrightarrow> (\<exists>x s'. m s = Inr (x, s') \<and> f x s' = Inr (y, s''))"
  by (auto simp: andThen_def split: sum.splits)

lemma attempt_Inr:
  "attempt m h s = Inr r \<longleftrightarrow> m s = Inr r \<or> (\<exists>e. m s = Inl e \<and> h e s = Inr r)"
  by (auto simp: attempt_def split: sum.splits)

lemma found_Inr:
  "(case row of None \<Rightarrow> throw e | Some x \<Rightarrow> f x) s = Inr r \<longleftrightarrow> (\<exists>x. row = Some x \<and> f x s = Inr r)"
  by (cases row) auto

text \<open>\<open>insist\<close> runs the checks of a write in order and stops at the first that fails.\<close>

fun insist :: "(bool \<times> failure) list \<Rightarrow> failure option" where
  "insist [] = None"
| "insist ((ok, e) # cs) = (if ok then insist cs else Some e)"

lemma insist_None [simp]:
  "insist [] = None" "insist ((ok, e) # cs) = None \<longleftrightarrow> ok \<and> insist cs = None"
  by simp_all

declare insist.simps(2) [simp del]

text \<open>The rules that evaluate an operation on a known state.\<close>

lemmas op_eval =
  ret_def throw_def andThen_def gets_def modify_def demand_def whenever_def attempt_def insist.simps

text \<open>The rules that take a successful run of an operation apart.\<close>

lemmas op_elim = andThen_Inr whenever_Inr attempt_Inr


section \<open>Bounding an operation by a relation on states\<close>

definition relates :: "('s \<Rightarrow> 's \<Rightarrow> bool) \<Rightarrow> ('s, 'a) op \<Rightarrow> bool" where
  "relates R m \<longleftrightarrow> (\<forall>s x s'. m s = Inr (x, s') \<longrightarrow> R s s')"

lemma relatesI: "(\<And>s x s'. m s = Inr (x, s') \<Longrightarrow> R s s') \<Longrightarrow> relates R m"
  by (simp add: relates_def)

lemma relatesD: "relates R m \<Longrightarrow> m s = Inr (x, s') \<Longrightarrow> R s s'"
  by (auto simp: relates_def)

named_theorems bounded \<open>an operation is bounded by every evolution of a component\<close>

text \<open>
  An evolution is a reflexive and transitive relation between states. Every combinator
  preserves the bound, so only the primitive writes of a component have to be looked at.
\<close>

locale evolution =
  fixes R :: "'s \<Rightarrow> 's \<Rightarrow> bool"
  assumes evolution_refl: "R s s"
    and evolution_trans: "R s t \<Longrightarrow> R t u \<Longrightarrow> R s u"
begin

lemma relates_ret [bounded]: "relates R (ret x)"
  by (auto simp: relates_def evolution_refl)

lemma relates_throw [bounded]: "relates R (throw e)"
  by (auto simp: relates_def)

lemma relates_gets [bounded]: "relates R (gets f)"
  by (auto simp: relates_def evolution_refl)

lemma relates_demand [bounded]: "relates R (demand c e)"
  by (auto simp: relates_def evolution_refl)

lemma relates_andThen [bounded]:
  "relates R m \<Longrightarrow> (\<And>x. relates R (f x)) \<Longrightarrow> relates R (andThen m f)"
  unfolding relates_def andThen_Inr by (blast intro: evolution_trans)

lemma relates_whenever [bounded]: "relates R m \<Longrightarrow> relates R (whenever c m)"
  by (auto simp: relates_def whenever_Inr evolution_refl split: if_splits)

lemma relates_if [bounded]: "relates R m \<Longrightarrow> relates R n \<Longrightarrow> relates R (if c then m else n)"
  by simp

lemma relates_each [bounded]:
  assumes "\<And>x. relates R (f x)"
  shows "relates R (each f xs)"
  by (induction xs) (auto intro: relates_ret relates_andThen assms)

lemma relates_first_of_each [bounded]:
  assumes "\<And>x. relates R (f x)"
  shows "relates R (first_of_each f xs)"
proof (induction xs)
  case (Cons x xs)
  have "relates R (case y of None \<Rightarrow> first_of_each f xs | Some r \<Rightarrow> ret (Some r))" for y
    using Cons by (cases y) (simp_all add: relates_ret)
  then show ?case by (auto intro: relates_andThen assms)
qed (simp add: relates_ret)

lemma relates_gather [bounded]:
  assumes "\<And>x. relates R (f x)"
  shows "relates R (gather f xs)"
  by (induction xs) (auto intro: relates_ret relates_andThen assms)

lemma relates_attempt [bounded]:
  "relates R m \<Longrightarrow> (\<And>e. relates R (h e)) \<Longrightarrow> relates R (attempt m h)"
  unfolding relates_def attempt_Inr by blast

lemma relates_option [bounded]:
  "relates R m \<Longrightarrow> (\<And>x. relates R (f x)) \<Longrightarrow> relates R (case o' of None \<Rightarrow> m | Some x \<Rightarrow> f x)"
  by (cases o') auto

lemma relates_prod [bounded]: "(\<And>a b. relates R (f a b)) \<Longrightarrow> relates R (case p of (a, b) \<Rightarrow> f a b)"
  by (cases p) auto

lemma relates_sum [bounded]:
  "(\<And>x. relates R (f x)) \<Longrightarrow> (\<And>y. relates R (g y)) \<Longrightarrow> relates R (case v of Inl x \<Rightarrow> f x | Inr y \<Rightarrow> g y)"
  by (cases v) auto

end


section \<open>JSON\<close>

text \<open>Values of jsonb columns and event payloads; numbers are the integers the code stores.\<close>

datatype json =
    JNull
  | JBool bool
  | JNum int
  | JStr string
  | JArr "json list"
  | JObj "(string \<times> json) list"


section \<open>Tables\<close>

text \<open>\<open>SELECT ... LIMIT 1\<close> in insertion order, and \<open>UPDATE ... WHERE\<close>.\<close>

definition update_where :: "('r \<Rightarrow> bool) \<Rightarrow> ('r \<Rightarrow> 'r) \<Rightarrow> 'r list \<Rightarrow> 'r list" where
  "update_where P f rows = map (\<lambda>r. if P r then f r else r) rows"

lemma find_Some_set: "find P xs = Some x \<Longrightarrow> x \<in> set xs \<and> P x"
  by (induction xs) (auto split: if_splits)

lemma find_map_stable:
  assumes "\<And>x. P (f x) = P x"
  shows "find P (map f xs) = map_option f (find P xs)"
  using assms by (induction xs) auto

lemma length_update_where [simp]: "length (update_where P f xs) = length xs"
  by (simp add: update_where_def)

lemma set_update_where: "set (update_where P f xs) = (\<lambda>r. if P r then f r else r) ` set xs"
  by (simp add: update_where_def)

lemma map_update_where:
  assumes "\<And>r. P r \<Longrightarrow> k (f r) = k r"
  shows "map k (update_where P f xs) = map k xs"
  using assms by (simp add: update_where_def)

lemma update_where_none: "(\<And>r. r \<in> set xs \<Longrightarrow> \<not> P r) \<Longrightarrow> update_where P f xs = xs"
  by (simp add: update_where_def map_idI)

lemma filter_update_where_other:
  assumes "\<And>r. r \<in> set xs \<Longrightarrow> P r \<Longrightarrow> \<not> Q r \<and> \<not> Q (f r)"
  shows "filter Q (update_where P f xs) = filter Q xs"
  using assms by (induction xs) (auto simp: update_where_def)

lemma find_filter: "find P xs = (case filter P xs of [] \<Rightarrow> None | x # _ \<Rightarrow> Some x)"
  by (induction xs) auto

text \<open>A table that only grows, each earlier row staying at its place and related to what it was.\<close>

definition grows :: "('r \<Rightarrow> 'r \<Rightarrow> bool) \<Rightarrow> 'r list \<Rightarrow> 'r list \<Rightarrow> bool" where
  "grows E xs ys \<longleftrightarrow> length xs \<le> length ys \<and> (\<forall>i < length xs. E (xs ! i) (ys ! i))"

lemma grows_same: "(\<And>x. E x x) \<Longrightarrow> grows E xs xs"
  by (simp add: grows_def)

lemma grows_trans:
  assumes "grows E xs ys" "grows E ys zs" and "\<And>x y z. E x y \<Longrightarrow> E y z \<Longrightarrow> E x z"
  shows "grows E xs zs"
  using assms unfolding grows_def by (meson order.strict_trans2 order.trans)

lemma grows_append: "(\<And>x. E x x) \<Longrightarrow> grows E xs (xs @ ys)"
  by (simp add: grows_def nth_append)

lemma grows_update_where:
  "(\<And>x. E x x) \<Longrightarrow> (\<And>r. r \<in> set xs \<Longrightarrow> P r \<Longrightarrow> E r (f r)) \<Longrightarrow> grows E xs (update_where P f xs)"
  by (auto simp: grows_def update_where_def)

lemma grows_in: "grows E xs ys \<Longrightarrow> x \<in> set xs \<Longrightarrow> \<exists>y \<in> set ys. E x y"
  unfolding grows_def in_set_conv_nth by (metis nth_mem order.strict_trans2)

lemma grows_keys:
  assumes "grows E xs ys" and "\<And>x y. E x y \<Longrightarrow> k y = k x"
  shows "k ` set xs \<subseteq> k ` set ys"
proof
  fix i
  assume "i \<in> k ` set xs"
  then obtain x where "x \<in> set xs" "i = k x" by blast
  with grows_in [OF assms(1)] assms(2) show "i \<in> k ` set ys" by (metis image_eqI)
qed

lemma unique_key:
  "distinct (map k xs) \<Longrightarrow> x \<in> set xs \<Longrightarrow> y \<in> set xs \<Longrightarrow> k x = k y \<Longrightarrow> x = y"
  by (auto simp: distinct_map inj_on_def)

text \<open>\<open>COALESCE(MAX(sequence),0)+1\<close>.\<close>

definition next_sequence :: "nat list \<Rightarrow> nat" where
  "next_sequence ns = foldr max ns 0 + 1"

lemma foldr_max_upt: "foldr max [1..<Suc n] (0::nat) = n"
proof (induction n)
  case 0
  then show ?case by simp
next
  case (Suc n)
  have fold: "foldr max xs a = max (foldr max xs 0) (a::nat)" for xs a
    by (induction xs) auto
  have "foldr max [1..<Suc (Suc n)] 0 = foldr max [1..<Suc n] (Suc n)"
    by simp
  also have "\<dots> = max (foldr max [1..<Suc n] 0) (Suc n)"
    by (rule fold)
  finally show ?case using Suc by simp
qed

lemma next_sequence_upt [simp]: "next_sequence [1..<Suc n] = Suc n"
  unfolding next_sequence_def foldr_max_upt by simp

end
