(* ===== verification/RunLifecycle.thy ===== *)
theory RunLifecycle
  imports Prelude
begin

text \<open>
  The deterministic run and step state machines (\<open>packages/contracts/src/run-lifecycle.ts\<close>)
  and the statuses and event types they range over
  (\<open>packages/contracts/src/execution.ts\<close>).
\<close>

section \<open>Statuses and events\<close>

datatype run_status = QUEUED | RUNNING | WAITING_FOR_APPROVAL | COMPLETED | FAILED | CANCELLED

datatype step_status =
    StepPENDING | StepRUNNING | StepWAITING_FOR_APPROVAL
  | StepCOMPLETED | StepFAILED | StepSKIPPED | StepCANCELLED

datatype step_kind = PLAN | MODEL | TOOL | ACTION | MESSAGE

datatype runtime_event_type =
    RunStarted | RunPaused | RunResumed | RunCompleted | RunFailed | RunCancelled
  | StepStarted | StepCompleted | StepFailed
  | AgentMessage | AgentReasoningStarted | ModelRequested | ModelResponded
  | ToolRequested | ToolStarted | ToolCompleted | ToolFailed | ArtifactCreated

definition terminalRunStatuses :: "run_status list" where
  "terminalRunStatuses = [COMPLETED, FAILED, CANCELLED]"

definition activeRunStatuses :: "run_status list" where
  "activeRunStatuses = [QUEUED, RUNNING, WAITING_FOR_APPROVAL]"

fun runTransitions :: "run_status \<Rightarrow> run_status list" where
  "runTransitions QUEUED = [RUNNING, CANCELLED]"
| "runTransitions RUNNING = [WAITING_FOR_APPROVAL, COMPLETED, FAILED, CANCELLED]"
| "runTransitions WAITING_FOR_APPROVAL = [QUEUED, FAILED, CANCELLED]"
| "runTransitions COMPLETED = []"
| "runTransitions FAILED = []"
| "runTransitions CANCELLED = []"

definition terminalStepStatuses :: "step_status list" where
  "terminalStepStatuses = [StepCOMPLETED, StepFAILED, StepSKIPPED, StepCANCELLED]"

fun stepTransitions :: "step_status \<Rightarrow> step_status list" where
  "stepTransitions StepPENDING =
     [StepRUNNING, StepWAITING_FOR_APPROVAL, StepSKIPPED, StepCANCELLED]"
| "stepTransitions StepRUNNING =
     [StepWAITING_FOR_APPROVAL, StepCOMPLETED, StepFAILED, StepCANCELLED]"
| "stepTransitions StepWAITING_FOR_APPROVAL = [StepPENDING, StepFAILED, StepCANCELLED]"
| "stepTransitions StepCOMPLETED = []"
| "stepTransitions StepFAILED = []"
| "stepTransitions StepSKIPPED = []"
| "stepTransitions StepCANCELLED = []"

definition APPROVAL_GRANTED :: string where
  "APPROVAL_GRANTED = ''APPROVAL_GRANTED''"

definition APPROVAL_REJECTED :: string where
  "APPROVAL_REJECTED = ''APPROVAL_REJECTED''"

definition isTerminalRun :: "run_status \<Rightarrow> bool" where
  "isTerminalRun st \<longleftrightarrow> st \<in> set terminalRunStatuses"

definition canTransitionRun :: "run_status \<Rightarrow> run_status \<Rightarrow> bool" where
  "canTransitionRun from to \<longleftrightarrow> to \<in> set (runTransitions from)"

definition canTransitionStep :: "step_status \<Rightarrow> step_status \<Rightarrow> bool" where
  "canTransitionStep from to \<longleftrightarrow> to \<in> set (stepTransitions from)"

datatype event_decision = Accepted run_status | NotAccepted string

definition move :: "run_status \<Rightarrow> run_status \<Rightarrow> bool \<Rightarrow> event_decision" where
  "move from to cond =
     (if cond \<and> canTransitionRun from to then Accepted to
      else NotAccepted ''ILLEGAL_RUN_TRANSITION'')"

definition decideRuntimeEvent ::
  "run_status \<Rightarrow> string option \<Rightarrow> runtime_event_type \<Rightarrow> event_decision" where
  "decideRuntimeEvent status reason type =
     (if isTerminalRun status then NotAccepted ''RUN_TERMINAL''
      else case type of
        RunStarted \<Rightarrow> move status RUNNING (status = QUEUED \<and> reason = None)
      | RunResumed \<Rightarrow> move status RUNNING (status = QUEUED \<and> reason = Some APPROVAL_GRANTED)
      | RunPaused \<Rightarrow> move status WAITING_FOR_APPROVAL (status = RUNNING)
      | RunCompleted \<Rightarrow> move status COMPLETED (status = RUNNING)
      | RunFailed \<Rightarrow> move status FAILED True
      | RunCancelled \<Rightarrow> move status CANCELLED True
      | _ \<Rightarrow> (if status = RUNNING then Accepted RUNNING else NotAccepted ''RUN_NOT_RUNNING''))"

section \<open>Correctness of the state machines\<close>

lemma isTerminalRun_simps [simp]:
  "isTerminalRun COMPLETED" "isTerminalRun FAILED" "isTerminalRun CANCELLED"
  "\<not> isTerminalRun QUEUED" "\<not> isTerminalRun RUNNING" "\<not> isTerminalRun WAITING_FOR_APPROVAL"
  by (simp_all add: isTerminalRun_def terminalRunStatuses_def)

lemma terminal_iff_no_transition: "isTerminalRun st \<longleftrightarrow> runTransitions st = []"
  by (cases st) auto

lemma active_or_terminal: "st \<in> set activeRunStatuses \<longleftrightarrow> \<not> isTerminalRun st"
  by (cases st) (auto simp: activeRunStatuses_def)

lemma terminal_step_iff_no_transition:
  "st \<in> set terminalStepStatuses \<longleftrightarrow> stepTransitions st = []"
  by (cases st) (auto simp: terminalStepStatuses_def)

lemma canTransitionRun_terminal [simp]: "isTerminalRun st \<Longrightarrow> \<not> canTransitionRun st to"
  by (cases st) (auto simp: canTransitionRun_def)

lemma canTransitionRun_irrefl [simp]: "\<not> canTransitionRun st st"
  by (cases st) (auto simp: canTransitionRun_def)

lemma decide_accepted_legal:
  "decideRuntimeEvent st reason type = Accepted next \<Longrightarrow> next = st \<or> canTransitionRun st next"
  by (cases type) (auto simp: decideRuntimeEvent_def move_def split: if_splits)

lemma decide_accepted_active:
  "decideRuntimeEvent st reason type = Accepted next \<Longrightarrow> \<not> isTerminalRun st"
  by (auto simp: decideRuntimeEvent_def)

text \<open>The step relation a runtime can drive a run through.\<close>

inductive runtime_moves :: "run_status \<times> string option \<Rightarrow> run_status \<Rightarrow> bool" where
  runtime_event: "decideRuntimeEvent st reason type = Accepted next \<Longrightarrow>
    runtime_moves (st, reason) next"

inductive_cases runtime_movesE [elim]: "runtime_moves (st, reason) next"

inductive_simps runtime_moves_iff: "runtime_moves (st, reason) next"

lemma runtime_moves_waiting:
  "runtime_moves (WAITING_FOR_APPROVAL, reason) next \<longleftrightarrow> next \<in> {FAILED, CANCELLED}"
proof
  assume "runtime_moves (WAITING_FOR_APPROVAL, reason) next"
  then obtain type where "decideRuntimeEvent WAITING_FOR_APPROVAL reason type = Accepted next"
    by (rule runtime_movesE)
  then show "next \<in> {FAILED, CANCELLED}"
    by (cases type) (auto simp: decideRuntimeEvent_def move_def split: if_splits)
next
  assume "next \<in> {FAILED, CANCELLED}"
  then have "decideRuntimeEvent WAITING_FOR_APPROVAL reason
      (if next = FAILED then RunFailed else RunCancelled) = Accepted next"
    by (auto simp: decideRuntimeEvent_def move_def canTransitionRun_def)
  then show "runtime_moves (WAITING_FOR_APPROVAL, reason) next"
    by (rule runtime_event)
qed

lemma runtime_moves_queued:
  "runtime_moves (QUEUED, reason) RUNNING \<longleftrightarrow> reason = None \<or> reason = Some APPROVAL_GRANTED"
proof
  assume "runtime_moves (QUEUED, reason) RUNNING"
  then obtain type where "decideRuntimeEvent QUEUED reason type = Accepted RUNNING"
    by (rule runtime_movesE)
  then show "reason = None \<or> reason = Some APPROVAL_GRANTED"
    by (cases type) (auto simp: decideRuntimeEvent_def move_def split: if_splits)
next
  assume "reason = None \<or> reason = Some APPROVAL_GRANTED"
  then have "decideRuntimeEvent QUEUED reason (if reason = None then RunStarted else RunResumed) =
      Accepted RUNNING"
    by (auto simp: decideRuntimeEvent_def move_def canTransitionRun_def APPROVAL_GRANTED_def)
  then show "runtime_moves (QUEUED, reason) RUNNING"
    by (rule runtime_event)
qed


text \<open>
  A runtime event moves a run legally or not at all: an accepted event finds the run
  active and leaves its status or takes a transition of the table; a run waiting for approval
  it can only end, and a queued run it can only start, afresh or after a granted approval.
\<close>

theorem runtime_events_move_legally:
  assumes "decideRuntimeEvent st reason type = Accepted next'"
  shows "\<not> isTerminalRun st \<and> (next' = st \<or> canTransitionRun st next') \<and>
    (st = WAITING_FOR_APPROVAL \<longrightarrow> next' \<in> {FAILED, CANCELLED}) \<and>
    (st = QUEUED \<longrightarrow> next' = CANCELLED \<or>
       next' = RUNNING \<and> (reason = None \<or> reason = Some APPROVAL_GRANTED))"
proof -
  have moves: "runtime_moves (st, reason) next'"
    using assms by (rule runtime_event)
  have queued: "next' = CANCELLED \<or> next' = RUNNING" if "st = QUEUED"
    using assms that
    by (cases type) (auto simp: decideRuntimeEvent_def move_def canTransitionRun_def split: if_splits)
  show ?thesis
    using assms moves queued runtime_moves_waiting runtime_moves_queued
    by (auto dest: decide_accepted_active decide_accepted_legal)
qed

lemma runtime_events_move_legally_witness:
  "decideRuntimeEvent QUEUED (Some APPROVAL_GRANTED) RunResumed = Accepted RUNNING \<and>
   canTransitionRun QUEUED RUNNING"
proof -
  have "decideRuntimeEvent QUEUED (Some APPROVAL_GRANTED) RunResumed = Accepted RUNNING"
    by (simp add: decideRuntimeEvent_def move_def canTransitionRun_def)
  with runtime_events_move_legally [OF this] show ?thesis by auto
qed

end
