(* ===== verification/PolicyEngine.thy ===== *)
theory PolicyEngine
  imports Prelude
begin

text \<open>
  The deterministic action policy (\<open>packages/policy-engine/src/index.ts\<close>): the platform's
  decision per governed action and the contextual Policy v2 evaluation, in which the signed
  manifest, the resource scope and the organization's override can only keep or tighten the
  platform decision.
\<close>

section \<open>Decisions\<close>

datatype outcome = ALLOW | REQUIRE_APPROVAL | DENY

datatype risk = LOW | MEDIUM | HIGH | CRITICAL

record policy_decision =
  pd_outcome :: outcome
  pd_risk :: risk
  pd_reason :: string

definition decisions :: "(string \<times> policy_decision) list" where
  "decisions =
   [(''repository.read'', \<lparr>pd_outcome = ALLOW, pd_risk = LOW,
      pd_reason = ''Read-only repository context is allowed for assigned projects.''\<rparr>),
    (''repository.write'', \<lparr>pd_outcome = ALLOW, pd_risk = LOW,
      pd_reason = ''Writing inside the agent'' @ [CHR 39] @
        ''s private workspace changes nothing outside it.''\<rparr>),
    (''workspace.dependencies.install'', \<lparr>pd_outcome = ALLOW, pd_risk = MEDIUM,
      pd_reason = ''Locked dependencies are installed in the sandbox from the configured '' @
        ''registry only, with install scripts disabled.''\<rparr>),
    (''workspace.command'', \<lparr>pd_outcome = ALLOW, pd_risk = MEDIUM,
      pd_reason = ''Allow-listed project scripts run inside the sandboxed workspace without '' @
        ''network access.''\<rparr>),
    (''jira.read'', \<lparr>pd_outcome = ALLOW, pd_risk = LOW,
      pd_reason = ''Read-only work-item context is allowed for assigned projects.''\<rparr>),
    (''qa.plan'', \<lparr>pd_outcome = ALLOW, pd_risk = LOW,
      pd_reason = ''Generating a test plan does not mutate an external system.''\<rparr>),
    (''qa.execute_playwright'', \<lparr>pd_outcome = REQUIRE_APPROVAL, pd_risk = MEDIUM,
      pd_reason = ''Browser execution can affect a target environment and must be approved.''\<rparr>),
    (''jira.issue.create'', \<lparr>pd_outcome = REQUIRE_APPROVAL, pd_risk = MEDIUM,
      pd_reason = ''Creating a Jira issue is an external write.''\<rparr>),
    (''repository.pull_request.create'', \<lparr>pd_outcome = REQUIRE_APPROVAL, pd_risk = HIGH,
      pd_reason = ''Publishing repository changes requires human approval.''\<rparr>),
    (''production.deploy'', \<lparr>pd_outcome = DENY, pd_risk = CRITICAL,
      pd_reason = ''Employee agents cannot deploy to production.''\<rparr>)]"

definition evaluatePolicy :: "string \<Rightarrow> policy_decision" where
  "evaluatePolicy action =
     (case map_of decisions action of
        None \<Rightarrow> \<lparr>pd_outcome = DENY, pd_risk = CRITICAL, pd_reason = ''Unknown actions are denied.''\<rparr>
      | Some d \<Rightarrow> d)"

definition isKnownAction :: "string \<Rightarrow> bool" where
  "isKnownAction action \<longleftrightarrow> map_of decisions action \<noteq> None"

definition knownActions :: "string list" where
  "knownActions = map fst decisions"

definition POLICY_ID :: string where
  "POLICY_ID = ''agents-foundry.foundation''"

definition POLICY_VERSION :: string where
  "POLICY_VERSION = ''foundation-v2''"

fun rank :: "outcome \<Rightarrow> nat" where
  "rank ALLOW = 0"
| "rank REQUIRE_APPROVAL = 1"
| "rank DENY = 2"

fun approvalTtlSeconds :: "risk \<Rightarrow> int" where
  "approvalTtlSeconds LOW = 24 * 3600"
| "approvalTtlSeconds MEDIUM = 24 * 3600"
| "approvalTtlSeconds HIGH = 8 * 3600"
| "approvalTtlSeconds CRITICAL = 3600"

text \<open>The order of outcomes by \<open>rank\<close>, as an instance of the library's linear orders.\<close>

lemma rank_inj: "rank a = rank b \<longleftrightarrow> a = b"
  by (cases a; cases b) auto

instantiation outcome :: linorder
begin

definition less_eq_outcome :: "outcome \<Rightarrow> outcome \<Rightarrow> bool" where
  "less_eq_outcome a b \<longleftrightarrow> rank a \<le> rank b"

definition less_outcome :: "outcome \<Rightarrow> outcome \<Rightarrow> bool" where
  "less_outcome a b \<longleftrightarrow> rank a < rank b"

instance
  by standard (auto simp: less_eq_outcome_def less_outcome_def rank_inj)

end

section \<open>Policy v2\<close>

datatype policy_condition = APPROVAL_TTL_SECONDS int | BIND_TO_INPUT_DIGEST

record scoped_resource =
  sr_type :: string
  sr_id :: string
  sr_inScope :: bool

record policy_context =
  pc_action :: string
  pc_organizationId :: string
  pc_agentId :: string
  pc_employeeId :: string
  pc_manifestOutcome :: "outcome option"
  pc_organizationOutcome :: "outcome option"
  pc_resource :: "scoped_resource option"

record action_policy_decision = policy_decision +
  pd_policyId :: string
  pd_policyVersion :: string
  pd_conditions :: "policy_condition list"

definition decide :: "outcome \<Rightarrow> risk \<Rightarrow> string \<Rightarrow> action_policy_decision" where
  "decide oc rk reason =
     \<lparr>pd_outcome = oc, pd_risk = rk, pd_reason = reason,
      pd_policyId = POLICY_ID, pd_policyVersion = POLICY_VERSION,
      pd_conditions =
        (if oc = REQUIRE_APPROVAL
         then [APPROVAL_TTL_SECONDS (approvalTtlSeconds rk), BIND_TO_INPUT_DIGEST]
         else [])\<rparr>"

definition evaluateActionPolicy :: "policy_context \<Rightarrow> action_policy_decision" where
  "evaluateActionPolicy ctx =
     (let base = evaluatePolicy (pc_action ctx) in
      if pd_outcome base = DENY then decide DENY (pd_risk base) (pd_reason base)
      else case pc_manifestOutcome ctx of
        None \<Rightarrow> decide DENY CRITICAL ''The agent manifest does not grant this action.''
      | Some manifest \<Rightarrow>
          if (case pc_resource ctx of None \<Rightarrow> False | Some r \<Rightarrow> \<not> sr_inScope r)
          then decide DENY (pd_risk base) ''The target resource is outside the configured scope.''
          else
            let (oc, reason) =
                  (if rank manifest > rank (pd_outcome base)
                   then (manifest, ''Restricted by the agent manifest.'')
                   else (pd_outcome base, pd_reason base));
                (oc, reason) =
                  (case pc_organizationOutcome ctx of
                     None \<Rightarrow> (oc, reason)
                   | Some org \<Rightarrow>
                       if rank org > rank oc then (org, ''Restricted by organization policy.'')
                       else (oc, reason))
            in decide oc (pd_risk base) reason)"

section \<open>Correctness\<close>

lemma decide_simps [simp]:
  "pd_outcome (decide oc rk r) = oc"
  "pd_risk (decide oc rk r) = rk"
  "pd_reason (decide oc rk r) = r"
  "pd_policyId (decide oc rk r) = POLICY_ID"
  "pd_policyVersion (decide oc rk r) = POLICY_VERSION"
  by (simp_all add: decide_def)

lemma decide_conditions:
  "pd_conditions (decide oc rk r) =
     (if oc = REQUIRE_APPROVAL
      then [APPROVAL_TTL_SECONDS (approvalTtlSeconds rk), BIND_TO_INPUT_DIGEST] else [])"
  by (simp add: decide_def)

lemma evaluatePolicy_unknown:
  "\<not> isKnownAction a \<Longrightarrow> pd_outcome (evaluatePolicy a) = DENY"
  by (simp add: evaluatePolicy_def isKnownAction_def split: option.splits)

lemma outcome_max_rank: "max a (b::outcome) = (if rank b > rank a then b else a)"
  by (auto simp: max_def less_eq_outcome_def rank_inj dest: antisym)

lemma outcome_top [simp]: "(a::outcome) \<le> DENY" "max DENY a = DENY" "max a DENY = DENY"
  by (cases a; simp add: less_eq_outcome_def max_def)+

lemma outcome_bot [simp]: "ALLOW \<le> (a::outcome)" "max ALLOW a = a" "max a ALLOW = a"
  by (cases a; simp add: less_eq_outcome_def max_def)+

text \<open>
  The specification of the evaluation: the strictest of the platform decision, the
  manifest's pinned outcome, the organization's override and the resource scope. A missing
  grant counts as \<open>DENY\<close>, a missing override as \<open>ALLOW\<close>.
\<close>

definition strictest :: "policy_context \<Rightarrow> outcome" where
  "strictest ctx =
     Max {pd_outcome (evaluatePolicy (pc_action ctx)),
          (case pc_manifestOutcome ctx of None \<Rightarrow> DENY | Some oc \<Rightarrow> oc),
          (case pc_organizationOutcome ctx of None \<Rightarrow> ALLOW | Some oc \<Rightarrow> oc),
          (case pc_resource ctx of None \<Rightarrow> ALLOW | Some r \<Rightarrow> if sr_inScope r then ALLOW else DENY)}"

lemma tighten: "(if rank b > rank a then b else a) = max a b"
  by (simp add: outcome_max_rank)

lemma strictest_max:
  "strictest ctx =
     max (max (max (pd_outcome (evaluatePolicy (pc_action ctx)))
                   (case pc_manifestOutcome ctx of None \<Rightarrow> DENY | Some oc \<Rightarrow> oc))
              (case pc_organizationOutcome ctx of None \<Rightarrow> ALLOW | Some oc \<Rightarrow> oc))
         (case pc_resource ctx of None \<Rightarrow> ALLOW | Some r \<Rightarrow> if sr_inScope r then ALLOW else DENY)"
  by (simp add: strictest_def ac_simps)

lemma fst_if_pair: "fst (if c then (a, x) else (b, y)) = (if c then a else b)"
  by simp

lemma evaluateActionPolicy_outcome:
  "pd_outcome (evaluateActionPolicy ctx) = strictest ctx"
proof (cases "pc_manifestOutcome ctx")
  case None
  then show ?thesis by (simp add: evaluateActionPolicy_def strictest_max Let_def)
next
  case (Some m)
  then show ?thesis
    by (cases "pc_organizationOutcome ctx"; cases "pc_resource ctx")
       (simp_all add: evaluateActionPolicy_def strictest_max Let_def case_prod_beta' fst_if_pair
          tighten)
qed

text \<open>
  C39. The Policy v2 evaluation computes exactly the strictest of its inputs: the platform
  decision, the manifest's outcome (absent means \<open>DENY\<close>), the organization's override
  (absent means no restriction) and the resource scope. So no input can loosen another.
\<close>

theorem policy_is_strictest:
  "pd_outcome (evaluateActionPolicy ctx) = strictest ctx"
  by (rule evaluateActionPolicy_outcome)

end
