(* ===== verification/RuntimeProtocol.thy ===== *)
theory RuntimeProtocol
  imports RunLifecycle PolicyEngine
begin

text \<open>
  The messages of \<open>agents-foundry/runtime/v1\<close> that enter the control plane: event payloads
  (\<open>runtime/v1/protocol.ts\<close>), the correlation chain and task of a run (\<open>execution.ts\<close>), what
  the control plane reads of a signed manifest (\<open>manifest.ts\<close>) and the parsing of an event
  (\<open>runtime/v1/schemas.ts\<close>). The zod schemas an event is validated with are parameters.
\<close>

section \<open>Records\<close>

record correlation =
  co_organizationId :: string
  co_employeeId :: string
  co_agentId :: string
  co_threadId :: string
  co_runId :: string
  co_stepId :: "string option"
  co_toolCallId :: "string option"
  co_actionId :: "string option"

record work_item =
  wi_system :: string
  wi_key :: string
  wi_url :: "string option"

record task_spec =
  ts_objective :: string
  ts_workflow :: "string option"
  ts_workItem :: "work_item option"
  ts_inputs :: "(string \<times> json) list"

definition work_item_json :: "work_item \<Rightarrow> json" where
  "work_item_json w =
     JObj ([(''system'', JStr (wi_system w)), (''key'', JStr (wi_key w))] @
       (case wi_url w of None \<Rightarrow> [] | Some u \<Rightarrow> [(''url'', JStr u)]))"

definition task_json :: "task_spec \<Rightarrow> json" where
  "task_json t =
     JObj ([(''objective'', JStr (ts_objective t))] @
       (case ts_workflow t of None \<Rightarrow> [] | Some w \<Rightarrow> [(''workflow'', JStr w)]) @
       (case ts_workItem t of None \<Rightarrow> [] | Some w \<Rightarrow> [(''workItem'', work_item_json w)]) @
       [(''inputs'', JObj (ts_inputs t))])"

datatype user_role = EMPLOYEE | ADMIN

record actor =
  ac_id :: string
  ac_organizationId :: string
  ac_role :: user_role

text \<open>
  A signed manifest of either version with the fields the control plane reads; \<open>mf_payload\<close> is
  the whole payload, whose digest binds checkpoints.
\<close>

datatype manifest_version = V1 | V2

record manifest_subject =
  mj_apiVersion :: manifest_version
  mj_manifestId :: string
  mj_agentId :: string
  mj_organizationId :: string
  mj_employeeId :: string

record signed_manifest =
  mf_subject :: manifest_subject
  mf_keyId :: string
  mf_runtimeProfile :: string
  mf_workflows :: "string list"
  mf_capabilities :: "(string \<times> outcome) list"
  mf_modelProvider :: string
  mf_credentialMode :: string
  mf_payload :: json

definition manifestSubject :: "'z signed_manifest_scheme \<Rightarrow> manifest_subject" where
  "manifestSubject m = mf_subject m"

record manifest_reference =
  mr_manifestId :: string
  mr_apiVersion :: manifest_version
  mr_keyId :: string

section \<open>Event payloads\<close>

record error_info =
  er_code :: string
  er_message :: string

record artifact_registration =
  ar_id :: string
  ar_type :: string
  ar_mediaType :: string
  ar_name :: string
  ar_storageReference :: string
  ar_checksum :: string
  ar_sizeBytes :: nat
  ar_retentionPolicy :: string

datatype runtime_payload =
    PRunStarted (pl_sessionId: string) (pl_kernel: string)
  | PRunPaused (pl_pauseReason: string) (pl_actionId: string)
  | PRunResumed (pl_approvalId: string)
  | PRunCompleted (pl_summary: string) (pl_artifactIds: "string list")
  | PRunFailed (pl_error: error_info) (pl_retryable: bool)
  | PRunCancelled (pl_cancelReason: string)
  | PStepStarted (pl_kind: step_kind) (pl_title: string)
  | PStepCompleted (pl_outputSummary: "string option")
  | PStepFailed error_info
  | PAgentMessage string
  | PAgentReasoningStarted
  | PModelRequested string string
  | PModelResponded string nat nat nat string
  | PToolRequested string string string string
  | PToolStarted string
  | PToolCompleted string string nat "string list"
  | PToolFailed string error_info nat
  | PArtifactCreated artifact_registration

fun payload_type :: "runtime_payload \<Rightarrow> runtime_event_type" where
  "payload_type (PRunStarted _ _) = RunStarted"
| "payload_type (PRunPaused _ _) = RunPaused"
| "payload_type (PRunResumed _) = RunResumed"
| "payload_type (PRunCompleted _ _) = RunCompleted"
| "payload_type (PRunFailed _ _) = RunFailed"
| "payload_type (PRunCancelled _) = RunCancelled"
| "payload_type (PStepStarted _ _) = StepStarted"
| "payload_type (PStepCompleted _) = StepCompleted"
| "payload_type (PStepFailed _) = StepFailed"
| "payload_type (PAgentMessage _) = AgentMessage"
| "payload_type PAgentReasoningStarted = AgentReasoningStarted"
| "payload_type (PModelRequested _ _) = ModelRequested"
| "payload_type (PModelResponded _ _ _ _ _) = ModelResponded"
| "payload_type (PToolRequested _ _ _ _) = ToolRequested"
| "payload_type (PToolStarted _) = ToolStarted"
| "payload_type (PToolCompleted _ _ _ _) = ToolCompleted"
| "payload_type (PToolFailed _ _ _) = ToolFailed"
| "payload_type (PArtifactCreated _) = ArtifactCreated"

text \<open>The JSON of a payload, in the key order of the interface.\<close>

definition error_json :: "error_info \<Rightarrow> json" where
  "error_json e = JObj [(''code'', JStr (er_code e)), (''message'', JStr (er_message e))]"

fun kind_name :: "step_kind \<Rightarrow> string" where
  "kind_name PLAN = ''PLAN''"
| "kind_name MODEL = ''MODEL''"
| "kind_name TOOL = ''TOOL''"
| "kind_name ACTION = ''ACTION''"
| "kind_name MESSAGE = ''MESSAGE''"

definition ids_json :: "string list \<Rightarrow> json" where
  "ids_json xs = JArr (map JStr xs)"

definition artifact_json :: "artifact_registration \<Rightarrow> json" where
  "artifact_json a = JObj
     [(''id'', JStr (ar_id a)), (''type'', JStr (ar_type a)), (''mediaType'', JStr (ar_mediaType a)),
      (''name'', JStr (ar_name a)), (''storageReference'', JStr (ar_storageReference a)),
      (''checksum'', JObj [(''algorithm'', JStr ''sha256''), (''value'', JStr (ar_checksum a))]),
      (''sizeBytes'', JNum (int (ar_sizeBytes a))),
      (''retentionPolicy'', JStr (ar_retentionPolicy a))]"

fun payload_json :: "runtime_payload \<Rightarrow> json" where
  "payload_json (PRunStarted sid k) =
     JObj [(''runtimeSessionId'', JStr sid), (''kernel'', JStr k)]"
| "payload_json (PRunPaused r a) = JObj [(''reason'', JStr r), (''actionId'', JStr a)]"
| "payload_json (PRunResumed a) = JObj [(''approvalId'', JStr a)]"
| "payload_json (PRunCompleted m ids) =
     JObj [(''summary'', JStr m), (''artifactIds'', ids_json ids)]"
| "payload_json (PRunFailed e r) = JObj [(''error'', error_json e), (''retryable'', JBool r)]"
| "payload_json (PRunCancelled r) = JObj [(''reason'', JStr r)]"
| "payload_json (PStepStarted k t) =
     JObj [(''kind'', JStr (kind_name k)), (''title'', JStr t)]"
| "payload_json (PStepCompleted m) =
     JObj (case m of None \<Rightarrow> [] | Some x \<Rightarrow> [(''outputSummary'', JStr x)])"
| "payload_json (PStepFailed e) = JObj [(''error'', error_json e)]"
| "payload_json (PAgentMessage c) = JObj [(''content'', JStr c)]"
| "payload_json PAgentReasoningStarted = JObj []"
| "payload_json (PModelRequested p c) =
     JObj [(''modelProfile'', JStr p), (''capability'', JStr c)]"
| "payload_json (PModelResponded p i o' l f) = JObj
     [(''modelProfile'', JStr p), (''inputTokens'', JNum (int i)), (''outputTokens'', JNum (int o')),
      (''latencyMs'', JNum (int l)), (''finishReason'', JStr f)]"
| "payload_json (PToolRequested c t v d) = JObj
     [(''toolCallId'', JStr c), (''toolId'', JStr t), (''toolVersion'', JStr v), (''inputDigest'', JStr d)]"
| "payload_json (PToolStarted c) = JObj [(''toolCallId'', JStr c)]"
| "payload_json (PToolCompleted c d n ids) = JObj
     [(''toolCallId'', JStr c), (''outputDigest'', JStr d), (''durationMs'', JNum (int n)),
      (''artifactIds'', ids_json ids)]"
| "payload_json (PToolFailed c e n) = JObj
     [(''toolCallId'', JStr c), (''error'', error_json e), (''durationMs'', JNum (int n))]"
| "payload_json (PArtifactCreated a) = JObj [(''artifact'', artifact_json a)]"

section \<open>Event types by name\<close>

datatype control_event =
    RunCreated | UserMessage | ApprovalRequested | ApprovalApproved | ApprovalRejected
  | ApprovalExpired

datatype event_type = CP control_event | RT runtime_event_type

datatype event_source = CONTROL_PLANE | RUNTIME

definition controlPlaneEventTypes :: "(string \<times> control_event) list" where
  "controlPlaneEventTypes =
     [(''run.created'', RunCreated), (''user.message'', UserMessage),
      (''approval.requested'', ApprovalRequested), (''approval.approved'', ApprovalApproved),
      (''approval.rejected'', ApprovalRejected), (''approval.expired'', ApprovalExpired)]"

definition runtimeEventTypes :: "(string \<times> runtime_event_type) list" where
  "runtimeEventTypes =
     [(''run.started'', RunStarted), (''run.paused'', RunPaused), (''run.resumed'', RunResumed),
      (''run.completed'', RunCompleted), (''run.failed'', RunFailed),
      (''run.cancelled'', RunCancelled), (''step.started'', StepStarted),
      (''step.completed'', StepCompleted), (''step.failed'', StepFailed),
      (''agent.message'', AgentMessage), (''agent.reasoning.started'', AgentReasoningStarted),
      (''model.requested'', ModelRequested), (''model.responded'', ModelResponded),
      (''tool.requested'', ToolRequested), (''tool.started'', ToolStarted),
      (''tool.completed'', ToolCompleted), (''tool.failed'', ToolFailed),
      (''artifact.created'', ArtifactCreated)]"

definition RUNTIME_PROTOCOL_V1 :: string where
  "RUNTIME_PROTOCOL_V1 = ''agents-foundry/runtime/v1''"

definition MAX_RUNTIME_MESSAGE_BYTES :: int where
  "MAX_RUNTIME_MESSAGE_BYTES = 256 * 1024"

section \<open>Parsing an event\<close>

record wire_event =
  we_protocol :: string
  we_eventId :: string
  we_runId :: string
  we_threadId :: string
  we_stepId :: "string option"
  we_sequence :: nat
  we_type :: string
  we_occurredAt :: string
  we_correlation :: correlation
  we_payload :: json

record runtime_event =
  ev_eventId :: string
  ev_runId :: string
  ev_threadId :: string
  ev_stepId :: "string option"
  ev_sequence :: nat
  ev_occurredAt :: string
  ev_correlation :: correlation
  ev_payload :: runtime_payload

definition ev_type :: "runtime_event \<Rightarrow> runtime_event_type" where
  "ev_type e = payload_type (ev_payload e)"

text \<open>
  The validation library: the size of the encoded message, the envelope schema and, per
  type, the payload schema's parse.
\<close>

record schemas =
  sc_messageSize :: "wire_event \<Rightarrow> int"
  sc_envelope :: "wire_event \<Rightarrow> bool"
  sc_payload :: "runtime_event_type \<Rightarrow> json \<Rightarrow> runtime_payload option"

definition step_event :: "runtime_event_type \<Rightarrow> bool" where
  "step_event t \<longleftrightarrow> t \<in> {StepStarted, StepCompleted, StepFailed}"

definition parse_problems :: "wire_event \<Rightarrow> runtime_event_type \<Rightarrow> string list" where
  "parse_problems w t =
     (if step_event t \<and> we_stepId w = None then [''stepId: required for step events''] else []) @
     (if co_runId (we_correlation w) \<noteq> we_runId w then [''correlation.runId: mismatch''] else []) @
     (if co_threadId (we_correlation w) \<noteq> we_threadId w
      then [''correlation.threadId: mismatch''] else []) @
     (if co_stepId (we_correlation w) \<noteq> None \<and> co_stepId (we_correlation w) \<noteq> we_stepId w
      then [''correlation.stepId: mismatch''] else [])"

definition parseRuntimeEvent :: "schemas \<Rightarrow> wire_event \<Rightarrow> failure + runtime_event" where
  "parseRuntimeEvent sch w =
     (if sc_messageSize sch w > MAX_RUNTIME_MESSAGE_BYTES
      then Inl (Raised ''RUNTIME_MESSAGE_TOO_LARGE'')
      else if \<not> sc_envelope sch w then Inl (Raised ''RUNTIME_EVENT_INVALID'')
      else if we_protocol w \<noteq> RUNTIME_PROTOCOL_V1
      then Inl (Raised ''PROTOCOL_VERSION_UNSUPPORTED'')
      else if map_of controlPlaneEventTypes (we_type w) \<noteq> None
      then Inl (Raised ''RUNTIME_EVENT_TYPE_FORBIDDEN'')
      else case map_of runtimeEventTypes (we_type w) of
        None \<Rightarrow> Inl (Raised ''RUNTIME_EVENT_INVALID'')
      | Some t \<Rightarrow>
          (case sc_payload sch t (we_payload w) of
             None \<Rightarrow> Inl (Raised ''RUNTIME_EVENT_INVALID'')
           | Some p \<Rightarrow>
               if parse_problems w t \<noteq> [] then Inl (Raised ''RUNTIME_EVENT_INVALID'')
               else Inr \<lparr>ev_eventId = we_eventId w, ev_runId = we_runId w,
                 ev_threadId = we_threadId w, ev_stepId = we_stepId w,
                 ev_sequence = we_sequence w, ev_occurredAt = we_occurredAt w,
                 ev_correlation = we_correlation w, ev_payload = p\<rparr>))"

section \<open>What a parsed event guarantees\<close>

text \<open>The shape every parsed event has; the handlers rely on it.\<close>

definition coherent :: "runtime_event \<Rightarrow> bool" where
  "coherent e \<longleftrightarrow>
     co_runId (ev_correlation e) = ev_runId e \<and>
     co_threadId (ev_correlation e) = ev_threadId e \<and>
     (co_stepId (ev_correlation e) \<noteq> None \<longrightarrow> co_stepId (ev_correlation e) = ev_stepId e) \<and>
     (step_event (ev_type e) \<longrightarrow> ev_stepId e \<noteq> None)"

lemma event_names_disjoint:
  "map_of controlPlaneEventTypes n \<noteq> None \<Longrightarrow> map_of runtimeEventTypes n = None"
  by (auto simp: controlPlaneEventTypes_def runtimeEventTypes_def split: if_splits)

lemma parsed_event:
  assumes "\<And>t j p. sc_payload sch t j = Some p \<Longrightarrow> payload_type p = t"
    and "parseRuntimeEvent sch w = Inr e"
  shows "coherent e \<and> map_of runtimeEventTypes (we_type w) = Some (ev_type e) \<and>
    map_of controlPlaneEventTypes (we_type w) = None \<and> we_protocol w = RUNTIME_PROTOCOL_V1"
  using assms
  by (auto simp: parseRuntimeEvent_def coherent_def ev_type_def parse_problems_def
      split: if_splits option.splits)

text \<open>
  A runtime can only speak as itself: an event that parses carries the protocol version,
  a runtime event type (never one of the control plane's), a correlation that agrees with
  the event's own run, thread and step, and a step whenever the type is about one.
\<close>

theorem parsed_events_are_coherent:
  assumes "\<And>t j p. sc_payload sch t j = Some p \<Longrightarrow> payload_type p = t"
    and "parseRuntimeEvent sch w = Inr e"
  shows "coherent e \<and> map_of runtimeEventTypes (we_type w) = Some (ev_type e) \<and>
    map_of controlPlaneEventTypes (we_type w) = None \<and> we_protocol w = RUNTIME_PROTOCOL_V1"
  using assms by (rule parsed_event)

definition sample_correlation :: correlation where
  "sample_correlation = \<lparr>co_organizationId = ''o'', co_employeeId = ''e'', co_agentId = ''a'',
     co_threadId = ''t'', co_runId = ''r'', co_stepId = None, co_toolCallId = None,
     co_actionId = None\<rparr>"

definition sample_wire :: wire_event where
  "sample_wire = \<lparr>we_protocol = ''agents-foundry/runtime/v1'', we_eventId = ''v'', we_runId = ''r'',
     we_threadId = ''t'', we_stepId = None, we_sequence = 1, we_type = ''agent.message'',
     we_occurredAt = ''2026-01-01T00:00:00Z'', we_correlation = sample_correlation,
     we_payload = JObj [(''content'', JStr ''hi'')]\<rparr>"

definition sample_schemas :: schemas where
  "sample_schemas = \<lparr>sc_messageSize = (\<lambda>_. 100), sc_envelope = (\<lambda>_. True),
     sc_payload = (\<lambda>t j. if t = AgentMessage then Some (PAgentMessage ''hi'') else None)\<rparr>"

lemma parsed_events_are_coherent_witness:
  "\<exists>e. parseRuntimeEvent sample_schemas sample_wire = Inr e \<and> coherent e \<and>
     ev_payload e = PAgentMessage ''hi''"
proof -
  let ?e = "\<lparr>ev_eventId = ''v'', ev_runId = ''r'', ev_threadId = ''t'', ev_stepId = None,
    ev_sequence = 1, ev_occurredAt = ''2026-01-01T00:00:00Z'', ev_correlation = sample_correlation,
    ev_payload = PAgentMessage ''hi''\<rparr>"
  have parse: "parseRuntimeEvent sample_schemas sample_wire = Inr ?e"
    by (simp add: parseRuntimeEvent_def sample_schemas_def sample_wire_def sample_correlation_def
        MAX_RUNTIME_MESSAGE_BYTES_def RUNTIME_PROTOCOL_V1_def controlPlaneEventTypes_def
        runtimeEventTypes_def parse_problems_def step_event_def)
  have "coherent ?e \<and> map_of runtimeEventTypes (we_type sample_wire) = Some (ev_type ?e) \<and>
    map_of controlPlaneEventTypes (we_type sample_wire) = None \<and>
    we_protocol sample_wire = RUNTIME_PROTOCOL_V1"
    by (rule parsed_events_are_coherent [OF _ parse])
       (auto simp: sample_schemas_def split: if_splits)
  with parse show ?thesis by auto
qed

end
