(* ===== verification/PgStore.thy ===== *)
theory PgStore
  imports Prelude
begin

text \<open>
  The database access layer (\<open>db/pg-store.ts\<close>): tenant and platform scopes and how they
  nest, statements under row-level security, the rewriting of placeholders and the retry
  loop of a transaction. A transaction is SERIALIZABLE, so an operation on the state stands
  for one whole transaction; a failure leaves the state as it was.
\<close>

section \<open>Sessions and scopes\<close>

datatype scope = Tenant string | Platform

text \<open>
  \<open>ss_scope\<close> is the scope of the current transaction (\<open>current.getStore()?.scope\<close>).
  \<open>new Date()\<close> and \<open>randomUUID()\<close> read successive elements of two unconstrained streams, of
  which \<open>ss_reads\<close> and \<open>ss_drawn\<close> elements were used. Times are milliseconds of the epoch.
\<close>

record session =
  ss_scope :: "scope option"
  ss_clock :: "nat \<Rightarrow> int"
  ss_reads :: nat
  ss_entropy :: "nat \<Rightarrow> string"
  ss_drawn :: nat

definition now :: "('z session_scheme, int) op" where
  "now s = Inr (ss_clock s (ss_reads s), s\<lparr>ss_reads := Suc (ss_reads s)\<rparr>)"

definition randomUUID :: "('z session_scheme, string) op" where
  "randomUUID s = Inr (ss_entropy s (ss_drawn s), s\<lparr>ss_drawn := Suc (ss_drawn s)\<rparr>)"

definition scoped :: "scope \<Rightarrow> ('z session_scheme, 'a) op \<Rightarrow> ('z session_scheme, 'a) op" where
  "scoped sc work s =
     (case ss_scope s of
        Some Platform \<Rightarrow> work s
      | Some (Tenant outer) \<Rightarrow>
          (if sc = Tenant outer then work s
           else Inl (Raised (if sc = Platform then ''PLATFORM_SCOPE_FORBIDDEN''
                             else ''WRONG_ORGANIZATION'')))
      | None \<Rightarrow>
          (case work (s\<lparr>ss_scope := Some sc\<rparr>) of
             Inl e \<Rightarrow> Inl e
           | Inr (x, s') \<Rightarrow> Inr (x, s'\<lparr>ss_scope := None\<rparr>)))"

definition tenant :: "string \<Rightarrow> ('z session_scheme, 'a) op \<Rightarrow> ('z session_scheme, 'a) op" where
  "tenant organizationId work =
     (if organizationId = [] then throw (Raised ''ORGANIZATION_REQUIRED'')
      else scoped (Tenant organizationId) work)"

definition platform :: "('z session_scheme, 'a) op \<Rightarrow> ('z session_scheme, 'a) op" where
  "platform work = scoped Platform work"

definition constraintKind :: "failure \<Rightarrow> constraint_kind option" where
  "constraintKind e = (case e of Constraint k _ \<Rightarrow> Some k | _ \<Rightarrow> None)"


section \<open>Statements under row-level security\<close>

text \<open>
  The policy \<open>tenant_isolation\<close>: a tenant transaction sees and writes the rows of its
  organization only, the platform role every row. Every statement needs a scope.
\<close>

fun sees :: "scope \<Rightarrow> string \<Rightarrow> bool" where
  "sees (Tenant o') org = (org = o')"
| "sees Platform org = True"

definition select ::
  "('z session_scheme \<Rightarrow> 'r list) \<Rightarrow> ('r \<Rightarrow> string) \<Rightarrow> ('r \<Rightarrow> bool) \<Rightarrow>
   ('z session_scheme, 'r list) op" where
  "select rows org P s =
     (case ss_scope s of
        None \<Rightarrow> Inl (Raised ''DATABASE_SCOPE_REQUIRED'')
      | Some sc \<Rightarrow> Inr (filter (\<lambda>r. sees sc (org r) \<and> P r) (rows s), s))"

definition select_one ::
  "('z session_scheme \<Rightarrow> 'r list) \<Rightarrow> ('r \<Rightarrow> string) \<Rightarrow> ('r \<Rightarrow> bool) \<Rightarrow>
   ('z session_scheme, 'r option) op" where
  "select_one rows org P =
     andThen (select rows org P) (\<lambda>rs. ret (case rs of [] \<Rightarrow> None | r # _ \<Rightarrow> Some r))"

text \<open>
  An INSERT runs the table's triggers and constraints (\<open>check\<close>), then the policy's
  WITH CHECK. An UPDATE touches the visible rows its condition selects and runs the
  triggers on each pair of old and new row; it reports how many rows it changed.
\<close>

definition insert_row ::
  "(('r list \<Rightarrow> 'r list) \<Rightarrow> 'z session_scheme \<Rightarrow> 'z session_scheme) \<Rightarrow> ('r \<Rightarrow> string) \<Rightarrow>
   ('z session_scheme \<Rightarrow> 'r \<Rightarrow> failure option) \<Rightarrow> 'r \<Rightarrow> ('z session_scheme, unit) op" where
  "insert_row put org check r s =
     (case ss_scope s of
        None \<Rightarrow> Inl (Raised ''DATABASE_SCOPE_REQUIRED'')
      | Some sc \<Rightarrow>
          (case check s r of
             Some e \<Rightarrow> Inl e
           | None \<Rightarrow>
               if sees sc (org r) then Inr ((), put (\<lambda>rs. rs @ [r]) s)
               else Inl (Trigger ''new row violates row-level security policy'')))"

definition update_rows ::
  "('z session_scheme \<Rightarrow> 'r list) \<Rightarrow>
   (('r list \<Rightarrow> 'r list) \<Rightarrow> 'z session_scheme \<Rightarrow> 'z session_scheme) \<Rightarrow> ('r \<Rightarrow> string) \<Rightarrow>
   ('z session_scheme \<Rightarrow> 'r \<Rightarrow> 'r \<Rightarrow> failure option) \<Rightarrow> ('r \<Rightarrow> bool) \<Rightarrow> ('r \<Rightarrow> 'r) \<Rightarrow>
   ('z session_scheme, nat) op" where
  "update_rows rows put org trigger P f s =
     (case ss_scope s of
        None \<Rightarrow> Inl (Raised ''DATABASE_SCOPE_REQUIRED'')
      | Some sc \<Rightarrow>
          (let hit = (\<lambda>r. sees sc (org r) \<and> P r); hits = filter hit (rows s) in
           case List.map_filter (\<lambda>r. trigger s r (f r)) hits of
             e # _ \<Rightarrow> Inl e
           | [] \<Rightarrow>
               if list_all (\<lambda>r. sees sc (org (f r))) hits
               then Inr (length hits, put (update_where hit f) s)
               else Inl (Trigger ''new row violates row-level security policy'')))"

text \<open>
  DELETE removes the visible rows its condition selects. \<open>INSERT ... ON CONFLICT (key) DO NOTHING\<close>
  first tests the row's own CHECK constraints (\<open>valid\<close>), then whether any row, visible or not,
  has its key; it reports whether it inserted.
\<close>

definition delete_rows ::
  "('z session_scheme \<Rightarrow> 'r list) \<Rightarrow>
   (('r list \<Rightarrow> 'r list) \<Rightarrow> 'z session_scheme \<Rightarrow> 'z session_scheme) \<Rightarrow> ('r \<Rightarrow> string) \<Rightarrow>
   ('r \<Rightarrow> bool) \<Rightarrow> ('z session_scheme, nat) op" where
  "delete_rows rows put org P s =
     (case ss_scope s of
        None \<Rightarrow> Inl (Raised ''DATABASE_SCOPE_REQUIRED'')
      | Some sc \<Rightarrow>
          (let hit = (\<lambda>r. sees sc (org r) \<and> P r) in
           Inr (length (filter hit (rows s)), put (filter (\<lambda>r. \<not> hit r)) s)))"

definition insert_unless ::
  "('z session_scheme \<Rightarrow> 'r list) \<Rightarrow>
   (('r list \<Rightarrow> 'r list) \<Rightarrow> 'z session_scheme \<Rightarrow> 'z session_scheme) \<Rightarrow> ('r \<Rightarrow> string) \<Rightarrow>
   ('r \<Rightarrow> failure option) \<Rightarrow> ('z session_scheme \<Rightarrow> 'r \<Rightarrow> failure option) \<Rightarrow> ('r \<Rightarrow> 'k) \<Rightarrow> 'r \<Rightarrow>
   ('z session_scheme, nat) op" where
  "insert_unless rows put org valid check key r s =
     (case ss_scope s of
        None \<Rightarrow> Inl (Raised ''DATABASE_SCOPE_REQUIRED'')
      | Some sc \<Rightarrow>
          (case valid r of
             Some e \<Rightarrow> Inl e
           | None \<Rightarrow>
               if key r \<in> key ` set (rows s) then Inr (0, s)
               else andThen (insert_row put org check r) (\<lambda>_. ret 1) s))"

subsection \<open>Tables as an interface\<close>

text \<open>
  A table is a field of the state: \<open>rows\<close> reads it and \<open>put\<close> updates it. What every table
  owes its clients are the two laws below; the lemmas say what its statements then do.
\<close>

locale table =
  fixes rows :: "'z session_scheme \<Rightarrow> 'r list"
    and put :: "('r list \<Rightarrow> 'r list) \<Rightarrow> 'z session_scheme \<Rightarrow> 'z session_scheme"
  assumes rows_put: "rows (put f s) = f (rows s)"
    and scope_put: "ss_scope (put f s) = ss_scope s"
begin

lemma insert_Inr:
  "insert_row put org check r s = Inr (u, s') \<longleftrightarrow>
     (\<exists>sc. ss_scope s = Some sc \<and> check s r = None \<and> sees sc (org r) \<and>
        s' = put (\<lambda>rs. rs @ [r]) s)"
  by (auto simp: insert_row_def split: option.splits if_splits)

lemma update_Inr:
  "update_rows rows put org trigger P f s = Inr (n, s') \<longleftrightarrow>
     (\<exists>sc. ss_scope s = Some sc \<and>
        (\<forall>r \<in> set (rows s). sees sc (org r) \<longrightarrow> P r \<longrightarrow>
           trigger s r (f r) = None \<and> sees sc (org (f r))) \<and>
        n = length (filter (\<lambda>r. sees sc (org r) \<and> P r) (rows s)) \<and>
        s' = put (update_where (\<lambda>r. sees sc (org r) \<and> P r) f) s)"
  by (auto simp: update_rows_def Let_def list_all_iff List.map_filter_def filter_empty_conv
      split: option.splits list.splits if_splits)

lemma updateE:
  assumes "update_rows rows put org trigger P f s = Inr (n, s')"
  obtains sc where "ss_scope s = Some sc" and "s' = put (update_where (\<lambda>r. sees sc (org r) \<and> P r) f) s"
    and "n = length (filter (\<lambda>r. sees sc (org r) \<and> P r) (rows s))"
    and "\<And>r. r \<in> set (rows s) \<Longrightarrow> sees sc (org r) \<Longrightarrow> P r \<Longrightarrow> trigger s r (f r) = None"
  using assms unfolding update_Inr by blast

lemma delete_Inr:
  "delete_rows rows put org P s = Inr (n, s') \<longleftrightarrow>
     (\<exists>sc. ss_scope s = Some sc \<and> n = length (filter (\<lambda>r. sees sc (org r) \<and> P r) (rows s)) \<and>
        s' = put (filter (\<lambda>r. \<not> (sees sc (org r) \<and> P r))) s)"
  by (auto simp: delete_rows_def Let_def split: option.splits)

lemma insert_unless_Inr:
  "insert_unless rows put org valid check key r s = Inr (n, s') \<longleftrightarrow>
     (\<exists>sc. ss_scope s = Some sc \<and> valid r = None \<and>
        (if key r \<in> key ` set (rows s) then n = 0 \<and> s' = s
         else n = 1 \<and> check s r = None \<and> sees sc (org r) \<and> s' = put (\<lambda>rs. rs @ [r]) s))"
  by (auto simp: insert_unless_def andThen_Inr insert_Inr split: option.splits if_splits)

lemma insert_rows: "insert_row put org check r s = Inr (u, s') \<Longrightarrow> rows s' = rows s @ [r]"
  by (auto simp: insert_Inr rows_put)

lemma insert_keeps_other_tenants:
  assumes "insert_row put org check r s = Inr (u, s')" and "ss_scope s = Some (Tenant t)"
  shows "filter (\<lambda>r. org r \<noteq> t) (rows s') = filter (\<lambda>r. org r \<noteq> t) (rows s)"
  using assms by (auto simp: insert_Inr rows_put)

lemma update_keeps_other_tenants:
  assumes "update_rows rows put org trigger P f s = Inr (n, s')" and "ss_scope s = Some (Tenant t)"
  shows "filter (\<lambda>r. org r \<noteq> t) (rows s') = filter (\<lambda>r. org r \<noteq> t) (rows s)"
proof -
  have "s' = put (update_where (\<lambda>r. org r = t \<and> P r) f) s"
    and same: "\<forall>r \<in> set (rows s). org r = t \<longrightarrow> P r \<longrightarrow> org (f r) = t"
    using assms by (auto simp: update_Inr)
  then have "rows s' = update_where (\<lambda>r. org r = t \<and> P r) f (rows s)"
    by (simp add: rows_put)
  then show ?thesis
    using same by (auto intro: filter_update_where_other)
qed

end

lemma select_Inr:
  "select rows org P s = Inr (rs, s') \<longleftrightarrow>
     (\<exists>sc. ss_scope s = Some sc \<and> rs = filter (\<lambda>r. sees sc (org r) \<and> P r) (rows s) \<and> s' = s)"
  by (auto simp: select_def split: option.splits)

lemma select_one_Inr:
  "select_one rows org P s = Inr (found, s') \<longleftrightarrow>
     (\<exists>sc. ss_scope s = Some sc \<and> found = find (\<lambda>r. sees sc (org r) \<and> P r) (rows s) \<and> s' = s)"
  by (auto simp: select_one_def andThen_Inr select_Inr find_filter)

lemma now_Inr [simp]:
  "now s = Inr (t, s') \<longleftrightarrow> t = ss_clock s (ss_reads s) \<and> s' = s\<lparr>ss_reads := Suc (ss_reads s)\<rparr>"
  by (auto simp: now_def)

lemma randomUUID_Inr [simp]:
  "randomUUID s = Inr (u, s') \<longleftrightarrow> u = ss_entropy s (ss_drawn s) \<and> s' = s\<lparr>ss_drawn := Suc (ss_drawn s)\<rparr>"
  by (auto simp: randomUUID_def)

text \<open>A tenant transaction, opened here or joined.\<close>

lemma tenant_Inr:
  "ss_scope s = None \<Longrightarrow> tenant org m s = Inr (x, s') \<longleftrightarrow>
     org \<noteq> [] \<and> (\<exists>u. m (s\<lparr>ss_scope := Some (Tenant org)\<rparr>) = Inr (x, u) \<and> s' = u\<lparr>ss_scope := None\<rparr>)"
  by (auto simp: tenant_def scoped_def split: sum.splits)

lemma tenant_joined:
  "ss_scope s = Some (Tenant org) \<Longrightarrow> tenant org m s = Inr (x, s') \<longleftrightarrow> org \<noteq> [] \<and> m s = Inr (x, s')"
  by (auto simp: tenant_def scoped_def)

lemma platform_Inr:
  "ss_scope s = None \<Longrightarrow> platform m s = Inr (x, s') \<longleftrightarrow>
     (\<exists>u. m (s\<lparr>ss_scope := Some Platform\<rparr>) = Inr (x, u) \<and> s' = u\<lparr>ss_scope := None\<rparr>)"
  by (auto simp: platform_def scoped_def split: sum.splits)

text \<open>The same whatever the scope of the caller, and what a read that finds a row found.\<close>

lemma tenant_run:
  assumes "tenant org m s = Inr (x, s')"
  obtains sc u where "sees sc org" and "m (s\<lparr>ss_scope := Some sc\<rparr>) = Inr (x, u)"
    and "s' = u \<or> s' = u\<lparr>ss_scope := None\<rparr>"
proof (cases "ss_scope s")
  case None
  with assms show ?thesis by (auto simp: tenant_Inr intro!: that [of "Tenant org"])
next
  case (Some sc)
  then have "s\<lparr>ss_scope := Some sc\<rparr> = s" by simp
  moreover have "sees sc org" "m s = Inr (x, s')"
    using assms Some by (cases sc; auto simp: tenant_def scoped_def split: if_splits)+
  ultimately show ?thesis by (intro that [of sc s']) simp_all
qed

lemma select_one_found:
  assumes "select_one rows org P s = Inr (Some r, s')"
  shows "s' = s \<and> r \<in> set (rows s) \<and> P r"
  using assms unfolding select_one_Inr by (metis find_Some_set)

lemmas statement_eval = select_def select_one_def insert_row_def update_rows_def delete_rows_def insert_unless_def now_def randomUUID_def
  scoped_def tenant_def platform_def

section \<open>Placeholders\<close>

text \<open>
  \<open>toPositional\<close> rewrites \<open>?\<close> as \<open>$1..$n\<close> outside quotes and line comments; the result is
  \<open>None\<close> where the code throws \<open>SQL_UNTERMINATED_QUOTE\<close>. \<open>digits\<close> is the decimal text of a
  template literal. The scan over the index \<open>i\<close> is a recursion on the rest of the text.
\<close>

fun digits :: "nat \<Rightarrow> string" where
  "digits n = (if n < 10 then [char_of (48 + n)] else digits (n div 10) @ [char_of (48 + n mod 10)])"

declare digits.simps [simp del]

definition quote :: "char \<Rightarrow> bool" where
  "quote c \<longleftrightarrow> c = CHR 39 \<or> c = CHR 34"

definition newline :: char where
  "newline = CHR 10"

function position_marks :: "nat \<Rightarrow> string \<Rightarrow> string option" where
  "position_marks index [] = Some []"
| "position_marks index (c # cs) =
     (if quote c then
        (if c \<in> set cs then
           map_option (\<lambda>out. c # takeWhile (\<lambda>x. x \<noteq> c) cs @ [c] @ out)
             (position_marks index (drop 1 (dropWhile (\<lambda>x. x \<noteq> c) cs)))
         else None)
      else if c = CHR ''-'' \<and> (case cs of d # _ \<Rightarrow> d = CHR ''-'' | [] \<Rightarrow> False) then
        map_option (\<lambda>out. c # takeWhile (\<lambda>x. x \<noteq> newline) cs @ out)
          (position_marks index (dropWhile (\<lambda>x. x \<noteq> newline) cs))
      else if c = CHR ''?'' then
        map_option (\<lambda>out. CHR ''$'' # digits (index + 1) @ out) (position_marks (index + 1) cs)
      else map_option (\<lambda>out. c # out) (position_marks index cs))"
  by pat_completeness auto

termination
proof (relation "measure (\<lambda>(i, cs). length cs)", goal_cases)
  case (2 i c cs)
  have "length (drop 1 (dropWhile (\<lambda>x. x \<noteq> c) cs)) \<le> length cs"
    using length_dropWhile_le [of "\<lambda>x. x \<noteq> c" cs] by simp
  then show ?case by simp
qed (auto simp: less_Suc_eq_le length_dropWhile_le)

definition toPositional :: "string \<Rightarrow> string option" where
  "toPositional sql = position_marks 0 sql"

text \<open>
  The reference reading of a statement: its tokens, each of which is copied but the marks,
  which are numbered from left to right.
\<close>

datatype token = Quoted string | Comment string | Mark | Plain char

fun token_text :: "token \<Rightarrow> string" where
  "token_text (Quoted q) = q"
| "token_text (Comment q) = q"
| "token_text Mark = ''?''"
| "token_text (Plain c) = [c]"

fun token_ok :: "token \<Rightarrow> bool" where
  "token_ok (Quoted q) \<longleftrightarrow>
     (\<exists>c body. quote c \<and> q = c # body @ [c] \<and> c \<notin> set body)"
| "token_ok (Comment q) \<longleftrightarrow> take 2 q = ''--'' \<and> newline \<notin> set q"
| "token_ok Mark \<longleftrightarrow> True"
| "token_ok (Plain c) \<longleftrightarrow> \<not> quote c \<and> c \<noteq> CHR ''?''"

fun numbered :: "nat \<Rightarrow> token list \<Rightarrow> string" where
  "numbered n [] = []"
| "numbered n (Mark # ts) = CHR ''$'' # digits (n + 1) @ numbered (n + 1) ts"
| "numbered n (t # ts) = token_text t @ numbered n ts"

lemma split_at_quote:
  assumes "c \<in> set cs"
  shows "takeWhile (\<lambda>x. x \<noteq> c) cs @ c # drop 1 (dropWhile (\<lambda>x. x \<noteq> c) cs) = cs"
  using assms by (induction cs) auto

lemma not_in_takeWhile: "c \<notin> set (takeWhile (\<lambda>x. x \<noteq> c) cs)"
  by (auto dest: set_takeWhileD)

lemma comment_token_ok:
  assumes "case cs of d # _ \<Rightarrow> d = CHR ''-'' | [] \<Rightarrow> False"
  shows "token_ok (Comment (CHR ''-'' # takeWhile (\<lambda>x. x \<noteq> newline) cs))"
  using assms not_in_takeWhile [of newline cs]
  by (cases cs) (auto simp: newline_def)

lemma position_marks_tokens:
  "position_marks n sql = Some out \<Longrightarrow>
     \<exists>ts. concat (map token_text ts) = sql \<and> list_all token_ok ts \<and> out = numbered n ts"
proof (induction n sql arbitrary: out rule: position_marks.induct)
  case (1 n)
  then show ?case by (intro exI [of _ "[]"]) simp
next
  case (2 n c cs)
  consider (quoted) "quote c" "c \<in> set cs"
    | (comment) "\<not> quote c" "c = CHR ''-''" "case cs of d # _ \<Rightarrow> d = CHR ''-'' | [] \<Rightarrow> False"
    | (mark) "c = CHR ''?''"
    | (plain) "\<not> quote c" "c \<noteq> CHR ''?''"
        "\<not> (c = CHR ''-'' \<and> (case cs of d # _ \<Rightarrow> d = CHR ''-'' | [] \<Rightarrow> False))"
    using 2(5) by (fastforce split: if_splits)
  then show ?case
  proof cases
    case quoted
    let ?q = "c # takeWhile (\<lambda>x. x \<noteq> c) cs @ [c]"
    from quoted 2(5) obtain o' where
      o': "position_marks n (drop 1 (dropWhile (\<lambda>x. x \<noteq> c) cs)) = Some o'" "out = ?q @ o'"
      by auto
    with 2(1) [OF quoted] obtain ts where ts:
      "concat (map token_text ts) = drop 1 (dropWhile (\<lambda>x. x \<noteq> c) cs)"
      "list_all token_ok ts" "o' = numbered n ts"
      by blast
    then show ?thesis
      using quoted o' split_at_quote [of c cs] not_in_takeWhile [of c cs]
      by (intro exI [of _ "Quoted ?q # ts"]) auto
  next
    case comment
    let ?q = "c # takeWhile (\<lambda>x. x \<noteq> newline) cs"
    from comment 2(5) obtain o' where
      o': "position_marks n (dropWhile (\<lambda>x. x \<noteq> newline) cs) = Some o'" "out = ?q @ o'"
      by auto
    with 2(2) comment obtain ts where
      "concat (map token_text ts) = dropWhile (\<lambda>x. x \<noteq> newline) cs"
      "list_all token_ok ts" "o' = numbered n ts"
      by blast
    then show ?thesis
      using comment o' comment_token_ok [of cs]
      by (intro exI [of _ "Comment ?q # ts"]) auto
  next
    case mark
    then have nq: "\<not> quote c" "\<not> (c = CHR ''-'' \<and> (case cs of d # _ \<Rightarrow> d = CHR ''-'' | [] \<Rightarrow> False))"
      by (auto simp: quote_def)
    with mark 2(5) obtain o' where
      o': "position_marks (n + 1) cs = Some o'" "out = CHR ''$'' # digits (n + 1) @ o'"
      by auto
    with 2(3) [OF nq mark] obtain ts where
      "concat (map token_text ts) = cs" "list_all token_ok ts" "o' = numbered (n + 1) ts"
      by blast
    then show ?thesis using mark o' by (intro exI [of _ "Mark # ts"]) auto
  next
    case plain
    with 2(5) obtain o' where o': "position_marks n cs = Some o'" "out = c # o'"
      by auto
    with 2(4) plain obtain ts where
      "concat (map token_text ts) = cs" "list_all token_ok ts" "o' = numbered n ts"
      by blast
    then show ?thesis using plain o' by (intro exI [of _ "Plain c # ts"]) auto
  qed
qed

text \<open>
  Rewriting placeholders touches nothing but the placeholders: the result is the
  statement's own tokens, with string literals, quoted identifiers and comments copied, and
  the marks outside them numbered 1, 2, ... from left to right.
\<close>

theorem toPositional_numbers_marks:
  "toPositional sql = Some out \<Longrightarrow>
     \<exists>ts. concat (map token_text ts) = sql \<and> list_all token_ok ts \<and> out = numbered 0 ts"
  unfolding toPositional_def by (rule position_marks_tokens)

lemma toPositional_numbers_marks_witness:
  "\<exists>ts. concat (map token_text ts) = ''a=? AND b=?'' \<and> list_all token_ok ts \<and>
     ''a=$1 AND b=$2'' = numbered 0 ts"
proof (rule toPositional_numbers_marks)
  show "toPositional ''a=? AND b=?'' = Some ''a=$1 AND b=$2''"
    by (simp add: toPositional_def quote_def digits.simps char_of_def bit_Suc_0_iff)
qed


section \<open>Retries\<close>

text \<open>
  What one attempt at a transaction can end with. \<open>pe_connection_message\<close> is the match of
  \<open>CONNECTION_MESSAGE\<close> against the error's message, \<open>pe_committing\<close> that COMMIT was in flight.
\<close>

record pg_error =
  pe_code :: "string option"
  pe_connection_message :: bool
  pe_committing :: bool

datatype 'a attempt = Committed 'a | Failed pg_error

definition RETRYABLE :: "string list" where
  "RETRYABLE = [''40001'', ''40P01'']"

definition MAX_ATTEMPTS :: nat where
  "MAX_ATTEMPTS = 8"

definition CONNECTION_CODES :: "string list" where
  "CONNECTION_CODES =
     [''ECONNREFUSED'', ''ECONNRESET'', ''EPIPE'', ''ETIMEDOUT'', ''57P01'', ''57P02'', ''57P03'',
      ''08000'', ''08001'', ''08003'', ''08004'', ''08006'', ''08007'']"

definition CONNECTION_DELAYS_MS :: "nat list" where
  "CONNECTION_DELAYS_MS = [100, 300, 900, 1700]"

definition isConnectionFailure :: "pg_error \<Rightarrow> bool" where
  "isConnectionFailure e \<longleftrightarrow>
     (case pe_code e of Some c \<Rightarrow> c \<in> set CONNECTION_CODES | None \<Rightarrow> False) \<or>
     pe_connection_message e"

definition commitUnknown :: "pg_error \<Rightarrow> bool" where
  "commitUnknown e \<longleftrightarrow> pe_committing e \<and> isConnectionFailure e"

definition serializationFailure :: "pg_error \<Rightarrow> bool" where
  "serializationFailure e \<longleftrightarrow>
     (case pe_code e of Some c \<Rightarrow> c \<in> set RETRYABLE | None \<Rightarrow> False)"

text \<open>
  The loop of \<open>scoped\<close> over the results its attempts would have: the result it ends with and
  how many attempts it made, \<open>None\<close> when the results run out. \<open>closed\<close> tells whether the store
  was closed at the time of an attempt.
\<close>

fun retry_loop ::
  "nat \<Rightarrow> nat \<Rightarrow> (nat \<Rightarrow> bool) \<Rightarrow> 'a attempt list \<Rightarrow> ('a attempt \<times> nat) option" where
  "retry_loop att reconnects closed [] = None"
| "retry_loop att reconnects closed (Committed x # rest) = Some (Committed x, att)"
| "retry_loop att reconnects closed (Failed e # rest) =
     (if serializationFailure e \<and> att < MAX_ATTEMPTS
      then retry_loop (att + 1) reconnects closed rest
      else if reconnects \<ge> length CONNECTION_DELAYS_MS \<or> closed att
         \<or> \<not> isConnectionFailure e \<or> commitUnknown e
      then Some (Failed e, att)
      else retry_loop (att + 1) (reconnects + 1) closed rest)"

definition run_attempts :: "(nat \<Rightarrow> bool) \<Rightarrow> 'a attempt list \<Rightarrow> ('a attempt \<times> nat) option" where
  "run_attempts closed results = retry_loop 1 0 closed results"

lemma retry_loop_bounded:
  assumes "att \<le> MAX_ATTEMPTS + reconnects" "reconnects \<le> length CONNECTION_DELAYS_MS"
    and "length results > MAX_ATTEMPTS + length CONNECTION_DELAYS_MS - att"
  shows "\<exists>r n. retry_loop att reconnects closed results = Some (r, n) \<and>
    n \<le> MAX_ATTEMPTS + length CONNECTION_DELAYS_MS"
  using assms
proof (induction att reconnects closed results rule: retry_loop.induct)
  case (1 att reconnects closed)
  then show ?case by simp
next
  case (2 att reconnects closed x rest)
  then show ?case by simp
next
  case (3 att reconnects closed e rest)
  then show ?case
    by (cases "serializationFailure e \<and> att < MAX_ATTEMPTS") (auto simp: not_less)
qed

lemma retry_loop_result:
  "retry_loop att reconnects closed results = Some (r, n) \<Longrightarrow>
     att \<le> n \<and> results ! (n - att) = r \<and> n - att < length results \<and>
     (\<forall>i < n - att. \<exists>e. results ! i = Failed e \<and>
        (serializationFailure e \<or> isConnectionFailure e \<and> \<not> commitUnknown e))"
proof (induction att reconnects closed results arbitrary: r n rule: retry_loop.induct)
  case (3 att reconnects closed e rest)
  have again: ?case
    if step: "retry_loop (att + 1) rc closed rest = Some (r, n)"
      and retried: "serializationFailure e \<or> isConnectionFailure e \<and> \<not> commitUnknown e"
      and IH: "\<And>r n. retry_loop (att + 1) rc closed rest = Some (r, n) \<Longrightarrow>
        att + 1 \<le> n \<and> rest ! (n - (att + 1)) = r \<and> n - (att + 1) < length rest \<and>
        (\<forall>i < n - (att + 1). \<exists>e. rest ! i = Failed e \<and>
          (serializationFailure e \<or> isConnectionFailure e \<and> \<not> commitUnknown e))" for rc
  proof -
    from IH [OF step] obtain k where k: "n = att + 1 + k" "rest ! k = r" "k < length rest"
      "\<forall>i < k. \<exists>e. rest ! i = Failed e \<and>
          (serializationFailure e \<or> isConnectionFailure e \<and> \<not> commitUnknown e)"
      by (metis add_diff_cancel_left' le_Suc_ex)
    then show ?thesis using retried by (auto simp: nth_Cons split: nat.splits)
  qed
  show ?case
  proof (cases "serializationFailure e \<and> att < MAX_ATTEMPTS")
    case True
    with 3(3) show ?thesis by (intro again 3(1)) auto
  next
    case False
    show ?thesis
    proof (cases "reconnects \<ge> length CONNECTION_DELAYS_MS \<or> closed att
         \<or> \<not> isConnectionFailure e \<or> commitUnknown e")
      case True
      with False 3(3) show ?thesis by auto
    next
      case False': False
      with False 3(3) show ?thesis by (intro again 3(2)) auto
    qed
  qed
qed auto

text \<open>
  C40. A transaction is attempted at most twelve times: given that many attempt results the
  loop always ends, with the result of its last attempt.
\<close>

theorem transaction_retries_bounded:
  assumes "length results \<ge> 12"
  shows "\<exists>r n. run_attempts closed results = Some (r, n) \<and> 1 \<le> n \<and> n \<le> 12 \<and> results ! (n - 1) = r"
proof -
  have "\<exists>r n. retry_loop 1 0 closed results = Some (r, n) \<and> n \<le> 12"
    using retry_loop_bounded [of 1 0 results closed] assms
    by (simp add: MAX_ATTEMPTS_def CONNECTION_DELAYS_MS_def)
  then show ?thesis
    unfolding run_attempts_def by (blast dest: retry_loop_result)
qed

text \<open>
  A transaction is run again only after a failure that kept nothing of it: everything
  before the last attempt failed, with a serialization failure or a lost connection, and
  never with a connection lost while COMMIT was in flight.
\<close>

theorem retries_only_what_was_rolled_back:
  assumes "run_attempts closed results = Some (r, n)" and "i < n - 1"
  shows "\<exists>e. results ! i = Failed e \<and>
    (serializationFailure e \<or> isConnectionFailure e \<and> \<not> commitUnknown e)"
  using retry_loop_result [OF assms(1) [unfolded run_attempts_def]] assms(2) by blast

lemma transaction_retries_bounded_witness:
  "\<exists>r n. run_attempts (\<lambda>_. False) (replicate 12 (Committed (7::nat))) = Some (r, n) \<and>
     1 \<le> n \<and> n \<le> 12 \<and> replicate 12 (Committed 7) ! (n - 1) = r"
  by (rule transaction_retries_bounded) simp

lemma retries_only_what_was_rolled_back_witness:
  "\<exists>e. [Failed \<lparr>pe_code = Some ''40001'', pe_connection_message = False, pe_committing = True\<rparr>,
        Committed (7::nat)] ! 0 = Failed e \<and>
     (serializationFailure e \<or> isConnectionFailure e \<and> \<not> commitUnknown e)"
  by (rule retries_only_what_was_rolled_back [where closed = "\<lambda>_. False" and r = "Committed 7" and n = 2])
     (simp_all add: run_attempts_def serializationFailure_def RETRYABLE_def MAX_ATTEMPTS_def)

end
