(* ===== verification/WebText.thy ===== *)
theory WebText
  imports PgStore "HOL-Library.Char_ord" "HOL-Library.List_Lexorder"
begin

text \<open>
  Text, URLs and JSON values as the action schemas read them: the string methods of JavaScript
  on the model's characters, the parts of a parsed \<open>URL\<close> and the fields of a JSON object.
  Characters are the char_code points 0 to 255. URL parsing is a parameter (the WHATWG algorithm of
  the platform), as is the acceptance of \<open>z.url()\<close>.
\<close>

section \<open>Characters and strings\<close>

definition char_code :: "char \<Rightarrow> nat" where
  "char_code c = of_char c"

definition is_digit :: "char \<Rightarrow> bool" where
  "is_digit c \<longleftrightarrow> 48 \<le> char_code c \<and> char_code c \<le> 57"

definition is_upper :: "char \<Rightarrow> bool" where
  "is_upper c \<longleftrightarrow> 65 \<le> char_code c \<and> char_code c \<le> 90"

definition is_lower :: "char \<Rightarrow> bool" where
  "is_lower c \<longleftrightarrow> 97 \<le> char_code c \<and> char_code c \<le> 122"

definition is_alnum :: "char \<Rightarrow> bool" where
  "is_alnum c \<longleftrightarrow> is_upper c \<or> is_lower c \<or> is_digit c"

text \<open>\<open>toLowerCase\<close> on the Latin-1 range, where it maps one character to one character.\<close>

definition lower_char :: "char \<Rightarrow> char" where
  "lower_char c =
     (if is_upper c \<or> (192 \<le> char_code c \<and> char_code c \<le> 222 \<and> char_code c \<noteq> 215) then char_of (char_code c + 32) else c)"

definition toLowerCase :: "string \<Rightarrow> string" where
  "toLowerCase t = map lower_char t"

definition startsWith :: "string \<Rightarrow> string \<Rightarrow> bool" where
  "startsWith p t \<longleftrightarrow> take (length p) t = p"

definition endsWith :: "string \<Rightarrow> string \<Rightarrow> bool" where
  "endsWith p t \<longleftrightarrow> startsWith (rev p) (rev t)"

text \<open>\<open>t.includes(p)\<close> for a string \<open>p\<close>.\<close>

fun contains :: "string \<Rightarrow> string \<Rightarrow> bool" where
  "contains p [] = (p = [])"
| "contains p (c # cs) = (startsWith p (c # cs) \<or> contains p cs)"

text \<open>\<open>t.split(c)\<close> for a character \<open>c\<close>, and \<open>ts.join(p)\<close>.\<close>

fun splitOn :: "char \<Rightarrow> string \<Rightarrow> string list" where
  "splitOn c [] = [[]]"
| "splitOn c (x # xs) =
     (if x = c then [] # splitOn c xs
      else (case splitOn c xs of [] \<Rightarrow> [[x]] | p # ps \<Rightarrow> (x # p) # ps))"

fun joinWith :: "string \<Rightarrow> string list \<Rightarrow> string" where
  "joinWith p [] = []"
| "joinWith p [t] = t"
| "joinWith p (t # u # ts) = t @ p @ joinWith p (u # ts)"

text \<open>\<open>replace(/c+$/, '')\<close> and \<open>replace(/p$/, '')\<close>.\<close>

definition dropTrailing :: "char \<Rightarrow> string \<Rightarrow> string" where
  "dropTrailing c t = rev (dropWhile (\<lambda>x. x = c) (rev t))"

definition dropSuffix :: "string \<Rightarrow> string \<Rightarrow> string" where
  "dropSuffix p t = (if endsWith p t then take (length t - length p) t else t)"

text \<open>\<open>String.prototype.trim\<close>.\<close>

definition js_space :: "char \<Rightarrow> bool" where
  "js_space c \<longleftrightarrow> c \<in> {CHR 9, CHR 10, CHR 11, CHR 12, CHR 13, CHR 32, CHR 160}"

definition trim :: "string \<Rightarrow> string" where
  "trim t = rev (dropWhile js_space (rev (dropWhile js_space t)))"

text \<open>The length of a string's UTF-8 encoding.\<close>

definition utf8_length :: "string \<Rightarrow> nat" where
  "utf8_length t = sum_list (map (\<lambda>c. if char_code c < 128 then 1 else 2) t)"

lemma splitOn_nonempty [simp]: "splitOn c t \<noteq> []"
  by (cases t) (auto split: list.splits)

lemma splitOn_no_sep: "seg \<in> set (splitOn c t) \<Longrightarrow> c \<notin> set seg"
  by (induction t arbitrary: seg) (auto split: if_splits list.splits)

lemma splitOn_set: "seg \<in> set (splitOn c t) \<Longrightarrow> x \<in> set seg \<Longrightarrow> x \<in> set t"
  by (induction t arbitrary: seg) (fastforce split: if_splits list.splits)+

section \<open>URLs\<close>

record url =
  ul_protocol :: string
  ul_username :: string
  ul_password :: string
  ul_host :: string
  ul_hostname :: string
  ul_pathname :: string
  ul_search :: string
  ul_hash :: string
  ul_origin :: string

text \<open>
  \<open>wb_URL\<close> is \<open>new URL\<close> (\<open>None\<close> where it throws); \<open>wb_zodUrl\<close> is what \<open>z.url()\<close> makes of a text
  it accepts.
\<close>

record web =
  wb_URL :: "string \<Rightarrow> url option"
  wb_zodUrl :: "string \<Rightarrow> string option"

text \<open>Agent configuration, \<open>Record<string, string | string[]>\<close>.\<close>

datatype config_value = ConfigText string | ConfigTexts "string list"

type_synonym configuration = "(string \<times> config_value) list"

definition config_text :: "configuration \<Rightarrow> string \<Rightarrow> string option" where
  "config_text configuration key =
     (case map_of configuration key of Some (ConfigText t) \<Rightarrow> Some t | _ \<Rightarrow> None)"

section \<open>Fields of JSON objects\<close>

fun json_field :: "string \<Rightarrow> json \<Rightarrow> json option" where
  "json_field k (JObj fs) = map_of fs k"
| "json_field k _ = None"

definition text_field :: "string \<Rightarrow> json \<Rightarrow> string option" where
  "text_field k v = (case json_field k v of Some (JStr t) \<Rightarrow> Some t | _ \<Rightarrow> None)"

text \<open>\<open>z.object(...).strict()\<close>: an object with no other keys.\<close>

fun strict :: "string list \<Rightarrow> json \<Rightarrow> bool" where
  "strict ks (JObj fs) = list_all (\<lambda>f. fst f \<in> set ks) fs"
| "strict ks _ = False"

definition filtered :: "('a \<Rightarrow> bool) \<Rightarrow> 'a option \<Rightarrow> 'a option" where
  "filtered P v = (case v of Some x \<Rightarrow> if P x then Some x else None | None \<Rightarrow> None)"

lemma filtered_Some [simp]: "filtered P v = Some x \<longleftrightarrow> v = Some x \<and> P x"
  by (auto simp: filtered_def split: option.splits)

fun texts :: "json list \<Rightarrow> string list option" where
  "texts [] = Some []"
| "texts (JStr t # vs) = map_option (\<lambda>ts. t # ts) (texts vs)"
| "texts _ = None"

definition texts_field :: "string \<Rightarrow> json \<Rightarrow> string list option" where
  "texts_field k v = (case json_field k v of Some (JArr vs) \<Rightarrow> texts vs | _ \<Rightarrow> None)"

lemma texts_map [simp]: "texts (map JStr ts) = Some ts"
  by (induction ts) auto

end
