(* ===== verification/AgentKernel.thy ===== *)
theory AgentKernel
  imports RuntimeProtocol WebText
begin

text \<open>
  The reasoning loop of an agent runtime (\<open>kernel/native-kernel.ts\<close>, \<open>kernel/agent-kernel.ts\<close>,
  \<open>errors.ts\<close>, \<open>tools/runtime-tool.ts\<close>). What the kernel does is a history of effects; everything
  outside it answers from the history so far, so that the control plane, the model and the tools
  may behave in any way, and fail at any point.
\<close>

section \<open>Errors\<close>

datatype runtime_error =
    RuntimeFailure string string bool
  | ControlPlaneError nat string
  | UnexpectedError

record run_failure =
  rf_code :: string
  rf_message :: string
  rf_retryable :: bool

definition final_status :: "nat \<Rightarrow> bool" where
  "final_status st \<longleftrightarrow> 400 \<le> st \<and> st < 500"

fun asRuntimeFailure :: "runtime_error \<Rightarrow> run_failure" where
  "asRuntimeFailure (RuntimeFailure c m r) = \<lparr>rf_code = c, rf_message = m, rf_retryable = r\<rparr>"
| "asRuntimeFailure (ControlPlaneError st c) =
     \<lparr>rf_code = ''CONTROL_PLANE_REJECTED'', rf_message = c, rf_retryable = \<not> final_status st\<rparr>"
| "asRuntimeFailure UnexpectedError =
     \<lparr>rf_code = ''RUNTIME_INTERNAL_ERROR'', rf_message = ''The runtime failed unexpectedly.'', rf_retryable = True\<rparr>"

definition toExecutionError :: "run_failure \<Rightarrow> error_info" where
  "toExecutionError f = \<lparr>er_code = rf_code f, er_message = take 2000 (rf_message f)\<rparr>"

section \<open>The kernel's state\<close>

text \<open>
  What the kernel checkpoints. Messages and results are kept as JSON, as the schema of a stored state
  keeps them; the input of a tool call may be missing.
\<close>

record tool_use =
  tu_id :: string
  tu_name :: string
  tu_input :: "json option"

record in_flight =
  fl_stepId :: string
  fl_toolCallId :: string
  fl_requestId :: string
  fl_approvalId :: "string option"

record pending_turn =
  pt_toolUses :: "tool_use list"
  pt_results :: "json list"
  pt_index :: nat
  pt_inFlight :: "in_flight option"

record kernel_state =
  ks_messages :: "json list"
  ks_turns :: nat
  ks_artifactIds :: "string list"
  ks_turn :: "pending_turn option"

text \<open>The state as it is written.\<close>

definition or_null :: "('a \<Rightarrow> json) \<Rightarrow> 'a option \<Rightarrow> json" where
  "or_null f v = (case v of None \<Rightarrow> JNull | Some x \<Rightarrow> f x)"

definition tool_use_json :: "tool_use \<Rightarrow> json" where
  "tool_use_json u = JObj ([(''id'', JStr (tu_id u)), (''name'', JStr (tu_name u))] @
     (case tu_input u of None \<Rightarrow> [] | Some v \<Rightarrow> [(''input'', v)]))"

definition in_flight_json :: "in_flight \<Rightarrow> json" where
  "in_flight_json fl = JObj [(''stepId'', JStr (fl_stepId fl)), (''toolCallId'', JStr (fl_toolCallId fl)),
     (''requestId'', JStr (fl_requestId fl)), (''approvalId'', or_null JStr (fl_approvalId fl))]"

definition turn_json :: "pending_turn \<Rightarrow> json" where
  "turn_json t = JObj [(''toolUses'', JArr (map tool_use_json (pt_toolUses t))), (''results'', JArr (pt_results t)),
     (''index'', JNum (int (pt_index t))), (''inFlight'', or_null in_flight_json (pt_inFlight t))]"

definition state_json :: "kernel_state \<Rightarrow> json" where
  "state_json st = JObj [(''version'', JNum 2), (''messages'', JArr (ks_messages st)), (''turns'', JNum (int (ks_turns st))),
     (''artifactIds'', JArr (map JStr (ks_artifactIds st))), (''turn'', or_null turn_json (ks_turn st))]"

text \<open>\<open>stateSchema\<close>: the state as it is read; \<open>uuid\<close> is the acceptance of \<open>z.uuid()\<close>.\<close>

fun all_some :: "'a option list \<Rightarrow> 'a list option" where
  "all_some [] = Some []"
| "all_some (None # vs) = None"
| "all_some (Some x # vs) = map_option (\<lambda>xs. x # xs) (all_some vs)"

definition nullable :: "(json \<Rightarrow> 'a option) \<Rightarrow> json \<Rightarrow> 'a option option" where
  "nullable f v = (if v = JNull then Some None else map_option Some (f v))"

definition within_field :: "(json \<Rightarrow> 'a option) \<Rightarrow> string \<Rightarrow> json \<Rightarrow> 'a option" where
  "within_field f k v = Option.bind (json_field k v) f"

fun array_of :: "json \<Rightarrow> json list option" where
  "array_of (JArr vs) = Some vs"
| "array_of _ = None"

fun count_of :: "json \<Rightarrow> nat option" where
  "count_of (JNum n) = (if 0 \<le> n then Some (nat n) else None)"
| "count_of _ = None"

fun accepted_text :: "(string \<Rightarrow> bool) \<Rightarrow> json \<Rightarrow> string option" where
  "accepted_text P (JStr t) = (if P t then Some t else None)"
| "accepted_text P _ = None"

definition toolUseSchema :: "json \<Rightarrow> tool_use option" where
  "toolUseSchema v =
     (case (text_field ''id'' v, text_field ''name'' v) of
        (Some i, Some n) \<Rightarrow> Some \<lparr>tu_id = i, tu_name = n, tu_input = json_field ''input'' v\<rparr>
      | _ \<Rightarrow> None)"

definition inFlightSchema :: "(string \<Rightarrow> bool) \<Rightarrow> json \<Rightarrow> in_flight option" where
  "inFlightSchema uuid v =
     (if strict [''stepId'', ''toolCallId'', ''requestId'', ''approvalId''] v then
        (case (within_field (accepted_text uuid) ''stepId'' v, within_field (accepted_text uuid) ''toolCallId'' v,
               within_field (accepted_text uuid) ''requestId'' v,
               within_field (nullable (accepted_text uuid)) ''approvalId'' v) of
           (Some s, Some c, Some r, Some a) \<Rightarrow>
             Some \<lparr>fl_stepId = s, fl_toolCallId = c, fl_requestId = r, fl_approvalId = a\<rparr>
         | _ \<Rightarrow> None)
      else None)"

definition turnSchema :: "(string \<Rightarrow> bool) \<Rightarrow> json \<Rightarrow> pending_turn option" where
  "turnSchema uuid v =
     (if strict [''toolUses'', ''results'', ''index'', ''inFlight''] v then
        (case (Option.bind (within_field array_of ''toolUses'' v) (\<lambda>us. all_some (map toolUseSchema us)),
               within_field array_of ''results'' v, within_field count_of ''index'' v,
               within_field (nullable (inFlightSchema uuid)) ''inFlight'' v) of
           (Some us, Some rs, Some i, Some fl) \<Rightarrow>
             Some \<lparr>pt_toolUses = us, pt_results = rs, pt_index = i, pt_inFlight = fl\<rparr>
         | _ \<Rightarrow> None)
      else None)"

definition stateSchema :: "(string \<Rightarrow> bool) \<Rightarrow> json \<Rightarrow> kernel_state option" where
  "stateSchema uuid v =
     (if json_field ''version'' v = Some (JNum 2) then
        (case (within_field array_of ''messages'' v, within_field count_of ''turns'' v, texts_field ''artifactIds'' v,
               within_field (nullable (turnSchema uuid)) ''turn'' v) of
           (Some ms, Some n, Some as, Some t) \<Rightarrow>
             Some \<lparr>ks_messages = ms, ks_turns = n, ks_artifactIds = as, ks_turn = t\<rparr>
         | _ \<Rightarrow> None)
      else None)"

section \<open>Messages of the model\<close>

datatype model_content =
    TextBlock string
  | ToolUseBlock string string "json option"
  | ToolResultBlock string string bool

fun content_json :: "model_content \<Rightarrow> json" where
  "content_json (TextBlock t) = JObj [(''type'', JStr ''text''), (''text'', JStr t)]"
| "content_json (ToolUseBlock i n v) = JObj ([(''type'', JStr ''tool_use''), (''id'', JStr i), (''name'', JStr n)] @
     (case v of None \<Rightarrow> [] | Some w \<Rightarrow> [(''input'', w)]))"
| "content_json (ToolResultBlock i c e) = JObj [(''type'', JStr ''tool_result''), (''toolUseId'', JStr i),
     (''content'', JStr c), (''isError'', JBool e)]"

definition message_json :: "string \<Rightarrow> json list \<Rightarrow> json" where
  "message_json role blocks = JObj [(''role'', JStr role), (''content'', JArr blocks)]"

record model_response =
  mo_content :: "model_content list"
  mo_stopReason :: string
  mo_inputTokens :: nat
  mo_outputTokens :: nat
  mo_latencyMs :: nat

fun text_of :: "model_content \<Rightarrow> string list" where
  "text_of (TextBlock t) = [t]"
| "text_of _ = []"

fun tool_use_of :: "model_content \<Rightarrow> tool_use list" where
  "tool_use_of (ToolUseBlock i n v) = [\<lparr>tu_id = i, tu_name = n, tu_input = v\<rparr>]"
| "tool_use_of _ = []"

definition line_break :: string where
  "line_break = [char_of (10 :: nat)]"

definition response_text :: "model_response \<Rightarrow> string" where
  "response_text r = trim (joinWith line_break (concat (map text_of (mo_content r))))"

definition tool_uses :: "model_response \<Rightarrow> tool_use list" where
  "tool_uses r = concat (map tool_use_of (mo_content r))"

section \<open>Tools\<close>

text \<open>
  A tool's work, which is not the kernel's: what it asks of the context it is given, in which order,
  depending on the answers. \<open>PerformAction\<close> and \<open>AskGrant\<close> are \<open>governedAction.execute\<close> and \<open>grant\<close>.
\<close>

record tool_output =
  to_output :: string
  to_artifactIds :: "string list"

datatype tool_work =
    ToolDone tool_output
  | ToolThrows runtime_error
  | RegisterArtifact artifact_registration "runtime_error option \<Rightarrow> tool_work"
  | PerformAction "runtime_error + json \<Rightarrow> tool_work"
  | AskGrant "runtime_error + json \<Rightarrow> tool_work"

datatype input_error = ZodIssues "(string \<times> string) list" | OtherInputError

text \<open>
  \<open>tl_parse\<close> throws on an invalid input. What a tool does may depend on the whole history.
\<close>

datatype action_answer = ActionAllowed | ActionDenied string | ActionApproval string

record action_ask =
  aq_requestId :: string
  aq_stepId :: string
  aq_toolCallId :: string
  aq_action :: string
  aq_toolId :: string
  aq_toolVersion :: string
  aq_inputDigest :: string
  aq_summary :: string
  aq_parameters :: "json option"

record tool_call =
  tc_toolId :: string
  tc_input :: json
  tc_stepId :: string
  tc_toolCallId :: string
  tc_requestId :: "string option"

section \<open>Effects\<close>

text \<open>
  Everything the kernel causes, in order: events and checkpoints that were accepted, the model's
  answers, the control plane's decisions, tools that were started, actions that were performed and
  grants that were obtained for them, identifiers that were drawn, and what failed.
\<close>

datatype effect =
    Emitted runtime_payload string
  | Saved kernel_state "string option"
  | Answered "json list" model_response
  | Decided action_ask action_answer
  | Ran tool_call
  | Performed tool_call json
  | Granted tool_call json
  | Drawn string
  | Broke runtime_error

record tool =
  tl_id :: string
  tl_version :: string
  tl_description :: string
  tl_inputSchema :: json
  tl_sendsParameters :: bool
  tl_parse :: "json option \<Rightarrow> input_error + json"
  tl_governedAction :: "json \<Rightarrow> string option"
  tl_summarize :: "json \<Rightarrow> string"
  tl_execute :: "effect list \<Rightarrow> tool_call \<Rightarrow> tool_work"

record model_tool =
  mt_name :: string
  mt_description :: string
  mt_inputSchema :: json

record model_request =
  mq_system :: string
  mq_messages :: "json list"
  mq_tools :: "model_tool list"
  mq_maxTokens :: nat

text \<open>What the kernel reads of the manifest and of the workflow it may follow.\<close>

record workflow_step =
  ws_title :: string
  ws_skill :: string
  ws_action :: "string option"

record workflow =
  wf_id :: string
  wf_version :: string
  wf_title :: string
  wf_description :: string
  wf_steps :: "workflow_step list"

record kernel_manifest =
  km_name :: string
  km_role :: string
  km_department :: string
  km_skills :: "string list"
  km_workflows :: "string list"
  km_configuration :: json
  km_profile :: string

text \<open>
  \<open>KernelContext\<close> and the options of the kernel. The answers of the rest of the platform are functions
  of the history; \<open>kc_digest\<close> is the SHA-256 of canonical JSON (\<open>None\<close> where it throws), \<open>kc_stringify\<close> is
  \<open>JSON.stringify\<close>.
\<close>

record kernel_context =
  kc_task :: task_spec
  kc_workflow :: "workflow option"
  kc_manifest :: kernel_manifest
  kc_tools :: "tool list"
  kc_maxTurns :: nat
  kc_maxTokens :: nat
  kc_emit :: "effect list \<Rightarrow> runtime_payload \<Rightarrow> string \<Rightarrow> runtime_error option"
  kc_checkpoint :: "effect list \<Rightarrow> kernel_state \<Rightarrow> string option \<Rightarrow> runtime_error option"
  kc_requestAction :: "effect list \<Rightarrow> action_ask \<Rightarrow> runtime_error + action_answer"
  kc_executeAction :: "effect list \<Rightarrow> tool_call \<Rightarrow> runtime_error + json"
  kc_requestGrant :: "effect list \<Rightarrow> tool_call \<Rightarrow> runtime_error + json"
  kc_complete :: "effect list \<Rightarrow> model_request \<Rightarrow> runtime_error + model_response"
  kc_aborted :: "effect list \<Rightarrow> runtime_error option"
  kc_randomUUID :: "effect list \<Rightarrow> string"
  kc_now :: "effect list \<Rightarrow> int"
  kc_uuid :: "string \<Rightarrow> bool"
  kc_digest :: "json \<Rightarrow> string option"
  kc_stringify :: "json \<Rightarrow> string"

section \<open>Acts\<close>

text \<open>An act extends the history and ends with a value or an exception.\<close>

type_synonym 'a act = "effect list \<Rightarrow> (runtime_error + 'a) \<times> effect list"

definition give :: "'a \<Rightarrow> 'a act" where
  "give x t = (Inr x, t)"

definition raised :: "runtime_error \<Rightarrow> 'a act" where
  "raised e t = (Inl e, t)"

definition thenDo :: "'a act \<Rightarrow> ('a \<Rightarrow> 'b act) \<Rightarrow> 'b act" where
  "thenDo m f t = (case m t of (Inl e, t') \<Rightarrow> (Inl e, t') | (Inr x, t') \<Rightarrow> f x t')"

definition caught :: "'a act \<Rightarrow> (runtime_error + 'a) act" where
  "caught m t = (case m t of (r, t') \<Rightarrow> (Inr r, t'))"

definition onlyIf :: "bool \<Rightarrow> unit act \<Rightarrow> unit act" where
  "onlyIf c m = (if c then m else give ())"

text \<open>One effect: it happens, or it breaks.\<close>

definition happens :: "'a \<Rightarrow> effect \<Rightarrow> 'a act" where
  "happens x e t = (Inr x, t @ [e])"

definition breaks :: "runtime_error \<Rightarrow> 'a act" where
  "breaks e t = (Inl e, t @ [Broke e])"

definition emit :: "kernel_context \<Rightarrow> runtime_payload \<Rightarrow> string \<Rightarrow> unit act" where
  "emit c p step t = (case kc_emit c t p step of None \<Rightarrow> happens () (Emitted p step) t | Some e \<Rightarrow> breaks e t)"

definition checkpoint :: "kernel_context \<Rightarrow> kernel_state \<Rightarrow> string option \<Rightarrow> unit act" where
  "checkpoint c st step t =
     (case kc_checkpoint c t st step of None \<Rightarrow> happens () (Saved st step) t | Some e \<Rightarrow> breaks e t)"

definition answered :: "(runtime_error + 'a) \<Rightarrow> ('a \<Rightarrow> effect) \<Rightarrow> 'a act" where
  "answered r f t = (case r of Inl e \<Rightarrow> breaks e t | Inr x \<Rightarrow> happens x (f x) t)"

definition requestAction :: "kernel_context \<Rightarrow> action_ask \<Rightarrow> action_answer act" where
  "requestAction c q t = answered (kc_requestAction c t q) (Decided q) t"

definition complete :: "kernel_context \<Rightarrow> model_request \<Rightarrow> model_response act" where
  "complete c q t = answered (kc_complete c t q) (Answered (mq_messages q)) t"

definition freshId :: "kernel_context \<Rightarrow> string act" where
  "freshId c t = happens (kc_randomUUID c t) (Drawn (kc_randomUUID c t)) t"

definition clock :: "kernel_context \<Rightarrow> int act" where
  "clock c t = (Inr (kc_now c t), t)"

definition throwIfAborted :: "kernel_context \<Rightarrow> unit act" where
  "throwIfAborted c t = (case kc_aborted c t of None \<Rightarrow> give () t | Some e \<Rightarrow> raised e t)"

section \<open>One tool call\<close>

text \<open>How the first tool call after a resume differs: the approval that released it, the open steps.\<close>

record resumption =
  re_approvalId :: "string option"
  re_openStepIds :: "string list option"

datatype tool_step = StepResult json | StepPaused string string

definition safeLabel :: "string \<Rightarrow> string" where
  "safeLabel t =
     (let u = take 60 (filter (\<lambda>c. is_alnum c \<or> c \<in> set ''._-'') t) in if u = [] then ''unknown'' else u)"

definition tool_result :: "tool_use \<Rightarrow> string \<Rightarrow> bool \<Rightarrow> tool_step" where
  "tool_result u content isError = StepResult (content_json (ToolResultBlock (tu_id u) content isError))"

definition digest :: "kernel_context \<Rightarrow> json \<Rightarrow> string act" where
  "digest c v = (case kc_digest c v of None \<Rightarrow> raised UnexpectedError | Some d \<Rightarrow> give d)"

definition toolFailed ::
  "kernel_context \<Rightarrow> string \<Rightarrow> string \<Rightarrow> nat \<Rightarrow> run_failure \<Rightarrow> tool_use \<Rightarrow> tool_step act" where
  "toolFailed c stepId toolCallId durationMs failure u =
     (let e = toExecutionError failure in
      thenDo (emit c (PToolFailed toolCallId e durationMs) stepId) (\<lambda>_.
      thenDo (emit c (PStepFailed e) stepId) (\<lambda>_.
      give (tool_result u (er_code e @ '': '' @ er_message e) True))))"

definition invalidInputMessage :: "input_error \<Rightarrow> string" where
  "invalidInputMessage e =
     (case e of
        ZodIssues is \<Rightarrow> take 1000 (joinWith ''; '' (map (\<lambda>(path, message).
          (if path = [] then ''input'' else path) @ '': '' @ message) (take 5 is)))
      | OtherInputError \<Rightarrow> ''The tool input is invalid.'')"

text \<open>The digest of the validated input; of the raw one where it is invalid, of null where that has none.\<close>

definition input_digest :: "kernel_context \<Rightarrow> (input_error + json) \<Rightarrow> json option \<Rightarrow> string act" where
  "input_digest c parsed raw =
     (case kc_digest c (case parsed of Inr v \<Rightarrow> v | Inl _ \<Rightarrow> (case raw of None \<Rightarrow> JNull | Some v \<Rightarrow> v)) of
        Some d \<Rightarrow> give d
      | None \<Rightarrow> digest c JNull)"

text \<open>
  What a tool may do while it runs. Registering an artifact that exists already is fine for a call that
  is repeated; a tool without a governed action has neither \<open>execute\<close> nor \<open>grant\<close>.
\<close>

definition register :: "kernel_context \<Rightarrow> bool \<Rightarrow> tool_call \<Rightarrow> artifact_registration \<Rightarrow> unit act" where
  "register c resumed k a =
     thenDo (caught (emit c (PArtifactCreated a) (tc_stepId k))) (\<lambda>r.
     case r of
       Inr _ \<Rightarrow> give ()
     | Inl e \<Rightarrow>
         if resumed \<and> (case e of ControlPlaneError _ code \<Rightarrow> code = ''ARTIFACT_ALREADY_EXISTS'' | _ \<Rightarrow> False)
         then give () else raised e)"

definition governed :: "tool_call \<Rightarrow> json act \<Rightarrow> json act" where
  "governed k m = (if tc_requestId k = None then raised UnexpectedError else m)"

primrec run_work :: "kernel_context \<Rightarrow> bool \<Rightarrow> tool_call \<Rightarrow> tool_work \<Rightarrow> tool_output act" where
  "run_work c resumed k (ToolDone out) = give out"
| "run_work c resumed k (ToolThrows e) = raised e"
| "run_work c resumed k (RegisterArtifact a f) =
     thenDo (caught (register c resumed k a)) (\<lambda>r.
     run_work c resumed k (f (case r of Inl e \<Rightarrow> Some e | Inr _ \<Rightarrow> None)))"
| "run_work c resumed k (PerformAction f) =
     thenDo (caught (governed k (\<lambda>t. answered (kc_executeAction c t k) (Performed k) t))) (\<lambda>r.
     run_work c resumed k (f r))"
| "run_work c resumed k (AskGrant f) =
     thenDo (caught (governed k (\<lambda>t. answered (kc_requestGrant c t k) (Granted k) t))) (\<lambda>r.
     run_work c resumed k (f r))"

text \<open>The identifiers of the call: those of the call in progress, or new ones.\<close>

definition call_ids :: "kernel_context \<Rightarrow> in_flight option \<Rightarrow> (string \<times> string) act" where
  "call_ids c resumed =
     (case resumed of
        Some fl \<Rightarrow> give (fl_stepId fl, fl_toolCallId fl)
      | None \<Rightarrow> thenDo (freshId c) (\<lambda>s. thenDo (freshId c) (\<lambda>i. give (s, i))))"

text \<open>The call's step ended at the control plane after the checkpoint: only its output was lost.\<close>

definition ended_elsewhere :: "in_flight option \<Rightarrow> resumption option \<Rightarrow> bool" where
  "ended_elsewhere resumed rs =
     (case (resumed, Option.bind rs re_openStepIds) of
        (Some fl, Some still) \<Rightarrow> fl_stepId fl \<notin> set still
      | _ \<Rightarrow> False)"

definition lost_message :: "tool_use \<Rightarrow> string" where
  "lost_message u = ''TOOL_OUTCOME_UNKNOWN: '' @ safeLabel (tu_name u) @ '' finished before this runtime took over '' @
     ''the run, and its output was not kept. Check its effect before deciding to repeat it.''"

definition set_turn :: "kernel_state \<Rightarrow> pending_turn \<Rightarrow> kernel_state" where
  "set_turn st turn = st\<lparr>ks_turn := Some turn\<rparr>"

text \<open>The call is checkpointed, with all its identifiers, before anything is asked for it.\<close>

definition begin_call ::
  "kernel_context \<Rightarrow> kernel_state \<Rightarrow> pending_turn \<Rightarrow> string \<Rightarrow> string \<Rightarrow> (in_flight \<times> pending_turn) act" where
  "begin_call c st turn stepId toolCallId =
     (case pt_inFlight turn of
        Some fl \<Rightarrow> give (fl, turn)
      | None \<Rightarrow>
          thenDo (freshId c) (\<lambda>requestId.
          let fl = \<lparr>fl_stepId = stepId, fl_toolCallId = toolCallId, fl_requestId = requestId, fl_approvalId = None\<rparr>;
              turn' = turn\<lparr>pt_inFlight := Some fl\<rparr> in
          thenDo (checkpoint c (set_turn st turn') (Some stepId)) (\<lambda>_. give (fl, turn'))))"

definition ask_for :: "tool \<Rightarrow> in_flight \<Rightarrow> string \<Rightarrow> json \<Rightarrow> string \<Rightarrow> action_ask" where
  "ask_for tk fl action input inputDigest =
     \<lparr>aq_requestId = fl_requestId fl, aq_stepId = fl_stepId fl, aq_toolCallId = fl_toolCallId fl, aq_action = action,
      aq_toolId = tl_id tk, aq_toolVersion = tl_version tk, aq_inputDigest = inputDigest,
      aq_summary = take 500 (tl_summarize tk input),
      aq_parameters = (if tl_sendsParameters tk then Some input else None)\<rparr>"

datatype call_verdict = Proceed | Denied string | WaitFor string

text \<open>
  A call whose approval is known was decided before. One that the very approval of this resume releases
  goes on, although its pause was not checkpointed.
\<close>

definition decide_call ::
  "kernel_context \<Rightarrow> kernel_state \<Rightarrow> pending_turn \<Rightarrow> in_flight \<Rightarrow> tool \<Rightarrow> json \<Rightarrow> string \<Rightarrow> resumption option \<Rightarrow>
   (call_verdict \<times> pending_turn) act" where
  "decide_call c st turn fl tk input inputDigest rs =
     (case (tl_governedAction tk input, fl_approvalId fl) of
        (Some action, None) \<Rightarrow>
          thenDo (requestAction c (ask_for tk fl action input inputDigest)) (\<lambda>answer.
          case answer of
            ActionAllowed \<Rightarrow> give (Proceed, turn)
          | ActionDenied reason \<Rightarrow> give (Denied reason, turn)
          | ActionApproval i \<Rightarrow>
              let turn' = turn\<lparr>pt_inFlight := Some (fl\<lparr>fl_approvalId := Some i\<rparr>)\<rparr> in
              if Option.bind rs re_approvalId \<noteq> Some i then give (WaitFor i, turn')
              else thenDo (checkpoint c (set_turn st turn') (Some (fl_stepId fl))) (\<lambda>_. give (Proceed, turn')))
      | _ \<Rightarrow> give (Proceed, turn))"

text \<open>What a tool throws: reported as it is where the runtime threw it, otherwise only that it failed.\<close>

definition call_broke ::
  "kernel_context \<Rightarrow> tool \<Rightarrow> tool_call \<Rightarrow> tool_use \<Rightarrow> int \<Rightarrow> runtime_error \<Rightarrow> tool_step act" where
  "call_broke c tk k u started e =
     thenDo (throwIfAborted c) (\<lambda>_. thenDo (clock c) (\<lambda>ended.
     toolFailed c (tc_stepId k) (tc_toolCallId k) (nat (ended - started))
       (case e of
          RuntimeFailure _ _ _ \<Rightarrow> asRuntimeFailure e
        | _ \<Rightarrow> \<lparr>rf_code = ''TOOL_EXECUTION_FAILED'', rf_message = tl_id tk @ '' failed.'', rf_retryable = False\<rparr>) u))"

definition report_done :: "kernel_context \<Rightarrow> tool \<Rightarrow> tool_call \<Rightarrow> int \<Rightarrow> tool_output \<Rightarrow> unit act" where
  "report_done c tk k started out =
     thenDo (digest c (JStr (to_output out))) (\<lambda>d. thenDo (clock c) (\<lambda>ended.
     thenDo (emit c (PToolCompleted (tc_toolCallId k) d (nat (ended - started)) (to_artifactIds out)) (tc_stepId k)) (\<lambda>_.
     emit c (PStepCompleted (Some (tl_id tk @ '' succeeded''))) (tc_stepId k))))"

definition execute_call ::
  "kernel_context \<Rightarrow> kernel_state \<Rightarrow> bool \<Rightarrow> tool \<Rightarrow> tool_call \<Rightarrow> tool_use \<Rightarrow> (tool_step \<times> kernel_state) act" where
  "execute_call c st resumed tk k u =
     thenDo (emit c (PToolStarted (tc_toolCallId k)) (tc_stepId k)) (\<lambda>_. thenDo (clock c) (\<lambda>started.
     thenDo (happens () (Ran k)) (\<lambda>_.
     thenDo (caught (\<lambda>t. run_work c resumed k (tl_execute tk t k) t)) (\<lambda>r.
     case r of
       Inl e \<Rightarrow> thenDo (call_broke c tk k u started e) (\<lambda>step. give (step, st))
     | Inr out \<Rightarrow>
         let st' = st\<lparr>ks_artifactIds := ks_artifactIds st @ to_artifactIds out\<rparr> in
         thenDo (caught (report_done c tk k started out)) (\<lambda>r.
         case r of
           Inl e \<Rightarrow> thenDo (call_broke c tk k u started e) (\<lambda>step. give (step, st'))
         | Inr _ \<Rightarrow> give (tool_result u (take 50000 (to_output out)) False, st'))))))"

text \<open>A call with a valid input: it is begun, decided and, where that allows it, executed.\<close>

definition governed_call ::
  "kernel_context \<Rightarrow> kernel_state \<Rightarrow> pending_turn \<Rightarrow> tool_use \<Rightarrow> tool \<Rightarrow> json \<Rightarrow> string \<Rightarrow> string \<Rightarrow> string \<Rightarrow>
   resumption option \<Rightarrow> (tool_step \<times> kernel_state) act" where
  "governed_call c st turn u tk input inputDigest stepId toolCallId rs =
     thenDo (begin_call c st turn stepId toolCallId) (\<lambda>(fl, turn1).
     thenDo (decide_call c st turn1 fl tk input inputDigest rs) (\<lambda>(verdict, turn2).
     case verdict of
       Denied reason \<Rightarrow>
         thenDo (toolFailed c stepId toolCallId 0
            \<lparr>rf_code = ''ACTION_DENIED'', rf_message = reason, rf_retryable = False\<rparr> u) (\<lambda>step. give (step, set_turn st turn2))
     | WaitFor i \<Rightarrow> give (StepPaused i stepId, set_turn st turn2)
     | Proceed \<Rightarrow>
         execute_call c (set_turn st turn2) (pt_inFlight turn \<noteq> None) tk
           \<lparr>tc_toolId = tl_id tk, tc_input = input, tc_stepId = stepId, tc_toolCallId = toolCallId,
            tc_requestId = (if tl_governedAction tk input = None then None else Some (fl_requestId fl))\<rparr> u))"

definition runTool ::
  "kernel_context \<Rightarrow> kernel_state \<Rightarrow> pending_turn \<Rightarrow> tool_use \<Rightarrow> resumption option \<Rightarrow> (tool_step \<times> kernel_state) act" where
  "runTool c st turn u rs =
     thenDo (call_ids c (pt_inFlight turn)) (\<lambda>(stepId, toolCallId).
     if ended_elsewhere (pt_inFlight turn) rs then give (tool_result u (lost_message u) True, set_turn st turn)
     else
       thenDo (onlyIf (pt_inFlight turn = None)
          (emit c (PStepStarted TOOL (''Tool call: '' @ safeLabel (tu_name u))) stepId)) (\<lambda>_.
       case find (\<lambda>tk. tl_id tk = tu_name u) (kc_tools c) of
         None \<Rightarrow>
           thenDo (emit c (PStepFailed \<lparr>er_code = ''TOOL_NOT_AVAILABLE'',
              er_message = ''The tool is not granted to this agent.''\<rparr>) stepId) (\<lambda>_.
           give (tool_result u (''Tool '' @ safeLabel (tu_name u) @ '' is not available.'') True, set_turn st turn))
       | Some tk \<Rightarrow>
           thenDo (input_digest c (tl_parse tk (tu_input u)) (tu_input u)) (\<lambda>d.
           thenDo (onlyIf (pt_inFlight turn = None)
              (emit c (PToolRequested toolCallId (tl_id tk) (tl_version tk) d) stepId)) (\<lambda>_.
           case tl_parse tk (tu_input u) of
             Inl e \<Rightarrow>
               thenDo (toolFailed c stepId toolCallId 0
                  \<lparr>rf_code = ''TOOL_INPUT_INVALID'', rf_message = invalidInputMessage e, rf_retryable = False\<rparr> u)
                 (\<lambda>step. give (step, set_turn st turn))
           | Inr input \<Rightarrow> governed_call c st turn u tk input d stepId toolCallId rs))))"

section \<open>Prompts\<close>

definition or_none :: "string \<Rightarrow> string" where
  "or_none t = (if t = [] then ''none'' else t)"

definition workflow_line :: "nat \<Rightarrow> workflow_step \<Rightarrow> string" where
  "workflow_line i w = ''  '' @ digits (Suc i) @ ''. '' @ ws_title w @ '' (skill '' @ ws_skill w @
     (case ws_action w of None \<Rightarrow> [] | Some a \<Rightarrow> '', governed action '' @ a) @ '')''"

definition workflowGuide :: "kernel_context \<Rightarrow> string list" where
  "workflowGuide c =
     (case kc_workflow c of
        None \<Rightarrow> []
      | Some w \<Rightarrow>
          if ts_workflow (kc_task c) \<noteq> Some (wf_id w) then []
          else [''Follow workflow '' @ wf_id w @ ''@'' @ wf_version w @ '' ('' @ wf_title w @ ''): '' @ wf_description w] @
            map (\<lambda>(i, step). workflow_line i step) (enumerate 0 (wf_steps w)) @
            [''Finish with a short report: what you checked, the evidence, and any defects you filed.''])"

definition systemPrompt :: "kernel_context \<Rightarrow> string" where
  "systemPrompt c =
     (let m = kc_manifest c in
      joinWith line_break
       ([''You are '' @ km_name m @ '', a '' @ km_role m @ '' employee agent in the '' @ km_department m @ '' department.'',
         ''You work for one employee inside their organization. Skills: '' @ or_none (joinWith '', '' (km_skills m)) @ ''.'',
         ''Workflows you may follow: '' @ or_none (joinWith '', '' (km_workflows m)) @ ''.''] @
        workflowGuide c @
        [''Use only the tools you are given. Some tool calls perform governed actions: the platform may'',
         ''deny them or pause the run until a human approves. Never claim an action happened unless its'',
         ''tool call succeeded. Never ask for, reveal or store secrets.'',
         ''Assignment configuration (JSON): '' @ kc_stringify c (km_configuration m)]))"

definition taskPrompt :: "kernel_context \<Rightarrow> string" where
  "taskPrompt c =
     (let task = kc_task c in
      joinWith line_break (filter (\<lambda>t. t \<noteq> [])
       [''Objective: '' @ ts_objective task,
        (case ts_workflow task of None \<Rightarrow> [] | Some w \<Rightarrow> if w = [] then [] else ''Workflow: '' @ w),
        (case ts_workItem task of None \<Rightarrow> [] | Some w \<Rightarrow> ''Work item: '' @ wi_system w @ '' '' @ wi_key w),
        (if ts_inputs task = [] then [] else ''Inputs (JSON): '' @ kc_stringify c (JObj (ts_inputs task)))]))"

section \<open>The loop\<close>

datatype kernel_outcome =
    KernelCompleted string "string list"
  | KernelPaused string string kernel_state
  | KernelFailed run_failure

datatype progress = Over kernel_outcome | Onward kernel_state

text \<open>Only the call that was in progress is continued; later ones start afresh.\<close>

function runTools ::
  "kernel_context \<Rightarrow> resumption option \<Rightarrow> kernel_state \<Rightarrow> pending_turn \<Rightarrow> (kernel_outcome option \<times> kernel_state) act" where
  "runTools c rs st turn t =
     (if pt_index turn < length (pt_toolUses turn)
      then (case runTool c st turn (pt_toolUses turn ! pt_index turn) (if pt_inFlight turn = None then None else rs) t of
              (Inl e, t') \<Rightarrow> (Inl e, t')
            | (Inr (StepPaused i stepId, st'), t') \<Rightarrow> (Inr (Some (KernelPaused i stepId st'), st'), t')
            | (Inr (StepResult block, st'), t') \<Rightarrow>
                (let turn' = turn\<lparr>pt_results := pt_results turn @ [block], pt_inFlight := None, pt_index := Suc (pt_index turn)\<rparr> in
                 case checkpoint c (set_turn st' turn') None t' of
                   (Inl e, t'') \<Rightarrow> (Inl e, t'')
                 | (Inr _, t'') \<Rightarrow> runTools c None (set_turn st' turn') turn' t''))
      else (Inr (None, set_turn st turn), t))"
  by pat_completeness auto
termination by (relation "measure (\<lambda>(c, rs, st, turn, t). length (pt_toolUses turn) - pt_index turn)") auto

text \<open>The tools of a turn that is pending, and the message with their results.\<close>

definition finish_turn :: "kernel_context \<Rightarrow> resumption option \<Rightarrow> kernel_state \<Rightarrow> progress act" where
  "finish_turn c rs st =
     (case ks_turn st of
        None \<Rightarrow> give (Onward st)
      | Some turn \<Rightarrow>
          thenDo (runTools c rs st turn) (\<lambda>(paused, st').
          case paused of
            Some o' \<Rightarrow> give (Over o')
          | None \<Rightarrow> give (Onward (st'\<lparr>ks_messages := ks_messages st' @
              [message_json ''user'' (case ks_turn st' of None \<Rightarrow> [] | Some turn' \<Rightarrow> pt_results turn')], ks_turn := None\<rparr>))))"

definition kernel_failure :: "string \<Rightarrow> string \<Rightarrow> kernel_outcome" where
  "kernel_failure code message = KernelFailed \<lparr>rf_code = code, rf_message = message, rf_retryable = False\<rparr>"

definition tool_spec :: "tool \<Rightarrow> model_tool" where
  "tool_spec tk = \<lparr>mt_name = tl_id tk, mt_description = tl_description tk, mt_inputSchema = tl_inputSchema tk\<rparr>"

definition turn_request :: "kernel_context \<Rightarrow> kernel_state \<Rightarrow> model_request" where
  "turn_request c st = \<lparr>mq_system = systemPrompt c, mq_messages = ks_messages st, mq_tools = map tool_spec (kc_tools c),
     mq_maxTokens = kc_maxTokens c\<rparr>"

text \<open>What the model answered: the run is done, or has tools to run, which is checkpointed.\<close>

definition take_response :: "kernel_context \<Rightarrow> kernel_state \<Rightarrow> string \<Rightarrow> model_response \<Rightarrow> progress act" where
  "take_response c st stepId r =
     thenDo (emit c (PModelResponded (km_profile (kc_manifest c)) (mo_inputTokens r) (mo_outputTokens r) (mo_latencyMs r)
        (take 40 (mo_stopReason r))) stepId) (\<lambda>_.
     thenDo (onlyIf (response_text r \<noteq> []) (emit c (PAgentMessage (take 20000 (response_text r))) stepId)) (\<lambda>_.
     thenDo (emit c (PStepCompleted None) stepId) (\<lambda>_.
     let st' = st\<lparr>ks_messages := ks_messages st @ [message_json ''assistant'' (map content_json (mo_content r))]\<rparr> in
     if tool_uses r = []
     then give (Over (KernelCompleted (take 4000 (if response_text r = [] then ''Completed.'' else response_text r))
        (ks_artifactIds st)))
     else
       let st'' = set_turn st' \<lparr>pt_toolUses = tool_uses r, pt_results = [], pt_index = 0, pt_inFlight = None\<rparr> in
       thenDo (checkpoint c st'' None) (\<lambda>_. give (Onward st'')))))"

text \<open>One turn of the model; \<open>st\<close> has no turn pending.\<close>

definition model_turn :: "kernel_context \<Rightarrow> kernel_state \<Rightarrow> progress act" where
  "model_turn c st =
     (if ks_turns st \<ge> kc_maxTurns c
      then give (Over (kernel_failure ''MAX_TURNS_EXCEEDED''
        (''The run exceeded '' @ digits (kc_maxTurns c) @ '' model turns.'')))
      else
        let st' = st\<lparr>ks_turns := Suc (ks_turns st)\<rparr> in
        thenDo (freshId c) (\<lambda>stepId.
        thenDo (emit c (PStepStarted MODEL (''Model turn '' @ digits (ks_turns st'))) stepId) (\<lambda>_.
        thenDo (emit c (PModelRequested (km_profile (kc_manifest c)) ''chat'') stepId) (\<lambda>_.
        thenDo (caught (complete c (turn_request c st'))) (\<lambda>r.
        case r of
          Inl e \<Rightarrow>
            thenDo (emit c (PStepFailed (toExecutionError (asRuntimeFailure e))) stepId) (\<lambda>_.
            give (Over (KernelFailed (asRuntimeFailure e))))
        | Inr response \<Rightarrow> take_response c st' stepId response)))))"

text \<open>What the value of an act satisfies, whatever happened on the way.\<close>

definition yields :: "('a \<Rightarrow> bool) \<Rightarrow> 'a act \<Rightarrow> bool" where
  "yields P m \<longleftrightarrow> (\<forall>t x t'. m t = (Inr x, t') \<longrightarrow> P x)"

lemma yieldsD: "yields P m \<Longrightarrow> m t = (Inr x, t') \<Longrightarrow> P x"
  unfolding yields_def by blast

named_theorems yields_rules

lemma yields_give [yields_rules]: "P x \<Longrightarrow> yields P (give x)"
  by (simp add: yields_def give_def)

lemma yields_thenDo [yields_rules]: "(\<And>x. yields P (f x)) \<Longrightarrow> yields P (thenDo m f)"
  by (fastforce simp: yields_def thenDo_def split: prod.splits sum.splits)

lemma yields_through: "yields Q m \<Longrightarrow> (\<And>x. Q x \<Longrightarrow> yields P (f x)) \<Longrightarrow> yields P (thenDo m f)"
  by (fastforce simp: yields_def thenDo_def split: prod.splits sum.splits)

lemma yields_if [yields_rules]: "(c \<Longrightarrow> yields P m) \<Longrightarrow> (\<not> c \<Longrightarrow> yields P n) \<Longrightarrow> yields P (if c then m else n)"
  by simp

lemma yields_option [yields_rules]:
  "(v = None \<Longrightarrow> yields P m) \<Longrightarrow> (\<And>x. v = Some x \<Longrightarrow> yields P (f x)) \<Longrightarrow> yields P (case v of None \<Rightarrow> m | Some x \<Rightarrow> f x)"
  by (cases v) simp_all

lemma yields_sum [yields_rules]:
  "(\<And>e. v = Inl e \<Longrightarrow> yields P (g e)) \<Longrightarrow> (\<And>x. v = Inr x \<Longrightarrow> yields P (f x)) \<Longrightarrow>
   yields P (case v of Inl e \<Rightarrow> g e | Inr x \<Rightarrow> f x)"
  by (cases v) simp_all

lemma yields_pair [yields_rules]: "(\<And>x y. v = (x, y) \<Longrightarrow> yields P (f x y)) \<Longrightarrow> yields P (case v of (x, y) \<Rightarrow> f x y)"
  by (cases v) simp

lemma yields_verdict [yields_rules]:
  "yields P m \<Longrightarrow> (\<And>x. yields P (f x)) \<Longrightarrow> (\<And>x. yields P (g x)) \<Longrightarrow>
   yields P (case v of Proceed \<Rightarrow> m | Denied x \<Rightarrow> f x | WaitFor x \<Rightarrow> g x)"
  by (cases v) simp_all

text \<open>Running the tools leaves the number of turns, a turn of the model adds one.\<close>

lemma execute_call_turns: "yields (\<lambda>(step, st'). ks_turns st' = ks_turns st) (execute_call c st resumed tk k u)"
  unfolding execute_call_def Let_def by (intro yields_rules) simp_all

lemma runTool_turns: "yields (\<lambda>(step, st'). ks_turns st' = ks_turns st) (runTool c st turn u rs)"
proof -
  have "yields (\<lambda>(step, st'). ks_turns st' = ks_turns st) (execute_call c (set_turn st turn') resumed tk k u)" for turn' resumed tk k
    using execute_call_turns [of "set_turn st turn'"] by (simp add: set_turn_def)
  then show ?thesis
    unfolding runTool_def governed_call_def Let_def by (intro yields_rules) (simp_all add: set_turn_def)
qed

lemma runTools_turns: "runTools c rs st turn t = (Inr (paused, st'), t') \<Longrightarrow> ks_turns st' = ks_turns st"
proof (induction c rs st turn t arbitrary: paused st' t' rule: runTools.induct)
  case (1 c rs st turn t)
  let ?u = "pt_toolUses turn ! pt_index turn" and ?rs = "if pt_inFlight turn = None then None else rs"
  show ?case
  proof (cases "pt_index turn < length (pt_toolUses turn)")
    case False
    with 1(2) show ?thesis by (auto simp: set_turn_def)
  next
    case True
    with 1(2) obtain step st1 t1 where run: "runTool c st turn ?u ?rs t = (Inr (step, st1), t1)"
      by (auto split: prod.splits sum.splits)
    then have turns: "ks_turns st1 = ks_turns st" using runTool_turns [of st c turn ?u ?rs] by (fastforce simp: yields_def)
    show ?thesis
    proof (cases step)
      case (StepPaused i stepId)
      with 1(2) True run turns show ?thesis by simp
    next
      case (StepResult block)
      let ?turn = "turn\<lparr>pt_results := pt_results turn @ [block], pt_inFlight := None, pt_index := Suc (pt_index turn)\<rparr>"
      obtain r t2 where saved: "checkpoint c (set_turn st1 ?turn) None t1 = (r, t2)" by (meson surj_pair)
      with 1(2) True run StepResult obtain v where
        v: "r = Inr v" "runTools c None (set_turn st1 ?turn) ?turn t2 = (Inr (paused, st'), t')"
        by (cases r) (simp_all add: Let_def)
      from 1(1) [OF True run [symmetric] refl refl StepResult refl saved [symmetric] v]
      have "ks_turns st' = ks_turns (set_turn st1 ?turn)" .
      with turns show ?thesis by (simp add: set_turn_def)
    qed
  qed
qed

lemma finish_turn_turns: "yields (\<lambda>p. case p of Over _ \<Rightarrow> True | Onward st' \<Rightarrow> ks_turns st' = ks_turns st) (finish_turn c rs st)"
proof -
  have "yields (\<lambda>(paused, st'). ks_turns st' = ks_turns st) (runTools c rs st turn)" for turn
    using runTools_turns by (fastforce simp: yields_def)
  then show ?thesis
    unfolding finish_turn_def by (intro yields_option yields_give yields_through [where Q = "\<lambda>(paused, st'). ks_turns st' = ks_turns st"])
      (auto intro!: yields_rules)
qed

lemma model_turn_turns:
  "yields (\<lambda>p. case p of Over _ \<Rightarrow> True | Onward st' \<Rightarrow> ks_turns st < kc_maxTurns c \<and> ks_turns st' = Suc (ks_turns st))
     (model_turn c st)"
  unfolding model_turn_def take_response_def Let_def by (intro yields_rules) (simp_all add: set_turn_def)

function loop :: "kernel_context \<Rightarrow> resumption option \<Rightarrow> kernel_state \<Rightarrow> effect list \<Rightarrow> kernel_outcome \<times> effect list" where
  "loop c rs st t =
     (case thenDo (throwIfAborted c) (\<lambda>_. finish_turn c rs st) t of
        (Inl e, t') \<Rightarrow> (KernelFailed (asRuntimeFailure e), t')
      | (Inr (Over o'), t') \<Rightarrow> (o', t')
      | (Inr (Onward st'), t') \<Rightarrow>
          (case model_turn c st' t' of
             (Inl e, t'') \<Rightarrow> (KernelFailed (asRuntimeFailure e), t'')
           | (Inr (Over o'), t'') \<Rightarrow> (o', t'')
           | (Inr (Onward st''), t'') \<Rightarrow> loop c None st'' t''))"
  by pat_completeness auto
termination
proof (relation "measure (\<lambda>(c, rs, st, t). kc_maxTurns c - ks_turns st)", simp, clarsimp)
  fix c rs st t st' t' st'' t''
  assume one: "(Inr (Onward st'), t') = thenDo (throwIfAborted c) (\<lambda>_. finish_turn c rs st) t"
    and two: "(Inr (Onward st''), t'') = model_turn c st' t'"
  from finish_turn_turns [of st c rs] have "yields (\<lambda>p. case p of Over _ \<Rightarrow> True | Onward st' \<Rightarrow> ks_turns st' = ks_turns st)
      (thenDo (throwIfAborted c) (\<lambda>_. finish_turn c rs st))"
    by (rule yields_thenDo)
  from yieldsD [OF this one [symmetric]] have "ks_turns st' = ks_turns st" by simp
  moreover have "ks_turns st' < kc_maxTurns c \<and> ks_turns st'' = Suc (ks_turns st')"
    using yieldsD [OF model_turn_turns two [symmetric]] by simp
  ultimately show "kc_maxTurns c - ks_turns st'' < kc_maxTurns c - ks_turns st" by linarith
qed

declare runTools.simps [simp del] loop.simps [simp del]

section \<open>Starting and resuming\<close>

definition initial_state :: "kernel_context \<Rightarrow> kernel_state" where
  "initial_state c = \<lparr>ks_messages = [message_json ''user'' [content_json (TextBlock (taskPrompt c))]], ks_turns = 0,
     ks_artifactIds = [], ks_turn = None\<rparr>"

definition kernel_start :: "kernel_context \<Rightarrow> effect list \<Rightarrow> kernel_outcome \<times> effect list" where
  "kernel_start c t =
     (case checkpoint c (initial_state c) None t of
        (Inl e, t') \<Rightarrow> (KernelFailed (asRuntimeFailure e), t')
      | (Inr _, t') \<Rightarrow> loop c None (initial_state c) t')"

text \<open>An approval is the id and whether it was granted; a recovery, the steps that are still open.\<close>

definition mismatched :: "kernel_state \<Rightarrow> string \<Rightarrow> bool" where
  "mismatched st approvalId =
     (case Option.bind (ks_turn st) pt_inFlight of
        None \<Rightarrow> True
      | Some fl \<Rightarrow> (case fl_approvalId fl of None \<Rightarrow> False | Some a \<Rightarrow> a \<noteq> approvalId))"

definition kernel_resume ::
  "kernel_context \<Rightarrow> json \<Rightarrow> (string \<times> bool) option \<Rightarrow> string list option \<Rightarrow> effect list \<Rightarrow> kernel_outcome \<times> effect list" where
  "kernel_resume c raw approval recovery t =
     (case stateSchema (kc_uuid c) raw of
        None \<Rightarrow> (kernel_failure ''RUNTIME_CHECKPOINT_INVALID'' ''The run checkpoint could not be read.'', t)
      | Some st \<Rightarrow>
          if (case approval of None \<Rightarrow> False | Some (i, _) \<Rightarrow> mismatched st i)
          then (kernel_failure ''RUNTIME_APPROVAL_MISMATCH'' ''The approval does not match the paused action.'', t)
          else if (case approval of None \<Rightarrow> False | Some (_, granted) \<Rightarrow> \<not> granted)
          then (kernel_failure ''ACTION_REJECTED'' ''The governed action was rejected.'', t)
          else loop c (Some \<lparr>re_approvalId = map_option fst approval, re_openStepIds = recovery\<rparr>) st t)"

end
