(* ===== verification/KernelHistory.thy ===== *)
theory KernelHistory
  imports AgentKernel
begin

text \<open>
  What the history of a kernel shows: every effect is judged by what happened before it. \<open>obeys\<close> is the
  triple of an act for such a law; \<open>lawful\<close> is the law of the native kernel.
\<close>

section \<open>Laws of histories\<close>

definition follows :: "(effect list \<Rightarrow> effect \<Rightarrow> bool) \<Rightarrow> effect list \<Rightarrow> effect list \<Rightarrow> bool" where
  "follows C t t' \<longleftrightarrow> (\<exists>u. t' = t @ u \<and> (\<forall>p e s. u = p @ e # s \<longrightarrow> C (t @ p) e))"

lemma follows_refl [simp]: "follows C t t"
  by (simp add: follows_def)

lemma follows_one: "C t e \<Longrightarrow> follows C t (t @ [e])"
  by (auto simp: follows_def Cons_eq_append_conv)

lemma follows_trans: "follows C t t1 \<Longrightarrow> follows C t1 t2 \<Longrightarrow> follows C t t2"
proof -
  assume "follows C t t1" and "follows C t1 t2"
  then obtain u v where u: "t1 = t @ u" "\<And>p e s. u = p @ e # s \<Longrightarrow> C (t @ p) e"
    and v: "t2 = t1 @ v" "\<And>p e s. v = p @ e # s \<Longrightarrow> C (t1 @ p) e"
    unfolding follows_def by blast
  have "C (t @ p) e" if "u @ v = p @ e # s" for p e s
  proof -
    from that obtain us where "(u = p @ us \<and> us @ v = e # s) \<or> (u @ us = p \<and> v = us @ e # s)"
      by (auto simp: append_eq_append_conv2)
    then show ?thesis
    proof
      assume left: "u = p @ us \<and> us @ v = e # s"
      show ?thesis
      proof (cases us)
        case Nil
        with left v(2) [of "[]" e s] u(1) show ?thesis by simp
      next
        case (Cons a us')
        with left u(2) [of p e us'] show ?thesis by simp
      qed
    next
      assume "u @ us = p \<and> v = us @ e # s"
      with v(2) [of us e s] u(1) show ?thesis by auto
    qed
  qed
  then show ?thesis unfolding follows_def using u(1) v(1) by (intro exI [of _ "u @ v"]) simp
qed

lemma follows_extends: "follows C t t' \<Longrightarrow> set t \<subseteq> set t'"
  by (auto simp: follows_def)

lemma follows_at: "follows C [] (p @ e # s) \<Longrightarrow> C p e"
  by (auto simp: follows_def)

text \<open>A fact that later effects cannot undo.\<close>

definition lasting :: "(effect list \<Rightarrow> bool) \<Rightarrow> bool" where
  "lasting P \<longleftrightarrow> (\<forall>t u. P t \<longrightarrow> P (t @ u))"

lemma lasting_follows: "lasting P \<Longrightarrow> follows C t t' \<Longrightarrow> P t \<Longrightarrow> P t'"
  by (auto simp: lasting_def follows_def)

lemma lasting_rules [intro!, simp]:
  "lasting (\<lambda>_. b)" "lasting (\<lambda>t. e \<in> set t)"
  "lasting P \<Longrightarrow> lasting Q \<Longrightarrow> lasting (\<lambda>t. P t \<and> Q t)"
  "lasting P \<Longrightarrow> lasting Q \<Longrightarrow> lasting (\<lambda>t. P t \<or> Q t)"
  "(\<And>x. lasting (\<lambda>t. R x t)) \<Longrightarrow> lasting (\<lambda>t. \<exists>x. R x t)"
  "(\<And>x. lasting (\<lambda>t. R x t)) \<Longrightarrow> lasting (\<lambda>t. \<forall>x. R x t)"
  by (auto simp: lasting_def)

definition obeys ::
  "(effect list \<Rightarrow> effect \<Rightarrow> bool) \<Rightarrow> (effect list \<Rightarrow> bool) \<Rightarrow> 'a act \<Rightarrow> ('a \<Rightarrow> effect list \<Rightarrow> bool) \<Rightarrow> bool" where
  "obeys C P m Q \<longleftrightarrow> (\<forall>t. P t \<longrightarrow> follows C t (snd (m t)) \<and> (\<forall>x t'. m t = (Inr x, t') \<longrightarrow> Q x t'))"

lemma obeysD: "obeys C P m Q \<Longrightarrow> P t \<Longrightarrow> m t = (r, t') \<Longrightarrow> follows C t t' \<and> (\<forall>x. r = Inr x \<longrightarrow> Q x t')"
  unfolding obeys_def by fastforce

lemma obeys_weaken: "obeys C P m Q \<Longrightarrow> (\<And>t. P' t \<Longrightarrow> P t) \<Longrightarrow> (\<And>x t. Q x t \<Longrightarrow> Q' x t) \<Longrightarrow> obeys C P' m Q'"
  unfolding obeys_def by blast

lemma obeys_never: "(\<And>t. \<not> P t) \<Longrightarrow> obeys C P m Q"
  by (simp add: obeys_def)

lemma obeys_give: "(\<And>t. P t \<Longrightarrow> Q x t) \<Longrightarrow> obeys C P (give x) Q"
  by (simp add: obeys_def give_def)

lemma obeys_raised: "obeys C P (raised e) Q"
  by (simp add: obeys_def raised_def)

lemma obeys_thenDo: "obeys C P m R \<Longrightarrow> (\<And>x. obeys C (R x) (f x) Q) \<Longrightarrow> obeys C P (thenDo m f) Q"
proof -
  assume m: "obeys C P m R" and f: "\<And>x. obeys C (R x) (f x) Q"
  show ?thesis
    unfolding obeys_def
  proof (intro allI impI)
    fix t
    assume P: "P t"
    obtain r t1 where run: "m t = (r, t1)" by (meson surj_pair)
    note one = obeysD [OF m P run]
    show "follows C t (snd (thenDo m f t)) \<and> (\<forall>x t'. thenDo m f t = (Inr x, t') \<longrightarrow> Q x t')"
    proof (cases r)
      case (Inl e)
      with run one show ?thesis by (simp add: thenDo_def)
    next
      case (Inr x)
      with one have R: "R x t1" by blast
      obtain r2 t2 where run2: "f x t1 = (r2, t2)" by (meson surj_pair)
      from obeysD [OF f R run2] one run run2 Inr show ?thesis
        by (auto simp: thenDo_def intro: follows_trans)
    qed
  qed
qed

lemma obeys_pair:
  "obeys C P m (\<lambda>(x, y). R x y) \<Longrightarrow> (\<And>x y. obeys C (R x y) (f x y) Q) \<Longrightarrow> obeys C P (thenDo m (\<lambda>(x, y). f x y)) Q"
  by (erule obeys_thenDo) auto

text \<open>An act that leaves a lasting fact as it is.\<close>

lemma obeys_then: "obeys C P m (\<lambda>_. P) \<Longrightarrow> (\<And>x. obeys C P (f x) Q) \<Longrightarrow> obeys C P (thenDo m f) Q"
  by (rule obeys_thenDo)

lemma obeys_caught:
  "lasting P \<Longrightarrow> obeys C P m Q \<Longrightarrow> obeys C P (caught m) (\<lambda>r t. P t \<and> (case r of Inl _ \<Rightarrow> True | Inr x \<Rightarrow> Q x t))"
  unfolding obeys_def caught_def by (fastforce split: prod.splits sum.splits intro: lasting_follows)

lemma obeys_onlyIf: "(b \<Longrightarrow> obeys C P m (\<lambda>_. P)) \<Longrightarrow> obeys C P (onlyIf b m) (\<lambda>_. P)"
  by (simp add: onlyIf_def obeys_give)

text \<open>A law that says nothing of events, checkpoints, answers of the model and failures.\<close>

locale kernel_law =
  fixes C :: "effect list \<Rightarrow> effect \<Rightarrow> bool" and c :: kernel_context
  assumes free: "C t (Emitted p i)" "C t (Saved st o')" "C t (Answered ms r)" "C t (Broke e)"
    and drawn: "C t (Drawn (kc_randomUUID c t'))"
begin

lemma emit_obeys: "lasting P \<Longrightarrow> obeys C P (emit c p i) (\<lambda>_. P)"
  by (auto simp: obeys_def emit_def happens_def breaks_def lasting_def free intro: follows_one split: option.splits)

lemma emit_free: "obeys C P (emit c p i) (\<lambda>_ _. True)"
  by (auto simp: obeys_def emit_def happens_def breaks_def free intro: follows_one split: option.splits)

lemma checkpoint_obeys: "lasting P \<Longrightarrow> obeys C P (checkpoint c st i) (\<lambda>_ t. P t \<and> Saved st i \<in> set t)"
  by (auto simp: obeys_def checkpoint_def happens_def breaks_def lasting_def free intro: follows_one split: option.splits)

lemma checkpoint_free: "obeys C P (checkpoint c st i) (\<lambda>_ _. True)"
  by (auto simp: obeys_def checkpoint_def happens_def breaks_def free intro: follows_one split: option.splits)

lemma freshId_obeys: "lasting P \<Longrightarrow> obeys C P (freshId c) (\<lambda>x t. P t \<and> Drawn x \<in> set t)"
  by (auto simp: obeys_def freshId_def happens_def lasting_def drawn intro: follows_one)

lemma freshId_free: "obeys C P (freshId c) (\<lambda>_ _. True)"
  by (auto simp: obeys_def freshId_def happens_def drawn intro: follows_one)

lemma complete_obeys: "lasting P \<Longrightarrow> obeys C P (complete c q) (\<lambda>_. P)"
  by (auto simp: obeys_def complete_def answered_def happens_def breaks_def lasting_def free intro: follows_one split: sum.splits)

lemma quiet_obeys: "obeys C P (clock c) (\<lambda>_. P)" "obeys C P (throwIfAborted c) (\<lambda>_. P)" "obeys C P (digest c v) (\<lambda>_. P)"
  by (auto simp: obeys_def clock_def throwIfAborted_def digest_def give_def raised_def split: option.splits)

lemma requestAction_obeys:
  "lasting P \<Longrightarrow> (\<And>t t' a. P t \<Longrightarrow> kc_requestAction c t' q = Inr a \<Longrightarrow> C t (Decided q a)) \<Longrightarrow> obeys C P (requestAction c q) (\<lambda>a t. P t \<and> Decided q a \<in> set t)"
  by (auto simp: obeys_def requestAction_def answered_def happens_def breaks_def lasting_def free intro: follows_one split: sum.splits)

lemma toolFailed_obeys: "lasting P \<Longrightarrow> obeys C P (toolFailed c i k n f u) (\<lambda>_. P)"
  unfolding toolFailed_def Let_def by (intro obeys_then emit_obeys obeys_give)

lemma call_broke_obeys: "lasting P \<Longrightarrow> obeys C P (call_broke c tk k u n e) (\<lambda>_. P)"
  unfolding call_broke_def by (intro obeys_then quiet_obeys toolFailed_obeys)

lemma report_done_obeys: "lasting P \<Longrightarrow> obeys C P (report_done c tk k n out) (\<lambda>_. P)"
  unfolding report_done_def by (intro obeys_then quiet_obeys emit_obeys)

end

lemma obeys_happens:
  "lasting P \<Longrightarrow> (\<And>t. P t \<Longrightarrow> C t e) \<Longrightarrow> obeys C P (happens x e) (\<lambda>_ t. P t \<and> e \<in> set t)"
  by (auto simp: obeys_def happens_def lasting_def intro: follows_one)

lemma obeys_at: "(\<And>w. obeys C P (m w) Q) \<Longrightarrow> obeys C P (\<lambda>t. m (f t) t) Q"
  unfolding obeys_def by blast

lemma obeys_answered:
  "lasting P \<Longrightarrow> (\<And>t e. C t (Broke e)) \<Longrightarrow> (\<And>t x. P t \<Longrightarrow> C t (f x)) \<Longrightarrow>
   obeys C P (\<lambda>t. answered (r t) f t) (\<lambda>_. P)"
  by (auto simp: obeys_def answered_def happens_def breaks_def lasting_def intro: follows_one split: sum.splits)

section \<open>The law of the native kernel\<close>

text \<open>
  The identifiers of a call: its step, the tool call and the request. A call was begun when they were
  drawn and checkpointed; it is continued when it was in progress (\<open>fl0\<close>) at the resume \<open>rs\<close> and its step
  has not ended since.
\<close>

type_synonym call_id = "string \<times> string \<times> string"

definition call_of :: "in_flight \<Rightarrow> call_id" where
  "call_of fl = (fl_stepId fl, fl_toolCallId fl, fl_requestId fl)"

definition asked_call :: "action_ask \<Rightarrow> call_id" where
  "asked_call q = (aq_stepId q, aq_toolCallId q, aq_requestId q)"

definition begun :: "effect list \<Rightarrow> call_id \<Rightarrow> bool" where
  "begun t k \<longleftrightarrow> Drawn (fst k) \<in> set t \<and> Drawn (fst (snd k)) \<in> set t \<and> Drawn (snd (snd k)) \<in> set t \<and>
     (\<exists>st turn fl. Saved st (Some (fst k)) \<in> set t \<and> ks_turn st = Some turn \<and> pt_inFlight turn = Some fl \<and> call_of fl = k)"

definition continued :: "resumption option \<Rightarrow> in_flight option \<Rightarrow> call_id \<Rightarrow> bool" where
  "continued rs fl0 k \<longleftrightarrow> map_option call_of fl0 = Some k \<and> \<not> ended_elsewhere fl0 rs"

text \<open>The tool that a call names, and that its input was accepted by that tool's parser.\<close>

definition tool_for :: "kernel_context \<Rightarrow> string \<Rightarrow> json \<Rightarrow> tool \<Rightarrow> bool" where
  "tool_for c toolId input tk \<longleftrightarrow>
     find (\<lambda>tk'. tl_id tk' = toolId) (kc_tools c) = Some tk \<and> (\<exists>raw. tl_parse tk raw = Inr input)"

text \<open>
  The control plane let the call go on: it allowed it, or it named the approval that released the run,
  or the approval was known already when the kernel was resumed.
\<close>

definition released ::
  "kernel_context \<Rightarrow> resumption option \<Rightarrow> in_flight option \<Rightarrow> effect list \<Rightarrow> string \<Rightarrow> json \<Rightarrow> call_id \<Rightarrow> bool" where
  "released c rs fl0 t toolId input k \<longleftrightarrow>
     (\<exists>q. asked_call q = k \<and> aq_toolId q = toolId \<and> kc_digest c input \<in> {None, Some (aq_inputDigest q)} \<and>
        (\<exists>tk. tool_for c toolId input tk \<and> tl_governedAction tk input = Some (aq_action q)) \<and>
        (Decided q ActionAllowed \<in> set t \<or>
         (continued rs fl0 k \<and> (\<exists>i. Decided q (ActionApproval i) \<in> set t \<and> Option.bind rs re_approvalId = Some i)))) \<or>
     (continued rs fl0 k \<and> Option.bind fl0 fl_approvalId \<noteq> None)"

text \<open>What is asked of the control plane is what the tool says of the input.\<close>

definition asked_rightly :: "kernel_context \<Rightarrow> action_ask \<Rightarrow> bool" where
  "asked_rightly c q \<longleftrightarrow> (\<exists>tk input. tool_for c (aq_toolId q) input tk \<and> tl_governedAction tk input = Some (aq_action q) \<and>
     aq_toolVersion q = tl_version tk \<and> aq_summary q = take 500 (tl_summarize tk input) \<and>
     kc_digest c input \<in> {None, Some (aq_inputDigest q)} \<and>
     aq_parameters q = (if tl_sendsParameters tk then Some input else None))"

definition lawful ::
  "kernel_context \<Rightarrow> resumption option \<Rightarrow> in_flight option \<Rightarrow> effect list \<Rightarrow> effect \<Rightarrow> bool" where
  "lawful c rs fl0 t e =
     (case e of
        Drawn x \<Rightarrow> x \<in> range (kc_randomUUID c)
      | Decided q a \<Rightarrow> (begun t (asked_call q) \<or> continued rs fl0 (asked_call q) \<and> Option.bind fl0 fl_approvalId = None) \<and>
          (\<exists>t'. kc_requestAction c t' q = Inr a) \<and> asked_rightly c q
      | Ran k \<Rightarrow> (\<exists>tk. tool_for c (tc_toolId k) (tc_input k) tk \<and> (tc_requestId k = None \<longleftrightarrow> tl_governedAction tk (tc_input k) = None)) \<and>
          (\<exists>r. (begun t (tc_stepId k, tc_toolCallId k, r) \<or> continued rs fl0 (tc_stepId k, tc_toolCallId k, r)) \<and>
          (\<forall>r'. tc_requestId k = Some r' \<longrightarrow> r' = r \<and>
             released c rs fl0 t (tc_toolId k) (tc_input k) (tc_stepId k, tc_toolCallId k, r)))
      | Performed k _ \<Rightarrow> tc_requestId k \<noteq> None \<and> Ran k \<in> set t
      | Granted k _ \<Rightarrow> tc_requestId k \<noteq> None \<and> Ran k \<in> set t
      | _ \<Rightarrow> True)"

interpretation native: kernel_law "lawful c rs fl0" c for c rs fl0
  by unfold_locales (simp_all add: lawful_def)

lemma begun_lasting [intro!, simp]: "lasting (\<lambda>t. begun t k)"
  unfolding begun_def by simp

lemma released_lasting [intro!, simp]: "lasting (\<lambda>t. released c rs fl0 t toolId input k)"
  unfolding released_def by simp

lemma register_obeys: "lasting P \<Longrightarrow> obeys (lawful c rs fl0) P (register c resumed k a) (\<lambda>_. P)"
  unfolding register_def
  by (rule obeys_thenDo [OF obeys_caught [OF _ native.emit_obeys]])
    (auto intro: obeys_give obeys_raised split: sum.splits if_splits)

lemma run_work_obeys: "obeys (lawful c rs fl0) (\<lambda>t. Ran k \<in> set t) (run_work c resumed k w) (\<lambda>_ t. Ran k \<in> set t)"
proof (induction w)
  case (RegisterArtifact a f)
  show ?case
    by (simp, rule obeys_thenDo [OF obeys_caught [OF _ register_obeys]])
      (auto intro!: obeys_weaken [OF RegisterArtifact(1)])
next
  case (PerformAction f)
  have "obeys (lawful c rs fl0) (\<lambda>t. Ran k \<in> set t) (governed k (\<lambda>t. answered (kc_executeAction c t k) (Performed k) t))
      (\<lambda>_ t. Ran k \<in> set t)"
    by (auto simp: governed_def obeys_raised lawful_def intro!: obeys_answered)
  then show ?case
    by (simp, intro obeys_thenDo [OF obeys_caught]) (auto intro!: obeys_weaken [OF PerformAction(1)])
next
  case (AskGrant f)
  have "obeys (lawful c rs fl0) (\<lambda>t. Ran k \<in> set t) (governed k (\<lambda>t. answered (kc_requestGrant c t k) (Granted k) t))
      (\<lambda>_ t. Ran k \<in> set t)"
    by (auto simp: governed_def obeys_raised lawful_def intro!: obeys_answered)
  then show ?case
    by (simp, intro obeys_thenDo [OF obeys_caught]) (auto intro!: obeys_weaken [OF AskGrant(1)])
qed (simp_all add: obeys_give obeys_raised)

text \<open>A call that may be executed.\<close>

definition may_run ::
  "kernel_context \<Rightarrow> resumption option \<Rightarrow> in_flight option \<Rightarrow> tool_call \<Rightarrow> effect list \<Rightarrow> bool" where
  "may_run c rs fl0 k t \<longleftrightarrow> lawful c rs fl0 t (Ran k)"

lemma may_run_lasting: "lasting (may_run c rs fl0 k)"
proof -
  have "lasting (\<lambda>t. b \<and> (\<exists>r. (begun t (tc_stepId k, tc_toolCallId k, r) \<or> continued rs fl0 (tc_stepId k, tc_toolCallId k, r)) \<and>
      (tc_requestId k = None \<or> tc_requestId k = Some r \<and>
        released c rs fl0 t (tc_toolId k) (tc_input k) (tc_stepId k, tc_toolCallId k, r))))" for b
    by (intro lasting_rules begun_lasting released_lasting)
  then show ?thesis unfolding may_run_def lawful_def lasting_def by (cases "tc_requestId k") auto
qed

text \<open>A pause is for an approval the control plane asked for, which the state that is kept names.\<close>

definition paused_ok :: "string \<Rightarrow> string \<Rightarrow> kernel_state \<Rightarrow> effect list \<Rightarrow> bool" where
  "paused_ok a s st t \<longleftrightarrow> (\<exists>turn fl q. ks_turn st = Some turn \<and> pt_inFlight turn = Some fl \<and> fl_stepId fl = s \<and>
     fl_approvalId fl = Some a \<and> Decided q (ActionApproval a) \<in> set t \<and> asked_call q = call_of fl)"

lemma paused_ok_lasting [intro!, simp]: "lasting (paused_ok a s st)"
  unfolding paused_ok_def [abs_def] by simp

definition step_ok :: "tool_step \<times> kernel_state \<Rightarrow> effect list \<Rightarrow> bool" where
  "step_ok r t \<longleftrightarrow> (\<forall>a s. fst r = StepPaused a s \<longrightarrow> paused_ok a s (snd r) t)"

lemma step_ok_result [simp]: "step_ok (StepResult block, st) t" "step_ok (tool_result u m e, st) t"
  by (simp_all add: step_ok_def tool_result_def)

lemma give_step_ok: "obeys C (\<lambda>t. \<forall>st. step_ok (x, st) t) (give (x, st')) step_ok"
  by (auto simp: obeys_def give_def)

context kernel_law begin

lemma toolFailed_step: "lasting P \<Longrightarrow> obeys C P (toolFailed c i k n f u) (\<lambda>step t. \<forall>st. step_ok (step, st) t)"
  unfolding toolFailed_def Let_def by (intro obeys_then [of _ P] emit_obeys obeys_give) simp_all

lemma call_broke_step: "lasting P \<Longrightarrow> obeys C P (call_broke c tk k u n e) (\<lambda>step t. \<forall>st. step_ok (step, st) t)"
  unfolding call_broke_def by (intro obeys_then [of _ P] quiet_obeys toolFailed_step)

end

lemma execute_call_obeys:
  "obeys (lawful c rs fl0) (may_run c rs fl0 k) (execute_call c st resumed tk k u) step_ok"
proof -
  let ?C = "lawful c rs fl0" and ?P = "may_run c rs fl0 k" and ?R = "\<lambda>t. Ran k \<in> set t"
  note last = may_run_lasting [of c rs fl0 k]
  have broke: "obeys ?C ?R (thenDo (call_broke c tk k u n e) (\<lambda>step. give (step, st'))) step_ok" for n e st'
    by (rule obeys_thenDo [OF native.call_broke_step]) (simp_all add: give_step_ok)
  have reported: "obeys ?C ?R (thenDo (caught (report_done c tk k n out)) (\<lambda>r.
      case r of Inl e \<Rightarrow> thenDo (call_broke c tk k u n e) (\<lambda>step. give (step, st')) | Inr _ \<Rightarrow> give (tool_result u x False, st'))) step_ok"
    for n out x st'
    by (rule obeys_thenDo [OF obeys_caught [OF _ native.report_done_obeys]])
      (auto intro!: obeys_weaken [OF broke] obeys_give split: sum.splits)
  have ran: "obeys ?C ?P (happens () (Ran k)) (\<lambda>_. ?R)"
    by (rule obeys_weaken [OF obeys_happens [OF last]]) (auto simp: may_run_def)
  show ?thesis
    unfolding execute_call_def Let_def
    by (intro obeys_then [OF native.emit_obeys [OF last]] obeys_then [OF native.quiet_obeys(1)] obeys_thenDo [OF ran]
          obeys_thenDo [OF obeys_caught [OF _ obeys_at [OF run_work_obeys]]])
      (auto intro!: obeys_weaken [OF broke] obeys_weaken [OF reported] split: sum.splits)
qed

text \<open>The call that is being handled was begun, or it is the one in progress at the resume.\<close>

definition in_hand :: "resumption option \<Rightarrow> in_flight option \<Rightarrow> resumption option \<Rightarrow> in_flight \<Rightarrow> effect list \<Rightarrow> bool" where
  "in_hand rs fl0 rs' fl t \<longleftrightarrow>
     (fl0 = Some fl \<and> rs' = rs \<and> continued rs fl0 (call_of fl)) \<or> (fl_approvalId fl = None \<and> rs' = None \<and> begun t (call_of fl))"

lemma in_hand_lasting [intro!, simp]: "lasting (in_hand rs fl0 rs' fl)"
  unfolding in_hand_def [abs_def] by simp

text \<open>
  What the first call after a resume is called with; any other call has neither a call in progress nor
  a resume.
\<close>

definition first_or_fresh :: "resumption option \<Rightarrow> in_flight option \<Rightarrow> resumption option \<Rightarrow> in_flight option \<Rightarrow> bool" where
  "first_or_fresh rs fl0 rs' fl \<longleftrightarrow> (fl = None \<and> rs' = None) \<or> (fl \<noteq> None \<and> fl = fl0 \<and> rs' = rs)"

lemma call_ids_obeys:
  "obeys (lawful c rs fl0) (\<lambda>_. True) (call_ids c fl)
     (\<lambda>(s, i). \<lambda>t. case fl of None \<Rightarrow> Drawn s \<in> set t \<and> Drawn i \<in> set t | Some f \<Rightarrow> s = fl_stepId f \<and> i = fl_toolCallId f)"
proof (cases fl)
  case None
  have one: "obeys (lawful c rs fl0) (\<lambda>_. True) (freshId c) (\<lambda>x t. True \<and> Drawn x \<in> set t)"
    by (rule native.freshId_obeys) simp
  have two: "obeys (lawful c rs fl0) (\<lambda>t. True \<and> Drawn s \<in> set t) (freshId c) (\<lambda>x t. (True \<and> Drawn s \<in> set t) \<and> Drawn x \<in> set t)" for s
    by (rule native.freshId_obeys) simp
  show ?thesis
    unfolding call_ids_def None option.case
    by (rule obeys_thenDo [OF one]) (rule obeys_thenDo [OF two], simp add: obeys_give)
qed (simp add: call_ids_def obeys_give)

lemma begin_call_obeys:
  assumes "first_or_fresh rs fl0 rs' (pt_inFlight turn)" and "\<not> ended_elsewhere (pt_inFlight turn) rs'"
  shows "obeys (lawful c rs fl0)
     (\<lambda>t. case pt_inFlight turn of None \<Rightarrow> Drawn s \<in> set t \<and> Drawn i \<in> set t | Some f \<Rightarrow> s = fl_stepId f \<and> i = fl_toolCallId f)
     (begin_call c st turn s i)
     (\<lambda>(fl, turn1). \<lambda>t. in_hand rs fl0 rs' fl t \<and> fl_stepId fl = s \<and> fl_toolCallId fl = i \<and> pt_inFlight turn1 = Some fl)"
proof (cases "pt_inFlight turn")
  case (Some f)
  with assms have f: "fl0 = Some f" "rs' = rs" "\<not> ended_elsewhere (Some f) rs" by (auto simp: first_or_fresh_def)
  show ?thesis
    unfolding begin_call_def Some option.case f(1,2)
    by (rule obeys_give) (use f Some in \<open>auto simp: in_hand_def continued_def\<close>)
next
  case None
  let ?fl = "\<lambda>r. \<lparr>fl_stepId = s, fl_toolCallId = i, fl_requestId = r, fl_approvalId = None\<rparr>"
  have "obeys (lawful c rs fl0) (\<lambda>t. (Drawn s \<in> set t \<and> Drawn i \<in> set t) \<and> Drawn r \<in> set t)
      (checkpoint c (set_turn st (turn\<lparr>pt_inFlight := Some (?fl r)\<rparr>)) (Some s)) (\<lambda>_ t. begun t (call_of (?fl r)))" for r
    by (rule obeys_weaken [OF native.checkpoint_obeys [of "\<lambda>t. (Drawn s \<in> set t \<and> Drawn i \<in> set t) \<and> Drawn r \<in> set t"]])
      (auto simp: begun_def call_of_def set_turn_def)
  moreover have "obeys (lawful c rs fl0) (\<lambda>t. Drawn s \<in> set t \<and> Drawn i \<in> set t) (freshId c)
      (\<lambda>r t. (Drawn s \<in> set t \<and> Drawn i \<in> set t) \<and> Drawn r \<in> set t)"
    by (rule native.freshId_obeys) simp
  ultimately show ?thesis
    using assms(1) unfolding begin_call_def None option.case Let_def
    by (intro obeys_thenDo [of _ _ "freshId c"] obeys_thenDo [of _ _ "checkpoint _ _ _"])
      (auto simp: first_or_fresh_def in_hand_def intro!: obeys_give)
qed

definition decided_ok ::
  "kernel_context \<Rightarrow> resumption option \<Rightarrow> in_flight option \<Rightarrow> in_flight \<Rightarrow> tool \<Rightarrow> json \<Rightarrow> call_verdict \<Rightarrow> pending_turn \<Rightarrow>
   effect list \<Rightarrow> bool" where
  "decided_ok c rs fl0 fl tk input v turn t \<longleftrightarrow>
     (v = Proceed \<longrightarrow> tl_governedAction tk input = None \<or> released c rs fl0 t (tl_id tk) input (call_of fl)) \<and>
     (\<forall>a st. v = WaitFor a \<longrightarrow> paused_ok a (fl_stepId fl) (set_turn st turn) t)"

lemma decided_ok_lasting [intro!, simp]: "lasting (decided_ok c rs fl0 fl tk input v turn)"
  by (cases v) (simp_all add: decided_ok_def [abs_def])

lemma decide_call_obeys:
  assumes "kc_digest c input \<in> {None, Some d}" and "tool_for c (tl_id tk) input tk"
  shows "obeys (lawful c rs fl0) (in_hand rs fl0 rs' fl) (decide_call c st turn fl tk input d rs')
     (\<lambda>(v, turn2). \<lambda>t. in_hand rs fl0 rs' fl t \<and> decided_ok c rs fl0 fl tk input v turn2 t)"
proof (cases "tl_governedAction tk input")
  case None
  then show ?thesis by (simp add: decide_call_def obeys_give decided_ok_def)
next
  case (Some action)
  let ?G = "in_hand rs fl0 rs' fl" and ?q = "ask_for tk fl action input d"
  have q: "asked_call ?q = call_of fl" "aq_toolId ?q = tl_id tk" "aq_inputDigest ?q = d" "aq_action ?q = action"
    by (simp_all add: ask_for_def asked_call_def call_of_def)
  have rightly: "asked_rightly c ?q"
    using assms Some unfolding asked_rightly_def by (intro exI [of _ tk] exI [of _ input]) (simp add: ask_for_def)
  show ?thesis
  proof (cases "fl_approvalId fl")
    case known: (Some a)
    then show ?thesis
      by (auto simp: decide_call_def Some released_def decided_ok_def in_hand_def intro!: obeys_give)
  next
    case unknown: None
    have ask: "obeys (lawful c rs fl0) ?G (requestAction c ?q) (\<lambda>a t. ?G t \<and> Decided ?q a \<in> set t)"
      by (rule native.requestAction_obeys) (auto simp: lawful_def in_hand_def q unknown rightly)
    have saved: "obeys (lawful c rs fl0) (\<lambda>t. ?G t \<and> Decided ?q (ActionApproval a) \<in> set t) (checkpoint c st1 o1)
        (\<lambda>_ t. ?G t \<and> Decided ?q (ActionApproval a) \<in> set t)" for a st1 o1
      by (rule obeys_weaken [OF native.checkpoint_obeys [of "\<lambda>t. ?G t \<and> Decided ?q (ActionApproval a) \<in> set t"]]) auto
    have allowed: "decided_ok c rs fl0 fl tk input Proceed turn' t"
      if "Decided ?q ActionAllowed \<in> set t" for t turn'
      using that assms q Some by (fastforce simp: released_def decided_ok_def)
    have approved: "decided_ok c rs fl0 fl tk input Proceed turn' t"
      if "?G t \<and> Decided ?q (ActionApproval a) \<in> set t" and "Option.bind rs' re_approvalId = Some a" for a t turn'
      using that assms q Some unfolding decided_ok_def released_def in_hand_def by fastforce
    have waiting: "decided_ok c rs fl0 fl tk input (WaitFor a) (turn\<lparr>pt_inFlight := Some (fl\<lparr>fl_approvalId := Some a\<rparr>)\<rparr>) t"
      if "Decided ?q (ActionApproval a) \<in> set t" for a t
      using that q by (auto simp: decided_ok_def paused_ok_def set_turn_def call_of_def)
    have denied: "decided_ok c rs fl0 fl tk input (Denied x) turn' t" for x turn' t by (simp add: decided_ok_def)
    show ?thesis
      unfolding decide_call_def Some unknown Let_def prod.case option.case
      by (rule obeys_thenDo [OF ask])
        (auto intro!: obeys_thenDo [OF saved] obeys_give split: action_answer.splits intro: allowed approved waiting denied)
  qed
qed

lemma input_digest_obeys:
  "obeys C P (input_digest c (Inr v) raw) (\<lambda>d t. P t \<and> kc_digest c v \<in> {None, Some d})"
  by (auto simp: input_digest_def digest_def intro!: obeys_give obeys_raised split: option.splits)

lemma input_digest_invalid: "obeys C P (input_digest c (Inl e) raw) (\<lambda>_. P)"
  by (auto simp: input_digest_def digest_def intro!: obeys_give obeys_raised split: option.splits)

lemma governed_call_obeys:
  assumes "first_or_fresh rs fl0 rs' (pt_inFlight turn)" and "\<not> ended_elsewhere (pt_inFlight turn) rs'"
    and "kc_digest c input \<in> {None, Some d}" and "tool_for c (tl_id tk) input tk"
  shows "obeys (lawful c rs fl0)
     (\<lambda>t. case pt_inFlight turn of None \<Rightarrow> Drawn s \<in> set t \<and> Drawn i \<in> set t | Some f \<Rightarrow> s = fl_stepId f \<and> i = fl_toolCallId f)
     (governed_call c st turn u tk input d s i rs') step_ok"
  unfolding governed_call_def
proof (rule obeys_pair [OF begin_call_obeys [OF assms(1,2)]])
  fix fl and turn1 :: pending_turn
  let ?G = "\<lambda>t. in_hand rs fl0 rs' fl t \<and> fl_stepId fl = s \<and> fl_toolCallId fl = i \<and> pt_inFlight turn1 = Some fl"
  let ?k = "\<lparr>tc_toolId = tl_id tk, tc_input = input, tc_stepId = s, tc_toolCallId = i,
       tc_requestId = (if tl_governedAction tk input = None then None else Some (fl_requestId fl))\<rparr>"
  let ?verdict = "\<lambda>verdict turn2. case verdict of
          Proceed \<Rightarrow> execute_call c (set_turn st turn2) (pt_inFlight turn \<noteq> None) tk ?k u
        | Denied reason \<Rightarrow> thenDo (toolFailed c s i 0 \<lparr>rf_code = ''ACTION_DENIED'', rf_message = reason, rf_retryable = False\<rparr> u)
            (\<lambda>step. give (step, set_turn st turn2))
        | WaitFor a \<Rightarrow> give (StepPaused a s, set_turn st turn2)"
  show "obeys (lawful c rs fl0) ?G (thenDo (decide_call c st turn1 fl tk input d rs') (\<lambda>(v, turn2). ?verdict v turn2)) step_ok"
  proof (cases "fl_stepId fl = s \<and> fl_toolCallId fl = i")
    case False
    then show ?thesis by (intro obeys_never) auto
  next
    case True
    let ?D = "\<lambda>v turn2 t. in_hand rs fl0 rs' fl t \<and> decided_ok c rs fl0 fl tk input v turn2 t"
    have decide: "obeys (lawful c rs fl0) ?G (decide_call c st turn1 fl tk input d rs') (\<lambda>(v, turn2). ?D v turn2)"
      by (rule obeys_weaken [OF decide_call_obeys [OF assms(3,4)]]) auto
    have "?D Proceed turn2 t \<Longrightarrow> may_run c rs fl0 ?k t" for turn2 t
      using True assms(4) by (auto simp: may_run_def lawful_def in_hand_def decided_ok_def call_of_def)
    then have run: "obeys (lawful c rs fl0) (?D Proceed turn2) (execute_call c (set_turn st turn2) (pt_inFlight turn \<noteq> None) tk ?k u)
        step_ok" for turn2
      by (intro obeys_weaken [OF execute_call_obeys]) auto
    have fails: "obeys (lawful c rs fl0) (?D v turn2) (toolFailed c s i 0 f u) (\<lambda>step t. \<forall>st'. step_ok (step, st') t)" for f v turn2
      by (rule obeys_weaken [OF native.toolFailed_step [of "?D v turn2"]]) simp_all
    show ?thesis
    proof (rule obeys_pair [OF decide])
      fix v turn2
      show "obeys (lawful c rs fl0) (?D v turn2) (?verdict v turn2) step_ok"
      proof (cases v)
        case Proceed
        with run show ?thesis by simp
      next
        case (Denied reason)
        then show ?thesis by (simp only: call_verdict.case) (rule obeys_thenDo [OF fails give_step_ok])
      next
        case (WaitFor a)
        then show ?thesis using True by (auto simp: decided_ok_def step_ok_def intro!: obeys_give)
      qed
    qed
  qed
qed

lemma runTool_obeys:
  assumes "first_or_fresh rs fl0 rs' (pt_inFlight turn)"
  shows "obeys (lawful c rs fl0) (\<lambda>_. True) (runTool c st turn u rs') step_ok"
  unfolding runTool_def
proof (rule obeys_pair [OF call_ids_obeys])
  fix s i
  let ?C = "lawful c rs fl0"
  let ?P = "\<lambda>t. case pt_inFlight turn of None \<Rightarrow> Drawn s \<in> set t \<and> Drawn i \<in> set t | Some f \<Rightarrow> s = fl_stepId f \<and> i = fl_toolCallId f"
  have P: "lasting ?P" by (cases "pt_inFlight turn") auto
  have over: "obeys ?C ?P (give (tool_result u x e, st')) step_ok" for x e st' by (simp add: obeys_give)
  note quiet = obeys_then [OF native.emit_obeys [OF P]] obeys_thenDo [OF native.toolFailed_step [OF P]]
    obeys_then [OF obeys_onlyIf [OF native.emit_obeys [OF P]]]
  show "obeys ?C ?P
     (if ended_elsewhere (pt_inFlight turn) rs' then give (tool_result u (lost_message u) True, set_turn st turn)
     else
       thenDo (onlyIf (pt_inFlight turn = None)
          (emit c (PStepStarted TOOL (''Tool call: '' @ safeLabel (tu_name u))) s)) (\<lambda>_.
       case find (\<lambda>tk. tl_id tk = tu_name u) (kc_tools c) of
         None \<Rightarrow>
           thenDo (emit c (PStepFailed \<lparr>er_code = ''TOOL_NOT_AVAILABLE'',
              er_message = ''The tool is not granted to this agent.''\<rparr>) s) (\<lambda>_.
           give (tool_result u (''Tool '' @ safeLabel (tu_name u) @ '' is not available.'') True, set_turn st turn))
       | Some tk \<Rightarrow>
           thenDo (input_digest c (tl_parse tk (tu_input u)) (tu_input u)) (\<lambda>d.
           thenDo (onlyIf (pt_inFlight turn = None)
              (emit c (PToolRequested i (tl_id tk) (tl_version tk) d) s)) (\<lambda>_.
           case tl_parse tk (tu_input u) of
             Inl e \<Rightarrow>
               thenDo (toolFailed c s i 0
                  \<lparr>rf_code = ''TOOL_INPUT_INVALID'', rf_message = invalidInputMessage e, rf_retryable = False\<rparr> u)
                 (\<lambda>step. give (step, set_turn st turn))
           | Inr input \<Rightarrow> governed_call c st turn u tk input d s i rs')))) step_ok"
  proof (cases "ended_elsewhere (pt_inFlight turn) rs'")
    case True
    then show ?thesis by (simp add: obeys_give)
  next
    case False
    have parsed: "obeys ?C ?P (thenDo (input_digest c (tl_parse tk (tu_input u)) (tu_input u)) (\<lambda>d.
           thenDo (onlyIf (pt_inFlight turn = None) (emit c (PToolRequested i (tl_id tk) (tl_version tk) d) s)) (\<lambda>_.
           case tl_parse tk (tu_input u) of
             Inl e \<Rightarrow>
               thenDo (toolFailed c s i 0
                  \<lparr>rf_code = ''TOOL_INPUT_INVALID'', rf_message = invalidInputMessage e, rf_retryable = False\<rparr> u)
                 (\<lambda>step. give (step, set_turn st turn))
           | Inr input \<Rightarrow> governed_call c st turn u tk input d s i rs'))) step_ok"
      if "find (\<lambda>tk. tl_id tk = tu_name u) (kc_tools c) = Some tk" for tk
    proof (cases "tl_parse tk (tu_input u)")
      case (Inl e)
      show ?thesis unfolding Inl sum.case by (intro obeys_then [OF input_digest_invalid] quiet over give_step_ok)
    next
      case (Inr input)
      from that have "tl_id tk = tu_name u" by (auto simp: find_Some_iff)
      with that Inr have fits: "tool_for c (tl_id tk) input tk" by (auto simp: tool_for_def)
      have "obeys ?C (\<lambda>t. ?P t \<and> kc_digest c input \<in> {None, Some d})
          (thenDo (onlyIf (pt_inFlight turn = None) (emit c (PToolRequested i (tl_id tk) (tl_version tk) d) s)) (\<lambda>_.
             governed_call c st turn u tk input d s i rs')) step_ok" for d
      proof (cases "kc_digest c input \<in> {None, Some d}")
        case True
        then show ?thesis
          by (intro obeys_weaken [OF quiet(3) [OF governed_call_obeys [OF assms False _ fits]]]) auto
      qed (simp add: obeys_never)
      then show ?thesis unfolding Inr sum.case by (intro obeys_thenDo [OF input_digest_obeys])
    qed
    show ?thesis
      unfolding if_not_P [OF False]
    proof (rule quiet(3), cases "find (\<lambda>tk. tl_id tk = tu_name u) (kc_tools c)", simp_all only: option.case)
    qed (intro quiet(1) over, rule parsed)
  qed
qed

text \<open>Later calls of the turn are fresh.\<close>

lemma runTools_lawful:
  assumes "runTools c rs' st turn t = (r, t')" and "first_or_fresh rs fl0 (if pt_inFlight turn = None then None else rs') (pt_inFlight turn)"
  shows "follows (lawful c rs fl0) t t' \<and>
    (\<forall>out st'. r = Inr (Some out, st') \<longrightarrow> (\<exists>a s. out = KernelPaused a s st' \<and> paused_ok a s st' t'))"
  using assms
proof (induction c rs' st turn t arbitrary: r t' rule: runTools.induct)
  case (1 c rs' st turn t)
  let ?u = "pt_toolUses turn ! pt_index turn" and ?rs = "if pt_inFlight turn = None then None else rs'"
  show ?case
  proof (cases "pt_index turn < length (pt_toolUses turn)")
    case False
    with 1(2) show ?thesis by (auto simp: runTools.simps)
  next
    case True
    obtain res t1 where run: "runTool c st turn ?u ?rs t = (res, t1)" by (meson surj_pair)
    have lawful: "follows (lawful c rs fl0) t t1" and paused: "\<And>a s st1. res = Inr (StepPaused a s, st1) \<Longrightarrow> paused_ok a s st1 t1"
      using obeysD [OF runTool_obeys [OF 1(3)] _ run] by (auto simp: step_ok_def)
    show ?thesis
    proof (cases "\<exists>block st1. res = Inr (StepResult block, st1)")
      case False
      with 1(2) True run lawful paused show ?thesis
        by (subst (asm) runTools.simps) (auto split: sum.splits tool_step.splits)
    next
      case other: True
      then obtain block st1 where res: "res = Inr (StepResult block, st1)" by blast
      let ?turn = "turn\<lparr>pt_results := pt_results turn @ [block], pt_inFlight := None, pt_index := Suc (pt_index turn)\<rparr>"
      obtain v t2 where saved: "checkpoint c (set_turn st1 ?turn) None t1 = (v, t2)" by (meson surj_pair)
      have lawful2: "follows (lawful c rs fl0) t t2"
        using follows_trans [OF lawful] obeysD [OF native.checkpoint_obeys [of "\<lambda>_. True"] _ saved] by simp
      show ?thesis
      proof (cases v)
        case (Inl e)
        with 1(2) True run res saved lawful2 show ?thesis by (subst (asm) runTools.simps) (auto simp: Let_def)
      next
        case (Inr x)
        with 1(2) True run res saved have "runTools c None (set_turn st1 ?turn) ?turn t2 = (r, t')"
          by (subst (asm) runTools.simps) (auto simp: Let_def)
        then have "follows (lawful c rs fl0) t2 t' \<and>
            (\<forall>out st'. r = Inr (Some out, st') \<longrightarrow> (\<exists>a s. out = KernelPaused a s st' \<and> paused_ok a s st' t'))"
          using 1(1) [OF True run [symmetric] res refl refl refl saved [symmetric] Inr] by (simp add: first_or_fresh_def)
        with lawful2 show ?thesis by (blast intro: follows_trans)
      qed
    qed
  qed
qed

text \<open>The call in progress, if any, is the one the law knows of, and this is its resume.\<close>

definition resumes :: "resumption option \<Rightarrow> in_flight option \<Rightarrow> resumption option \<Rightarrow> kernel_state \<Rightarrow> bool" where
  "resumes rs fl0 rs' st \<longleftrightarrow>
     (case Option.bind (ks_turn st) pt_inFlight of None \<Rightarrow> True | Some fl \<Rightarrow> fl0 = Some fl \<and> rs' = rs)"

lemma finish_turn_lawful:
  assumes "finish_turn c rs' st t = (r, t')" and "resumes rs fl0 rs' st"
  shows "follows (lawful c rs fl0) t t' \<and> (\<forall>st'. r = Inr (Onward st') \<longrightarrow> ks_turn st' = None) \<and>
    (\<forall>out. r = Inr (Over out) \<longrightarrow> (\<exists>a s st'. out = KernelPaused a s st' \<and> paused_ok a s st' t'))"
proof (cases "ks_turn st")
  case None
  with assms(1) show ?thesis by (auto simp: finish_turn_def give_def)
next
  case (Some turn)
  obtain r1 t1 where run: "runTools c rs' st turn t = (r1, t1)" by (meson surj_pair)
  have "first_or_fresh rs fl0 (if pt_inFlight turn = None then None else rs') (pt_inFlight turn)"
    using assms(2) by (auto simp: resumes_def Some first_or_fresh_def split: option.splits)
  from runTools_lawful [OF run this] assms(1) run show ?thesis
    by (auto simp: finish_turn_def Some thenDo_def give_def split: sum.splits option.splits)
qed

definition turn_over :: "progress \<Rightarrow> bool" where
  "turn_over p = (case p of Onward st \<Rightarrow> Option.bind (ks_turn st) pt_inFlight = None | Over out \<Rightarrow> \<forall>a s st. out \<noteq> KernelPaused a s st)"

lemma turn_over_simps [simp]:
  "turn_over (Onward st) = (Option.bind (ks_turn st) pt_inFlight = None)"
  "turn_over (Over (KernelCompleted x y))" "turn_over (Over (KernelFailed f))" "turn_over (Over (kernel_failure a b))"
  "turn_over (Over (KernelPaused a s st)) = False"
  by (simp_all add: turn_over_def kernel_failure_def)

lemma take_response_obeys:
  "obeys (lawful c rs fl0) (\<lambda>_. True) (take_response c st i r)
     (\<lambda>p _. turn_over p)"
  unfolding take_response_def Let_def
  by (intro obeys_then native.emit_free obeys_onlyIf)
    (auto simp: set_turn_def intro!: obeys_give obeys_then native.emit_free native.checkpoint_free)

lemma model_turn_obeys:
  "obeys (lawful c rs fl0) (\<lambda>_. True) (model_turn c st)
     (\<lambda>p _. turn_over p)"
proof -
  have "obeys (lawful c rs fl0) (\<lambda>_. True) (freshId c) (\<lambda>_ _. True)"
    by (rule obeys_weaken [OF native.freshId_obeys [of "\<lambda>_. True"]]) auto
  moreover have "obeys (lawful c rs fl0) (\<lambda>_. True) (caught (complete c q)) (\<lambda>_ _. True)" for q
    by (rule obeys_weaken [OF obeys_caught [OF _ native.complete_obeys [of "\<lambda>_. True"]]]) auto
  ultimately show ?thesis
    unfolding model_turn_def Let_def
    by (auto intro!: obeys_then [of _ "\<lambda>_. True"] native.emit_free take_response_obeys obeys_give split: sum.splits)
qed

lemma loop_lawful:
  assumes "loop c rs' st t = (out, t')" and "resumes rs fl0 rs' st"
  shows "follows (lawful c rs fl0) t t' \<and> (\<forall>a s st'. out = KernelPaused a s st' \<longrightarrow> paused_ok a s st' t')"
  using assms
proof (induction c rs' st t arbitrary: out t' rule: loop.induct)
  case (1 c rs' st t)
  obtain r1 t1 where one: "thenDo (throwIfAborted c) (\<lambda>_. finish_turn c rs' st) t = (r1, t1)" by (meson surj_pair)
  have first: "follows (lawful c rs fl0) t t1 \<and> (\<forall>out. r1 = Inr (Over out) \<longrightarrow> (\<exists>a s st'. out = KernelPaused a s st' \<and> paused_ok a s st' t1))"
    using one finish_turn_lawful [OF _ 1(3)]
    by (auto simp: thenDo_def throwIfAborted_def give_def raised_def split: option.splits prod.splits sum.splits)
  show ?case
  proof (cases "\<exists>st'. r1 = Inr (Onward st')")
    case False
    with 1(2) one first show ?thesis
      by (subst (asm) loop.simps) (auto split: sum.splits progress.splits)
  next
    case True
    then obtain st' where st': "r1 = Inr (Onward st')" by blast
    obtain r2 t2 where two: "model_turn c st' t1 = (r2, t2)" by (meson surj_pair)
    from obeysD [OF model_turn_obeys _ two]
    have second: "follows (lawful c rs fl0) t1 t2"
      "\<And>p. r2 = Inr p \<Longrightarrow> turn_over p" by auto
    have both: "follows (lawful c rs fl0) t t2" using first second(1) by (blast intro: follows_trans)
    show ?thesis
    proof (cases "\<exists>st''. r2 = Inr (Onward st'')")
      case False
      with 1(2) one st' two both second(2) show ?thesis
        by (subst (asm) loop.simps) (fastforce split: sum.splits progress.splits)
    next
      case True
      then obtain st'' where st'': "r2 = Inr (Onward st'')" by blast
      with 1(2) one st' two have "loop c None st'' t2 = (out, t')" by (subst (asm) loop.simps) simp
      moreover have "resumes rs fl0 None st''" using second(2) st'' by (simp add: resumes_def)
      ultimately have "follows (lawful c rs fl0) t2 t' \<and> (\<forall>a s st'. out = KernelPaused a s st' \<longrightarrow> paused_ok a s st' t')"
        using 1(1) [OF one [symmetric] st' refl two [symmetric] st'' refl] by blast
      with both show ?thesis by (blast intro: follows_trans)
    qed
  qed
qed

lemma start_lawful:
  assumes "kernel_start c t = (out, t')"
  shows "follows (lawful c None None) t t' \<and> (\<forall>a s st. out = KernelPaused a s st \<longrightarrow> paused_ok a s st t')"
proof -
  obtain r t1 where saved: "checkpoint c (initial_state c) None t = (r, t1)" by (meson surj_pair)
  have one: "follows (lawful c None None) t t1"
    using obeysD [OF native.checkpoint_obeys [of "\<lambda>_. True"] _ saved] by simp
  show ?thesis
  proof (cases r)
    case (Inl e)
    with one assms saved show ?thesis by (auto simp: kernel_start_def)
  next
    case (Inr x)
    with assms saved have run: "loop c None (initial_state c) t1 = (out, t')" by (simp add: kernel_start_def)
    have "resumes None None None (initial_state c)" by (simp add: resumes_def initial_state_def)
    from loop_lawful [OF run this] one show ?thesis by (blast intro: follows_trans)
  qed
qed

text \<open>A resume that goes on at all runs the loop on the stored state.\<close>

definition resumption_of :: "(string \<times> bool) option \<Rightarrow> string list option \<Rightarrow> resumption" where
  "resumption_of approval recovery = \<lparr>re_approvalId = map_option fst approval, re_openStepIds = recovery\<rparr>"

lemma resume_runs:
  "kernel_resume c raw approval recovery t = (out, t') \<Longrightarrow>
   (t' = t \<and> (\<exists>f. out = KernelFailed f)) \<or>
   (\<exists>st. stateSchema (kc_uuid c) raw = Some st \<and> loop c (Some (resumption_of approval recovery)) st t = (out, t'))"
  by (auto simp: kernel_resume_def kernel_failure_def resumption_of_def split: option.splits if_splits)

lemma resume_lawful:
  assumes "stateSchema (kc_uuid c) raw = Some st" and "kernel_resume c raw approval recovery t = (out, t')"
  shows "follows (lawful c (Some (resumption_of approval recovery)) (Option.bind (ks_turn st) pt_inFlight)) t t' \<and>
    (\<forall>a s st. out = KernelPaused a s st \<longrightarrow> paused_ok a s st t')"
proof -
  have "resumes rs (Option.bind (ks_turn st) pt_inFlight) rs st" for rs
    by (simp add: resumes_def split: option.splits)
  from loop_lawful [OF _ this] resume_runs [OF assms(2)] assms(1) show ?thesis by fastforce
qed

end
