(* ===== verification/KernelTurns.thy ===== *)
theory KernelTurns
  imports KernelHistory
begin

text \<open>
  The turns of the model in a kernel's history, and that the stored states count them.
\<close>

section \<open>Counting the answers\<close>

fun is_answer :: "effect \<Rightarrow> bool" where
  "is_answer (Answered ms r) = True"
| "is_answer _ = False"

definition answers :: "effect list \<Rightarrow> nat" where
  "answers t = length (filter is_answer t)"

lemma answers_simps [simp]: "answers [] = 0" "answers (t @ u) = answers t + answers u"
  "answers [e] = (if is_answer e then 1 else 0)"
  by (simp_all add: answers_def)

text \<open>Effects that add no answer and store a state with \<open>n\<close> turns, if any.\<close>

definition steady :: "nat \<Rightarrow> effect list \<Rightarrow> effect \<Rightarrow> bool" where
  "steady n t e \<longleftrightarrow> \<not> is_answer e \<and> (\<forall>st i. e = Saved st i \<longrightarrow> ks_turns st = n)"

definition steadily :: "nat \<Rightarrow> 'a act \<Rightarrow> bool" where
  "steadily n m \<longleftrightarrow> (\<forall>t. follows (steady n) t (snd (m t)))"

lemma steadilyD: "steadily n m \<Longrightarrow> m t = (r, t') \<Longrightarrow> follows (steady n) t t'"
  unfolding steadily_def by (metis snd_conv)

named_theorems steady_rules

lemma steady_basic [steady_rules]: "steadily n (give x)" "steadily n (raised e)" "steadily n (throwIfAborted c)"
  "steadily n (digest c v)" "steadily n (clock c)"
  by (simp_all add: steadily_def give_def raised_def throwIfAborted_def digest_def clock_def split: option.splits)

lemma steady_happens: "\<not> is_answer e \<Longrightarrow> (\<And>st i. e = Saved st i \<Longrightarrow> ks_turns st = n) \<Longrightarrow> follows (steady n) t (t @ [e])"
  by (rule follows_one) (simp add: steady_def)

lemma steady_one [steady_rules]: "steadily n (emit c p i)" "steadily n (freshId c)" "steadily n (requestAction c q)"
  "steadily n (happens () (Ran k))" "ks_turns st = n \<Longrightarrow> steadily n (checkpoint c st o')"
  "steadily n (\<lambda>t. answered (kc_executeAction c t k) (Performed k) t)"
  "steadily n (\<lambda>t. answered (kc_requestGrant c t k) (Granted k) t)"
  by (auto simp: steadily_def emit_def freshId_def requestAction_def checkpoint_def answered_def happens_def breaks_def
      intro!: steady_happens split: option.splits sum.splits)

lemma steady_thenDo [steady_rules]: "steadily n m \<Longrightarrow> (\<And>x. steadily n (f x)) \<Longrightarrow> steadily n (thenDo m f)"
proof -
  assume m: "steadily n m" and f: "\<And>x. steadily n (f x)"
  have "follows (steady n) t (snd (thenDo m f t))" for t
  proof (cases "m t")
    case (Pair r t1)
    note one = steadilyD [OF m Pair]
    show ?thesis
    proof (cases r)
      case (Inr x)
      with Pair one follows_trans [OF one steadilyD [OF f surjective_pairing]] show ?thesis by (simp add: thenDo_def)
    qed (use Pair one in \<open>simp add: thenDo_def\<close>)
  qed
  then show ?thesis by (simp add: steadily_def)
qed

lemma steady_control [steady_rules]:
  "steadily n m \<Longrightarrow> steadily n (caught m)" "steadily n k \<Longrightarrow> steadily n (onlyIf b k)"
  "(b \<Longrightarrow> steadily n m) \<Longrightarrow> (\<not> b \<Longrightarrow> steadily n m') \<Longrightarrow> steadily n (if b then m else m')"
  "steadily n m \<Longrightarrow> (\<And>x. steadily n (f x)) \<Longrightarrow> steadily n (case v of None \<Rightarrow> m | Some x \<Rightarrow> f x)"
  "(\<And>e. steadily n (g e)) \<Longrightarrow> (\<And>x. steadily n (h x)) \<Longrightarrow> steadily n (case s of Inl e \<Rightarrow> g e | Inr x \<Rightarrow> h x)"
  "(\<And>x y. steadily n (p x y)) \<Longrightarrow> steadily n (case w of (x, y) \<Rightarrow> p x y)"
  "steadily n m \<Longrightarrow> (\<And>x. steadily n (d x)) \<Longrightarrow> (\<And>x. steadily n (a x)) \<Longrightarrow>
   steadily n (case verdict of Proceed \<Rightarrow> m | Denied x \<Rightarrow> d x | WaitFor x \<Rightarrow> a x)"
  "steadily n m \<Longrightarrow> (\<And>x. steadily n (d x)) \<Longrightarrow> (\<And>x. steadily n (a x)) \<Longrightarrow>
   steadily n (case answer of ActionAllowed \<Rightarrow> m | ActionDenied x \<Rightarrow> d x | ActionApproval x \<Rightarrow> a x)"
  by (auto simp: steadily_def caught_def onlyIf_def give_def case_prod_beta
      split: option.splits sum.splits call_verdict.splits action_answer.splits)

lemma run_work_steady [steady_rules]: "steadily n (\<lambda>t. run_work c resumed k (w t) t)"
proof -
  have "steadily n (run_work c resumed k w')" for w'
  proof (induction w')
    case (PerformAction f)
    then show ?case by (auto simp: governed_def intro!: steady_rules)
  next
    case (AskGrant f)
    then show ?case by (auto simp: governed_def intro!: steady_rules)
  next
    case (RegisterArtifact a f)
    then show ?case by (auto simp: register_def intro!: steady_rules)
  qed (simp_all add: steady_rules)
  then show ?thesis by (simp add: steadily_def)
qed

lemma tool_parts_steady [steady_rules]: "steadily n (toolFailed c i k ms f u)" "steadily n (call_broke c tk q u d e)"
  "steadily n (report_done c tk q d out)" "steadily n (input_digest c parsed raw)" "steadily n (call_ids c fl)"
  by (auto simp: toolFailed_def call_broke_def report_done_def input_digest_def call_ids_def Let_def intro!: steady_rules)

lemma calls_steady [steady_rules]:
  "steadily n (execute_call c st resumed tk q u)"
  "ks_turns st = n \<Longrightarrow> steadily n (begin_call c st turn s i)"
  "ks_turns st = n \<Longrightarrow> steadily n (decide_call c st turn fl tk input d rs)"
  by (auto simp: execute_call_def begin_call_def decide_call_def set_turn_def Let_def intro!: steady_rules)

lemma runTool_steady: "ks_turns st = n \<Longrightarrow> steadily n (runTool c st turn u rs)"
  unfolding runTool_def governed_call_def by (intro steady_rules) simp_all

lemma runTools_steady: "ks_turns st = n \<Longrightarrow> steadily n (runTools c rs st turn)"
proof -
  have "runTools c rs st turn t = (r, t') \<Longrightarrow> ks_turns st = n \<Longrightarrow> follows (steady n) t t'" for t r t'
  proof (induction c rs st turn t arbitrary: r t' rule: runTools.induct)
    case (1 c rs st turn t)
    let ?u = "pt_toolUses turn ! pt_index turn" and ?rs = "if pt_inFlight turn = None then None else rs"
    show ?case
    proof (cases "pt_index turn < length (pt_toolUses turn)")
      case False
      with 1(2) show ?thesis by (simp add: runTools.simps)
    next
      case True
      obtain res t1 where run: "runTool c st turn ?u ?rs t = (res, t1)" by (meson surj_pair)
      note one = steadilyD [OF runTool_steady [OF 1(3)] run]
      have turns: "ks_turns st1 = n" if "res = Inr (x, st1)" for x st1
        using yieldsD [OF runTool_turns run [unfolded that]] 1(3) by simp
      show ?thesis
      proof (cases "\<exists>block st1. res = Inr (StepResult block, st1)")
        case False
        with 1(2) True run one show ?thesis
          by (subst (asm) runTools.simps) (auto split: sum.splits tool_step.splits)
      next
        case other: True
        then obtain block st1 where res: "res = Inr (StepResult block, st1)" by blast
        let ?turn = "turn\<lparr>pt_results := pt_results turn @ [block], pt_inFlight := None, pt_index := Suc (pt_index turn)\<rparr>"
        obtain v t2 where saved: "checkpoint c (set_turn st1 ?turn) None t1 = (v, t2)" by (meson surj_pair)
        have n: "ks_turns (set_turn st1 ?turn) = n" using turns [OF res] by (simp add: set_turn_def)
        have two: "follows (steady n) t t2" using follows_trans [OF one steadilyD [OF steady_one(5) [OF n] saved]] .
        show ?thesis
        proof (cases v)
          case (Inl e)
          with 1(2) True run res saved two show ?thesis by (subst (asm) runTools.simps) (auto simp: Let_def)
        next
          case (Inr x)
          with 1(2) True run res saved have "runTools c None (set_turn st1 ?turn) ?turn t2 = (r, t')"
            by (subst (asm) runTools.simps) (auto simp: Let_def)
          from follows_trans [OF two 1(1) [OF True run [symmetric] res refl refl refl saved [symmetric] Inr this n]]
          show ?thesis .
        qed
      qed
    qed
  qed
  then show "ks_turns st = n \<Longrightarrow> steadily n (runTools c rs st turn)" unfolding steadily_def by (metis surj_pair snd_conv)
qed

lemma finish_turn_steady: "ks_turns st = n \<Longrightarrow> steadily n (finish_turn c rs st)"
  unfolding finish_turn_def by (auto intro!: steady_rules runTools_steady)

text \<open>The turns of the states that are stored; \<open>n\<close> of them were taken before this history.\<close>

definition counted :: "nat \<Rightarrow> nat \<Rightarrow> effect list \<Rightarrow> effect \<Rightarrow> bool" where
  "counted n maxTurns t e \<longleftrightarrow>
     (is_answer e \<longrightarrow> n + answers t < maxTurns) \<and> (\<forall>st i. e = Saved st i \<longrightarrow> ks_turns st = n + answers t)"

lemma steady_counts:
  assumes "follows (steady (n + answers t)) t t'"
  shows "follows (counted n m) t t'" "answers t' = answers t"
proof -
  obtain u where u: "t' = t @ u" "\<And>p e s. u = p @ e # s \<Longrightarrow> steady (n + answers t) (t @ p) e"
    using assms unfolding follows_def by blast
  have none: "\<not> is_answer e" if "e \<in> set u" for e using u(2) that by (auto simp: steady_def in_set_conv_decomp)
  then have quiet: "answers v = 0" if "set v \<subseteq> set u" for v using that by (auto simp: answers_def filter_empty_conv)
  show "answers t' = answers t" using u(1) quiet by simp
  have "counted n m (t @ p) e" if "u = p @ e # s" for p e s
    using u(2) [OF that] quiet [of p] that by (auto simp: steady_def counted_def)
  then show "follows (counted n m) t t'" unfolding follows_def using u(1) by blast
qed

lemma steady_obeys:
  "steadily k m \<Longrightarrow> obeys (counted n mx) (\<lambda>t. n + answers t = k) m (\<lambda>_ t. n + answers t = k)"
  unfolding obeys_def steadily_def by (metis snd_conv steady_counts)

lemma obeys_yields: "obeys C P m Q \<Longrightarrow> yields R m \<Longrightarrow> obeys C P m (\<lambda>x t. Q x t \<and> R x)"
  unfolding obeys_def yields_def by blast

lemma complete_counted:
  "k < mx \<Longrightarrow> obeys (counted n mx) (\<lambda>t. n + answers t = k) (caught (complete c q))
     (\<lambda>r t. n + answers t = (case r of Inl _ \<Rightarrow> k | Inr _ \<Rightarrow> Suc k))"
  by (auto simp: obeys_def caught_def complete_def answered_def happens_def breaks_def counted_def
      intro!: follows_one split: sum.splits prod.splits)

lemma take_response_steady: "ks_turns st = n \<Longrightarrow> steadily n (take_response c st i r)"
  unfolding take_response_def Let_def by (intro steady_rules) (simp add: set_turn_def)

lemma take_response_turns:
  "yields (\<lambda>p. \<forall>st'. p = Onward st' \<longrightarrow> ks_turns st' = ks_turns st) (take_response c st i r)"
  unfolding take_response_def Let_def by (intro yields_rules) (simp_all add: set_turn_def)

lemma model_turn_counted:
  "obeys (counted n (kc_maxTurns c)) (\<lambda>t. n + answers t = ks_turns st) (model_turn c st)
     (\<lambda>p t. \<forall>st'. p = Onward st' \<longrightarrow> ks_turns st' = n + answers t)"
proof (cases "kc_maxTurns c \<le> ks_turns st")
  case True
  then show ?thesis by (simp add: model_turn_def obeys_give)
next
  case False
  let ?C = "counted n (kc_maxTurns c)" and ?st = "st\<lparr>ks_turns := Suc (ks_turns st)\<rparr>"
  let ?P = "\<lambda>k t. n + answers t = k"
  have answer: "obeys ?C (?P (Suc (ks_turns st))) (take_response c ?st s r)
      (\<lambda>p t. \<forall>st'. p = Onward st' \<longrightarrow> ks_turns st' = n + answers t)" for s r
    by (rule obeys_weaken [OF obeys_yields [OF steady_obeys [OF take_response_steady] take_response_turns]]) auto
  have failed: "obeys ?C (?P (ks_turns st)) (thenDo (emit c p s) (\<lambda>_. give (Over (KernelFailed f))))
      (\<lambda>p t. \<forall>st'. p = Onward st' \<longrightarrow> ks_turns st' = n + answers t)" for p s f
    by (rule obeys_thenDo [OF steady_obeys]) (auto intro: steady_rules obeys_give)
  have turn: "obeys ?C (?P (ks_turns st)) (thenDo (caught (complete c q)) (\<lambda>r. case r of
        Inl e \<Rightarrow> thenDo (emit c (PStepFailed (toExecutionError (asRuntimeFailure e))) s) (\<lambda>_.
            give (Over (KernelFailed (asRuntimeFailure e))))
      | Inr response \<Rightarrow> take_response c ?st s response)) (\<lambda>p t. \<forall>st'. p = Onward st' \<longrightarrow> ks_turns st' = n + answers t)" for q s
    by (rule obeys_thenDo [OF complete_counted]) (use False in \<open>auto intro: answer failed split: sum.splits\<close>)
  show ?thesis
    unfolding model_turn_def Let_def if_not_P [OF False]
    by (intro obeys_thenDo [OF steady_obeys] steady_rules turn)
qed

lemma loop_counted:
  assumes "loop c rs st t = (out, t')" and "ks_turns st = n + answers t"
  shows "follows (counted n (kc_maxTurns c)) t t'"
  using assms
proof (induction c rs st t arbitrary: out t' rule: loop.induct)
  case (1 c rs st t)
  let ?C = "counted n (kc_maxTurns c)"
  have m: "steadily (ks_turns st) (thenDo (throwIfAborted c) (\<lambda>_. finish_turn c rs st))"
    by (intro steady_rules finish_turn_steady) simp
  have y: "yields (\<lambda>p. \<forall>st'. p = Onward st' \<longrightarrow> ks_turns st' = ks_turns st) (thenDo (throwIfAborted c) (\<lambda>_. finish_turn c rs st))"
    using finish_turn_turns [of st c rs] by (intro yields_thenDo) (fastforce simp: yields_def split: progress.splits)
  obtain r1 t1 where one: "thenDo (throwIfAborted c) (\<lambda>_. finish_turn c rs st) t = (r1, t1)" by (meson surj_pair)
  have first: "follows ?C t t1" "\<And>st'. r1 = Inr (Onward st') \<Longrightarrow> ks_turns st' = n + answers t1"
    using obeysD [OF obeys_yields [OF steady_obeys [OF m] y] _ one] 1(3) by auto
  show ?case
  proof (cases "\<exists>st'. r1 = Inr (Onward st')")
    case False
    with 1(2) one first show ?thesis by (subst (asm) loop.simps) (auto split: sum.splits progress.splits)
  next
    case True
    then obtain st' where st': "r1 = Inr (Onward st')" by blast
    obtain r2 t2 where two: "model_turn c st' t1 = (r2, t2)" by (meson surj_pair)
    from obeysD [OF model_turn_counted _ two] first(2) [OF st']
    have second: "follows ?C t1 t2" "\<And>st''. r2 = Inr (Onward st'') \<Longrightarrow> ks_turns st'' = n + answers t2" by auto
    note both = follows_trans [OF first(1) second(1)]
    show ?thesis
    proof (cases "\<exists>st''. r2 = Inr (Onward st'')")
      case False
      with 1(2) one st' two both show ?thesis by (subst (asm) loop.simps) (auto split: sum.splits progress.splits)
    next
      case True
      then obtain st'' where st'': "r2 = Inr (Onward st'')" by blast
      with 1(2) one st' two have "loop c None st'' t2 = (out, t')" by (subst (asm) loop.simps) simp
      from follows_trans [OF both 1(1) [OF one [symmetric] st' refl two [symmetric] st'' refl this second(2) [OF st'']]]
      show ?thesis .
    qed
  qed
qed

text \<open>No history that is counted has more answers than turns were left.\<close>

lemma counted_bound: "follows (counted n m) [] t \<Longrightarrow> answers t \<le> m - n"
proof (induction t rule: rev_induct)
  case (snoc e t)
  have "follows (counted n m) [] t" using snoc(2) by (auto simp: follows_def)
  then have "answers t \<le> m - n" by (rule snoc(1))
  moreover have "counted n m t e" using snoc(2) by (rule follows_at [where s = "[]"])
  ultimately show ?case by (auto simp: counted_def)
qed simp

end
