(* ===== verification/KernelSteps.thy ===== *)
theory KernelSteps
  imports KernelTurns
begin

text \<open>
  The steps that a kernel's history opens and closes: they never overlap, and a run that completes or
  pauses has closed all but the one it pauses in.
\<close>

section \<open>The open step\<close>

text \<open>\<open>None\<close> where a step is opened while another is open, or one is closed that is not open.\<close>

fun step_move :: "effect \<Rightarrow> string option \<Rightarrow> string option option" where
  "step_move (Emitted (PStepStarted k title) s) a = (if a = None then Some (Some s) else None)"
| "step_move (Emitted (PStepCompleted o') s) a = (if a = Some s then Some None else None)"
| "step_move (Emitted (PStepFailed e) s) a = (if a = Some s then Some None else None)"
| "step_move _ a = Some a"

definition open_step :: "string option \<Rightarrow> effect list \<Rightarrow> string option option" where
  "open_step a t = foldl (\<lambda>x e. Option.bind x (step_move e)) (Some a) t"

lemma open_step_simps [simp]: "open_step a [] = Some a" "open_step a (t @ [e]) = Option.bind (open_step a t) (step_move e)"
  by (simp_all add: open_step_def)

definition steps ::
  "string option \<Rightarrow> string option \<Rightarrow> 'a act \<Rightarrow> ('a \<Rightarrow> string option) \<Rightarrow> (string option \<Rightarrow> bool) \<Rightarrow> bool" where
  "steps o0 a m b E \<longleftrightarrow> (\<forall>t. open_step o0 t = Some a \<longrightarrow>
     (case m t of (Inl e, t') \<Rightarrow> (\<exists>x. open_step o0 t' = Some x \<and> E x) | (Inr v, t') \<Rightarrow> open_step o0 t' = Some (b v)))"

lemma stepsD: "steps o0 a m b E \<Longrightarrow> open_step o0 t = Some a \<Longrightarrow> m t = (r, t') \<Longrightarrow>
   (case r of Inl e \<Rightarrow> (\<exists>x. open_step o0 t' = Some x \<and> E x) | Inr v \<Rightarrow> open_step o0 t' = Some (b v))"
proof -
  assume run: "m t = (r, t')"
  assume m: "steps o0 a m b E" and t: "open_step o0 t = Some a"
  from m [unfolded steps_def, THEN spec, THEN mp, OF t] run show ?thesis by (cases r) simp_all
qed

lemma stepsI: "(\<And>t r t'. open_step o0 t = Some a \<Longrightarrow> m t = (r, t') \<Longrightarrow>
    (case r of Inl e \<Rightarrow> (\<exists>x. open_step o0 t' = Some x \<and> E x) | Inr v \<Rightarrow> open_step o0 t' = Some (b v))) \<Longrightarrow> steps o0 a m b E"
proof -
  assume each: "\<And>t r t'. open_step o0 t = Some a \<Longrightarrow> m t = (r, t') \<Longrightarrow>
    (case r of Inl e \<Rightarrow> (\<exists>x. open_step o0 t' = Some x \<and> E x) | Inr v \<Rightarrow> open_step o0 t' = Some (b v))"
  show ?thesis
    unfolding steps_def
  proof (intro allI impI)
    fix t
    assume "open_step o0 t = Some a"
    obtain r t' where "m t = (r, t')" by (meson surj_pair)
    with each [OF \<open>open_step o0 t = Some a\<close> this]
    show "case m t of (Inl e, t') \<Rightarrow> (\<exists>x. open_step o0 t' = Some x \<and> E x) | (Inr v, t') \<Rightarrow> open_step o0 t' = Some (b v)"
      by (cases r) simp_all
  qed
qed

lemma case_same [simp]: "(case r of Inl e \<Rightarrow> a | Inr v \<Rightarrow> a) = a"
  by (cases r) simp_all

lemma steps_give: "b v = a \<Longrightarrow> steps o0 a (give v) b E"
  by (simp add: steps_def give_def)

lemma steps_raised: "E a \<Longrightarrow> steps o0 a (raised e) b E"
  by (simp add: steps_def raised_def)

lemma steps_thenDo: "steps o0 a m b E \<Longrightarrow> (\<And>v. steps o0 (b v) (f v) c E) \<Longrightarrow> steps o0 a (thenDo m f) c E"
proof (rule stepsI)
  fix t r t'
  assume m: "steps o0 a m b E" and f: "\<And>v. steps o0 (b v) (f v) c E" and t: "open_step o0 t = Some a" "thenDo m f t = (r, t')"
  obtain r1 t1 where run: "m t = (r1, t1)" by (meson surj_pair)
  note one = stepsD [OF m t(1) run]
  show "case r of Inl e \<Rightarrow> \<exists>x. open_step o0 t' = Some x \<and> E x | Inr v \<Rightarrow> open_step o0 t' = Some (c v)"
  proof (cases r1)
    case (Inl e)
    with one t(2) run show ?thesis by (auto simp: thenDo_def)
  next
    case (Inr v)
    with one t(2) run have "open_step o0 t1 = Some (b v)" "f v t1 = (r, t')" by (simp_all add: thenDo_def)
    from stepsD [OF f this] show ?thesis .
  qed
qed

lemma steps_caught: "steps o0 a m b (\<lambda>x. x = d) \<Longrightarrow> steps o0 a (caught m) (\<lambda>r. case r of Inl _ \<Rightarrow> d | Inr v \<Rightarrow> b v) E"
proof (rule stepsI)
  fix t r t'
  assume m: "steps o0 a m b (\<lambda>x. x = d)" and t: "open_step o0 t = Some a" "caught m t = (r, t')"
  obtain r1 t1 where run: "m t = (r1, t1)" by (meson surj_pair)
  with t(2) have r: "r = Inr r1" "t' = t1" by (auto simp: caught_def)
  from stepsD [OF m t(1) run]
  show "case r of Inl e \<Rightarrow> \<exists>x. open_step o0 t' = Some x \<and> E x
      | Inr v \<Rightarrow> open_step o0 t' = Some (case v of Inl _ \<Rightarrow> d | Inr v \<Rightarrow> b v)"
    unfolding r by (cases r1) simp_all
qed

lemma steps_emit: "(\<forall>x. step_move (Emitted p i) a = Some x \<longrightarrow> x = b) \<Longrightarrow> step_move (Emitted p i) a \<noteq> None \<Longrightarrow> E a \<Longrightarrow>
   steps o0 a (emit c p i) (\<lambda>_. b) E"
  by (auto simp: steps_def emit_def happens_def breaks_def split: option.splits)

text \<open>Acts that open and close nothing.\<close>

definition still :: "'a act \<Rightarrow> bool" where
  "still m \<longleftrightarrow> (\<forall>o0 a E. E a \<longrightarrow> steps o0 a m (\<lambda>_. a) E)"

named_theorems still_rules

lemma still_steps: "still m \<Longrightarrow> E a \<Longrightarrow> steps o0 a m (\<lambda>_. a) E"
  unfolding still_def by blast

lemma still_basic [still_rules]: "still (give x)" "still (raised e)" "still (throwIfAborted c)" "still (digest c v)" "still (clock c)"
  "still (checkpoint c st o')" "still (freshId c)" "still (requestAction c q)" "still (complete c mq)" "still (happens () (Ran k))"
  "still (\<lambda>t. answered (kc_executeAction c t k) (Performed k) t)" "still (\<lambda>t. answered (kc_requestGrant c t k) (Granted k) t)"
  by (auto simp: still_def steps_def give_def raised_def throwIfAborted_def digest_def clock_def checkpoint_def freshId_def
      requestAction_def complete_def answered_def happens_def breaks_def split: option.splits sum.splits)

lemma still_emit [still_rules]: "(\<And>a. step_move (Emitted p i) a = Some a) \<Longrightarrow> still (emit c p i)"
  by (simp add: still_def steps_emit)

lemma still_thenDo [still_rules]: "still m \<Longrightarrow> (\<And>x. still (f x)) \<Longrightarrow> still (thenDo m f)"
  unfolding still_def by (blast intro: steps_thenDo)

lemma still_control [still_rules]:
  "still m \<Longrightarrow> still (caught m)" "still k \<Longrightarrow> still (onlyIf b k)"
  "(b \<Longrightarrow> still m) \<Longrightarrow> (\<not> b \<Longrightarrow> still m') \<Longrightarrow> still (if b then m else m')"
  "still m \<Longrightarrow> (\<And>x. still (g x)) \<Longrightarrow> still (case v of None \<Rightarrow> m | Some x \<Rightarrow> g x)"
  "(\<And>e. still (g' e)) \<Longrightarrow> (\<And>x. still (h x)) \<Longrightarrow> still (case s of Inl e \<Rightarrow> g' e | Inr x \<Rightarrow> h x)"
  "still m \<Longrightarrow> (\<And>x. still (d x)) \<Longrightarrow> (\<And>x. still (w x)) \<Longrightarrow>
   still (case answer of ActionAllowed \<Rightarrow> m | ActionDenied x \<Rightarrow> d x | ActionApproval x \<Rightarrow> w x)"
proof -
  show "still (caught m)" if "still m"
  proof -
    have "steps o0 a (caught m) (\<lambda>r. case r of Inl _ \<Rightarrow> a | Inr v \<Rightarrow> a) E" for o0 a E
      by (rule steps_caught) (use that in \<open>simp add: still_def\<close>)
    then show ?thesis by (simp add: still_def)
  qed
qed (auto simp: onlyIf_def still_basic split: option.splits sum.splits action_answer.splits)

lemma still_run_work [still_rules]: "still (\<lambda>t. run_work c resumed k (w t) t)"
proof -
  have one: "still (run_work c resumed k w')" for w'
  proof (induction w')
    case (PerformAction f)
    then show ?case by (auto simp: governed_def intro!: still_rules)
  next
    case (AskGrant f)
    then show ?case by (auto simp: governed_def intro!: still_rules)
  next
    case (RegisterArtifact a f)
    then show ?case by (auto simp: register_def intro!: still_rules)
  qed (simp_all add: still_rules)
  show ?thesis
    unfolding still_def
  proof (intro allI impI stepsI)
    fix o0 a t r t' and E :: "string option \<Rightarrow> bool"
    assume "E a" and "open_step o0 t = Some a" and "run_work c resumed k (w t) t = (r, t')"
    from stepsD [OF still_steps [of _ E, OF one this(1)] this(2,3)]
    show "case r of Inl e \<Rightarrow> \<exists>x. open_step o0 t' = Some x \<and> E x | Inr v \<Rightarrow> open_step o0 t' = Some a" .
  qed
qed

lemma still_then: "still m \<Longrightarrow> E a \<Longrightarrow> (\<And>v. steps o0 a (f v) b E) \<Longrightarrow> steps o0 a (thenDo m f) b E"
  by (rule steps_thenDo [OF still_steps])

section \<open>One call\<close>

lemma steps_failed: "E (Some i) \<Longrightarrow> steps o0 (Some i) (toolFailed c i k ms f u) (\<lambda>_. None) E"
  unfolding toolFailed_def Let_def
  by (intro steps_thenDo [OF still_steps [OF still_emit]] steps_thenDo [OF steps_emit [where b = None]] steps_give) simp_all

lemma steps_broke: "E (Some (tc_stepId k)) \<Longrightarrow> steps o0 (Some (tc_stepId k)) (call_broke c tk k u n e) (\<lambda>_. None) E"
  unfolding call_broke_def by (intro steps_thenDo [OF still_steps] still_basic steps_failed) simp_all

lemma steps_reported:
  "steps o0 (Some (tc_stepId k)) (caught (report_done c tk k n out)) (\<lambda>r. case r of Inl _ \<Rightarrow> Some (tc_stepId k) | Inr _ \<Rightarrow> None) E"
  unfolding report_done_def
  by (intro steps_caught steps_thenDo [OF still_steps] still_basic still_emit steps_emit) simp_all

lemma steps_execute:
  "E (Some (tc_stepId k)) \<Longrightarrow> E None \<Longrightarrow> steps o0 (Some (tc_stepId k)) (execute_call c st resumed tk k u) (\<lambda>_. None) E"
proof -
  assume E: "E (Some (tc_stepId k))" "E None"
  let ?s = "Some (tc_stepId k)"
  have broke: "steps o0 ?s (thenDo (call_broke c tk k u n e) (\<lambda>step. give (step, st'))) (\<lambda>_. None) E" for n e st'
    by (rule steps_thenDo [OF steps_broke]) (simp_all add: E steps_give)
  have reported: "steps o0 ?s (thenDo (caught (report_done c tk k n out)) (\<lambda>r. case r of
        Inl e \<Rightarrow> thenDo (call_broke c tk k u n e) (\<lambda>step. give (step, st')) | Inr _ \<Rightarrow> give (step', st'))) (\<lambda>_. None) E"
    for n out st' step'
    by (rule steps_thenDo [OF steps_reported]) (auto intro: broke steps_give split: sum.splits)
  have worked: "steps o0 ?s (caught (\<lambda>t. run_work c resumed k (w t) t)) (\<lambda>_. ?s) E" for w
    using still_steps [OF still_control(1) [OF still_run_work]] E(1) by blast
  show ?thesis
    unfolding execute_call_def Let_def
    by (intro still_then [OF still_emit] still_then [OF still_basic(5)] still_then [OF still_basic(10)] steps_thenDo [OF worked] E(1))
      (auto intro: broke reported split: sum.splits)
qed

definition stays :: "tool_step \<Rightarrow> string option" where
  "stays step = (case step of StepResult block \<Rightarrow> None | StepPaused a s \<Rightarrow> Some s)"

lemma stays_simps [simp]: "stays (StepResult block) = None" "stays (StepPaused a s) = Some s" "stays (tool_result u m e) = None"
  by (simp_all add: stays_def tool_result_def)

lemma steps_result: "steps o0 a m (\<lambda>_. None) E \<Longrightarrow> yields (\<lambda>(step, st). stays step = None) m \<Longrightarrow> steps o0 a m (\<lambda>(step, st). stays step) E"
  unfolding steps_def yields_def by (fastforce split: prod.splits sum.splits)

lemma failed_yields: "yields (\<lambda>step. stays step = None) (toolFailed c i k ms f u)"
  unfolding toolFailed_def Let_def by (intro yields_rules) simp

lemma broke_yields: "yields (\<lambda>step. stays step = None) (call_broke c tk k u n e)"
  unfolding call_broke_def by (intro yields_rules failed_yields)

lemma execute_yields: "yields (\<lambda>(step, st). stays step = None) (execute_call c st resumed tk k u)"
  unfolding execute_call_def Let_def
  by (intro yields_rules yields_through [OF broke_yields]) simp_all

lemma still_begin [still_rules]: "still (begin_call c st turn s i)" "still (decide_call c st turn fl tk input d rs)"
  "still (input_digest c parsed raw)"
  by (auto simp: begin_call_def decide_call_def input_digest_def Let_def intro!: still_rules)

lemma steps_governed:
  assumes "E (Some s)" "E None"
  shows "steps o0 (Some s) (governed_call c st turn u tk input d s i rs) (\<lambda>(step, st'). stays step) E"
proof -
  let ?k = "\<lambda>fl. \<lparr>tc_toolId = tl_id tk, tc_input = input, tc_stepId = s, tc_toolCallId = i,
       tc_requestId = (if tl_governedAction tk input = None then None else Some (fl_requestId fl))\<rparr>"
  have "steps o0 (Some s) (case verdict of
       Proceed \<Rightarrow> execute_call c (set_turn st turn2) (pt_inFlight turn \<noteq> None) tk (?k fl) u
     | Denied reason \<Rightarrow> thenDo (toolFailed c s i 0 \<lparr>rf_code = ''ACTION_DENIED'', rf_message = reason, rf_retryable = False\<rparr> u)
         (\<lambda>step. give (step, set_turn st turn2))
     | WaitFor a \<Rightarrow> give (StepPaused a s, set_turn st turn2)) (\<lambda>(step, st'). stays step) E" for verdict turn2 fl
  proof (cases verdict)
    case Proceed
    have "steps o0 (Some (tc_stepId (?k fl))) (execute_call c (set_turn st turn2) (pt_inFlight turn \<noteq> None) tk (?k fl) u) (\<lambda>_. None) E"
      by (rule steps_execute) (simp_all add: assms)
    then show ?thesis unfolding Proceed call_verdict.case by (intro steps_result execute_yields) simp
  next
    case (Denied reason)
    then show ?thesis unfolding Denied call_verdict.case
      by (intro steps_result steps_thenDo [OF steps_failed] yields_through [OF failed_yields] yields_give steps_give) (simp_all add: assms)
  qed (simp add: steps_give)
  then show ?thesis
    unfolding governed_call_def by (auto intro!: still_then still_begin assms)
qed

text \<open>The step that is open when a call is taken up.\<close>

definition entry :: "in_flight option \<Rightarrow> resumption option \<Rightarrow> string option" where
  "entry fl rs = (if ended_elsewhere fl rs then None else map_option fl_stepId fl)"

lemma entry_none [simp]: "entry None rs = None"
  by (simp add: entry_def)

lemma steps_runTool:
  "steps o0 (entry (pt_inFlight turn) rs) (runTool c st turn u rs) (\<lambda>(step, st'). stays step) (\<lambda>_. True)"
proof -
  have broke: "steps o0 (Some s) (thenDo (toolFailed c s i k f u) (\<lambda>step. give (step, st'))) (\<lambda>(step, st'). stays step) (\<lambda>_. True)"
    for s i k f st'
    by (intro steps_result steps_thenDo [OF steps_failed] yields_through [OF failed_yields] yields_give steps_give) simp_all
  have body: "steps o0 (Some s) (case find (\<lambda>tk. tl_id tk = tu_name u) (kc_tools c) of
         None \<Rightarrow>
           thenDo (emit c (PStepFailed \<lparr>er_code = ''TOOL_NOT_AVAILABLE'',
              er_message = ''The tool is not granted to this agent.''\<rparr>) s) (\<lambda>_.
           give (tool_result u (''Tool '' @ safeLabel (tu_name u) @ '' is not available.'') True, set_turn st turn))
       | Some tk \<Rightarrow>
           thenDo (input_digest c (tl_parse tk (tu_input u)) (tu_input u)) (\<lambda>d.
           thenDo (onlyIf (pt_inFlight turn = None)
              (emit c (PToolRequested i (tl_id tk) (tl_version tk) d) s)) (\<lambda>_.
           case tl_parse tk (tu_input u) of
             Inl e \<Rightarrow>
               thenDo (toolFailed c s i 0
                  \<lparr>rf_code = ''TOOL_INPUT_INVALID'', rf_message = invalidInputMessage e, rf_retryable = False\<rparr> u)
                 (\<lambda>step. give (step, set_turn st turn))
           | Inr input \<Rightarrow> governed_call c st turn u tk input d s i rs'))) (\<lambda>(step, st'). stays step) (\<lambda>_. True)" for s i rs'
  proof (cases "find (\<lambda>tk. tl_id tk = tu_name u) (kc_tools c)")
    case None
    then show ?thesis by (auto intro!: steps_thenDo [OF steps_emit [where b = None]] steps_give)
  next
    case (Some tk)
    have "steps o0 (Some s) (case tl_parse tk (tu_input u) of
             Inl e \<Rightarrow>
               thenDo (toolFailed c s i 0
                  \<lparr>rf_code = ''TOOL_INPUT_INVALID'', rf_message = invalidInputMessage e, rf_retryable = False\<rparr> u)
                 (\<lambda>step. give (step, set_turn st turn))
           | Inr input \<Rightarrow> governed_call c st turn u tk input d s i rs') (\<lambda>(step, st'). stays step) (\<lambda>_. True)" for d
      by (cases "tl_parse tk (tu_input u)") (simp_all add: broke steps_governed)
    then show ?thesis
      unfolding Some option.case by (intro still_then still_begin still_control(2) still_emit) simp_all
  qed
  show ?thesis
  proof (cases "pt_inFlight turn")
    case (Some fl)
    have same: "thenDo (give x) f = f x" for x :: 'x and f :: "'x \<Rightarrow> 'y act" by (rule ext) (simp add: thenDo_def give_def)
    show ?thesis
      using body [of "fl_stepId fl" "fl_toolCallId fl" rs]
      by (simp add: runTool_def call_ids_def Some same onlyIf_def entry_def steps_give)
  next
    case None
    have begins: "steps o0 None (onlyIf (None = (None :: in_flight option)) (emit c (PStepStarted TOOL title) s)) (\<lambda>_. Some s) (\<lambda>_. True)"
      for title s by (simp add: onlyIf_def) (rule steps_emit, simp_all)
    have ids: "steps o0 None (call_ids c None) (\<lambda>_. None) (\<lambda>_. True)"
      by (rule still_steps) (auto simp: call_ids_def intro!: still_rules)
    have fresh: "ended_elsewhere None rs = False" by (simp add: ended_elsewhere_def)
    show ?thesis
      unfolding runTool_def None entry_none fresh if_False
      by (rule steps_thenDo [OF ids], simp only: split_paired_all prod.case)
        (intro steps_thenDo [OF begins] body [unfolded None])
  qed
qed

section \<open>The loop\<close>

definition waits :: "kernel_outcome option \<Rightarrow> string option" where
  "waits out = (case out of Some (KernelPaused a s st) \<Rightarrow> Some s | _ \<Rightarrow> None)"

lemma waits_simps [simp]: "waits None = None" "waits (Some (KernelPaused a s st)) = Some s"
  "waits (Some (KernelCompleted x y)) = None" "waits (Some (KernelFailed f)) = None"
  by (simp_all add: waits_def)

text \<open>A call in progress is one of the turn's calls.\<close>

definition proper_turn :: "pending_turn \<Rightarrow> bool" where
  "proper_turn turn \<longleftrightarrow> (pt_inFlight turn = None \<or> pt_index turn < length (pt_toolUses turn))"

lemma steps_runTools:
  "proper_turn turn \<Longrightarrow> steps o0 (entry (pt_inFlight turn) rs) (runTools c rs st turn) (\<lambda>(paused, st'). waits paused) (\<lambda>_. True)"
proof (rule stepsI)
  fix t r t'
  assume "proper_turn turn" and "open_step o0 t = Some (entry (pt_inFlight turn) rs)" and "runTools c rs st turn t = (r, t')"
  then show "case r of Inl e \<Rightarrow> \<exists>x. open_step o0 t' = Some x \<and> True | Inr v \<Rightarrow> open_step o0 t' = Some ((\<lambda>(paused, st'). waits paused) v)"
  proof (induction c rs st turn t arbitrary: r t' rule: runTools.induct)
    case (1 c rs st turn t)
    let ?u = "pt_toolUses turn ! pt_index turn" and ?rs = "if pt_inFlight turn = None then None else rs"
    have entry: "entry (pt_inFlight turn) ?rs = entry (pt_inFlight turn) rs" by simp
    show ?case
    proof (cases "pt_index turn < length (pt_toolUses turn)")
      case False
      with 1(2-4) show ?thesis by (auto simp: runTools.simps proper_turn_def)
    next
      case True
      obtain res t1 where run: "runTool c st turn ?u ?rs t = (res, t1)" by (meson surj_pair)
      note one = stepsD [OF steps_runTool 1(3) [folded entry] run]
      show ?thesis
      proof (cases "\<exists>block st1. res = Inr (StepResult block, st1)")
        case False
        with 1(4) True run one show ?thesis
          by (subst (asm) runTools.simps) (auto split: sum.splits tool_step.splits)
      next
        case other: True
        then obtain block st1 where res: "res = Inr (StepResult block, st1)" by blast
        let ?turn = "turn\<lparr>pt_results := pt_results turn @ [block], pt_inFlight := None, pt_index := Suc (pt_index turn)\<rparr>"
        obtain v t2 where saved: "checkpoint c (set_turn st1 ?turn) None t1 = (v, t2)" by (meson surj_pair)
        from one res have "open_step o0 t1 = Some None" by simp
        from stepsD [OF still_steps [of _ "\<lambda>_. True", OF still_basic(6)] this saved]
        have two: "case v of Inl e \<Rightarrow> \<exists>x. open_step o0 t2 = Some x \<and> True | Inr x \<Rightarrow> open_step o0 t2 = Some None" by simp
        show ?thesis
        proof (cases v)
          case (Inl e)
          with 1(4) True run res saved two show ?thesis by (subst (asm) runTools.simps) (auto simp: Let_def)
        next
          case (Inr x)
          with 1(4) True run res saved have go: "runTools c None (set_turn st1 ?turn) ?turn t2 = (r, t')"
            by (subst (asm) runTools.simps) (auto simp: Let_def)
          from two Inr have "open_step o0 t2 = Some (entry (pt_inFlight ?turn) None)" by simp
          from 1(1) [OF True run [symmetric] res refl refl refl saved [symmetric] Inr _ this go] show ?thesis
            by (simp add: proper_turn_def)
        qed
      qed
    qed
  qed
qed

definition state_entry :: "kernel_state \<Rightarrow> resumption option \<Rightarrow> string option" where
  "state_entry st rs = (case ks_turn st of None \<Rightarrow> None | Some turn \<Rightarrow> entry (pt_inFlight turn) rs)"

definition proper_state :: "kernel_state \<Rightarrow> bool" where
  "proper_state st \<longleftrightarrow> pred_option proper_turn (ks_turn st)"

definition ends_in :: "progress \<Rightarrow> string option" where
  "ends_in p = (case p of Over out \<Rightarrow> waits (Some out) | Onward st \<Rightarrow> None)"

lemma ends_in_simps [simp]: "ends_in (Onward st) = None" "ends_in (Over out) = waits (Some out)"
  by (simp_all add: ends_in_def)

lemma steps_finish:
  assumes "proper_state st"
  shows "steps o0 (state_entry st rs) (thenDo (throwIfAborted c) (\<lambda>_. finish_turn c rs st)) ends_in (\<lambda>_. True)"
proof (rule still_then [OF still_basic(3) TrueI])
  show "steps o0 (state_entry st rs) (finish_turn c rs st) ends_in (\<lambda>_. True)"
  proof (cases "ks_turn st")
    case None
    then show ?thesis by (simp add: finish_turn_def state_entry_def steps_give)
  next
    case (Some turn)
    with assms have "proper_turn turn" by (simp add: proper_state_def)
    from steps_runTools [OF this] Some show ?thesis
      unfolding finish_turn_def Some option.case state_entry_def
      by (rule_tac steps_thenDo) (auto intro!: steps_give split: option.splits)
  qed
qed

lemma steps_response:
  "steps o0 (Some s) (take_response c st s r) ends_in (\<lambda>_. True)"
proof -
  have closes: "steps o0 (Some s) (emit c (PStepCompleted None) s) (\<lambda>_. None) (\<lambda>_. True)" by (rule steps_emit) simp_all
  show ?thesis
    unfolding take_response_def Let_def
    by (intro still_then [OF still_emit] still_then [OF still_control(2)] still_emit steps_thenDo [OF closes])
      (auto intro!: steps_give still_then still_basic)
qed

lemma steps_model_turn: "steps o0 None (model_turn c st) ends_in (\<lambda>_. True)"
proof -
  have begins: "steps o0 None (emit c (PStepStarted MODEL title) s) (\<lambda>_. Some s) (\<lambda>_. True)" for title s
    by (rule steps_emit) simp_all
  have fails: "steps o0 (Some s) (thenDo (emit c (PStepFailed e) s) (\<lambda>_. give (Over (KernelFailed f)))) ends_in (\<lambda>_. True)" for s e f
    by (intro steps_thenDo [OF steps_emit [where b = None]] steps_give) simp_all
  show ?thesis
  proof (cases "kc_maxTurns c \<le> ks_turns st")
    case True
    then show ?thesis by (simp add: model_turn_def kernel_failure_def steps_give)
  next
    case False
    show ?thesis
      unfolding model_turn_def Let_def if_not_P [OF False]
      by (intro still_then [OF still_basic(7)] steps_thenDo [OF begins] still_then [OF still_emit]
          still_then [OF still_control(1) [OF still_basic(9)]])
        (auto intro: fails steps_response split: sum.splits)
  qed
qed

text \<open>A turn of the model leaves no call in progress.\<close>

lemma fresh_turn: "yields (\<lambda>p. \<forall>st'. p = Onward st' \<longrightarrow> proper_state st' \<and> state_entry st' None = None) (model_turn c st)"
  unfolding model_turn_def take_response_def Let_def
  by (intro yields_rules) (simp_all add: set_turn_def proper_state_def proper_turn_def state_entry_def)

lemma steps_loop:
  assumes "loop c rs st t = (out, t')" and "proper_state st" and "open_step o0 t = Some (state_entry st rs)"
  shows "\<exists>x. open_step o0 t' = Some x \<and> ((\<exists>f. out = KernelFailed f) \<or> x = waits (Some out))"
  using assms
proof (induction c rs st t arbitrary: out t' rule: loop.induct)
  case (1 c rs st t)
  obtain r1 t1 where one: "thenDo (throwIfAborted c) (\<lambda>_. finish_turn c rs st) t = (r1, t1)" by (meson surj_pair)
  note first = stepsD [OF steps_finish [OF 1(3)] 1(4) one]
  show ?case
  proof (cases "\<exists>st'. r1 = Inr (Onward st')")
    case False
    with 1(2) one first show ?thesis by (subst (asm) loop.simps) (auto split: sum.splits progress.splits)
  next
    case True
    then obtain st' where st': "r1 = Inr (Onward st')" by blast
    obtain r2 t2 where two: "model_turn c st' t1 = (r2, t2)" by (meson surj_pair)
    from first st' have "open_step o0 t1 = Some None" by simp
    note second = stepsD [OF steps_model_turn this two]
    show ?thesis
    proof (cases "\<exists>st''. r2 = Inr (Onward st'')")
      case False
      with 1(2) one st' two second show ?thesis by (subst (asm) loop.simps) (auto split: sum.splits progress.splits)
    next
      case True
      then obtain st'' where st'': "r2 = Inr (Onward st'')" by blast
      with 1(2) one st' two have go: "loop c None st'' t2 = (out, t')" by (subst (asm) loop.simps) simp
      have "proper_state st'' \<and> state_entry st'' None = None"
        using fresh_turn two st'' by (fastforce simp: yields_def)
      with second st'' 1(1) [OF one [symmetric] st' refl two [symmetric] st'' refl go] show ?thesis by simp
    qed
  qed
qed

end
