(* ===== verification/KernelProperties.thy ===== *)
theory KernelProperties
  imports KernelSteps
begin

text \<open>
  The properties of the native kernel: what its history must hold before a tool runs, how many turns it
  takes, and that a paused run can be answered.
\<close>

section \<open>Stored states\<close>

lemma texts_JStr: "texts (map JStr ts) = Some ts"
  by (induction ts) simp_all

lemma tool_uses_read: "all_some (map (toolUseSchema \<circ> tool_use_json) us) = Some us"
proof (induction us)
  case (Cons u us)
  have "toolUseSchema (tool_use_json u) = Some u"
    by (cases "tu_input u") (simp_all add: toolUseSchema_def tool_use_json_def text_field_def)
  with Cons show ?case by simp
qed simp

definition readable_call :: "(string \<Rightarrow> bool) \<Rightarrow> in_flight \<Rightarrow> bool" where
  "readable_call uuid fl \<longleftrightarrow> uuid (fl_stepId fl) \<and> uuid (fl_toolCallId fl) \<and> uuid (fl_requestId fl) \<and>
     pred_option uuid (fl_approvalId fl)"

lemma in_flight_read: "readable_call uuid fl \<Longrightarrow> inFlightSchema uuid (in_flight_json fl) = Some fl"
  by (cases "fl_approvalId fl")
    (simp_all add: inFlightSchema_def in_flight_json_def readable_call_def within_field_def nullable_def or_null_def)

lemma in_flight_readable: "inFlightSchema uuid v = Some fl \<Longrightarrow> readable_call uuid fl"
proof -
  have ok: "accepted_text uuid w = Some t \<Longrightarrow> uuid t" for w t by (cases w) (auto split: if_splits)
  show "inFlightSchema uuid v = Some fl \<Longrightarrow> readable_call uuid fl"
    by (auto simp: inFlightSchema_def within_field_def nullable_def readable_call_def pred_option_def bind_eq_Some_conv
        dest!: ok split: if_splits option.splits)
qed

lemma turn_read:
  assumes "pred_option (readable_call uuid) (pt_inFlight turn)"
  shows "turnSchema uuid (turn_json turn) = Some turn"
proof -
  have "nullable (inFlightSchema uuid) (or_null in_flight_json (pt_inFlight turn)) = Some (pt_inFlight turn)"
    using assms in_flight_read [of uuid] by (cases "pt_inFlight turn") (simp_all add: nullable_def or_null_def in_flight_json_def)
  then show ?thesis using tool_uses_read [of "pt_toolUses turn"]
    by (simp add: turnSchema_def turn_json_def within_field_def)
qed

definition readable :: "(string \<Rightarrow> bool) \<Rightarrow> kernel_state \<Rightarrow> bool" where
  "readable uuid st \<longleftrightarrow> pred_option (readable_call uuid) (Option.bind (ks_turn st) pt_inFlight)"

lemma state_read:
  assumes "readable uuid st"
  shows "stateSchema uuid (state_json st) = Some st"
proof -
  have "nullable (turnSchema uuid) (or_null turn_json (ks_turn st)) = Some (ks_turn st)"
    using assms turn_read [of uuid]
    by (cases "ks_turn st") (simp_all add: readable_def nullable_def or_null_def turn_json_def)
  then show ?thesis by (simp add: stateSchema_def state_json_def within_field_def texts_field_def texts_JStr)
qed

lemma turn_readable: "turnSchema uuid v = Some turn \<Longrightarrow> pred_option (readable_call uuid) (pt_inFlight turn)"
  by (auto simp: turnSchema_def within_field_def nullable_def pred_option_def bind_eq_Some_conv
      intro: in_flight_readable split: if_splits option.splits)

lemma state_readable: "stateSchema uuid v = Some st \<Longrightarrow> readable uuid st"
  by (auto simp: stateSchema_def within_field_def nullable_def readable_def pred_option_def bind_eq_Some_conv
      dest: turn_readable split: if_splits option.splits)

section \<open>What happens only after what\<close>

text \<open>The step and the tool call that an effect belongs to.\<close>

fun concerns :: "effect \<Rightarrow> (string \<times> string) option" where
  "concerns (Decided q a) = Some (aq_stepId q, aq_toolCallId q)"
| "concerns (Ran k) = Some (tc_stepId k, tc_toolCallId k)"
| "concerns (Performed k v) = Some (tc_stepId k, tc_toolCallId k)"
| "concerns (Granted k v) = Some (tc_stepId k, tc_toolCallId k)"
| "concerns _ = None"

lemma follows_prefix: "follows C [] (p @ s) \<Longrightarrow> follows C [] p"
  by (auto simp: follows_def)

lemma performed_ran:
  assumes "follows (lawful c rs fl0) [] (p @ e # s)" and "e = Performed k v \<or> e = Granted k v"
  obtains p' s' where "p = p' @ Ran k # s'" "lawful c rs fl0 p' (Ran k)" "tc_requestId k \<noteq> None"
proof -
  from follows_at [OF assms(1)] assms(2) have "Ran k \<in> set p" and r: "tc_requestId k \<noteq> None"
    by (auto simp: lawful_def)
  then obtain p' s' where "p = p' @ Ran k # s'" by (meson split_list)
  with that follows_at [OF follows_prefix [OF assms(1), unfolded this]] r show thesis by blast
qed

text \<open>A call that concerns an effect was begun before, or continues the one that was in progress.\<close>

lemma concerned_call:
  assumes "follows (lawful c rs fl0) [] (p @ e # s)" and "concerns e = Some (i, j)"
  shows "\<exists>r. begun p (i, j, r) \<or> continued rs fl0 (i, j, r)"
proof -
  have later: "\<exists>r. begun p (tc_stepId k, tc_toolCallId k, r) \<or> continued rs fl0 (tc_stepId k, tc_toolCallId k, r)"
    if p: "p = p' @ Ran k # s'" and ran: "lawful c rs fl0 p' (Ran k)" for k p' s'
  proof -
    have "begun p' (tc_stepId k, tc_toolCallId k, r) \<Longrightarrow> begun p (tc_stepId k, tc_toolCallId k, r)" for r
      using begun_lasting [of "(tc_stepId k, tc_toolCallId k, r)"] p unfolding lasting_def by blast
    moreover obtain r where "begun p' (tc_stepId k, tc_toolCallId k, r) \<or> continued rs fl0 (tc_stepId k, tc_toolCallId k, r)"
      using ran by (auto simp: lawful_def)
    ultimately show ?thesis by blast
  qed
  show ?thesis
  proof (cases e)
    case (Decided q a)
    with follows_at [OF assms(1)] assms(2) show ?thesis by (auto simp: lawful_def asked_call_def)
  next
    case (Ran k)
    with follows_at [OF assms(1)] assms(2) show ?thesis by (auto simp: lawful_def)
  next
    case (Performed k v)
    with performed_ran [OF assms(1)] obtain p' s' where "p = p' @ Ran k # s'" "lawful c rs fl0 p' (Ran k)" by blast
    from later [OF this] assms(2) Performed show ?thesis by simp
  next
    case (Granted k v)
    with performed_ran [OF assms(1)] obtain p' s' where "p = p' @ Ran k # s'" "lawful c rs fl0 p' (Ran k)" by blast
    from later [OF this] assms(2) Granted show ?thesis by simp
  qed (use assms(2) in simp_all)
qed




text \<open>
  C15. A governed tool that runs after a resume was allowed since, or its call is the one in progress and
  its approval was known, or is the very approval of this resume.
\<close>

theorem resumed_tools_run_as_decided:
  assumes "stateSchema (kc_uuid c) raw = Some st" and "kernel_resume c raw approval recovery [] = (out, p @ Ran k # s)"
    and "tc_requestId k = Some r"
  shows "(\<exists>q. Decided q ActionAllowed \<in> set p \<and> aq_stepId q = tc_stepId k \<and> aq_toolCallId q = tc_toolCallId k \<and>
       aq_requestId q = r \<and> aq_toolId q = tc_toolId k \<and> kc_digest c (tc_input k) \<in> {None, Some (aq_inputDigest q)}) \<or>
    (\<exists>turn fl a. ks_turn st = Some turn \<and> pt_inFlight turn = Some fl \<and>
       fl_stepId fl = tc_stepId k \<and> fl_toolCallId fl = tc_toolCallId k \<and> fl_requestId fl = r \<and>
       (fl_approvalId fl = Some a \<or> map_option fst approval = Some a \<and> (\<exists>q. Decided q (ActionApproval a) \<in> set p \<and> aq_requestId q = r)))"
proof -
  let ?rs = "Some (resumption_of approval recovery)" and ?fl = "Option.bind (ks_turn st) pt_inFlight"
  have "lawful c ?rs ?fl p (Ran k)" using resume_lawful [OF assms(1,2)] by (blast intro: follows_at)
  with assms(3) have "released c ?rs ?fl p (tc_toolId k) (tc_input k) (tc_stepId k, tc_toolCallId k, r)"
    by (auto simp: lawful_def)
  then show ?thesis
    by (fastforce simp: released_def continued_def asked_call_def call_of_def bind_eq_Some_conv resumption_of_def)
qed

section \<open>Turns\<close>


section \<open>Pauses\<close>

lemma paused_readable:
  assumes "follows (lawful c rs fl0) [] t" and "paused_ok a s st t" and "pred_option (readable_call (kc_uuid c)) fl0"
    and "\<forall>t. kc_uuid c (kc_randomUUID c t)" and "\<forall>t q i. kc_requestAction c t q = Inr (ActionApproval i) \<longrightarrow> kc_uuid c i"
  shows "readable (kc_uuid c) st \<and> (\<exists>turn fl. ks_turn st = Some turn \<and> pt_inFlight turn = Some fl \<and> fl_stepId fl = s \<and> fl_approvalId fl = Some a)"
proof -
  obtain turn fl q where fl: "ks_turn st = Some turn" "pt_inFlight turn = Some fl" "fl_stepId fl = s" "fl_approvalId fl = Some a"
    and q: "Decided q (ActionApproval a) \<in> set t" "asked_call q = call_of fl"
    using assms(2) unfolding paused_ok_def by blast
  from q(1) obtain p u where t: "t = p @ Decided q (ActionApproval a) # u" by (meson split_list)
  have law: "(begun p (call_of fl) \<or> continued rs fl0 (call_of fl)) \<and> (\<exists>t'. kc_requestAction c t' q = Inr (ActionApproval a))"
    using follows_at [OF assms(1) [unfolded t]] q(2) by (auto simp: lawful_def)
  have drawn: "kc_uuid c x" if "Drawn x \<in> set p" for x
  proof -
    from that obtain p1 p2 where "p = p1 @ Drawn x # p2" by (meson split_list)
    with follows_at [of _ p1 "Drawn x"] assms(1) t have "lawful c rs fl0 p1 (Drawn x)" by simp
    then show ?thesis using assms(4) by (auto simp: lawful_def)
  qed
  have "kc_uuid c (fl_stepId fl) \<and> kc_uuid c (fl_toolCallId fl) \<and> kc_uuid c (fl_requestId fl)"
    using law
  proof (elim conjE disjE)
    assume "begun p (call_of fl)"
    then show ?thesis using drawn by (auto simp: begun_def call_of_def)
  next
    assume "continued rs fl0 (call_of fl)"
    then show ?thesis using assms(3) by (auto simp: continued_def call_of_def readable_call_def)
  qed
  then have "readable_call (kc_uuid c) fl" using fl(4) law assms(5) by (auto simp: readable_call_def)
  then show ?thesis using fl by (simp add: readable_def)
qed

text \<open>
  C36. A pause can be answered: the state of a paused run, written as JSON, is read back as it was; a
  granted approval of the pause's id goes on with the loop on it, a refused one ends the run, and an
  approval of another id is refused.
\<close>

theorem pauses_can_be_answered:
  assumes "kernel_start c [] = (KernelPaused a i st, t) \<or> kernel_resume c raw before recovery [] = (KernelPaused a i st, t)"
    and "\<forall>t. kc_uuid c (kc_randomUUID c t)" and "\<forall>t q x. kc_requestAction c t q = Inr (ActionApproval x) \<longrightarrow> kc_uuid c x"
    and "kc_uuid d = kc_uuid c"
  shows "kernel_resume d (state_json st) (Some (b, granted)) open [] =
    (if b \<noteq> a then (kernel_failure ''RUNTIME_APPROVAL_MISMATCH'' ''The approval does not match the paused action.'', [])
     else if granted then loop d (Some \<lparr>re_approvalId = Some a, re_openStepIds = open\<rparr>) st []
     else (kernel_failure ''ACTION_REJECTED'' ''The governed action was rejected.'', []))"
proof -
  have "readable (kc_uuid c) st \<and> (\<exists>turn fl. ks_turn st = Some turn \<and> pt_inFlight turn = Some fl \<and> fl_stepId fl = i \<and> fl_approvalId fl = Some a)"
    using assms(1)
  proof
    assume "kernel_start c [] = (KernelPaused a i st, t)"
    from start_lawful [OF this] show ?thesis by (intro paused_readable [OF _ _ _ assms(2,3)]) auto
  next
    assume run: "kernel_resume c raw before recovery [] = (KernelPaused a i st, t)"
    from resume_runs [OF this] obtain st0 where st0: "stateSchema (kc_uuid c) raw = Some st0" by auto
    from resume_lawful [OF st0 run] state_readable [OF st0] show ?thesis
      by (intro paused_readable [OF _ _ _ assms(2,3)]) (auto simp: readable_def)
  qed
  then show ?thesis using state_read [of "kc_uuid c" st] assms(4)
    by (auto simp: kernel_resume_def mismatched_def)
qed

section \<open>Steps\<close>

text \<open>
  C18. The steps a kernel reports never overlap and are never closed twice, whatever fails; a run that
  completes has closed them all, one that pauses all but the step it pauses in. A resume counts the step
  of the call in progress as open.
\<close>

theorem steps_never_overlap:
  assumes "(kernel_start c [] = (out, t) \<and> o0 = None) \<or>
    (\<exists>st. stateSchema (kc_uuid c) raw = Some st \<and> proper_state st \<and> kernel_resume c raw approval recovery [] = (out, t) \<and>
       o0 = state_entry st (Some \<lparr>re_approvalId = map_option fst approval, re_openStepIds = recovery\<rparr>))"
  shows "case out of
      KernelCompleted summary as \<Rightarrow> open_step o0 t = Some None
    | KernelPaused a s st \<Rightarrow> open_step o0 t = Some (Some s)
    | KernelFailed f \<Rightarrow> open_step o0 t \<noteq> None"
proof -
  have ends: "\<exists>x. open_step o0 t = Some x \<and> ((\<exists>f. out = KernelFailed f) \<or> x = waits (Some out))"
    using assms
  proof (elim disjE exE conjE)
    assume run: "kernel_start c [] = (out, t)" and "o0 = None"
    obtain r t1 where saved: "checkpoint c (initial_state c) None [] = (r, t1)" by (meson surj_pair)
    have first: "open_step None t1 = Some None"
      using stepsD [OF still_steps [of _ "\<lambda>x. x = None", OF still_basic(6) refl] open_step_simps(1) saved] by (cases r) auto
    show ?thesis
    proof (cases r)
      case (Inl e)
      with run saved first \<open>o0 = None\<close> show ?thesis by (auto simp: kernel_start_def)
    next
      case (Inr x)
      with run saved have "loop c None (initial_state c) t1 = (out, t)" by (simp add: kernel_start_def)
      from steps_loop [OF this, of None] first \<open>o0 = None\<close> show ?thesis
        by (simp add: proper_state_def state_entry_def initial_state_def)
    qed
  next
    fix st
    assume st: "stateSchema (kc_uuid c) raw = Some st" "proper_state st" and run: "kernel_resume c raw approval recovery [] = (out, t)"
      and o0: "o0 = state_entry st (Some \<lparr>re_approvalId = map_option fst approval, re_openStepIds = recovery\<rparr>)"
    from resume_runs [OF run] st(1) steps_loop [OF _ st(2), of c _ "[]" out t o0] show ?thesis
      by (auto simp: o0 resumption_of_def)
  qed
  then show ?thesis by (cases out) auto
qed

end
