(* ===== verification/KernelSamples.thy ===== *)
theory KernelSamples
  imports KernelProperties
begin

text \<open>A small agent with one governed tool, and the properties of the native kernel on its histories.\<close>

definition sample_tool :: tool where
  "sample_tool = \<lparr>tl_id = ''deploy'', tl_version = ''1'', tl_description = ''Deploys.'', tl_inputSchema = JObj [],
     tl_sendsParameters = True, tl_parse = (\<lambda>raw. case raw of None \<Rightarrow> Inl OtherInputError | Some v \<Rightarrow> Inr v),
     tl_governedAction = (\<lambda>v. Some ''site.deploy''), tl_summarize = (\<lambda>v. ''Deploy the site''),
     tl_execute = (\<lambda>t k. PerformAction (\<lambda>r. case r of Inl e \<Rightarrow> ToolThrows e
        | Inr v \<Rightarrow> ToolDone \<lparr>to_output = ''deployed'', to_artifactIds = []\<rparr>))\<rparr>"

definition sample_manifest :: kernel_manifest where
  "sample_manifest = \<lparr>km_name = ''Ada'', km_role = ''qa'', km_department = ''web'', km_skills = [], km_workflows = [],
     km_configuration = JObj [], km_profile = ''default''\<rparr>"

text \<open>The model calls the tool until it was answered once; the control plane answers \<open>verdict\<close>.\<close>

definition sample :: "action_answer \<Rightarrow> kernel_context" where
  "sample verdict = \<lparr>kc_task = \<lparr>ts_objective = ''Release'', ts_workflow = None, ts_workItem = None, ts_inputs = []\<rparr>,
     kc_workflow = None, kc_manifest = sample_manifest, kc_tools = [sample_tool], kc_maxTurns = 3, kc_maxTokens = 100,
     kc_emit = (\<lambda>t p i. None), kc_checkpoint = (\<lambda>t st i. None),
     kc_requestAction = (\<lambda>t q. Inr verdict), kc_executeAction = (\<lambda>t k. Inr JNull), kc_requestGrant = (\<lambda>t k. Inr JNull),
     kc_complete = (\<lambda>t q. Inr \<lparr>mo_content = (if length (mq_messages q) = 1 then [ToolUseBlock ''use'' ''deploy'' (Some (JObj []))] else [TextBlock ''Released.'']),
        mo_stopReason = ''stop'', mo_inputTokens = 1, mo_outputTokens = 1, mo_latencyMs = 1\<rparr>),
     kc_aborted = (\<lambda>t. None), kc_randomUUID = (\<lambda>t. case last t of Drawn x \<Rightarrow> ''i'' | Emitted (PToolRequested i a b d) s \<Rightarrow> ''r'' | _ \<Rightarrow> ''s''), kc_now = (\<lambda>t. 0),
     kc_uuid = (\<lambda>x. length x = 1), kc_digest = (\<lambda>v. Some ''d''), kc_stringify = (\<lambda>v. [])\<rparr>"

text \<open>The agent's context field by field, and the kernel's operations where they are applied to a history.\<close>

lemma sample_fields [simp]:
  "kc_workflow (sample v) = None" "kc_manifest (sample v) = sample_manifest"
  "kc_tools (sample v) = [sample_tool]" "kc_maxTurns (sample v) = 3"
  "kc_emit (sample v) = (\<lambda>t p i. None)" "kc_checkpoint (sample v) = (\<lambda>t st i. None)"
  "kc_requestAction (sample v) = (\<lambda>t q. Inr v)" "kc_executeAction (sample v) = (\<lambda>t k. Inr JNull)"
  "kc_aborted (sample v) = (\<lambda>t. None)" "kc_now (sample v) = (\<lambda>t. 0)" "kc_uuid (sample v) = (\<lambda>x. length x = 1)"
  "kc_digest (sample v) = (\<lambda>w. Some ''d'')"
  "kc_randomUUID (sample v) = (\<lambda>t. case last t of Drawn x \<Rightarrow> ''i'' | Emitted (PToolRequested i a b d) s \<Rightarrow> ''r'' | _ \<Rightarrow> ''s'')"
  "kc_complete (sample v) = (\<lambda>t q. Inr \<lparr>mo_content = (if length (mq_messages q) = 1 then [ToolUseBlock ''use'' ''deploy'' (Some (JObj []))] else [TextBlock ''Released.'']),
        mo_stopReason = ''stop'', mo_inputTokens = 1, mo_outputTokens = 1, mo_latencyMs = 1\<rparr>)"
  by (simp_all add: sample_def)

lemmas applied =
  kernel_start_def loop.simps runTools.simps thenDo_def give_def raised_def caught_def happens_def breaks_def
  emit_def checkpoint_def answered_def requestAction_def complete_def freshId_def clock_def throwIfAborted_def
  finish_turn_def [THEN fun_cong] model_turn_def [THEN fun_cong]
  take_response_def [THEN fun_cong] runTool_def [THEN fun_cong]
  governed_call_def [THEN fun_cong] call_ids_def [THEN fun_cong]
  begin_call_def [THEN fun_cong] decide_call_def [THEN fun_cong]
  execute_call_def [THEN fun_cong] report_done_def [THEN fun_cong]
  input_digest_def [THEN fun_cong] digest_def [THEN fun_cong]
  onlyIf_def [THEN fun_cong] governed_def [THEN fun_cong]

lemma sample_texts:
  "response_text \<lparr>mo_content = [ToolUseBlock ''use'' ''deploy'' (Some (JObj []))], mo_stopReason = x, mo_inputTokens = n,
     mo_outputTokens = m, mo_latencyMs = l\<rparr> = []"
  "response_text \<lparr>mo_content = [TextBlock ''Released.''], mo_stopReason = x, mo_inputTokens = n, mo_outputTokens = m,
     mo_latencyMs = l\<rparr> = ''Released.''"
  by code_simp+

lemmas sample_runs = applied sample_texts initial_state_def turn_request_def tool_uses_def set_turn_def sample_tool_def
  tool_result_def ended_elsewhere_def ask_for_def Let_def numeral_3_eq_3

definition sample_call :: tool_call where
  "sample_call = \<lparr>tc_toolId = ''deploy'', tc_input = JObj [], tc_stepId = ''s'', tc_toolCallId = ''i'', tc_requestId = Some ''r''\<rparr>"

text \<open>The run where the control plane allows the call.\<close>

definition allowed_history :: "effect list" where
  "allowed_history = snd (kernel_start (sample ActionAllowed) [])"

lemma allowed_facts:
  "(case kernel_start (sample ActionAllowed) [] of (out, t) \<Rightarrow>
      out = KernelCompleted ''Released.'' [] \<and> 16 < length t \<and> concerns (t ! 14) = Some (''s'', ''i'') \<and> t ! 16 = Ran sample_call)"
  by (simp add: sample_runs sample_call_def)

lemma allowed_run:
  "n < length allowed_history \<Longrightarrow> kernel_start (sample ActionAllowed) [] =
     (KernelCompleted ''Released.'' [], take n allowed_history @ allowed_history ! n # drop (Suc n) allowed_history)"
  using allowed_facts by (auto simp: allowed_history_def id_take_nth_drop [symmetric] split: prod.splits)

text \<open>The run where it wants an approval.\<close>

definition paused_sample :: kernel_state where
  "paused_sample = (initial_state (sample ActionAllowed))\<lparr>ks_messages := ks_messages (initial_state (sample ActionAllowed)) @
       [message_json ''assistant'' [content_json (ToolUseBlock ''use'' ''deploy'' (Some (JObj [])))]],
     ks_turns := 1, ks_turn := Some \<lparr>pt_toolUses = [\<lparr>tu_id = ''use'', tu_name = ''deploy'', tu_input = Some (JObj [])\<rparr>],
       pt_results = [], pt_index = 0, pt_inFlight = Some \<lparr>fl_stepId = ''s'', fl_toolCallId = ''i'', fl_requestId = ''r'',
       fl_approvalId = Some ''a''\<rparr>\<rparr>\<rparr>"

lemma same_task: "taskPrompt (sample v) = taskPrompt (sample w)"
  by (simp add: taskPrompt_def sample_def)

lemma pauses: "fst (kernel_start (sample (ActionApproval ''a'')) []) = KernelPaused ''a'' ''s'' paused_sample"
  by (simp add: sample_runs paused_sample_def same_task [of "ActionApproval ''a''" ActionAllowed])

lemma paused_read: "stateSchema (kc_uuid (sample v)) (state_json paused_sample) = Some paused_sample"
  by (rule state_read) (simp add: readable_def readable_call_def paused_sample_def)

definition resumed_history :: "effect list" where
  "resumed_history = snd (kernel_resume (sample ActionAllowed) (state_json paused_sample) (Some (''a'', True)) (Some [''s'']) [])"

lemma resumed_facts:
  "(case kernel_resume (sample ActionAllowed) (state_json paused_sample) (Some (''a'', True)) (Some [''s'']) [] of (out, t) \<Rightarrow>
      out = KernelCompleted ''Released.'' [] \<and> 1 < length t \<and> t ! 1 = Ran sample_call)"
  unfolding kernel_resume_def paused_read option.case
  by (simp add: sample_runs sample_call_def mismatched_def paused_sample_def)

lemma resumed_run:
  "kernel_resume (sample ActionAllowed) (state_json paused_sample) (Some (''a'', True)) (Some [''s'']) [] =
     (KernelCompleted ''Released.'' [], take 1 resumed_history @ Ran sample_call # drop (Suc 1) resumed_history)"
proof -
  obtain t where t: "kernel_resume (sample ActionAllowed) (state_json paused_sample) (Some (''a'', True)) (Some [''s'']) [] =
      (KernelCompleted ''Released.'' [], t)" "1 < length t" "t ! 1 = Ran sample_call"
    using resumed_facts by (cases "kernel_resume (sample ActionAllowed) (state_json paused_sample) (Some (''a'', True)) (Some [''s'']) []")
      (auto simp del: length_greater_0_conv)
  have "t = take 1 t @ t ! 1 # drop (Suc 1) t" by (rule id_take_nth_drop [OF t(2)])
  with t show ?thesis by (simp add: resumed_history_def del: take_Suc drop_Suc)
qed

section \<open>The properties on these runs\<close>




theorem resumed_tools_run_as_decided_witness:
  "(\<exists>q. Decided q ActionAllowed \<in> set (take 1 resumed_history) \<and> aq_requestId q = ''r'') \<or>
   (\<exists>turn fl. ks_turn paused_sample = Some turn \<and> pt_inFlight turn = Some fl \<and> fl_stepId fl = ''s'' \<and> fl_requestId fl = ''r'')"
  using resumed_tools_run_as_decided [OF paused_read resumed_run, of "''r''"] by (auto simp: sample_call_def)


theorem pauses_can_be_answered_witness:
  "kernel_resume (sample ActionAllowed) (state_json paused_sample) (Some (''b'', True)) None [] =
     (kernel_failure ''RUNTIME_APPROVAL_MISMATCH'' ''The approval does not match the paused action.'', [])"
proof -
  have run: "kernel_start (sample (ActionApproval ''a'')) [] =
      (KernelPaused ''a'' ''s'' paused_sample, snd (kernel_start (sample (ActionApproval ''a'')) []))"
    using pauses by (simp add: prod_eq_iff)
  have ids: "\<forall>t. kc_uuid (sample (ActionApproval ''a'')) (kc_randomUUID (sample (ActionApproval ''a'')) t)"
    "\<forall>t q x. kc_requestAction (sample (ActionApproval ''a'')) t q = Inr (ActionApproval x) \<longrightarrow> kc_uuid (sample (ActionApproval ''a'')) x"
    "kc_uuid (sample ActionAllowed) = kc_uuid (sample (ActionApproval ''a''))"
    by (auto split: effect.splits runtime_payload.splits)
  show ?thesis
    using pauses_can_be_answered [OF disjI1 [OF run] ids, of "''b''" True None] by simp
qed

theorem steps_never_overlap_witness:
  "open_step None allowed_history = Some None"
proof -
  have "kernel_start (sample ActionAllowed) [] = (KernelCompleted ''Released.'' [], allowed_history)"
    using allowed_facts by (auto simp: allowed_history_def split: prod.splits)
  then show ?thesis using steps_never_overlap [of "sample ActionAllowed" _ allowed_history None] by fastforce
qed

end
