(* ===== verification/ExecutionStore.thy ===== *)
theory ExecutionStore
  imports WebText RuntimeProtocol
begin

text \<open>
  The execution tables (\<open>db/migrations/0001-baseline.ts\<close>: threads, runs, steps, events,
  artifacts, approvals) with their constraints and triggers, and the statements of
  \<open>ExecutionService\<close> that write one row (\<open>insertThread\<close>, \<open>insertRun\<close>, \<open>insertStep\<close>,
  \<open>appendEvent\<close>, \<open>transitionRun\<close>, \<open>transitionStep\<close>) or read one (\<open>runRow\<close>, \<open>stepRow\<close>).
\<close>

section \<open>Rows\<close>

datatype thread_status = ThreadACTIVE | ThreadARCHIVED

record thread_row =
  th_id :: string
  th_organizationId :: string
  th_employeeId :: string
  th_agentId :: string
  th_conversationId :: "string option"
  th_title :: string
  th_status :: thread_status
  th_createdAt :: int
  th_updatedAt :: int

record agent_run =
  rn_id :: string
  rn_organizationId :: string
  rn_threadId :: string
  rn_employeeId :: string
  rn_agentId :: string
  rn_manifest :: "manifest_reference option"
  rn_task :: task_spec
  rn_runtimeProfile :: string
  rn_status :: run_status
  rn_statusReason :: "string option"
  rn_legacyQaRunId :: "string option"
  rn_createdAt :: int
  rn_updatedAt :: int
  rn_startedAt :: "int option"
  rn_completedAt :: "int option"

text \<open>A row of \<open>agent_runs\<close> is the API's run and the runtime's bookkeeping.\<close>

record run_row = agent_run +
  rn_runtimeSequence :: nat

record step_row =
  st_id :: string
  st_organizationId :: string
  st_runId :: string
  st_sequence :: nat
  st_kind :: step_kind
  st_title :: string
  st_status :: step_status
  st_detail :: json
  st_createdAt :: int
  st_startedAt :: "int option"
  st_completedAt :: "int option"

record agent_event =
  ae_id :: string
  ae_organizationId :: string
  ae_threadId :: string
  ae_runId :: string
  ae_stepId :: "string option"
  ae_sequence :: nat
  ae_type :: event_type
  ae_source :: event_source
  ae_actorId :: "string option"
  ae_payload :: json
  ae_occurredAt :: int
  ae_recordedAt :: int

record event_row = agent_event +
  ae_runtimeSequence :: "nat option"
  ae_payloadHash :: string

record artifact_meta =
  aa_id :: string
  aa_organizationId :: string
  aa_threadId :: string
  aa_runId :: string
  aa_stepId :: "string option"
  aa_type :: string
  aa_mediaType :: string
  aa_name :: string
  aa_checksum :: string
  aa_sizeBytes :: nat
  aa_retentionPolicy :: string
  aa_createdAt :: int
  aa_createdBy :: string

record artifact_row = artifact_meta +
  aa_storageReference :: string

datatype approval_status = ApPENDING | ApAPPROVED | ApREJECTED | ApEXPIRED

record approval_row =
  ap_id :: string
  ap_organizationId :: string
  ap_requestedBy :: string
  ap_action :: string
  ap_resourceType :: string
  ap_resourceId :: string
  ap_risk :: risk
  ap_summary :: string
  ap_status :: approval_status
  ap_decidedBy :: "string option"
  ap_decidedAt :: "int option"
  ap_createdAt :: int
  ap_runId :: "string option"
  ap_stepId :: "string option"
  ap_expiresAt :: "int option"

text \<open>What a run's view reads of an artifact object (\<open>0013-artifact-objects.ts\<close>).\<close>

datatype object_state = ObjPENDING | ObjSTORED | ObjREGISTERED | ObjDELETED

record artifact_object =
  ao_artifactId :: string
  ao_organizationId :: string
  ao_state :: object_state
  ao_expiresAt :: "int option"
  ao_deletedAt :: "int option"
  ao_deletionReason :: "string option"

record exec_db = session +
  ex_threads :: "thread_row list"
  ex_runs :: "run_row list"
  ex_steps :: "step_row list"
  ex_events :: "event_row list"
  ex_artifacts :: "artifact_row list"
  ex_approvals :: "approval_row list"
  ex_objects :: "artifact_object list"

interpretation threads: table ex_threads ex_threads_update
  by unfold_locales simp_all

interpretation runs: table ex_runs ex_runs_update
  by unfold_locales simp_all

interpretation steps: table ex_steps ex_steps_update
  by unfold_locales simp_all

interpretation events: table ex_events ex_events_update
  by unfold_locales simp_all

interpretation artifacts: table ex_artifacts ex_artifacts_update
  by unfold_locales simp_all

interpretation approvals: table ex_approvals ex_approvals_update
  by unfold_locales simp_all

section \<open>Constraints and triggers\<close>

definition active_run :: "run_row \<Rightarrow> bool" where
  "active_run r \<longleftrightarrow> rn_status r \<in> set activeRunStatuses"

definition thread_checks :: "'z exec_db_scheme \<Rightarrow> thread_row \<Rightarrow> failure option" where
  "thread_checks s t = insist
     [(th_id t \<notin> th_id ` set (ex_threads s), Constraint UNIQUE ''agent_threads_pkey''),
      (1 \<le> length (th_title t) \<and> length (th_title t) \<le> 200, Constraint CHECK ''agent_threads_title_check'')]"

definition run_checks :: "'z exec_db_scheme \<Rightarrow> run_row \<Rightarrow> failure option" where
  "run_checks s r = insist
     [(\<exists>t \<in> set (ex_threads s). th_id t = rn_threadId r \<and> th_organizationId t = rn_organizationId r \<and>
         th_employeeId t = rn_employeeId r \<and> th_agentId t = rn_agentId r \<and> th_status t = ThreadACTIVE,
       Trigger ''RUN_THREAD_MISMATCH''),
      (rn_id r \<notin> rn_id ` set (ex_runs s), Constraint UNIQUE ''agent_runs_pkey''),
      (rn_legacyQaRunId r = None \<or> rn_legacyQaRunId r \<notin> rn_legacyQaRunId ` set (ex_runs s),
       Constraint UNIQUE ''agent_runs_legacy_qa_run_id_key''),
      (\<not> active_run r \<or> \<not> (\<exists>q \<in> set (ex_runs s). active_run q \<and> rn_threadId q = rn_threadId r \<and>
         rn_organizationId q = rn_organizationId r),
       Constraint UNIQUE ''one_active_run_per_thread'')]"

definition same_run_identity :: "run_row \<Rightarrow> run_row \<Rightarrow> bool" where
  "same_run_identity r r' \<longleftrightarrow>
     rn_id r' = rn_id r \<and> rn_organizationId r' = rn_organizationId r \<and>
     rn_threadId r' = rn_threadId r \<and> rn_employeeId r' = rn_employeeId r \<and>
     rn_agentId r' = rn_agentId r \<and> rn_manifest r' = rn_manifest r \<and> rn_task r' = rn_task r \<and>
     rn_legacyQaRunId r' = rn_legacyQaRunId r \<and> rn_createdAt r' = rn_createdAt r"

definition run_update_checks :: "'z exec_db_scheme \<Rightarrow> run_row \<Rightarrow> run_row \<Rightarrow> failure option" where
  "run_update_checks s r r' = insist
     [(same_run_identity r r', Trigger ''RUN_IDENTITY_IMMUTABLE''),
      (\<not> isTerminalRun (rn_status r), Trigger ''RUN_TERMINAL''),
      (\<not> active_run r' \<or> \<not> (\<exists>q \<in> set (ex_runs s). rn_id q \<noteq> rn_id r \<and> active_run q \<and>
         rn_threadId q = rn_threadId r' \<and> rn_organizationId q = rn_organizationId r'),
       Constraint UNIQUE ''one_active_run_per_thread'')]"

definition step_checks :: "'z exec_db_scheme \<Rightarrow> step_row \<Rightarrow> failure option" where
  "step_checks s t = insist
     [(st_id t \<notin> st_id ` set (ex_steps s), Constraint UNIQUE ''agent_run_steps_pkey''),
      (\<not> (\<exists>q \<in> set (ex_steps s). st_runId q = st_runId t \<and> st_sequence q = st_sequence t),
       Constraint UNIQUE ''agent_run_steps_run_id_sequence_key''),
      (st_sequence t > 0, Constraint CHECK ''agent_run_steps_sequence_check''),
      (1 \<le> length (st_title t) \<and> length (st_title t) \<le> 200, Constraint CHECK ''agent_run_steps_title_check''),
      (\<exists>r \<in> set (ex_runs s). rn_id r = st_runId t \<and> rn_organizationId r = st_organizationId t,
       Constraint FOREIGN_KEY ''agent_run_steps_organization_id_run_id_fkey'')]"

definition step_update_checks :: "'z exec_db_scheme \<Rightarrow> step_row \<Rightarrow> step_row \<Rightarrow> failure option" where
  "step_update_checks s t t' = insist
     [(st_id t' = st_id t \<and> st_organizationId t' = st_organizationId t \<and> st_runId t' = st_runId t \<and>
       st_sequence t' = st_sequence t \<and> st_kind t' = st_kind t \<and> st_createdAt t' = st_createdAt t,
       Trigger ''STEP_IDENTITY_IMMUTABLE'')]"

definition run_scope_check ::
  "'z exec_db_scheme \<Rightarrow> string \<Rightarrow> string \<Rightarrow> string \<Rightarrow> string option \<Rightarrow> bool" where
  "run_scope_check s org threadId runId stepId \<longleftrightarrow>
     (\<exists>r \<in> set (ex_runs s). rn_id r = runId \<and> rn_threadId r = threadId \<and> rn_organizationId r = org) \<and>
     (case stepId of
        None \<Rightarrow> True
      | Some i \<Rightarrow> \<exists>t \<in> set (ex_steps s). st_id t = i \<and> st_runId t = runId)"

definition event_checks :: "'z exec_db_scheme \<Rightarrow> event_row \<Rightarrow> failure option" where
  "event_checks s e = insist
     [(run_scope_check s (ae_organizationId e) (ae_threadId e) (ae_runId e) (ae_stepId e),
       Trigger ''EVENT_SCOPE_MISMATCH''),
      (ae_id e \<notin> ae_id ` set (ex_events s), Constraint UNIQUE ''agent_events_pkey''),
      (\<not> (\<exists>q \<in> set (ex_events s). ae_runId q = ae_runId e \<and> ae_sequence q = ae_sequence e),
       Constraint UNIQUE ''agent_events_run_id_sequence_key''),
      (ae_runtimeSequence e = None \<or>
       \<not> (\<exists>q \<in> set (ex_events s). ae_runId q = ae_runId e \<and> ae_runtimeSequence q = ae_runtimeSequence e),
       Constraint UNIQUE ''agent_events_run_id_runtime_sequence_key''),
      (ae_sequence e > 0 \<and> ae_runtimeSequence e \<noteq> Some 0, Constraint CHECK ''agent_events_sequence_check''),
      ((ae_source e = RUNTIME) = (ae_runtimeSequence e \<noteq> None), Constraint CHECK ''agent_events_check''),
      (length (ae_payloadHash e) = 64, Constraint CHECK ''agent_events_payload_hash_check'')]"

definition artifactRetentionPolicies :: "string list" where
  "artifactRetentionPolicies = [''EPHEMERAL'', ''STANDARD_30D'', ''EXTENDED_365D'', ''LEGAL_HOLD'']"

definition artifact_checks :: "'z exec_db_scheme \<Rightarrow> artifact_row \<Rightarrow> failure option" where
  "artifact_checks s a = insist
     [(run_scope_check s (aa_organizationId a) (aa_threadId a) (aa_runId a) (aa_stepId a),
       Trigger ''ARTIFACT_SCOPE_MISMATCH''),
      (aa_id a \<notin> aa_id ` set (ex_artifacts s), Constraint UNIQUE ''agent_artifacts_pkey''),
      (aa_storageReference a \<notin> aa_storageReference ` set (ex_artifacts s),
       Constraint UNIQUE ''agent_artifacts_storage_reference_key''),
      (1 \<le> length (aa_name a) \<and> length (aa_name a) \<le> 255, Constraint CHECK ''agent_artifacts_name_check''),
      (take 11 (aa_storageReference a) = ''artifact://'', Constraint CHECK ''agent_artifacts_storage_reference_check''),
      (length (aa_checksum a) = 64, Constraint CHECK ''agent_artifacts_checksum_sha256_check''),
      (aa_retentionPolicy a \<in> set artifactRetentionPolicies,
       Constraint CHECK ''agent_artifacts_retention_policy_check'')]"

definition approvals_run_link_target :: "'z exec_db_scheme \<Rightarrow> approval_row \<Rightarrow> bool" where
  "approvals_run_link_target s a \<longleftrightarrow>
     (case ap_runId a of
        None \<Rightarrow> True
      | Some i \<Rightarrow> \<exists>r \<in> set (ex_runs s). rn_id r = i \<and> rn_organizationId r = ap_organizationId a) \<and>
     (case ap_stepId a of
        None \<Rightarrow> True
      | Some i \<Rightarrow> \<exists>t \<in> set (ex_steps s). st_id t = i \<and> Some (st_runId t) = ap_runId a \<and>
          st_organizationId t = ap_organizationId a)"

definition approvals_run_link :: "'z exec_db_scheme \<Rightarrow> approval_row \<Rightarrow> approval_row \<Rightarrow> failure option" where
  "approvals_run_link s a a' = insist
     [(ap_runId a = None \<and> ap_stepId a = None, Trigger ''APPROVAL_RUN_LINK_IMMUTABLE''),
      (approvals_run_link_target s a', Trigger ''APPROVAL_RUN_SCOPE_MISMATCH'')]"

definition approval_checks :: "'z exec_db_scheme \<Rightarrow> approval_row \<Rightarrow> failure option" where
  "approval_checks s a = insist
     [((ap_runId a = None \<and> ap_stepId a = None) \<or>
       (ap_runId a \<noteq> None \<and> approvals_run_link_target s a), Trigger ''APPROVAL_RUN_SCOPE_MISMATCH''),
      (ap_id a \<notin> ap_id ` set (ex_approvals s), Constraint UNIQUE ''approvals_pkey'')]"


section \<open>What the service is constructed with\<close>

text \<open>
  \<open>loadManifest\<close> and the options of \<open>ExecutionService\<close>; \<open>en_sha256\<close> is the hash of the canonical
  JSON, \<open>en_origin\<close> the origin of a URL (\<open>None\<close> where \<open>new URL\<close> throws) and \<open>en_instant\<close> the
  instant an ISO-8601 timestamp names, as a timestamptz column stores it.
\<close>

record 'z exec_env =
  en_sha256 :: "json \<Rightarrow> string"
  en_origin :: "string \<Rightarrow> string option"
  en_instant :: "string \<Rightarrow> int"
  en_loadManifest :: "string \<Rightarrow> string \<Rightarrow> string \<Rightarrow> ('z exec_db_scheme, signed_manifest) op"
  en_resolveWorkflow :: "(signed_manifest \<Rightarrow> string \<Rightarrow> ('z exec_db_scheme, json option) op) option"
  en_onRunStopped :: "(string \<Rightarrow> string \<Rightarrow> run_status \<Rightarrow> ('z exec_db_scheme, unit) op) option"
  en_registerArtifact ::
    "(string \<Rightarrow> string \<Rightarrow> artifact_registration \<Rightarrow> ('z exec_db_scheme, unit) op) option"
  en_conversationMessage :: "(string \<Rightarrow> string \<Rightarrow> string \<Rightarrow> ('z exec_db_scheme, unit) op) option"

record run_scope =
  rs_organizationId :: string
  rs_threadId :: string
  rs_runId :: string

text \<open>The part of a runtime event that goes into its row.\<close>

record runtime_stamp =
  rt_id :: string
  rt_runtimeSequence :: nat
  rt_occurredAt :: string
  rt_payloadHash :: string

section \<open>Reading rows\<close>

definition runRow :: "string \<Rightarrow> string \<Rightarrow> ('z exec_db_scheme, run_row) op" where
  "runRow org runId =
     andThen (select_one ex_runs rn_organizationId (\<lambda>r. rn_id r = runId \<and> rn_organizationId r = org))
       (\<lambda>row. case row of None \<Rightarrow> throw (Refused 404 ''RUN_NOT_FOUND'') | Some r \<Rightarrow> ret r)"

definition stepRow :: "string \<Rightarrow> string \<Rightarrow> string \<Rightarrow> ('z exec_db_scheme, step_row) op" where
  "stepRow org runId stepId =
     andThen (select_one ex_steps st_organizationId
         (\<lambda>t. st_id t = stepId \<and> st_runId t = runId \<and> st_organizationId t = org))
       (\<lambda>row. case row of None \<Rightarrow> throw (Refused 404 ''STEP_NOT_FOUND'') | Some t \<Rightarrow> ret t)"

definition mapRun :: "run_row \<Rightarrow> agent_run" where
  "mapRun r = agent_run.truncate r"

definition mapEvent :: "event_row \<Rightarrow> agent_event" where
  "mapEvent e = agent_event.truncate e"

section \<open>Writing rows\<close>

definition insertThread ::
  "string \<Rightarrow> string \<Rightarrow> string \<Rightarrow> string option \<Rightarrow> string \<Rightarrow> ('z exec_db_scheme, string) op" where
  "insertThread org employeeId agentId conversationId title =
     andThen randomUUID (\<lambda>id'. andThen now (\<lambda>timestamp.
       andThen (insert_row ex_threads_update th_organizationId thread_checks
         \<lparr>th_id = id', th_organizationId = org, th_employeeId = employeeId, th_agentId = agentId,
          th_conversationId = conversationId,
          th_title = (let t = take 200 (trim title) in if t = [] then ''Agent thread'' else t),
          th_status = ThreadACTIVE, th_createdAt = timestamp, th_updatedAt = timestamp\<rparr>)
       (\<lambda>_. ret id')))"

definition insertRun ::
  "string \<Rightarrow> string \<Rightarrow> string \<Rightarrow> string \<Rightarrow> manifest_reference option \<Rightarrow> task_spec \<Rightarrow> string \<Rightarrow>
   string option \<Rightarrow> ('z exec_db_scheme, string) op" where
  "insertRun org threadId employeeId agentId manifest task runtimeProfile legacyQaRunId =
     andThen randomUUID (\<lambda>id'. andThen now (\<lambda>timestamp.
       andThen (insert_row ex_runs_update rn_organizationId run_checks
         \<lparr>rn_id = id', rn_organizationId = org, rn_threadId = threadId, rn_employeeId = employeeId,
          rn_agentId = agentId, rn_manifest = manifest, rn_task = task,
          rn_runtimeProfile = runtimeProfile, rn_status = QUEUED, rn_statusReason = None,
          rn_legacyQaRunId = legacyQaRunId, rn_createdAt = timestamp, rn_updatedAt = timestamp,
          rn_startedAt = None, rn_completedAt = None, rn_runtimeSequence = 0\<rparr>)
       (\<lambda>_. ret id')))"

text \<open>\<open>insertStep\<close> with the caller's identifier, or a drawn one.\<close>

definition insertStep ::
  "run_scope \<Rightarrow> step_kind \<Rightarrow> string \<Rightarrow> step_status \<Rightarrow> json \<Rightarrow> string option \<Rightarrow>
   ('z exec_db_scheme, string) op" where
  "insertStep sc kind title status detail given =
     andThen (case given of Some i \<Rightarrow> ret i | None \<Rightarrow> randomUUID) (\<lambda>id'.
     andThen now (\<lambda>timestamp.
     andThen (select ex_steps st_organizationId (\<lambda>t. st_runId t = rs_runId sc)) (\<lambda>earlier.
     andThen (insert_row ex_steps_update st_organizationId step_checks
       \<lparr>st_id = id', st_organizationId = rs_organizationId sc, st_runId = rs_runId sc,
        st_sequence = next_sequence (map st_sequence earlier), st_kind = kind, st_title = title,
        st_status = status, st_detail = detail, st_createdAt = timestamp,
        st_startedAt = (if status = StepPENDING then None else Some timestamp),
        st_completedAt = (if status \<in> set terminalStepStatuses then Some timestamp else None)\<rparr>)
     (\<lambda>_. ret id'))))"

definition appendEvent ::
  "'z exec_env \<Rightarrow> run_scope \<Rightarrow> event_type \<Rightarrow> event_source \<Rightarrow> string option \<Rightarrow> json \<Rightarrow>
   string option \<Rightarrow> runtime_stamp option \<Rightarrow> ('z exec_db_scheme, string) op" where
  "appendEvent env sc type source actorId payload stepId runtime =
     andThen (case runtime of Some rt \<Rightarrow> ret (rt_id rt) | None \<Rightarrow> randomUUID) (\<lambda>id'.
     andThen now (\<lambda>recordedAt.
     andThen (select ex_events ae_organizationId (\<lambda>e. ae_runId e = rs_runId sc)) (\<lambda>earlier.
     andThen (insert_row ex_events_update ae_organizationId event_checks
       \<lparr>ae_id = id', ae_organizationId = rs_organizationId sc, ae_threadId = rs_threadId sc,
        ae_runId = rs_runId sc, ae_stepId = stepId,
        ae_sequence = next_sequence (map ae_sequence earlier), ae_type = type, ae_source = source,
        ae_actorId = actorId, ae_payload = payload,
        ae_occurredAt = (case runtime of Some rt \<Rightarrow> en_instant env (rt_occurredAt rt) | None \<Rightarrow> recordedAt),
        ae_recordedAt = recordedAt, ae_runtimeSequence = map_option rt_runtimeSequence runtime,
        ae_payloadHash =
          (case runtime of Some rt \<Rightarrow> rt_payloadHash rt | None \<Rightarrow> en_sha256 env payload)\<rparr>)
     (\<lambda>_. ret id'))))"

definition set_run_status ::
  "string \<Rightarrow> string \<Rightarrow> run_status \<Rightarrow> string option \<Rightarrow> int \<Rightarrow> ('z exec_db_scheme, nat) op" where
  "set_run_status org runId to reason timestamp =
     update_rows ex_runs ex_runs_update rn_organizationId run_update_checks
       (\<lambda>r. rn_id r = runId \<and> rn_organizationId r = org)
       (\<lambda>r. r\<lparr>rn_status := to, rn_statusReason := reason, rn_updatedAt := timestamp,
          rn_startedAt := (case rn_startedAt r of Some t \<Rightarrow> Some t
            | None \<Rightarrow> if to = RUNNING then Some timestamp else None),
          rn_completedAt := (if to \<in> {COMPLETED, FAILED, CANCELLED} then Some timestamp
            else rn_completedAt r)\<rparr>)"

text \<open>\<open>transitionRun\<close> up to its UPDATE; it returns the row it read.\<close>

definition move_run ::
  "string \<Rightarrow> string \<Rightarrow> run_status \<Rightarrow> string option \<Rightarrow> ('z exec_db_scheme, run_row) op" where
  "move_run org runId to reason =
     andThen (runRow org runId) (\<lambda>run.
     andThen (demand (rn_status run = to \<or> canTransitionRun (rn_status run) to)
       (Refused 409 ''ILLEGAL_RUN_TRANSITION'')) (\<lambda>_.
     andThen now (\<lambda>timestamp.
     andThen (set_run_status org runId to reason timestamp) (\<lambda>_. ret run))))"

definition transitionRun ::
  "'z exec_env \<Rightarrow> run_scope \<Rightarrow> run_status \<Rightarrow> string option \<Rightarrow> ('z exec_db_scheme, unit) op" where
  "transitionRun env sc to reason =
     andThen (move_run (rs_organizationId sc) (rs_runId sc) to reason) (\<lambda>run.
     whenever (rn_status run \<noteq> to \<and> to \<in> {COMPLETED, FAILED, CANCELLED})
       (case en_onRunStopped env of
          None \<Rightarrow> ret ()
        | Some hook \<Rightarrow> hook (rs_organizationId sc) (rs_runId sc) to))"

definition transitionStep :: "string \<Rightarrow> string \<Rightarrow> step_status \<Rightarrow> ('z exec_db_scheme, unit) op" where
  "transitionStep org stepId to =
     andThen (select_one ex_steps st_organizationId (\<lambda>t. st_id t = stepId \<and> st_organizationId t = org))
       (\<lambda>row. case row of
          None \<Rightarrow> throw (Refused 404 ''STEP_NOT_FOUND'')
        | Some t \<Rightarrow>
            andThen (demand (canTransitionStep (st_status t) to) (Refused 409 ''ILLEGAL_STEP_TRANSITION'')) (\<lambda>_.
            andThen now (\<lambda>timestamp.
            andThen (update_rows ex_steps ex_steps_update st_organizationId step_update_checks
              (\<lambda>t. st_id t = stepId \<and> st_organizationId t = org)
              (\<lambda>t. t\<lparr>st_status := to,
                 st_completedAt := (if to \<in> set terminalStepStatuses then Some timestamp
                   else st_completedAt t)\<rparr>)) (\<lambda>_. ret ()))))"


section \<open>What the statements do\<close>

text \<open>
  The tables of a run's history: what a hook of the service must leave alone. The artifact
  objects and whatever extends the state are the hooks' own.
\<close>

definition exec_frame :: "'z exec_db_scheme \<Rightarrow> 'z exec_db_scheme \<Rightarrow> bool" where
  "exec_frame s s' \<longleftrightarrow>
     ss_scope s' = ss_scope s \<and> ex_threads s' = ex_threads s \<and> ex_runs s' = ex_runs s \<and>
     ex_steps s' = ex_steps s \<and> ex_events s' = ex_events s \<and> ex_artifacts s' = ex_artifacts s \<and>
     ex_approvals s' = ex_approvals s"

lemma exec_frame_trivial [simp]:
  "exec_frame s s"
  "exec_frame s (s\<lparr>ss_reads := n\<rparr>)" "exec_frame s (s\<lparr>ss_drawn := n\<rparr>)"
  "exec_frame s (s\<lparr>ex_objects := os\<rparr>)"
  by (simp_all add: exec_frame_def)

lemma exec_frame_trans: "exec_frame s t \<Longrightarrow> exec_frame t u \<Longrightarrow> exec_frame s u"
  by (simp add: exec_frame_def)

interpretation frame: evolution exec_frame
  by unfold_locales (auto intro: exec_frame_trans)

lemma frame_statements [bounded]:
  "relates exec_frame now" "relates exec_frame randomUUID"
  "relates exec_frame (select rows org P)" "relates exec_frame (select_one rows org P)"
  by (auto intro!: relatesI simp: select_Inr select_one_Inr)

lemma runRow_Inr:
  "runRow org runId s = Inr (r, s') \<longleftrightarrow>
     (\<exists>sc. ss_scope s = Some sc \<and>
        find (\<lambda>r. sees sc (rn_organizationId r) \<and> rn_id r = runId \<and> rn_organizationId r = org) (ex_runs s) = Some r) \<and>
     s' = s"
  by (auto simp: runRow_def andThen_Inr select_one_Inr split: option.splits)

lemma runRow_found:
  "runRow org runId s = Inr (r, s') \<Longrightarrow> r \<in> set (ex_runs s) \<and> rn_id r = runId \<and> rn_organizationId r = org \<and> s' = s"
  by (auto simp: runRow_Inr dest: find_Some_set)

lemma stepRow_Inr:
  "stepRow org runId stepId s = Inr (t, s') \<longleftrightarrow>
     (\<exists>sc. ss_scope s = Some sc \<and>
        find (\<lambda>t. sees sc (st_organizationId t) \<and> st_id t = stepId \<and> st_runId t = runId \<and> st_organizationId t = org)
          (ex_steps s) = Some t) \<and>
     s' = s"
  by (auto simp: stepRow_def andThen_Inr select_one_Inr split: option.splits)

lemma frame_reads [bounded]:
  "relates exec_frame (runRow org runId)" "relates exec_frame (stepRow org runId stepId)"
  by (auto intro!: relatesI simp: runRow_Inr stepRow_Inr)

end
