(* ===== verification/ExecutionService.thy ===== *)
theory ExecutionService
  imports ExecutionStore
begin

text \<open>
  The operations of \<open>ExecutionService\<close> (\<open>execution/execution-service.ts\<close>) on the execution
  tables: creating, pausing, releasing and cancelling runs, recording runtime events, and the
  views of runs for employees, administrators and the runtime transport. Each runs in its
  organization's tenant scope. Telemetry is left out; it never changes the tables.
\<close>

definition LEGACY_QA_RUNTIME_PROFILE :: string where
  "LEGACY_QA_RUNTIME_PROFILE = ''legacy-qa-static-plan''"

definition RUNTIME_ACTOR :: string where
  "RUNTIME_ACTOR = ''agent-runtime''"

definition manifestReference :: "signed_manifest \<Rightarrow> manifest_reference" where
  "manifestReference m =
     \<lparr>mr_manifestId = mj_manifestId (manifestSubject m),
      mr_apiVersion = mj_apiVersion (manifestSubject m), mr_keyId = mf_keyId m\<rparr>"

section \<open>Threads\<close>

text \<open>\<open>ORDER BY updated_at DESC, seq DESC LIMIT 1\<close>.\<close>

definition latest :: "('r \<Rightarrow> int) \<Rightarrow> 'r list \<Rightarrow> 'r option" where
  "latest key rs = fold (\<lambda>r best. case best of None \<Rightarrow> Some r
     | Some b \<Rightarrow> if key b \<le> key r then Some r else Some b) rs None"

definition thread_has_active_run :: "string \<Rightarrow> ('z exec_db_scheme, bool) op" where
  "thread_has_active_run threadId =
     andThen (select ex_runs rn_organizationId (\<lambda>r. rn_threadId r = threadId \<and> active_run r))
       (\<lambda>rs. ret (rs \<noteq> []))"

definition touch_thread :: "string \<Rightarrow> ('z exec_db_scheme, unit) op" where
  "touch_thread threadId =
     andThen now (\<lambda>timestamp.
     andThen (update_rows ex_threads ex_threads_update th_organizationId (\<lambda>_ _ _. None)
       (\<lambda>t. th_id t = threadId) (\<lambda>t. t\<lparr>th_updatedAt := timestamp\<rparr>)) (\<lambda>_. ret ()))"

definition conversationThread ::
  "string \<Rightarrow> string \<Rightarrow> string \<Rightarrow> string \<times> string \<Rightarrow> ('z exec_db_scheme, string) op" where
  "conversationThread org employeeId agentId conversation =
     andThen (select ex_threads th_organizationId
       (\<lambda>t. th_organizationId t = org \<and> th_conversationId t = Some (fst conversation) \<and>
          th_agentId t = agentId \<and> th_employeeId t = employeeId \<and> th_status t = ThreadACTIVE))
     (\<lambda>ts. case latest th_updatedAt ts of
        None \<Rightarrow> insertThread org employeeId agentId (Some (fst conversation)) (snd conversation)
      | Some t \<Rightarrow>
          andThen (thread_has_active_run (th_id t)) (\<lambda>busy.
          andThen (demand (\<not> busy) (Refused 409 ''THREAD_HAS_ACTIVE_RUN'')) (\<lambda>_.
          andThen (touch_thread (th_id t)) (\<lambda>_. ret (th_id t)))))"

definition threadForConversation ::
  "string \<Rightarrow> string \<Rightarrow> string \<Rightarrow> string \<Rightarrow> string \<Rightarrow> ('z exec_db_scheme, string) op" where
  "threadForConversation org employeeId agentId conversationId conversationTitle =
     andThen (select ex_runs rn_organizationId active_run) (\<lambda>busy.
     andThen (select ex_threads th_organizationId
       (\<lambda>t. th_organizationId t = org \<and> th_conversationId t = Some conversationId \<and>
          th_agentId t = agentId \<and> th_employeeId t = employeeId \<and> th_status t = ThreadACTIVE \<and>
          th_id t \<notin> rn_threadId ` set busy))
     (\<lambda>ts. case latest th_updatedAt ts of
        Some t \<Rightarrow> andThen (touch_thread (th_id t)) (\<lambda>_. ret (th_id t))
      | None \<Rightarrow> insertThread org employeeId agentId (Some conversationId) conversationTitle))"

text \<open>Mirror a generic run's outcome into its conversation.\<close>

definition syncConversation :: "'z exec_env \<Rightarrow> run_scope \<Rightarrow> string \<Rightarrow> ('z exec_db_scheme, unit) op" where
  "syncConversation env sc content =
     (case en_conversationMessage env of
        None \<Rightarrow> ret ()
      | Some message \<Rightarrow>
          andThen (select_one ex_runs rn_organizationId
            (\<lambda>r. rn_id r = rs_runId sc \<and> rn_organizationId r = rs_organizationId sc \<and>
               rn_legacyQaRunId r = None))
          (\<lambda>run. case run of
             None \<Rightarrow> ret ()
           | Some r \<Rightarrow>
               andThen (select_one ex_threads th_organizationId (\<lambda>t. th_id t = rn_threadId r))
               (\<lambda>link. case Option.bind link th_conversationId of
                  None \<Rightarrow> ret ()
                | Some c \<Rightarrow>
                    if c = [] then ret ()
                    else message (rs_organizationId sc) c (take 20000 content))))"

section \<open>Creating runs\<close>

record create_run_input =
  ci_organizationId :: string
  ci_employeeId :: string
  ci_agentId :: string
  ci_title :: string
  ci_task :: task_spec
  ci_manifest :: signed_manifest
  ci_threadId :: "string option"
  ci_conversation :: "(string \<times> string) option"

definition run_thread :: "create_run_input \<Rightarrow> ('z exec_db_scheme, string) op" where
  "run_thread inp =
     (case ci_threadId inp of
        Some (c # cs) \<Rightarrow>
          andThen (select_one ex_threads th_organizationId
            (\<lambda>t. th_id t = c # cs \<and> th_organizationId t = ci_organizationId inp \<and>
               th_employeeId t = ci_employeeId inp \<and> th_agentId t = ci_agentId inp \<and>
               th_status t = ThreadACTIVE)) (\<lambda>thread.
          andThen (demand (thread \<noteq> None) (Refused 404 ''THREAD_NOT_FOUND'')) (\<lambda>_.
          andThen (thread_has_active_run (c # cs)) (\<lambda>busy.
          andThen (demand (\<not> busy) (Refused 409 ''THREAD_HAS_ACTIVE_RUN'')) (\<lambda>_. ret (c # cs)))))
      | _ \<Rightarrow>
          (case ci_conversation inp of
             Some conversation \<Rightarrow>
               conversationThread (ci_organizationId inp) (ci_employeeId inp) (ci_agentId inp) conversation
           | None \<Rightarrow>
               insertThread (ci_organizationId inp) (ci_employeeId inp) (ci_agentId inp) None (ci_title inp)))"

definition createRun :: "'z exec_env \<Rightarrow> create_run_input \<Rightarrow> ('z exec_db_scheme, run_row) op" where
  "createRun env inp =
     (let subject = manifestSubject (ci_manifest inp);
          runtimeProfile = (if mj_apiVersion subject = V2 then mf_runtimeProfile (ci_manifest inp)
                            else LEGACY_QA_RUNTIME_PROFILE)
      in andThen (demand (mj_organizationId subject = ci_organizationId inp \<and>
                     mj_employeeId subject = ci_employeeId inp \<and> mj_agentId subject = ci_agentId inp)
                   (Refused 409 ''MANIFEST_INVALID''))
         (\<lambda>_. tenant (ci_organizationId inp)
           (andThen (run_thread inp) (\<lambda>threadId.
            andThen (insertRun (ci_organizationId inp) threadId (ci_employeeId inp) (ci_agentId inp)
               (Some (manifestReference (ci_manifest inp))) (ci_task inp) runtimeProfile None) (\<lambda>runId.
            andThen (appendEvent env
               \<lparr>rs_organizationId = ci_organizationId inp, rs_threadId = threadId, rs_runId = runId\<rparr>
               (CP RunCreated) CONTROL_PLANE (Some (ci_employeeId inp))
               (JObj [(''task'', task_json (ci_task inp)), (''runtimeProfile'', JStr runtimeProfile)])
               None None) (\<lambda>_.
            runRow (ci_organizationId inp) runId))))))"

record legacy_qa_input =
  lq_organizationId :: string
  lq_employeeId :: string
  lq_agentId :: string
  lq_conversationId :: string
  lq_conversationTitle :: string
  lq_qaRunId :: string
  lq_approvalId :: string
  lq_storyKey :: string
  lq_targetUrl :: string
  lq_plan :: "string list"
  lq_approvalSummary :: string
  lq_manifest :: "signed_manifest option"

definition url_origin :: "'z exec_env \<Rightarrow> string \<Rightarrow> ('z exec_db_scheme, string) op" where
  "url_origin env url =
     (case en_origin env url of None \<Rightarrow> throw (Raised ''ERR_INVALID_URL'') | Some o' \<Rightarrow> ret o')"

definition legacy_task :: "legacy_qa_input \<Rightarrow> string \<Rightarrow> task_spec" where
  "legacy_task inp origin =
     \<lparr>ts_objective = ''Validate '' @ lq_storyKey inp @ '' against '' @ origin,
      ts_workflow = Some ''validate-story'',
      ts_workItem = Some \<lparr>wi_system = ''issue-tracker'', wi_key = lq_storyKey inp, wi_url = None\<rparr>,
      ts_inputs = [(''targetUrl'', JStr (lq_targetUrl inp))]\<rparr>"

definition QA_ACTION :: string where
  "QA_ACTION = ''qa.execute_playwright''"

definition plan_json :: "legacy_qa_input \<Rightarrow> json" where
  "plan_json inp = JObj [(''plan'', ids_json (lq_plan inp))]"

text \<open>The first half of \<open>recordLegacyQaRun\<close>: the run, started, with its completed plan.\<close>

definition legacy_plan :: "'z exec_env \<Rightarrow> legacy_qa_input \<Rightarrow> ('z exec_db_scheme, run_scope \<times> string) op" where
  "legacy_plan env inp =
     andThen (threadForConversation (lq_organizationId inp) (lq_employeeId inp) (lq_agentId inp)
        (lq_conversationId inp) (lq_conversationTitle inp)) (\<lambda>threadId.
     andThen (url_origin env (lq_targetUrl inp)) (\<lambda>origin.
     andThen (insertRun (lq_organizationId inp) threadId (lq_employeeId inp) (lq_agentId inp)
        (map_option manifestReference (lq_manifest inp)) (legacy_task inp origin)
        LEGACY_QA_RUNTIME_PROFILE (Some (lq_qaRunId inp))) (\<lambda>runId.
     let sc = \<lparr>rs_organizationId = lq_organizationId inp, rs_threadId = threadId, rs_runId = runId\<rparr> in
     andThen (appendEvent env sc (CP RunCreated) CONTROL_PLANE (Some (lq_employeeId inp))
        (JObj [(''task'', task_json (legacy_task inp origin)),
               (''runtimeProfile'', JStr LEGACY_QA_RUNTIME_PROFILE),
               (''legacyQaRunId'', JStr (lq_qaRunId inp))]) None None) (\<lambda>_.
     andThen (transitionRun env sc RUNNING None) (\<lambda>_.
     andThen (appendEvent env sc (RT RunStarted) CONTROL_PLANE None
        (JObj [(''executor'', JStr ''control-plane.legacy-qa-static-plan'')]) None None) (\<lambda>_.
     andThen (insertStep sc PLAN ''Prepare QA test plan'' StepCOMPLETED (plan_json inp) None) (\<lambda>planStep.
     andThen (appendEvent env sc (RT StepCompleted) CONTROL_PLANE None (plan_json inp) (Some planStep) None)
     (\<lambda>_. ret (sc, origin)))))))))"

definition recordLegacyQaRun ::
  "'z exec_env \<Rightarrow> legacy_qa_input \<Rightarrow> ('z exec_db_scheme, string \<times> string \<times> run_status) op" where
  "recordLegacyQaRun env inp =
     tenant (lq_organizationId inp)
      (andThen (legacy_plan env inp) (\<lambda>(sc, origin).
       andThen (insertStep sc ACTION QA_ACTION StepWAITING_FOR_APPROVAL
          (JObj [(''action'', JStr QA_ACTION), (''targetOrigin'', JStr origin)]) None) (\<lambda>actionStep.
       andThen (update_rows ex_approvals ex_approvals_update ap_organizationId approvals_run_link
          (\<lambda>a. ap_id a = lq_approvalId inp \<and> ap_organizationId a = lq_organizationId inp)
          (\<lambda>a. a\<lparr>ap_runId := Some (rs_runId sc), ap_stepId := Some actionStep\<rparr>)) (\<lambda>_.
       andThen (appendEvent env sc (CP ApprovalRequested) CONTROL_PLANE (Some (lq_employeeId inp))
          (JObj [(''approvalId'', JStr (lq_approvalId inp)), (''action'', JStr QA_ACTION),
                 (''risk'', JStr ''MEDIUM''), (''summary'', JStr (lq_approvalSummary inp))])
          (Some actionStep) None) (\<lambda>_.
       andThen (transitionRun env sc WAITING_FOR_APPROVAL (Some ''APPROVAL_REQUIRED'')) (\<lambda>_.
       andThen (appendEvent env sc (RT RunPaused) CONTROL_PLANE None
          (JObj [(''reason'', JStr ''APPROVAL_REQUIRED''), (''approvalId'', JStr (lq_approvalId inp))])
          None None) (\<lambda>_.
       ret (rs_runId sc, rs_threadId sc, WAITING_FOR_APPROVAL))))))))"

section \<open>Approvals, pauses and cancellation\<close>

datatype approval_decision = APPROVED | REJECTED

fun risk_name :: "risk \<Rightarrow> string" where
  "risk_name LOW = ''LOW''"
| "risk_name MEDIUM = ''MEDIUM''"
| "risk_name HIGH = ''HIGH''"
| "risk_name CRITICAL = ''CRITICAL''"

text \<open>\<open>SELECT run_id, step_id FROM approvals\<close>; \<open>None\<close> also for an approval without a run.\<close>

definition approval_link ::
  "string \<Rightarrow> string \<Rightarrow> ('z exec_db_scheme, (string \<times> string option) option) op" where
  "approval_link org approvalId =
     andThen (select_one ex_approvals ap_organizationId (\<lambda>a. ap_id a = approvalId \<and> ap_organizationId a = org))
       (\<lambda>row. ret (case row of None \<Rightarrow> None
          | Some a \<Rightarrow> map_option (\<lambda>runId. (runId, ap_stepId a)) (ap_runId a)))"

text \<open>The scope of events about a run, \<open>{ organizationId, threadId: run.threadId, runId: run.id }\<close>.\<close>

definition run_scope_of :: "string \<Rightarrow> run_row \<Rightarrow> run_scope" where
  "run_scope_of org run =
     \<lparr>rs_organizationId = org, rs_threadId = rn_threadId run, rs_runId = rn_id run\<rparr>"

definition waiting_step ::
  "string \<Rightarrow> string \<Rightarrow> string option \<Rightarrow> ('z exec_db_scheme, string option) op" where
  "waiting_step org runId stepId =
     (case stepId of
        None \<Rightarrow> ret None
      | Some i \<Rightarrow>
          andThen (stepRow org runId i) (\<lambda>t.
            ret (if st_status t = StepWAITING_FOR_APPROVAL then Some i else None)))"

definition transition_waiting :: "string \<Rightarrow> string option \<Rightarrow> step_status \<Rightarrow> ('z exec_db_scheme, unit) op" where
  "transition_waiting org waiting to =
     (case waiting of None \<Rightarrow> ret () | Some i \<Rightarrow> transitionStep org i to)"

definition release_run ::
  "'z exec_env \<Rightarrow> string \<Rightarrow> run_row \<Rightarrow> string option \<Rightarrow> approval_decision \<Rightarrow> string \<Rightarrow>
   ('z exec_db_scheme, unit) op" where
  "release_run env org run waiting decision actorId =
     (let sc = run_scope_of org run in
      case decision of
        APPROVED \<Rightarrow>
          andThen (transition_waiting org waiting StepPENDING) (\<lambda>_.
          transitionRun env sc QUEUED (Some APPROVAL_GRANTED))
      | REJECTED \<Rightarrow>
          andThen (transition_waiting org waiting StepCANCELLED) (\<lambda>_.
          andThen (transitionRun env sc CANCELLED (Some APPROVAL_REJECTED)) (\<lambda>_.
          andThen (appendEvent env sc (RT RunCancelled) CONTROL_PLANE (Some actorId)
             (JObj [(''reason'', JStr APPROVAL_REJECTED)]) None None) (\<lambda>_. ret ()))))"

definition onApprovalDecided ::
  "'z exec_env \<Rightarrow> string \<Rightarrow> string \<Rightarrow> approval_decision \<Rightarrow> string \<Rightarrow> ('z exec_db_scheme, unit) op" where
  "onApprovalDecided env org approvalId decision actorId =
     tenant org
      (andThen (approval_link org approvalId) (\<lambda>link.
       case link of
         None \<Rightarrow> ret ()
       | Some (runId, stepId) \<Rightarrow>
           andThen (runRow org runId) (\<lambda>run.
           andThen (appendEvent env (run_scope_of org run)
              (CP (if decision = APPROVED then ApprovalApproved else ApprovalRejected)) CONTROL_PLANE
              (Some actorId) (JObj [(''approvalId'', JStr approvalId), (''decidedBy'', JStr actorId)])
              stepId None) (\<lambda>_.
           if rn_status run \<noteq> WAITING_FOR_APPROVAL then ret ()
           else andThen (waiting_step org (rn_id run) stepId) (\<lambda>waiting.
                release_run env org run waiting decision actorId)))))"

record approval_request =
  aq_id :: string
  aq_action :: string
  aq_risk :: risk
  aq_summary :: string

definition pauseForApproval ::
  "'z exec_env \<Rightarrow> string \<Rightarrow> string \<Rightarrow> string \<Rightarrow> approval_request \<Rightarrow> ('z exec_db_scheme, unit) op" where
  "pauseForApproval env org runId stepId approval =
     tenant org
      (andThen (runRow org runId) (\<lambda>run.
       andThen (demand (rn_status run = RUNNING) (Refused 409 ''RUN_NOT_RUNNING'')) (\<lambda>_.
       let sc = \<lparr>rs_organizationId = org, rs_threadId = rn_threadId run, rs_runId = runId\<rparr> in
       andThen (stepRow org runId stepId) (\<lambda>step.
       andThen (transitionStep org (st_id step) StepWAITING_FOR_APPROVAL) (\<lambda>_.
       andThen (appendEvent env sc (CP ApprovalRequested) CONTROL_PLANE (Some (rn_agentId run))
          (JObj [(''approvalId'', JStr (aq_id approval)), (''action'', JStr (aq_action approval)),
                 (''risk'', JStr (risk_name (aq_risk approval))), (''summary'', JStr (aq_summary approval))])
          (Some (st_id step)) None) (\<lambda>_.
       andThen (transitionRun env sc WAITING_FOR_APPROVAL (Some ''APPROVAL_REQUIRED'')) (\<lambda>_.
       andThen (appendEvent env sc (RT RunPaused) CONTROL_PLANE None
          (JObj [(''reason'', JStr ''APPROVAL_REQUIRED''), (''approvalId'', JStr (aq_id approval))])
          None None) (\<lambda>_.
       syncConversation env sc
         (''Waiting for approval '' @ take 8 (aq_id approval) @ '': '' @ aq_summary approval)))))))))"

definition open_step :: "step_status \<Rightarrow> bool" where
  "open_step st \<longleftrightarrow> st \<in> {StepPENDING, StepRUNNING, StepWAITING_FOR_APPROVAL}"

definition cancelRun ::
  "'z exec_env \<Rightarrow> string \<Rightarrow> string \<Rightarrow> string \<Rightarrow> string option \<Rightarrow> ('z exec_db_scheme, agent_run) op" where
  "cancelRun env org runId reason actorId =
     tenant org
      (andThen (runRow org runId) (\<lambda>run.
       andThen (demand (canTransitionRun (rn_status run) CANCELLED) (Refused 409 ''RUN_TERMINAL'')) (\<lambda>_.
       let sc = \<lparr>rs_organizationId = org, rs_threadId = rn_threadId run, rs_runId = runId\<rparr> in
       andThen (select ex_steps st_organizationId
          (\<lambda>t. st_runId t = runId \<and> st_organizationId t = org \<and> open_step (st_status t))) (\<lambda>opened.
       andThen (each (\<lambda>t. transitionStep org (st_id t) StepCANCELLED) (sort_key st_sequence opened)) (\<lambda>_.
       andThen (transitionRun env sc CANCELLED (Some reason)) (\<lambda>_.
       andThen (appendEvent env sc (RT RunCancelled) CONTROL_PLANE actorId
          (JObj [(''reason'', JStr reason)]) None None) (\<lambda>_.
       andThen (syncConversation env sc (''The run was cancelled ('' @ reason @ '').'')) (\<lambda>_.
       andThen (select_one ex_runs rn_organizationId (\<lambda>r. rn_id r = runId \<and> rn_organizationId r = org)) (\<lambda>row.
       case row of None \<Rightarrow> throw (Raised ''TypeError'') | Some r \<Rightarrow> ret (mapRun r))))))))))"

definition onApprovalExpired :: "'z exec_env \<Rightarrow> string \<Rightarrow> string \<Rightarrow> ('z exec_db_scheme, unit) op" where
  "onApprovalExpired env org approvalId =
     tenant org
      (andThen (approval_link org approvalId) (\<lambda>link.
       case link of
         None \<Rightarrow> ret ()
       | Some (runId, stepId) \<Rightarrow>
           andThen (runRow org runId) (\<lambda>run.
           andThen (appendEvent env (run_scope_of org run) (CP ApprovalExpired) CONTROL_PLANE None
              (JObj [(''approvalId'', JStr approvalId)]) stepId None) (\<lambda>_.
           if rn_status run = WAITING_FOR_APPROVAL
           then andThen (cancelRun env org (rn_id run) ''APPROVAL_EXPIRED'' None) (\<lambda>_. ret ())
           else ret ()))))"

section \<open>Views\<close>

text \<open>The run row \<open>readableRun\<close> maps: its owner's, or any of the organization for an administrator.\<close>

definition readableRun :: "actor \<Rightarrow> string \<Rightarrow> bool \<Rightarrow> ('z exec_db_scheme, run_row) op" where
  "readableRun actor runId allowAdmin =
     andThen (select_one ex_runs rn_organizationId
        (\<lambda>r. rn_id r = runId \<and> rn_organizationId r = ac_organizationId actor))
       (\<lambda>row. case row of
          None \<Rightarrow> throw (Refused 404 ''RUN_NOT_FOUND'')
        | Some r \<Rightarrow>
            if rn_employeeId r \<noteq> ac_id actor \<and> \<not> (allowAdmin \<and> ac_role actor = ADMIN)
            then throw (Refused 404 ''RUN_NOT_FOUND'') else ret r)"

definition cancelOwnRun :: "'z exec_env \<Rightarrow> actor \<Rightarrow> string \<Rightarrow> ('z exec_db_scheme, agent_run) op" where
  "cancelOwnRun env actor runId =
     tenant (ac_organizationId actor)
      (andThen (readableRun actor runId False) (\<lambda>run.
       cancelRun env (ac_organizationId actor) (rn_id run) ''CANCELLED_BY_EMPLOYEE'' (Some (ac_id actor))))"

definition getOwnRun :: "actor \<Rightarrow> string \<Rightarrow> ('z exec_db_scheme, agent_run) op" where
  "getOwnRun actor runId =
     tenant (ac_organizationId actor)
      (andThen (readableRun actor runId False) (\<lambda>run. ret (mapRun run)))"

definition getThread :: "actor \<Rightarrow> string \<Rightarrow> ('z exec_db_scheme, thread_row \<times> agent_run list) op" where
  "getThread actor threadId =
     tenant (ac_organizationId actor)
      (andThen (select_one ex_threads th_organizationId
          (\<lambda>t. th_id t = threadId \<and> th_organizationId t = ac_organizationId actor)) (\<lambda>row.
       case row of
         None \<Rightarrow> throw (Refused 404 ''THREAD_NOT_FOUND'')
       | Some t \<Rightarrow>
           if th_employeeId t \<noteq> ac_id actor then throw (Refused 404 ''THREAD_NOT_FOUND'')
           else andThen (select ex_runs rn_organizationId
                  (\<lambda>r. rn_threadId r = threadId \<and> rn_organizationId r = ac_organizationId actor))
                (\<lambda>rs. ret (t, map mapRun (sort_key rn_createdAt rs)))))"

datatype content_state = AVAILABLE | DELETED | UNMANAGED

record artifact_content =
  ac_state :: content_state
  ac_expiresAt :: "int option"
  ac_deletedAt :: "int option"
  ac_deletionReason :: "string option"

text \<open>\<open>mapArtifact\<close>: the registration without its storage reference, and the state of its bytes.\<close>

definition artifact_content :: "artifact_object option \<Rightarrow> artifact_content" where
  "artifact_content o' =
     \<lparr>ac_state = (case o' of None \<Rightarrow> UNMANAGED
        | Some x \<Rightarrow> (case ao_state x of ObjREGISTERED \<Rightarrow> AVAILABLE | ObjDELETED \<Rightarrow> DELETED | _ \<Rightarrow> UNMANAGED)),
      ac_expiresAt = Option.bind o' ao_expiresAt, ac_deletedAt = Option.bind o' ao_deletedAt,
      ac_deletionReason = (case Option.bind o' ao_deletionReason of Some (c # cs) \<Rightarrow> Some (c # cs) | _ \<Rightarrow> None)\<rparr>"

definition mapArtifact :: "artifact_object option \<Rightarrow> artifact_row \<Rightarrow> artifact_meta \<times> artifact_content" where
  "mapArtifact o' a = (artifact_meta.truncate a, artifact_content o')"

record run_approval_summary =
  as_id :: string
  as_action :: string
  as_risk :: risk
  as_status :: approval_status
  as_stepId :: "string option"
  as_createdAt :: int
  as_decidedAt :: "int option"
  as_expiresAt :: "int option"

definition approval_summary :: "approval_row \<Rightarrow> run_approval_summary" where
  "approval_summary a =
     \<lparr>as_id = ap_id a, as_action = ap_action a, as_risk = ap_risk a, as_status = ap_status a,
      as_stepId = ap_stepId a, as_createdAt = ap_createdAt a, as_decidedAt = ap_decidedAt a,
      as_expiresAt = ap_expiresAt a\<rparr>"

record run_detail =
  rd_run :: agent_run
  rd_steps :: "step_row list"
  rd_approvals :: "run_approval_summary list"
  rd_artifacts :: "(artifact_meta \<times> artifact_content) list"

definition getRun :: "actor \<Rightarrow> string \<Rightarrow> ('z exec_db_scheme, run_detail) op" where
  "getRun actor runId =
     (let org = ac_organizationId actor in
      tenant org
       (andThen (readableRun actor runId True) (\<lambda>run.
        andThen (select ex_steps st_organizationId
           (\<lambda>t. st_runId t = rn_id run \<and> st_organizationId t = org)) (\<lambda>steps.
        andThen (select ex_approvals ap_organizationId
           (\<lambda>a. ap_runId a = Some (rn_id run) \<and> ap_organizationId a = org)) (\<lambda>approvals.
        andThen (select ex_objects ao_organizationId (\<lambda>_. True)) (\<lambda>objects.
        andThen (select ex_artifacts aa_organizationId
           (\<lambda>a. aa_runId a = rn_id run \<and> aa_organizationId a = org)) (\<lambda>artifacts.
        ret \<lparr>rd_run = mapRun run, rd_steps = sort_key st_sequence steps,
             rd_approvals = map approval_summary (sort_key ap_createdAt approvals),
             rd_artifacts = map (\<lambda>a. mapArtifact (find (\<lambda>x. ao_artifactId x = aa_id a \<and>
                ao_organizationId x = aa_organizationId a) objects) a) (sort_key aa_createdAt artifacts)\<rparr>)))))))"

record readable_artifact =
  ra_id :: string
  ra_runId :: string
  ra_name :: string
  ra_mediaType :: string

definition readableArtifact :: "actor \<Rightarrow> string \<Rightarrow> ('z exec_db_scheme, readable_artifact) op" where
  "readableArtifact actor artifactId =
     tenant (ac_organizationId actor)
      (andThen (select_one ex_artifacts aa_organizationId
          (\<lambda>a. aa_id a = artifactId \<and> aa_organizationId a = ac_organizationId actor)) (\<lambda>row.
       case row of
         None \<Rightarrow> throw (Refused 404 ''ARTIFACT_NOT_FOUND'')
       | Some a \<Rightarrow>
           andThen (attempt (readableRun actor (aa_runId a) True)
              (\<lambda>_. throw (Refused 404 ''ARTIFACT_NOT_FOUND''))) (\<lambda>_.
           ret \<lparr>ra_id = aa_id a, ra_runId = aa_runId a, ra_name = aa_name a, ra_mediaType = aa_mediaType a\<rparr>)))"

definition listEvents ::
  "actor \<Rightarrow> string \<Rightarrow> nat \<Rightarrow> nat \<Rightarrow> ('z exec_db_scheme, agent_event list \<times> nat) op" where
  "listEvents actor runId afterSequence limit =
     tenant (ac_organizationId actor)
      (andThen (readableRun actor runId False) (\<lambda>run.
       andThen (select ex_events ae_organizationId
          (\<lambda>e. ae_runId e = rn_id run \<and> ae_organizationId e = ac_organizationId actor \<and>
             ae_sequence e > afterSequence)) (\<lambda>rows.
       let items = map mapEvent (take limit (sort_key ae_sequence rows))
       in ret (items, if items = [] then afterSequence else ae_sequence (last items)))))"

section \<open>Runtime events\<close>

definition DUPLICATE_IDS :: "(string \<times> string) list" where
  "DUPLICATE_IDS =
     [(''agent_events_pkey'', ''RUNTIME_EVENT_CONFLICT''),
      (''agent_run_steps_pkey'', ''STEP_ALREADY_EXISTS''),
      (''agent_artifacts_pkey'', ''ARTIFACT_ALREADY_EXISTS'')]"

fun runtime_event_name :: "runtime_event_type \<Rightarrow> string" where
  "runtime_event_name t =
     (case find (\<lambda>p. snd p = t) runtimeEventTypes of Some (n, _) \<Rightarrow> n | None \<Rightarrow> [])"

definition optional_json :: "string option \<Rightarrow> json" where
  "optional_json v = (case v of None \<Rightarrow> JNull | Some x \<Rightarrow> JStr x)"

definition payloadHash :: "'z exec_env \<Rightarrow> runtime_event \<Rightarrow> string" where
  "payloadHash env e = en_sha256 env (JObj
     [(''type'', JStr (runtime_event_name (ev_type e))), (''runId'', JStr (ev_runId e)),
      (''stepId'', optional_json (ev_stepId e)), (''sequence'', JNum (int (ev_sequence e))),
      (''occurredAt'', JStr (ev_occurredAt e)), (''payload'', payload_json (ev_payload e))])"

text \<open>\<open>run.resumed\<close>: the approval that released the run; the approved step restarts.\<close>

definition resume_approved ::
  "string \<Rightarrow> run_row \<Rightarrow> runtime_payload \<Rightarrow> ('z exec_db_scheme, unit) op" where
  "resume_approved org run payload =
     (case payload of
        PRunResumed approvalId \<Rightarrow>
          andThen (select_one ex_approvals ap_organizationId
            (\<lambda>a. ap_id a = approvalId \<and> ap_organizationId a = org \<and> ap_runId a = Some (rn_id run) \<and>
               ap_status a = ApAPPROVED))
          (\<lambda>row. case row of
             None \<Rightarrow> throw (Refused 409 ''RUNTIME_APPROVAL_MISMATCH'')
           | Some a \<Rightarrow>
               (case ap_stepId a of
                  None \<Rightarrow> ret ()
                | Some i \<Rightarrow>
                    andThen (stepRow org (rn_id run) i) (\<lambda>t.
                    whenever (st_status t = StepPENDING) (transitionStep org i StepRUNNING))))
      | _ \<Rightarrow> ret ())"

text \<open>
  \<open>step.started\<close> inserts the step, every other event naming a step needs it to exist, and
  \<open>step.completed\<close> and \<open>step.failed\<close> end it. \<open>stepId!\<close> of a parsed \<open>step.started\<close> is present.
\<close>

definition apply_step ::
  "string \<Rightarrow> run_scope \<Rightarrow> string option \<Rightarrow> runtime_payload \<Rightarrow> ('z exec_db_scheme, unit) op" where
  "apply_step org sc stepId payload =
     (case payload of
        PStepStarted kind title \<Rightarrow>
          andThen (select_one ex_steps st_organizationId (\<lambda>t. Some (st_id t) = stepId)) (\<lambda>existing.
          andThen (demand (existing = None) (Refused 409 ''STEP_ALREADY_EXISTS'')) (\<lambda>_.
          andThen (insertStep sc kind title StepRUNNING (JObj []) stepId) (\<lambda>_. ret ())))
      | _ \<Rightarrow>
          (case stepId of
             None \<Rightarrow> ret ()
           | Some i \<Rightarrow>
               andThen (stepRow org (rs_runId sc) i) (\<lambda>t.
               case payload of
                 PStepCompleted _ \<Rightarrow> transitionStep org (st_id t) StepCOMPLETED
               | PStepFailed _ \<Rightarrow> transitionStep org (st_id t) StepFAILED
               | _ \<Rightarrow> ret ())))"

definition register_artifact ::
  "'z exec_env \<Rightarrow> string \<Rightarrow> run_row \<Rightarrow> string option \<Rightarrow> runtime_payload \<Rightarrow> ('z exec_db_scheme, unit) op" where
  "register_artifact env org run stepId payload =
     (case payload of
        PArtifactCreated a \<Rightarrow>
          andThen (select_one ex_artifacts aa_organizationId (\<lambda>x. aa_id x = ar_id a)) (\<lambda>existing.
          andThen (demand (existing = None) (Refused 409 ''ARTIFACT_ALREADY_EXISTS'')) (\<lambda>_.
          andThen (case en_registerArtifact env of None \<Rightarrow> ret ()
                   | Some hook \<Rightarrow> hook org (rn_id run) a) (\<lambda>_.
          andThen now (\<lambda>timestamp.
          insert_row ex_artifacts_update aa_organizationId artifact_checks
            \<lparr>aa_id = ar_id a, aa_organizationId = org, aa_threadId = rn_threadId run, aa_runId = rn_id run,
             aa_stepId = stepId, aa_type = ar_type a, aa_mediaType = ar_mediaType a, aa_name = ar_name a,
             aa_checksum = ar_checksum a, aa_sizeBytes = ar_sizeBytes a,
             aa_retentionPolicy = ar_retentionPolicy a, aa_createdAt = timestamp,
             aa_createdBy = RUNTIME_ACTOR, aa_storageReference = ar_storageReference a\<rparr>))))
      | _ \<Rightarrow> ret ())"

fun status_reason :: "runtime_payload \<Rightarrow> string option" where
  "status_reason (PRunPaused reason _) = Some reason"
| "status_reason (PRunFailed err _) = Some (er_code err)"
| "status_reason (PRunCancelled reason) = Some reason"
| "status_reason _ = None"

text \<open>Artifacts are referenced by id in the event; the storage reference stays out of history.\<close>

fun history_payload :: "runtime_payload \<Rightarrow> json" where
  "history_payload (PArtifactCreated a) =
     JObj [(''artifactId'', JStr (ar_id a)), (''type'', JStr (ar_type a))]"
| "history_payload p = payload_json p"

definition sync_outcome :: "'z exec_env \<Rightarrow> run_scope \<Rightarrow> runtime_payload \<Rightarrow> ('z exec_db_scheme, unit) op" where
  "sync_outcome env sc payload =
     (case payload of
        PRunCompleted summary _ \<Rightarrow> syncConversation env sc summary
      | PRunFailed err _ \<Rightarrow>
          syncConversation env sc (''The run failed: '' @ er_code err @ ''. '' @ er_message err)
      | PRunCancelled reason \<Rightarrow>
          syncConversation env sc (''The run was cancelled ('' @ reason @ '').'')
      | _ \<Rightarrow> ret ())"

definition set_runtime_sequence :: "string \<Rightarrow> string \<Rightarrow> nat \<Rightarrow> ('z exec_db_scheme, unit) op" where
  "set_runtime_sequence org runId n =
     andThen now (\<lambda>timestamp.
     andThen (update_rows ex_runs ex_runs_update rn_organizationId run_update_checks
        (\<lambda>r. rn_id r = runId \<and> rn_organizationId r = org)
        (\<lambda>r. r\<lparr>rn_runtimeSequence := n, rn_updatedAt := timestamp\<rparr>)) (\<lambda>_. ret ()))"

text \<open>The guards of \<open>recordRuntimeEvent\<close> on the run, and the status it leads to.\<close>

definition accept_event :: "run_row \<Rightarrow> runtime_event \<Rightarrow> ('z exec_db_scheme, run_status) op" where
  "accept_event run e =
     andThen (demand (rn_threadId run = ev_threadId e \<and>
        rn_employeeId run = co_employeeId (ev_correlation e) \<and> rn_agentId run = co_agentId (ev_correlation e))
        (Refused 409 ''RUNTIME_CORRELATION_MISMATCH'')) (\<lambda>_.
     andThen (demand (ev_sequence e = rn_runtimeSequence run + 1)
        (Refused 409 ''RUNTIME_EVENT_OUT_OF_ORDER'')) (\<lambda>_.
     case decideRuntimeEvent (rn_status run) (rn_statusReason run) (ev_type e) of
       NotAccepted code \<Rightarrow> throw (Refused 409 code)
     | Accepted next \<Rightarrow> ret next))"

text \<open>Everything an event changes before its own row is appended.\<close>

definition apply_event ::
  "'z exec_env \<Rightarrow> string \<Rightarrow> run_row \<Rightarrow> runtime_event \<Rightarrow> ('z exec_db_scheme, unit) op" where
  "apply_event env org run e =
     andThen (resume_approved org run (ev_payload e)) (\<lambda>_.
     andThen (apply_step org (run_scope_of org run) (ev_stepId e) (ev_payload e)) (\<lambda>_.
     register_artifact env org run (ev_stepId e) (ev_payload e)))"

definition new_runtime_event ::
  "'z exec_env \<Rightarrow> string \<Rightarrow> runtime_event \<Rightarrow> string \<Rightarrow> ('z exec_db_scheme, agent_event) op" where
  "new_runtime_event env org e hash =
     andThen (runRow org (ev_runId e)) (\<lambda>run.
     andThen (accept_event run e) (\<lambda>next.
     let sc = run_scope_of org run in
     andThen (apply_event env org run e) (\<lambda>_.
     andThen (set_runtime_sequence org (rn_id run) (ev_sequence e)) (\<lambda>_.
     andThen (whenever (next \<noteq> rn_status run)
        (transitionRun env sc next (status_reason (ev_payload e)))) (\<lambda>_.
     andThen (appendEvent env sc (RT (ev_type e)) RUNTIME (Some RUNTIME_ACTOR)
        (history_payload (ev_payload e)) (ev_stepId e)
        (Some \<lparr>rt_id = ev_eventId e, rt_runtimeSequence = ev_sequence e,
           rt_occurredAt = ev_occurredAt e, rt_payloadHash = hash\<rparr>)) (\<lambda>id'.
     andThen (sync_outcome env sc (ev_payload e)) (\<lambda>_.
     andThen (select_one ex_events ae_organizationId (\<lambda>x. ae_id x = id')) (\<lambda>row.
     case row of None \<Rightarrow> throw (Raised ''TypeError'') | Some x \<Rightarrow> ret (mapEvent x)))))))))"

definition recordRuntimeEvent ::
  "'z exec_env \<Rightarrow> string \<Rightarrow> runtime_event \<Rightarrow> string \<Rightarrow> ('z exec_db_scheme, agent_event \<times> bool) op" where
  "recordRuntimeEvent env org e hash =
     andThen (select_one ex_events ae_organizationId (\<lambda>x. ae_id x = ev_eventId e \<and> ae_organizationId x = org))
       (\<lambda>existing. case existing of
          Some x \<Rightarrow>
            andThen (demand (ae_payloadHash x = hash) (Refused 409 ''RUNTIME_EVENT_CONFLICT'')) (\<lambda>_.
            ret (mapEvent x, True))
        | None \<Rightarrow> andThen (new_runtime_event env org e hash) (\<lambda>x. ret (x, False)))"

definition duplicate_id :: "failure \<Rightarrow> failure" where
  "duplicate_id e = (case e of
       Constraint UNIQUE name \<Rightarrow>
         (case map_of DUPLICATE_IDS name of Some code \<Rightarrow> Refused 409 code | None \<Rightarrow> e)
     | _ \<Rightarrow> e)"

definition ingestRuntimeEvent ::
  "'z exec_env \<Rightarrow> schemas \<Rightarrow> string \<Rightarrow> wire_event \<Rightarrow> ('z exec_db_scheme, agent_event \<times> bool) op" where
  "ingestRuntimeEvent env sch org w =
     (case parseRuntimeEvent sch w of
        Inl e \<Rightarrow> throw e
      | Inr e \<Rightarrow>
          andThen (demand (co_organizationId (ev_correlation e) = org)
             (Refused 403 ''RUNTIME_TENANT_FORBIDDEN'')) (\<lambda>_.
          attempt (tenant org (recordRuntimeEvent env org e (payloadHash env e)))
             (\<lambda>err. throw (duplicate_id err))))"

section \<open>What the runtime transport reads\<close>

record run_binding =
  rb_threadId :: string
  rb_employeeId :: string
  rb_agentId :: string
  rb_status :: run_status
  rb_runtimeSequence :: nat
  rb_workflow :: "string option"
  rb_manifestId :: string
  rb_manifestDigest :: string
  rb_modelProvider :: string
  rb_credentialMode :: string

definition runBinding :: "'z exec_env \<Rightarrow> string \<Rightarrow> string \<Rightarrow> ('z exec_db_scheme, run_binding) op" where
  "runBinding env org runId =
     tenant org
      (andThen (runRow org runId) (\<lambda>run.
       case rn_manifest run of
         None \<Rightarrow> throw (Refused 409 ''MANIFEST_INVALID'')
       | Some ref \<Rightarrow>
           andThen (demand (mr_apiVersion ref = V2) (Refused 409 ''MANIFEST_INVALID'')) (\<lambda>_.
           andThen (attempt (en_loadManifest env (rn_agentId run) org (rn_employeeId run))
              (\<lambda>_. throw (Refused 409 ''MANIFEST_INVALID''))) (\<lambda>manifest.
           andThen (demand (mj_manifestId (manifestSubject manifest) = mr_manifestId ref)
              (Refused 409 ''MANIFEST_INVALID'')) (\<lambda>_.
           ret \<lparr>rb_threadId = rn_threadId run, rb_employeeId = rn_employeeId run,
                rb_agentId = rn_agentId run, rb_status = rn_status run,
                rb_runtimeSequence = rn_runtimeSequence run, rb_workflow = ts_workflow (rn_task run),
                rb_manifestId = mr_manifestId ref, rb_manifestDigest = en_sha256 env (mf_payload manifest),
                rb_modelProvider = mf_modelProvider manifest,
                rb_credentialMode = mf_credentialMode manifest\<rparr>)))))"

definition openSteps :: "string \<Rightarrow> string \<Rightarrow> ('z exec_db_scheme, string list) op" where
  "openSteps org runId =
     tenant org
      (andThen (select ex_steps st_organizationId
         (\<lambda>t. st_runId t = runId \<and> st_organizationId t = org \<and> st_status t = StepRUNNING))
       (\<lambda>rows. ret (map st_id (sort_key st_sequence rows))))"

record run_submit_command =
  rc_commandId :: string
  rc_issuedAt :: int
  rc_correlation :: correlation
  rc_task :: task_spec
  rc_runtimeProfile :: string
  rc_manifest :: signed_manifest
  rc_workflow :: "json option"

definition submitted_workflow ::
  "'z exec_env \<Rightarrow> run_row \<Rightarrow> signed_manifest \<Rightarrow> ('z exec_db_scheme, json option) op" where
  "submitted_workflow env run manifest =
     (case ts_workflow (rn_task run) of
        Some (c # cs) \<Rightarrow>
          andThen (if c # cs \<in> set (mf_workflows manifest)
                   then (case en_resolveWorkflow env of None \<Rightarrow> ret None | Some f \<Rightarrow> f manifest (c # cs))
                   else ret None) (\<lambda>workflow.
          andThen (demand (workflow \<noteq> None) (Refused 409 ''MANIFEST_INVALID'')) (\<lambda>_. ret workflow))
      | _ \<Rightarrow> ret None)"

definition buildRunSubmitCommand ::
  "'z exec_env \<Rightarrow> string \<Rightarrow> string \<Rightarrow> ('z exec_db_scheme, run_submit_command) op" where
  "buildRunSubmitCommand env org runId =
     tenant org
      (andThen (runRow org runId) (\<lambda>run.
       andThen (demand (rn_status run = QUEUED \<and> rn_statusReason run = None)
          (Refused 409 ''RUN_NOT_SUBMITTABLE'')) (\<lambda>_.
       case rn_manifest run of
         None \<Rightarrow> throw (Refused 409 ''RUNTIME_MANIFEST_V2_REQUIRED'')
       | Some ref \<Rightarrow>
           andThen (demand (mr_apiVersion ref = V2) (Refused 409 ''RUNTIME_MANIFEST_V2_REQUIRED'')) (\<lambda>_.
           andThen (en_loadManifest env (rn_agentId run) org (rn_employeeId run)) (\<lambda>manifest.
           andThen (demand (mj_apiVersion (mf_subject manifest) = V2 \<and>
                       mj_manifestId (mf_subject manifest) = mr_manifestId ref)
              (Refused 409 ''MANIFEST_INVALID'')) (\<lambda>_.
           andThen (submitted_workflow env run manifest) (\<lambda>workflow.
           andThen randomUUID (\<lambda>commandId.
           andThen now (\<lambda>issuedAt.
           ret \<lparr>rc_commandId = commandId, rc_issuedAt = issuedAt,
                rc_correlation = \<lparr>co_organizationId = org, co_employeeId = rn_employeeId run,
                  co_agentId = rn_agentId run, co_threadId = rn_threadId run, co_runId = rn_id run,
                  co_stepId = None, co_toolCallId = None, co_actionId = None\<rparr>,
                rc_task = rn_task run, rc_runtimeProfile = rn_runtimeProfile run,
                rc_manifest = manifest, rc_workflow = workflow\<rparr>)))))))))"

end
