(* ===== verification/ExecutionOperations.thy ===== *)
theory ExecutionOperations
  imports WebText
begin

text \<open>
  Execution operations and their schema (\<open>contracts/src/execution-runtime/v1/schemas.ts\<close>), and
  the governed actions an execution runtime performs under a grant
  (\<open>actions/execution-actions.ts\<close>): which operations an action may be, what it targets, whether
  the target lies in the agent's signed configuration, and the hosts it may reach.
\<close>

section \<open>Operations\<close>

datatype operation =
    GitCheckout (op_repositoryUrl: string) (op_ref: string) (op_path: string)
  | GitStatus (op_path: string)
  | FileRead (op_path: string)
  | FileWrite (op_path: string) (op_content: string)
  | RunCommand (op_command: string) (op_args: "string list") (op_cwd: string)
  | PlaywrightRun (op_project: string) (op_baseUrl: string) (op_projectPath: "string option")
  | DependenciesInstall (op_path: string) (op_registryUrl: string)

fun operation_kind :: "operation \<Rightarrow> string" where
  "operation_kind (GitCheckout _ _ _) = ''git.checkout''"
| "operation_kind (GitStatus _) = ''git.status''"
| "operation_kind (FileRead _) = ''file.read''"
| "operation_kind (FileWrite _ _) = ''file.write''"
| "operation_kind (RunCommand _ _ _) = ''command''"
| "operation_kind (PlaywrightRun _ _ _) = ''playwright.run''"
| "operation_kind (DependenciesInstall _ _) = ''dependencies.install''"

section \<open>Schema\<close>

definition MAX_WRITE_BYTES :: nat where
  "MAX_WRITE_BYTES = 128 * 1024"

definition slug :: "string \<Rightarrow> bool" where
  "slug t \<longleftrightarrow> t \<noteq> [] \<and> length t \<le> 100 \<and> (is_lower (hd t) \<or> is_digit (hd t)) \<and>
     list_all (\<lambda>c. is_lower c \<or> is_digit c \<or> c \<in> set ''._-'') t"

text \<open>One segment of \<open>[A-Za-z0-9_][A-Za-z0-9._-]*\<close>.\<close>

definition path_segment :: "string \<Rightarrow> bool" where
  "path_segment t \<longleftrightarrow> t \<noteq> [] \<and> (is_alnum (hd t) \<or> hd t = CHR ''_'') \<and>
     list_all (\<lambda>c. is_alnum c \<or> c \<in> set ''._-'') t"

definition workspacePath :: "string \<Rightarrow> bool" where
  "workspacePath t \<longleftrightarrow> length t \<le> 512 \<and>
     (t = ''.'' \<or> list_all path_segment (splitOn CHR ''/'' t)) \<and>
     \<not> list_ex (\<lambda>seg. seg = ''..'' \<or> seg = ''.git'') (splitOn CHR ''/'' t)"

definition gitRef :: "string \<Rightarrow> bool" where
  "gitRef t \<longleftrightarrow> 1 \<le> length t \<and> length t \<le> 200 \<and>
     list_all (\<lambda>c. is_alnum c \<or> c \<in> set ''._/-'') t \<and>
     \<not> startsWith ''-'' t \<and> \<not> contains ''..'' t \<and> \<not> contains ''//'' t \<and>
     \<not> endsWith ''.lock'' t \<and> \<not> endsWith ''/'' t"

text \<open>\<open>url(protocols)\<close>: what \<open>z.url()\<close> accepts, short, of one of the protocols, without credentials.\<close>

definition safe_url :: "web \<Rightarrow> string list \<Rightarrow> string \<Rightarrow> string option" where
  "safe_url wb protocols t =
     filtered (\<lambda>v. length v \<le> 2048 \<and>
         (case wb_URL wb v of
            None \<Rightarrow> False
          | Some u \<Rightarrow> ul_protocol u \<in> set protocols \<and> ul_username u = [] \<and> ul_password u = []))
       (wb_zodUrl wb t)"

definition no_query :: "web \<Rightarrow> string \<Rightarrow> bool" where
  "no_query wb t = (case wb_URL wb t of None \<Rightarrow> False | Some u \<Rightarrow> ul_search u = [] \<and> ul_hash u = [])"

definition path_field :: "json \<Rightarrow> string option" where
  "path_field v = filtered workspacePath (text_field ''path'' v)"

definition url_field :: "web \<Rightarrow> string list \<Rightarrow> string \<Rightarrow> json \<Rightarrow> string option" where
  "url_field wb protocols k v = Option.bind (text_field k v) (safe_url wb protocols)"

text \<open>\<open>parseExecutionOperation\<close>; \<open>None\<close> where it throws \<open>EXECUTION_OPERATION_INVALID\<close>.\<close>

definition parse_checkout :: "web \<Rightarrow> json \<Rightarrow> operation option" where
  "parse_checkout wb v =
     (if strict [''kind'', ''repositoryUrl'', ''ref'', ''path''] v then
        (case (url_field wb [''https:'', ''file:''] ''repositoryUrl'' v,
               filtered gitRef (text_field ''ref'' v),
               filtered (\<lambda>p. p \<noteq> ''.'') (path_field v)) of
           (Some u, Some r, Some p) \<Rightarrow> Some (GitCheckout u r p)
         | _ \<Rightarrow> None)
      else None)"

definition parse_write :: "json \<Rightarrow> operation option" where
  "parse_write v =
     (if strict [''kind'', ''path'', ''content''] v then
        (case (filtered (\<lambda>p. p \<noteq> ''.'') (path_field v),
               filtered (\<lambda>t. utf8_length t \<le> MAX_WRITE_BYTES) (text_field ''content'' v)) of
           (Some p, Some t) \<Rightarrow> Some (FileWrite p t)
         | _ \<Rightarrow> None)
      else None)"

definition parse_command :: "json \<Rightarrow> operation option" where
  "parse_command v =
     (if strict [''kind'', ''command'', ''args'', ''cwd''] v then
        (case (filtered slug (text_field ''command'' v),
               filtered (\<lambda>ts. length ts \<le> 50 \<and> list_all (\<lambda>t. length t \<le> 1000) ts) (texts_field ''args'' v),
               filtered workspacePath (text_field ''cwd'' v)) of
           (Some c, Some ts, Some p) \<Rightarrow> Some (RunCommand c ts p)
         | _ \<Rightarrow> None)
      else None)"

definition parse_playwright :: "web \<Rightarrow> json \<Rightarrow> operation option" where
  "parse_playwright wb v =
     (if strict [''kind'', ''project'', ''baseUrl'', ''path''] v then
        (case (filtered slug (text_field ''project'' v), url_field wb [''https:'', ''http:''] ''baseUrl'' v) of
           (Some p, Some u) \<Rightarrow>
             (if json_field ''path'' v = None then Some (PlaywrightRun p u None)
              else map_option (\<lambda>d. PlaywrightRun p u (Some d)) (path_field v))
         | _ \<Rightarrow> None)
      else None)"

definition parse_install :: "web \<Rightarrow> json \<Rightarrow> operation option" where
  "parse_install wb v =
     (if strict [''kind'', ''path'', ''registryUrl''] v then
        (case (path_field v,
               filtered (no_query wb) (url_field wb [''https:'', ''http:''] ''registryUrl'' v)) of
           (Some p, Some u) \<Rightarrow> Some (DependenciesInstall p u)
         | _ \<Rightarrow> None)
      else None)"

definition parseExecutionOperation :: "web \<Rightarrow> json \<Rightarrow> operation option" where
  "parseExecutionOperation wb v =
     (case text_field ''kind'' v of
        None \<Rightarrow> None
      | Some kind \<Rightarrow>
          if kind = ''git.checkout'' then parse_checkout wb v
          else if kind = ''git.status'' then
            (if strict [''kind'', ''path''] v then map_option GitStatus (path_field v) else None)
          else if kind = ''file.read'' then
            (if strict [''kind'', ''path''] v then map_option FileRead (path_field v) else None)
          else if kind = ''file.write'' then parse_write v
          else if kind = ''command'' then parse_command v
          else if kind = ''playwright.run'' then parse_playwright wb v
          else if kind = ''dependencies.install'' then parse_install wb v
          else None)"

text \<open>An operation as JSON, as clients and grants carry it.\<close>

fun operation_json :: "operation \<Rightarrow> json" where
  "operation_json (GitCheckout u r p) = JObj [(''kind'', JStr ''git.checkout''),
     (''repositoryUrl'', JStr u), (''ref'', JStr r), (''path'', JStr p)]"
| "operation_json (GitStatus p) = JObj [(''kind'', JStr ''git.status''), (''path'', JStr p)]"
| "operation_json (FileRead p) = JObj [(''kind'', JStr ''file.read''), (''path'', JStr p)]"
| "operation_json (FileWrite p t) = JObj [(''kind'', JStr ''file.write''), (''path'', JStr p), (''content'', JStr t)]"
| "operation_json (RunCommand c ts p) = JObj [(''kind'', JStr ''command''), (''command'', JStr c),
     (''args'', JArr (map JStr ts)), (''cwd'', JStr p)]"
| "operation_json (PlaywrightRun p u d) = JObj ([(''kind'', JStr ''playwright.run''),
     (''project'', JStr p), (''baseUrl'', JStr u)] @ (case d of None \<Rightarrow> [] | Some q \<Rightarrow> [(''path'', JStr q)]))"
| "operation_json (DependenciesInstall p u) = JObj [(''kind'', JStr ''dependencies.install''),
     (''path'', JStr p), (''registryUrl'', JStr u)]"

section \<open>Execution actions\<close>

datatype execution_action =
    RepositoryRead | RepositoryWrite | WorkspaceCommand | DependenciesInstallAction | PlaywrightRunAction

definition DEFAULT_MAX_PROCESSES :: int where
  "DEFAULT_MAX_PROCESSES = 64"

fun xa_action :: "execution_action \<Rightarrow> string" where
  "xa_action RepositoryRead = ''repository.read''"
| "xa_action RepositoryWrite = ''repository.write''"
| "xa_action WorkspaceCommand = ''workspace.command''"
| "xa_action DependenciesInstallAction = ''workspace.dependencies.install''"
| "xa_action PlaywrightRunAction = ''qa.execute_playwright''"

definition execution_actions :: "execution_action list" where
  "execution_actions =
     [RepositoryRead, RepositoryWrite, WorkspaceCommand, DependenciesInstallAction, PlaywrightRunAction]"

definition executionAction :: "string \<Rightarrow> execution_action option" where
  "executionAction action = find (\<lambda>x. xa_action x = action) execution_actions"

fun xa_operations :: "execution_action \<Rightarrow> string list" where
  "xa_operations RepositoryRead = [''git.checkout'', ''git.status'', ''file.read'']"
| "xa_operations RepositoryWrite = [''file.write'']"
| "xa_operations WorkspaceCommand = [''command'']"
| "xa_operations DependenciesInstallAction = [''dependencies.install'']"
| "xa_operations PlaywrightRunAction = [''playwright.run'']"

fun xa_maxProcesses :: "execution_action \<Rightarrow> int option" where
  "xa_maxProcesses PlaywrightRunAction = Some 256"
| "xa_maxProcesses _ = None"

text \<open>Repository URLs compared without the case of the host, a trailing slash and \<open>.git\<close>.\<close>

definition repository_key :: "web \<Rightarrow> string \<Rightarrow> string option" where
  "repository_key wb t =
     map_option (\<lambda>u. ul_protocol u @ ''//'' @ toLowerCase (ul_host u) @
         dropSuffix ''.git'' (dropTrailing CHR ''/'' (ul_pathname u))) (wb_URL wb t)"

definition sameRepository :: "web \<Rightarrow> string \<Rightarrow> string \<Rightarrow> bool" where
  "sameRepository wb left right \<longleftrightarrow>
     repository_key wb left \<noteq> None \<and> repository_key wb left = repository_key wb right"

definition origin_of :: "web \<Rightarrow> string option \<Rightarrow> string option" where
  "origin_of wb v =
     (case v of None \<Rightarrow> None | Some t \<Rightarrow> if t = [] then None else map_option ul_origin (wb_URL wb t))"

definition DEFAULT_PROJECT_SCRIPTS :: "string list" where
  "DEFAULT_PROJECT_SCRIPTS = [''build'', ''lint'', ''test'']"

definition script_name :: "string \<Rightarrow> bool" where
  "script_name t \<longleftrightarrow> t \<noteq> [] \<and> length t \<le> 60 \<and> (is_lower (hd t) \<or> is_digit (hd t)) \<and>
     list_all (\<lambda>c. is_lower c \<or> is_digit c \<or> c \<in> set '':._-'') t"

definition projectScripts :: "configuration \<Rightarrow> string list" where
  "projectScripts configuration =
     (let scripts = (case config_text configuration ''projectScripts'' of
            None \<Rightarrow> []
          | Some t \<Rightarrow> if t = [] then [] else filter script_name (map trim (splitOn CHR '','' t)))
      in if scripts = [] then DEFAULT_PROJECT_SCRIPTS else scripts)"

text \<open>A registry URL without credentials, query or fragment.\<close>

definition registryKey :: "web \<Rightarrow> string option \<Rightarrow> string option" where
  "registryKey wb v =
     (case v of
        None \<Rightarrow> None
      | Some t \<Rightarrow>
          if t = [] then None
          else (case wb_URL wb t of
             None \<Rightarrow> None
           | Some u \<Rightarrow>
               if ul_username u \<noteq> [] \<or> ul_password u \<noteq> [] \<or> ul_search u \<noteq> [] \<or> ul_hash u \<noteq> [] then None
               else Some (ul_protocol u @ ''//'' @ toLowerCase (ul_host u) @
                      dropTrailing CHR ''/'' (ul_pathname u))))"

definition or_dot :: "string \<Rightarrow> string" where
  "or_dot t = (if t = [] then ''.'' else t)"

fun path_of :: "operation \<Rightarrow> string" where
  "path_of (GitCheckout _ _ p) = p"
| "path_of (GitStatus p) = p"
| "path_of (FileRead p) = p"
| "path_of (FileWrite p _) = p"
| "path_of (RunCommand _ _ _) = []"
| "path_of (PlaywrightRun _ _ d) = (case d of None \<Rightarrow> [] | Some p \<Rightarrow> p)"
| "path_of (DependenciesInstall p _) = p"

text \<open>\<open>resource\<close>, \<open>hosts\<close> and \<open>summary\<close>; \<open>None\<close> where \<open>new URL\<close> throws.\<close>

definition xa_resource :: "web \<Rightarrow> execution_action \<Rightarrow> operation \<Rightarrow> (string \<times> string) option" where
  "xa_resource wb x oper =
     (case x of
        RepositoryRead \<Rightarrow>
          (case oper of GitCheckout u _ _ \<Rightarrow> Some (''repository'', u)
           | _ \<Rightarrow> Some (''workspace.path'', or_dot (path_of oper)))
      | RepositoryWrite \<Rightarrow>
          Some (''workspace.path'', case oper of FileWrite p _ \<Rightarrow> p | _ \<Rightarrow> [])
      | WorkspaceCommand \<Rightarrow>
          Some (''workspace.command'', case oper of RunCommand c ts _ \<Rightarrow> joinWith '' '' (c # ts) | _ \<Rightarrow> [])
      | DependenciesInstallAction \<Rightarrow>
          Some (''package.registry'',
            case oper of DependenciesInstall _ u \<Rightarrow> (case registryKey wb (Some u) of None \<Rightarrow> [] | Some k \<Rightarrow> k)
            | _ \<Rightarrow> [])
      | PlaywrightRunAction \<Rightarrow>
          (case oper of PlaywrightRun _ u _ \<Rightarrow> map_option (\<lambda>v. (''environment'', ul_origin v)) (wb_URL wb u)
           | _ \<Rightarrow> Some (''environment'', [])))"

definition xa_inScope :: "web \<Rightarrow> execution_action \<Rightarrow> operation \<Rightarrow> configuration \<Rightarrow> bool" where
  "xa_inScope wb x oper configuration =
     (case x of
        RepositoryRead \<Rightarrow>
          (case oper of
             GitCheckout u _ _ \<Rightarrow>
               (case config_text configuration ''repositoryUrl'' of
                  None \<Rightarrow> False | Some v \<Rightarrow> sameRepository wb u v)
           | _ \<Rightarrow> True)
      | RepositoryWrite \<Rightarrow> True
      | WorkspaceCommand \<Rightarrow>
          (case oper of
             RunCommand c ts _ \<Rightarrow>
               c = ''npm'' \<and> length ts = 2 \<and> ts ! 0 = ''run'' \<and> ts ! 1 \<in> set (projectScripts configuration)
           | _ \<Rightarrow> False)
      | DependenciesInstallAction \<Rightarrow>
          (case registryKey wb (config_text configuration ''packageRegistryUrl'') of
             None \<Rightarrow> False
           | Some configured \<Rightarrow>
               (case oper of
                  DependenciesInstall _ u \<Rightarrow>
                    startsWith ''https://'' configured \<and> registryKey wb (Some u) = Some configured
                | _ \<Rightarrow> False))
      | PlaywrightRunAction \<Rightarrow>
          (case oper of
             PlaywrightRun _ u _ \<Rightarrow>
               origin_of wb (Some u) \<noteq> None \<and>
               origin_of wb (Some u) = origin_of wb (config_text configuration ''qaUrl'')
           | _ \<Rightarrow> False))"

definition host_of :: "web \<Rightarrow> string \<Rightarrow> string list option" where
  "host_of wb t = map_option (\<lambda>u. [ul_hostname u]) (wb_URL wb t)"

definition xa_hosts :: "web \<Rightarrow> execution_action \<Rightarrow> operation \<Rightarrow> string list option" where
  "xa_hosts wb x oper =
     (case x of
        RepositoryRead \<Rightarrow>
          (case oper of GitCheckout u _ _ \<Rightarrow> if startsWith ''https:'' u then host_of wb u else Some []
           | _ \<Rightarrow> Some [])
      | PlaywrightRunAction \<Rightarrow>
          (case oper of PlaywrightRun _ u _ \<Rightarrow> host_of wb u | _ \<Rightarrow> Some [])
      | DependenciesInstallAction \<Rightarrow>
          (case oper of DependenciesInstall _ u \<Rightarrow> host_of wb u | _ \<Rightarrow> Some [])
      | _ \<Rightarrow> Some [])"

definition xa_summary :: "web \<Rightarrow> execution_action \<Rightarrow> operation \<Rightarrow> string option" where
  "xa_summary wb x oper =
     (case x of
        RepositoryRead \<Rightarrow>
          (case oper of
             GitCheckout u r _ \<Rightarrow> Some (''Check out '' @ r @ '' of '' @ u)
           | GitStatus p \<Rightarrow> Some (''Read git status of '' @ p)
           | _ \<Rightarrow> Some (''Read '' @ or_dot (path_of oper)))
      | RepositoryWrite \<Rightarrow>
          (case oper of
             FileWrite p t \<Rightarrow> Some (''Write '' @ digits (utf8_length t) @ '' bytes to '' @ p)
           | _ \<Rightarrow> Some ''Write a file'')
      | WorkspaceCommand \<Rightarrow>
          (case oper of
             RunCommand c ts p \<Rightarrow> Some (''Run '' @ joinWith '' '' (c # ts) @ '' in '' @ p)
           | _ \<Rightarrow> Some ''Run a project script'')
      | DependenciesInstallAction \<Rightarrow>
          (case oper of
             DependenciesInstall p u \<Rightarrow> Some (''Install locked npm dependencies in '' @ p @ '' from '' @ u)
           | _ \<Rightarrow> Some ''Install dependencies'')
      | PlaywrightRunAction \<Rightarrow>
          (case oper of
             PlaywrightRun p u _ \<Rightarrow>
               map_option (\<lambda>v. ''Run Playwright project '' @ p @ '' against '' @ ul_origin v) (wb_URL wb u)
           | _ \<Rightarrow> Some ''Run Playwright''))"

section \<open>Correctness of the schema\<close>

fun valid_operation :: "web \<Rightarrow> operation \<Rightarrow> bool" where
  "valid_operation wb (GitCheckout u r p) \<longleftrightarrow>
     safe_url wb [''https:'', ''file:''] u = Some u \<and> gitRef r \<and> workspacePath p \<and> p \<noteq> ''.''"
| "valid_operation wb (GitStatus p) \<longleftrightarrow> workspacePath p"
| "valid_operation wb (FileRead p) \<longleftrightarrow> workspacePath p"
| "valid_operation wb (FileWrite p t) \<longleftrightarrow> workspacePath p \<and> p \<noteq> ''.'' \<and> utf8_length t \<le> MAX_WRITE_BYTES"
| "valid_operation wb (RunCommand c ts p) \<longleftrightarrow>
     slug c \<and> length ts \<le> 50 \<and> list_all (\<lambda>t. length t \<le> 1000) ts \<and> workspacePath p"
| "valid_operation wb (PlaywrightRun p u d) \<longleftrightarrow>
     slug p \<and> safe_url wb [''https:'', ''http:''] u = Some u \<and>
     (case d of None \<Rightarrow> True | Some q \<Rightarrow> workspacePath q)"
| "valid_operation wb (DependenciesInstall p u) \<longleftrightarrow>
     workspacePath p \<and> safe_url wb [''https:'', ''http:''] u = Some u \<and> no_query wb u"

text \<open>What \<open>z.url()\<close> accepted it accepts unchanged.\<close>

definition zod_stable :: "web \<Rightarrow> bool" where
  "zod_stable wb \<longleftrightarrow> (\<forall>t v. wb_zodUrl wb t = Some v \<longrightarrow> wb_zodUrl wb v = Some v)"

lemma safe_url_stable: "zod_stable wb \<Longrightarrow> safe_url wb ps t = Some v \<Longrightarrow> safe_url wb ps v = Some v"
  by (auto simp: safe_url_def zod_stable_def)

lemmas parse_defs = parseExecutionOperation_def parse_checkout_def parse_write_def parse_command_def
  parse_playwright_def parse_install_def url_field_def path_field_def

lemma parsed_valid:
  assumes "zod_stable wb" and "parseExecutionOperation wb v = Some oper"
  shows "valid_operation wb oper"
  using assms(2) safe_url_stable [OF assms(1)]
  by (fastforce simp: parse_defs bind_eq_Some_conv split: option.splits if_splits)

lemma valid_parses: "valid_operation wb oper \<Longrightarrow> parseExecutionOperation wb (operation_json oper) = Some oper"
  by (cases oper)
     (auto simp: parse_defs text_field_def texts_field_def filtered_def split: option.splits)

text \<open>
  C38. Parsing is stable: an accepted operation, written as JSON again, is accepted and is the
  same operation. So the operation a grant's digest binds is the one the runtime re-parses.
\<close>

theorem operations_round_trip:
  assumes "zod_stable wb" and "parseExecutionOperation wb v = Some oper"
  shows "parseExecutionOperation wb (operation_json oper) = Some oper"
  using parsed_valid [OF assms] by (rule valid_parses)

text \<open>A small URL parser for examples: \<open>https://host/path\<close> only.\<close>

definition sample_URL :: "string \<Rightarrow> url option" where
  "sample_URL t =
     (if startsWith ''https://'' t
      then let rest = drop 8 t; host = takeWhile (\<lambda>c. c \<noteq> CHR ''/'') rest;
               path = dropWhile (\<lambda>c. c \<noteq> CHR ''/'') rest
           in Some \<lparr>ul_protocol = ''https:'', ul_username = [], ul_password = [], ul_host = host,
                ul_hostname = toLowerCase host, ul_pathname = (if path = [] then ''/'' else path),
                ul_search = [], ul_hash = [], ul_origin = ''https://'' @ toLowerCase host\<rparr>
      else None)"

definition sample_web :: web where
  "sample_web = \<lparr>wb_URL = sample_URL,
     wb_zodUrl = (\<lambda>t. if sample_URL t = None then None else Some t)\<rparr>"

definition sample_operation :: operation where
  "sample_operation = GitCheckout ''https://git.example/o/r.git'' ''main'' ''repo''"

lemma sample_zod: "zod_stable sample_web"
  by (auto simp: zod_stable_def sample_web_def)

lemma sample_operation_parses:
  "parseExecutionOperation sample_web (operation_json sample_operation) = Some sample_operation"
  by code_simp

lemma operations_round_trip_witness:
  "parseExecutionOperation sample_web (operation_json sample_operation) = Some sample_operation"
  by (rule operations_round_trip [OF sample_zod sample_operation_parses])

subsection \<open>Workspace paths\<close>

text \<open>Walking a path from the workspace root; \<open>None\<close> where a segment leaves it.\<close>

fun walk :: "string list \<Rightarrow> string list \<Rightarrow> string list option" where
  "walk at [] = Some at"
| "walk at (seg # segs) =
     (if seg = [] \<or> seg = ''.'' then walk at segs
      else if seg = ''..'' then (case at of [] \<Rightarrow> None | _ # up \<Rightarrow> walk up segs)
      else walk (seg # at) segs)"

fun workspace_paths :: "operation \<Rightarrow> string list" where
  "workspace_paths (RunCommand _ _ p) = [p]"
| "workspace_paths (PlaywrightRun _ _ d) = (case d of None \<Rightarrow> [] | Some p \<Rightarrow> [p])"
| "workspace_paths oper = [path_of oper]"

lemma walk_inside:
  assumes "list_all (\<lambda>seg. seg \<noteq> ''..'' \<and> seg \<noteq> ''.git'') segs"
  shows "\<exists>at'. walk at segs = Some at' \<and> set at' \<subseteq> set at \<union> set segs"
  using assms
proof (induction segs arbitrary: at)
  case Nil
  then show ?case by simp
next
  case (Cons seg segs)
  then have tail: "list_all (\<lambda>seg. seg \<noteq> ''..'' \<and> seg \<noteq> ''.git'') segs" by simp
  show ?case
    using Cons.IH [OF tail, of at] Cons.IH [OF tail, of "seg # at"] Cons.prems
    by (cases "seg = [] \<or> seg = ''.''") auto
qed

lemma workspacePath_inside:
  assumes "workspacePath p"
  shows "\<exists>at. walk [] (splitOn CHR ''/'' p) = Some at \<and> ''.git'' \<notin> set at \<and> \<not> startsWith ''/'' p"
proof -
  from assms have segs: "list_all (\<lambda>seg. seg \<noteq> ''..'' \<and> seg \<noteq> ''.git'') (splitOn CHR ''/'' p)"
    by (simp add: workspacePath_def list_all_iff list_ex_iff)
  have "\<not> startsWith ''/'' p"
    using assms by (cases p) (auto simp: workspacePath_def startsWith_def path_segment_def)
  moreover obtain at where "walk [] (splitOn CHR ''/'' p) = Some at" "set at \<subseteq> set (splitOn CHR ''/'' p)"
    using walk_inside [OF segs, of "[]"] by auto
  ultimately show ?thesis using segs by (auto simp: list_all_iff)
qed

text \<open>
  C34. Operations stay inside the workspace: every path of an accepted operation is relative,
  and walking it from the workspace root never climbs above the root nor enters \<open>.git\<close>.
\<close>

theorem operations_stay_in_workspace:
  assumes "zod_stable wb" and "parseExecutionOperation wb v = Some oper" and "p \<in> set (workspace_paths oper)"
  shows "\<exists>at. walk [] (splitOn CHR ''/'' p) = Some at \<and> ''.git'' \<notin> set at \<and> \<not> startsWith ''/'' p"
proof (rule workspacePath_inside)
  show "workspacePath p"
    using parsed_valid [OF assms(1,2)] assms(3) by (cases oper) (auto split: option.splits)
qed

lemma operations_stay_in_workspace_witness:
  "\<exists>at. walk [] (splitOn CHR ''/'' ''repo'') = Some at \<and> ''.git'' \<notin> set at \<and> \<not> startsWith ''/'' ''repo''"
  by (rule operations_stay_in_workspace [OF sample_zod sample_operation_parses])
     (simp add: sample_operation_def)

subsection \<open>Hosts\<close>

text \<open>
  What \<open>new URL\<close> guarantees for the web's hierarchical schemes: a host has no slash, a path
  starts with one, the host (port included) fixes the host name whatever its case, and so does
  the origin of an http or https URL.
\<close>

definition hierarchical :: "url \<Rightarrow> bool" where
  "hierarchical u \<longleftrightarrow> ul_protocol u \<in> {''https:'', ''http:'', ''file:''}"

definition url_laws :: "web \<Rightarrow> bool" where
  "url_laws wb \<longleftrightarrow>
     (\<forall>t u. wb_URL wb t = Some u \<longrightarrow> CHR ''/'' \<notin> set (ul_protocol u) \<and>
        (hierarchical u \<longrightarrow> CHR ''/'' \<notin> set (ul_host u) \<and> startsWith ''/'' (ul_pathname u))) \<and>
     (\<forall>t u t' u'. wb_URL wb t = Some u \<longrightarrow> wb_URL wb t' = Some u' \<longrightarrow>
        hierarchical u \<longrightarrow> hierarchical u' \<longrightarrow> toLowerCase (ul_host u) = toLowerCase (ul_host u') \<longrightarrow>
        ul_hostname u = ul_hostname u') \<and>
     (\<forall>t u t' u'. wb_URL wb t = Some u \<longrightarrow> wb_URL wb t' = Some u' \<longrightarrow>
        ul_protocol u \<in> {''https:'', ''http:''} \<longrightarrow> ul_origin u = ul_origin u' \<longrightarrow>
        ul_hostname u = ul_hostname u')"

lemma lower_char_slash [simp]: "lower_char c = CHR ''/'' \<longleftrightarrow> c = CHR ''/''"
proof -
  have "char_of (char_code c + 32) \<noteq> CHR ''/''" if "is_upper c \<or> (192 \<le> char_code c \<and> char_code c \<le> 222)"
  proof
    assume "char_of (char_code c + 32) = CHR ''/''"
    then have "of_char (char_of (char_code c + 32)) = (47 :: nat)" by simp
    moreover have "char_code c + 32 < 256" using that by (auto simp: is_upper_def)
    ultimately show False using that by (auto simp: is_upper_def of_char_of)
  qed
  moreover have "\<not> is_upper (CHR ''/'')" by code_simp
  moreover have "\<not> 192 \<le> char_code (CHR ''/'')" by code_simp
  ultimately show ?thesis by (auto simp: lower_char_def)
qed

lemma slash_lower_char [simp]: "CHR ''/'' = lower_char c \<longleftrightarrow> c = CHR ''/''"
  using lower_char_slash [of c] by metis

lemma slash_toLowerCase [simp]: "CHR ''/'' \<in> set (toLowerCase t) \<longleftrightarrow> CHR ''/'' \<in> set t"
  by (simp add: toLowerCase_def image_iff)

lemma dropTrailing_take: "\<exists>n. dropTrailing c t = take n t"
  unfolding dropTrailing_def dropWhile_eq_drop by (metis length_rev rev_drop rev_rev_ident)

lemma dropSuffix_take: "\<exists>n. dropSuffix p t = take n t"
  unfolding dropSuffix_def by (metis append_Nil2 append_take_drop_id take_all_iff order_refl)

lemma stop_at_slash:
  assumes "startsWith ''/'' t"
  shows "takeWhile (\<lambda>c. c \<noteq> CHR ''/'') (h @ take n t) = takeWhile (\<lambda>c. c \<noteq> CHR ''/'') h"
proof (induction h)
  case Nil
  from assms show ?case by (cases t; cases n) (auto simp: startsWith_def)
qed simp

lemma takeWhile_no_slash: "CHR ''/'' \<notin> set h \<Longrightarrow> takeWhile (\<lambda>c. c \<noteq> CHR ''/'') h = h"
  by (auto simp: takeWhile_eq_all_conv)

text \<open>Two keys \<open>protocol//host/path\<close> are equal only if protocol and host are.\<close>

lemma key_parts:
  assumes key: "p @ ''//'' @ h @ take n t = p' @ ''//'' @ h' @ take n' t'"
    and p: "CHR ''/'' \<notin> set p" "CHR ''/'' \<notin> set p'"
    and rest: "p = p' \<Longrightarrow> CHR ''/'' \<notin> set h \<and> CHR ''/'' \<notin> set h' \<and> startsWith ''/'' t \<and> startsWith ''/'' t'"
  shows "p = p' \<and> h = h'"
proof -
  have "p = p' \<and> CHR ''/'' # h @ take n t = CHR ''/'' # h' @ take n' t'"
  proof -
    have "takeWhile (\<lambda>c. c \<noteq> CHR ''/'') (p @ CHR ''/'' # r) = p" if "CHR ''/'' \<notin> set p" for p r
      using that by (induction p) auto
    then have "p = p'" using key p by (metis append_Cons append_Nil)
    with key show ?thesis by simp
  qed
  then have "p = p'" and eq: "h @ take n t = h' @ take n' t'" by auto
  note slash = rest [OF \<open>p = p'\<close>]
  have "takeWhile (\<lambda>c. c \<noteq> CHR ''/'') (h @ take n t) = takeWhile (\<lambda>c. c \<noteq> CHR ''/'') (h' @ take n' t')"
    using eq by simp
  then have "h = h'"
    using slash by (simp add: stop_at_slash takeWhile_no_slash)
  with \<open>p = p'\<close> show ?thesis ..
qed

lemma url_key_hostname:
  assumes laws: "url_laws wb" and u: "wb_URL wb a = Some u" and v: "wb_URL wb b = Some v"
    and "hierarchical u"
    and key: "ul_protocol u @ ''//'' @ toLowerCase (ul_host u) @ take n (ul_pathname u) =
      ul_protocol v @ ''//'' @ toLowerCase (ul_host v) @ take m (ul_pathname v)"
  shows "ul_hostname u = ul_hostname v"
proof -
  have law: "wb_URL wb t = Some w \<Longrightarrow> CHR ''/'' \<notin> set (ul_protocol w)"
    "wb_URL wb t = Some w \<Longrightarrow> hierarchical w \<Longrightarrow> CHR ''/'' \<notin> set (ul_host w) \<and> startsWith ''/'' (ul_pathname w)"
    for t w
    using laws unfolding url_laws_def by blast+
  have "ul_protocol u = ul_protocol v \<and> toLowerCase (ul_host u) = toLowerCase (ul_host v)"
  proof (rule key_parts [OF key law(1) [OF u] law(1) [OF v]])
    assume "ul_protocol u = ul_protocol v"
    with assms(4) have "hierarchical v" by (simp add: hierarchical_def)
    with law(2) [OF u assms(4)] law(2) [OF v]
    show "CHR ''/'' \<notin> set (toLowerCase (ul_host u)) \<and> CHR ''/'' \<notin> set (toLowerCase (ul_host v)) \<and>
        startsWith ''/'' (ul_pathname u) \<and> startsWith ''/'' (ul_pathname v)"
      by simp
  qed
  with assms(4) have "toLowerCase (ul_host u) = toLowerCase (ul_host v)" "hierarchical v"
    by (simp_all add: hierarchical_def)
  with laws u v assms(4) show ?thesis unfolding url_laws_def by blast
qed

definition configured_hosts :: "web \<Rightarrow> configuration \<Rightarrow> string set" where
  "configured_hosts wb configuration =
     {ul_hostname u |u k t. k \<in> {''repositoryUrl'', ''packageRegistryUrl'', ''qaUrl''} \<and>
        config_text configuration k = Some t \<and> wb_URL wb t = Some u}"

lemma configured_hostsI:
  "host_of wb a = Some hs \<Longrightarrow> wb_URL wb a = Some u \<Longrightarrow> ul_hostname u = ul_hostname v \<Longrightarrow>
   config_text configuration k = Some t \<Longrightarrow> wb_URL wb t = Some v \<Longrightarrow>
   k \<in> {''repositoryUrl'', ''packageRegistryUrl'', ''qaUrl''} \<Longrightarrow>
   set hs \<subseteq> configured_hosts wb configuration"
  unfolding configured_hosts_def host_of_def by fastforce

lemma safe_url_parses:
  "safe_url wb ps t = Some u \<Longrightarrow> \<exists>v. wb_URL wb u = Some v \<and> ul_protocol v \<in> set ps"
  by (auto simp: safe_url_def split: option.splits)

lemma checkout_host_configured:
  assumes "url_laws wb" and "safe_url wb [''https:'', ''file:''] u = Some u"
    and "config_text configuration ''repositoryUrl'' = Some v" and "sameRepository wb u v"
    and "host_of wb u = Some hs"
  shows "set hs \<subseteq> configured_hosts wb configuration"
proof -
  from safe_url_parses [OF assms(2)] obtain x where x: "wb_URL wb u = Some x"
    "ul_protocol x = ''https:'' \<or> ul_protocol x = ''file:''"
    by auto
  from assms(4) x obtain y where y: "wb_URL wb v = Some y"
    and key: "repository_key wb u = repository_key wb v"
    by (cases "wb_URL wb v") (auto simp: sameRepository_def repository_key_def)
  from dropTrailing_take dropSuffix_take obtain n m where
    "dropSuffix ''.git'' (dropTrailing CHR ''/'' (ul_pathname x)) = take n (ul_pathname x)"
    "dropSuffix ''.git'' (dropTrailing CHR ''/'' (ul_pathname y)) = take m (ul_pathname y)"
    by (metis take_take)
  with key x y have "ul_hostname x = ul_hostname y"
    by (intro url_key_hostname [OF assms(1) x(1) y, of n m])
       (auto simp: hierarchical_def repository_key_def)
  then show ?thesis by (rule configured_hostsI [OF assms(5) x(1) _ assms(3) y]) simp
qed

lemma install_host_configured:
  assumes "url_laws wb" and "safe_url wb [''https:'', ''http:''] u = Some u"
    and "registryKey wb (config_text configuration ''packageRegistryUrl'') = Some k"
    and "registryKey wb (Some u) = Some k" and "host_of wb u = Some hs"
  shows "set hs \<subseteq> configured_hosts wb configuration"
proof -
  from safe_url_parses [OF assms(2)] obtain x where x: "wb_URL wb u = Some x"
    "ul_protocol x = ''https:'' \<or> ul_protocol x = ''http:''"
    by auto
  from assms(3) obtain v y where v: "config_text configuration ''packageRegistryUrl'' = Some v"
    and y: "wb_URL wb v = Some y"
    and k: "k = ul_protocol y @ ''//'' @ toLowerCase (ul_host y) @ dropTrailing CHR ''/'' (ul_pathname y)"
    by (auto simp: registryKey_def split: option.splits if_splits)
  from assms(4) x(1) have
    k': "k = ul_protocol x @ ''//'' @ toLowerCase (ul_host x) @ dropTrailing CHR ''/'' (ul_pathname x)"
    by (auto simp: registryKey_def split: option.splits if_splits)
  from dropTrailing_take obtain n m where
    "dropTrailing CHR ''/'' (ul_pathname x) = take n (ul_pathname x)"
    "dropTrailing CHR ''/'' (ul_pathname y) = take m (ul_pathname y)"
    by metis
  with k k' x y have "ul_hostname x = ul_hostname y"
    by (intro url_key_hostname [OF assms(1) x(1) y, of n m]) (auto simp: hierarchical_def)
  then show ?thesis by (rule configured_hostsI [OF assms(5) x(1) _ v y]) simp
qed

lemma playwright_host_configured:
  assumes "url_laws wb" and "safe_url wb [''https:'', ''http:''] u = Some u"
    and "origin_of wb (Some u) = origin_of wb (config_text configuration ''qaUrl'')"
    and "origin_of wb (Some u) \<noteq> None" and "host_of wb u = Some hs"
  shows "set hs \<subseteq> configured_hosts wb configuration"
proof -
  from safe_url_parses [OF assms(2)] obtain x where x: "wb_URL wb u = Some x"
    "ul_protocol x = ''https:'' \<or> ul_protocol x = ''http:''"
    by auto
  from assms(3,4) x obtain v y where v: "config_text configuration ''qaUrl'' = Some v"
    and y: "wb_URL wb v = Some y" and "ul_origin x = ul_origin y"
    by (auto simp: origin_of_def split: option.splits if_splits)
  with assms(1) x y have "ul_hostname x = ul_hostname y"
    unfolding url_laws_def by blast
  then show ?thesis by (rule configured_hostsI [OF assms(5) x(1) _ v y]) simp
qed

text \<open>
  A granted operation reaches only configured hosts: an operation that is in the scope of
  an execution action needs no host but those of the URLs in the agent's signed configuration.
\<close>

theorem granted_hosts_are_configured:
  assumes "url_laws wb" and "zod_stable wb" and "parseExecutionOperation wb v = Some oper"
    and "operation_kind oper \<in> set (xa_operations x)" and "xa_inScope wb x oper configuration"
    and "xa_hosts wb x oper = Some hosts"
  shows "set hosts \<subseteq> configured_hosts wb configuration"
proof -
  note valid = parsed_valid [OF assms(2,3)]
  show ?thesis
  proof (cases x)
    case RepositoryRead
    show ?thesis
    proof (cases "\<exists>u r p. oper = GitCheckout u r p \<and> startsWith ''https:'' u")
      case True
      then obtain u r p where "oper = GitCheckout u r p" "startsWith ''https:'' u" by blast
      with RepositoryRead assms(5,6) valid show ?thesis
        by (auto simp: xa_inScope_def xa_hosts_def simp del: subset_iff split: option.splits
            intro: checkout_host_configured [OF assms(1), THEN subsetD])
    next
      case False
      with RepositoryRead assms(6) show ?thesis
        by (cases oper) (auto simp: xa_hosts_def split: if_splits)
    qed
  next
    case DependenciesInstallAction
    with assms(4) obtain p u where "oper = DependenciesInstall p u" by (cases oper) auto
    with DependenciesInstallAction assms(5,6) valid show ?thesis
      by (auto simp: xa_inScope_def xa_hosts_def split: option.splits
          intro: install_host_configured [OF assms(1), THEN subsetD])
  next
    case PlaywrightRunAction
    with assms(4) obtain p u d where oper: "oper = PlaywrightRun p u d" by (cases oper) auto
    with PlaywrightRunAction assms(5,6) valid show ?thesis
      by (intro playwright_host_configured [OF assms(1), of u]) (auto simp: xa_inScope_def xa_hosts_def, metis)
  qed (use assms(6) in \<open>auto simp: xa_hosts_def\<close>)
qed

lemma sample_URL_parts:
  assumes "sample_URL t = Some u"
  shows "ul_protocol u = ''https:'' \<and> ul_hostname u = toLowerCase (ul_host u) \<and>
     ul_origin u = ''https://'' @ ul_hostname u \<and> CHR ''/'' \<notin> set (ul_host u) \<and>
     startsWith ''/'' (ul_pathname u)"
proof -
  have path: "r \<noteq> [] \<Longrightarrow> startsWith ''/'' r" if "r = dropWhile (\<lambda>c. c \<noteq> CHR ''/'') q" for r q
    unfolding that by (induction q) (auto simp: startsWith_def)
  have root: "startsWith ''/'' ''/''" by (simp add: startsWith_def)
  have host: "CHR ''/'' \<notin> set (takeWhile (\<lambda>c. c \<noteq> CHR ''/'') q)" for q
    by (auto dest: set_takeWhileD)
  from assms have "startsWith ''https://'' t" by (simp add: sample_URL_def split: if_splits)
  with assms show ?thesis
    using host [of "drop 8 t"] path [OF refl, of "drop 8 t"] root
    by (auto simp: sample_URL_def Let_def)
qed

lemma sample_laws: "url_laws sample_web"
proof -
  have "CHR ''/'' \<notin> set ''https:''" by simp
  then show ?thesis
    unfolding url_laws_def sample_web_def
    by (simp add: sample_URL_parts)
qed

lemma granted_hosts_are_configured_witness:
  "set [''git.example''] \<subseteq> configured_hosts sample_web
     [(''repositoryUrl'', ConfigText ''https://Git.Example/o/r'')]"
  by (rule granted_hosts_are_configured [OF sample_laws sample_zod sample_operation_parses, of RepositoryRead];
      code_simp)

end
