(* ===== verification/ActionRegistry.thy ===== *)
theory ActionRegistry
  imports ExecutionOperations
begin

text \<open>
  The governed actions the control plane executes itself through a connector
  (\<open>actions/action-registry.ts\<close>): their parameter schemas, targets, scope checks and the
  summaries approvers read. The connectors' HTTP calls are a parameter of the gateway.
\<close>

section \<open>Data\<close>

record changed_file =
  cf_path :: string
  cf_content :: string

record change_set =
  ch_digest :: string
  ch_files :: "changed_file list"

record connector_settings =
  cs_authEmail :: "string option"
  cs_allowedProjects :: "string list"
  cs_allowedRepositories :: "string list option"

datatype provider = Jira | GitHub

datatype effect = ReadEffect | WriteEffect

datatype ctl_action = JiraIssueCreate | JiraRead | PullRequestCreate

record issue_draft =
  id_projectKey :: string
  id_summary :: string
  id_description :: string
  id_issueType :: string

record pull_request =
  pr_repository :: string
  pr_baseBranch :: string
  pr_headBranch :: string
  pr_title :: string
  pr_body :: string
  pr_path :: string

datatype ctl_parameters =
    IssueDraft issue_draft
  | IssueReference string
  | PullRequest pull_request

fun ca_action :: "ctl_action \<Rightarrow> string" where
  "ca_action JiraIssueCreate = ''jira.issue.create''"
| "ca_action JiraRead = ''jira.read''"
| "ca_action PullRequestCreate = ''repository.pull_request.create''"

fun ca_effect :: "ctl_action \<Rightarrow> effect" where
  "ca_effect JiraIssueCreate = WriteEffect"
| "ca_effect JiraRead = ReadEffect"
| "ca_effect PullRequestCreate = WriteEffect"

fun ca_connectorProvider :: "ctl_action \<Rightarrow> provider" where
  "ca_connectorProvider JiraIssueCreate = Jira"
| "ca_connectorProvider JiraRead = Jira"
| "ca_connectorProvider PullRequestCreate = GitHub"

fun provider_name :: "provider \<Rightarrow> string" where
  "provider_name Jira = ''jira''"
| "provider_name GitHub = ''github''"

fun ca_requiredCapability :: "ctl_action \<Rightarrow> string" where
  "ca_requiredCapability JiraIssueCreate = ''issueTracker.write''"
| "ca_requiredCapability JiraRead = ''issueTracker.read''"
| "ca_requiredCapability PullRequestCreate = ''sourceControl.write''"

definition controlPlaneActions :: "ctl_action list" where
  "controlPlaneActions = [JiraIssueCreate, JiraRead, PullRequestCreate]"

definition controlPlaneAction :: "string \<Rightarrow> ctl_action option" where
  "controlPlaneAction action = find (\<lambda>h. ca_action h = action) controlPlaneActions"

section \<open>Parameter schemas\<close>

definition nonBlank :: "int \<Rightarrow> string \<Rightarrow> bool" where
  "nonBlank n t \<longleftrightarrow> int (length t) \<le> n \<and> trim t \<noteq> []"

definition oneLine :: "int \<Rightarrow> string \<Rightarrow> bool" where
  "oneLine n t \<longleftrightarrow> nonBlank n t \<and> CHR 10 \<notin> set t \<and> CHR 13 \<notin> set t"

definition project_key :: "string \<Rightarrow> bool" where
  "project_key t \<longleftrightarrow> 2 \<le> length t \<and> length t \<le> 10 \<and> is_upper (hd t) \<and>
     list_all (\<lambda>c. is_upper c \<or> is_digit c) t"

definition issue_number :: "string \<Rightarrow> bool" where
  "issue_number t \<longleftrightarrow> 1 \<le> length t \<and> length t \<le> 9 \<and> list_all is_digit t \<and> hd t \<noteq> CHR ''0''"

definition issue_key :: "string \<Rightarrow> bool" where
  "issue_key t \<longleftrightarrow> (case splitOn CHR ''-'' t of [p, n] \<Rightarrow> project_key p \<and> issue_number n | _ \<Rightarrow> False)"

definition repository_name :: "string \<Rightarrow> bool" where
  "repository_name t \<longleftrightarrow>
     (case splitOn CHR ''/'' t of
        [owner, name] \<Rightarrow>
          owner \<noteq> [] \<and> length owner \<le> 39 \<and> is_alnum (hd owner) \<and>
          list_all (\<lambda>c. is_alnum c \<or> c = CHR ''-'') owner \<and>
          1 \<le> length name \<and> length name \<le> 100 \<and> list_all (\<lambda>c. is_alnum c \<or> c \<in> set ''._-'') name
      | _ \<Rightarrow> False)"

definition branch_name :: "string \<Rightarrow> bool" where
  "branch_name t \<longleftrightarrow> 1 \<le> length t \<and> length t \<le> 200 \<and>
     list_all (\<lambda>c. is_alnum c \<or> c \<in> set ''._/-'') t \<and>
     \<not> startsWith ''-'' t \<and> \<not> contains ''..'' t \<and> \<not> contains ''//'' t \<and>
     \<not> endsWith ''/'' t \<and> \<not> endsWith ''.lock'' t"

definition head_branch :: "string \<Rightarrow> bool" where
  "head_branch t \<longleftrightarrow> startsWith ''agents-foundry/'' t \<and>
     (let n = drop 15 t in n \<noteq> [] \<and> length n \<le> 80 \<and> (is_lower (hd n) \<or> is_digit (hd n)) \<and>
        list_all (\<lambda>c. is_lower c \<or> is_digit c \<or> c \<in> set ''._-'') n)"

definition checkout_directory :: "string \<Rightarrow> bool" where
  "checkout_directory t \<longleftrightarrow> t \<noteq> [] \<and> length t \<le> 100 \<and> (is_alnum (hd t) \<or> hd t = CHR ''_'') \<and>
     list_all (\<lambda>c. is_alnum c \<or> c \<in> set ''._-'') t"

definition parse_issue_draft :: "json \<Rightarrow> ctl_parameters option" where
  "parse_issue_draft v =
     (if strict [''projectKey'', ''summary'', ''description'', ''issueType''] v then
        (case (filtered project_key (text_field ''projectKey'' v),
               filtered (oneLine 255) (text_field ''summary'' v),
               filtered (nonBlank 20000) (text_field ''description'' v),
               filtered (\<lambda>t. t \<in> {''Bug'', ''Task'', ''Story''}) (text_field ''issueType'' v)) of
           (Some k, Some s, Some d, Some t) \<Rightarrow>
             Some (IssueDraft \<lparr>id_projectKey = k, id_summary = s, id_description = d, id_issueType = t\<rparr>)
         | _ \<Rightarrow> None)
      else None)"

definition parse_pull_request :: "json \<Rightarrow> ctl_parameters option" where
  "parse_pull_request v =
     (if strict [''repository'', ''baseBranch'', ''headBranch'', ''title'', ''body'', ''path''] v then
        (case (filtered repository_name (text_field ''repository'' v),
               filtered branch_name (text_field ''baseBranch'' v),
               filtered head_branch (text_field ''headBranch'' v),
               filtered (oneLine 200) (text_field ''title'' v),
               filtered (\<lambda>t. int (length t) \<le> 20000) (text_field ''body'' v),
               filtered checkout_directory (text_field ''path'' v)) of
           (Some r, Some b, Some h, Some t, Some d, Some p) \<Rightarrow>
             Some (PullRequest \<lparr>pr_repository = r, pr_baseBranch = b, pr_headBranch = h, pr_title = t,
               pr_body = d, pr_path = p\<rparr>)
         | _ \<Rightarrow> None)
      else None)"

text \<open>\<open>handler.parameters.safeParse\<close>.\<close>

definition ca_parameters :: "ctl_action \<Rightarrow> json \<Rightarrow> ctl_parameters option" where
  "ca_parameters h v =
     (case h of
        JiraIssueCreate \<Rightarrow> parse_issue_draft v
      | JiraRead \<Rightarrow>
          (if strict [''issueKey''] v
           then map_option IssueReference (filtered issue_key (text_field ''issueKey'' v)) else None)
      | PullRequestCreate \<Rightarrow> parse_pull_request v)"

section \<open>Targets, scope and summaries\<close>

fun ca_resource :: "ctl_parameters \<Rightarrow> string \<times> string" where
  "ca_resource (IssueDraft d) = (''issue-tracker.project'', id_projectKey d)"
| "ca_resource (IssueReference k) = (''issue-tracker.issue'', k)"
| "ca_resource (PullRequest p) = (''repository'', pr_repository p)"

text \<open>The configured repository URL names this \<open>owner/name\<close> (any host; the connection fixes it).\<close>

definition configuredRepository :: "web \<Rightarrow> configuration \<Rightarrow> string \<Rightarrow> bool" where
  "configuredRepository wb configuration repository =
     (case Option.bind (config_text configuration ''repositoryUrl'') (wb_URL wb) of
        None \<Rightarrow> False
      | Some u \<Rightarrow>
          toLowerCase (dropSuffix ''.git'' (dropTrailing CHR ''/'' (ul_pathname u))) =
          CHR ''/'' # toLowerCase repository)"

fun ca_inScope :: "web \<Rightarrow> ctl_parameters \<Rightarrow> connector_settings \<Rightarrow> configuration \<Rightarrow> bool" where
  "ca_inScope wb (IssueDraft d) settings configuration \<longleftrightarrow>
     id_projectKey d \<in> set (cs_allowedProjects settings)"
| "ca_inScope wb (IssueReference k) settings configuration \<longleftrightarrow>
     hd (splitOn CHR ''-'' k) \<in> set (cs_allowedProjects settings)"
| "ca_inScope wb (PullRequest p) settings configuration \<longleftrightarrow>
     list_ex (\<lambda>allowed. toLowerCase allowed = toLowerCase (pr_repository p))
       (case cs_allowedRepositories settings of None \<Rightarrow> [] | Some rs \<Rightarrow> rs) \<and>
     configuredRepository wb configuration (pr_repository p)"

fun ca_changeSetDirectory :: "ctl_parameters \<Rightarrow> string option" where
  "ca_changeSetDirectory (PullRequest p) = Some (pr_path p)"
| "ca_changeSetDirectory _ = None"

text \<open>The ellipsis of a shortened list, which is outside the model's characters.\<close>

definition ellipsis :: string where
  "ellipsis = [CHR 133]"

fun ca_summary :: "ctl_parameters \<Rightarrow> change_set option \<Rightarrow> string" where
  "ca_summary (IssueDraft d) changes =
     take 500 (''Create Jira '' @ toLowerCase (id_issueType d) @ '' in '' @ id_projectKey d @ '': '' @ id_summary d)"
| "ca_summary (IssueReference k) changes = ''Read Jira issue '' @ k"
| "ca_summary (PullRequest p) changes =
     (let files = (case changes of None \<Rightarrow> [] | Some c \<Rightarrow> map cf_path (ch_files c));
          listed = joinWith '', '' (take 10 files) @ (if length files > 10 then '', '' @ ellipsis else [])
      in take 500 (''Open a draft pull request in '' @ pr_repository p @ '' from '' @ pr_headBranch p @
           '' into '' @ pr_baseBranch p @ '': '' @ [CHR 34] @ pr_title p @ [CHR 34] @ ''. '' @
           digits (length files) @ '' file(s): '' @ listed @ ''. Change set '' @
           (case changes of None \<Rightarrow> ''none'' | Some c \<Rightarrow> take 12 (ch_digest c)) @ ''.''))"

text \<open>What the audit log keeps of a successful result.\<close>

definition ca_auditResult :: "ctl_action \<Rightarrow> (string \<times> string) list \<Rightarrow> (string \<times> string) list" where
  "ca_auditResult h result =
     (case h of
        JiraRead \<Rightarrow>
          [(''issueKey'', case map_of result ''issueKey'' of None \<Rightarrow> [] | Some k \<Rightarrow> k)]
      | _ \<Rightarrow> result)"

section \<open>Correctness\<close>

text \<open>Each governed action has one executor: the control plane or an execution runtime.\<close>

lemma one_executor: "controlPlaneAction a = Some h \<Longrightarrow> executionAction a = None"
proof -
  have "\<forall>h \<in> set controlPlaneActions. executionAction (ca_action h) = None" by code_simp
  then show "controlPlaneAction a = Some h \<Longrightarrow> executionAction a = None"
    unfolding controlPlaneAction_def by (drule_tac find_Some_set) auto
qed

lemma controlPlaneAction_name: "controlPlaneAction a = Some h \<Longrightarrow> ca_action h = a"
  unfolding controlPlaneAction_def by (drule find_Some_set) simp

end
