(* ===== verification/ActionStore.thy ===== *)
theory ActionStore
  imports ExecutionService ActionRegistry
begin

text \<open>
  The tables of governed actions (\<open>db/migrations/0001-baseline.ts\<close>, \<open>0015-action-reconciliation.ts\<close>):
  requests, executions, grants, reconciliations, policy overrides, connector connections and the
  audit log, with their constraints and triggers; the statement that writes an audit event
  (\<open>database.ts\<close>), the administrator check (\<open>organization/structure-service.ts\<close>) and the read of
  the active connection (\<open>actions/connector-service.ts\<close>).
\<close>

section \<open>Rows\<close>

datatype action_decision = ALLOWED | DENIED | APPROVAL_REQUIRED

record action_request =
  rq_id :: string
  rq_organizationId :: string
  rq_runId :: string
  rq_stepId :: string
  rq_runtimeId :: string
  rq_action :: string
  rq_toolId :: string
  rq_requestHash :: string
  rq_decision :: action_decision
  rq_risk :: risk
  rq_reason :: string
  rq_approvalId :: "string option"
  rq_createdAt :: int
  rq_parameters :: "json option"
  rq_policyId :: "string option"
  rq_policyVersion :: "string option"
  rq_changeSet :: "change_set option"

datatype execution_status = DISPATCHING | SUCCEEDED | ExFAILED

record execution_row =
  xr_requestId :: string
  xr_organizationId :: string
  xr_runId :: string
  xr_connectionId :: "string option"
  xr_status :: execution_status
  xr_result :: "(string \<times> string) list option"
  xr_errorCode :: "string option"
  xr_startedAt :: int
  xr_completedAt :: "int option"

datatype isolation = Sandboxed | Local

record resource_limits =
  lm_timeoutMs :: int
  lm_cpuMillis :: int
  lm_memoryMb :: int
  lm_maxProcesses :: int
  lm_allowedHosts :: "string list"

text \<open>The network is \<open>ALLOW_LIST\<close> exactly when hosts are listed.\<close>

record step_correlation =
  gc_organizationId :: string
  gc_employeeId :: string
  gc_agentId :: string
  gc_threadId :: string
  gc_runId :: string
  gc_stepId :: string
  gc_toolCallId :: string

record grant_credential =
  gk_leaseId :: string
  gk_provider :: string
  gk_gitHost :: string

record grant_payload =
  gp_grantId :: string
  gp_requestId :: string
  gp_action :: string
  gp_correlation :: step_correlation
  gp_operationKind :: string
  gp_operationDigest :: string
  gp_isolation :: isolation
  gp_limits :: resource_limits
  gp_credential :: "grant_credential option"
  gp_issuedAt :: int
  gp_expiresAt :: int

record signed_grant =
  sg_payload :: grant_payload
  sg_signature :: string

record grant_row =
  gr_grantId :: string
  gr_requestId :: string
  gr_organizationId :: string
  gr_runId :: string
  gr_operationKind :: string
  gr_signedGrant :: signed_grant
  gr_issuedAt :: int
  gr_expiresAt :: int

datatype reconciliation_reason = OUTCOME_UNKNOWN | INTERRUPTED

datatype reconciliation_state = REQUIRED | APPLIED | NOT_APPLIED

record reconciliation_row =
  rc_requestId :: string
  rc_organizationId :: string
  rc_threadId :: string
  rc_runId :: string
  rc_action :: string
  rc_payloadDigest :: string
  rc_reason :: reconciliation_reason
  rc_state :: reconciliation_state
  rc_createdAt :: int
  rc_resolvedBy :: "string option"
  rc_resolvedAt :: "int option"
  rc_note :: "string option"

record policy_row =
  po_organizationId :: string
  po_action :: string
  po_outcome :: outcome
  po_reason :: string
  po_updatedBy :: string
  po_updatedAt :: int

record connection_row =
  cn_id :: string
  cn_organizationId :: string
  cn_provider :: provider
  cn_name :: string
  cn_baseUrl :: string
  cn_secretRef :: string
  cn_settings :: connector_settings
  cn_active :: bool
  cn_version :: nat
  cn_createdAt :: int
  cn_updatedAt :: int

record audit_row =
  au_id :: string
  au_organizationId :: string
  au_actorId :: string
  au_eventType :: string
  au_resourceType :: string
  au_resourceId :: string
  au_metadata :: json
  au_createdAt :: int

text \<open>What the administrator check reads of employees, memberships, users and organizations.\<close>

record employee_row =
  em_id :: string
  em_organizationId :: string
  em_userId :: string
  em_active :: bool

record membership_row =
  mb_organizationId :: string
  mb_userId :: string
  mb_employeeId :: string
  mb_role :: user_role
  mb_active :: bool

record action_db = exec_db +
  ac_requests :: "action_request list"
  ac_executions :: "execution_row list"
  ac_grants :: "grant_row list"
  ac_reconciliations :: "reconciliation_row list"
  ac_policies :: "policy_row list"
  ac_connections :: "connection_row list"
  ac_audit :: "audit_row list"
  ac_employees :: "employee_row list"
  ac_memberships :: "membership_row list"
  ac_activeUsers :: "string list"
  ac_activeOrganizations :: "string list"

interpretation requests: table ac_requests ac_requests_update
  by unfold_locales simp_all

interpretation executions: table ac_executions ac_executions_update
  by unfold_locales simp_all

interpretation grants: table ac_grants ac_grants_update
  by unfold_locales simp_all

interpretation reconciliations: table ac_reconciliations ac_reconciliations_update
  by unfold_locales simp_all

interpretation policies: table ac_policies ac_policies_update
  by unfold_locales simp_all

interpretation audits: table ac_audit ac_audit_update
  by unfold_locales simp_all

section \<open>Constraints and triggers\<close>

definition run_exists :: "'z action_db_scheme \<Rightarrow> string \<Rightarrow> string \<Rightarrow> bool" where
  "run_exists s org i \<longleftrightarrow> (\<exists>r \<in> set (ex_runs s). rn_id r = i \<and> rn_organizationId r = org)"

definition request_checks :: "'z action_db_scheme \<Rightarrow> action_request \<Rightarrow> failure option" where
  "request_checks s q = insist
     [(length (rq_requestHash q) = 64, Constraint CHECK ''agent_action_requests_request_hash_check''),
      ((rq_decision q = APPROVAL_REQUIRED) = (rq_approvalId q \<noteq> None),
       Constraint CHECK ''agent_action_requests_check''),
      (rq_id q \<notin> rq_id ` set (ac_requests s), Constraint UNIQUE ''agent_action_requests_pkey''),
      (case rq_approvalId q of None \<Rightarrow> True | Some a \<Rightarrow> a \<in> ap_id ` set (ex_approvals s),
       Constraint FOREIGN_KEY ''agent_action_requests_approval_id_fkey''),
      (run_exists s (rq_organizationId q) (rq_runId q),
       Constraint FOREIGN_KEY ''agent_action_requests_organization_id_run_id_fkey''),
      (\<exists>t \<in> set (ex_steps s). st_id t = rq_stepId q \<and> st_organizationId t = rq_organizationId q,
       Constraint FOREIGN_KEY ''agent_action_requests_organization_id_step_id_fkey'')]"

definition execution_checks :: "'z action_db_scheme \<Rightarrow> execution_row \<Rightarrow> failure option" where
  "execution_checks s x = insist
     [(xr_requestId x \<notin> xr_requestId ` set (ac_executions s),
       Constraint UNIQUE ''agent_action_executions_pkey''),
      (xr_requestId x \<in> rq_id ` set (ac_requests s),
       Constraint FOREIGN_KEY ''agent_action_executions_request_id_fkey''),
      (run_exists s (xr_organizationId x) (xr_runId x),
       Constraint FOREIGN_KEY ''agent_action_executions_organization_id_run_id_fkey''),
      (case xr_connectionId x of
         None \<Rightarrow> True
       | Some i \<Rightarrow> \<exists>c \<in> set (ac_connections s). cn_id c = i \<and> cn_organizationId c = xr_organizationId x,
       Constraint FOREIGN_KEY ''agent_action_executions_organization_id_connection_id_fkey'')]"

definition execution_update_checks :: "'z action_db_scheme \<Rightarrow> execution_row \<Rightarrow> execution_row \<Rightarrow> failure option" where
  "execution_update_checks s x x' = insist
     [(xr_status x = DISPATCHING \<and> xr_status x' \<in> {SUCCEEDED, ExFAILED} \<and>
       xr_requestId x' = xr_requestId x \<and> xr_organizationId x' = xr_organizationId x \<and>
       xr_runId x' = xr_runId x \<and> xr_connectionId x' = xr_connectionId x \<and>
       xr_startedAt x' = xr_startedAt x,
       Trigger ''ACTION_EXECUTION_FINAL'')]"

definition grant_checks :: "'z action_db_scheme \<Rightarrow> grant_row \<Rightarrow> failure option" where
  "grant_checks s g = insist
     [(gr_grantId g \<notin> gr_grantId ` set (ac_grants s), Constraint UNIQUE ''agent_execution_grants_pkey''),
      (gr_requestId g \<notin> gr_requestId ` set (ac_grants s),
       Constraint UNIQUE ''agent_execution_grants_request_id_key''),
      (gr_requestId g \<in> rq_id ` set (ac_requests s),
       Constraint FOREIGN_KEY ''agent_execution_grants_request_id_fkey''),
      (run_exists s (gr_organizationId g) (gr_runId g),
       Constraint FOREIGN_KEY ''agent_execution_grants_organization_id_run_id_fkey'')]"

text \<open>\<open>^[a-z][a-z0-9_.]+$\<close> and \<open>^[a-f0-9]{64}$\<close>.\<close>

definition action_name :: "string \<Rightarrow> bool" where
  "action_name t \<longleftrightarrow> 2 \<le> length t \<and> length t \<le> 120 \<and> is_lower (hd t) \<and>
     list_all (\<lambda>c. is_lower c \<or> is_digit c \<or> c \<in> set ''_.'') t"

definition sha256_hex :: "string \<Rightarrow> bool" where
  "sha256_hex t \<longleftrightarrow> length t = 64 \<and> list_all (\<lambda>c. is_digit c \<or> c \<in> set ''abcdef'') t"

definition reconciliation_valid :: "reconciliation_row \<Rightarrow> failure option" where
  "reconciliation_valid c = insist
     [(action_name (rc_action c), Constraint CHECK ''agent_action_reconciliations_action_check''),
      (sha256_hex (rc_payloadDigest c), Constraint CHECK ''agent_action_reconciliations_payload_digest_check''),
      (case rc_note c of None \<Rightarrow> True | Some n \<Rightarrow> length n \<le> 500,
       Constraint CHECK ''agent_action_reconciliations_note_check''),
      ((rc_state c = REQUIRED) = (rc_resolvedAt c = None), Constraint CHECK ''agent_action_reconciliations_check''),
      ((rc_resolvedAt c = None) = (rc_resolvedBy c = None),
       Constraint CHECK ''agent_action_reconciliations_check1'')]"

definition resolver_exists :: "'z action_db_scheme \<Rightarrow> reconciliation_row \<Rightarrow> bool" where
  "resolver_exists s c \<longleftrightarrow>
     (case rc_resolvedBy c of
        None \<Rightarrow> True
      | Some i \<Rightarrow> \<exists>e \<in> set (ac_employees s). em_id e = i \<and> em_organizationId e = rc_organizationId c)"

definition reconciliation_checks :: "'z action_db_scheme \<Rightarrow> reconciliation_row \<Rightarrow> failure option" where
  "reconciliation_checks s c = insist
     [(rc_requestId c \<in> xr_requestId ` set (ac_executions s),
       Constraint FOREIGN_KEY ''agent_action_reconciliations_request_id_fkey''),
      (run_exists s (rc_organizationId c) (rc_runId c),
       Constraint FOREIGN_KEY ''agent_action_reconciliations_organization_id_run_id_fkey''),
      (\<exists>t \<in> set (ex_threads s). th_id t = rc_threadId c \<and> th_organizationId t = rc_organizationId c,
       Constraint FOREIGN_KEY ''agent_action_reconciliations_organization_id_thread_id_fkey''),
      (resolver_exists s c,
       Constraint FOREIGN_KEY ''agent_action_reconciliations_organization_id_resolved_by_fkey'')]"

definition reconciliation_update_checks ::
  "'z action_db_scheme \<Rightarrow> reconciliation_row \<Rightarrow> reconciliation_row \<Rightarrow> failure option" where
  "reconciliation_update_checks s c c' = insist
     [(rc_state c = REQUIRED \<and> rc_state c' \<in> {APPLIED, NOT_APPLIED} \<and>
       rc_requestId c' = rc_requestId c \<and> rc_organizationId c' = rc_organizationId c \<and>
       rc_threadId c' = rc_threadId c \<and> rc_runId c' = rc_runId c \<and> rc_action c' = rc_action c \<and>
       rc_payloadDigest c' = rc_payloadDigest c \<and> rc_reason c' = rc_reason c \<and>
       rc_createdAt c' = rc_createdAt c,
       Trigger ''ACTION_RECONCILIATION_FINAL''),
      (reconciliation_valid c' = None, Constraint CHECK ''agent_action_reconciliations_check''),
      (resolver_exists s c',
       Constraint FOREIGN_KEY ''agent_action_reconciliations_organization_id_resolved_by_fkey'')]"

definition policy_valid :: "'z action_db_scheme \<Rightarrow> policy_row \<Rightarrow> failure option" where
  "policy_valid s p = insist
     [(3 \<le> length (po_action p) \<and> length (po_action p) \<le> 120,
       Constraint CHECK ''organization_action_policies_action_check''),
      (po_outcome p \<in> {REQUIRE_APPROVAL, DENY}, Constraint CHECK ''organization_action_policies_outcome_check''),
      (1 \<le> length (po_reason p) \<and> length (po_reason p) \<le> 500,
       Constraint CHECK ''organization_action_policies_reason_check''),
      (\<exists>e \<in> set (ac_employees s). em_id e = po_updatedBy p \<and> em_organizationId e = po_organizationId p,
       Constraint FOREIGN_KEY ''organization_action_policies_organization_id_updated_by_fkey'')]"

definition audit_checks :: "'z action_db_scheme \<Rightarrow> audit_row \<Rightarrow> failure option" where
  "audit_checks s a = insist
     [(au_id a \<notin> au_id ` set (ac_audit s), Constraint UNIQUE ''audit_events_pkey'')]"

section \<open>Statements\<close>

definition audit ::
  "string \<Rightarrow> string \<Rightarrow> string \<Rightarrow> string \<Rightarrow> json \<Rightarrow> string \<Rightarrow> ('z action_db_scheme, unit) op" where
  "audit actorId eventType resourceType resourceId metadata org =
     tenant org
      (andThen randomUUID (\<lambda>id'. andThen now (\<lambda>timestamp.
       insert_row ac_audit_update au_organizationId audit_checks
         \<lparr>au_id = id', au_organizationId = org, au_actorId = actorId, au_eventType = eventType,
          au_resourceType = resourceType, au_resourceId = resourceId, au_metadata = metadata,
          au_createdAt = timestamp\<rparr>)))"

text \<open>\<open>OrganizationStructureService.authorize\<close>: an active administrator of an active organization.\<close>

definition active_admin :: "'z action_db_scheme \<Rightarrow> actor \<Rightarrow> bool" where
  "active_admin s a \<longleftrightarrow> ac_role a = ADMIN \<and>
     (\<exists>e \<in> set (ac_employees s). em_id e = ac_id a \<and> em_organizationId e = ac_organizationId a \<and> em_active e \<and>
        (\<exists>m \<in> set (ac_memberships s). mb_organizationId m = em_organizationId e \<and>
           mb_employeeId m = em_id e \<and> mb_userId m = em_userId e \<and> mb_role m = ADMIN \<and> mb_active m) \<and>
        em_userId e \<in> set (ac_activeUsers s) \<and> ac_organizationId a \<in> set (ac_activeOrganizations s))"

definition authorize :: "actor \<Rightarrow> ('z action_db_scheme, unit) op" where
  "authorize a =
     tenant (ac_organizationId a)
      (andThen (gets (\<lambda>s. active_admin s a)) (\<lambda>ok. demand ok (Refused 403 ''ORGANIZATION_ADMIN_REQUIRED'')))"

definition asAdmin :: "actor \<Rightarrow> ('z action_db_scheme, 'a) op \<Rightarrow> ('z action_db_scheme, 'a) op" where
  "asAdmin a work = tenant (ac_organizationId a) (andThen (authorize a) (\<lambda>_. work))"

text \<open>\<open>ConnectorService.active\<close>.\<close>

definition active_connection :: "string \<Rightarrow> provider \<Rightarrow> ('z action_db_scheme, connection_row option) op" where
  "active_connection org p =
     tenant org
      (select_one ac_connections cn_organizationId
         (\<lambda>c. cn_organizationId c = org \<and> cn_provider c = p \<and> cn_active c))"

section \<open>What the gateway is constructed with\<close>

text \<open>
  The part of a v2 manifest the gateway reads beyond \<open>signed_manifest\<close>; a catalog tool and
  bundle; the outcome of resolving a secret.
\<close>

record agent_manifest = signed_manifest +
  am_tools :: "string list"
  am_blueprintId :: string
  am_blueprintVersion :: string
  am_blueprintDigest :: "string option"
  am_connectors :: "(string \<times> string list) list"
  am_configuration :: configuration
  am_isolation :: isolation

record tool_definition =
  td_id :: string
  td_version :: string
  td_governedActions :: "string list"
  td_timeoutMs :: int

record blueprint_bundle =
  bb_tools :: "tool_definition list"
  bb_digest :: string

datatype secret_result = Secret string | SecretUnavailable | SecretFailure failure

record lease_request =
  lr_run :: run_row
  lr_requestId :: string
  lr_grantId :: string
  lr_operation :: operation
  lr_operationDigest :: string
  lr_runtimeId :: string
  lr_grantExpiresAt :: int
  lr_nowMs :: int

text \<open>
  \<open>ActionGatewayDependencies\<close>: \<open>gw_digest\<close> is the SHA-256 of canonical JSON, \<open>gw_sign\<close> the
  control plane's signature, \<open>gw_redact\<close> is \<open>redactSummary\<close>. Timeouts are milliseconds.
\<close>

record 'z gateway_env =
  gw_execution :: "'z action_db_ext exec_env"
  gw_web :: web
  gw_digest :: "json \<Rightarrow> string"
  gw_redact :: "string \<Rightarrow> string"
  gw_loadManifest :: "string \<Rightarrow> string \<Rightarrow> string \<Rightarrow> ('z action_db_scheme, agent_manifest) op"
  gw_bundle :: "string \<Rightarrow> string \<Rightarrow> ('z action_db_scheme, blueprint_bundle) op"
  gw_resolveSecret :: "string \<Rightarrow> string \<Rightarrow> secret_result"
  gw_leaseForCheckout :: "(lease_request \<Rightarrow> ('z action_db_scheme, grant_credential option) op) option"
  gw_sign :: "grant_payload \<Rightarrow> string"
  gw_dispatchTimeoutMs :: "int option"
  gw_staleDispatchMs :: "int option"

end
