(* ===== verification/SpendingStore.thy ===== *)
theory SpendingStore
  imports ActionStore
begin

text \<open>
  The tables of model spending (\<open>db/migrations/0002-model-spending.ts\<close>, \<open>0003-model-prices.ts\<close>,
  \<open>0004-model-budget-alerts.ts\<close>): budgets, the price book, one reservation per model call and the
  budget alerts, with their constraints and triggers; the administrative change log; and the
  calendar month of a time, which is the period limits apply to.
\<close>

section \<open>Rows\<close>

text \<open>
  An organization's budget as the API shows it; its row adds the organization. Money is in
  millionths of the currency, \<open>None\<close> is no limit.
\<close>

record model_budget =
  bg_monthlyTokenLimit :: "int option"
  bg_runTokenLimit :: "int option"
  bg_currency :: string
  bg_monthlyCostLimitMicros :: "int option"
  bg_runCostLimitMicros :: "int option"
  bg_alertThresholds :: "int list"
  bg_version :: nat
  bg_updatedBy :: "string option"
  bg_updatedAt :: "int option"

record budget_row = model_budget +
  bg_organizationId :: string

record price_row =
  mp_id :: string
  mp_organizationId :: string
  mp_provider :: string
  mp_model :: string
  mp_currency :: string
  mp_inputMicros :: "int option"
  mp_outputMicros :: "int option"
  mp_supersedes :: "string option"
  mp_setBy :: string
  mp_setAt :: int

datatype usage_status = RESERVED | SETTLED

record usage_row =
  us_id :: string
  us_organizationId :: string
  us_runId :: string
  us_employeeId :: string
  us_agentId :: string
  us_runtimeId :: string
  us_provider :: string
  us_model :: string
  us_period :: string
  us_reservedTokens :: int
  us_maxOutputTokens :: int
  us_status :: usage_status
  us_inputTokens :: "int option"
  us_outputTokens :: "int option"
  us_requestHash :: string
  us_createdAt :: int
  us_settledAt :: "int option"
  us_priceId :: "string option"
  us_currency :: "string option"
  us_reservedCost :: "int option"
  us_cost :: "int option"

datatype alert_scope = MONTHLY_TOKENS | MONTHLY_COST

record budget_alert =
  al_id :: string
  al_period :: string
  al_scope :: alert_scope
  al_threshold :: int
  al_limit :: int
  al_charged :: int
  al_currency :: "string option"
  al_createdAt :: int
  al_acknowledgedBy :: "string option"
  al_acknowledgedAt :: "int option"

record alert_row = budget_alert +
  al_organizationId :: string

text \<open>\<open>ModelPrice\<close> of the API.\<close>

record model_price =
  mv_priceId :: string
  mv_provider :: string
  mv_model :: string
  mv_currency :: string
  mv_inputMicros :: int
  mv_outputMicros :: int
  mv_setBy :: string
  mv_setAt :: int

text \<open>A row of the change log; \<open>before_json\<close> and \<open>after_json\<close> hold one of the API's values.\<close>

datatype snapshot =
    BudgetSnapshot model_budget
  | PriceSnapshot model_price
  | AlertSnapshot budget_alert

record change_row =
  ce_id :: string
  ce_organizationId :: string
  ce_actorId :: string
  ce_action :: string
  ce_resourceType :: string
  ce_resourceId :: string
  ce_before :: "snapshot option"
  ce_after :: "snapshot option"
  ce_requestId :: string
  ce_createdAt :: int

record spending_db = action_db +
  sp_budgets :: "budget_row list"
  sp_prices :: "price_row list"
  sp_reservations :: "usage_row list"
  sp_alerts :: "alert_row list"
  sp_changes :: "change_row list"

interpretation budgets: table sp_budgets sp_budgets_update
  by unfold_locales simp_all

interpretation prices: table sp_prices sp_prices_update
  by unfold_locales simp_all

interpretation usages: table sp_reservations sp_reservations_update
  by unfold_locales simp_all

interpretation alerts: table sp_alerts sp_alerts_update
  by unfold_locales simp_all

interpretation changes: table sp_changes sp_changes_update
  by unfold_locales simp_all

section \<open>Periods\<close>

text \<open>
  \<open>toISOString().slice(0, 7)\<close>: the year and month, in the proleptic Gregorian calendar, of a time
  in milliseconds of the epoch. Days are counted from the first of March of year 0 in cycles of
  400 years.
\<close>

definition year_month :: "int \<Rightarrow> int \<times> int" where
  "year_month ms =
     (let z = ms div 86400000 + 719468;
          doe = z mod 146097;
          yoe = (doe - doe div 1460 + doe div 36524 - doe div 146096) div 365;
          doy = doe - (365 * yoe + yoe div 4 - yoe div 100);
          mp = (5 * doy + 2) div 153;
          m = (if mp < 10 then mp + 3 else mp - 9)
      in (yoe + (z div 146097) * 400 + (if m \<le> 2 then 1 else 0), m))"

text \<open>The last \<open>n\<close> decimal digits: \<open>padStart(n, '0')\<close> of a number that has no more.\<close>

definition padded :: "nat \<Rightarrow> int \<Rightarrow> string" where
  "padded n i = map (\<lambda>k. char_of (nat (48 + i div 10 ^ k mod 10))) (rev [0..<n])"

definition periodOf :: "int \<Rightarrow> string" where
  "periodOf ms =
     (let (y, m) = year_month ms in
      if 0 \<le> y \<and> y \<le> 9999 then padded 4 y @ ''-'' @ padded 2 m
      else (if y < 0 then ''-'' else ''+'') @ padded 6 \<bar>y\<bar>)"

text \<open>\<open>^[0-9]{4}-[0-9]{2}$\<close> of the tables, \<open>^\d{4}-(0[1-9]|1[0-2])$\<close> of the queries.\<close>

definition period_text :: "string \<Rightarrow> bool" where
  "period_text t \<longleftrightarrow> length t = 7 \<and> list_all is_digit (take 4 t) \<and> t ! 4 = CHR ''-'' \<and> list_all is_digit (drop 5 t)"

definition period_query :: "string \<Rightarrow> bool" where
  "period_query t \<longleftrightarrow> period_text t \<and>
     drop 5 t \<in> set (map (padded 2) [1, 2, 3, 4, 5, 6, 7, 8, 9, 10, 11, 12])"

section \<open>Constraints and triggers\<close>

definition employee_exists :: "'z action_db_scheme \<Rightarrow> string \<Rightarrow> string \<Rightarrow> bool" where
  "employee_exists s org i \<longleftrightarrow> (\<exists>e \<in> set (ac_employees s). em_id e = i \<and> em_organizationId e = org)"

definition currency_text :: "string \<Rightarrow> bool" where
  "currency_text t \<longleftrightarrow> length t = 3 \<and> list_all is_upper t"

definition positive_limit :: "int option \<Rightarrow> bool" where
  "positive_limit v \<longleftrightarrow> (case v of None \<Rightarrow> True | Some n \<Rightarrow> 0 < n)"

definition budget_valid :: "'z spending_db_scheme \<Rightarrow> budget_row \<Rightarrow> failure option" where
  "budget_valid s b = insist
     [(positive_limit (bg_monthlyTokenLimit b), Constraint CHECK ''organization_model_budgets_monthly_token_limit_check''),
      (positive_limit (bg_runTokenLimit b), Constraint CHECK ''organization_model_budgets_run_token_limit_check''),
      (0 < bg_version b, Constraint CHECK ''organization_model_budgets_version_check''),
      (currency_text (bg_currency b), Constraint CHECK ''organization_model_budgets_currency_check''),
      (positive_limit (bg_monthlyCostLimitMicros b),
       Constraint CHECK ''organization_model_budgets_monthly_cost_limit_micros_check''),
      (positive_limit (bg_runCostLimitMicros b),
       Constraint CHECK ''organization_model_budgets_run_cost_limit_micros_check''),
      (length (bg_alertThresholds b) \<le> 5 \<and> list_all (\<lambda>t. 1 \<le> t \<and> t \<le> 99) (bg_alertThresholds b),
       Constraint CHECK ''organization_model_budgets_alert_thresholds_check''),
      (bg_updatedBy b \<noteq> None, Constraint NOT_NULL ''updated_by''),
      (bg_updatedAt b \<noteq> None, Constraint NOT_NULL ''updated_at''),
      (case bg_updatedBy b of None \<Rightarrow> True | Some i \<Rightarrow> employee_exists s (bg_organizationId b) i,
       Constraint FOREIGN_KEY ''organization_model_budgets_organization_id_updated_by_fkey'')]"

definition budget_checks :: "'z spending_db_scheme \<Rightarrow> budget_row \<Rightarrow> failure option" where
  "budget_checks s b =
     (if bg_organizationId b \<in> bg_organizationId ` set (sp_budgets s)
      then Some (Constraint UNIQUE ''organization_model_budgets_pkey'') else budget_valid s b)"

definition priced :: "int option \<Rightarrow> bool" where
  "priced v \<longleftrightarrow> (case v of None \<Rightarrow> True | Some n \<Rightarrow> 0 \<le> n \<and> n \<le> 10000000000)"

definition price_checks :: "'z spending_db_scheme \<Rightarrow> price_row \<Rightarrow> failure option" where
  "price_checks s p = insist
     [(currency_text (mp_currency p), Constraint CHECK ''model_prices_currency_check''),
      (priced (mp_inputMicros p), Constraint CHECK ''model_prices_input_micros_per_million_check''),
      (priced (mp_outputMicros p), Constraint CHECK ''model_prices_output_micros_per_million_check''),
      ((mp_inputMicros p = None) = (mp_outputMicros p = None), Constraint CHECK ''model_prices_check''),
      (mp_id p \<notin> mp_id ` set (sp_prices s), Constraint UNIQUE ''model_prices_pkey''),
      (mp_supersedes p = None \<or> \<not> (\<exists>q \<in> set (sp_prices s). mp_organizationId q = mp_organizationId p \<and>
         mp_supersedes q = mp_supersedes p),
       Constraint UNIQUE ''model_prices_organization_id_supersedes_key''),
      (mp_supersedes p \<noteq> None \<or> \<not> (\<exists>q \<in> set (sp_prices s). mp_organizationId q = mp_organizationId p \<and>
         mp_provider q = mp_provider p \<and> mp_model q = mp_model p \<and> mp_supersedes q = None),
       Constraint UNIQUE ''model_prices_first''),
      (case mp_supersedes p of
         None \<Rightarrow> True
       | Some i \<Rightarrow> \<exists>q \<in> set (sp_prices s). mp_id q = i \<and> mp_organizationId q = mp_organizationId p,
       Constraint FOREIGN_KEY ''model_prices_organization_id_supersedes_fkey''),
      (employee_exists s (mp_organizationId p) (mp_setBy p),
       Constraint FOREIGN_KEY ''model_prices_organization_id_set_by_fkey'')]"

text \<open>
  A reservation. The employee and the agent it names are those of its run, whose own foreign keys
  make them exist.
\<close>

definition usage_valid :: "usage_row \<Rightarrow> failure option" where
  "usage_valid u = insist
     [(period_text (us_period u), Constraint CHECK ''model_usage_reservations_period_check''),
      (0 < us_reservedTokens u, Constraint CHECK ''model_usage_reservations_reserved_tokens_check''),
      (0 < us_maxOutputTokens u, Constraint CHECK ''model_usage_reservations_max_output_tokens_check''),
      (case us_inputTokens u of None \<Rightarrow> True | Some n \<Rightarrow> 0 \<le> n,
       Constraint CHECK ''model_usage_reservations_input_tokens_check''),
      (case us_outputTokens u of None \<Rightarrow> True | Some n \<Rightarrow> 0 \<le> n,
       Constraint CHECK ''model_usage_reservations_output_tokens_check''),
      (case us_reservedCost u of None \<Rightarrow> True | Some n \<Rightarrow> 0 \<le> n,
       Constraint CHECK ''model_usage_reservations_reserved_cost_micros_check''),
      (case us_cost u of None \<Rightarrow> True | Some n \<Rightarrow> 0 \<le> n,
       Constraint CHECK ''model_usage_reservations_cost_micros_check''),
      ((us_status u = SETTLED) = (us_inputTokens u \<noteq> None \<and> us_outputTokens u \<noteq> None \<and> us_settledAt u \<noteq> None),
       Constraint CHECK ''model_usage_reservations_check''),
      ((us_priceId u = None) = (us_currency u = None) \<and> (us_priceId u = None) = (us_reservedCost u = None) \<and>
       (us_cost u = None) = (us_priceId u = None \<or> us_status u = RESERVED),
       Constraint CHECK ''model_usage_priced'')]"

definition usage_checks :: "'z spending_db_scheme \<Rightarrow> usage_row \<Rightarrow> failure option" where
  "usage_checks s u =
     (case usage_valid u of
        Some e \<Rightarrow> Some e
      | None \<Rightarrow> insist
         [(us_id u \<notin> us_id ` set (sp_reservations s), Constraint UNIQUE ''model_usage_reservations_pkey''),
          (run_exists s (us_organizationId u) (us_runId u),
           Constraint FOREIGN_KEY ''model_usage_reservations_organization_id_run_id_fkey''),
          (case us_priceId u of
             None \<Rightarrow> True
           | Some i \<Rightarrow> \<exists>p \<in> set (sp_prices s). mp_id p = i \<and> mp_organizationId p = us_organizationId u,
           Constraint FOREIGN_KEY ''model_usage_price'')])"

text \<open>\<open>af_model_usage_settle_only\<close>: only its settlement changes a reservation, once.\<close>

definition same_reservation :: "usage_row \<Rightarrow> usage_row \<Rightarrow> bool" where
  "same_reservation u u' \<longleftrightarrow>
     us_id u' = us_id u \<and> us_organizationId u' = us_organizationId u \<and> us_runId u' = us_runId u \<and>
     us_employeeId u' = us_employeeId u \<and> us_agentId u' = us_agentId u \<and> us_runtimeId u' = us_runtimeId u \<and>
     us_provider u' = us_provider u \<and> us_model u' = us_model u \<and> us_period u' = us_period u \<and>
     us_reservedTokens u' = us_reservedTokens u \<and> us_maxOutputTokens u' = us_maxOutputTokens u \<and>
     us_requestHash u' = us_requestHash u \<and> us_createdAt u' = us_createdAt u \<and>
     us_priceId u' = us_priceId u \<and> us_currency u' = us_currency u \<and> us_reservedCost u' = us_reservedCost u"

definition usage_update_checks :: "'z spending_db_scheme \<Rightarrow> usage_row \<Rightarrow> usage_row \<Rightarrow> failure option" where
  "usage_update_checks s u u' =
     (if us_status u \<noteq> RESERVED \<or> us_status u' \<noteq> SETTLED \<or> \<not> same_reservation u u'
      then Some (Trigger ''MODEL_USAGE_IMMUTABLE'') else usage_valid u')"

definition alert_key :: "alert_row \<Rightarrow> string \<times> string \<times> alert_scope \<times> int" where
  "alert_key a = (al_organizationId a, al_period a, al_scope a, al_threshold a)"

definition alert_valid :: "alert_row \<Rightarrow> failure option" where
  "alert_valid a = insist
     [(period_text (al_period a), Constraint CHECK ''model_budget_alerts_period_check''),
      (1 \<le> al_threshold a \<and> al_threshold a \<le> 100, Constraint CHECK ''model_budget_alerts_threshold_percent_check''),
      (0 < al_limit a, Constraint CHECK ''model_budget_alerts_limit_value_check''),
      (0 \<le> al_charged a, Constraint CHECK ''model_budget_alerts_charged_value_check''),
      (case al_currency a of None \<Rightarrow> True | Some c \<Rightarrow> currency_text c,
       Constraint CHECK ''model_budget_alerts_currency_check''),
      ((al_scope a = MONTHLY_COST) = (al_currency a \<noteq> None), Constraint CHECK ''model_budget_alerts_check''),
      ((al_acknowledgedBy a = None) = (al_acknowledgedAt a = None), Constraint CHECK ''model_budget_alerts_check1'')]"

definition alert_checks :: "'z spending_db_scheme \<Rightarrow> alert_row \<Rightarrow> failure option" where
  "alert_checks s a = insist
     [(al_id a \<notin> al_id ` set (sp_alerts s), Constraint UNIQUE ''model_budget_alerts_pkey'')]"

text \<open>\<open>af_model_budget_alert_ack_only\<close>.\<close>

definition alert_update_checks :: "'z spending_db_scheme \<Rightarrow> alert_row \<Rightarrow> alert_row \<Rightarrow> failure option" where
  "alert_update_checks s a a' =
     (if al_acknowledgedAt a \<noteq> None \<or> al_acknowledgedAt a' = None \<or>
        a'\<lparr>al_acknowledgedBy := al_acknowledgedBy a, al_acknowledgedAt := al_acknowledgedAt a\<rparr> \<noteq> a
      then Some (Trigger ''MODEL_BUDGET_ALERT_IMMUTABLE'')
      else if \<not> (case al_acknowledgedBy a' of None \<Rightarrow> True | Some i \<Rightarrow> employee_exists s (al_organizationId a') i)
      then Some (Constraint FOREIGN_KEY ''model_budget_alerts_organization_id_acknowledged_by_fkey'')
      else alert_valid a')"

definition change_checks :: "'z spending_db_scheme \<Rightarrow> change_row \<Rightarrow> failure option" where
  "change_checks s c = insist
     [(ce_id c \<notin> ce_id ` set (sp_changes s), Constraint UNIQUE ''organization_change_events_pkey''),
      (employee_exists s (ce_organizationId c) (ce_actorId c),
       Constraint FOREIGN_KEY ''organization_change_events_organization_id_actor_id_fkey'')]"

section \<open>Statements\<close>

text \<open>\<open>recordChange\<close>: an administrative change with its before and after state.\<close>

definition recordChange ::
  "actor \<Rightarrow> string \<Rightarrow> string \<Rightarrow> string \<Rightarrow> snapshot option \<Rightarrow> snapshot option \<Rightarrow> int \<Rightarrow>
   ('z spending_db_scheme, unit) op" where
  "recordChange a action resourceType resourceId before after' timestamp =
     andThen randomUUID (\<lambda>i. andThen randomUUID (\<lambda>requestId.
     insert_row sp_changes_update ce_organizationId change_checks
       \<lparr>ce_id = i, ce_organizationId = ac_organizationId a, ce_actorId = ac_id a, ce_action = action,
        ce_resourceType = resourceType, ce_resourceId = resourceId, ce_before = before, ce_after = after',
        ce_requestId = requestId, ce_createdAt = timestamp\<rparr>))"

end
