(* ===== verification/ModelPrices.thy ===== *)
theory ModelPrices
  imports SpendingStore
begin

text \<open>
  Per-model prices (\<open>spending/model-prices.ts\<close>): the exact cost arithmetic and the append-only
  price book. BigInt and number values are the integers they stand for; \<open>lockSpending\<close> takes an
  advisory lock, which a serial model of transactions does not need.
\<close>

section \<open>Costs\<close>

text \<open>The price a call is charged at: per million tokens, in micros.\<close>

record price =
  pz_id :: string
  pz_currency :: string
  pz_inputMicros :: int
  pz_outputMicros :: int

definition MILLION :: int where
  "MILLION = 1000000"

definition costMicros :: "price \<Rightarrow> int \<Rightarrow> int \<Rightarrow> int" where
  "costMicros p inputTokens outputTokens =
     (let scaled = inputTokens * pz_inputMicros p + outputTokens * pz_outputMicros p
      in (scaled + MILLION - 1) div MILLION)"

text \<open>An amount of output; \<open>Unbounded\<close> is \<open>Number.POSITIVE_INFINITY\<close>.\<close>

datatype quantity = Bounded int | Unbounded

instantiation quantity :: linorder
begin

definition less_eq_quantity :: "quantity \<Rightarrow> quantity \<Rightarrow> bool" where
  "less_eq_quantity a b =
     (case b of Unbounded \<Rightarrow> True | Bounded n \<Rightarrow> (case a of Unbounded \<Rightarrow> False | Bounded m \<Rightarrow> m \<le> n))"

definition less_quantity :: "quantity \<Rightarrow> quantity \<Rightarrow> bool" where
  "less_quantity a b =
     (case a of Unbounded \<Rightarrow> False | Bounded m \<Rightarrow> (case b of Unbounded \<Rightarrow> True | Bounded n \<Rightarrow> m < n))"

instance
  by standard (auto simp: less_eq_quantity_def less_quantity_def split: quantity.splits)

end

definition maxOutputWithin :: "price \<Rightarrow> int \<Rightarrow> int \<Rightarrow> quantity" where
  "maxOutputWithin p remainingMicros inputTokens =
     (let budget = max 0 remainingMicros * MILLION - inputTokens * pz_inputMicros p in
      if remainingMicros < 0 \<or> budget < 0 then Bounded (- 1)
      else if pz_outputMicros p = 0 then Unbounded
      else Bounded (budget div pz_outputMicros p))"

lemma quantity_le [simp]:
  "Bounded m \<le> Bounded n \<longleftrightarrow> m \<le> n" "q \<le> Unbounded" "\<not> Unbounded \<le> Bounded n"
  by (simp_all add: less_eq_quantity_def)

lemma le_div_iff: "0 < d \<Longrightarrow> n \<le> b div d \<longleftrightarrow> n * d \<le> b" for b d n :: int
proof
  assume d: "0 < d" and "n \<le> b div d"
  then have "n * d \<le> b div d * d" by simp
  also have "\<dots> \<le> b" using d by (simp add: minus_mod_eq_div_mult [symmetric])
  finally show "n * d \<le> b" .
next
  assume d: "0 < d" and "n * d \<le> b"
  then have "n * d div d \<le> b div d" by (intro zdiv_mono1)
  with d show "n \<le> b div d" by simp
qed

text \<open>Rounding up: a cost fits exactly when the scaled amount does.\<close>

lemma costMicros_le_iff:
  "costMicros p i n \<le> r \<longleftrightarrow> i * pz_inputMicros p + n * pz_outputMicros p \<le> r * MILLION"
proof -
  have up: "(a + MILLION - 1) div MILLION \<le> r \<longleftrightarrow> a \<le> r * MILLION" for a
    using le_div_iff [of MILLION "r + 1" "a + MILLION - 1"] by (auto simp: MILLION_def)
  show ?thesis unfolding costMicros_def Let_def by (rule up)
qed

lemma costMicros_nonneg:
  assumes "0 \<le> i" "0 \<le> n" "0 \<le> pz_inputMicros p" "0 \<le> pz_outputMicros p"
  shows "0 \<le> costMicros p i n"
  using costMicros_le_iff [of p i n "- 1"] mult_nonneg_nonneg [OF assms(1,3)] mult_nonneg_nonneg [OF assms(2,4)]
  by (simp add: MILLION_def)

lemma costMicros_mono:
  assumes "i \<le> i'" "n \<le> n'" "0 \<le> pz_inputMicros p" "0 \<le> pz_outputMicros p"
  shows "costMicros p i n \<le> costMicros p i' n'"
proof -
  have "i * pz_inputMicros p + n * pz_outputMicros p \<le> i' * pz_inputMicros p + n' * pz_outputMicros p"
    using assms by (intro add_mono mult_right_mono)
  then show ?thesis
    unfolding costMicros_def MILLION_def Let_def by (intro zdiv_mono1) simp_all
qed

lemma maxOutputWithin_le:
  assumes "0 \<le> i" and "0 \<le> n" and "0 \<le> pz_inputMicros p" and "0 \<le> pz_outputMicros p"
  shows "Bounded n \<le> maxOutputWithin p remaining i \<longleftrightarrow> costMicros p i n \<le> remaining"
proof -
  let ?in = "i * pz_inputMicros p" and ?out = "n * pz_outputMicros p"
  have pos: "0 \<le> ?in" "0 \<le> ?out" using assms by simp_all
  show ?thesis
  proof (cases "remaining < 0 \<or> remaining * MILLION < ?in")
    case True
    then have "remaining * MILLION < ?in + ?out"
      using pos by (auto simp: MILLION_def)
    then show ?thesis
      using True pos assms(2) by (auto simp: maxOutputWithin_def costMicros_le_iff Let_def max_def)
  next
    case False
    then have room: "max 0 remaining = remaining" "\<not> remaining * MILLION - ?in < 0" by simp_all
    show ?thesis
    proof (cases "pz_outputMicros p = 0")
      case True
      with room False show ?thesis by (simp add: maxOutputWithin_def costMicros_le_iff Let_def)
    next
      case nonzero: False
      then have "n \<le> (remaining * MILLION - ?in) div pz_outputMicros p \<longleftrightarrow> ?out \<le> remaining * MILLION - ?in"
        using assms(4) by (intro le_div_iff) simp
      with room nonzero False show ?thesis
        by (simp add: maxOutputWithin_def costMicros_le_iff Let_def) linarith
    qed
  qed
qed

text \<open>
  The output bound is exact. A call with this much input may use \<open>n\<close> output tokens within the
  bound exactly when its rounded-up cost is within the remaining amount: the limit is neither
  overrun by rounding nor left partly unused.
\<close>

theorem maxOutputWithin_exact:
  assumes "0 \<le> i" and "0 \<le> n" and "0 \<le> pz_inputMicros p" and "0 \<le> pz_outputMicros p"
  shows "Bounded n \<le> maxOutputWithin p remaining i \<longleftrightarrow> costMicros p i n \<le> remaining"
  using assms by (rule maxOutputWithin_le)

definition sample_price :: price where
  "sample_price = \<lparr>pz_id = ''p1'', pz_currency = ''USD'', pz_inputMicros = 3000000, pz_outputMicros = 15000000\<rparr>"

lemma maxOutputWithin_exact_witness:
  "Bounded 600 \<le> maxOutputWithin sample_price 12000 1000 \<and> costMicros sample_price 1000 600 \<le> 12000 \<and>
   \<not> costMicros sample_price 1000 601 \<le> 12000"
  using maxOutputWithin_exact [of 1000 600 sample_price 12000] maxOutputWithin_exact [of 1000 601 sample_price 12000]
  by (simp add: sample_price_def maxOutputWithin_def MILLION_def)

section \<open>The price book\<close>

definition DEFAULT_CURRENCY :: string where
  "DEFAULT_CURRENCY = ''USD''"

text \<open>\<open>ORDER BY seq DESC LIMIT 1\<close>: the newest row of the model.\<close>

definition latest_price ::
  "string \<Rightarrow> string \<Rightarrow> string \<Rightarrow> ('z spending_db_scheme, price_row option) op" where
  "latest_price org provider model =
     andThen (select sp_prices mp_organizationId
        (\<lambda>p. mp_organizationId p = org \<and> mp_provider p = provider \<and> mp_model p = model)) (\<lambda>ps.
     ret (case rev ps of [] \<Rightarrow> None | p # _ \<Rightarrow> Some p))"

definition price_of_row :: "price_row \<Rightarrow> price" where
  "price_of_row p = \<lparr>pz_id = mp_id p, pz_currency = mp_currency p,
     pz_inputMicros = (case mp_inputMicros p of None \<Rightarrow> 0 | Some n \<Rightarrow> n),
     pz_outputMicros = (case mp_outputMicros p of None \<Rightarrow> 0 | Some n \<Rightarrow> n)\<rparr>"

definition current_price :: "string \<Rightarrow> string \<Rightarrow> string \<Rightarrow> ('z spending_db_scheme, price option) op" where
  "current_price org provider model =
     andThen (latest_price org provider model) (\<lambda>row.
     ret (case row of
            None \<Rightarrow> None
          | Some p \<Rightarrow> if mp_inputMicros p = None then None else Some (price_of_row p)))"

definition organization_currency :: "string \<Rightarrow> ('z spending_db_scheme, string) op" where
  "organization_currency org =
     andThen (select_one sp_budgets bg_organizationId (\<lambda>b. bg_organizationId b = org)) (\<lambda>row.
     ret (case row of None \<Rightarrow> DEFAULT_CURRENCY | Some b \<Rightarrow> bg_currency b))"

definition hasPriceHistory :: "string \<Rightarrow> ('z spending_db_scheme, bool) op" where
  "hasPriceHistory org =
     andThen (select_one sp_prices mp_organizationId (\<lambda>p. mp_organizationId p = org)) (\<lambda>row.
     ret (row \<noteq> None))"

text \<open>\<open>Number(null)\<close> is 0.\<close>

definition mapPrice :: "price_row \<Rightarrow> model_price" where
  "mapPrice p = \<lparr>mv_priceId = mp_id p, mv_provider = mp_provider p, mv_model = mp_model p,
     mv_currency = mp_currency p,
     mv_inputMicros = (case mp_inputMicros p of None \<Rightarrow> 0 | Some n \<Rightarrow> n),
     mv_outputMicros = (case mp_outputMicros p of None \<Rightarrow> 0 | Some n \<Rightarrow> n),
     mv_setBy = mp_setBy p, mv_setAt = mp_setAt p\<rparr>"

text \<open>\<open>SELECT DISTINCT ON (provider, model) ... ORDER BY provider, model, seq DESC\<close>.\<close>

definition model_key :: "price_row \<Rightarrow> string \<times> string" where
  "model_key p = (mp_provider p, mp_model p)"

fun newest_per_model :: "price_row list \<Rightarrow> price_row list" where
  "newest_per_model [] = []"
| "newest_per_model (p # ps) =
     (if list_ex (\<lambda>q. model_key q = model_key p) ps then newest_per_model ps else p # newest_per_model ps)"

definition list_prices :: "actor \<Rightarrow> ('z spending_db_scheme, string \<times> model_price list) op" where
  "list_prices a =
     asAdmin a
      (andThen (select sp_prices mp_organizationId (\<lambda>p. mp_organizationId p = ac_organizationId a)) (\<lambda>ps.
       andThen (organization_currency (ac_organizationId a)) (\<lambda>currency.
       ret (currency, map mapPrice (filter (\<lambda>p. mp_inputMicros p \<noteq> None)
         (sort_key mp_provider (sort_key mp_model (newest_per_model ps))))))))"

section \<open>Changes of the price book\<close>

text \<open>\<open>[a-zA-Z0-9._-]{1,80}\<close> and \<open>[a-zA-Z0-9._:/-]{1,160}\<close>.\<close>

definition provider_text :: "string \<Rightarrow> bool" where
  "provider_text t \<longleftrightarrow> 1 \<le> length t \<and> length t \<le> 80 \<and> list_all (\<lambda>c. is_alnum c \<or> c \<in> set ''._-'') t"

definition model_text :: "string \<Rightarrow> bool" where
  "model_text t \<longleftrightarrow> 1 \<le> length t \<and> length t \<le> 160 \<and> list_all (\<lambda>c. is_alnum c \<or> c \<in> set ''._:/-'') t"

definition int_field :: "string \<Rightarrow> json \<Rightarrow> int option" where
  "int_field k v = (case json_field k v of Some (JNum n) \<Rightarrow> Some n | _ \<Rightarrow> None)"

definition price_amount :: "string \<Rightarrow> json \<Rightarrow> int option" where
  "price_amount k v = filtered (\<lambda>n. 0 \<le> n \<and> n \<le> 10000000000) (int_field k v)"

record price_input =
  pn_provider :: string
  pn_model :: string
  pn_inputMicros :: int
  pn_outputMicros :: int
  pn_expectedPriceId :: "string option"

text \<open>\<open>priceInput\<close> and \<open>removalInput\<close>; \<open>uuid\<close> is the library's acceptance of \<open>z.string().uuid()\<close>.\<close>

definition parse_price_input :: "(string \<Rightarrow> bool) \<Rightarrow> json \<Rightarrow> price_input option" where
  "parse_price_input uuid v =
     (if strict [''provider'', ''model'', ''inputMicrosPerMillionTokens'', ''outputMicrosPerMillionTokens'',
          ''expectedPriceId''] v then
        (case (filtered provider_text (text_field ''provider'' v), filtered model_text (text_field ''model'' v),
               price_amount ''inputMicrosPerMillionTokens'' v, price_amount ''outputMicrosPerMillionTokens'' v,
               if json_field ''expectedPriceId'' v = Some JNull then Some None
               else map_option Some (filtered uuid (text_field ''expectedPriceId'' v))) of
           (Some p, Some m, Some i, Some n, Some e) \<Rightarrow>
             Some \<lparr>pn_provider = p, pn_model = m, pn_inputMicros = i, pn_outputMicros = n, pn_expectedPriceId = e\<rparr>
         | _ \<Rightarrow> None)
      else None)"

definition parse_price_removal :: "(string \<Rightarrow> bool) \<Rightarrow> json \<Rightarrow> (string \<times> string \<times> string) option" where
  "parse_price_removal uuid v =
     (if strict [''provider'', ''model'', ''expectedPriceId''] v then
        (case (filtered provider_text (text_field ''provider'' v), filtered model_text (text_field ''model'' v),
               filtered uuid (text_field ''expectedPriceId'' v)) of
           (Some p, Some m, Some e) \<Rightarrow> Some (p, m, e)
         | _ \<Rightarrow> None)
      else None)"

text \<open>\<open>begin\<close>: the newest row, checked to be the current price the caller expects.\<close>

definition begin_change ::
  "string \<Rightarrow> string \<Rightarrow> string \<Rightarrow> string option \<Rightarrow> ('z spending_db_scheme, price_row option \<times> int) op" where
  "begin_change org provider model expected =
     andThen (latest_price org provider model) (\<lambda>before.
     andThen (demand
        ((case before of None \<Rightarrow> None | Some p \<Rightarrow> if mp_inputMicros p = None then None else Some (mp_id p)) = expected)
        (Refused 409 ''VERSION_CONFLICT'')) (\<lambda>_.
     andThen now (\<lambda>timestamp. ret (before, timestamp))))"

definition price_name :: "string \<Rightarrow> string \<Rightarrow> string" where
  "price_name provider model = provider @ ''/'' @ model"

text \<open>The new row, which supersedes the model's newest one; without amounts it removes the price.\<close>

definition insert_price ::
  "actor \<Rightarrow> string \<Rightarrow> string \<Rightarrow> (int \<times> int) option \<Rightarrow> string option \<Rightarrow> int \<Rightarrow> ('z spending_db_scheme, unit) op" where
  "insert_price a provider model amounts supersedes timestamp =
     andThen randomUUID (\<lambda>priceId.
     andThen (organization_currency (ac_organizationId a)) (\<lambda>currency.
     insert_row sp_prices_update mp_organizationId price_checks
       \<lparr>mp_id = priceId, mp_organizationId = ac_organizationId a, mp_provider = provider,
        mp_model = model, mp_currency = currency, mp_inputMicros = map_option fst amounts,
        mp_outputMicros = map_option snd amounts, mp_supersedes = supersedes,
        mp_setBy = ac_id a, mp_setAt = timestamp\<rparr>))"

definition set_price :: "(string \<Rightarrow> bool) \<Rightarrow> actor \<Rightarrow> json \<Rightarrow> ('z spending_db_scheme, model_price) op" where
  "set_price uuid a raw =
     (case parse_price_input uuid raw of
        None \<Rightarrow> throw (Raised ''ZodError'')
      | Some i \<Rightarrow>
          asAdmin a
           (andThen (begin_change (ac_organizationId a) (pn_provider i) (pn_model i) (pn_expectedPriceId i))
             (\<lambda>(before, timestamp).
            andThen (insert_price a (pn_provider i) (pn_model i) (Some (pn_inputMicros i, pn_outputMicros i))
              (map_option mp_id before) timestamp) (\<lambda>_.
            andThen (latest_price (ac_organizationId a) (pn_provider i) (pn_model i)) (\<lambda>row.
            case row of
              None \<Rightarrow> throw (Raised ''TypeError'')
            | Some p \<Rightarrow>
                andThen (recordChange a ''model_price.updated'' ''model_price''
                   (price_name (pn_provider i) (pn_model i))
                   (case before of None \<Rightarrow> None
                      | Some q \<Rightarrow> if mp_inputMicros q = None then None else Some (PriceSnapshot (mapPrice q)))
                   (Some (PriceSnapshot (mapPrice p))) timestamp) (\<lambda>_.
                ret (mapPrice p)))))))"

definition remove_price :: "(string \<Rightarrow> bool) \<Rightarrow> actor \<Rightarrow> json \<Rightarrow> ('z spending_db_scheme, unit) op" where
  "remove_price uuid a raw =
     (case parse_price_removal uuid raw of
        None \<Rightarrow> throw (Raised ''ZodError'')
      | Some (provider, model, expected) \<Rightarrow>
          asAdmin a
           (andThen (begin_change (ac_organizationId a) provider model (Some expected)) (\<lambda>(before, timestamp).
            case before of
              None \<Rightarrow> throw (Raised ''TypeError'')
            | Some q \<Rightarrow>
                andThen (insert_price a provider model None (Some (mp_id q)) timestamp) (\<lambda>_.
                recordChange a ''model_price.removed'' ''model_price'' (price_name provider model)
                  (Some (PriceSnapshot (mapPrice q))) None timestamp))))"

end
