(* ===== verification/ModelSpending.thy ===== *)
theory ModelSpending
  imports ModelPrices
begin

text \<open>
  Model spending limits (\<open>spending/model-spending-service.ts\<close>) and budget alerts
  (\<open>spending/model-budget-alerts.ts\<close>): every model call is reserved before it is made and settled
  afterwards; what counts against a limit is the settled usage, or the reserved size until then.
  Telemetry and what runs after the commit are left out.
\<close>

section \<open>What the service is constructed with\<close>

text \<open>
  \<open>se_digest\<close> is SHA-256 of canonical JSON, \<open>se_uuid\<close> the acceptance of \<open>z.string().uuid()\<close>,
  \<open>se_onAlert\<close> the delivery of a raised alert (alert webhooks) in the same transaction.
\<close>

record 'z spending_env =
  se_digest :: "json \<Rightarrow> string"
  se_uuid :: "string \<Rightarrow> bool"
  se_onAlert :: "(string \<Rightarrow> budget_alert \<Rightarrow> int \<Rightarrow> ('z spending_db_scheme, unit) op) option"

section \<open>Budgets\<close>

definition DEFAULT_ALERT_THRESHOLDS :: "int list" where
  "DEFAULT_ALERT_THRESHOLDS = [80]"

definition mapBudget :: "budget_row option \<Rightarrow> model_budget" where
  "mapBudget row =
     (case row of
        Some b \<Rightarrow> model_budget.truncate b
      | None \<Rightarrow> \<lparr>bg_monthlyTokenLimit = None, bg_runTokenLimit = None, bg_currency = DEFAULT_CURRENCY,
          bg_monthlyCostLimitMicros = None, bg_runCostLimitMicros = None,
          bg_alertThresholds = DEFAULT_ALERT_THRESHOLDS, bg_version = 0, bg_updatedBy = None, bg_updatedAt = None\<rparr>)"

definition budget_of :: "string \<Rightarrow> ('z spending_db_scheme, model_budget) op" where
  "budget_of org =
     andThen (select_one sp_budgets bg_organizationId (\<lambda>b. bg_organizationId b = org)) (\<lambda>row. ret (mapBudget row))"

section \<open>What is charged\<close>

definition amount :: "int option \<Rightarrow> int" where
  "amount v = (case v of None \<Rightarrow> 0 | Some n \<Rightarrow> n)"

text \<open>\<open>CHARGED\<close> and \<open>CHARGED_COST\<close>: \<open>SUM\<close> skips the cost of calls without a price.\<close>

definition charged_tokens :: "usage_row \<Rightarrow> int" where
  "charged_tokens u =
     (if us_status u = SETTLED then amount (us_inputTokens u) + amount (us_outputTokens u) else us_reservedTokens u)"

definition charged_cost :: "usage_row \<Rightarrow> int" where
  "charged_cost u = amount (if us_status u = SETTLED then us_cost u else us_reservedCost u)"

definition total :: "(usage_row \<Rightarrow> int) \<Rightarrow> usage_row list \<Rightarrow> int" where
  "total f us = sum_list (map f us)"

definition charged :: "string \<Rightarrow> (usage_row \<Rightarrow> bool) \<Rightarrow> ('z spending_db_scheme, int \<times> int) op" where
  "charged org P =
     andThen (select sp_reservations us_organizationId (\<lambda>u. us_organizationId u = org \<and> P u)) (\<lambda>us.
     ret (total charged_tokens us, total charged_cost us))"

section \<open>Alerts\<close>

definition LIMIT_REACHED :: int where
  "LIMIT_REACHED = 100"

record alert_check =
  ak_organizationId :: string
  ak_actorId :: string
  ak_period :: string
  ak_budget :: model_budget
  ak_charged :: "int \<times> int"
  ak_reached :: "alert_scope option"
  ak_nowMs :: int

fun scope_name :: "alert_scope \<Rightarrow> string" where
  "scope_name MONTHLY_TOKENS = ''MONTHLY_TOKENS''"
| "scope_name MONTHLY_COST = ''MONTHLY_COST''"

definition alert_row_of :: "string \<Rightarrow> string \<Rightarrow> ('z spending_db_scheme, alert_row option) op" where
  "alert_row_of org i = select_one sp_alerts al_organizationId (\<lambda>a. al_organizationId a = org \<and> al_id a = i)"

definition mapAlert :: "alert_row \<Rightarrow> budget_alert" where
  "mapAlert a = budget_alert.truncate a"

definition text_or_null :: "string option \<Rightarrow> json" where
  "text_or_null v = (case v of None \<Rightarrow> JNull | Some t \<Rightarrow> JStr t)"

definition raise_alert ::
  "'z spending_env \<Rightarrow> alert_check \<Rightarrow> alert_scope \<Rightarrow> int \<Rightarrow> int \<Rightarrow> int \<Rightarrow> ('z spending_db_scheme, unit) op" where
  "raise_alert env input sc limit charged' threshold =
     (let currency = (if sc = MONTHLY_COST then Some (bg_currency (ak_budget input)) else None) in
      andThen randomUUID (\<lambda>alertId.
      andThen (insert_unless sp_alerts sp_alerts_update al_organizationId alert_valid alert_checks alert_key
         \<lparr>al_id = alertId, al_period = ak_period input, al_scope = sc, al_threshold = threshold,
          al_limit = limit, al_charged = charged', al_currency = currency, al_createdAt = ak_nowMs input,
          al_acknowledgedBy = None, al_acknowledgedAt = None, al_organizationId = ak_organizationId input\<rparr>) (\<lambda>changes.
      whenever (changes = 1)
       (andThen (audit (ak_actorId input) ''model.budget.alert'' ''model_budget_alert'' alertId
           (JObj [(''period'', JStr (ak_period input)), (''scope'', JStr (scope_name sc)),
                  (''thresholdPercent'', JNum threshold), (''limit'', JNum limit), (''charged'', JNum charged'),
                  (''currency'', text_or_null currency)]) (ak_organizationId input)) (\<lambda>_.
        case se_onAlert env of
          None \<Rightarrow> ret ()
        | Some deliver \<Rightarrow>
            andThen (alert_row_of (ak_organizationId input) alertId) (\<lambda>row.
            case row of
              None \<Rightarrow> throw (Raised ''TypeError'')
            | Some a \<Rightarrow> deliver (ak_organizationId input) (mapAlert a) (ak_nowMs input)))))))"

text \<open>The thresholds reached: exactly, \<open>charged / limit >= threshold / 100\<close>.\<close>

definition reached_thresholds :: "alert_check \<Rightarrow> alert_scope \<Rightarrow> int \<Rightarrow> int \<Rightarrow> int list" where
  "reached_thresholds input sc limit charged' =
     filter (\<lambda>threshold. threshold * limit \<le> charged' * 100 \<or>
         (threshold = LIMIT_REACHED \<and> ak_reached input = Some sc))
       (rev (remdups (rev (bg_alertThresholds (ak_budget input) @ [LIMIT_REACHED]))))"

definition check_limit ::
  "'z spending_env \<Rightarrow> alert_check \<Rightarrow> alert_scope \<Rightarrow> int option \<Rightarrow> int \<Rightarrow> ('z spending_db_scheme, unit) op" where
  "check_limit env input sc limit charged' =
     (case limit of
        None \<Rightarrow> ret ()
      | Some l \<Rightarrow> each (raise_alert env input sc l charged') (reached_thresholds input sc l charged'))"

definition check_alerts :: "'z spending_env \<Rightarrow> alert_check \<Rightarrow> ('z spending_db_scheme, unit) op" where
  "check_alerts env input =
     andThen (check_limit env input MONTHLY_TOKENS (bg_monthlyTokenLimit (ak_budget input)) (fst (ak_charged input))) (\<lambda>_.
     check_limit env input MONTHLY_COST (bg_monthlyCostLimitMicros (ak_budget input)) (snd (ak_charged input)))"

definition parse_period :: "json \<Rightarrow> string option option" where
  "parse_period v =
     (if strict [''period''] v then
        (if json_field ''period'' v = None then Some None
         else map_option Some (filtered period_query (text_field ''period'' v)))
      else None)"

definition list_alerts :: "actor \<Rightarrow> json \<Rightarrow> int \<Rightarrow> ('z spending_db_scheme, string \<times> budget_alert list) op" where
  "list_alerts a query nowMs =
     (case parse_period query of
        None \<Rightarrow> throw (Raised ''ZodError'')
      | Some p \<Rightarrow>
          (let period = (case p of None \<Rightarrow> periodOf nowMs | Some t \<Rightarrow> t) in
           asAdmin a
            (andThen (select sp_alerts al_organizationId
                (\<lambda>r. al_organizationId r = ac_organizationId a \<and> al_period r = period)) (\<lambda>rows.
             ret (period, map mapAlert (rev rows))))))"

definition acknowledge_alert :: "'z spending_env \<Rightarrow> actor \<Rightarrow> json \<Rightarrow> ('z spending_db_scheme, budget_alert) op" where
  "acknowledge_alert env a rawId =
     (case rawId of
        JStr i \<Rightarrow>
          if \<not> se_uuid env i then throw (Raised ''ZodError'')
          else asAdmin a
           (andThen (alert_row_of (ac_organizationId a) i) (\<lambda>row.
            case row of
              None \<Rightarrow> throw (Refused 404 ''MODEL_BUDGET_ALERT_NOT_FOUND'')
            | Some before \<Rightarrow>
                andThen (demand (al_acknowledgedAt before = None) (Refused 409 ''MODEL_BUDGET_ALERT_ACKNOWLEDGED'')) (\<lambda>_.
                andThen now (\<lambda>timestamp.
                andThen (update_rows sp_alerts sp_alerts_update al_organizationId alert_update_checks
                   (\<lambda>r. al_id r = i \<and> al_organizationId r = ac_organizationId a \<and> al_acknowledgedAt r = None)
                   (\<lambda>r. r\<lparr>al_acknowledgedBy := Some (ac_id a), al_acknowledgedAt := Some timestamp\<rparr>)) (\<lambda>changes.
                andThen (demand (changes = 1) (Refused 409 ''MODEL_BUDGET_ALERT_ACKNOWLEDGED'')) (\<lambda>_.
                andThen (alert_row_of (ac_organizationId a) i) (\<lambda>again.
                case again of
                  None \<Rightarrow> throw (Raised ''TypeError'')
                | Some after' \<Rightarrow>
                    andThen (recordChange a ''model_budget_alert.acknowledged'' ''model_budget_alert'' i
                       (Some (AlertSnapshot (mapAlert before))) (Some (AlertSnapshot (mapAlert after'))) timestamp) (\<lambda>_.
                    ret (mapAlert after')))))))))
      | _ \<Rightarrow> throw (Raised ''ZodError''))"

text \<open>\<open>checkAlerts\<close>: with a monthly limit, compares it with what is charged now.\<close>

definition checkAlerts ::
  "'z spending_env \<Rightarrow> string \<Rightarrow> string \<Rightarrow> string \<Rightarrow> model_budget \<Rightarrow> int \<Rightarrow> ('z spending_db_scheme, unit) op" where
  "checkAlerts env org actorId period budget nowMs =
     whenever (\<not> (bg_monthlyTokenLimit budget = None \<and> bg_monthlyCostLimitMicros budget = None))
      (andThen (charged org (\<lambda>u. us_period u = period)) (\<lambda>used.
       check_alerts env
         \<lparr>ak_organizationId = org, ak_actorId = actorId, ak_period = period, ak_budget = budget,
          ak_charged = used, ak_reached = None, ak_nowMs = nowMs\<rparr>))"

section \<open>Reservations\<close>

definition MIN_OUTPUT_TOKENS :: int where
  "MIN_OUTPUT_TOKENS = 256"

record reservation_request =
  rr_reservationId :: string
  rr_correlation :: correlation
  rr_provider :: string
  rr_model :: string
  rr_estimatedInputTokens :: int
  rr_maxOutputTokens :: int

definition optional_texts :: "(string \<times> string option) list \<Rightarrow> (string \<times> json) list" where
  "optional_texts fs = List.map_filter (\<lambda>(k, v). map_option (\<lambda>t. (k, JStr t)) v) fs"

definition correlation_json :: "correlation \<Rightarrow> json" where
  "correlation_json c = JObj (optional_texts
     [(''actionId'', co_actionId c), (''agentId'', Some (co_agentId c)), (''employeeId'', Some (co_employeeId c)),
      (''organizationId'', Some (co_organizationId c)), (''runId'', Some (co_runId c)), (''stepId'', co_stepId c),
      (''threadId'', Some (co_threadId c)), (''toolCallId'', co_toolCallId c)])"

definition reservation_json :: "reservation_request \<Rightarrow> json" where
  "reservation_json r = JObj
     [(''correlation'', correlation_json (rr_correlation r)),
      (''estimatedInputTokens'', JNum (rr_estimatedInputTokens r)),
      (''maxOutputTokens'', JNum (rr_maxOutputTokens r)), (''model'', JStr (rr_model r)),
      (''protocol'', JStr RUNTIME_PROTOCOL_V1), (''provider'', JStr (rr_provider r)),
      (''reservationId'', JStr (rr_reservationId r))]"

datatype limit_scope = LimitMONTHLY | LimitRUN | LimitMONTHLY_COST | LimitRUN_COST

fun limit_name :: "limit_scope option \<Rightarrow> string" where
  "limit_name (Some LimitMONTHLY) = ''MONTHLY''"
| "limit_name (Some LimitRUN) = ''RUN''"
| "limit_name (Some LimitMONTHLY_COST) = ''MONTHLY_COST''"
| "limit_name (Some LimitRUN_COST) = ''RUN_COST''"
| "limit_name None = ''PRICE''"

fun REASONS :: "limit_scope option \<Rightarrow> string" where
  "REASONS (Some LimitMONTHLY) = ''The organization'' @ [CHR 39] @ ''s monthly model token limit is reached.''"
| "REASONS (Some LimitRUN) = ''This run'' @ [CHR 39] @ ''s model token limit is reached.''"
| "REASONS (Some LimitMONTHLY_COST) = ''The organization'' @ [CHR 39] @ ''s monthly model cost limit is reached.''"
| "REASONS (Some LimitRUN_COST) = ''This run'' @ [CHR 39] @ ''s model cost limit is reached.''"
| "REASONS None = ''The organization limits model cost, and this model has no price.''"

fun monthly_alert :: "limit_scope \<Rightarrow> alert_scope option" where
  "monthly_alert LimitMONTHLY = Some MONTHLY_TOKENS"
| "monthly_alert LimitMONTHLY_COST = Some MONTHLY_COST"
| "monthly_alert _ = None"

datatype reservation = ReservationAllowed string int | ReservationDenied string string

text \<open>Each limit allows some amount of output for this input.\<close>

record fit =
  ft_scope :: limit_scope
  ft_output :: quantity
  ft_remaining :: "string \<times> int"

definition token_fit :: "limit_scope \<Rightarrow> int option \<Rightarrow> int \<Rightarrow> int \<Rightarrow> fit list" where
  "token_fit sc cap used estimated =
     (case cap of
        None \<Rightarrow> []
      | Some c \<Rightarrow> [\<lparr>ft_scope = sc, ft_output = Bounded (c - used - estimated),
          ft_remaining = (''remainingTokens'', max 0 (c - used))\<rparr>])"

text \<open>A cost limit needs a price, which was checked before.\<close>

definition cost_fit :: "limit_scope \<Rightarrow> int option \<Rightarrow> int \<Rightarrow> int \<Rightarrow> price option \<Rightarrow> fit list" where
  "cost_fit sc cap used estimated p =
     (case (cap, p) of
        (Some c, Some pz) \<Rightarrow> [\<lparr>ft_scope = sc, ft_output = maxOutputWithin pz (c - used) estimated,
          ft_remaining = (''remainingCostMicros'', max 0 (c - used))\<rparr>]
      | _ \<Rightarrow> [])"

definition fits_of :: "model_budget \<Rightarrow> price option \<Rightarrow> int \<times> int \<Rightarrow> int \<times> int \<Rightarrow> int \<Rightarrow> fit list" where
  "fits_of b p month thisRun estimated =
     token_fit LimitMONTHLY (bg_monthlyTokenLimit b) (fst month) estimated @
     token_fit LimitRUN (bg_runTokenLimit b) (fst thisRun) estimated @
     cost_fit LimitMONTHLY_COST (bg_monthlyCostLimitMicros b) (snd month) estimated p @
     cost_fit LimitRUN_COST (bg_runCostLimitMicros b) (snd thisRun) estimated p"

definition tightest :: "fit list \<Rightarrow> fit option" where
  "tightest fits = (case sort_key ft_output fits of [] \<Rightarrow> None | f # _ \<Rightarrow> Some f)"

definition granted_output :: "int \<Rightarrow> fit list \<Rightarrow> int" where
  "granted_output maxOutput fits =
     (case tightest fits of
        None \<Rightarrow> maxOutput
      | Some f \<Rightarrow> (case ft_output f of Unbounded \<Rightarrow> maxOutput | Bounded n \<Rightarrow> min maxOutput n))"

definition cost_limited :: "model_budget \<Rightarrow> bool" where
  "cost_limited b \<longleftrightarrow> bg_monthlyCostLimitMicros b \<noteq> None \<or> bg_runCostLimitMicros b \<noteq> None"

text \<open>\<open>deny\<close>: audited, and answered with the one denial code of the protocol.\<close>

definition deny_reservation ::
  "run_row \<Rightarrow> string \<Rightarrow> reservation_request \<Rightarrow> string \<Rightarrow> limit_scope option \<Rightarrow> (string \<times> int) option \<Rightarrow>
   ('z spending_db_scheme, reservation) op" where
  "deny_reservation run runtimeId req period sc remaining =
     andThen (audit runtimeId
        (if sc = None then ''model.price.unavailable'' else ''model.budget.exceeded'') ''agent_run'' (rn_id run)
        (JObj ([(''scope'', JStr (limit_name sc)), (''period'', JStr period), (''provider'', JStr (rr_provider req)),
                (''model'', JStr (rr_model req)),
                (''requestedTokens'', JNum (rr_estimatedInputTokens req + rr_maxOutputTokens req))] @
               (case remaining of None \<Rightarrow> [] | Some (k, n) \<Rightarrow> [(k, JNum n)]))) (rn_organizationId run)) (\<lambda>_.
     ret (ReservationDenied (rr_reservationId req) (REASONS sc)))"

definition usage_of ::
  "run_row \<Rightarrow> string \<Rightarrow> reservation_request \<Rightarrow> string \<Rightarrow> string \<Rightarrow> price option \<Rightarrow> int \<Rightarrow> int \<Rightarrow> usage_row" where
  "usage_of run runtimeId req h period p granted nowMs =
     \<lparr>us_id = rr_reservationId req, us_organizationId = rn_organizationId run, us_runId = rn_id run,
      us_employeeId = rn_employeeId run, us_agentId = rn_agentId run, us_runtimeId = runtimeId,
      us_provider = rr_provider req, us_model = rr_model req, us_period = period,
      us_reservedTokens = rr_estimatedInputTokens req + granted, us_maxOutputTokens = granted,
      us_status = RESERVED, us_inputTokens = None, us_outputTokens = None, us_requestHash = h,
      us_createdAt = nowMs, us_settledAt = None, us_priceId = map_option pz_id p,
      us_currency = map_option pz_currency p,
      us_reservedCost = map_option (\<lambda>pz. costMicros pz (rr_estimatedInputTokens req) granted) p, us_cost = None\<rparr>"

text \<open>The decision against every limit, once the price is known to be usable.\<close>

definition decide_limits ::
  "'z spending_env \<Rightarrow> run_row \<Rightarrow> string \<Rightarrow> reservation_request \<Rightarrow> string \<Rightarrow> int \<Rightarrow> model_budget \<Rightarrow> price option \<Rightarrow>
   ('z spending_db_scheme, reservation) op" where
  "decide_limits env run runtimeId req h nowMs budget p =
     (let org = rn_organizationId run; period = periodOf nowMs in
      andThen (charged org (\<lambda>u. us_period u = period)) (\<lambda>month.
      andThen (charged org (\<lambda>u. us_runId u = rn_id run)) (\<lambda>thisRun.
      let fits = fits_of budget p month thisRun (rr_estimatedInputTokens req);
          granted = granted_output (rr_maxOutputTokens req) fits in
      case (tightest fits, granted < min MIN_OUTPUT_TOKENS (rr_maxOutputTokens req)) of
        (Some f, True) \<Rightarrow>
          andThen (deny_reservation run runtimeId req period (Some (ft_scope f)) (Some (ft_remaining f))) (\<lambda>denial.
          andThen (case monthly_alert (ft_scope f) of
             None \<Rightarrow> ret ()
           | Some reached \<Rightarrow> check_alerts env
               \<lparr>ak_organizationId = org, ak_actorId = runtimeId, ak_period = period, ak_budget = budget,
                ak_charged = month, ak_reached = Some reached, ak_nowMs = nowMs\<rparr>) (\<lambda>_.
          ret denial))
      | _ \<Rightarrow>
          andThen (insert_row sp_reservations_update us_organizationId usage_checks
             (usage_of run runtimeId req h period p granted nowMs)) (\<lambda>_.
          andThen (checkAlerts env org runtimeId period budget nowMs) (\<lambda>_.
          ret (ReservationAllowed (rr_reservationId req) granted))))))"

definition new_reservation ::
  "'z spending_env \<Rightarrow> run_row \<Rightarrow> string \<Rightarrow> reservation_request \<Rightarrow> string \<Rightarrow> int \<Rightarrow>
   ('z spending_db_scheme, reservation) op" where
  "new_reservation env run runtimeId req h nowMs =
     (let org = rn_organizationId run in
      andThen (budget_of org) (\<lambda>budget.
      andThen (current_price org (rr_provider req) (rr_model req)) (\<lambda>p.
      if cost_limited budget \<and> map_option pz_currency p \<noteq> Some (bg_currency budget)
      then deny_reservation run runtimeId req (periodOf nowMs) None None
      else decide_limits env run runtimeId req h nowMs budget p)))"

definition usage_row_of :: "string \<Rightarrow> string \<Rightarrow> ('z spending_db_scheme, usage_row option) op" where
  "usage_row_of org i = select_one sp_reservations us_organizationId (\<lambda>u. us_id u = i \<and> us_organizationId u = org)"

definition reserve ::
  "'z spending_env \<Rightarrow> run_row \<Rightarrow> string \<Rightarrow> reservation_request \<Rightarrow> int \<Rightarrow> ('z spending_db_scheme, reservation) op" where
  "reserve env run runtimeId req nowMs =
     (let h = se_digest env (reservation_json req) in
      andThen (usage_row_of (rn_organizationId run) (rr_reservationId req)) (\<lambda>existing.
      case existing of
        Some u \<Rightarrow>
          andThen (demand (us_requestHash u = h) (Refused 409 ''MODEL_RESERVATION_CONFLICT'')) (\<lambda>_.
          ret (ReservationAllowed (rr_reservationId req) (us_maxOutputTokens u)))
      | None \<Rightarrow> new_reservation env run runtimeId req h nowMs))"

section \<open>Settlement\<close>

record settlement_request =
  sm_reservationId :: string
  sm_correlation :: correlation
  sm_inputTokens :: int
  sm_outputTokens :: int

text \<open>\<open>priceOf\<close>: the price a reservation was made at.\<close>

definition reserved_price :: "string \<Rightarrow> usage_row \<Rightarrow> ('z spending_db_scheme, price option) op" where
  "reserved_price org u =
     (case us_priceId u of
        None \<Rightarrow> ret None
      | Some i \<Rightarrow>
          andThen (select_one sp_prices mp_organizationId (\<lambda>p. mp_organizationId p = org \<and> mp_id p = i)) (\<lambda>row.
          case row of None \<Rightarrow> throw (Raised ''MODEL_PRICE_MISSING'') | Some p \<Rightarrow> ret (Some (price_of_row p))))"

definition settled_row :: "settlement_request \<Rightarrow> price option \<Rightarrow> int \<Rightarrow> usage_row \<Rightarrow> usage_row" where
  "settled_row req p nowMs u =
     u\<lparr>us_status := SETTLED, us_inputTokens := Some (sm_inputTokens req),
       us_outputTokens := Some (sm_outputTokens req),
       us_cost := map_option (\<lambda>pz. costMicros pz (sm_inputTokens req) (sm_outputTokens req)) p,
       us_settledAt := Some nowMs\<rparr>"

definition settle ::
  "'z spending_env \<Rightarrow> string \<Rightarrow> string \<Rightarrow> settlement_request \<Rightarrow> int \<Rightarrow> ('z spending_db_scheme, unit) op" where
  "settle env org runtimeId req nowMs =
     andThen (usage_row_of org (sm_reservationId req)) (\<lambda>row.
     case filtered (\<lambda>u. us_runId u = co_runId (sm_correlation req) \<and> us_runtimeId u = runtimeId) row of
       None \<Rightarrow> throw (Refused 404 ''MODEL_RESERVATION_NOT_FOUND'')
     | Some u \<Rightarrow>
         if us_status u = SETTLED
         then demand (us_inputTokens u = Some (sm_inputTokens req) \<and> us_outputTokens u = Some (sm_outputTokens req))
                (Refused 409 ''MODEL_RESERVATION_SETTLED'')
         else
           andThen (reserved_price org u) (\<lambda>p.
           andThen (update_rows sp_reservations sp_reservations_update us_organizationId usage_update_checks
              (\<lambda>q. us_id q = sm_reservationId req \<and> us_organizationId q = org \<and> us_status q = RESERVED)
              (settled_row req p nowMs)) (\<lambda>_.
           andThen (budget_of org) (\<lambda>budget.
           checkAlerts env org runtimeId (us_period u) budget nowMs))))"

section \<open>Administration\<close>

text \<open>
  \<open>budgetInput\<close>. A limit is an integer or null; \<open>optional_field\<close> is \<open>None\<close> when the schema fails
  and \<open>Some None\<close> when the field is absent.
\<close>

definition limit_field :: "int \<Rightarrow> string \<Rightarrow> json \<Rightarrow> int option option" where
  "limit_field most k v =
     (if json_field k v = Some JNull then Some None
      else map_option Some (filtered (\<lambda>n. 0 < n \<and> n \<le> most) (int_field k v)))"

definition optional_field :: "(string \<Rightarrow> json \<Rightarrow> 'a option) \<Rightarrow> string \<Rightarrow> json \<Rightarrow> 'a option option" where
  "optional_field f k v = (if json_field k v = None then Some None else map_option Some (f k v))"

fun numbers :: "json list \<Rightarrow> int list option" where
  "numbers [] = Some []"
| "numbers (JNum n # vs) = map_option (\<lambda>ns. n # ns) (numbers vs)"
| "numbers _ = None"

definition thresholds_field :: "string \<Rightarrow> json \<Rightarrow> int list option" where
  "thresholds_field k v =
     (case json_field k v of
        Some (JArr vs) \<Rightarrow>
          filtered (\<lambda>ns. list_all (\<lambda>n. 1 \<le> n \<and> n \<le> 99) ns \<and> length ns \<le> 5 \<and> distinct ns) (numbers vs)
      | _ \<Rightarrow> None)"

record budget_input =
  bi_monthlyTokenLimit :: "int option"
  bi_runTokenLimit :: "int option"
  bi_currency :: "string option"
  bi_monthlyCostLimitMicros :: "int option option"
  bi_runCostLimitMicros :: "int option option"
  bi_alertThresholds :: "int list option"
  bi_version :: nat

definition MAX_LIMIT :: int where
  "MAX_LIMIT = 1000000000000"

definition MAX_COST_LIMIT :: int where
  "MAX_COST_LIMIT = 1000000000000000"

definition parse_budget :: "json \<Rightarrow> budget_input option" where
  "parse_budget v =
     (if strict [''monthlyTokenLimit'', ''runTokenLimit'', ''currency'', ''monthlyCostLimitMicros'',
          ''runCostLimitMicros'', ''alertThresholdsPercent'', ''version''] v then
        (case (limit_field MAX_LIMIT ''monthlyTokenLimit'' v, limit_field MAX_LIMIT ''runTokenLimit'' v,
               optional_field (\<lambda>k v. filtered currency_text (text_field k v)) ''currency'' v,
               optional_field (limit_field MAX_COST_LIMIT) ''monthlyCostLimitMicros'' v,
               optional_field (limit_field MAX_COST_LIMIT) ''runCostLimitMicros'' v,
               optional_field thresholds_field ''alertThresholdsPercent'' v,
               filtered (\<lambda>n. 0 \<le> n) (int_field ''version'' v)) of
           (Some m, Some r, Some c, Some mc, Some rc, Some ts, Some n) \<Rightarrow>
             Some \<lparr>bi_monthlyTokenLimit = m, bi_runTokenLimit = r, bi_currency = c,
               bi_monthlyCostLimitMicros = mc, bi_runCostLimitMicros = rc, bi_alertThresholds = ts,
               bi_version = nat n\<rparr>
         | _ \<Rightarrow> None)
      else None)"

definition getBudget :: "actor \<Rightarrow> ('z spending_db_scheme, model_budget) op" where
  "getBudget a = asAdmin a (budget_of (ac_organizationId a))"

definition given_or :: "'a option \<Rightarrow> 'a \<Rightarrow> 'a" where
  "given_or v d = (case v of None \<Rightarrow> d | Some x \<Rightarrow> x)"

text \<open>The row after the change; omitted optional fields keep their values.\<close>

definition changed_budget :: "actor \<Rightarrow> budget_input \<Rightarrow> model_budget \<Rightarrow> int \<Rightarrow> budget_row" where
  "changed_budget a i before timestamp =
     \<lparr>bg_monthlyTokenLimit = bi_monthlyTokenLimit i, bg_runTokenLimit = bi_runTokenLimit i,
      bg_currency = given_or (bi_currency i) (bg_currency before),
      bg_monthlyCostLimitMicros = given_or (bi_monthlyCostLimitMicros i) (bg_monthlyCostLimitMicros before),
      bg_runCostLimitMicros = given_or (bi_runCostLimitMicros i) (bg_runCostLimitMicros before),
      bg_alertThresholds = given_or (bi_alertThresholds i) (bg_alertThresholds before),
      bg_version = bg_version before + 1, bg_updatedBy = Some (ac_id a), bg_updatedAt = Some timestamp,
      bg_organizationId = ac_organizationId a\<rparr>"

definition store_budget :: "actor \<Rightarrow> budget_input \<Rightarrow> model_budget \<Rightarrow> int \<Rightarrow> ('z spending_db_scheme, unit) op" where
  "store_budget a i before timestamp =
     (let row = changed_budget a i before timestamp in
      if bg_version before = 0
      then insert_row sp_budgets_update bg_organizationId budget_checks row
      else andThen (update_rows sp_budgets sp_budgets_update bg_organizationId (\<lambda>s b b'. budget_valid s b')
             (\<lambda>b. bg_organizationId b = ac_organizationId a \<and> bg_version b = bi_version i)
             (\<lambda>b. row\<lparr>bg_version := bg_version b + 1, bg_organizationId := bg_organizationId b\<rparr>)) (\<lambda>_. ret ()))"

text \<open>
  The change itself: the caller's version must be the current one, and the currency is fixed once
  the organization has set a price. Returns the budget before and the time of the change.
\<close>

definition update_budget :: "actor \<Rightarrow> budget_input \<Rightarrow> ('z spending_db_scheme, model_budget \<times> int) op" where
  "update_budget a i =
     andThen (budget_of (ac_organizationId a)) (\<lambda>before.
     andThen (demand (bg_version before = bi_version i) (Refused 409 ''VERSION_CONFLICT'')) (\<lambda>_.
     andThen (if given_or (bi_currency i) (bg_currency before) = bg_currency before then ret False
              else hasPriceHistory (ac_organizationId a)) (\<lambda>fixed.
     andThen (demand (\<not> fixed) (Refused 409 ''MODEL_CURRENCY_FIXED'')) (\<lambda>_.
     andThen now (\<lambda>timestamp.
     andThen (store_budget a i before timestamp) (\<lambda>_.
     ret (before, timestamp)))))))"

definition setBudget :: "'z spending_env \<Rightarrow> actor \<Rightarrow> json \<Rightarrow> ('z spending_db_scheme, model_budget) op" where
  "setBudget env a raw =
     (case parse_budget raw of
        None \<Rightarrow> throw (Raised ''ZodError'')
      | Some i \<Rightarrow>
          asAdmin a
           (andThen (update_budget a i) (\<lambda>(before, timestamp).
            andThen (budget_of (ac_organizationId a)) (\<lambda>after'.
            andThen (recordChange a ''model_budget.updated'' ''model_budget'' (ac_organizationId a)
               (if bg_version before = 0 then None else Some (BudgetSnapshot before))
               (Some (BudgetSnapshot after')) timestamp) (\<lambda>_.
            andThen now (\<lambda>periodMs. andThen now (\<lambda>nowMs.
            andThen (checkAlerts env (ac_organizationId a) (ac_id a) (periodOf periodMs) after' nowMs) (\<lambda>_.
            ret after'))))))))"

text \<open>The report of one month.\<close>

record usage_totals =
  ut_chargedTokens :: int
  ut_chargedCostMicros :: int
  ut_calls :: nat
  ut_unpricedCalls :: nat

record usage_report = usage_totals +
  ur_period :: string
  ur_budget :: model_budget
  ur_inputTokens :: int
  ur_outputTokens :: int
  ur_unsettledReservedTokens :: int
  ur_remainingTokens :: "int option"
  ur_remainingCostMicros :: "int option"
  ur_byAgent :: "(string \<times> usage_totals) list"
  ur_byModel :: "((string \<times> string) \<times> usage_totals) list"

definition totals_of :: "usage_row list \<Rightarrow> usage_totals" where
  "totals_of us = \<lparr>ut_chargedTokens = total charged_tokens us, ut_chargedCostMicros = total charged_cost us,
     ut_calls = length us, ut_unpricedCalls = length (filter (\<lambda>u. us_priceId u = None) us)\<rparr>"

text \<open>\<open>GROUP BY\<close>, before its \<open>ORDER BY\<close>.\<close>

definition grouped :: "(usage_row \<Rightarrow> 'k) \<Rightarrow> usage_row list \<Rightarrow> ('k \<times> usage_totals) list" where
  "grouped key us = map (\<lambda>k. (k, totals_of (filter (\<lambda>u. key u = k) us))) (remdups (map key us))"

definition by_charge :: "('k \<times> usage_totals) list \<Rightarrow> ('k \<times> usage_totals) list" where
  "by_charge gs = sort_key (\<lambda>g. - ut_chargedTokens (snd g)) gs"

definition report_of :: "string \<Rightarrow> model_budget \<Rightarrow> usage_row list \<Rightarrow> usage_report" where
  "report_of period budget us =
     usage_totals.extend (totals_of us)
       \<lparr>ur_period = period, ur_budget = budget,
        ur_inputTokens = total (\<lambda>u. amount (us_inputTokens u)) us,
        ur_outputTokens = total (\<lambda>u. amount (us_outputTokens u)) us,
        ur_unsettledReservedTokens = total (\<lambda>u. if us_status u = RESERVED then us_reservedTokens u else 0) us,
        ur_remainingTokens = map_option (\<lambda>l. max 0 (l - total charged_tokens us)) (bg_monthlyTokenLimit budget),
        ur_remainingCostMicros = map_option (\<lambda>l. max 0 (l - total charged_cost us)) (bg_monthlyCostLimitMicros budget),
        ur_byAgent = by_charge (sort_key fst (grouped us_agentId us)),
        ur_byModel = by_charge (sort_key (\<lambda>g. fst (fst g)) (sort_key (\<lambda>g. snd (fst g))
          (grouped (\<lambda>u. (us_provider u, us_model u)) us)))\<rparr>"

definition usage :: "actor \<Rightarrow> json \<Rightarrow> int \<Rightarrow> ('z spending_db_scheme, usage_report) op" where
  "usage a query nowMs =
     (case parse_period query of
        None \<Rightarrow> throw (Raised ''ZodError'')
      | Some p \<Rightarrow>
          (let period = (case p of None \<Rightarrow> periodOf nowMs | Some t \<Rightarrow> t) in
           asAdmin a
            (andThen (budget_of (ac_organizationId a)) (\<lambda>budget.
             andThen (select sp_reservations us_organizationId
                (\<lambda>u. us_organizationId u = ac_organizationId a \<and> us_period u = period)) (\<lambda>us.
             ret (report_of period budget us))))))"

end
