(* ===== verification/ActionPolicies.thy ===== *)
theory ActionPolicies
  imports ActionStore
begin

text \<open>
  Organization overrides of the action policy (\<open>actions/action-policy-service.ts\<close>) and the
  manual reconciliation of writes whose outcome is unknown
  (\<open>actions/action-reconciliation.ts\<close>).
\<close>

section \<open>Policy overrides\<close>

text \<open>\<open>overrideSchema\<close>: \<open>ALLOW\<close> is absent, an organization can only tighten.\<close>

definition override_outcome :: "string \<Rightarrow> outcome option" where
  "override_outcome t =
     (if t = ''REQUIRE_APPROVAL'' then Some REQUIRE_APPROVAL else if t = ''DENY'' then Some DENY else None)"

definition parse_override :: "json \<Rightarrow> (outcome \<times> string) option" where
  "parse_override v =
     (if strict [''outcome'', ''reason''] v then
        (case (Option.bind (text_field ''outcome'' v) override_outcome,
               filtered (\<lambda>t. 1 \<le> length t \<and> length t \<le> 500) (map_option trim (text_field ''reason'' v))) of
           (Some oc, Some r) \<Rightarrow> Some (oc, r)
         | _ \<Rightarrow> None)
      else None)"

definition policy_key :: "string \<Rightarrow> string \<Rightarrow> policy_row \<Rightarrow> bool" where
  "policy_key org action p \<longleftrightarrow> po_organizationId p = org \<and> po_action p = action"

definition overrides :: "string \<Rightarrow> ('z action_db_scheme, policy_row list) op" where
  "overrides org =
     andThen (select ac_policies po_organizationId (\<lambda>p. po_organizationId p = org)) (\<lambda>ps.
     ret (sort_key po_action ps))"

definition upsert_policy :: "policy_row \<Rightarrow> ('z action_db_scheme, unit) op" where
  "upsert_policy p =
     andThen (gets (\<lambda>s. list_ex (policy_key (po_organizationId p) (po_action p)) (ac_policies s))) (\<lambda>present.
     if present
     then andThen (update_rows ac_policies ac_policies_update po_organizationId (\<lambda>s q q'. policy_valid s q')
            (policy_key (po_organizationId p) (po_action p))
            (\<lambda>q. q\<lparr>po_outcome := po_outcome p, po_reason := po_reason p, po_updatedBy := po_updatedBy p,
               po_updatedAt := po_updatedAt p\<rparr>)) (\<lambda>_. ret ())
     else insert_row ac_policies_update po_organizationId policy_valid p)"

fun outcome_name :: "outcome \<Rightarrow> string" where
  "outcome_name ALLOW = ''ALLOW''"
| "outcome_name REQUIRE_APPROVAL = ''REQUIRE_APPROVAL''"
| "outcome_name DENY = ''DENY''"

definition set_policy :: "actor \<Rightarrow> string \<Rightarrow> json \<Rightarrow> ('z action_db_scheme, policy_row) op" where
  "set_policy a action raw =
     (case parse_override raw of
        None \<Rightarrow> throw (Raised ''ZodError'')
      | Some (oc, reason) \<Rightarrow>
          asAdmin a
           (andThen (demand (isKnownAction action) (Refused 404 ''ACTION_UNKNOWN'')) (\<lambda>_.
            andThen now (\<lambda>timestamp.
            andThen (upsert_policy \<lparr>po_organizationId = ac_organizationId a, po_action = action,
               po_outcome = oc, po_reason = reason, po_updatedBy = ac_id a, po_updatedAt = timestamp\<rparr>) (\<lambda>_.
            andThen (audit (ac_id a) ''action_policy.set'' ''action_policy'' action
               (JObj [(''outcome'', JStr (outcome_name oc))]) (ac_organizationId a)) (\<lambda>_.
            andThen (overrides (ac_organizationId a)) (\<lambda>ps.
            case find (\<lambda>p. po_action p = action) ps of
              None \<Rightarrow> throw (Raised ''TypeError'') | Some p \<Rightarrow> ret p)))))))"

definition clear_policy :: "actor \<Rightarrow> string \<Rightarrow> ('z action_db_scheme, unit) op" where
  "clear_policy a action =
     asAdmin a
      (andThen (delete_rows ac_policies ac_policies_update po_organizationId
          (policy_key (ac_organizationId a) action)) (\<lambda>removed.
       andThen (demand (removed = 1) (Refused 404 ''ACTION_POLICY_NOT_FOUND'')) (\<lambda>_.
       audit (ac_id a) ''action_policy.cleared'' ''action_policy'' action (JObj []) (ac_organizationId a))))"

text \<open>\<open>outcome\<close>: the tenant's override, \<open>None\<close> when the platform default applies.\<close>

definition policy_outcome :: "string \<Rightarrow> string \<Rightarrow> ('z action_db_scheme, outcome option) op" where
  "policy_outcome org action =
     tenant org
      (andThen (select_one ac_policies po_organizationId (policy_key org action)) (\<lambda>row.
       ret (map_option po_outcome row)))"

record action_summary =
  as_action :: string
  as_defaultOutcome :: outcome
  as_risk :: risk
  as_controlPlane :: bool
  as_provider :: "provider option"
  as_override :: "policy_row option"

definition list_policies :: "actor \<Rightarrow> ('z action_db_scheme, action_summary list) op" where
  "list_policies a =
     asAdmin a
      (andThen (overrides (ac_organizationId a)) (\<lambda>ps.
       ret (map (\<lambda>action.
         \<lparr>as_action = action, as_defaultOutcome = pd_outcome (evaluatePolicy action),
          as_risk = pd_risk (evaluatePolicy action),
          as_controlPlane = (controlPlaneAction action \<noteq> None),
          as_provider = map_option ca_connectorProvider (controlPlaneAction action),
          as_override = find (\<lambda>p. po_action p = action) ps\<rparr>) (sort knownActions))))"

section \<open>Reconciliation\<close>

definition blocks :: "string \<Rightarrow> string \<Rightarrow> string \<Rightarrow> string \<Rightarrow> ('z action_db_scheme, bool) op" where
  "blocks org threadId action payloadDigest =
     andThen (select_one ac_reconciliations rc_organizationId
        (\<lambda>c. rc_organizationId c = org \<and> rc_action c = action \<and> rc_state c = REQUIRED \<and>
          (rc_threadId c = threadId \<or> rc_payloadDigest c = payloadDigest)))
       (\<lambda>row. ret (row \<noteq> None))"

fun reason_name :: "reconciliation_reason \<Rightarrow> string" where
  "reason_name OUTCOME_UNKNOWN = ''CONNECTOR_OUTCOME_UNKNOWN''"
| "reason_name INTERRUPTED = ''DISPATCH_INTERRUPTED''"

record require_input =
  ri_organizationId :: string
  ri_requestId :: string
  ri_runId :: string
  ri_agentId :: string
  ri_action :: string
  ri_payloadDigest :: string
  ri_reason :: reconciliation_reason

definition require_reconciliation :: "require_input \<Rightarrow> ('z action_db_scheme, unit) op" where
  "require_reconciliation i =
     andThen (select_one ex_runs rn_organizationId
        (\<lambda>r. rn_id r = ri_runId i \<and> rn_organizationId r = ri_organizationId i)) (\<lambda>row.
     case row of
       None \<Rightarrow> ret ()
     | Some run \<Rightarrow>
         andThen now (\<lambda>timestamp.
         andThen (insert_unless ac_reconciliations ac_reconciliations_update rc_organizationId
            reconciliation_valid reconciliation_checks rc_requestId
            \<lparr>rc_requestId = ri_requestId i, rc_organizationId = ri_organizationId i,
             rc_threadId = rn_threadId run, rc_runId = ri_runId i, rc_action = ri_action i,
             rc_payloadDigest = ri_payloadDigest i, rc_reason = ri_reason i, rc_state = REQUIRED,
             rc_createdAt = timestamp, rc_resolvedBy = None, rc_resolvedAt = None, rc_note = None\<rparr>) (\<lambda>inserted.
         whenever (inserted = 1)
           (audit (ri_agentId i) ''action.reconciliation.required'' ''agent_run'' (ri_runId i)
              (JObj [(''action'', JStr (ri_action i)), (''requestId'', JStr (ri_requestId i)),
                     (''reason'', JStr (reason_name (ri_reason i)))]) (ri_organizationId i)))))"

record reconciliation_view =
  rv_row :: reconciliation_row
  rv_stepId :: "string option"
  rv_target :: "(string \<times> string) option"
  rv_summary :: "string option"

text \<open>
  \<open>described\<close>: target and summary of the original request, from its approval or else written
  again from the stored parameters, redacted. An empty text counts as absent.
\<close>

definition present :: "string \<Rightarrow> string option" where
  "present t = (if t = [] then None else Some t)"

definition first_of :: "'a option \<Rightarrow> 'a option \<Rightarrow> 'a option" where
  "first_of x y = (case x of None \<Rightarrow> y | Some a \<Rightarrow> Some a)"

definition described ::
  "(string \<Rightarrow> string) \<Rightarrow> string \<Rightarrow> action_request option \<Rightarrow> approval_row option \<Rightarrow>
   (string \<times> string) option \<times> string option" where
  "described redact action request approval =
     (let written = Option.bind (controlPlaneAction action)
            (\<lambda>h. Option.bind (Option.bind request rq_parameters) (ca_parameters h));
          target = first_of
            (Option.bind approval (\<lambda>a. map_option (\<lambda>t. (t, ap_resourceId a)) (present (ap_resourceType a))))
            (map_option ca_resource written);
          summary = first_of
            (Option.bind approval (\<lambda>a. present (ap_summary a)))
            (map_option (\<lambda>p. ca_summary p (Option.bind request rq_changeSet)) written)
      in (map_option (\<lambda>(t, i). (redact t, redact i)) target,
          map_option redact (Option.bind summary present)))"

text \<open>A row of \<open>SELECT_RECONCILIATIONS\<close>, mapped.\<close>

definition reconciliation_of ::
  "'z gateway_env \<Rightarrow> reconciliation_row \<Rightarrow> ('z action_db_scheme, reconciliation_view) op" where
  "reconciliation_of env c =
     andThen (select_one ac_requests rq_organizationId
        (\<lambda>q. rq_id q = rc_requestId c \<and> rq_organizationId q = rc_organizationId c)) (\<lambda>request.
     andThen (case Option.bind request rq_approvalId of
        None \<Rightarrow> ret None
      | Some i \<Rightarrow> select_one ex_approvals ap_organizationId
          (\<lambda>a. ap_id a = i \<and> ap_organizationId a = rc_organizationId c)) (\<lambda>approval.
     let (target, summary) = described (gw_redact env) (rc_action c) request approval in
     ret \<lparr>rv_row = c, rv_stepId = map_option rq_stepId request, rv_target = target, rv_summary = summary\<rparr>))"

definition list_reconciliations ::
  "'z gateway_env \<Rightarrow> actor \<Rightarrow> ('z action_db_scheme, reconciliation_view list) op" where
  "list_reconciliations env a =
     asAdmin a
      (andThen (select ac_reconciliations rc_organizationId (\<lambda>c. rc_organizationId c = ac_organizationId a)) (\<lambda>cs.
       gather (reconciliation_of env)
         (take 200 (filter (\<lambda>c. rc_state c = REQUIRED) (rev cs) @
                    filter (\<lambda>c. rc_state c \<noteq> REQUIRED) (rev cs)))))"

definition resolution_state :: "string \<Rightarrow> reconciliation_state option" where
  "resolution_state t =
     (if t = ''APPLIED'' then Some APPLIED else if t = ''NOT_APPLIED'' then Some NOT_APPLIED else None)"

definition parse_resolution :: "json \<Rightarrow> (reconciliation_state \<times> string option) option" where
  "parse_resolution v =
     (if strict [''resolution'', ''note''] v then
        (case Option.bind (text_field ''resolution'' v) resolution_state of
           None \<Rightarrow> None
         | Some st \<Rightarrow>
             if json_field ''note'' v = None then Some (st, None)
             else map_option (\<lambda>n. (st, Some n))
               (filtered (\<lambda>t. 1 \<le> length t \<and> length t \<le> 500) (map_option trim (text_field ''note'' v))))
      else None)"

fun state_name :: "reconciliation_state \<Rightarrow> string" where
  "state_name REQUIRED = ''REQUIRED''"
| "state_name APPLIED = ''APPLIED''"
| "state_name NOT_APPLIED = ''NOT_APPLIED''"

definition reconciliation_row_of ::
  "string \<Rightarrow> string \<Rightarrow> ('z action_db_scheme, reconciliation_row option) op" where
  "reconciliation_row_of org requestId =
     select_one ac_reconciliations rc_organizationId
       (\<lambda>c. rc_requestId c = requestId \<and> rc_organizationId c = org)"

definition resolve_reconciliation ::
  "'z gateway_env \<Rightarrow> actor \<Rightarrow> string \<Rightarrow> json \<Rightarrow> ('z action_db_scheme, reconciliation_view) op" where
  "resolve_reconciliation env a requestId raw =
     (case parse_resolution raw of
        None \<Rightarrow> throw (Raised ''ZodError'')
      | Some (resolution, note) \<Rightarrow>
          asAdmin a
           (andThen (reconciliation_row_of (ac_organizationId a) requestId) (\<lambda>row.
            case row of
              None \<Rightarrow> throw (Refused 404 ''RECONCILIATION_NOT_FOUND'')
            | Some c \<Rightarrow>
                andThen (demand (rc_state c = REQUIRED) (Refused 409 ''RECONCILIATION_RESOLVED'')) (\<lambda>_.
                andThen now (\<lambda>timestamp.
                andThen (update_rows ac_reconciliations ac_reconciliations_update rc_organizationId
                   reconciliation_update_checks
                   (\<lambda>q. rc_requestId q = requestId \<and> rc_organizationId q = ac_organizationId a \<and> rc_state q = REQUIRED)
                   (\<lambda>q. q\<lparr>rc_state := resolution, rc_resolvedBy := Some (ac_id a),
                      rc_resolvedAt := Some timestamp, rc_note := note\<rparr>)) (\<lambda>_.
                andThen (audit (ac_id a) ''action.reconciliation.resolved'' ''agent_run'' (rc_runId c)
                   (JObj [(''action'', JStr (rc_action c)), (''requestId'', JStr requestId),
                          (''resolution'', JStr (state_name resolution))]) (ac_organizationId a)) (\<lambda>_.
                andThen (reconciliation_row_of (ac_organizationId a) requestId) (\<lambda>again.
                case again of None \<Rightarrow> throw (Raised ''TypeError'') | Some c' \<Rightarrow> reconciliation_of env c'))))))))"

end
