(* ===== verification/ActionGateway.thy ===== *)
theory ActionGateway
  imports ActionPolicies
begin

text \<open>
  The Action Gateway (\<open>actions/action-gateway.ts\<close>): it assesses governed actions against the
  signed manifest, the pinned catalog bundle and Policy v2, records decisions, creates expiring
  approvals, commits to at most one dispatch or one grant per request, and records outcomes.
  Telemetry and the connectors' HTTP calls are outside the model; \<open>nowMs\<close> is the parameter of the
  same name.
\<close>

section \<open>Data\<close>

record action_message =
  rm_requestId :: string
  rm_correlation :: step_correlation
  rm_action :: string
  rm_toolId :: string
  rm_toolVersion :: string
  rm_inputDigest :: string
  rm_summary :: string
  rm_parameters :: "json option"

record assess_request =
  sq_action :: string
  sq_toolId :: string
  sq_toolVersion :: "string option"
  sq_parameters :: "json option"
  sq_inputDigest :: "string option"

record execution_target =
  xt_policy :: execution_action
  xt_operation :: operation
  xt_isolation :: isolation
  xt_timeoutMs :: int

record assessment =
  at_outcome :: outcome
  at_risk :: risk
  at_reason :: string
  at_policy :: "action_policy_decision option"
  at_handler :: "ctl_action option"
  at_parameters :: "json option"
  at_connection :: "connection_row option"
  at_summary :: "string option"
  at_resource :: "(string \<times> string) option"
  at_changes :: "change_set option"
  at_execution :: "execution_target option"

definition deny :: "string \<Rightarrow> assessment" where
  "deny reason =
     \<lparr>at_outcome = DENY, at_risk = CRITICAL, at_reason = reason, at_policy = None, at_handler = None,
      at_parameters = None, at_connection = None, at_summary = None, at_resource = None,
      at_changes = None, at_execution = None\<rparr>"

definition MAX_CHANGE_SET_FILES :: nat where
  "MAX_CHANGE_SET_FILES = 100"

definition MAX_CHANGE_SET_BYTES :: int where
  "MAX_CHANGE_SET_BYTES = 1024 * 1024"

record action_execution =
  xo_requestId :: string
  xo_succeeded :: bool
  xo_result :: "(string \<times> string) list option"
  xo_error :: "error_info option"

record pending_dispatch =
  dp_requestId :: string
  dp_organizationId :: string
  dp_runId :: string
  dp_agentId :: string
  dp_action :: string
  dp_handler :: ctl_action
  dp_parameters :: json
  dp_connection :: connection_row
  dp_secret :: string
  dp_changes :: "change_set option"
  dp_payloadDigest :: string

datatype execution_plan = Done action_execution | Dispatch pending_dispatch

record decision_view =
  dv_requestId :: string
  dv_decision :: action_decision
  dv_risk :: risk
  dv_reason :: string
  dv_approvalId :: "string option"

section \<open>Change sets\<close>

text \<open>The recorded writes under a directory, as relative paths and contents, in order.\<close>

definition recorded_write :: "string \<Rightarrow> json \<Rightarrow> (string \<times> string) option" where
  "recorded_write directory v =
     (case (text_field ''kind'' v, text_field ''content'' v, text_field ''path'' v) of
        (Some k, Some c, Some p) \<Rightarrow>
          if k = ''file.write'' \<and> startsWith (directory @ ''/'') p
          then Some (drop (length directory + 1) p, c) else None
      | _ \<Rightarrow> None)"

definition latest_files :: "(string \<times> string) list \<Rightarrow> changed_file list" where
  "latest_files writes =
     map (\<lambda>p. \<lparr>cf_path = p, cf_content = the (map_of (rev writes) p)\<rparr>) (sort (remdups (map fst writes)))"

definition files_json :: "changed_file list \<Rightarrow> json" where
  "files_json files =
     JArr (map (\<lambda>f. JObj [(''path'', JStr (cf_path f)), (''content'', JStr (cf_content f))]) files)"

definition change_bytes :: "changed_file list \<Rightarrow> int" where
  "change_bytes files = sum_list (map (\<lambda>f. int (utf8_length (cf_content f))) files)"

definition change_set_of :: "'z gateway_env \<Rightarrow> (string \<times> string) list \<Rightarrow> string + change_set" where
  "change_set_of env writes =
     (let files = latest_files writes in
      if files = [] then Inl ''CHANGE_SET_EMPTY''
      else if length files > MAX_CHANGE_SET_FILES \<or> change_bytes files > MAX_CHANGE_SET_BYTES
      then Inl ''CHANGE_SET_TOO_LARGE''
      else Inr \<lparr>ch_digest = gw_digest env (files_json files), ch_files = files\<rparr>)"

text \<open>The granted writes of the thread whose step completed, oldest first.\<close>

definition granted_writes :: "run_row \<Rightarrow> ('z action_db_scheme, action_request list) op" where
  "granted_writes run =
     andThen (select ac_requests rq_organizationId
        (\<lambda>q. rq_organizationId q = rn_organizationId run \<and> rq_action q = ''repository.write'' \<and>
           rq_parameters q \<noteq> None)) (\<lambda>qs.
     andThen (select ex_runs rn_organizationId (\<lambda>r. rn_threadId r = rn_threadId run)) (\<lambda>rs.
     andThen (select ex_steps st_organizationId (\<lambda>t. st_status t = StepCOMPLETED)) (\<lambda>ts.
     andThen (select ac_grants gr_organizationId (\<lambda>g. True)) (\<lambda>gs.
     ret (sort_key rq_createdAt (filter
       (\<lambda>q. list_ex (\<lambda>r. rn_id r = rq_runId q \<and> rn_organizationId r = rq_organizationId q) rs \<and>
            list_ex (\<lambda>t. st_id t = rq_stepId q) ts \<and> list_ex (\<lambda>g. gr_requestId g = rq_id q) gs) qs))))))"

definition changeSet ::
  "'z gateway_env \<Rightarrow> run_row \<Rightarrow> string \<Rightarrow> ('z action_db_scheme, string + change_set) op" where
  "changeSet env run directory =
     andThen (granted_writes run) (\<lambda>qs.
     ret (change_set_of env
       (List.map_filter (\<lambda>q. Option.bind (rq_parameters q) (recorded_write directory)) qs)))"

section \<open>Assessment\<close>

text \<open>\<open>proceed\<close> goes on unless a step denied, with the reason of the denial as \<open>Inl\<close>.\<close>

definition proceed ::
  "('s, string + 'a) op \<Rightarrow> ('a \<Rightarrow> ('s, string + 'b) op) \<Rightarrow> ('s, string + 'b) op" where
  "proceed m f = andThen m (\<lambda>v. case v of Inl reason \<Rightarrow> ret (Inl reason) | Inr x \<Rightarrow> f x)"

definition unless_denied :: "bool \<Rightarrow> string \<Rightarrow> ('s, string + unit) op" where
  "unless_denied ok reason = ret (if ok then Inr () else Inl reason)"

definition given :: "'a option \<Rightarrow> string \<Rightarrow> ('s, string + 'a) op" where
  "given v reason = ret (case v of None \<Rightarrow> Inl reason | Some x \<Rightarrow> Inr x)"

text \<open>Errors with a \<open>code\<close>: domain and database errors, and Node's own (\<open>ERR_...\<close>).\<close>

definition has_code :: "failure \<Rightarrow> bool" where
  "has_code e = (case e of Raised m \<Rightarrow> startsWith ''ERR_'' m | _ \<Rightarrow> True)"

definition current_manifest ::
  "'z gateway_env \<Rightarrow> run_row \<Rightarrow> ('z action_db_scheme, string + agent_manifest) op" where
  "current_manifest env run =
     attempt (andThen (gw_loadManifest env (rn_agentId run) (rn_organizationId run) (rn_employeeId run))
                (\<lambda>m. ret (Inr m)))
       (\<lambda>e. if has_code e then throw e else ret (Inl ''MANIFEST_INVALID''))"

definition pinned_bundle ::
  "'z gateway_env \<Rightarrow> agent_manifest \<Rightarrow> ('z action_db_scheme, string + blueprint_bundle) op" where
  "pinned_bundle env m =
     attempt (andThen (gw_bundle env (am_blueprintId m) (am_blueprintVersion m)) (\<lambda>b. ret (Inr b)))
       (\<lambda>e. ret (Inl ''BLUEPRINT_UNAVAILABLE''))"

text \<open>Manifest, bundle, tool and capability of a request: the checks before the action's own.\<close>

definition governed ::
  "'z gateway_env \<Rightarrow> run_row \<Rightarrow> assess_request \<Rightarrow>
   ('z action_db_scheme, string + (agent_manifest \<times> tool_definition \<times> outcome)) op" where
  "governed env run req =
     proceed (current_manifest env run) (\<lambda>m.
     proceed (unless_denied (mj_apiVersion (manifestSubject m) = V2 \<and>
        Some (mj_manifestId (manifestSubject m)) = map_option mr_manifestId (rn_manifest run)) ''MANIFEST_INVALID'') (\<lambda>_.
     proceed (unless_denied (sq_toolId req \<in> set (am_tools m)) ''TOOL_NOT_IN_MANIFEST'') (\<lambda>_.
     proceed (pinned_bundle env m) (\<lambda>b.
     proceed (unless_denied (am_blueprintDigest m \<noteq> Some [] \<and> am_blueprintDigest m = Some (bb_digest b))
        ''BLUEPRINT_DIGEST_MISMATCH'') (\<lambda>_.
     proceed (given (find (\<lambda>t. td_id t = sq_toolId req) (bb_tools b)) ''TOOL_VERSION_MISMATCH'') (\<lambda>tool.
     proceed (unless_denied (case sq_toolVersion req of None \<Rightarrow> True | Some v \<Rightarrow> td_version tool = v)
        ''TOOL_VERSION_MISMATCH'') (\<lambda>_.
     proceed (unless_denied (sq_action req \<in> set (td_governedActions tool)) ''ACTION_NOT_GOVERNED_BY_TOOL'') (\<lambda>_.
     proceed (given (find (\<lambda>c. fst c = sq_action req) (mf_capabilities m)) ''ACTION_NOT_IN_MANIFEST'') (\<lambda>c.
     ret (Inr (m, tool, snd c)))))))))))"

text \<open>What an action acts on: its validated parameters, connection, scoped target and changes.\<close>

record action_target =
  tg_parameters :: "json option"
  tg_connection :: "connection_row option"
  tg_resource :: "scoped_resource option"
  tg_changes :: "change_set option"
  tg_execution :: "execution_target option"
  tg_summary :: "string option"

definition same_digest :: "'z gateway_env \<Rightarrow> assess_request \<Rightarrow> json \<Rightarrow> bool" where
  "same_digest env req v = (case sq_inputDigest req of None \<Rightarrow> True | Some d \<Rightarrow> gw_digest env v = d)"

definition directory_changes ::
  "'z gateway_env \<Rightarrow> run_row \<Rightarrow> ctl_parameters \<Rightarrow> ('z action_db_scheme, string + change_set option) op" where
  "directory_changes env run p =
     (case ca_changeSetDirectory p of
        None \<Rightarrow> ret (Inr None)
      | Some d \<Rightarrow> proceed (changeSet env run d) (\<lambda>c. ret (Inr (Some c))))"

definition connector_target ::
  "'z gateway_env \<Rightarrow> run_row \<Rightarrow> agent_manifest \<Rightarrow> ctl_action \<Rightarrow> assess_request \<Rightarrow>
   ('z action_db_scheme, string + action_target) op" where
  "connector_target env run m h req =
     proceed (given (sq_parameters req) ''PARAMETERS_REQUIRED'') (\<lambda>v.
     proceed (given (ca_parameters h v) ''PARAMETERS_INVALID'') (\<lambda>p.
     proceed (unless_denied (same_digest env req v) ''INPUT_DIGEST_MISMATCH'') (\<lambda>_.
     proceed (andThen (active_connection (rn_organizationId run) (ca_connectorProvider h))
        (\<lambda>c. given c ''CONNECTOR_NOT_CONFIGURED'')) (\<lambda>c.
     proceed (unless_denied (list_ex (\<lambda>(i, capabilities). i = provider_name (ca_connectorProvider h) \<and>
           ca_requiredCapability h \<in> set capabilities) (am_connectors m)) ''CONNECTOR_CAPABILITY_MISSING'') (\<lambda>_.
     proceed (directory_changes env run p) (\<lambda>changes.
     ret (Inr
       \<lparr>tg_parameters = Some v, tg_connection = Some c,
        tg_resource = Some \<lparr>sr_type = fst (ca_resource p), sr_id = snd (ca_resource p),
          sr_inScope = ca_inScope (gw_web env) p (cn_settings c) (am_configuration m)\<rparr>,
        tg_changes = changes, tg_execution = None, tg_summary = Some (ca_summary p changes)\<rparr>)))))))"

text \<open>Where the action's own text or URL functions throw, the request fails with a \<open>TypeError\<close>.\<close>

definition needs_url :: "'a option \<Rightarrow> ('s, 'a) op" where
  "needs_url v = (case v of None \<Rightarrow> throw (Raised ''ERR_INVALID_URL'') | Some x \<Rightarrow> ret x)"

definition runtime_target ::
  "'z gateway_env \<Rightarrow> agent_manifest \<Rightarrow> tool_definition \<Rightarrow> execution_action \<Rightarrow> assess_request \<Rightarrow>
   ('z action_db_scheme, string + action_target) op" where
  "runtime_target env m tool x req =
     proceed (given (sq_parameters req) ''PARAMETERS_REQUIRED'') (\<lambda>v.
     proceed (given (parseExecutionOperation (gw_web env) v) ''PARAMETERS_INVALID'') (\<lambda>oper.
     proceed (unless_denied (operation_kind oper \<in> set (xa_operations x)) ''OPERATION_NOT_ALLOWED'') (\<lambda>_.
     proceed (unless_denied (same_digest env req v) ''INPUT_DIGEST_MISMATCH'') (\<lambda>_.
     andThen (needs_url (xa_resource (gw_web env) x oper)) (\<lambda>(rtype, rid).
     andThen (needs_url (xa_summary (gw_web env) x oper)) (\<lambda>summary.
     ret (Inr
       \<lparr>tg_parameters = Some v, tg_connection = None,
        tg_resource = Some \<lparr>sr_type = rtype, sr_id = rid,
          sr_inScope = xa_inScope (gw_web env) x oper (am_configuration m)\<rparr>,
        tg_changes = None,
        tg_execution = Some \<lparr>xt_policy = x, xt_operation = oper, xt_isolation = am_isolation m,
          xt_timeoutMs = td_timeoutMs tool\<rparr>,
        tg_summary = Some (take 500 summary)\<rparr>)))))))"

definition no_target :: action_target where
  "no_target = \<lparr>tg_parameters = None, tg_connection = None, tg_resource = None, tg_changes = None,
     tg_execution = None, tg_summary = None\<rparr>"

definition action_target_of ::
  "'z gateway_env \<Rightarrow> run_row \<Rightarrow> agent_manifest \<Rightarrow> tool_definition \<Rightarrow> assess_request \<Rightarrow>
   ('z action_db_scheme, string + action_target) op" where
  "action_target_of env run m tool req =
     (case controlPlaneAction (sq_action req) of
        Some h \<Rightarrow> connector_target env run m h req
      | None \<Rightarrow>
          (case executionAction (sq_action req) of
             Some x \<Rightarrow> runtime_target env m tool x req
           | None \<Rightarrow> ret (Inr no_target)))"

definition policy_of ::
  "run_row \<Rightarrow> string \<Rightarrow> outcome \<Rightarrow> outcome option \<Rightarrow> scoped_resource option \<Rightarrow> action_policy_decision" where
  "policy_of run action manifestOutcome organizationOutcome resource =
     evaluateActionPolicy
       \<lparr>pc_action = action, pc_organizationId = rn_organizationId run, pc_agentId = rn_agentId run,
        pc_employeeId = rn_employeeId run, pc_manifestOutcome = Some manifestOutcome,
        pc_organizationOutcome = organizationOutcome, pc_resource = resource\<rparr>"

definition verdict_of ::
  "string \<Rightarrow> action_target \<Rightarrow> action_policy_decision \<Rightarrow> assessment" where
  "verdict_of action target policy =
     \<lparr>at_outcome = pd_outcome policy, at_risk = pd_risk policy, at_reason = pd_reason policy,
      at_policy = Some policy, at_handler = controlPlaneAction action,
      at_parameters = tg_parameters target, at_connection = tg_connection target,
      at_summary = tg_summary target,
      at_resource = map_option (\<lambda>r. (sr_type r, sr_id r)) (tg_resource target),
      at_changes = tg_changes target, at_execution = tg_execution target\<rparr>"

definition assess ::
  "'z gateway_env \<Rightarrow> run_row \<Rightarrow> assess_request \<Rightarrow> ('z action_db_scheme, assessment) op" where
  "assess env run req =
     andThen
      (proceed (governed env run req) (\<lambda>(m, tool, manifestOutcome).
       proceed (action_target_of env run m tool req) (\<lambda>target.
       andThen (policy_outcome (rn_organizationId run) (sq_action req)) (\<lambda>organizationOutcome.
       ret (Inr (verdict_of (sq_action req) target
         (policy_of run (sq_action req) manifestOutcome organizationOutcome (tg_resource target))))))))
      (\<lambda>v. ret (case v of Inl reason \<Rightarrow> deny reason | Inr a \<Rightarrow> a))"

section \<open>Deciding\<close>

text \<open>A write with an unreconciled earlier attempt is denied instead.\<close>

definition blocked_verdict ::
  "'z gateway_env \<Rightarrow> run_row \<Rightarrow> string \<Rightarrow> assessment \<Rightarrow> ('z action_db_scheme, assessment) op" where
  "blocked_verdict env run action verdict =
     (case at_parameters verdict of
        Some v \<Rightarrow>
          (if at_outcome verdict \<noteq> DENY \<and> map_option ca_effect (at_handler verdict) = Some WriteEffect
           then andThen (blocks (rn_organizationId run) (rn_threadId run) action (gw_digest env v)) (\<lambda>blocked.
             ret (if blocked
                  then verdict\<lparr>at_outcome := DENY, at_reason := ''ACTION_RECONCILIATION_REQUIRED'', at_policy := None\<rparr>
                  else verdict))
           else ret verdict)
      | None \<Rightarrow> ret verdict)"

definition approval_ttl :: "assessment \<Rightarrow> int" where
  "approval_ttl verdict =
     (case at_policy verdict of
        None \<Rightarrow> 3600
      | Some p \<Rightarrow>
          (case List.map_filter (\<lambda>c. case c of APPROVAL_TTL_SECONDS n \<Rightarrow> Some n | _ \<Rightarrow> None) (pd_conditions p) of
             [] \<Rightarrow> 3600 | n # _ \<Rightarrow> n))"

definition request_summary :: "assessment \<Rightarrow> action_message \<Rightarrow> string" where
  "request_summary verdict msg = (case at_summary verdict of None \<Rightarrow> rm_summary msg | Some t \<Rightarrow> t)"

text \<open>The approval of a decision, which pauses the run in the same transaction.\<close>

definition request_approval ::
  "'z gateway_env \<Rightarrow> run_row \<Rightarrow> action_message \<Rightarrow> assessment \<Rightarrow> string \<Rightarrow> int \<Rightarrow>
   ('z action_db_scheme, unit) op" where
  "request_approval env run msg verdict approvalId now' =
     andThen (insert_row ex_approvals_update ap_organizationId approval_checks
       \<lparr>ap_id = approvalId, ap_organizationId = rn_organizationId run, ap_requestedBy = rn_employeeId run,
        ap_action = rm_action msg,
        ap_resourceType = (case at_resource verdict of None \<Rightarrow> ''agent_run'' | Some r \<Rightarrow> fst r),
        ap_resourceId = (case at_resource verdict of None \<Rightarrow> rn_id run | Some r \<Rightarrow> snd r),
        ap_risk = at_risk verdict, ap_summary = request_summary verdict msg, ap_status = ApPENDING,
        ap_decidedBy = None, ap_decidedAt = None, ap_createdAt = now', ap_runId = Some (rn_id run),
        ap_stepId = Some (gc_stepId (rm_correlation msg)),
        ap_expiresAt = Some (now' + approval_ttl verdict * 1000)\<rparr>) (\<lambda>_.
     pauseForApproval (gw_execution env) (rn_organizationId run) (rn_id run) (gc_stepId (rm_correlation msg))
       \<lparr>aq_id = approvalId, aq_action = rm_action msg, aq_risk = at_risk verdict,
        aq_summary = request_summary verdict msg\<rparr>)"

fun decision_of :: "outcome \<Rightarrow> action_decision" where
  "decision_of ALLOW = ALLOWED"
| "decision_of DENY = DENIED"
| "decision_of REQUIRE_APPROVAL = APPROVAL_REQUIRED"

text \<open>The recorded request; only payloads that may still run are kept.\<close>

definition request_row ::
  "string \<Rightarrow> run_row \<Rightarrow> action_message \<Rightarrow> string \<Rightarrow> assessment \<Rightarrow> string option \<Rightarrow> int \<Rightarrow> action_request" where
  "request_row runtimeId run msg requestHash verdict approvalId now' =
     \<lparr>rq_id = rm_requestId msg, rq_organizationId = rn_organizationId run, rq_runId = rn_id run,
      rq_stepId = gc_stepId (rm_correlation msg), rq_runtimeId = runtimeId, rq_action = rm_action msg,
      rq_toolId = rm_toolId msg, rq_requestHash = requestHash,
      rq_decision = decision_of (at_outcome verdict), rq_risk = at_risk verdict,
      rq_reason = at_reason verdict, rq_approvalId = approvalId, rq_createdAt = now',
      rq_parameters = (if at_outcome verdict \<noteq> DENY then at_parameters verdict else None),
      rq_policyId = map_option pd_policyId (at_policy verdict),
      rq_policyVersion = map_option pd_policyVersion (at_policy verdict),
      rq_changeSet = (if at_outcome verdict \<noteq> DENY then at_changes verdict else None)\<rparr>"

fun decision_event :: "action_decision \<Rightarrow> string" where
  "decision_event ALLOWED = ''runtime.action.allowed''"
| "decision_event DENIED = ''runtime.action.denied''"
| "decision_event APPROVAL_REQUIRED = ''runtime.action.approval_required''"

definition decision_metadata :: "string \<Rightarrow> action_message \<Rightarrow> assessment \<Rightarrow> string option \<Rightarrow> json" where
  "decision_metadata runtimeId msg verdict approvalId =
     JObj ([(''action'', JStr (rm_action msg)), (''toolId'', JStr (rm_toolId msg)),
        (''runtimeId'', JStr runtimeId), (''requestId'', JStr (rm_requestId msg))] @
       (case at_policy verdict of None \<Rightarrow> []
        | Some p \<Rightarrow> [(''policyId'', JStr (pd_policyId p)), (''policyVersion'', JStr (pd_policyVersion p))]) @
       (case approvalId of None \<Rightarrow> [] | Some i \<Rightarrow> [(''approvalId'', JStr i)]))"

definition storedDecision :: "action_request \<Rightarrow> decision_view" where
  "storedDecision q =
     \<lparr>dv_requestId = rq_id q, dv_decision = rq_decision q, dv_risk = rq_risk q, dv_reason = rq_reason q,
      dv_approvalId = (if rq_decision q = APPROVAL_REQUIRED then rq_approvalId q else None)\<rparr>"

definition request_of :: "action_message \<Rightarrow> assess_request" where
  "request_of msg =
     \<lparr>sq_action = rm_action msg, sq_toolId = rm_toolId msg, sq_toolVersion = Some (rm_toolVersion msg),
      sq_parameters = rm_parameters msg, sq_inputDigest = Some (rm_inputDigest msg)\<rparr>"

text \<open>Recording a verdict: the approval if one is needed, the request, the audit event.\<close>

definition record_decision ::
  "'z gateway_env \<Rightarrow> string \<Rightarrow> run_row \<Rightarrow> action_message \<Rightarrow> string \<Rightarrow> assessment \<Rightarrow>
   ('z action_db_scheme, decision_view) op" where
  "record_decision env runtimeId run msg requestHash verdict =
     andThen now (\<lambda>now'.
     andThen (if at_outcome verdict = REQUIRE_APPROVAL
              then andThen randomUUID (\<lambda>i. ret (Some i)) else ret None) (\<lambda>approvalId.
     andThen (case approvalId of None \<Rightarrow> ret () | Some i \<Rightarrow> request_approval env run msg verdict i now') (\<lambda>_.
     andThen (insert_row ac_requests_update rq_organizationId request_checks
        (request_row runtimeId run msg requestHash verdict approvalId now')) (\<lambda>_.
     andThen (audit (rn_agentId run) (decision_event (decision_of (at_outcome verdict))) ''agent_run''
        (rn_id run) (decision_metadata runtimeId msg verdict approvalId) (rn_organizationId run)) (\<lambda>_.
     andThen (select_one ac_requests rq_organizationId
        (\<lambda>q. rq_id q = rm_requestId msg \<and> rq_organizationId q = rn_organizationId run)) (\<lambda>row.
     case row of None \<Rightarrow> throw (Raised ''TypeError'') | Some q \<Rightarrow> ret (storedDecision q)))))))"

definition decide_action ::
  "'z gateway_env \<Rightarrow> string \<Rightarrow> run_row \<Rightarrow> action_message \<Rightarrow> string \<Rightarrow>
   ('z action_db_scheme, decision_view) op" where
  "decide_action env runtimeId run msg requestHash =
     tenant (rn_organizationId run)
      (andThen (assess env run (request_of msg)) (\<lambda>assessed.
       andThen (blocked_verdict env run (rm_action msg) assessed) (\<lambda>verdict.
       record_decision env runtimeId run msg requestHash verdict)))"

section \<open>Expiry\<close>

text \<open>
  Pending approvals past their deadline expire, and the runs they paused are cancelled: of one
  organization, or of all of them in the platform scope.
\<close>

definition due :: "int \<Rightarrow> string option \<Rightarrow> approval_row \<Rightarrow> bool" where
  "due nowMs org a \<longleftrightarrow> ap_status a = ApPENDING \<and>
     (case ap_expiresAt a of None \<Rightarrow> False | Some e \<Rightarrow> e \<le> nowMs) \<and>
     (case org of None \<Rightarrow> True | Some o' \<Rightarrow> ap_organizationId a = o')"

definition expire_approval :: "'z gateway_env \<Rightarrow> approval_row \<Rightarrow> ('z action_db_scheme, unit) op" where
  "expire_approval env a =
     andThen (update_rows ex_approvals ex_approvals_update ap_organizationId (\<lambda>s q q'. None)
        (\<lambda>q. ap_id q = ap_id a \<and> ap_organizationId q = ap_organizationId a \<and> ap_status q = ApPENDING)
        (\<lambda>q. q\<lparr>ap_status := ApEXPIRED\<rparr>)) (\<lambda>_.
     andThen (onApprovalExpired (gw_execution env) (ap_organizationId a) (ap_id a)) (\<lambda>_.
     audit ''platform'' ''approval.expired'' ''approval'' (ap_id a) (JObj []) (ap_organizationId a)))"

definition sweep :: "'z gateway_env \<Rightarrow> int \<Rightarrow> string option \<Rightarrow> ('z action_db_scheme, nat) op" where
  "sweep env nowMs org =
     andThen (select ex_approvals ap_organizationId (due nowMs org)) (\<lambda>as.
     andThen (each (expire_approval env) (sort_key (\<lambda>a. the (ap_expiresAt a)) as)) (\<lambda>_.
     ret (length as)))"

definition expireDue :: "'z gateway_env \<Rightarrow> int \<Rightarrow> string option \<Rightarrow> ('z action_db_scheme, nat) op" where
  "expireDue env nowMs org =
     (case org of
        Some o' \<Rightarrow> if o' = [] then platform (sweep env nowMs None) else tenant o' (sweep env nowMs org)
      | None \<Rightarrow> platform (sweep env nowMs None))"

section \<open>Executing\<close>

definition OUTCOME_UNKNOWN_CODES :: "string list" where
  "OUTCOME_UNKNOWN_CODES = [''CONNECTOR_OUTCOME_UNKNOWN'', ''DISPATCH_INTERRUPTED'']"

definition OUTCOME_UNKNOWN_MESSAGE :: string where
  "OUTCOME_UNKNOWN_MESSAGE =
     ''The external system did not confirm this action, so it may or may not have happened. '' @
     ''Do not repeat it: an administrator must check the external system first.''"

definition storedExecution :: "execution_row \<Rightarrow> action_execution" where
  "storedExecution x =
     (let code = (case xr_errorCode x of None \<Rightarrow> ''ACTION_FAILED'' | Some c \<Rightarrow> c) in
      \<lparr>xo_requestId = xr_requestId x, xo_succeeded = (xr_status x = SUCCEEDED), xo_result = xr_result x,
       xo_error = (if xr_status x = SUCCEEDED then None
         else Some \<lparr>er_code = code,
           er_message = (if code \<in> set OUTCOME_UNKNOWN_CODES then OUTCOME_UNKNOWN_MESSAGE
             else ''The action did not succeed.'')\<rparr>)\<rparr>)"

definition staleDispatchMs :: "'z gateway_env \<Rightarrow> int" where
  "staleDispatchMs env =
     (case gw_staleDispatchMs env of
        Some n \<Rightarrow> n
      | None \<Rightarrow> (case gw_dispatchTimeoutMs env of None \<Rightarrow> 30000 | Some t \<Rightarrow> t) + 30000)"

record interrupted_execution =
  ix_requestId :: string
  ix_organizationId :: string
  ix_runId :: string
  ix_agentId :: string
  ix_action :: string
  ix_effect :: effect
  ix_parameters :: "json option"

text \<open>\<open>interrupt\<close>: close a dispatch without a recorded outcome.\<close>

definition interrupt :: "'z gateway_env \<Rightarrow> interrupted_execution \<Rightarrow> ('z action_db_scheme, bool) op" where
  "interrupt env x =
     andThen now (\<lambda>timestamp.
     andThen (update_rows ac_executions ac_executions_update xr_organizationId execution_update_checks
        (\<lambda>q. xr_requestId q = ix_requestId x \<and> xr_organizationId q = ix_organizationId x \<and> xr_status q = DISPATCHING)
        (\<lambda>q. q\<lparr>xr_status := ExFAILED, xr_errorCode := Some ''DISPATCH_INTERRUPTED'',
           xr_completedAt := Some timestamp\<rparr>)) (\<lambda>closed.
     if closed \<noteq> 1 then ret False
     else
       andThen (audit (ix_agentId x) ''action.execution.interrupted'' ''agent_run'' (ix_runId x)
          (JObj [(''action'', JStr (ix_action x)), (''requestId'', JStr (ix_requestId x))])
          (ix_organizationId x)) (\<lambda>_.
       andThen (case (ix_effect x, ix_parameters x) of
            (WriteEffect, Some v) \<Rightarrow>
              require_reconciliation
                \<lparr>ri_organizationId = ix_organizationId x, ri_requestId = ix_requestId x, ri_runId = ix_runId x,
                 ri_agentId = ix_agentId x, ri_action = ix_action x, ri_payloadDigest = gw_digest env v,
                 ri_reason = INTERRUPTED\<rparr>
          | _ \<Rightarrow> ret ()) (\<lambda>_.
       ret True))))"

text \<open>The executions a stopped control plane left open, in every organization.\<close>

definition stale_executions ::
  "'z gateway_env \<Rightarrow> int \<Rightarrow> ('z action_db_scheme, interrupted_execution list) op" where
  "stale_executions env nowMs =
     andThen (select ac_executions xr_organizationId
        (\<lambda>x. xr_status x = DISPATCHING \<and> xr_startedAt x < nowMs - staleDispatchMs env)) (\<lambda>xs.
     andThen (select ac_requests rq_organizationId (\<lambda>q. True)) (\<lambda>qs.
     andThen (select ex_runs rn_organizationId (\<lambda>r. True)) (\<lambda>rs.
     ret (take 100 (List.map_filter (\<lambda>x.
       case (find (\<lambda>q. rq_id q = xr_requestId x \<and> rq_organizationId q = xr_organizationId x) qs,
             find (\<lambda>r. rn_id r = xr_runId x \<and> rn_organizationId r = xr_organizationId x) rs) of
         (Some q, Some r) \<Rightarrow>
           Some \<lparr>ix_requestId = xr_requestId x, ix_organizationId = xr_organizationId x,
             ix_runId = xr_runId x, ix_agentId = rn_agentId r, ix_action = rq_action q,
             ix_effect = (case controlPlaneAction (rq_action q) of None \<Rightarrow> WriteEffect | Some h \<Rightarrow> ca_effect h),
             ix_parameters = rq_parameters q\<rparr>
       | _ \<Rightarrow> None) (sort_key xr_startedAt xs))))))"

definition reconcileInterrupted :: "'z gateway_env \<Rightarrow> int \<Rightarrow> ('z action_db_scheme, nat) op" where
  "reconcileInterrupted env nowMs =
     platform
      (andThen (stale_executions env nowMs) (\<lambda>xs.
       andThen (gather (interrupt env) xs) (\<lambda>closed. ret (length (filter id closed)))))"

text \<open>\<open>refuse\<close>: a refused execution is recorded as failed, so the request cannot be retried.\<close>

definition refuse_execution ::
  "run_row \<Rightarrow> ctl_action \<Rightarrow> string \<Rightarrow> int \<Rightarrow> string \<Rightarrow> string \<Rightarrow> ('z action_db_scheme, execution_plan) op" where
  "refuse_execution run h requestId nowMs code message =
     andThen (insert_row ac_executions_update xr_organizationId execution_checks
        \<lparr>xr_requestId = requestId, xr_organizationId = rn_organizationId run, xr_runId = rn_id run,
         xr_connectionId = None, xr_status = ExFAILED, xr_result = None, xr_errorCode = Some code,
         xr_startedAt = nowMs, xr_completedAt = Some nowMs\<rparr>) (\<lambda>_.
     andThen (audit (rn_agentId run) ''action.execution.refused'' ''agent_run'' (rn_id run)
        (JObj [(''action'', JStr (ca_action h)), (''requestId'', JStr requestId), (''code'', JStr code)])
        (rn_organizationId run)) (\<lambda>_.
     ret (Done \<lparr>xo_requestId = requestId, xo_succeeded = False, xo_result = None,
       xo_error = Some \<lparr>er_code = code, er_message = message\<rparr>\<rparr>)))"

definition executed_row :: "string \<Rightarrow> string \<Rightarrow> ('z action_db_scheme, execution_row option) op" where
  "executed_row org requestId =
     select_one ac_executions xr_organizationId (\<lambda>x. xr_requestId x = requestId \<and> xr_organizationId x = org)"

text \<open>An execution that exists: its outcome, unless it is still being dispatched.\<close>

definition existing_execution ::
  "'z gateway_env \<Rightarrow> run_row \<Rightarrow> action_request \<Rightarrow> ctl_action \<Rightarrow> int \<Rightarrow> execution_row \<Rightarrow>
   ('z action_db_scheme, execution_plan) op" where
  "existing_execution env run q h nowMs x =
     (if xr_status x \<noteq> DISPATCHING then ret (Done (storedExecution x))
      else
        andThen (demand (xr_startedAt x + staleDispatchMs env \<le> nowMs)
           (Refused 409 ''ACTION_EXECUTION_IN_PROGRESS'')) (\<lambda>_.
        andThen (interrupt env
          \<lparr>ix_requestId = rq_id q, ix_organizationId = rn_organizationId run, ix_runId = rn_id run,
           ix_agentId = rn_agentId run, ix_action = ca_action h, ix_effect = ca_effect h,
           ix_parameters = rq_parameters q\<rparr>) (\<lambda>_.
        andThen (executed_row (rn_organizationId run) (rq_id q)) (\<lambda>row.
        case row of None \<Rightarrow> throw (Raised ''TypeError'') | Some x' \<Rightarrow> ret (Done (storedExecution x'))))))"

text \<open>
  What the decision's approval allows: \<open>Inl\<close> the refusal, \<open>Inr\<close> the approval's own expiry.
\<close>

definition approval_verdict ::
  "action_request \<Rightarrow> int \<Rightarrow> ('z action_db_scheme, (string \<times> string) + int option) op" where
  "approval_verdict q nowMs =
     (case rq_decision q of
        DENIED \<Rightarrow> ret (Inl (''ACTION_DENIED'', ''The action was denied.''))
      | ALLOWED \<Rightarrow> ret (Inr None)
      | APPROVAL_REQUIRED \<Rightarrow>
          andThen (select_one ex_approvals ap_organizationId
             (\<lambda>a. Some (ap_id a) = rq_approvalId q \<and> ap_organizationId a = rq_organizationId q)) (\<lambda>row.
          ret (case row of
             None \<Rightarrow> Inl (''APPROVAL_NOT_GRANTED'', ''The action has not been approved.'')
           | Some a \<Rightarrow>
               if ap_status a = ApEXPIRED \<or> (case ap_expiresAt a of None \<Rightarrow> False | Some e \<Rightarrow> e \<le> nowMs)
               then Inl (''APPROVAL_EXPIRED'', ''The approval expired before execution.'')
               else if ap_status a \<noteq> ApAPPROVED
               then Inl (''APPROVAL_NOT_GRANTED'', ''The action has not been approved.'')
               else Inr (ap_expiresAt a))))"

text \<open>A request assessed again at execution time; the tool's version is not repeated.\<close>

definition request_again :: "action_request \<Rightarrow> assess_request" where
  "request_again q =
     \<lparr>sq_action = rq_action q, sq_toolId = rq_toolId q, sq_toolVersion = None,
      sq_parameters = rq_parameters q, sq_inputDigest = None\<rparr>"

text \<open>The checks between the current assessment and the commitment to dispatch.\<close>

definition execution_refusal ::
  "'z gateway_env \<Rightarrow> run_row \<Rightarrow> ctl_action \<Rightarrow> action_request \<Rightarrow> assessment \<Rightarrow>
   ('z action_db_scheme, (string \<times> string) + (connection_row \<times> json)) op" where
  "execution_refusal env run h q current =
     (if at_outcome current = DENY then ret (Inl (''POLICY_DENIED'', at_reason current))
      else if at_outcome current = REQUIRE_APPROVAL \<and> rq_decision q = ALLOWED
      then ret (Inl (''APPROVAL_REQUIRED'', ''Policy now requires approval; request the action again.''))
      else case (at_connection current, at_parameters current) of
        (Some c, Some v) \<Rightarrow>
          if map_option ch_digest (rq_changeSet q) \<noteq> map_option ch_digest (at_changes current)
          then ret (Inl (''CHANGE_SET_CHANGED'', ''The workspace changed after the decision.''))
          else
            andThen (if ca_effect h = WriteEffect
               then blocks (rn_organizationId run) (rn_threadId run) (ca_action h) (gw_digest env v)
               else ret False) (\<lambda>blocked.
            ret (if blocked
                 then Inl (''ACTION_RECONCILIATION_REQUIRED'', ''An earlier attempt at this action has '' @
                   ''an unknown outcome and must be reconciled first.'')
                 else Inr (c, v)))
      | _ \<Rightarrow> ret (Inl (''CONNECTOR_NOT_CONFIGURED'', ''No active connection for this action.'')))"

definition commit_dispatch ::
  "'z gateway_env \<Rightarrow> run_row \<Rightarrow> ctl_action \<Rightarrow> action_request \<Rightarrow> int \<Rightarrow> connection_row \<Rightarrow> json \<Rightarrow> string \<Rightarrow>
   ('z action_db_scheme, execution_plan) op" where
  "commit_dispatch env run h q nowMs c v secret =
     andThen (insert_row ac_executions_update xr_organizationId execution_checks
        \<lparr>xr_requestId = rq_id q, xr_organizationId = rn_organizationId run, xr_runId = rn_id run,
         xr_connectionId = Some (cn_id c), xr_status = DISPATCHING, xr_result = None, xr_errorCode = None,
         xr_startedAt = nowMs, xr_completedAt = None\<rparr>) (\<lambda>_.
     ret (Dispatch
       \<lparr>dp_requestId = rq_id q, dp_organizationId = rn_organizationId run, dp_runId = rn_id run,
        dp_agentId = rn_agentId run, dp_action = ca_action h, dp_handler = h, dp_parameters = v,
        dp_connection = c, dp_secret = secret, dp_changes = rq_changeSet q,
        dp_payloadDigest = gw_digest env v\<rparr>))"

definition new_execution ::
  "'z gateway_env \<Rightarrow> run_row \<Rightarrow> action_request \<Rightarrow> ctl_action \<Rightarrow> int \<Rightarrow>
   ('z action_db_scheme, execution_plan) op" where
  "new_execution env run q h nowMs =
     andThen (approval_verdict q nowMs) (\<lambda>approved.
     case approved of
       Inl (code, message) \<Rightarrow> refuse_execution run h (rq_id q) nowMs code message
     | Inr _ \<Rightarrow>
         andThen (assess env run (request_again q)) (\<lambda>current.
         andThen (execution_refusal env run h q current) (\<lambda>refusal.
         case refusal of
           Inl (code, message) \<Rightarrow> refuse_execution run h (rq_id q) nowMs code message
         | Inr (c, v) \<Rightarrow>
             (case gw_resolveSecret env (rn_organizationId run) (cn_secretRef c) of
                SecretFailure e \<Rightarrow> throw e
              | SecretUnavailable \<Rightarrow>
                  refuse_execution run h (rq_id q) nowMs ''SECRET_UNRESOLVED''
                    ''The connection credential is unavailable.''
              | Secret secret \<Rightarrow> commit_dispatch env run h q nowMs c v secret))))"

definition requested :: "run_row \<Rightarrow> string \<Rightarrow> string \<Rightarrow> ('z action_db_scheme, action_request) op" where
  "requested run requestId stepId =
     andThen (select_one ac_requests rq_organizationId
        (\<lambda>q. rq_id q = requestId \<and> rq_organizationId q = rn_organizationId run \<and> rq_runId q = rn_id run)) (\<lambda>row.
     case row of
       None \<Rightarrow> throw (Refused 404 ''ACTION_REQUEST_NOT_FOUND'')
     | Some q \<Rightarrow>
         andThen (demand (rq_stepId q = stepId) (Refused 409 ''RUNTIME_CORRELATION_MISMATCH'')) (\<lambda>_. ret q))"

definition prepareExecution ::
  "'z gateway_env \<Rightarrow> run_row \<Rightarrow> string \<Rightarrow> string \<Rightarrow> int \<Rightarrow> ('z action_db_scheme, execution_plan) op" where
  "prepareExecution env run requestId stepId nowMs =
     tenant (rn_organizationId run)
      (andThen (expireDue env nowMs (Some (rn_organizationId run))) (\<lambda>_.
       andThen (requested run requestId stepId) (\<lambda>q.
       case controlPlaneAction (rq_action q) of
         None \<Rightarrow> throw (Refused 409 ''ACTION_NOT_EXECUTABLE'')
       | Some h \<Rightarrow>
           andThen (executed_row (rn_organizationId run) requestId) (\<lambda>row.
           case row of
             Some x \<Rightarrow> existing_execution env run q h nowMs x
           | None \<Rightarrow> new_execution env run q h nowMs))))"

text \<open>What the connector call came to.\<close>

datatype connector_outcome =
    Connected "(string \<times> string) list"
  | ConnectorError string "nat option"
  | UnexpectedError

definition failure_code :: "effect \<Rightarrow> connector_outcome \<Rightarrow> string option" where
  "failure_code eff oc =
     (case oc of
        Connected _ \<Rightarrow> None
      | ConnectorError code _ \<Rightarrow>
          Some (if eff = ReadEffect \<and> code = ''CONNECTOR_OUTCOME_UNKNOWN''
                then ''CONNECTOR_REQUEST_FAILED'' else code)
      | UnexpectedError \<Rightarrow>
          Some (if eff = WriteEffect then ''CONNECTOR_OUTCOME_UNKNOWN'' else ''CONNECTOR_FAILED''))"

text \<open>\<open>dispatch\<close>: the connector call itself is \<open>connect\<close>.\<close>

definition dispatch :: "(pending_dispatch \<Rightarrow> connector_outcome) \<Rightarrow> pending_dispatch \<Rightarrow> action_execution" where
  "dispatch connect p =
     (let oc = connect p;
          status = (case oc of ConnectorError _ (Some n) \<Rightarrow> if n = 0 then [] else '' (HTTP '' @ digits n @ '')'' | _ \<Rightarrow> []) in
      case failure_code (ca_effect (dp_handler p)) oc of
        None \<Rightarrow>
          \<lparr>xo_requestId = dp_requestId p, xo_succeeded = True,
           xo_result = (case oc of Connected r \<Rightarrow> Some r | _ \<Rightarrow> None), xo_error = None\<rparr>
      | Some code \<Rightarrow>
          \<lparr>xo_requestId = dp_requestId p, xo_succeeded = False, xo_result = None,
           xo_error = Some \<lparr>er_code = code,
             er_message = (if code \<in> set OUTCOME_UNKNOWN_CODES then OUTCOME_UNKNOWN_MESSAGE
               else ''The '' @ provider_name (cn_provider (dp_connection p)) @ '' connector failed'' @ status @ ''.'')\<rparr>\<rparr>)"

definition completion_metadata :: "pending_dispatch \<Rightarrow> action_execution \<Rightarrow> json" where
  "completion_metadata p outcome =
     JObj ([(''action'', JStr (dp_action p)), (''requestId'', JStr (dp_requestId p)),
        (''connectionId'', JStr (cn_id (dp_connection p)))] @
       (case xo_result outcome of None \<Rightarrow> []
        | Some r \<Rightarrow> [(''result'', JObj (map (\<lambda>(k, t). (k, JStr t)) (ca_auditResult (dp_handler p) r)))]) @
       (case xo_error outcome of None \<Rightarrow> [] | Some e \<Rightarrow> [(''code'', JStr (er_code e))]))"

definition completeExecution ::
  "'z gateway_env \<Rightarrow> pending_dispatch \<Rightarrow> action_execution \<Rightarrow> ('z action_db_scheme, action_execution) op" where
  "completeExecution env p outcome =
     tenant (dp_organizationId p)
      (andThen now (\<lambda>timestamp.
       andThen (update_rows ac_executions ac_executions_update xr_organizationId execution_update_checks
          (\<lambda>q. xr_requestId q = dp_requestId p \<and> xr_organizationId q = dp_organizationId p \<and> xr_status q = DISPATCHING)
          (\<lambda>q. q\<lparr>xr_status := (if xo_succeeded outcome then SUCCEEDED else ExFAILED),
             xr_result := xo_result outcome, xr_errorCode := map_option er_code (xo_error outcome),
             xr_completedAt := Some timestamp\<rparr>)) (\<lambda>recorded.
       if recorded \<noteq> 1
       then andThen (executed_row (dp_organizationId p) (dp_requestId p)) (\<lambda>row.
              case row of None \<Rightarrow> throw (Raised ''TypeError'') | Some x \<Rightarrow> ret (storedExecution x))
       else
         andThen (whenever (ca_effect (dp_handler p) = WriteEffect \<and>
             map_option er_code (xo_error outcome) = Some ''CONNECTOR_OUTCOME_UNKNOWN'')
           (require_reconciliation
              \<lparr>ri_organizationId = dp_organizationId p, ri_requestId = dp_requestId p, ri_runId = dp_runId p,
               ri_agentId = dp_agentId p, ri_action = dp_action p, ri_payloadDigest = dp_payloadDigest p,
               ri_reason = OUTCOME_UNKNOWN\<rparr>)) (\<lambda>_.
         andThen (audit (dp_agentId p) (if xo_succeeded outcome then ''action.executed'' else ''action.execution.failed'')
            ''agent_run'' (dp_runId p) (completion_metadata p outcome) (dp_organizationId p)) (\<lambda>_.
         ret outcome)))))"

section \<open>Grants\<close>

text \<open>
  \<open>refuse\<close> of a grant: the audit event it writes is rolled back with the transaction, so only
  the error remains.
\<close>

definition refuse_grant :: "string \<Rightarrow> nat \<Rightarrow> ('s, 'a) op" where
  "refuse_grant code status = throw (Refused status code)"

definition grant_timeout :: "int \<Rightarrow> int" where
  "grant_timeout t = max 1000 (min t 3600000)"

definition grant_limits :: "execution_target \<Rightarrow> string list \<Rightarrow> resource_limits" where
  "grant_limits x hosts =
     \<lparr>lm_timeoutMs = grant_timeout (xt_timeoutMs x), lm_cpuMillis = 2000, lm_memoryMb = 2048,
      lm_maxProcesses = (case xa_maxProcesses (xt_policy x) of None \<Rightarrow> DEFAULT_MAX_PROCESSES | Some n \<Rightarrow> n),
      lm_allowedHosts = hosts\<rparr>"

definition grant_credential_for ::
  "'z gateway_env \<Rightarrow> run_row \<Rightarrow> string \<Rightarrow> string \<Rightarrow> operation \<Rightarrow> string \<Rightarrow> string \<Rightarrow> int \<Rightarrow> int \<Rightarrow>
   ('z action_db_scheme, grant_credential option) op" where
  "grant_credential_for env run requestId grantId oper operationDigest runtimeId grantExpiresAt nowMs =
     (case gw_leaseForCheckout env of
        Some lease \<Rightarrow>
          if operation_kind oper = ''git.checkout''
          then lease \<lparr>lr_run = run, lr_requestId = requestId, lr_grantId = grantId, lr_operation = oper,
                 lr_operationDigest = operationDigest, lr_runtimeId = runtimeId,
                 lr_grantExpiresAt = grantExpiresAt, lr_nowMs = nowMs\<rparr>
          else ret None
      | None \<Rightarrow> ret None)"

definition new_grant ::
  "'z gateway_env \<Rightarrow> run_row \<Rightarrow> action_request \<Rightarrow> step_correlation \<Rightarrow> string \<Rightarrow> int \<Rightarrow> int \<Rightarrow>
   execution_target \<Rightarrow> json \<Rightarrow> ('z action_db_scheme, signed_grant) op" where
  "new_grant env run q correlation runtimeId nowMs expiresAt x v =
     andThen (needs_url (xa_hosts (gw_web env) (xt_policy x) (xt_operation x))) (\<lambda>hosts.
     andThen randomUUID (\<lambda>grantId.
     andThen (grant_credential_for env run (rq_id q) grantId (xt_operation x) (gw_digest env v) runtimeId
        expiresAt nowMs) (\<lambda>credential.
     let payload =
       \<lparr>gp_grantId = grantId, gp_requestId = rq_id q, gp_action = rq_action q, gp_correlation = correlation,
        gp_operationKind = operation_kind (xt_operation x), gp_operationDigest = gw_digest env v,
        gp_isolation = xt_isolation x, gp_limits = grant_limits x hosts, gp_credential = credential,
        gp_issuedAt = nowMs, gp_expiresAt = expiresAt\<rparr>;
       grant = \<lparr>sg_payload = payload, sg_signature = gw_sign env payload\<rparr> in
     andThen (insert_row ac_grants_update gr_organizationId grant_checks
        \<lparr>gr_grantId = grantId, gr_requestId = rq_id q, gr_organizationId = rn_organizationId run,
         gr_runId = rn_id run, gr_operationKind = gp_operationKind payload, gr_signedGrant = grant,
         gr_issuedAt = nowMs, gr_expiresAt = expiresAt\<rparr>) (\<lambda>_.
     andThen (audit (rn_agentId run) ''action.grant.issued'' ''agent_run'' (rn_id run)
        (JObj ([(''action'', JStr (rq_action q)), (''requestId'', JStr (rq_id q)),
           (''grantId'', JStr grantId), (''operationKind'', JStr (gp_operationKind payload)),
           (''expiresAt'', JNum expiresAt)] @
          (case credential of None \<Rightarrow> [] | Some k \<Rightarrow> [(''credentialLeaseId'', JStr (gk_leaseId k))])))
        (rn_organizationId run)) (\<lambda>_.
     ret grant)))))"

definition grant_expiry :: "int \<Rightarrow> int option \<Rightarrow> int" where
  "grant_expiry nowMs approvalExpiry =
     (let e = nowMs + 10 * 60000 in
      case approvalExpiry of None \<Rightarrow> e | Some a \<Rightarrow> if a < e then a else e)"

definition authorized_grant ::
  "'z gateway_env \<Rightarrow> run_row \<Rightarrow> action_request \<Rightarrow> step_correlation \<Rightarrow> string \<Rightarrow> int \<Rightarrow>
   ('z action_db_scheme, signed_grant) op" where
  "authorized_grant env run q correlation runtimeId nowMs =
     andThen (approval_verdict q nowMs) (\<lambda>approved.
     case approved of
       Inl (code, _) \<Rightarrow> refuse_grant code 403
     | Inr approvalExpiry \<Rightarrow>
         andThen (assess env run (request_again q)) (\<lambda>current.
         if at_outcome current = DENY then refuse_grant ''POLICY_DENIED'' 403
         else if at_outcome current = REQUIRE_APPROVAL \<and> rq_decision q = ALLOWED
         then refuse_grant ''APPROVAL_REQUIRED'' 409
         else case (at_execution current, at_parameters current) of
           (Some x, Some v) \<Rightarrow>
             new_grant env run q correlation runtimeId nowMs (grant_expiry nowMs approvalExpiry) x v
         | _ \<Rightarrow> refuse_grant ''PARAMETERS_REQUIRED'' 409))"

definition granted_row :: "string \<Rightarrow> string \<Rightarrow> ('z action_db_scheme, grant_row option) op" where
  "granted_row org requestId =
     select_one ac_grants gr_organizationId (\<lambda>g. gr_requestId g = requestId \<and> gr_organizationId g = org)"

definition issueGrant ::
  "'z gateway_env \<Rightarrow> run_row \<Rightarrow> string \<Rightarrow> step_correlation \<Rightarrow> string \<Rightarrow> int \<Rightarrow>
   ('z action_db_scheme, signed_grant) op" where
  "issueGrant env run requestId correlation runtimeId nowMs =
     tenant (rn_organizationId run)
      (andThen (expireDue env nowMs (Some (rn_organizationId run))) (\<lambda>_.
       andThen (requested run requestId (gc_stepId correlation)) (\<lambda>q.
       andThen (demand (executionAction (rq_action q) \<noteq> None) (Refused 409 ''ACTION_NOT_GRANTABLE'')) (\<lambda>_.
       andThen (granted_row (rn_organizationId run) requestId) (\<lambda>row.
       case row of
         Some g \<Rightarrow>
           andThen (demand (gr_expiresAt g > nowMs) (Refused 409 ''GRANT_EXPIRED'')) (\<lambda>_. ret (gr_signedGrant g))
       | None \<Rightarrow> authorized_grant env run q correlation runtimeId nowMs)))))"

section \<open>The run's actions\<close>

text \<open>\<open>ExecutionService.listActions\<close>.\<close>

datatype action_outcome = OutDENIED | OutSUCCEEDED | OutFAILED | OutIN_PROGRESS | OutPENDING

record run_action =
  rx_requestId :: string
  rx_action :: string
  rx_toolId :: string
  rx_stepId :: string
  rx_decision :: action_decision
  rx_reason :: string
  rx_operationKind :: "string option"
  rx_credentialed :: bool
  rx_outcome :: action_outcome
  rx_errorCode :: "string option"
  rx_createdAt :: int

definition action_outcome_of ::
  "action_decision \<Rightarrow> execution_status option \<Rightarrow> step_status option \<Rightarrow> action_outcome" where
  "action_outcome_of decision execution step =
     (if decision = DENIED then OutDENIED
      else if execution = Some SUCCEEDED \<or> (execution = None \<and> step = Some StepCOMPLETED) then OutSUCCEEDED
      else if execution = Some ExFAILED \<or> (execution = None \<and> step = Some StepFAILED) then OutFAILED
      else if execution = Some DISPATCHING then OutIN_PROGRESS
      else OutPENDING)"

definition action_view :: "string \<Rightarrow> action_request \<Rightarrow> ('z action_db_scheme, run_action) op" where
  "action_view org q =
     andThen (granted_row org (rq_id q)) (\<lambda>g.
     andThen (executed_row org (rq_id q)) (\<lambda>x.
     andThen (select_one ex_steps st_organizationId (\<lambda>t. st_id t = rq_stepId q \<and> st_organizationId t = org)) (\<lambda>t.
     ret \<lparr>rx_requestId = rq_id q, rx_action = rq_action q, rx_toolId = rq_toolId q, rx_stepId = rq_stepId q,
       rx_decision = rq_decision q, rx_reason = rq_reason q, rx_operationKind = map_option gr_operationKind g,
       rx_credentialed = (case g of None \<Rightarrow> False
         | Some r \<Rightarrow> gp_credential (sg_payload (gr_signedGrant r)) \<noteq> None),
       rx_outcome = action_outcome_of (rq_decision q) (map_option xr_status x) (map_option st_status t),
       rx_errorCode = Option.bind x xr_errorCode, rx_createdAt = rq_createdAt q\<rparr>)))"

definition listActions :: "actor \<Rightarrow> string \<Rightarrow> ('z action_db_scheme, run_action list) op" where
  "listActions a runId =
     tenant (ac_organizationId a)
      (andThen (readableRun a runId True) (\<lambda>run.
       andThen (select ac_requests rq_organizationId
          (\<lambda>q. rq_runId q = rn_id run \<and> rq_organizationId q = ac_organizationId a)) (\<lambda>qs.
       gather (action_view (ac_organizationId a)) qs)))"

end
