(* ===== verification/TransportMessages.thy ===== *)
theory TransportMessages
  imports ModelSpending ActionGateway
begin

text \<open>
  The requests of the runtime transport (\<open>runtime/v1/transport.ts\<close>) and their strict parsing
  (\<open>runtime/v1/schemas.ts\<close>): a request that does not carry the protocol version, or has an unknown
  or malformed field, is refused before anything is read. \<open>uuid\<close> is the library's acceptance of
  \<open>z.uuid()\<close> and \<open>bytes\<close> the length of the encoded message in bytes.
\<close>

section \<open>Texts\<close>

text \<open>\<open>^[A-Za-z0-9_.:-]{1,120}$\<close>.\<close>

definition record_id :: "string \<Rightarrow> bool" where
  "record_id t \<longleftrightarrow> 1 \<le> length t \<and> length t \<le> 120 \<and> list_all (\<lambda>c. is_alnum c \<or> c \<in> set ''_.:-'') t"

text \<open>\<open>^\d+\.\d+\.\d+(?:-[0-9A-Za-z.-]+)?$\<close>.\<close>

definition digit_text :: "string \<Rightarrow> bool" where
  "digit_text t \<longleftrightarrow> t \<noteq> [] \<and> list_all is_digit t"

definition semver :: "string \<Rightarrow> bool" where
  "semver t \<longleftrightarrow>
     (let core = takeWhile (\<lambda>c. c \<noteq> CHR ''-'') t; tail = dropWhile (\<lambda>c. c \<noteq> CHR ''-'') t in
      length (splitOn (CHR ''.'') core) = 3 \<and> list_all digit_text (splitOn (CHR ''.'') core) \<and>
      (tail = [] \<or> (tl tail \<noteq> [] \<and> list_all (\<lambda>c. is_alnum c \<or> c \<in> set ''.-'') (tl tail))))"

text \<open>\<open>^[a-z][a-z0-9_]*(?:\.[a-z][a-z0-9_]*){1,5}$\<close>.\<close>

definition name_segment :: "string \<Rightarrow> bool" where
  "name_segment t \<longleftrightarrow> t \<noteq> [] \<and> is_lower (hd t) \<and> list_all (\<lambda>c. is_lower c \<or> is_digit c \<or> c = CHR ''_'') t"

definition actionName :: "string \<Rightarrow> bool" where
  "actionName t \<longleftrightarrow>
     (let parts = splitOn (CHR ''.'') t in 2 \<le> length parts \<and> length parts \<le> 6 \<and> list_all name_segment parts)"

text \<open>\<open>^[A-Za-z][A-Za-z0-9_]{0,63}$\<close>.\<close>

definition parameter_name :: "string \<Rightarrow> bool" where
  "parameter_name t \<longleftrightarrow> t \<noteq> [] \<and> length t \<le> 64 \<and> (is_upper (hd t) \<or> is_lower (hd t)) \<and>
     list_all (\<lambda>c. is_alnum c \<or> c = CHR ''_'') t"

section \<open>Requests\<close>

record checkpoint_binding =
  cb_manifestId :: string
  cb_manifestDigest :: string
  cb_workflow :: "string option"
  cb_stepId :: "string option"
  cb_approvalId :: "string option"
  cb_kernelId :: string
  cb_runtimeSequence :: nat

record checkpoint_save =
  sv_correlation :: correlation
  sv_sessionId :: string
  sv_version :: nat
  sv_binding :: checkpoint_binding
  sv_sha256 :: string
  sv_body :: string

record execute_request =
  xq_requestId :: string
  xq_correlation :: correlation

definition step_of :: "correlation \<Rightarrow> step_correlation" where
  "step_of c = \<lparr>gc_organizationId = co_organizationId c, gc_employeeId = co_employeeId c,
     gc_agentId = co_agentId c, gc_threadId = co_threadId c, gc_runId = co_runId c,
     gc_stepId = the (co_stepId c), gc_toolCallId = the (co_toolCallId c)\<rparr>"

section \<open>Schemas\<close>

definition protocolOf :: "json \<Rightarrow> json option" where
  "protocolOf v = json_field ''protocol'' v"

text \<open>Every parser: the protocol version first, then the schema, whose failure has its own code.\<close>

definition versioned :: "string \<Rightarrow> (json \<Rightarrow> 'a option) \<Rightarrow> json \<Rightarrow> failure + 'a" where
  "versioned code schema v =
     (if protocolOf v \<noteq> Some (JStr RUNTIME_PROTOCOL_V1) then Inl (Raised ''PROTOCOL_VERSION_UNSUPPORTED'')
      else case schema v of None \<Rightarrow> Inl (Raised code) | Some x \<Rightarrow> Inr x)"

definition valid_text :: "(string \<Rightarrow> bool) \<Rightarrow> string \<Rightarrow> json \<Rightarrow> string option" where
  "valid_text P k v = filtered P (text_field k v)"

text \<open>\<open>.nullable()\<close>, like \<open>optional_field\<close> for \<open>.optional()\<close>.\<close>

definition nullable_field :: "(string \<Rightarrow> json \<Rightarrow> 'a option) \<Rightarrow> string \<Rightarrow> json \<Rightarrow> 'a option option" where
  "nullable_field f k v = (if json_field k v = Some JNull then Some None else map_option Some (f k v))"

definition bounded_int :: "int \<Rightarrow> int \<Rightarrow> string \<Rightarrow> json \<Rightarrow> int option" where
  "bounded_int least most k v = filtered (\<lambda>n. least \<le> n \<and> n \<le> most) (int_field k v)"

text \<open>
  \<open>correlationSchema\<close>; the step and the tool call are optional there and required in the
  correlation of an action.
\<close>

definition correlation_keys :: "string list" where
  "correlation_keys = [''organizationId'', ''employeeId'', ''agentId'', ''threadId'', ''runId'', ''stepId'',
     ''toolCallId'', ''actionId'']"

definition correlationSchema :: "(string \<Rightarrow> bool) \<Rightarrow> json \<Rightarrow> correlation option" where
  "correlationSchema uuid v =
     (if strict correlation_keys v then
        (case (valid_text record_id ''organizationId'' v, valid_text record_id ''employeeId'' v,
               valid_text record_id ''agentId'' v, valid_text uuid ''threadId'' v, valid_text uuid ''runId'' v,
               optional_field (valid_text uuid) ''stepId'' v, optional_field (valid_text uuid) ''toolCallId'' v,
               optional_field (valid_text uuid) ''actionId'' v) of
           (Some org, Some e, Some a, Some t, Some r, Some st, Some tc, Some ac) \<Rightarrow>
             Some \<lparr>co_organizationId = org, co_employeeId = e, co_agentId = a, co_threadId = t, co_runId = r,
               co_stepId = st, co_toolCallId = tc, co_actionId = ac\<rparr>
         | _ \<Rightarrow> None)
      else None)"

definition run_correlation_field :: "(string \<Rightarrow> bool) \<Rightarrow> json \<Rightarrow> correlation option" where
  "run_correlation_field uuid v =
     (case json_field ''correlation'' v of None \<Rightarrow> None | Some c \<Rightarrow> correlationSchema uuid c)"

definition step_correlation_field :: "(string \<Rightarrow> bool) \<Rightarrow> json \<Rightarrow> correlation option" where
  "step_correlation_field uuid v =
     filtered (\<lambda>c. co_stepId c \<noteq> None \<and> co_toolCallId c \<noteq> None) (run_correlation_field uuid v)"

section \<open>Governed actions\<close>

text \<open>\<open>parameters\<close>: an object of at most 50 named values.\<close>

definition parameters_field :: "string \<Rightarrow> json \<Rightarrow> json option" where
  "parameters_field k v =
     (case json_field k v of
        Some (JObj fs) \<Rightarrow>
          if list_all (\<lambda>f. parameter_name (fst f)) fs \<and> length fs \<le> 50 then Some (JObj fs) else None
      | _ \<Rightarrow> None)"

text \<open>The summary is trimmed before its length is checked.\<close>

definition summary_field :: "string \<Rightarrow> json \<Rightarrow> string option" where
  "summary_field k v = filtered (\<lambda>t. 1 \<le> length t \<and> length t \<le> 500) (map_option trim (text_field k v))"

definition actionRequestSchema :: "(string \<Rightarrow> bool) \<Rightarrow> json \<Rightarrow> (correlation \<times> action_message) option" where
  "actionRequestSchema uuid v =
     (if strict [''protocol'', ''requestId'', ''correlation'', ''action'', ''toolId'', ''toolVersion'',
          ''inputDigest'', ''summary'', ''parameters''] v then
        (case (valid_text uuid ''requestId'' v, step_correlation_field uuid v, valid_text actionName ''action'' v,
               valid_text slug ''toolId'' v, valid_text semver ''toolVersion'' v,
               valid_text sha256_hex ''inputDigest'' v, summary_field ''summary'' v,
               optional_field parameters_field ''parameters'' v) of
           (Some i, Some c, Some a, Some t, Some tv, Some d, Some m, Some ps) \<Rightarrow>
             Some (c, \<lparr>rm_requestId = i, rm_correlation = step_of c, rm_action = a, rm_toolId = t,
               rm_toolVersion = tv, rm_inputDigest = d, rm_summary = m, rm_parameters = ps\<rparr>)
         | _ \<Rightarrow> None)
      else None)"

definition parseRuntimeActionRequest ::
  "(string \<Rightarrow> bool) \<Rightarrow> (json \<Rightarrow> int) \<Rightarrow> json \<Rightarrow> failure + correlation \<times> action_message" where
  "parseRuntimeActionRequest uuid bytes v =
     (if bytes v > MAX_RUNTIME_MESSAGE_BYTES then Inl (Raised ''RUNTIME_MESSAGE_TOO_LARGE'')
      else versioned ''RUNTIME_ACTION_INVALID'' (actionRequestSchema uuid) v)"

definition executeRequestSchema :: "(string \<Rightarrow> bool) \<Rightarrow> json \<Rightarrow> execute_request option" where
  "executeRequestSchema uuid v =
     (if strict [''protocol'', ''requestId'', ''correlation''] v then
        (case (valid_text uuid ''requestId'' v, step_correlation_field uuid v) of
           (Some i, Some c) \<Rightarrow> Some \<lparr>xq_requestId = i, xq_correlation = c\<rparr>
         | _ \<Rightarrow> None)
      else None)"

definition parseRuntimeActionExecuteRequest :: "(string \<Rightarrow> bool) \<Rightarrow> json \<Rightarrow> failure + execute_request" where
  "parseRuntimeActionExecuteRequest uuid = versioned ''RUNTIME_ACTION_INVALID'' (executeRequestSchema uuid)"

text \<open>The parsed request as the JSON its hash is taken of.\<close>

definition action_message_json :: "correlation \<Rightarrow> action_message \<Rightarrow> json" where
  "action_message_json c m = JObj
     ([(''action'', JStr (rm_action m)), (''correlation'', correlation_json c),
       (''inputDigest'', JStr (rm_inputDigest m))] @
      (case rm_parameters m of None \<Rightarrow> [] | Some ps \<Rightarrow> [(''parameters'', ps)]) @
      [(''protocol'', JStr RUNTIME_PROTOCOL_V1), (''requestId'', JStr (rm_requestId m)),
       (''summary'', JStr (rm_summary m)), (''toolId'', JStr (rm_toolId m)),
       (''toolVersion'', JStr (rm_toolVersion m))])"

section \<open>Model spending\<close>

text \<open>Token counts are bounded so that arithmetic stays exact.\<close>

definition MAX_TOKENS :: int where
  "MAX_TOKENS = 10000000"

definition reservationRequestSchema :: "(string \<Rightarrow> bool) \<Rightarrow> json \<Rightarrow> reservation_request option" where
  "reservationRequestSchema uuid v =
     (if strict [''protocol'', ''reservationId'', ''correlation'', ''provider'', ''model'',
          ''estimatedInputTokens'', ''maxOutputTokens''] v then
        (case (valid_text uuid ''reservationId'' v, run_correlation_field uuid v,
               valid_text provider_text ''provider'' v, valid_text model_text ''model'' v,
               bounded_int 0 MAX_TOKENS ''estimatedInputTokens'' v, bounded_int 1 MAX_TOKENS ''maxOutputTokens'' v) of
           (Some i, Some c, Some p, Some m, Some e, Some n) \<Rightarrow>
             Some \<lparr>rr_reservationId = i, rr_correlation = c, rr_provider = p, rr_model = m,
               rr_estimatedInputTokens = e, rr_maxOutputTokens = n\<rparr>
         | _ \<Rightarrow> None)
      else None)"

definition parseRuntimeModelReservationRequest :: "(string \<Rightarrow> bool) \<Rightarrow> json \<Rightarrow> failure + reservation_request" where
  "parseRuntimeModelReservationRequest uuid =
     versioned ''RUNTIME_MODEL_USAGE_INVALID'' (reservationRequestSchema uuid)"

definition settlementRequestSchema :: "(string \<Rightarrow> bool) \<Rightarrow> json \<Rightarrow> settlement_request option" where
  "settlementRequestSchema uuid v =
     (if strict [''protocol'', ''reservationId'', ''correlation'', ''inputTokens'', ''outputTokens''] v then
        (case (valid_text uuid ''reservationId'' v, run_correlation_field uuid v,
               bounded_int 0 MAX_TOKENS ''inputTokens'' v, bounded_int 0 MAX_TOKENS ''outputTokens'' v) of
           (Some i, Some c, Some n, Some n') \<Rightarrow>
             Some \<lparr>sm_reservationId = i, sm_correlation = c, sm_inputTokens = n, sm_outputTokens = n'\<rparr>
         | _ \<Rightarrow> None)
      else None)"

definition parseRuntimeModelSettlementRequest :: "(string \<Rightarrow> bool) \<Rightarrow> json \<Rightarrow> failure + settlement_request" where
  "parseRuntimeModelSettlementRequest uuid =
     versioned ''RUNTIME_MODEL_USAGE_INVALID'' (settlementRequestSchema uuid)"

text \<open>A request for a model credential: its correlation and the provider.\<close>

definition modelCredentialRequestSchema :: "(string \<Rightarrow> bool) \<Rightarrow> json \<Rightarrow> (correlation \<times> string) option" where
  "modelCredentialRequestSchema uuid v =
     (if strict [''protocol'', ''correlation'', ''provider''] v then
        (case (run_correlation_field uuid v, valid_text provider_text ''provider'' v) of
           (Some c, Some p) \<Rightarrow> Some (c, p) | _ \<Rightarrow> None)
      else None)"

definition parseRuntimeModelCredentialRequest :: "(string \<Rightarrow> bool) \<Rightarrow> json \<Rightarrow> failure + correlation \<times> string" where
  "parseRuntimeModelCredentialRequest uuid =
     versioned ''RUNTIME_MODEL_USAGE_INVALID'' (modelCredentialRequestSchema uuid)"

section \<open>Heartbeats and checkpoints\<close>

definition heartbeatRequestSchema :: "(string \<Rightarrow> bool) \<Rightarrow> json \<Rightarrow> string list option" where
  "heartbeatRequestSchema uuid v =
     (if strict [''protocol'', ''runIds''] v
      then filtered (\<lambda>ids. list_all uuid ids \<and> length ids \<le> 256) (texts_field ''runIds'' v) else None)"

definition parseRuntimeHeartbeatRequest :: "(string \<Rightarrow> bool) \<Rightarrow> json \<Rightarrow> failure + string list" where
  "parseRuntimeHeartbeatRequest uuid = versioned ''RUNTIME_HEARTBEAT_INVALID'' (heartbeatRequestSchema uuid)"

definition MAX_CHECKPOINT_BYTES :: nat where
  "MAX_CHECKPOINT_BYTES = 8 * 1024 * 1024"

definition checkpointBinding :: "(string \<Rightarrow> bool) \<Rightarrow> json \<Rightarrow> checkpoint_binding option" where
  "checkpointBinding uuid v =
     (if strict [''manifestId'', ''manifestDigest'', ''workflow'', ''stepId'', ''approvalId'', ''kernelId'',
          ''runtimeSequence''] v then
        (case (valid_text record_id ''manifestId'' v, valid_text sha256_hex ''manifestDigest'' v,
               nullable_field (valid_text slug) ''workflow'' v, nullable_field (valid_text uuid) ''stepId'' v,
               nullable_field (valid_text uuid) ''approvalId'' v, valid_text slug ''kernelId'' v,
               bounded_int 0 1000000 ''runtimeSequence'' v) of
           (Some m, Some d, Some w, Some st, Some ap, Some k, Some n) \<Rightarrow>
             Some \<lparr>cb_manifestId = m, cb_manifestDigest = d, cb_workflow = w, cb_stepId = st,
               cb_approvalId = ap, cb_kernelId = k, cb_runtimeSequence = nat n\<rparr>
         | _ \<Rightarrow> None)
      else None)"

definition checkpointSaveSchema :: "(string \<Rightarrow> bool) \<Rightarrow> json \<Rightarrow> checkpoint_save option" where
  "checkpointSaveSchema uuid v =
     (if strict [''protocol'', ''correlation'', ''sessionId'', ''version'', ''binding'', ''sha256'', ''body''] v then
        (case (run_correlation_field uuid v, valid_text uuid ''sessionId'' v, bounded_int 1 1000000 ''version'' v,
               case json_field ''binding'' v of None \<Rightarrow> None | Some b \<Rightarrow> checkpointBinding uuid b,
               valid_text sha256_hex ''sha256'' v, valid_text (\<lambda>t. 2 \<le> length t) ''body'' v) of
           (Some c, Some i, Some n, Some b, Some h, Some t) \<Rightarrow>
             Some \<lparr>sv_correlation = c, sv_sessionId = i, sv_version = nat n, sv_binding = b, sv_sha256 = h,
               sv_body = t\<rparr>
         | _ \<Rightarrow> None)
      else None)"

definition parseRuntimeCheckpointSaveRequest :: "(string \<Rightarrow> bool) \<Rightarrow> json \<Rightarrow> failure + checkpoint_save" where
  "parseRuntimeCheckpointSaveRequest uuid v =
     (case versioned ''RUNTIME_CHECKPOINT_INVALID'' (checkpointSaveSchema uuid) v of
        Inl e \<Rightarrow> Inl e
      | Inr q \<Rightarrow> if utf8_length (sv_body q) > MAX_CHECKPOINT_BYTES
                 then Inl (Raised ''RUNTIME_CHECKPOINT_TOO_LARGE'') else Inr q)"

definition checkpointLoadSchema :: "(string \<Rightarrow> bool) \<Rightarrow> json \<Rightarrow> correlation option" where
  "checkpointLoadSchema uuid v =
     (if strict [''protocol'', ''correlation''] v then run_correlation_field uuid v else None)"

definition parseRuntimeCheckpointLoadRequest :: "(string \<Rightarrow> bool) \<Rightarrow> json \<Rightarrow> failure + correlation" where
  "parseRuntimeCheckpointLoadRequest uuid = versioned ''RUNTIME_CHECKPOINT_INVALID'' (checkpointLoadSchema uuid)"

section \<open>What a parsed request guarantees\<close>

lemma versioned_Inr [simp]:
  "versioned code schema v = Inr x \<longleftrightarrow> protocolOf v = Some (JStr RUNTIME_PROTOCOL_V1) \<and> schema v = Some x"
  by (auto simp: versioned_def split: option.splits)

lemma bounded_int_Some [simp]:
  "bounded_int least most k v = Some n \<longleftrightarrow> int_field k v = Some n \<and> least \<le> n \<and> n \<le> most"
  by (auto simp: bounded_int_def)

text \<open>The counts of a reservation are what the spending limits rely on.\<close>

lemma parsed_reservation:
  assumes "parseRuntimeModelReservationRequest uuid v = Inr q"
  shows "0 \<le> rr_estimatedInputTokens q \<and> rr_estimatedInputTokens q \<le> MAX_TOKENS \<and>
    1 \<le> rr_maxOutputTokens q \<and> rr_maxOutputTokens q \<le> MAX_TOKENS"
  using assms
  by (auto simp: parseRuntimeModelReservationRequest_def reservationRequestSchema_def
      split: if_splits option.splits)

lemma parsed_action:
  assumes "parseRuntimeActionRequest uuid bytes v = Inr (c, m)"
  shows "rm_correlation m = step_of c \<and> co_stepId c \<noteq> None \<and> co_toolCallId c \<noteq> None"
  using assms
  by (auto simp: parseRuntimeActionRequest_def actionRequestSchema_def step_correlation_field_def
      split: if_splits option.splits)

lemma parsed_checkpoint:
  assumes "parseRuntimeCheckpointSaveRequest uuid v = Inr q"
  shows "1 \<le> sv_version q \<and> sha256_hex (sv_sha256 q) \<and> 2 \<le> length (sv_body q) \<and>
    utf8_length (sv_body q) \<le> MAX_CHECKPOINT_BYTES"
  using assms
  by (auto simp: parseRuntimeCheckpointSaveRequest_def checkpointSaveSchema_def valid_text_def
      split: if_splits option.splits sum.splits)

end
