(* ===== verification/TransportStore.thy ===== *)
theory TransportStore
  imports TransportMessages
begin

text \<open>
  The tables of the runtime transport (\<open>db/migrations/0001-baseline.ts\<close>, \<open>0012-run-recovery.ts\<close>) with
  their constraints and triggers: one lease per run, the durable checkpoints of a run and the
  nonces of signed requests; and the checkpoint statements (\<open>runtime/run-checkpoints.ts\<close>).
\<close>

section \<open>Rows\<close>

datatype lease_state = LeaseACTIVE | LeaseCLOSED

record lease_row =
  ls_runId :: string
  ls_organizationId :: string
  ls_sessionId :: string
  ls_runtimeId :: string
  ls_state :: lease_state
  ls_lastCommand :: "string option"
  ls_claimedAt :: int
  ls_heartbeatAt :: int
  ls_expiresAt :: int
  ls_closedAt :: "int option"
  ls_recoveries :: nat

record checkpoint_row =
  ck_organizationId :: string
  ck_runId :: string
  ck_version :: nat
  ck_threadId :: string
  ck_sessionId :: string
  ck_runtimeId :: string
  ck_binding :: checkpoint_binding
  ck_sha256 :: string
  ck_bytes :: nat
  ck_body :: string
  ck_createdAt :: int

text \<open>Nonces belong to no organization; only the platform role reaches their table.\<close>

record nonce_row =
  nn_runtimeId :: string
  nn_nonce :: string
  nn_expiresAt :: int

record transport_db = spending_db +
  tp_leases :: "lease_row list"
  tp_checkpoints :: "checkpoint_row list"
  tp_nonces :: "nonce_row list"

interpretation leases: table tp_leases tp_leases_update
  by unfold_locales simp_all

interpretation checkpoints: table tp_checkpoints tp_checkpoints_update
  by unfold_locales simp_all

interpretation nonces: table tp_nonces tp_nonces_update
  by unfold_locales simp_all

definition nonce_owner :: "nonce_row \<Rightarrow> string" where
  "nonce_owner n = []"

section \<open>Constraints and triggers\<close>

definition runtime_name_fits :: "string \<Rightarrow> bool" where
  "runtime_name_fits t \<longleftrightarrow> 1 \<le> length t \<and> length t \<le> 120"

definition lease_checks :: "'z transport_db_scheme \<Rightarrow> lease_row \<Rightarrow> failure option" where
  "lease_checks s l = insist
     [(runtime_name_fits (ls_runtimeId l), Constraint CHECK ''agent_run_leases_runtime_id_check''),
      (ls_runId l \<notin> ls_runId ` set (tp_leases s), Constraint UNIQUE ''agent_run_leases_pkey''),
      (ls_sessionId l \<notin> ls_sessionId ` set (tp_leases s), Constraint UNIQUE ''agent_run_leases_session_id_key''),
      (run_exists s (ls_organizationId l) (ls_runId l),
       Constraint FOREIGN_KEY ''agent_run_leases_organization_id_run_id_fkey'')]"

text \<open>
  \<open>agent_run_leases_identity_immutable\<close> and \<open>agent_run_leases_closed_immutable\<close>, then the row's own
  constraints.
\<close>

definition lease_update_checks :: "'z transport_db_scheme \<Rightarrow> lease_row \<Rightarrow> lease_row \<Rightarrow> failure option" where
  "lease_update_checks s l l' = insist
     [(ls_state l = LeaseACTIVE, Trigger ''LEASE_CLOSED''),
      (ls_runId l' = ls_runId l \<and> ls_organizationId l' = ls_organizationId l \<and> ls_claimedAt l' = ls_claimedAt l,
       Trigger ''LEASE_IDENTITY_IMMUTABLE''),
      (runtime_name_fits (ls_runtimeId l'), Constraint CHECK ''agent_run_leases_runtime_id_check''),
      (\<not> (\<exists>q \<in> set (tp_leases s). ls_sessionId q = ls_sessionId l' \<and> ls_runId q \<noteq> ls_runId l),
       Constraint UNIQUE ''agent_run_leases_session_id_key'')]"

text \<open>
  \<open>af_checkpoint_next_version\<close> compares with the largest stored version of the run. A run belongs to
  one organization, so the policy hides none of its versions.
\<close>

definition versions_of :: "'z transport_db_scheme \<Rightarrow> string \<Rightarrow> nat list" where
  "versions_of s runId = map ck_version (filter (\<lambda>c. ck_runId c = runId) (tp_checkpoints s))"

definition checkpoint_checks :: "'z transport_db_scheme \<Rightarrow> checkpoint_row \<Rightarrow> failure option" where
  "checkpoint_checks s c = insist
     [(ck_version c = next_sequence (versions_of s (ck_runId c)), Trigger ''CHECKPOINT_VERSION_CONFLICT''),
      (0 < ck_version c, Constraint CHECK ''agent_run_checkpoints_version_check''),
      (runtime_name_fits (ck_runtimeId c), Constraint CHECK ''agent_run_checkpoints_runtime_id_check''),
      (sha256_hex (cb_manifestDigest (ck_binding c)), Constraint CHECK ''agent_run_checkpoints_manifest_digest_check''),
      (1 \<le> length (cb_kernelId (ck_binding c)) \<and> length (cb_kernelId (ck_binding c)) \<le> 100,
       Constraint CHECK ''agent_run_checkpoints_kernel_id_check''),
      (sha256_hex (ck_sha256 c), Constraint CHECK ''agent_run_checkpoints_body_sha256_check''),
      (2 \<le> ck_bytes c \<and> int (ck_bytes c) \<le> 8388608, Constraint CHECK ''agent_run_checkpoints_body_bytes_check''),
      (\<not> (\<exists>q \<in> set (tp_checkpoints s). ck_runId q = ck_runId c \<and> ck_version q = ck_version c),
       Constraint UNIQUE ''agent_run_checkpoints_pkey''),
      (run_exists s (ck_organizationId c) (ck_runId c),
       Constraint FOREIGN_KEY ''agent_run_checkpoints_organization_id_run_id_fkey''),
      (\<exists>t \<in> set (ex_threads s). th_id t = ck_threadId c \<and> th_organizationId t = ck_organizationId c,
       Constraint FOREIGN_KEY ''agent_run_checkpoints_organization_id_thread_id_fkey''),
      (case cb_stepId (ck_binding c) of
         None \<Rightarrow> True
       | Some i \<Rightarrow> \<exists>t \<in> set (ex_steps s). st_id t = i \<and> st_organizationId t = ck_organizationId c,
       Constraint FOREIGN_KEY ''agent_run_checkpoints_organization_id_step_id_fkey'')]"

definition nonce_key :: "nonce_row \<Rightarrow> string \<times> string" where
  "nonce_key n = (nn_runtimeId n, nn_nonce n)"

section \<open>Checkpoints\<close>

definition checkpoint_exists :: "string \<Rightarrow> ('z transport_db_scheme, bool) op" where
  "checkpoint_exists runId =
     andThen (select_one tp_checkpoints ck_organizationId (\<lambda>c. ck_runId c = runId)) (\<lambda>row. ret (row \<noteq> None))"

text \<open>\<open>ORDER BY version DESC LIMIT 1\<close>.\<close>

definition latest_checkpoint :: "string \<Rightarrow> string \<Rightarrow> ('z transport_db_scheme, checkpoint_row option) op" where
  "latest_checkpoint org runId =
     andThen (select tp_checkpoints ck_organizationId (\<lambda>c. ck_runId c = runId \<and> ck_organizationId c = org))
       (\<lambda>cs. ret (latest (\<lambda>c. int (ck_version c)) cs))"

definition checkpoint_of :: "string \<Rightarrow> string \<Rightarrow> string \<Rightarrow> checkpoint_save \<Rightarrow> int \<Rightarrow> checkpoint_row" where
  "checkpoint_of org threadId runtimeId q nowMs =
     \<lparr>ck_organizationId = org, ck_runId = co_runId (sv_correlation q), ck_version = sv_version q,
      ck_threadId = threadId, ck_sessionId = sv_sessionId q, ck_runtimeId = runtimeId,
      ck_binding = sv_binding q, ck_sha256 = sv_sha256 q, ck_bytes = utf8_length (sv_body q),
      ck_body = sv_body q, ck_createdAt = nowMs\<rparr>"

definition version_conflict :: "failure \<Rightarrow> failure" where
  "version_conflict e =
     (case e of
        Constraint UNIQUE _ \<Rightarrow> Refused 409 ''CHECKPOINT_VERSION_CONFLICT''
      | Trigger m \<Rightarrow>
          if contains ''CHECKPOINT_VERSION_CONFLICT'' m then Refused 409 ''CHECKPOINT_VERSION_CONFLICT'' else e
      | _ \<Rightarrow> e)"

text \<open>\<open>append\<close>: the next version only; of the earlier ones the last is kept.\<close>

definition append_checkpoint ::
  "string \<Rightarrow> string \<Rightarrow> string \<Rightarrow> checkpoint_save \<Rightarrow> int \<Rightarrow> ('z transport_db_scheme, unit) op" where
  "append_checkpoint org threadId runtimeId q nowMs =
     (let runId = co_runId (sv_correlation q) in
      andThen (latest_checkpoint org runId) (\<lambda>row.
      andThen (demand (sv_version q = (case row of None \<Rightarrow> 0 | Some c \<Rightarrow> ck_version c) + 1)
         (Refused 409 ''CHECKPOINT_VERSION_CONFLICT'')) (\<lambda>_.
      andThen (attempt (insert_row tp_checkpoints_update ck_organizationId checkpoint_checks
            (checkpoint_of org threadId runtimeId q nowMs))
         (\<lambda>e. throw (version_conflict e))) (\<lambda>_.
      andThen (delete_rows tp_checkpoints tp_checkpoints_update ck_organizationId
         (\<lambda>c. ck_runId c = runId \<and> ck_organizationId c = org \<and> ck_version c < sv_version q - 1)) (\<lambda>_.
      ret ())))))"

record checkpoint_record =
  cp_runId :: string
  cp_version :: nat
  cp_binding :: checkpoint_binding
  cp_sha256 :: string
  cp_body :: string

text \<open>\<open>read\<close>: a body that no longer matches its digest fails closed. \<open>sha\<close> is SHA-256 of a text.\<close>

definition read_checkpoint ::
  "(string \<Rightarrow> string) \<Rightarrow> string \<Rightarrow> string \<Rightarrow> ('z transport_db_scheme, checkpoint_record option) op" where
  "read_checkpoint sha org runId =
     andThen (latest_checkpoint org runId) (\<lambda>row.
     case row of
       None \<Rightarrow> ret None
     | Some c \<Rightarrow>
         andThen (demand (sha (ck_body c) = ck_sha256 c \<and> utf8_length (ck_body c) = ck_bytes c)
            (Refused 409 ''CHECKPOINT_CORRUPT'')) (\<lambda>_.
         ret (Some \<lparr>cp_runId = runId, cp_version = ck_version c, cp_binding = ck_binding c,
           cp_sha256 = ck_sha256 c, cp_body = ck_body c\<rparr>)))"

definition deleteForRun :: "string \<Rightarrow> string \<Rightarrow> ('z transport_db_scheme, unit) op" where
  "deleteForRun org runId =
     andThen (delete_rows tp_checkpoints tp_checkpoints_update ck_organizationId
        (\<lambda>c. ck_runId c = runId \<and> ck_organizationId c = org)) (\<lambda>_. ret ())"

end
