(* ===== verification/SourceControl.thy ===== *)
theory SourceControl
  imports TransportMessages TransportStore
begin

text \<open>
  Connections of an organization to source-control hosts (\<open>credentials/source-control.ts\<close>,
  \<open>credentials/source-control-connections.ts\<close>) and the tables of repository credentials
  (\<open>db/migrations/0011-repository-credentials.ts\<close>): connections, of which at most one per host is
  active, and the leases of credentials, which only move forward. Neither holds a secret.
\<close>

section \<open>Providers and repositories\<close>

datatype source_provider = SourceGitHub | SourceBitbucket

datatype credential_mode = StaticToken | GitHubApp

fun source_name :: "source_provider \<Rightarrow> string" where
  "source_name SourceGitHub = ''github''"
| "source_name SourceBitbucket = ''bitbucket''"

fun mode_name :: "credential_mode \<Rightarrow> string" where
  "mode_name StaticToken = ''static_token''"
| "mode_name GitHubApp = ''github_app''"

definition source_of :: "string \<Rightarrow> source_provider option" where
  "source_of t = find (\<lambda>p. source_name p = t) [SourceGitHub, SourceBitbucket]"

definition mode_of :: "string \<Rightarrow> credential_mode option" where
  "mode_of t = find (\<lambda>m. mode_name m = t) [StaticToken, GitHubApp]"

record source_profile =
  sp_tokenUsername :: string
  sp_defaultGitHost :: string
  sp_defaultApiBaseUrl :: string

fun sourceControlProfiles :: "source_provider \<Rightarrow> source_profile" where
  "sourceControlProfiles SourceGitHub =
     \<lparr>sp_tokenUsername = ''x-access-token'', sp_defaultGitHost = ''github.com'',
      sp_defaultApiBaseUrl = ''https://api.github.com''\<rparr>"
| "sourceControlProfiles SourceBitbucket =
     \<lparr>sp_tokenUsername = ''x-token-auth'', sp_defaultGitHost = ''bitbucket.org'',
      sp_defaultApiBaseUrl = ''https://api.bitbucket.org/2.0''\<rparr>"

text \<open>\<open>^[A-Za-z0-9][A-Za-z0-9_.-]{0,99}\/[A-Za-z0-9_.-]{1,100}$\<close>.\<close>

definition repository_text :: "string \<Rightarrow> bool" where
  "repository_text t \<longleftrightarrow>
     (case splitOn (CHR ''/'') t of
        [owner, name] \<Rightarrow>
          owner \<noteq> [] \<and> length owner \<le> 100 \<and> is_alnum (hd owner) \<and>
          name \<noteq> [] \<and> length name \<le> 100 \<and> list_all (\<lambda>c. is_alnum c \<or> c \<in> set ''_.-'') (owner @ name)
      | _ \<Rightarrow> False)"

definition sameRepositoryName :: "string \<Rightarrow> string \<Rightarrow> bool" where
  "sameRepositoryName l r \<longleftrightarrow> toLowerCase l = toLowerCase r"

text \<open>\<open>\/\.{1,2}(\/|$)|[%\\\s]\<close>: a dot segment, an escape, a backslash or white space.\<close>

definition rewritten_path :: "string \<Rightarrow> bool" where
  "rewritten_path t \<longleftrightarrow>
     list_ex (\<lambda>seg. seg = ''.'' \<or> seg = ''..'') (tl (splitOn (CHR ''/'') t)) \<or>
     list_ex (\<lambda>c. c = CHR ''%'' \<or> c = CHR 92 \<or> js_space c) t"

text \<open>
  \<open>url.port\<close> is empty exactly when \<open>url.host\<close> is the host name alone.
\<close>

definition repositoryOf :: "web \<Rightarrow> string \<Rightarrow> string \<Rightarrow> string option" where
  "repositoryOf w repositoryUrl gitHost =
     (if rewritten_path repositoryUrl then None
      else case wb_URL w repositoryUrl of
        None \<Rightarrow> None
      | Some u \<Rightarrow>
          if ul_protocol u \<noteq> ''https:'' \<or> ul_username u \<noteq> [] \<or> ul_password u \<noteq> [] \<or> ul_host u \<noteq> ul_hostname u \<or>
             ul_search u \<noteq> [] \<or> ul_hash u \<noteq> [] \<or> toLowerCase (ul_hostname u) \<noteq> gitHost
          then None
          else
            let path = dropSuffix ''.git'' (if startsWith ''/'' (ul_pathname u) then tl (ul_pathname u) else ul_pathname u)
            in if repository_text path then Some path else None)"

section \<open>Hosts\<close>

text \<open>\<open>net.isIP\<close>: a dotted quad, or eight groups of an IPv6 address, of which \<open>::\<close> may stand for some.\<close>

fun number_of :: "string \<Rightarrow> nat" where
  "number_of t = foldl (\<lambda>n c. 10 * n + (char_code c - 48)) 0 t"

definition isIPv4 :: "string \<Rightarrow> bool" where
  "isIPv4 t \<longleftrightarrow>
     (let parts = splitOn (CHR ''.'') t in
      length parts = 4 \<and>
      list_all (\<lambda>p. digit_text p \<and> length p \<le> 3 \<and> number_of p \<le> 255 \<and> (length p = 1 \<or> hd p \<noteq> CHR ''0'')) parts)"

definition hex_group :: "string \<Rightarrow> bool" where
  "hex_group t \<longleftrightarrow> 1 \<le> length t \<and> length t \<le> 4 \<and> list_all (\<lambda>c. is_digit c \<or> c \<in> set ''abcdefABCDEF'') t"

fun cut_at :: "string \<Rightarrow> string \<Rightarrow> (string \<times> string) option" where
  "cut_at p [] = None"
| "cut_at p (c # cs) =
     (if startsWith p (c # cs) then Some ([], drop (length p) (c # cs))
      else map_option (\<lambda>(l, r). (c # l, r)) (cut_at p cs))"

text \<open>How many of the eight groups a text names; the last may be a dotted quad, which is two.\<close>

definition ipv6_groups :: "bool \<Rightarrow> string \<Rightarrow> nat option" where
  "ipv6_groups quad t =
     (if t = [] then Some 0
      else let parts = splitOn (CHR '':'') t in
        if list_all hex_group parts then Some (length parts)
        else if quad \<and> list_all hex_group (butlast parts) \<and> isIPv4 (last parts) then Some (length parts + 1)
        else None)"

definition isIPv6 :: "string \<Rightarrow> bool" where
  "isIPv6 t \<longleftrightarrow>
     (let address = takeWhile (\<lambda>c. c \<noteq> CHR ''%'') t; zone = dropWhile (\<lambda>c. c \<noteq> CHR ''%'') t in
      (zone = [] \<or> (tl zone \<noteq> [] \<and> list_all (\<lambda>c. is_alnum c \<or> c \<in> set ''-.:'') (tl zone))) \<and>
      (case cut_at ''::'' address of
         None \<Rightarrow> address \<noteq> [] \<and> ipv6_groups True address = Some 8
       | Some (l, r) \<Rightarrow>
           (case (ipv6_groups False l, ipv6_groups True r) of (Some m, Some n) \<Rightarrow> m + n \<le> 7 | _ \<Rightarrow> False)))"

definition isIP :: "string \<Rightarrow> bool" where
  "isIP t \<longleftrightarrow> isIPv4 t \<or> isIPv6 t"

text \<open>A lower-case DNS name of at least two labels.\<close>

definition dns_label :: "string \<Rightarrow> bool" where
  "dns_label t \<longleftrightarrow> t \<noteq> [] \<and> length t \<le> 63 \<and> (is_lower (hd t) \<or> is_digit (hd t)) \<and>
     (is_lower (last t) \<or> is_digit (last t)) \<and> list_all (\<lambda>c. is_lower c \<or> is_digit c \<or> c = CHR ''-'') t"

definition hostname_text :: "string \<Rightarrow> bool" where
  "hostname_text t \<longleftrightarrow> 1 \<le> length t \<and> length t \<le> 253 \<and>
     (let labels = splitOn (CHR ''.'') t in 2 \<le> length labels \<and> list_all dns_label labels)"

definition privateSuffixes :: "string list" where
  "privateSuffixes = [''.localhost'', ''.local'', ''.internal'', ''.lan'', ''.home.arpa'', ''.test'']"

definition secret_reference :: "string \<Rightarrow> bool" where
  "secret_reference t \<longleftrightarrow> startsWith ''secret://'' t \<and>
     (let n = drop 9 t in n \<noteq> [] \<and> length n \<le> 64 \<and> (is_lower (hd n) \<or> is_digit (hd n)) \<and>
        list_all (\<lambda>c. is_lower c \<or> is_digit c \<or> c \<in> set ''._-'') n)"

section \<open>Rows\<close>

record source_connection =
  sk_id :: string
  sk_organizationId :: string
  sk_provider :: source_provider
  sk_name :: string
  sk_gitHost :: string
  sk_apiBaseUrl :: string
  sk_mode :: credential_mode
  sk_secretRef :: string
  sk_appId :: "string option"
  sk_installationId :: "string option"
  sk_repositories :: "string list"
  sk_active :: bool
  sk_version :: nat
  sk_createdBy :: string
  sk_createdAt :: int
  sk_updatedBy :: string
  sk_updatedAt :: int

datatype credential_status = KlISSUED | KlREDEEMED | KlRELEASED | KlREVOKED | KlEXPIRED

datatype release_outcome = OcSUCCEEDED | OcFAILED | OcTIMED_OUT | OcCANCELLED | OcINTERRUPTED

text \<open>The operation kind of a lease is \<open>git.checkout\<close>, by its constraint.\<close>

record credential_lease =
  kl_id :: string
  kl_organizationId :: string
  kl_connectionId :: string
  kl_provider :: source_provider
  kl_repository :: string
  kl_repositoryUrl :: string
  kl_ref :: string
  kl_operationDigest :: string
  kl_grantId :: string
  kl_requestId :: string
  kl_runId :: string
  kl_employeeId :: string
  kl_agentId :: string
  kl_runtimeId :: string
  kl_status :: credential_status
  kl_issuedAt :: int
  kl_expiresAt :: int
  kl_redeemedAt :: "int option"
  kl_redeemedBy :: "string option"
  kl_releasedAt :: "int option"
  kl_revokedAt :: "int option"
  kl_revokedBy :: "string option"
  kl_revokeReason :: "string option"
  kl_outcome :: "release_outcome option"

record credential_db = transport_db +
  kr_connections :: "source_connection list"
  kr_leases :: "credential_lease list"

interpretation sources: table kr_connections kr_connections_update
  by unfold_locales simp_all

interpretation credentials: table kr_leases kr_leases_update
  by unfold_locales simp_all

section \<open>Constraints and triggers\<close>

definition employee_exists :: "'z action_db_scheme \<Rightarrow> string \<Rightarrow> string \<Rightarrow> bool" where
  "employee_exists s org i \<longleftrightarrow> (\<exists>e \<in> set (ac_employees s). em_id e = i \<and> em_organizationId e = org)"

text \<open>\<open>^[a-z0-9]([a-z0-9.-]{0,251}[a-z0-9])?$\<close> and \<open>^[0-9]{1,20}$\<close>.\<close>

definition git_host_column :: "string \<Rightarrow> bool" where
  "git_host_column t \<longleftrightarrow> t \<noteq> [] \<and> length t \<le> 253 \<and> (is_lower (hd t) \<or> is_digit (hd t)) \<and>
     (is_lower (last t) \<or> is_digit (last t)) \<and> list_all (\<lambda>c. is_lower c \<or> is_digit c \<or> c \<in> set ''.-'') t"

definition app_number :: "string \<Rightarrow> bool" where
  "app_number t \<longleftrightarrow> digit_text t \<and> length t \<le> 20"

definition when_given :: "('a \<Rightarrow> bool) \<Rightarrow> 'a option \<Rightarrow> bool" where
  "when_given P v \<longleftrightarrow> (case v of None \<Rightarrow> True | Some x \<Rightarrow> P x)"

definition source_valid :: "'z credential_db_scheme \<Rightarrow> source_connection \<Rightarrow> failure option" where
  "source_valid s c = insist
     [(1 \<le> length (sk_name c) \<and> length (sk_name c) \<le> 120,
       Constraint CHECK ''organization_source_control_connections_name_check''),
      (git_host_column (sk_gitHost c), Constraint CHECK ''organization_source_control_connections_git_host_check''),
      ((startsWith ''http://'' (sk_apiBaseUrl c) \<or> startsWith ''https://'' (sk_apiBaseUrl c)) \<and> length (sk_apiBaseUrl c) \<le> 300,
       Constraint CHECK ''organization_source_control_connections_api_base_url_check''),
      (secret_reference (sk_secretRef c), Constraint CHECK ''organization_source_control_connections_secret_ref_check''),
      (when_given app_number (sk_appId c), Constraint CHECK ''organization_source_control_connections_app_id_check''),
      (when_given app_number (sk_installationId c),
       Constraint CHECK ''organization_source_control_connections_installation_id_check''),
      (0 < sk_version c, Constraint CHECK ''organization_source_control_connections_version_check''),
      ((sk_mode c = GitHubApp) = (sk_appId c \<noteq> None \<and> sk_installationId c \<noteq> None),
       Constraint CHECK ''organization_source_control_connections_check''),
      (sk_mode c = GitHubApp \<longrightarrow> sk_provider c = SourceGitHub,
       Constraint CHECK ''organization_source_control_connections_check1'')]"

text \<open>\<open>source_control_one_active_per_host\<close> is unique among the active rows.\<close>

definition active_elsewhere :: "'z credential_db_scheme \<Rightarrow> source_connection \<Rightarrow> bool" where
  "active_elsewhere s c \<longleftrightarrow> sk_active c \<and>
     (\<exists>d \<in> set (kr_connections s). sk_active d \<and> sk_id d \<noteq> sk_id c \<and>
        sk_organizationId d = sk_organizationId c \<and> sk_gitHost d = sk_gitHost c)"

definition source_keys :: "'z credential_db_scheme \<Rightarrow> source_connection \<Rightarrow> failure option" where
  "source_keys s c = insist
     [(\<not> active_elsewhere s c, Constraint UNIQUE ''source_control_one_active_per_host''),
      (employee_exists s (sk_organizationId c) (sk_createdBy c),
       Constraint FOREIGN_KEY ''organization_source_control_connecti_organization_id_created_by_fkey''),
      (employee_exists s (sk_organizationId c) (sk_updatedBy c),
       Constraint FOREIGN_KEY ''organization_source_control_connecti_organization_id_updated_by_fkey'')]"

definition source_checks :: "'z credential_db_scheme \<Rightarrow> source_connection \<Rightarrow> failure option" where
  "source_checks s c =
     (case source_valid s c of
        Some e \<Rightarrow> Some e
      | None \<Rightarrow>
          if sk_id c \<in> sk_id ` set (kr_connections s)
          then Some (Constraint UNIQUE ''organization_source_control_connections_pkey'')
          else source_keys s c)"

text \<open>\<open>af_source_control_connection_status_only\<close>, then the row's own constraints.\<close>

definition source_update_checks ::
  "'z credential_db_scheme \<Rightarrow> source_connection \<Rightarrow> source_connection \<Rightarrow> failure option" where
  "source_update_checks s c c' =
     (if c'\<lparr>sk_active := sk_active c, sk_version := sk_version c, sk_updatedBy := sk_updatedBy c,
           sk_updatedAt := sk_updatedAt c\<rparr> \<noteq> c \<or> \<not> sk_active c
      then Some (Trigger ''SOURCE_CONTROL_CONNECTION_IMMUTABLE'')
      else case source_valid s c' of Some e \<Rightarrow> Some e | None \<Rightarrow> source_keys s c')"

text \<open>\<open>^[A-Z][A-Z0-9_]{1,63}$\<close>.\<close>

definition reason_code :: "string \<Rightarrow> bool" where
  "reason_code t \<longleftrightarrow> 2 \<le> length t \<and> length t \<le> 64 \<and> is_upper (hd t) \<and>
     list_all (\<lambda>c. is_upper c \<or> is_digit c \<or> c = CHR ''_'') t"

definition lease_row_valid :: "credential_lease \<Rightarrow> failure option" where
  "lease_row_valid l = insist
     [(repository_text (kl_repository l), Constraint CHECK ''repository_credential_leases_repository_check''),
      (startsWith ''https://'' (kl_repositoryUrl l) \<and> int (length (kl_repositoryUrl l)) \<le> 2048,
       Constraint CHECK ''repository_credential_leases_repository_url_check''),
      (1 \<le> length (kl_ref l) \<and> length (kl_ref l) \<le> 200, Constraint CHECK ''repository_credential_leases_ref_check''),
      (sha256_hex (kl_operationDigest l), Constraint CHECK ''repository_credential_leases_operation_digest_check''),
      (when_given reason_code (kl_revokeReason l), Constraint CHECK ''repository_credential_leases_revoke_reason_check''),
      (kl_issuedAt l < kl_expiresAt l, Constraint CHECK ''repository_credential_leases_check''),
      (kl_status l = KlISSUED \<longrightarrow> kl_redeemedAt l = None \<and> kl_releasedAt l = None \<and> kl_revokedAt l = None,
       Constraint CHECK ''repository_credential_leases_check1''),
      ((kl_redeemedAt l = None) = (kl_redeemedBy l = None), Constraint CHECK ''repository_credential_leases_check2''),
      (kl_status l = KlREDEEMED \<longrightarrow> kl_redeemedAt l \<noteq> None, Constraint CHECK ''repository_credential_leases_check3''),
      (kl_status l = KlRELEASED \<longrightarrow> kl_redeemedAt l \<noteq> None \<and> kl_releasedAt l \<noteq> None,
       Constraint CHECK ''repository_credential_leases_check4''),
      (kl_status l = KlREVOKED \<longrightarrow> kl_revokedAt l \<noteq> None \<and> kl_revokeReason l \<noteq> None,
       Constraint CHECK ''repository_credential_leases_check5'')]"

definition credential_checks :: "'z credential_db_scheme \<Rightarrow> credential_lease \<Rightarrow> failure option" where
  "credential_checks s l =
     (case lease_row_valid l of
        Some e \<Rightarrow> Some e
      | None \<Rightarrow> insist
          [(kl_id l \<notin> kl_id ` set (kr_leases s), Constraint UNIQUE ''repository_credential_leases_pkey''),
           (kl_grantId l \<notin> kl_grantId ` set (kr_leases s), Constraint UNIQUE ''repository_credential_leases_grant_id_key''),
           (\<exists>c \<in> set (kr_connections s). sk_id c = kl_connectionId l \<and> sk_organizationId c = kl_organizationId l,
            Constraint FOREIGN_KEY ''repository_credential_leases_organization_id_connection_id_fkey''),
           (kl_requestId l \<in> rq_id ` set (ac_requests s),
            Constraint FOREIGN_KEY ''repository_credential_leases_request_id_fkey''),
           (run_exists s (kl_organizationId l) (kl_runId l),
            Constraint FOREIGN_KEY ''repository_credential_leases_organization_id_run_id_fkey'')])"

text \<open>\<open>af_repository_credential_lease_transition\<close>: what may follow, and what never changes.\<close>

fun lease_may_become :: "credential_status \<Rightarrow> credential_status \<Rightarrow> bool" where
  "lease_may_become KlISSUED st = (st \<in> {KlREDEEMED, KlREVOKED, KlEXPIRED})"
| "lease_may_become KlREDEEMED st = (st \<in> {KlRELEASED, KlREVOKED, KlEXPIRED})"
| "lease_may_become _ st = False"

definition same_credential :: "credential_lease \<Rightarrow> credential_lease \<Rightarrow> bool" where
  "same_credential l l' \<longleftrightarrow>
     l'\<lparr>kl_status := kl_status l, kl_redeemedAt := kl_redeemedAt l, kl_redeemedBy := kl_redeemedBy l,
        kl_releasedAt := kl_releasedAt l, kl_revokedAt := kl_revokedAt l, kl_revokedBy := kl_revokedBy l,
        kl_revokeReason := kl_revokeReason l, kl_outcome := kl_outcome l\<rparr> = l"

definition credential_update_checks ::
  "'z credential_db_scheme \<Rightarrow> credential_lease \<Rightarrow> credential_lease \<Rightarrow> failure option" where
  "credential_update_checks s l l' =
     (if \<not> same_credential l l' then Some (Trigger ''CREDENTIAL_LEASE_IMMUTABLE'')
      else if \<not> lease_may_become (kl_status l) (kl_status l') then Some (Trigger ''CREDENTIAL_LEASE_TRANSITION_INVALID'')
      else if kl_redeemedAt l \<noteq> None \<and> (kl_redeemedAt l', kl_redeemedBy l') \<noteq> (kl_redeemedAt l, kl_redeemedBy l)
      then Some (Trigger ''CREDENTIAL_LEASE_IMMUTABLE'')
      else lease_row_valid l')"

section \<open>The connection service\<close>

record connection_input =
  ci_provider :: source_provider
  ci_name :: string
  ci_gitHost :: string
  ci_apiBaseUrl :: string
  ci_mode :: credential_mode
  ci_secretRef :: string
  ci_appId :: "string option"
  ci_installationId :: "string option"
  ci_repositories :: "string list"

definition chosen :: "(string \<Rightarrow> 'a option) \<Rightarrow> string \<Rightarrow> json \<Rightarrow> 'a option" where
  "chosen f k v = (case text_field k v of None \<Rightarrow> None | Some t \<Rightarrow> f t)"

text \<open>GitHub App connections need an app and an installation; token connections take neither.\<close>

definition app_fields_fit :: "connection_input \<Rightarrow> bool" where
  "app_fields_fit i \<longleftrightarrow>
     (if ci_mode i = GitHubApp
      then ci_provider i = SourceGitHub \<and> ci_appId i \<noteq> None \<and> ci_installationId i \<noteq> None
      else ci_appId i = None \<and> ci_installationId i = None)"

definition connectionSchema :: "json \<Rightarrow> connection_input option" where
  "connectionSchema v =
     (if strict [''provider'', ''name'', ''gitHost'', ''apiBaseUrl'', ''credentialMode'', ''secretRef'', ''appId'',
          ''installationId'', ''allowedRepositories''] v then
        (case (chosen source_of ''provider'' v,
               filtered (\<lambda>t. 1 \<le> length t \<and> length t \<le> 120) (map_option trim (text_field ''name'' v)),
               valid_text hostname_text ''gitHost'' v, valid_text (\<lambda>t. length t \<le> 300) ''apiBaseUrl'' v,
               chosen mode_of ''credentialMode'' v, valid_text secret_reference ''secretRef'' v,
               optional_field (valid_text app_number) ''appId'' v,
               optional_field (valid_text app_number) ''installationId'' v,
               filtered (\<lambda>rs. list_all repository_text rs \<and> 1 \<le> length rs \<and> length rs \<le> 100 \<and>
                   distinct (map toLowerCase rs)) (texts_field ''allowedRepositories'' v)) of
           (Some p, Some n, Some h, Some u, Some m, Some r, Some app, Some inst, Some rs) \<Rightarrow>
             filtered app_fields_fit (Some \<lparr>ci_provider = p, ci_name = n, ci_gitHost = h, ci_apiBaseUrl = u, ci_mode = m,
               ci_secretRef = r, ci_appId = app, ci_installationId = inst, ci_repositories = rs\<rparr>)
         | _ \<Rightarrow> None)
      else None)"

text \<open>\<open>checkHost\<close> and \<open>normalizeApiUrl\<close>; \<open>anywhere\<close> is the option \<open>allowPrivateNetwork\<close>.\<close>

definition public_host :: "bool \<Rightarrow> string \<Rightarrow> bool" where
  "public_host anywhere host \<longleftrightarrow> anywhere \<or> \<not> (isIP host \<or> list_ex (\<lambda>p. endsWith p host) privateSuffixes)"

definition normalizeApiUrl :: "web \<Rightarrow> bool \<Rightarrow> string \<Rightarrow> failure + string" where
  "normalizeApiUrl w anywhere t =
     (case wb_URL w t of
        None \<Rightarrow> Inl (Refused 400 ''CONNECTION_URL_INVALID'')
      | Some u \<Rightarrow>
          if ul_username u \<noteq> [] \<or> ul_password u \<noteq> [] \<or> ul_search u \<noteq> [] \<or> ul_hash u \<noteq> [] \<or>
             ul_protocol u \<notin> {''https:'', ''http:''} \<or> (\<not> anywhere \<and> ul_protocol u \<noteq> ''https:'')
          then Inl (Refused 400 ''CONNECTION_URL_INVALID'')
          else if \<not> public_host anywhere (toLowerCase (ul_hostname u)) then Inl (Refused 400 ''CONNECTION_HOST_INVALID'')
          else Inr (ul_origin u @ dropTrailing (CHR ''/'') (ul_pathname u)))"

definition get_source :: "string \<Rightarrow> string \<Rightarrow> ('z credential_db_scheme, source_connection option) op" where
  "get_source org i = select_one kr_connections sk_organizationId (\<lambda>c. sk_id c = i \<and> sk_organizationId c = org)"

text \<open>\<open>ORDER BY status, lower(name), id\<close>.\<close>

definition list_sources :: "actor \<Rightarrow> ('z credential_db_scheme, source_connection list) op" where
  "list_sources a =
     asAdmin a
      (andThen (select kr_connections sk_organizationId (\<lambda>c. sk_organizationId c = ac_organizationId a)) (\<lambda>cs.
       ret (sort_key (\<lambda>c. \<not> sk_active c) (sort_key (\<lambda>c. toLowerCase (sk_name c)) (sort_key sk_id cs)))))"

definition new_source :: "actor \<Rightarrow> connection_input \<Rightarrow> string \<Rightarrow> string \<Rightarrow> int \<Rightarrow> source_connection" where
  "new_source a i apiBaseUrl id' timestamp =
     \<lparr>sk_id = id', sk_organizationId = ac_organizationId a, sk_provider = ci_provider i, sk_name = ci_name i,
      sk_gitHost = ci_gitHost i, sk_apiBaseUrl = apiBaseUrl, sk_mode = ci_mode i, sk_secretRef = ci_secretRef i,
      sk_appId = ci_appId i, sk_installationId = ci_installationId i, sk_repositories = ci_repositories i,
      sk_active = True, sk_version = 1, sk_createdBy = ac_id a, sk_createdAt = timestamp,
      sk_updatedBy = ac_id a, sk_updatedAt = timestamp\<rparr>"

definition already_active :: "failure \<Rightarrow> failure" where
  "already_active e = (if constraintKind e = Some UNIQUE then Refused 409 ''CONNECTION_ALREADY_ACTIVE'' else e)"

definition insert_source :: "actor \<Rightarrow> connection_input \<Rightarrow> string \<Rightarrow> ('z credential_db_scheme, source_connection) op" where
  "insert_source a i apiBaseUrl =
     asAdmin a
      (andThen randomUUID (\<lambda>id'. andThen now (\<lambda>timestamp.
       andThen (insert_row kr_connections_update sk_organizationId source_checks (new_source a i apiBaseUrl id' timestamp)) (\<lambda>_.
       andThen (audit (ac_id a) ''source_control.connection.created'' ''source_control_connection'' id'
          (JObj [(''provider'', JStr (source_name (ci_provider i))), (''gitHost'', JStr (ci_gitHost i)),
             (''credentialMode'', JStr (mode_name (ci_mode i))), (''secretRef'', JStr (ci_secretRef i)),
             (''repositories'', JNum (int (length (ci_repositories i))))])
          (ac_organizationId a)) (\<lambda>_.
       andThen (get_source (ac_organizationId a) id') (\<lambda>row.
       case row of None \<Rightarrow> throw (Raised ''TypeError'') | Some c \<Rightarrow> ret c))))))"

definition create_source :: "web \<Rightarrow> bool \<Rightarrow> actor \<Rightarrow> json \<Rightarrow> ('z credential_db_scheme, source_connection) op" where
  "create_source w anywhere a raw =
     (case connectionSchema raw of
        None \<Rightarrow> throw (Raised ''ZodError'')
      | Some i \<Rightarrow>
          if \<not> public_host anywhere (ci_gitHost i) then throw (Refused 400 ''CONNECTION_HOST_INVALID'')
          else case normalizeApiUrl w anywhere (ci_apiBaseUrl i) of
            Inl e \<Rightarrow> throw e
          | Inr apiBaseUrl \<Rightarrow> attempt (insert_source a i apiBaseUrl) (\<lambda>e. throw (already_active e)))"

definition disable_source :: "actor \<Rightarrow> string \<Rightarrow> nat \<Rightarrow> ('z credential_db_scheme, source_connection) op" where
  "disable_source a i version =
     asAdmin a
      (andThen now (\<lambda>timestamp.
       andThen (update_rows kr_connections kr_connections_update sk_organizationId source_update_checks
          (\<lambda>c. sk_id c = i \<and> sk_organizationId c = ac_organizationId a \<and> sk_active c \<and> sk_version c = version)
          (\<lambda>c. c\<lparr>sk_active := False, sk_version := sk_version c + 1, sk_updatedBy := ac_id a,
             sk_updatedAt := timestamp\<rparr>)) (\<lambda>changed.
       andThen (if changed = 1 then ret ()
          else andThen (get_source (ac_organizationId a) i) (\<lambda>row.
            case row of
              None \<Rightarrow> throw (Refused 404 ''CONNECTION_NOT_FOUND'')
            | Some _ \<Rightarrow> throw (Refused 409 ''CONNECTION_VERSION_CONFLICT''))) (\<lambda>_.
       andThen (audit (ac_id a) ''source_control.connection.disabled'' ''source_control_connection'' i (JObj [])
          (ac_organizationId a)) (\<lambda>_.
       andThen (get_source (ac_organizationId a) i) (\<lambda>row.
       case row of None \<Rightarrow> throw (Raised ''TypeError'') | Some c \<Rightarrow> ret c))))))"

text \<open>The active connection that authenticates checkouts of a repository, and the repository it allows.\<close>

definition allowed_repository :: "web \<Rightarrow> string \<Rightarrow> source_connection \<Rightarrow> string option" where
  "allowed_repository w repositoryUrl c =
     (case repositoryOf w repositoryUrl (sk_gitHost c) of
        None \<Rightarrow> None
      | Some repository \<Rightarrow> find (\<lambda>n. sameRepositoryName n repository) (sk_repositories c))"

definition forRepository ::
  "web \<Rightarrow> string \<Rightarrow> string \<Rightarrow> ('z credential_db_scheme, (source_connection \<times> string) option) op" where
  "forRepository w org repositoryUrl =
     (case wb_URL w repositoryUrl of
        None \<Rightarrow> ret None
      | Some u \<Rightarrow>
          andThen (select_one kr_connections sk_organizationId
             (\<lambda>c. sk_organizationId c = org \<and> sk_gitHost c = toLowerCase (ul_hostname u) \<and> sk_active c)) (\<lambda>row.
          ret (case row of
                 None \<Rightarrow> None
               | Some c \<Rightarrow> map_option (\<lambda>n. (c, n)) (allowed_repository w repositoryUrl c))))"

end
