(* ===== verification/RuntimeIdentity.thy ===== *)
theory RuntimeIdentity
  imports TransportStore
begin

text \<open>
  Workload identities of the agent runtimes and the authentication of their signed requests
  (\<open>runtime/runtime-identity.ts\<close>, \<open>runtime/v1/transport.ts\<close>), with the single-use nonces of
  \<open>RuntimeTransportService.consumeNonce\<close>. Keys, signatures, digests and \<open>Date.parse\<close> are parameters.
\<close>

section \<open>Identities\<close>

datatype runtime_role = AgentRuntime | ExecutionRuntime

text \<open>The organizations a runtime may serve: \<open>'*'\<close> or a set.\<close>

datatype served = Everyone | Organizations "string list"

record runtime_identity =
  ri_id :: string
  ri_publicKey :: string
  ri_organizations :: served
  ri_runtimeProfiles :: "string list"
  ri_role :: runtime_role

definition servesOrganization :: "runtime_identity \<Rightarrow> string \<Rightarrow> bool" where
  "servesOrganization i org = (case ri_organizations i of Everyone \<Rightarrow> True | Organizations os \<Rightarrow> org \<in> set os)"

text \<open>
  The platform's cryptography: the type and the key of an SPKI text (\<open>None\<close> where it does not parse),
  the verification of a base64 signature (\<open>False\<close> where it throws), the SHA-256 of a body, and
  \<open>Date.parse\<close> (\<open>None\<close> for NaN).
\<close>

record crypto =
  cy_publicKey :: "string \<Rightarrow> (string \<times> string) option"
  cy_verify :: "string \<Rightarrow> string \<Rightarrow> string \<Rightarrow> bool"
  cy_sha256 :: "string \<Rightarrow> string"
  cy_dateParse :: "string \<Rightarrow> int option"

section \<open>The registry\<close>

text \<open>One entry of the configuration, \<open>identitySchema\<close> after parsing.\<close>

record identity_config =
  ic_id :: string
  ic_publicKeySpki :: string
  ic_organizations :: "string list"
  ic_runtimeProfiles :: "string list"
  ic_role :: "runtime_role option"

text \<open>\<open>^[a-z0-9][a-z0-9._-]{0,119}$\<close> and \<open>^[A-Za-z0-9+/]+={0,2}$\<close>.\<close>

definition runtime_id_text :: "string \<Rightarrow> bool" where
  "runtime_id_text t \<longleftrightarrow> t \<noteq> [] \<and> length t \<le> 120 \<and> (is_lower (hd t) \<or> is_digit (hd t)) \<and>
     list_all (\<lambda>c. is_lower c \<or> is_digit c \<or> c \<in> set ''._-'') t"

definition base64_text :: "string \<Rightarrow> bool" where
  "base64_text t \<longleftrightarrow>
     (let body = takeWhile (\<lambda>c. c \<noteq> CHR ''='') t; padding = dropWhile (\<lambda>c. c \<noteq> CHR ''='') t in
      body \<noteq> [] \<and> list_all (\<lambda>c. is_alnum c \<or> c \<in> set ''+/'') body \<and>
      length padding \<le> 2 \<and> list_all (\<lambda>c. c = CHR ''='') padding)"

definition role_of :: "string \<Rightarrow> runtime_role option" where
  "role_of t = (if t = ''agent'' then Some AgentRuntime else if t = ''execution'' then Some ExecutionRuntime else None)"

definition identitySchema :: "json \<Rightarrow> identity_config option" where
  "identitySchema v =
     (if strict [''id'', ''publicKeySpki'', ''organizations'', ''runtimeProfiles'', ''role''] v then
        (case (valid_text runtime_id_text ''id'' v,
               valid_text (\<lambda>t. base64_text t \<and> length t \<le> 200) ''publicKeySpki'' v,
               filtered (\<lambda>os. list_all (\<lambda>t. t = ''*'' \<or> record_id t) os \<and> 1 \<le> length os \<and> length os \<le> 1000)
                 (texts_field ''organizations'' v),
               filtered (\<lambda>ps. list_all slug ps \<and> 1 \<le> length ps \<and> length ps \<le> 50)
                 (texts_field ''runtimeProfiles'' v),
               optional_field (\<lambda>k v. case text_field k v of None \<Rightarrow> None | Some t \<Rightarrow> role_of t) ''role'' v) of
           (Some i, Some k, Some os, Some ps, Some r) \<Rightarrow>
             Some \<lparr>ic_id = i, ic_publicKeySpki = k, ic_organizations = os, ic_runtimeProfiles = ps, ic_role = r\<rparr>
         | _ \<Rightarrow> None)
      else None)"

fun schema_list :: "(json \<Rightarrow> 'a option) \<Rightarrow> json list \<Rightarrow> 'a list option" where
  "schema_list f [] = Some []"
| "schema_list f (v # vs) =
     (case (f v, schema_list f vs) of (Some x, Some xs) \<Rightarrow> Some (x # xs) | _ \<Rightarrow> None)"

definition registrySchema :: "json \<Rightarrow> identity_config list option" where
  "registrySchema v =
     (case v of JArr vs \<Rightarrow> if length vs \<le> 100 then schema_list identitySchema vs else None | _ \<Rightarrow> None)"

definition identity_of :: "identity_config \<Rightarrow> string \<Rightarrow> runtime_identity" where
  "identity_of c key = \<lparr>ri_id = ic_id c, ri_publicKey = key,
     ri_organizations = (if ''*'' \<in> set (ic_organizations c) then Everyone else Organizations (ic_organizations c)),
     ri_runtimeProfiles = ic_runtimeProfiles c,
     ri_role = (case ic_role c of None \<Rightarrow> AgentRuntime | Some r \<Rightarrow> r)\<rparr>"

text \<open>The loop of the constructor over the parsed configuration; the registry lists its identities.\<close>

fun register :: "crypto \<Rightarrow> runtime_identity list \<Rightarrow> identity_config list \<Rightarrow> failure + runtime_identity list" where
  "register cy known [] = Inr known"
| "register cy known (c # cs) =
     (if ic_id c \<in> ri_id ` set known then Inl (Raised ''RUNTIME_IDENTITY_CONFIG_INVALID'')
      else if ''*'' \<in> set (ic_organizations c) \<and> length (ic_organizations c) \<noteq> 1
      then Inl (Raised ''RUNTIME_IDENTITY_CONFIG_INVALID'')
      else case cy_publicKey cy (ic_publicKeySpki c) of
        None \<Rightarrow> Inl (Raised ''RUNTIME_IDENTITY_CONFIG_INVALID'')
      | Some (type, key) \<Rightarrow>
          if type \<noteq> ''ed25519'' then Inl (Raised ''RUNTIME_IDENTITY_CONFIG_INVALID'')
          else register cy (known @ [identity_of c key]) cs)"

definition runtimeIdentityRegistry :: "crypto \<Rightarrow> json \<Rightarrow> failure + runtime_identity list" where
  "runtimeIdentityRegistry cy configs =
     (case registrySchema configs of
        None \<Rightarrow> Inl (Raised ''RUNTIME_IDENTITY_CONFIG_INVALID'')
      | Some cs \<Rightarrow> register cy [] cs)"

definition registered :: "runtime_identity list \<Rightarrow> string \<Rightarrow> runtime_identity option" where
  "registered reg i = find (\<lambda>r. ri_id r = i) reg"

section \<open>Signed requests\<close>

definition RUNTIME_AUTH_SCHEME :: string where
  "RUNTIME_AUTH_SCHEME = ''AF-RUNTIME-V1''"

definition RUNTIME_REQUEST_MAX_SKEW_MS :: int where
  "RUNTIME_REQUEST_MAX_SKEW_MS = 5 * 60000"

text \<open>A request as received: its four headers, where present, and its body.\<close>

record signed_request =
  sr_method :: string
  sr_path :: string
  sr_runtimeId :: "string option"
  sr_timestamp :: "string option"
  sr_nonce :: "string option"
  sr_signature :: "string option"
  sr_body :: string

text \<open>\<open>toUpperCase\<close> of an HTTP method, which is ASCII.\<close>

definition upper_ascii :: "string \<Rightarrow> string" where
  "upper_ascii t = map (\<lambda>c. if is_lower c then char_of (char_code c - 32) else c) t"

definition runtimeSigningInput :: "string \<Rightarrow> string \<Rightarrow> string \<Rightarrow> string \<Rightarrow> string \<Rightarrow> string" where
  "runtimeSigningInput verb path timestamp nonce bodySha256 =
     joinWith [newline] [RUNTIME_AUTH_SCHEME, upper_ascii verb, path, timestamp, nonce, bodySha256]"

text \<open>\<open>^[0-9a-f-]{36}$\<close> and \<open>^\d{4}-\d{2}-\d{2}T\d{2}:\d{2}:\d{2}(\.\d{1,3})?Z$\<close>.\<close>

definition nonce_text :: "string \<Rightarrow> bool" where
  "nonce_text t \<longleftrightarrow> length t = 36 \<and> list_all (\<lambda>c. is_digit c \<or> c \<in> set ''abcdef-'') t"

definition shaped :: "string \<Rightarrow> string \<Rightarrow> bool" where
  "shaped pattern t \<longleftrightarrow> length t = length pattern \<and>
     list_all2 (\<lambda>p c. if p = CHR ''0'' then is_digit c else c = p) pattern t"

definition timestamp_text :: "string \<Rightarrow> bool" where
  "timestamp_text t \<longleftrightarrow>
     list_ex (\<lambda>p. shaped p t) [''0000-00-00T00:00:00Z'', ''0000-00-00T00:00:00.0Z'',
       ''0000-00-00T00:00:00.00Z'', ''0000-00-00T00:00:00.000Z'']"

text \<open>\<open>consumeNonce\<close>: expired nonces are purged, then the nonce must be new.\<close>

definition consumeNonce :: "string \<Rightarrow> string \<Rightarrow> int \<Rightarrow> ('z transport_db_scheme, bool) op" where
  "consumeNonce runtimeId nonce expiresAt =
     platform
      (andThen now (\<lambda>nowMs.
       andThen (delete_rows tp_nonces tp_nonces_update nonce_owner (\<lambda>n. nn_expiresAt n < nowMs)) (\<lambda>_.
       andThen (insert_unless tp_nonces tp_nonces_update nonce_owner (\<lambda>_. None) (\<lambda>_ _. None) nonce_key
          \<lparr>nn_runtimeId = runtimeId, nn_nonce = nonce, nn_expiresAt = expiresAt\<rparr>) (\<lambda>changes.
       ret (changes = 1)))))"

text \<open>
  The checks on the request itself: the identity it names, when it was issued and its nonce, or \<open>None\<close>
  for any failure, all of which are answered alike. An empty header counts as absent.
\<close>

definition given_header :: "string option \<Rightarrow> string option" where
  "given_header h = filtered (\<lambda>t. t \<noteq> []) h"

definition verified_request ::
  "crypto \<Rightarrow> runtime_identity list \<Rightarrow> signed_request \<Rightarrow> int \<Rightarrow> (runtime_identity \<times> int \<times> string) option" where
  "verified_request cy reg q nowMs =
     (case (given_header (sr_runtimeId q), given_header (sr_timestamp q), given_header (sr_nonce q),
            given_header (sr_signature q)) of
        (Some runtimeId, Some timestamp, Some nonce, Some signature) \<Rightarrow>
          (case registered reg runtimeId of
             None \<Rightarrow> None
           | Some i \<Rightarrow>
               if \<not> nonce_text nonce \<or> \<not> base64_text signature then None
               else case cy_dateParse cy timestamp of
                 None \<Rightarrow> None
               | Some issuedAt \<Rightarrow>
                   if \<not> timestamp_text timestamp \<or> \<bar>nowMs - issuedAt\<bar> > RUNTIME_REQUEST_MAX_SKEW_MS then None
                   else if \<not> cy_verify cy
                       (runtimeSigningInput (sr_method q) (sr_path q) timestamp nonce (cy_sha256 cy (sr_body q)))
                       (ri_publicKey i) signature then None
                   else Some (i, issuedAt, nonce))
      | _ \<Rightarrow> None)"

text \<open>Only a verified request consumes its nonce.\<close>

definition authenticateRuntimeRequest ::
  "crypto \<Rightarrow> runtime_identity list \<Rightarrow> signed_request \<Rightarrow> int \<Rightarrow> ('z transport_db_scheme, runtime_identity) op" where
  "authenticateRuntimeRequest cy reg q nowMs =
     (case verified_request cy reg q nowMs of
        None \<Rightarrow> throw (Refused 401 ''RUNTIME_UNAUTHENTICATED'')
      | Some (i, issuedAt, nonce) \<Rightarrow>
          andThen (consumeNonce (ri_id i) nonce (issuedAt + RUNTIME_REQUEST_MAX_SKEW_MS)) (\<lambda>fresh.
          andThen (demand fresh (Refused 401 ''RUNTIME_UNAUTHENTICATED'')) (\<lambda>_. ret i)))"

section \<open>What is registered\<close>

lemma register_identities:
  assumes "register cy known cs = Inr reg" and "distinct (map ri_id known)"
  shows "distinct (map ri_id reg) \<and> set known \<subseteq> set reg \<and>
    (\<forall>i \<in> set reg - set known. \<exists>c \<in> set cs. \<exists>key. cy_publicKey cy (ic_publicKeySpki c) = Some (''ed25519'', key) \<and>
       i = identity_of c key)"
  using assms
proof (induction cy known cs rule: register.induct)
  case (2 cy known c cs)
  then obtain key where key: "cy_publicKey cy (ic_publicKeySpki c) = Some (''ed25519'', key)"
    and run: "register cy (known @ [identity_of c key]) cs = Inr reg" and new: "ic_id c \<notin> ri_id ` set known"
    by (auto split: if_splits option.splits prod.splits)
  from new 2(3) have "distinct (map ri_id (known @ [identity_of c key]))"
    by (simp add: identity_of_def)
  with 2 key run new have "distinct (map ri_id reg) \<and> set (known @ [identity_of c key]) \<subseteq> set reg \<and>
    (\<forall>i \<in> set reg - set (known @ [identity_of c key]).
       \<exists>c \<in> set cs. \<exists>key. cy_publicKey cy (ic_publicKeySpki c) = Some (''ed25519'', key) \<and> i = identity_of c key)"
    by (auto split: if_splits)
  with key show ?case by auto
qed simp

lemma registered_id: "registered reg i = Some r \<Longrightarrow> r \<in> set reg \<and> ri_id r = i"
  unfolding registered_def by (auto dest: find_Some_set)

lemma verified_request_Some:
  assumes "verified_request cy reg q n = Some (i, issuedAt, nonce)"
  shows "\<exists>timestamp signature. sr_runtimeId q = Some (ri_id i) \<and> i \<in> set reg \<and> sr_timestamp q = Some timestamp \<and>
    cy_dateParse cy timestamp = Some issuedAt \<and> \<bar>n - issuedAt\<bar> \<le> RUNTIME_REQUEST_MAX_SKEW_MS \<and>
    sr_nonce q = Some nonce \<and> sr_signature q = Some signature \<and>
    cy_verify cy (runtimeSigningInput (sr_method q) (sr_path q) timestamp nonce (cy_sha256 cy (sr_body q)))
      (ri_publicKey i) signature"
  using assms
  by (auto simp: verified_request_def given_header_def split: option.splits if_splits dest: registered_id)

lemma consumeNonce_Inr:
  "ss_scope s = None \<Longrightarrow> consumeNonce i nonce e s = Inr (fresh, s') \<longleftrightarrow>
     (let kept = filter (\<lambda>n. \<not> nn_expiresAt n < ss_clock s (ss_reads s)) (tp_nonces s);
          row = \<lparr>nn_runtimeId = i, nn_nonce = nonce, nn_expiresAt = e\<rparr> in
      fresh = (nonce_key row \<notin> nonce_key ` set kept) \<and>
      s' = s\<lparr>ss_reads := Suc (ss_reads s), tp_nonces := kept @ (if fresh then [row] else [])\<rparr>)"
  by (auto simp: consumeNonce_def platform_Inr andThen_Inr nonces.delete_Inr nonces.insert_unless_Inr Let_def
      split: if_splits)

end
