(* ===== verification/RuntimeTransport.thy ===== *)
theory RuntimeTransport
  imports RuntimeIdentity ActionPolicies
begin

text \<open>
  The control plane's side of the runtime transport (\<open>runtime/runtime-transport-service.ts\<close>): runtimes
  claim runs under leases, keep them alive, and act on a run only while they hold its lease; runs
  whose runtime is gone are handed to another one or cancelled. Tenancy comes from the stored lease,
  never from a message. Telemetry and what runs after a commit are left out.
\<close>

section \<open>What the service is constructed with\<close>

definition RUNTIME_LEASE_MS :: int where
  "RUNTIME_LEASE_MS = 10 * 60000"

definition MAX_RUN_RECOVERIES :: nat where
  "MAX_RUN_RECOVERIES = 3"

definition RUN_RECOVERY_WINDOW_MS :: int where
  "RUN_RECOVERY_WINDOW_MS = 24 * 60 * 60000"

definition COMMAND_REDELIVERY_MS :: int where
  "COMMAND_REDELIVERY_MS = 60000"

text \<open>
  The gateway (with the execution service inside), model spending, the validation library, SHA-256 of
  a text, the encoded size of a message and \<open>ModelCredentialService.forRun\<close>.
\<close>

record 'z transport_env =
  tr_gateway :: "'z transport_db_ext spending_db_ext gateway_env"
  tr_spending :: "'z transport_db_ext spending_env"
  tr_schemas :: schemas
  tr_uuid :: "string \<Rightarrow> bool"
  tr_messageSize :: "json \<Rightarrow> int"
  tr_sha256 :: "string \<Rightarrow> string"
  tr_modelCredential ::
    "string \<Rightarrow> string \<Rightarrow> run_binding \<Rightarrow> string \<Rightarrow> string \<Rightarrow> ('z transport_db_scheme, string) op"

abbreviation tr_execution :: "'z transport_env \<Rightarrow> 'z transport_db_ext spending_db_ext action_db_ext exec_env" where
  "tr_execution env \<equiv> gw_execution (tr_gateway env)"

section \<open>Commands\<close>

record command_base =
  bs_commandId :: string
  bs_issuedAt :: int
  bs_correlation :: correlation

datatype runtime_command =
    RunSubmit run_submit_command
  | RunResume command_base string string "int option"
  | RunCancel command_base string string
  | RunRecover command_base string "string list"

record claim_response =
  cl_command :: runtime_command
  cl_sessionId :: string
  cl_runtimeSequence :: nat
  cl_leaseExpiresAt :: int

text \<open>A missing row where the code asserts one is a \<open>TypeError\<close>.\<close>

definition must :: "'a option \<Rightarrow> ('s, 'a) op" where
  "must row = (case row of None \<Rightarrow> throw (Raised ''TypeError'') | Some x \<Rightarrow> ret x)"

definition commandBase :: "string \<Rightarrow> string \<Rightarrow> ('z transport_db_scheme, command_base) op" where
  "commandBase org runId =
     andThen (select_one ex_runs rn_organizationId (\<lambda>r. rn_id r = runId \<and> rn_organizationId r = org)) (\<lambda>row.
     andThen randomUUID (\<lambda>commandId.
     andThen now (\<lambda>issuedAt.
     andThen (must row) (\<lambda>run.
     ret \<lparr>bs_commandId = commandId, bs_issuedAt = issuedAt,
       bs_correlation = \<lparr>co_organizationId = org, co_employeeId = rn_employeeId run, co_agentId = rn_agentId run,
         co_threadId = rn_threadId run, co_runId = runId, co_stepId = None, co_toolCallId = None,
         co_actionId = None\<rparr>\<rparr>))))"

definition lease_of :: "string \<Rightarrow> ('z transport_db_scheme, lease_row option) op" where
  "lease_of runId = select_one tp_leases ls_organizationId (\<lambda>l. ls_runId l = runId)"

definition respond :: "string \<Rightarrow> runtime_command \<Rightarrow> ('z transport_db_scheme, claim_response) op" where
  "respond runId command =
     andThen (andThen (lease_of runId) must) (\<lambda>current.
     andThen (andThen (select_one ex_runs rn_organizationId (\<lambda>r. rn_id r = runId)) must) (\<lambda>run.
     ret \<lparr>cl_command = command, cl_sessionId = ls_sessionId current,
       cl_runtimeSequence = rn_runtimeSequence run, cl_leaseExpiresAt = ls_expiresAt current\<rparr>))"

section \<open>Leases\<close>

text \<open>The lease must belong to this runtime and to a tenant it serves.\<close>

definition ownedLease :: "runtime_identity \<Rightarrow> string \<Rightarrow> ('z transport_db_scheme, lease_row) op" where
  "ownedLease runtime runId =
     andThen (lease_of runId) (\<lambda>row.
     case filtered (\<lambda>l. ls_runtimeId l = ri_id runtime \<and> servesOrganization runtime (ls_organizationId l)) row of
       None \<Rightarrow> throw (Refused 403 ''RUNTIME_LEASE_REQUIRED'')
     | Some l \<Rightarrow> ret l)"

definition leaseOrganization :: "runtime_identity \<Rightarrow> string \<Rightarrow> ('z transport_db_scheme, string) op" where
  "leaseOrganization runtime runId =
     platform (andThen (ownedLease runtime runId) (\<lambda>l. ret (ls_organizationId l)))"

definition touchLease :: "string \<Rightarrow> int \<Rightarrow> string option \<Rightarrow> ('z transport_db_scheme, unit) op" where
  "touchLease runId nowMs lastCommand =
     andThen (update_rows tp_leases tp_leases_update ls_organizationId lease_update_checks
        (\<lambda>l. ls_runId l = runId \<and> ls_state l = LeaseACTIVE)
        (\<lambda>l. l\<lparr>ls_heartbeatAt := nowMs, ls_expiresAt := nowMs + RUNTIME_LEASE_MS,
           ls_lastCommand := (case lastCommand of None \<Rightarrow> ls_lastCommand l | Some c \<Rightarrow> Some c)\<rparr>)) (\<lambda>_. ret ())"

definition closeLease :: "string \<Rightarrow> int \<Rightarrow> ('z transport_db_scheme, unit) op" where
  "closeLease runId nowMs =
     andThen (update_rows tp_leases tp_leases_update ls_organizationId lease_update_checks
        (\<lambda>l. ls_runId l = runId \<and> ls_state l = LeaseACTIVE)
        (\<lambda>l. l\<lparr>ls_state := LeaseCLOSED, ls_closedAt := Some nowMs, ls_heartbeatAt := nowMs\<rparr>)) (\<lambda>_. ret ())"

text \<open>One run named in a heartbeat: whether its lease is still held.\<close>

definition keep_alive :: "runtime_identity \<Rightarrow> int \<Rightarrow> string \<Rightarrow> ('z transport_db_scheme, bool) op" where
  "keep_alive runtime nowMs runId =
     andThen (update_rows tp_leases tp_leases_update ls_organizationId lease_update_checks
        (\<lambda>l. ls_runId l = runId \<and> ls_runtimeId l = ri_id runtime \<and> ls_state l = LeaseACTIVE)
        (\<lambda>l. l\<lparr>ls_heartbeatAt := nowMs, ls_expiresAt := nowMs + RUNTIME_LEASE_MS\<rparr>)) (\<lambda>changes.
     ret (changes = 1))"

definition heartbeat ::
  "'z transport_env \<Rightarrow> runtime_identity \<Rightarrow> json \<Rightarrow> int \<Rightarrow> ('z transport_db_scheme, string list \<times> string list) op" where
  "heartbeat env runtime body nowMs =
     (case parseRuntimeHeartbeatRequest (tr_uuid env) body of
        Inl e \<Rightarrow> throw e
      | Inr runIds \<Rightarrow>
          let ids = rev (remdups (rev runIds)) in
          platform
           (andThen (gather (keep_alive runtime nowMs) ids) (\<lambda>alive.
            ret (map fst (filter snd (zip ids alive)), map fst (filter (\<lambda>x. \<not> snd x) (zip ids alive))))))"

section \<open>Abandoned runs\<close>

definition abandon :: "'z transport_env \<Rightarrow> string \<Rightarrow> string \<Rightarrow> string \<Rightarrow> int \<Rightarrow> ('z transport_db_scheme, unit) op" where
  "abandon env org runId code nowMs =
     andThen (cancelRun (tr_execution env) org runId code None) (\<lambda>_.
     andThen (closeLease runId nowMs) (\<lambda>_.
     audit ''control-plane'' ''runtime.run.abandoned'' ''agent_run'' runId (JObj [(''code'', JStr code)]) org))"

text \<open>Leases joined with their runs, in insertion order.\<close>

definition leased_runs ::
  "(lease_row \<Rightarrow> run_row \<Rightarrow> bool) \<Rightarrow> ('z transport_db_scheme, (lease_row \<times> run_row) list) op" where
  "leased_runs P =
     andThen (select tp_leases ls_organizationId (\<lambda>_. True)) (\<lambda>ls.
     andThen (select ex_runs rn_organizationId (\<lambda>_. True)) (\<lambda>rs.
     ret (List.map_filter (\<lambda>l.
       case find (\<lambda>r. rn_id r = ls_runId l \<and> rn_organizationId r = ls_organizationId l) rs of
         None \<Rightarrow> None
       | Some r \<Rightarrow> if P l r then Some (l, r) else None) ls)))"

definition released :: "run_row \<Rightarrow> bool" where
  "released r \<longleftrightarrow> rn_status r = QUEUED \<and> rn_statusReason r = Some ''APPROVAL_GRANTED''"

definition lease_lapsed :: "int \<Rightarrow> lease_row \<Rightarrow> run_row \<Rightarrow> bool" where
  "lease_lapsed nowMs l r \<longleftrightarrow>
     ls_state l = LeaseACTIVE \<and> ls_expiresAt l < nowMs \<and> (rn_status r = RUNNING \<or> released r)"

definition stale_leases :: "int \<Rightarrow> ('z transport_db_scheme, (lease_row \<times> run_row \<times> bool) list) op" where
  "stale_leases nowMs =
     andThen (leased_runs (lease_lapsed nowMs)) (\<lambda>pairs.
     andThen (select tp_checkpoints ck_organizationId (\<lambda>_. True)) (\<lambda>cs.
     ret (take 50 (map (\<lambda>(l, r). (l, r, list_ex (\<lambda>c. ck_runId c = ls_runId l) cs))
       (sort_key (\<lambda>x. ls_expiresAt (fst x)) pairs)))))"

text \<open>Nothing can continue a run without a checkpoint, nor one idle for the recovery window.\<close>

definition reap ::
  "'z transport_env \<Rightarrow> int \<Rightarrow> lease_row \<times> run_row \<times> bool \<Rightarrow> ('z transport_db_scheme, bool) op" where
  "reap env nowMs item =
     (case item of (l, r, checkpointed) \<Rightarrow>
        let expired = max (ls_expiresAt l) (rn_updatedAt r) + RUN_RECOVERY_WINDOW_MS < nowMs in
        if \<not> expired \<and> (rn_status r \<noteq> RUNNING \<or> checkpointed) then ret False
        else andThen (abandon env (ls_organizationId l) (ls_runId l) ''RUNTIME_LOST'' nowMs) (\<lambda>_. ret True))"

definition reapAbandoned :: "'z transport_env \<Rightarrow> int \<Rightarrow> ('z transport_db_scheme, nat) op" where
  "reapAbandoned env nowMs =
     platform
      (andThen (stale_leases nowMs) (\<lambda>items.
       andThen (gather (reap env nowMs) items) (\<lambda>reaped. ret (length (filter id reaped)))))"

section \<open>Taking a run over\<close>

text \<open>\<open>ORDER BY decided_at DESC, seq DESC LIMIT 1\<close>; an approved approval has its time.\<close>

definition granted_approval :: "string \<Rightarrow> string \<Rightarrow> ('z transport_db_scheme, approval_row option) op" where
  "granted_approval org runId =
     andThen (select ex_approvals ap_organizationId
        (\<lambda>a. ap_runId a = Some runId \<and> ap_organizationId a = org \<and> ap_status a = ApAPPROVED)) (\<lambda>as.
     ret (latest (\<lambda>a. case ap_decidedAt a of None \<Rightarrow> 0 | Some t \<Rightarrow> t) as))"

definition resume_marker :: "string \<Rightarrow> string" where
  "resume_marker approvalId = ''run.resume:'' @ approvalId"

definition resume_command ::
  "string \<Rightarrow> string \<Rightarrow> approval_row \<Rightarrow> ('z transport_db_scheme, claim_response) op" where
  "resume_command org runId a =
     andThen (commandBase org runId) (\<lambda>b. respond runId (RunResume b runId (ap_id a) (ap_decidedAt a)))"

text \<open>Whether the run's manifest still verifies; only an \<open>ExecutionError\<close> means that it does not.\<close>

definition manifest_holds :: "'z transport_env \<Rightarrow> string \<Rightarrow> string \<Rightarrow> ('z transport_db_scheme, bool) op" where
  "manifest_holds env org runId =
     attempt (andThen (runBinding (tr_execution env) org runId) (\<lambda>_. ret True))
       (\<lambda>e. case e of Refused _ _ \<Rightarrow> ret False | _ \<Rightarrow> throw e)"

text \<open>
  The lease changes hands under a new session, if it is still the one that was read and still
  lapsed.
\<close>

definition move_lease ::
  "runtime_identity \<Rightarrow> lease_row \<Rightarrow> bool \<Rightarrow> string \<Rightarrow> string \<Rightarrow> int \<Rightarrow> ('z transport_db_scheme, nat) op" where
  "move_lease runtime l running sessionId command nowMs =
     update_rows tp_leases tp_leases_update ls_organizationId lease_update_checks
       (\<lambda>q. ls_runId q = ls_runId l \<and> ls_state q = LeaseACTIVE \<and> ls_sessionId q = ls_sessionId l \<and>
          ls_expiresAt q < nowMs)
       (\<lambda>q. q\<lparr>ls_runtimeId := ri_id runtime, ls_sessionId := sessionId, ls_lastCommand := Some command,
          ls_heartbeatAt := nowMs, ls_expiresAt := nowMs + RUNTIME_LEASE_MS,
          ls_recoveries := ls_recoveries q + (if running then 1 else 0)\<rparr>)"

text \<open>What a runtime that takes over is told.\<close>

definition recovery_command ::
  "'z transport_env \<Rightarrow> string \<Rightarrow> string \<Rightarrow> approval_row option \<Rightarrow> ('z transport_db_scheme, claim_response) op" where
  "recovery_command env org runId approval =
     (case approval of
        Some a \<Rightarrow> resume_command org runId a
      | None \<Rightarrow>
          andThen (commandBase org runId) (\<lambda>b.
          andThen (openSteps org runId) (\<lambda>opened. respond runId (RunRecover b runId opened))))"

definition takeOver ::
  "'z transport_env \<Rightarrow> runtime_identity \<Rightarrow> int \<Rightarrow> lease_row \<times> run_row \<Rightarrow>
   ('z transport_db_scheme, claim_response option) op" where
  "takeOver env runtime nowMs held =
     (let l = fst held; org = ls_organizationId l; runId = ls_runId l; running = (rn_status (snd held) = RUNNING) in
      andThen (checkpoint_exists runId) (\<lambda>durable.
      if \<not> durable then ret None
      else if running \<and> ls_recoveries l \<ge> MAX_RUN_RECOVERIES
      then andThen (abandon env org runId ''RUNTIME_RECOVERY_EXHAUSTED'' nowMs) (\<lambda>_. ret None)
      else
        andThen (manifest_holds env org runId) (\<lambda>verified.
        if \<not> verified then andThen (abandon env org runId ''MANIFEST_INVALID'' nowMs) (\<lambda>_. ret None)
        else
          andThen (if running then ret None else granted_approval org runId) (\<lambda>approval.
          if \<not> running \<and> approval = None then ret None
          else
            andThen randomUUID (\<lambda>sessionId.
            andThen (move_lease runtime l running sessionId
               (case approval of None \<Rightarrow> ''run.recover'' | Some a \<Rightarrow> resume_marker (ap_id a)) nowMs) (\<lambda>moved.
            if moved \<noteq> 1 then ret None
            else
              andThen (audit (ri_id runtime) ''runtime.run.recovered'' ''agent_run'' runId
                 (JObj [(''runtimeId'', JStr (ri_id runtime)), (''previousRuntimeId'', JStr (ls_runtimeId l)),
                    (''sessionId'', JStr sessionId),
                    (''command'', JStr (if running then ''run.recover'' else ''run.resume''))]) org) (\<lambda>_.
              andThen (recovery_command env org runId approval) (\<lambda>c. ret (Some c)))))))))"

text \<open>\<open>r.runtime_profile IN (...) AND r.organization_id IN (...)\<close>.\<close>

definition may_run :: "runtime_identity \<Rightarrow> run_row \<Rightarrow> bool" where
  "may_run runtime r \<longleftrightarrow>
     rn_runtimeProfile r \<in> set (ri_runtimeProfiles runtime) \<and> servesOrganization runtime (rn_organizationId r)"

definition claimAbandoned ::
  "'z transport_env \<Rightarrow> runtime_identity \<Rightarrow> int \<Rightarrow> ('z transport_db_scheme, claim_response option) op" where
  "claimAbandoned env runtime nowMs =
     andThen (leased_runs (\<lambda>l r. lease_lapsed nowMs l r \<and> may_run runtime r)) (\<lambda>pairs.
     first_of_each (takeOver env runtime nowMs) (take 20 (sort_key (\<lambda>x. ls_expiresAt (fst x)) pairs)))"

section \<open>Claiming queued runs\<close>

text \<open>\<open>/^MANIFEST_[A-Z_]+$/\<close>, and the code of an error that means the manifest cannot be used.\<close>

definition manifest_problem :: "failure \<Rightarrow> string option" where
  "manifest_problem e =
     (let named = (\<lambda>m. if m = ''RUNTIME_MANIFEST_V2_REQUIRED'' then m else ''MANIFEST_INVALID'') in
      case e of
        Refused _ m \<Rightarrow> Some (named m)
      | Raised m \<Rightarrow>
          if startsWith ''MANIFEST_'' m \<and> drop 9 m \<noteq> [] \<and> list_all (\<lambda>c. is_upper c \<or> c = CHR ''_'') (drop 9 m)
          then Some (named m) else None
      | _ \<Rightarrow> None)"

text \<open>A queued run whose manifest can no longer be verified is cancelled, never executed.\<close>

definition submitCommand ::
  "'z transport_env \<Rightarrow> string \<Rightarrow> string \<Rightarrow> int \<Rightarrow> ('z transport_db_scheme, run_submit_command option) op" where
  "submitCommand env org runId nowMs =
     attempt (andThen (buildRunSubmitCommand (tr_execution env) org runId) (\<lambda>c. ret (Some c)))
       (\<lambda>e. case manifest_problem e of
          None \<Rightarrow> throw e
        | Some code \<Rightarrow>
            andThen (cancelRun (tr_execution env) org runId code None) (\<lambda>_.
            andThen (lease_of runId) (\<lambda>row.
            andThen (case row of
                None \<Rightarrow> ret ()
              | Some l \<Rightarrow> whenever (ls_state l = LeaseACTIVE) (closeLease runId nowMs)) (\<lambda>_.
            ret None))))"

definition claimable :: "runtime_identity \<Rightarrow> int \<Rightarrow> lease_row option \<Rightarrow> run_row \<Rightarrow> bool" where
  "claimable runtime nowMs l r \<longleftrightarrow>
     rn_status r = QUEUED \<and> rn_statusReason r = None \<and> rn_runtimeSequence r = 0 \<and>
     map_option mr_apiVersion (rn_manifest r) = Some V2 \<and> may_run runtime r \<and>
     (case l of None \<Rightarrow> True | Some l \<Rightarrow> ls_state l = LeaseACTIVE \<and> ls_expiresAt l < nowMs)"

definition new_lease :: "runtime_identity \<Rightarrow> run_row \<Rightarrow> string \<Rightarrow> int \<Rightarrow> lease_row" where
  "new_lease runtime r sessionId nowMs =
     \<lparr>ls_runId = rn_id r, ls_organizationId = rn_organizationId r, ls_sessionId = sessionId,
      ls_runtimeId = ri_id runtime, ls_state = LeaseACTIVE, ls_lastCommand = Some ''run.submit'',
      ls_claimedAt = nowMs, ls_heartbeatAt = nowMs, ls_expiresAt = nowMs + RUNTIME_LEASE_MS,
      ls_closedAt = None, ls_recoveries = 0\<rparr>"

text \<open>The lease of a claimed run: a lapsed one is taken over, else it is new.\<close>

definition lease_run ::
  "runtime_identity \<Rightarrow> run_row \<Rightarrow> bool \<Rightarrow> string \<Rightarrow> int \<Rightarrow> ('z transport_db_scheme, unit) op" where
  "lease_run runtime r leased sessionId nowMs =
     (if leased
      then andThen (update_rows tp_leases tp_leases_update ls_organizationId lease_update_checks
          (\<lambda>l. ls_runId l = rn_id r \<and> ls_state l = LeaseACTIVE)
          (\<lambda>l. l\<lparr>ls_runtimeId := ri_id runtime, ls_sessionId := sessionId, ls_lastCommand := Some ''run.submit'',
             ls_heartbeatAt := nowMs, ls_expiresAt := nowMs + RUNTIME_LEASE_MS\<rparr>)) (\<lambda>_. ret ())
      else insert_row tp_leases_update ls_organizationId lease_checks (new_lease runtime r sessionId nowMs))"

definition claim_run ::
  "'z transport_env \<Rightarrow> runtime_identity \<Rightarrow> int \<Rightarrow> run_row \<times> bool \<Rightarrow>
   ('z transport_db_scheme, claim_response option) op" where
  "claim_run env runtime nowMs candidate =
     (let r = fst candidate in
      andThen (submitCommand env (rn_organizationId r) (rn_id r) nowMs) (\<lambda>command.
      case command of
        None \<Rightarrow> ret None
      | Some c \<Rightarrow>
          andThen randomUUID (\<lambda>sessionId.
          andThen (lease_run runtime r (snd candidate) sessionId nowMs) (\<lambda>_.
          andThen (audit (ri_id runtime) ''runtime.run.claimed'' ''agent_run'' (rn_id r)
             (JObj [(''runtimeId'', JStr (ri_id runtime)), (''sessionId'', JStr sessionId)])
             (rn_organizationId r)) (\<lambda>_.
          ret (Some \<lparr>cl_command = RunSubmit c, cl_sessionId = sessionId, cl_runtimeSequence = 0,
            cl_leaseExpiresAt = nowMs + RUNTIME_LEASE_MS\<rparr>))))))"

definition claimQueued ::
  "'z transport_env \<Rightarrow> runtime_identity \<Rightarrow> int \<Rightarrow> ('z transport_db_scheme, claim_response option) op" where
  "claimQueued env runtime nowMs =
     andThen (select ex_runs rn_organizationId (\<lambda>_. True)) (\<lambda>rs.
     andThen (select tp_leases ls_organizationId (\<lambda>_. True)) (\<lambda>ls.
     let leased = (\<lambda>r. find (\<lambda>l. ls_runId l = rn_id r) ls);
         candidates = take 20 (sort_key rn_createdAt (filter (\<lambda>r. claimable runtime nowMs (leased r) r) rs)) in
     first_of_each (claim_run env runtime nowMs) (map (\<lambda>r. (r, leased r \<noteq> None)) candidates)))"

section \<open>Claiming\<close>

text \<open>One lease the runtime holds: the command that is due for it, if any.\<close>

definition serve_ended ::
  "int \<Rightarrow> lease_row \<times> run_row \<Rightarrow> ('z transport_db_scheme, claim_response option) op" where
  "serve_ended nowMs held =
     (let l = fst held; r = snd held in
      andThen (closeLease (ls_runId l) nowMs) (\<lambda>_.
      if rn_status r \<noteq> CANCELLED then ret None
      else
        andThen (commandBase (ls_organizationId l) (ls_runId l)) (\<lambda>b.
        andThen (respond (ls_runId l) (RunCancel b (ls_runId l)
           (case rn_statusReason r of None \<Rightarrow> ''CANCELLED'' | Some reason \<Rightarrow> reason))) (\<lambda>c.
        ret (Some c)))))"

definition serve_released ::
  "int \<Rightarrow> bool \<Rightarrow> lease_row \<Rightarrow> ('z transport_db_scheme, claim_response option) op" where
  "serve_released nowMs redeliver l =
     andThen (granted_approval (ls_organizationId l) (ls_runId l)) (\<lambda>approval.
     case approval of
       None \<Rightarrow> ret None
     | Some a \<Rightarrow>
         if ls_lastCommand l = Some (resume_marker (ap_id a)) \<and> \<not> redeliver then ret None
         else
           andThen (touchLease (ls_runId l) nowMs (Some (resume_marker (ap_id a)))) (\<lambda>_.
           andThen (resume_command (ls_organizationId l) (ls_runId l) a) (\<lambda>c. ret (Some c))))"

definition serve_submitted ::
  "'z transport_env \<Rightarrow> int \<Rightarrow> lease_row \<Rightarrow> ('z transport_db_scheme, claim_response option) op" where
  "serve_submitted env nowMs l =
     andThen (submitCommand env (ls_organizationId l) (ls_runId l) nowMs) (\<lambda>command.
     case command of
       None \<Rightarrow> ret None
     | Some c \<Rightarrow>
         andThen (touchLease (ls_runId l) nowMs (Some ''run.submit'')) (\<lambda>_.
         andThen (respond (ls_runId l) (RunSubmit c)) (\<lambda>r. ret (Some r))))"

definition serve_held ::
  "'z transport_env \<Rightarrow> runtime_identity \<Rightarrow> int \<Rightarrow> lease_row \<times> run_row \<Rightarrow>
   ('z transport_db_scheme, claim_response option) op" where
  "serve_held env runtime nowMs held =
     (let l = fst held; r = snd held; redeliver = (ls_heartbeatAt l + COMMAND_REDELIVERY_MS \<le> nowMs) in
      if rn_status r \<in> {COMPLETED, FAILED, CANCELLED} then serve_ended nowMs held
      else if \<not> servesOrganization runtime (ls_organizationId l) then ret None
      else if rn_status r = RUNNING \<and> ls_expiresAt l < nowMs then takeOver env runtime nowMs held
      else if released r then serve_released nowMs redeliver l
      else if rn_status r = QUEUED \<and> rn_statusReason r = None \<and> redeliver then serve_submitted env nowMs l
      else ret None)"

text \<open>
  \<open>claim\<close> is three transactions: expired approvals cancel their runs, abandoned runs are reaped, then
  the runtime is handed its next command.
\<close>

definition next_command ::
  "'z transport_env \<Rightarrow> runtime_identity \<Rightarrow> int \<Rightarrow> ('z transport_db_scheme, claim_response option) op" where
  "next_command env runtime nowMs =
     platform
      (andThen (leased_runs (\<lambda>l r. ls_runtimeId l = ri_id runtime \<and> ls_state l = LeaseACTIVE)) (\<lambda>held.
       andThen (first_of_each (serve_held env runtime nowMs) (sort_key (\<lambda>x. ls_claimedAt (fst x)) held)) (\<lambda>c.
       case c of
         Some r \<Rightarrow> ret (Some r)
       | None \<Rightarrow>
           andThen (claimAbandoned env runtime nowMs) (\<lambda>c.
           case c of Some r \<Rightarrow> ret (Some r) | None \<Rightarrow> claimQueued env runtime nowMs))))"

definition claim ::
  "'z transport_env \<Rightarrow> runtime_identity \<Rightarrow> int \<Rightarrow> ('z transport_db_scheme, claim_response option) op" where
  "claim env runtime nowMs =
     andThen (expireDue (tr_gateway env) nowMs None) (\<lambda>_.
     andThen (reapAbandoned env nowMs) (\<lambda>_.
     next_command env runtime nowMs))"

end
