(* ===== verification/CredentialBroker.thy ===== *)
theory CredentialBroker
  imports SourceControl RuntimeTransport
begin

text \<open>
  The credential broker (\<open>credentials/credential-broker.ts\<close>, \<open>credentials/credential-issuers.ts\<close>): it
  issues the lease of a repository credential with the grant of a checkout, lets an execution runtime
  redeem it once, and ends it. A redemption is a transaction, then a call of the secret store and the
  provider outside any, then perhaps another transaction, so the operations here are \<open>call\<close>s: they
  keep what was committed even when they fail. Telemetry is left out.
\<close>

section \<open>Calls\<close>

text \<open>
  \<open>bk_outstanding\<close> is the broker's memory of credentials that can be withdrawn at their provider,
  \<open>bk_withdrawn\<close> the withdrawals it asked for.
\<close>

record 'z broker =
  bk_outstanding :: "string list"
  bk_withdrawn :: "string list"
  bk_db :: "'z credential_db_scheme"

type_synonym ('b, 'a) call = "'b \<Rightarrow> (failure + 'a) \<times> 'b"

definition answer :: "'a \<Rightarrow> ('b, 'a) call" where
  "answer x b = (Inr x, b)"

definition fail :: "failure \<Rightarrow> ('b, 'a) call" where
  "fail e b = (Inl e, b)"

definition followedBy :: "('b, 'a) call \<Rightarrow> ('a \<Rightarrow> ('b, 'c) call) \<Rightarrow> ('b, 'c) call" where
  "followedBy c f b = (case c b of (Inl e, b') \<Rightarrow> (Inl e, b') | (Inr x, b') \<Rightarrow> f x b')"

text \<open>\<open>c.finally(d)\<close>: what \<open>d\<close> does, the outcome of \<open>c\<close>.\<close>

definition finally_do :: "('b, 'a) call \<Rightarrow> ('b, unit) call \<Rightarrow> ('b, 'a) call" where
  "finally_do c d b = (case c b of (r, b') \<Rightarrow> (case d b' of (Inl e, b'') \<Rightarrow> (Inl e, b'') | (Inr _, b'') \<Rightarrow> (r, b'')))"

text \<open>A transaction: what it did stays when it succeeds, nothing of it when it fails.\<close>

definition committed :: "('z credential_db_scheme, 'a) op \<Rightarrow> ('z broker, 'a) call" where
  "committed work b = (case work (bk_db b) of Inl e \<Rightarrow> (Inl e, b) | Inr (x, s) \<Rightarrow> (Inr x, b\<lparr>bk_db := s\<rparr>))"

definition withdraw :: "string \<Rightarrow> ('z broker, unit) call" where
  "withdraw i b =
     (Inr (), if i \<in> set (bk_outstanding b)
              then b\<lparr>bk_outstanding := removeAll i (bk_outstanding b), bk_withdrawn := bk_withdrawn b @ [i]\<rparr>
              else b)"

fun withdraw_all :: "string list \<Rightarrow> ('z broker, unit) call" where
  "withdraw_all [] = answer ()"
| "withdraw_all (i # js) = followedBy (withdraw i) (\<lambda>_. withdraw_all js)"

section \<open>Presented grants\<close>

text \<open>A grant as an execution runtime presents it (\<open>signedExecutionGrantSchema\<close>).\<close>

record presented_grant =
  pg_grantId :: string
  pg_requestId :: string
  pg_action :: string
  pg_correlation :: step_correlation
  pg_operationKind :: string
  pg_operationDigest :: string
  pg_isolation :: isolation
  pg_limits :: resource_limits
  pg_allowList :: bool
  pg_credential :: "grant_credential option"
  pg_issuedAt :: string
  pg_expiresAt :: string
  pg_signature :: string
  pg_keyId :: string

definition object_field :: "(json \<Rightarrow> 'a option) \<Rightarrow> string \<Rightarrow> json \<Rightarrow> 'a option" where
  "object_field f k v = (case json_field k v of None \<Rightarrow> None | Some w \<Rightarrow> f w)"

definition grantCorrelation :: "(string \<Rightarrow> bool) \<Rightarrow> json \<Rightarrow> step_correlation option" where
  "grantCorrelation uuid v =
     (if strict [''organizationId'', ''employeeId'', ''agentId'', ''threadId'', ''runId'', ''stepId'', ''toolCallId''] v then
        (case (valid_text record_id ''organizationId'' v, valid_text record_id ''employeeId'' v,
               valid_text record_id ''agentId'' v, valid_text uuid ''threadId'' v, valid_text uuid ''runId'' v,
               valid_text uuid ''stepId'' v, valid_text uuid ''toolCallId'' v) of
           (Some org, Some e, Some a, Some t, Some r, Some st, Some tc) \<Rightarrow>
             Some \<lparr>gc_organizationId = org, gc_employeeId = e, gc_agentId = a, gc_threadId = t, gc_runId = r,
               gc_stepId = st, gc_toolCallId = tc\<rparr>
         | _ \<Rightarrow> None)
      else None)"

text \<open>Whether the mode is \<open>ALLOW_LIST\<close>, and the hosts.\<close>

definition networkSchema :: "json \<Rightarrow> (bool \<times> string list) option" where
  "networkSchema v =
     (if strict [''mode'', ''allowedHosts''] v then
        (case (valid_text (\<lambda>t. t = ''NONE'' \<or> t = ''ALLOW_LIST'') ''mode'' v,
               filtered (\<lambda>hs. list_all (\<lambda>h. length h \<le> 253) hs \<and> length hs \<le> 20) (texts_field ''allowedHosts'' v)) of
           (Some m, Some hs) \<Rightarrow> Some (m = ''ALLOW_LIST'', hs)
         | _ \<Rightarrow> None)
      else None)"

definition limitsSchema :: "json \<Rightarrow> (resource_limits \<times> bool) option" where
  "limitsSchema v =
     (if strict [''timeoutMs'', ''cpuMillis'', ''memoryMb'', ''maxProcesses'', ''network''] v then
        (case (bounded_int 1000 3600000 ''timeoutMs'' v, bounded_int 1 64000 ''cpuMillis'' v,
               bounded_int 64 65536 ''memoryMb'' v, bounded_int 1 1024 ''maxProcesses'' v,
               object_field networkSchema ''network'' v) of
           (Some t, Some c, Some m, Some p, Some (listed, hs)) \<Rightarrow>
             Some (\<lparr>lm_timeoutMs = t, lm_cpuMillis = c, lm_memoryMb = m, lm_maxProcesses = p, lm_allowedHosts = hs\<rparr>, listed)
         | _ \<Rightarrow> None)
      else None)"

definition grantCredential :: "(string \<Rightarrow> bool) \<Rightarrow> json \<Rightarrow> grant_credential option" where
  "grantCredential uuid v =
     (if strict [''leaseId'', ''provider'', ''gitHost''] v then
        (case (valid_text uuid ''leaseId'' v, chosen source_of ''provider'' v, valid_text hostname_text ''gitHost'' v) of
           (Some i, Some p, Some h) \<Rightarrow> Some \<lparr>gk_leaseId = i, gk_provider = source_name p, gk_gitHost = h\<rparr>
         | _ \<Rightarrow> None)
      else None)"

definition EXECUTION_GRANT_KIND :: string where
  "EXECUTION_GRANT_KIND = ''agents-foundry/execution-grant/v1''"

definition operation_kinds :: "string list" where
  "operation_kinds = [''git.checkout'', ''git.status'', ''file.read'', ''file.write'', ''command'', ''playwright.run'',
     ''dependencies.install'']"

definition isolation_of :: "string \<Rightarrow> isolation option" where
  "isolation_of t = (if t = ''sandboxed'' then Some Sandboxed else if t = ''local'' then Some Local else None)"

text \<open>The payload of a grant, without its signature; \<open>datetime\<close> is the acceptance of \<open>z.iso.datetime\<close>.\<close>

definition grantPayload :: "(string \<Rightarrow> bool) \<Rightarrow> (string \<Rightarrow> bool) \<Rightarrow> json \<Rightarrow> presented_grant option" where
  "grantPayload uuid datetime v =
     (if strict [''kind'', ''grantId'', ''requestId'', ''action'', ''correlation'', ''operationKind'', ''operationDigest'',
          ''isolation'', ''limits'', ''credential'', ''issuedAt'', ''expiresAt''] v \<and>
         text_field ''kind'' v = Some EXECUTION_GRANT_KIND then
        (case (valid_text uuid ''grantId'' v, valid_text uuid ''requestId'' v, valid_text actionName ''action'' v,
               object_field (grantCorrelation uuid) ''correlation'' v,
               valid_text (\<lambda>t. t \<in> set operation_kinds) ''operationKind'' v,
               valid_text sha256_hex ''operationDigest'' v, chosen isolation_of ''isolation'' v,
               object_field limitsSchema ''limits'' v,
               optional_field (object_field (grantCredential uuid)) ''credential'' v,
               valid_text datetime ''issuedAt'' v, valid_text datetime ''expiresAt'' v) of
           (Some g, Some r, Some a, Some c, Some k, Some d, Some i, Some (l, listed), Some cr, Some t, Some e) \<Rightarrow>
             Some \<lparr>pg_grantId = g, pg_requestId = r, pg_action = a, pg_correlation = c, pg_operationKind = k,
               pg_operationDigest = d, pg_isolation = i, pg_limits = l, pg_allowList = listed, pg_credential = cr,
               pg_issuedAt = t, pg_expiresAt = e, pg_signature = [], pg_keyId = []\<rparr>
         | _ \<Rightarrow> None)
      else None)"

definition signedExecutionGrant :: "(string \<Rightarrow> bool) \<Rightarrow> (string \<Rightarrow> bool) \<Rightarrow> json \<Rightarrow> presented_grant option" where
  "signedExecutionGrant uuid datetime v =
     (if strict [''payload'', ''signature'', ''algorithm'', ''keyId''] v \<and> text_field ''algorithm'' v = Some ''Ed25519'' then
        (case (object_field (grantPayload uuid datetime) ''payload'' v,
               valid_text (\<lambda>t. base64_text t \<and> length t \<le> 200) ''signature'' v, valid_text sha256_hex ''keyId'' v) of
           (Some g, Some t, Some k) \<Rightarrow> Some (g\<lparr>pg_signature := t, pg_keyId := k\<rparr>)
         | _ \<Rightarrow> None)
      else None)"

text \<open>\<open>parseCredentialRedeemRequest\<close> (a missing grant is an unknown one) and \<open>parseCredentialReleaseRequest\<close>.\<close>

definition parseCredentialRedeemRequest :: "(string \<Rightarrow> bool) \<Rightarrow> json \<Rightarrow> failure + (string \<times> json option)" where
  "parseCredentialRedeemRequest uuid v =
     (case (strict [''leaseId'', ''grant''] v, valid_text uuid ''leaseId'' v) of
        (True, Some i) \<Rightarrow> Inr (i, json_field ''grant'' v)
      | _ \<Rightarrow> Inl (Raised ''EXECUTION_REQUEST_INVALID''))"

fun outcome_text :: "release_outcome \<Rightarrow> string" where
  "outcome_text OcSUCCEEDED = ''SUCCEEDED''"
| "outcome_text OcFAILED = ''FAILED''"
| "outcome_text OcTIMED_OUT = ''TIMED_OUT''"
| "outcome_text OcCANCELLED = ''CANCELLED''"
| "outcome_text OcINTERRUPTED = ''INTERRUPTED''"

definition release_outcome_of :: "string \<Rightarrow> release_outcome option" where
  "release_outcome_of t =
     find (\<lambda>c. outcome_text c = t) [OcSUCCEEDED, OcFAILED, OcTIMED_OUT, OcCANCELLED, OcINTERRUPTED]"

record release_request =
  re_leaseId :: string
  re_grantId :: string
  re_outcome :: release_outcome

definition parseCredentialReleaseRequest :: "(string \<Rightarrow> bool) \<Rightarrow> json \<Rightarrow> failure + release_request" where
  "parseCredentialReleaseRequest uuid v =
     (case (strict [''leaseId'', ''grantId'', ''outcome''] v, valid_text uuid ''leaseId'' v, valid_text uuid ''grantId'' v,
            chosen release_outcome_of ''outcome'' v) of
        (True, Some i, Some g, Some oc) \<Rightarrow> Inr \<lparr>re_leaseId = i, re_grantId = g, re_outcome = oc\<rparr>
      | _ \<Rightarrow> Inl (Raised ''EXECUTION_REQUEST_INVALID''))"

section \<open>Issuers\<close>

record repository_credential =
  rd_username :: string
  rd_password :: string

text \<open>
  What an issuer comes to: a credential and whether it can be withdrawn, a \<open>CredentialIssueError\<close> with
  its code, or any other error.
\<close>

datatype issue_result = Issued repository_credential bool | IssueError string | IssueRaised

type_synonym issuer = "source_connection \<Rightarrow> string \<Rightarrow> string \<Rightarrow> issue_result"

definition staticTokenIssuer :: issuer where
  "staticTokenIssuer c repository secret =
     Issued \<lparr>rd_username = sp_tokenUsername (sourceControlProfiles (sk_provider c)), rd_password = secret\<rparr> False"

text \<open>
  The platform's part of minting a token: the signed App JWT (\<open>None\<close> where the key is not one), and
  GitHub's reply to a request for one repository, by name, and \<open>contents: read\<close>.
\<close>

datatype mint_reply = MintUnreachable | MintStatus nat | MintAnswer json

record github_app =
  ga_jwt :: "string \<Rightarrow> string \<Rightarrow> string option"
  ga_mint :: "string \<Rightarrow> string \<Rightarrow> string \<Rightarrow> string \<Rightarrow> mint_reply"

text \<open>\<open>String(v ?? '')\<close>.\<close>

fun js_text :: "json \<Rightarrow> string" where
  "js_text JNull = []"
| "js_text (JBool b) = (if b then ''true'' else ''false'')"
| "js_text (JNum n) = (if n < 0 then ''-'' else []) @ digits (nat \<bar>n\<bar>)"
| "js_text (JStr t) = t"
| "js_text (JArr vs) = joinWith '','' (map js_text vs)"
| "js_text (JObj _) = ''[object Object]''"

text \<open>The one repository of the answer is the one asked for.\<close>

definition scoped_to :: "string \<Rightarrow> json \<Rightarrow> bool" where
  "scoped_to repository body \<longleftrightarrow>
     (case json_field ''repositories'' body of
        Some (JArr [r]) \<Rightarrow>
          toLowerCase (case json_field ''full_name'' r of None \<Rightarrow> [] | Some v \<Rightarrow> js_text v) = toLowerCase repository
      | _ \<Rightarrow> False)"

text \<open>\<open>Object.entries\<close> of the permissions are all read; the keys of an array or a text are indices.\<close>

fun read_only :: "json \<Rightarrow> bool" where
  "read_only (JObj fs) = list_all (\<lambda>(p, v). (p = ''contents'' \<or> p = ''metadata'') \<and> v = JStr ''read'') fs"
| "read_only (JArr vs) = (vs = [])"
| "read_only (JStr t) = (t = [])"
| "read_only _ = True"

definition token_text :: "string \<Rightarrow> bool" where
  "token_text t \<longleftrightarrow> 20 \<le> length t \<and> int (length t) \<le> 4096 \<and> list_all (\<lambda>c. 33 \<le> char_code c \<and> char_code c \<le> 126) t"

text \<open>A token broader than requested is withdrawn at once and refused.\<close>

definition minted :: "string \<Rightarrow> json \<Rightarrow> issue_result" where
  "minted repository body =
     (if body = JNull \<or> json_field ''permissions'' body = Some JNull then IssueRaised
      else let token = (case text_field ''token'' body of None \<Rightarrow> [] | Some t \<Rightarrow> t) in
        if token_text token \<and> scoped_to repository body \<and>
           (case json_field ''permissions'' body of None \<Rightarrow> False | Some v \<Rightarrow> read_only v)
        then Issued \<lparr>rd_username = sp_tokenUsername (sourceControlProfiles SourceGitHub), rd_password = token\<rparr> True
        else IssueError ''CREDENTIAL_SCOPE_UNEXPECTED'')"

definition gitHubAppIssuer :: "github_app \<Rightarrow> issuer" where
  "gitHubAppIssuer ga c repository secret =
     (case (sk_provider c, sk_appId c, sk_installationId c) of
        (SourceGitHub, Some app, Some inst) \<Rightarrow>
          (case ga_jwt ga app secret of
             None \<Rightarrow> IssueError ''CREDENTIAL_SECRET_INVALID''
           | Some jwt \<Rightarrow>
               (case ga_mint ga (sk_apiBaseUrl c) inst jwt (splitOn (CHR ''/'') repository ! 1) of
                  MintUnreachable \<Rightarrow> IssueError ''CREDENTIAL_PROVIDER_UNREACHABLE''
                | MintStatus n \<Rightarrow> IssueError (''CREDENTIAL_PROVIDER_HTTP_'' @ digits n)
                | MintAnswer body \<Rightarrow> minted repository body))
      | _ \<Rightarrow> IssueError ''CREDENTIAL_MODE_INVALID'')"

definition default_issuers :: "github_app \<Rightarrow> credential_mode \<Rightarrow> issuer option" where
  "default_issuers ga m = (case m of StaticToken \<Rightarrow> Some staticTokenIssuer | GitHubApp \<Rightarrow> Some (gitHubAppIssuer ga))"

section \<open>What the broker is constructed with\<close>

definition DEFAULT_LEASE_TTL_MS :: int where
  "DEFAULT_LEASE_TTL_MS = 5 * 60000"

text \<open>
  \<open>be_secret\<close> is the secret provider (\<open>None\<close> where it throws or has no such secret); \<open>be_verifyGrant\<close> the
  verification of the control plane's own signature.
\<close>

record broker_env =
  be_web :: web
  be_uuid :: "string \<Rightarrow> bool"
  be_datetime :: "string \<Rightarrow> bool"
  be_dateParse :: "string \<Rightarrow> int option"
  be_verifyGrant :: "presented_grant \<Rightarrow> bool"
  be_secret :: "string \<Rightarrow> string \<Rightarrow> string option"
  be_issuers :: "credential_mode \<Rightarrow> issuer option"
  be_ttlMs :: "int option"

text \<open>\<open>SecretBroker.resolve\<close>: the value, or the code of \<open>SecretUnavailable\<close>.\<close>

definition resolve_secret :: "broker_env \<Rightarrow> string \<Rightarrow> string \<Rightarrow> string + string" where
  "resolve_secret env org reference =
     (if org = [] \<or> \<not> secret_reference reference then Inl ''SECRET_REFERENCE_INVALID''
      else case be_secret env org (drop 9 reference) of
        None \<Rightarrow> Inl ''SECRET_UNRESOLVED''
      | Some v \<Rightarrow> if v = [] then Inl ''SECRET_UNRESOLVED'' else Inr v)"

section \<open>The life of a lease\<close>

datatype lease_move = ToRedeemed string | ToReleased release_outcome | ToRevoked string string | ToExpired

fun moves_from :: "lease_move \<Rightarrow> credential_status list" where
  "moves_from (ToRedeemed _) = [KlISSUED]"
| "moves_from (ToReleased _) = [KlREDEEMED]"
| "moves_from (ToRevoked _ _) = [KlISSUED, KlREDEEMED]"
| "moves_from ToExpired = [KlISSUED, KlREDEEMED]"

fun moved_lease :: "lease_move \<Rightarrow> int \<Rightarrow> credential_lease \<Rightarrow> credential_lease" where
  "moved_lease (ToRedeemed by) t l = l\<lparr>kl_status := KlREDEEMED, kl_redeemedAt := Some t, kl_redeemedBy := Some by\<rparr>"
| "moved_lease (ToReleased oc) t l = l\<lparr>kl_status := KlRELEASED, kl_releasedAt := Some t, kl_outcome := Some oc\<rparr>"
| "moved_lease (ToRevoked by reason) t l =
     l\<lparr>kl_status := KlREVOKED, kl_revokedAt := Some t, kl_revokedBy := Some by, kl_revokeReason := Some reason\<rparr>"
| "moved_lease ToExpired t l = l\<lparr>kl_status := KlEXPIRED\<rparr>"

definition transition :: "credential_lease \<Rightarrow> lease_move \<Rightarrow> int \<Rightarrow> ('z credential_db_scheme, unit) op" where
  "transition l m nowMs =
     andThen (update_rows kr_leases kr_leases_update kl_organizationId credential_update_checks
        (\<lambda>k. kl_id k = kl_id l \<and> kl_organizationId k = kl_organizationId l \<and> kl_status k \<in> set (moves_from m))
        (moved_lease m nowMs)) (\<lambda>_. ret ())"

definition live_lease :: "credential_lease \<Rightarrow> bool" where
  "live_lease l \<longleftrightarrow> kl_status l \<in> {KlISSUED, KlREDEEMED}"

definition lease_row :: "string \<Rightarrow> string \<Rightarrow> ('z credential_db_scheme, credential_lease option) op" where
  "lease_row org i = select_one kr_leases kl_organizationId (\<lambda>l. kl_id l = i \<and> kl_organizationId l = org)"

definition lease_audit ::
  "string \<Rightarrow> string \<Rightarrow> credential_lease \<Rightarrow> (string \<times> json) list \<Rightarrow> ('z credential_db_scheme, unit) op" where
  "lease_audit actor event l details =
     audit actor event ''agent_run'' (kl_runId l) (JObj ((''leaseId'', JStr (kl_id l)) # details)) (kl_organizationId l)"

section \<open>Issuing\<close>

definition new_credential ::
  "lease_request \<Rightarrow> source_connection \<Rightarrow> string \<Rightarrow> string \<Rightarrow> string \<Rightarrow> string \<Rightarrow> int \<Rightarrow> credential_lease" where
  "new_credential q c repository repositoryUrl ref id' expiresAt =
     \<lparr>kl_id = id', kl_organizationId = rn_organizationId (lr_run q), kl_connectionId = sk_id c,
      kl_provider = sk_provider c, kl_repository = repository, kl_repositoryUrl = repositoryUrl, kl_ref = ref,
      kl_operationDigest = lr_operationDigest q, kl_grantId = lr_grantId q, kl_requestId = lr_requestId q,
      kl_runId = rn_id (lr_run q), kl_employeeId = rn_employeeId (lr_run q), kl_agentId = rn_agentId (lr_run q),
      kl_runtimeId = lr_runtimeId q, kl_status = KlISSUED, kl_issuedAt = lr_nowMs q, kl_expiresAt = expiresAt,
      kl_redeemedAt = None, kl_redeemedBy = None, kl_releasedAt = None, kl_revokedAt = None, kl_revokedBy = None,
      kl_revokeReason = None, kl_outcome = None\<rparr>"

definition lease_expiry :: "broker_env \<Rightarrow> lease_request \<Rightarrow> int" where
  "lease_expiry env q =
     min (lr_nowMs q + (case be_ttlMs env of None \<Rightarrow> DEFAULT_LEASE_TTL_MS | Some t \<Rightarrow> t)) (lr_grantExpiresAt q)"

text \<open>In the caller's transaction; \<open>None\<close> where the repository is checked out anonymously.\<close>

definition issue_lease ::
  "broker_env \<Rightarrow> lease_request \<Rightarrow> string \<Rightarrow> string \<Rightarrow> ('z credential_db_scheme, grant_credential option) op" where
  "issue_lease env q repositoryUrl ref =
     (let org = rn_organizationId (lr_run q); expiresAt = lease_expiry env q in
      andThen (forRepository (be_web env) org repositoryUrl) (\<lambda>found.
      case found of
        None \<Rightarrow> ret None
      | Some (c, repository) \<Rightarrow>
          andThen randomUUID (\<lambda>id'.
          andThen (demand (lr_nowMs q < expiresAt) (Refused 409 ''GRANT_EXPIRED'')) (\<lambda>_.
          andThen (insert_row kr_leases_update kl_organizationId credential_checks
             (new_credential q c repository repositoryUrl ref id' expiresAt)) (\<lambda>_.
          andThen (lease_audit (rn_agentId (lr_run q)) ''credential.lease.issued''
             (new_credential q c repository repositoryUrl ref id' expiresAt)
             [(''connectionId'', JStr (sk_id c)), (''provider'', JStr (source_name (sk_provider c))),
              (''repository'', JStr repository), (''ref'', JStr ref), (''grantId'', JStr (lr_grantId q)),
              (''expiresAt'', JNum expiresAt)]) (\<lambda>_.
          ret (Some \<lparr>gk_leaseId = id', gk_provider = source_name (sk_provider c), gk_gitHost = sk_gitHost c\<rparr>)))))))"

text \<open>The gateway asks for the lease of a \<open>git.checkout\<close> only.\<close>

definition leaseForCheckout ::
  "broker_env \<Rightarrow> lease_request \<Rightarrow> ('z credential_db_scheme, grant_credential option) op" where
  "leaseForCheckout env q =
     (case lr_operation q of
        GitCheckout repositoryUrl ref _ \<Rightarrow> issue_lease env q repositoryUrl ref
      | _ \<Rightarrow> ret None)"

section \<open>Redeeming\<close>

text \<open>What of a redemption can be checked without the database: the lease and the grant.\<close>

definition presented :: "broker_env \<Rightarrow> runtime_identity \<Rightarrow> json \<Rightarrow> failure + (string \<times> presented_grant)" where
  "presented env rt body =
     (if ri_role rt \<noteq> ExecutionRuntime then Inl (Refused 403 ''RUNTIME_ROLE_FORBIDDEN'')
      else case parseCredentialRedeemRequest (be_uuid env) body of
        Inl e \<Rightarrow> Inl e
      | Inr (leaseId, raw) \<Rightarrow>
          (case Option.bind raw (signedExecutionGrant (be_uuid env) (be_datetime env)) of
             None \<Rightarrow> Inl (Refused 403 ''CREDENTIAL_GRANT_INVALID'')
           | Some g \<Rightarrow>
               if \<not> be_verifyGrant env g then Inl (Refused 403 ''CREDENTIAL_GRANT_INVALID'')
               else if map_option gk_leaseId (pg_credential g) \<noteq> Some leaseId \<or> pg_operationKind g \<noteq> ''git.checkout''
               then Inl (Refused 403 ''CREDENTIAL_LEASE_MISMATCH'')
               else if \<not> servesOrganization rt (gc_organizationId (pg_correlation g))
               then Inl (Refused 403 ''CREDENTIAL_ORGANIZATION_FORBIDDEN'')
               else Inr (leaseId, g)))"

text \<open>\<open>refuse\<close>: a refusal is a value, so what it wrote is committed.\<close>

definition refuse_lease ::
  "runtime_identity \<Rightarrow> credential_lease \<Rightarrow> int \<Rightarrow> string \<Rightarrow> nat \<Rightarrow> bool \<Rightarrow>
   ('z credential_db_scheme, (string \<times> nat) + 'a) op" where
  "refuse_lease rt l nowMs code status revoke =
     andThen (whenever (revoke \<and> live_lease l) (transition l (ToRevoked (ri_id rt) code) nowMs)) (\<lambda>_.
     andThen (lease_audit (ri_id rt) ''credential.lease.refused'' l [(''code'', JStr code)]) (\<lambda>_.
     ret (Inl (code, status))))"

definition bound_to_grant :: "credential_lease \<Rightarrow> presented_grant \<Rightarrow> bool" where
  "bound_to_grant l g \<longleftrightarrow>
     kl_grantId l = pg_grantId g \<and> kl_operationDigest l = pg_operationDigest g \<and> kl_requestId l = pg_requestId g \<and>
     kl_runId l = gc_runId (pg_correlation g) \<and> kl_employeeId l = gc_employeeId (pg_correlation g) \<and>
     kl_agentId l = gc_agentId (pg_correlation g)"

text \<open>The run is running under an active lease.\<close>

definition run_active :: "string \<Rightarrow> string \<Rightarrow> ('z credential_db_scheme, bool) op" where
  "run_active org runId =
     andThen (select_one ex_runs rn_organizationId (\<lambda>r. rn_id r = runId \<and> rn_organizationId r = org)) (\<lambda>run.
     andThen (lease_of runId) (\<lambda>held.
     ret (map_option rn_status run = Some RUNNING \<and> map_option ls_state held = Some LeaseACTIVE)))"

text \<open>The connection of the lease, if it still is the one that authenticates its repository.\<close>

definition current_source ::
  "broker_env \<Rightarrow> string \<Rightarrow> credential_lease \<Rightarrow> ('z credential_db_scheme, source_connection option) op" where
  "current_source env org l =
     andThen (get_source org (kl_connectionId l)) (\<lambda>connection.
     andThen (forRepository (be_web env) org (kl_repositoryUrl l)) (\<lambda>current.
     ret (case (connection, current) of
            (Some c, Some (d, repository)) \<Rightarrow>
              if sk_active c \<and> sk_id d = sk_id c \<and> repository = kl_repository l then Some c else None
          | _ \<Rightarrow> None)))"

definition use_lease ::
  "broker_env \<Rightarrow> runtime_identity \<Rightarrow> presented_grant \<Rightarrow> int \<Rightarrow> credential_lease \<Rightarrow>
   ('z credential_db_scheme, (string \<times> nat) + (source_connection \<times> credential_lease)) op" where
  "use_lease env rt g nowMs l =
     (if \<not> bound_to_grant l g then refuse_lease rt l nowMs ''CREDENTIAL_LEASE_MISMATCH'' 403 True
      else
        andThen (run_active (kl_organizationId l) (kl_runId l)) (\<lambda>running.
        if \<not> running then refuse_lease rt l nowMs ''CREDENTIAL_RUN_NOT_ACTIVE'' 409 True
        else
          andThen (current_source env (kl_organizationId l) l) (\<lambda>connection.
          case connection of
            None \<Rightarrow> refuse_lease rt l nowMs ''CREDENTIAL_CONNECTION_INACTIVE'' 409 True
          | Some c \<Rightarrow>
              andThen (transition l (ToRedeemed (ri_id rt)) nowMs) (\<lambda>_.
              andThen (lease_audit (ri_id rt) ''credential.lease.redeemed'' l [(''grantId'', JStr (pg_grantId g))]) (\<lambda>_.
              ret (Inr (c, l)))))))"

definition redeem_lease ::
  "broker_env \<Rightarrow> runtime_identity \<Rightarrow> string \<Rightarrow> presented_grant \<Rightarrow> int \<Rightarrow>
   ('z credential_db_scheme, (string \<times> nat) + (source_connection \<times> credential_lease)) op" where
  "redeem_lease env rt leaseId g nowMs =
     andThen (lease_row (gc_organizationId (pg_correlation g)) leaseId) (\<lambda>row.
     case row of
       None \<Rightarrow> ret (Inl (''CREDENTIAL_LEASE_UNKNOWN'', 404))
     | Some l \<Rightarrow>
         (case kl_status l of
            KlREVOKED \<Rightarrow> refuse_lease rt l nowMs ''CREDENTIAL_LEASE_REVOKED'' 409 False
          | KlEXPIRED \<Rightarrow> refuse_lease rt l nowMs ''CREDENTIAL_LEASE_EXPIRED'' 409 False
          | KlISSUED \<Rightarrow>
              if kl_expiresAt l \<le> nowMs
              then andThen (transition l ToExpired nowMs) (\<lambda>_.
                refuse_lease rt l nowMs ''CREDENTIAL_LEASE_EXPIRED'' 409 False)
              else use_lease env rt g nowMs l
          | _ \<Rightarrow> refuse_lease rt l nowMs ''CREDENTIAL_LEASE_ALREADY_USED'' 409 True))"

section \<open>Ending\<close>

text \<open>\<open>revokeLease\<close>: quietly nothing for a lease that is not live.\<close>

definition revoke_live :: "string \<Rightarrow> string \<Rightarrow> string \<Rightarrow> string \<Rightarrow> ('z credential_db_scheme, unit) op" where
  "revoke_live org leaseId by reason =
     tenant org
      (andThen (lease_row org leaseId) (\<lambda>row.
       case filtered live_lease row of
         None \<Rightarrow> ret ()
       | Some l \<Rightarrow>
           andThen now (\<lambda>nowMs.
           andThen (transition l (ToRevoked by reason) nowMs) (\<lambda>_.
           lease_audit by ''credential.lease.revoked'' l [(''reason'', JStr reason)]))))"

definition revokeLease :: "string \<Rightarrow> string \<Rightarrow> string \<Rightarrow> string \<Rightarrow> ('z broker, unit) call" where
  "revokeLease org leaseId by reason =
     followedBy (committed (revoke_live org leaseId by reason)) (\<lambda>_. withdraw leaseId)"

record redeem_response =
  rr_leaseId :: string
  rr_credential :: repository_credential
  rr_expiresAt :: int

text \<open>The secret and the provider, reached outside any transaction: the credential, or a code.\<close>

definition obtain_credential ::
  "broker_env \<Rightarrow> string \<Rightarrow> source_connection \<Rightarrow> credential_lease \<Rightarrow> string + (repository_credential \<times> bool)" where
  "obtain_credential env org c l =
     (case be_issuers env (sk_mode c) of
        None \<Rightarrow> Inl ''CREDENTIAL_MODE_UNSUPPORTED''
      | Some issue \<Rightarrow>
          (case resolve_secret env org (sk_secretRef c) of
             Inl code \<Rightarrow> Inl code
           | Inr secret \<Rightarrow>
               (case issue c (kl_repository l) secret of
                  Issued credential withdrawable \<Rightarrow> Inr (credential, withdrawable)
                | IssueError code \<Rightarrow> Inl code
                | IssueRaised \<Rightarrow> Inl ''CREDENTIAL_UNAVAILABLE'')))"

definition remember :: "string \<Rightarrow> ('z broker, unit) call" where
  "remember i b = (Inr (), b\<lparr>bk_outstanding := i # removeAll i (bk_outstanding b)\<rparr>)"

definition hand_out ::
  "broker_env \<Rightarrow> runtime_identity \<Rightarrow> string \<Rightarrow> string \<Rightarrow> source_connection \<times> credential_lease \<Rightarrow>
   ('z broker, redeem_response) call" where
  "hand_out env rt org leaseId cl =
     (case obtain_credential env org (fst cl) (snd cl) of
        Inl code \<Rightarrow>
          followedBy (revokeLease org leaseId (ri_id rt) code) (\<lambda>_. fail (Refused 502 ''CREDENTIAL_UNAVAILABLE''))
      | Inr (credential, withdrawable) \<Rightarrow>
          followedBy (if withdrawable then remember leaseId else answer ()) (\<lambda>_.
          answer \<lparr>rr_leaseId = leaseId, rr_credential = credential, rr_expiresAt = kl_expiresAt (snd cl)\<rparr>))"

definition redeem :: "broker_env \<Rightarrow> runtime_identity \<Rightarrow> json \<Rightarrow> ('z broker, redeem_response) call" where
  "redeem env rt body =
     (case presented env rt body of
        Inl e \<Rightarrow> fail e
      | Inr (leaseId, g) \<Rightarrow>
          let org = gc_organizationId (pg_correlation g) in
          followedBy (committed now) (\<lambda>nowMs.
          if \<not> (case be_dateParse env (pg_expiresAt g) of None \<Rightarrow> False | Some e \<Rightarrow> nowMs < e)
          then fail (Refused 403 ''CREDENTIAL_GRANT_EXPIRED'')
          else
            followedBy (committed (tenant org (redeem_lease env rt leaseId g nowMs))) (\<lambda>authorized.
            case authorized of
              Inl (code, status) \<Rightarrow> fail (Refused status code)
            | Inr cl \<Rightarrow> hand_out env rt org leaseId cl)))"

definition lease_organization :: "string \<Rightarrow> ('z credential_db_scheme, string option) op" where
  "lease_organization leaseId =
     platform
      (andThen (select_one kr_leases kl_organizationId (\<lambda>l. kl_id l = leaseId)) (\<lambda>row.
       ret (map_option kl_organizationId row)))"

text \<open>Only the runtime that redeemed a lease may release it; it may do so again.\<close>

definition release_lease ::
  "runtime_identity \<Rightarrow> string \<Rightarrow> release_request \<Rightarrow> int \<Rightarrow> ('z credential_db_scheme, credential_status) op" where
  "release_lease rt org q nowMs =
     tenant org
      (andThen (lease_row org (re_leaseId q)) (\<lambda>row.
       case filtered (\<lambda>l. kl_grantId l = re_grantId q \<and> kl_redeemedBy l = Some (ri_id rt)) row of
         None \<Rightarrow> throw (Refused 404 ''CREDENTIAL_LEASE_UNKNOWN'')
       | Some l \<Rightarrow>
           if kl_status l \<noteq> KlREDEEMED then ret (kl_status l)
           else
             andThen (transition l (ToReleased (re_outcome q)) nowMs) (\<lambda>_.
             andThen (lease_audit (ri_id rt) ''credential.lease.released'' l
                [(''outcome'', JStr (outcome_text (re_outcome q)))]) (\<lambda>_.
             ret KlRELEASED))))"

definition release :: "broker_env \<Rightarrow> runtime_identity \<Rightarrow> json \<Rightarrow> ('z broker, string \<times> credential_status) call" where
  "release env rt body =
     (if ri_role rt \<noteq> ExecutionRuntime then fail (Refused 403 ''RUNTIME_ROLE_FORBIDDEN'')
      else case parseCredentialReleaseRequest (be_uuid env) body of
        Inl e \<Rightarrow> fail e
      | Inr q \<Rightarrow>
          followedBy (committed (lease_organization (re_leaseId q))) (\<lambda>found.
          case filtered (\<lambda>org. org \<noteq> [] \<and> servesOrganization rt org) found of
            None \<Rightarrow> fail (Refused 404 ''CREDENTIAL_LEASE_UNKNOWN'')
          | Some org \<Rightarrow>
              followedBy (committed now) (\<lambda>nowMs.
              followedBy (committed (release_lease rt org q nowMs)) (\<lambda>status.
              followedBy (withdraw (re_leaseId q)) (\<lambda>_.
              answer (re_leaseId q, status))))))"

record credential_view =
  lv_id :: string
  lv_organizationId :: string
  lv_connectionId :: string
  lv_provider :: source_provider
  lv_repository :: string
  lv_repositoryUrl :: string
  lv_ref :: string
  lv_grantId :: string
  lv_requestId :: string
  lv_runId :: string
  lv_employeeId :: string
  lv_agentId :: string
  lv_status :: credential_status
  lv_issuedAt :: int
  lv_expiresAt :: int
  lv_redeemedAt :: "int option"
  lv_releasedAt :: "int option"
  lv_revokedAt :: "int option"
  lv_revokeReason :: "string option"
  lv_outcome :: "release_outcome option"

definition mapLease :: "credential_lease \<Rightarrow> credential_view" where
  "mapLease l =
     \<lparr>lv_id = kl_id l, lv_organizationId = kl_organizationId l, lv_connectionId = kl_connectionId l,
      lv_provider = kl_provider l, lv_repository = kl_repository l, lv_repositoryUrl = kl_repositoryUrl l,
      lv_ref = kl_ref l, lv_grantId = kl_grantId l, lv_requestId = kl_requestId l, lv_runId = kl_runId l,
      lv_employeeId = kl_employeeId l, lv_agentId = kl_agentId l, lv_status = kl_status l,
      lv_issuedAt = kl_issuedAt l, lv_expiresAt = kl_expiresAt l, lv_redeemedAt = kl_redeemedAt l,
      lv_releasedAt = kl_releasedAt l, lv_revokedAt = kl_revokedAt l, lv_revokeReason = kl_revokeReason l,
      lv_outcome = kl_outcome l\<rparr>"

definition revoke_by_admin :: "actor \<Rightarrow> string \<Rightarrow> ('z credential_db_scheme, credential_view) op" where
  "revoke_by_admin a leaseId =
     tenant (ac_organizationId a)
      (andThen (authorize a) (\<lambda>_.
       andThen (lease_row (ac_organizationId a) leaseId) (\<lambda>row.
       case row of
         None \<Rightarrow> throw (Refused 404 ''CREDENTIAL_LEASE_UNKNOWN'')
       | Some l \<Rightarrow>
           andThen (demand (live_lease l) (Refused 409 ''CREDENTIAL_LEASE_NOT_LIVE'')) (\<lambda>_.
           andThen now (\<lambda>nowMs.
           andThen (transition l (ToRevoked (ac_id a) ''REVOKED_BY_ADMINISTRATOR'') nowMs) (\<lambda>_.
           andThen (lease_audit (ac_id a) ''credential.lease.revoked'' l [(''reason'', JStr ''REVOKED_BY_ADMINISTRATOR'')]) (\<lambda>_.
           andThen (andThen (lease_row (ac_organizationId a) leaseId) must) (\<lambda>after.
           ret (mapLease after)))))))))"

text \<open>The credential is withdrawn even when the transaction refused.\<close>

definition revoke_credential :: "actor \<Rightarrow> string \<Rightarrow> ('z broker, credential_view) call" where
  "revoke_credential a leaseId = finally_do (committed (revoke_by_admin a leaseId)) (withdraw leaseId)"

text \<open>\<open>revokeForRun\<close>, in the transaction of the caller, and the withdrawals it starts.\<close>

definition revoke_leases :: "string \<Rightarrow> string \<Rightarrow> string \<Rightarrow> ('z credential_db_scheme, string list) op" where
  "revoke_leases org runId reason =
     andThen (select kr_leases kl_organizationId
        (\<lambda>l. kl_organizationId l = org \<and> kl_runId l = runId \<and> live_lease l)) (\<lambda>live.
     andThen now (\<lambda>nowMs.
     andThen (each (\<lambda>l.
        andThen (transition l (ToRevoked ''platform'' reason) nowMs) (\<lambda>_.
        lease_audit ''platform'' ''credential.lease.revoked'' l [(''reason'', JStr reason)])) live) (\<lambda>_.
     ret (map kl_id live))))"

definition revokeForRun :: "string \<Rightarrow> string \<Rightarrow> string \<Rightarrow> ('z broker, nat) call" where
  "revokeForRun org runId reason =
     followedBy (committed (revoke_leases org runId reason)) (\<lambda>live.
     followedBy (withdraw_all live) (\<lambda>_.
     answer (length live)))"

definition expire_leases :: "int \<Rightarrow> ('z credential_db_scheme, string list) op" where
  "expire_leases nowMs =
     platform
      (andThen (select kr_leases kl_organizationId (\<lambda>l. live_lease l \<and> kl_expiresAt l \<le> nowMs)) (\<lambda>overdue.
       andThen (each (\<lambda>l.
          andThen (transition l ToExpired nowMs) (\<lambda>_.
          lease_audit ''platform'' ''credential.lease.expired'' l [])) overdue) (\<lambda>_.
       ret (map kl_id overdue))))"

definition expire_credentials :: "('z broker, nat) call" where
  "expire_credentials =
     followedBy (committed now) (\<lambda>nowMs.
     followedBy (committed (expire_leases nowMs)) (\<lambda>expired.
     followedBy (withdraw_all expired) (\<lambda>_.
     answer (length expired))))"

definition list_leases :: "actor \<Rightarrow> ('z credential_db_scheme, credential_view list) op" where
  "list_leases a =
     tenant (ac_organizationId a)
      (andThen (authorize a) (\<lambda>_.
       andThen (select kr_leases kl_organizationId (\<lambda>l. kl_organizationId l = ac_organizationId a)) (\<lambda>ls.
       ret (map mapLease (take 100 (rev ls))))))"

end
