(* ===== verification/RuntimeRequests.thy ===== *)
theory RuntimeRequests
  imports RuntimeTransport
begin

text \<open>
  What a runtime does for a run it holds (\<open>runtime/runtime-transport-service.ts\<close>): events, governed
  actions and their grants, model calls, checkpoints. Each request is parsed, attributed to an
  organization by the stored lease, and carried out in that organization's transaction, where the
  lease is checked again.
\<close>

section \<open>The run a runtime holds\<close>

definition same_chain :: "correlation \<Rightarrow> string \<Rightarrow> string \<Rightarrow> string \<Rightarrow> string \<Rightarrow> bool" where
  "same_chain c org threadId employeeId agentId \<longleftrightarrow>
     threadId = co_threadId c \<and> employeeId = co_employeeId c \<and> agentId = co_agentId c \<and> co_organizationId c = org"

definition heldRun ::
  "'z transport_env \<Rightarrow> runtime_identity \<Rightarrow> correlation \<Rightarrow> run_status list \<Rightarrow>
   ('z transport_db_scheme, lease_row \<times> run_binding) op" where
  "heldRun env runtime c statuses =
     andThen (ownedLease runtime (co_runId c)) (\<lambda>l.
     andThen (demand (ls_state l = LeaseACTIVE) (Refused 409 ''RUN_TERMINAL'')) (\<lambda>_.
     andThen (runBinding (tr_execution env) (ls_organizationId l) (co_runId c)) (\<lambda>run.
     andThen (demand (same_chain c (ls_organizationId l) (rb_threadId run) (rb_employeeId run) (rb_agentId run))
        (Refused 409 ''RUNTIME_CORRELATION_MISMATCH'')) (\<lambda>_.
     andThen (demand (rb_status run \<in> set statuses) (Refused 409 ''RUN_NOT_RUNNING'')) (\<lambda>_.
     ret (l, run))))))"

definition runningRun :: "runtime_identity \<Rightarrow> correlation \<Rightarrow> ('z transport_db_scheme, run_row) op" where
  "runningRun runtime c =
     andThen (ownedLease runtime (co_runId c)) (\<lambda>l.
     andThen (demand (ls_state l = LeaseACTIVE) (Refused 409 ''RUN_TERMINAL'')) (\<lambda>_.
     andThen (andThen (select_one ex_runs rn_organizationId
        (\<lambda>r. rn_id r = co_runId c \<and> rn_organizationId r = ls_organizationId l)) must) (\<lambda>run.
     andThen (demand (same_chain c (ls_organizationId l) (rn_threadId run) (rn_employeeId run) (rn_agentId run))
        (Refused 409 ''RUNTIME_CORRELATION_MISMATCH'')) (\<lambda>_.
     andThen (demand (rn_status run = RUNNING) (Refused 409 ''RUN_NOT_RUNNING'')) (\<lambda>_.
     ret run)))))"

text \<open>The step of a correlation must be one of the run's running steps.\<close>

definition running_step :: "string \<Rightarrow> string \<Rightarrow> string option \<Rightarrow> ('z transport_db_scheme, unit) op" where
  "running_step org runId stepId =
     andThen (select_one ex_steps st_organizationId
        (\<lambda>t. Some (st_id t) = stepId \<and> st_runId t = runId \<and> st_organizationId t = org)) (\<lambda>row.
     case row of
       None \<Rightarrow> throw (Refused 404 ''STEP_NOT_FOUND'')
     | Some t \<Rightarrow> demand (st_status t = StepRUNNING) (Refused 409 ''STEP_NOT_RUNNING''))"

definition runningStep :: "runtime_identity \<Rightarrow> correlation \<Rightarrow> ('z transport_db_scheme, run_row \<times> lease_row) op" where
  "runningStep runtime c =
     andThen (runningRun runtime c) (\<lambda>run.
     andThen (ownedLease runtime (co_runId c)) (\<lambda>l.
     andThen (running_step (ls_organizationId l) (rn_id run) (co_stepId c)) (\<lambda>_.
     ret (run, l))))"

text \<open>For an artifact upload: the organization and thread of the stored run.\<close>

definition authorizeStep ::
  "runtime_identity \<Rightarrow> correlation \<Rightarrow> ('z transport_db_scheme, string \<times> string) op" where
  "authorizeStep runtime c =
     andThen (leaseOrganization runtime (co_runId c)) (\<lambda>org.
     tenant org
      (andThen (runningRun runtime c) (\<lambda>run.
       andThen (running_step org (co_runId c) (co_stepId c)) (\<lambda>_.
       ret (org, rn_threadId run)))))"

section \<open>Checkpoints\<close>

definition bound_to :: "checkpoint_binding \<Rightarrow> run_binding \<Rightarrow> bool" where
  "bound_to b run \<longleftrightarrow> cb_manifestId b = rb_manifestId run \<and> cb_manifestDigest b = rb_manifestDigest run \<and>
     cb_workflow b = rb_workflow run \<and> cb_runtimeSequence b \<le> rb_runtimeSequence run"

definition bound_step :: "string \<Rightarrow> string \<Rightarrow> string option \<Rightarrow> ('z transport_db_scheme, bool) op" where
  "bound_step org runId stepId =
     (case stepId of
        None \<Rightarrow> ret True
      | Some i \<Rightarrow>
          andThen (select_one ex_steps st_organizationId
             (\<lambda>t. st_id t = i \<and> st_runId t = runId \<and> st_organizationId t = org)) (\<lambda>row. ret (row \<noteq> None)))"

definition bound_approval :: "string \<Rightarrow> string \<Rightarrow> string option \<Rightarrow> ('z transport_db_scheme, bool) op" where
  "bound_approval org runId approvalId =
     (case approvalId of
        None \<Rightarrow> ret True
      | Some i \<Rightarrow>
          andThen (select_one ex_approvals ap_organizationId
             (\<lambda>a. ap_id a = i \<and> ap_runId a = Some runId \<and> ap_organizationId a = org)) (\<lambda>row. ret (row \<noteq> None)))"

text \<open>\<open>storeCheckpoint\<close>: a runtime that lost the run to another session can no longer advance it.\<close>

definition storeCheckpoint ::
  "'z transport_env \<Rightarrow> runtime_identity \<Rightarrow> checkpoint_save \<Rightarrow> int \<Rightarrow> ('z transport_db_scheme, string \<times> nat) op" where
  "storeCheckpoint env runtime q nowMs =
     (let c = sv_correlation q; runId = co_runId c; b = sv_binding q in
      andThen (leaseOrganization runtime runId) (\<lambda>org.
      tenant org
       (andThen (heldRun env runtime c [RUNNING, WAITING_FOR_APPROVAL]) (\<lambda>(l, run).
        andThen (demand (ls_sessionId l = sv_sessionId q) (Refused 409 ''CHECKPOINT_SESSION_STALE'')) (\<lambda>_.
        andThen (demand (tr_sha256 env (sv_body q) = sv_sha256 q) (Refused 400 ''CHECKPOINT_DIGEST_MISMATCH'')) (\<lambda>_.
        andThen (demand (bound_to b run) (Refused 409 ''CHECKPOINT_BINDING_MISMATCH'')) (\<lambda>_.
        andThen (bound_step org runId (cb_stepId b)) (\<lambda>found.
        andThen (demand found (Refused 409 ''CHECKPOINT_BINDING_MISMATCH'')) (\<lambda>_.
        andThen (bound_approval org runId (cb_approvalId b)) (\<lambda>found.
        andThen (demand found (Refused 409 ''CHECKPOINT_BINDING_MISMATCH'')) (\<lambda>_.
        andThen (append_checkpoint org (rb_threadId run) (ri_id runtime) q nowMs) (\<lambda>_.
        andThen (touchLease runId nowMs None) (\<lambda>_.
        ret (runId, sv_version q))))))))))))))"

definition saveCheckpoint ::
  "'z transport_env \<Rightarrow> runtime_identity \<Rightarrow> json \<Rightarrow> int \<Rightarrow> ('z transport_db_scheme, string \<times> nat) op" where
  "saveCheckpoint env runtime body nowMs =
     (case parseRuntimeCheckpointSaveRequest (tr_uuid env) body of
        Inl e \<Rightarrow> throw e
      | Inr q \<Rightarrow> storeCheckpoint env runtime q nowMs)"

definition readCheckpoint ::
  "'z transport_env \<Rightarrow> runtime_identity \<Rightarrow> correlation \<Rightarrow> ('z transport_db_scheme, checkpoint_record option) op" where
  "readCheckpoint env runtime c =
     andThen (leaseOrganization runtime (co_runId c)) (\<lambda>org.
     tenant org
      (andThen (heldRun env runtime c [QUEUED, RUNNING, WAITING_FOR_APPROVAL]) (\<lambda>(l, run).
       andThen (read_checkpoint (tr_sha256 env) org (co_runId c)) (\<lambda>found.
       case found of
         None \<Rightarrow> ret None
       | Some p \<Rightarrow>
           andThen (demand (bound_to (cp_binding p) run) (Refused 409 ''CHECKPOINT_BINDING_MISMATCH'')) (\<lambda>_.
           ret (Some p))))))"

definition loadCheckpoint ::
  "'z transport_env \<Rightarrow> runtime_identity \<Rightarrow> json \<Rightarrow> ('z transport_db_scheme, checkpoint_record option) op" where
  "loadCheckpoint env runtime body =
     (case parseRuntimeCheckpointLoadRequest (tr_uuid env) body of
        Inl e \<Rightarrow> throw e
      | Inr c \<Rightarrow> readCheckpoint env runtime c)"

section \<open>Events\<close>

record event_ack =
  ek_eventId :: string
  ek_sequence :: nat
  ek_duplicate :: bool

text \<open>A run that ended gives its lease back; any other event keeps the lease alive.\<close>

definition after_event :: "lease_row \<Rightarrow> string \<Rightarrow> string \<Rightarrow> int \<Rightarrow> ('z transport_db_scheme, unit) op" where
  "after_event l org runId nowMs =
     whenever (ls_state l = LeaseACTIVE)
      (andThen (andThen (select_one ex_runs rn_organizationId (\<lambda>r. rn_id r = runId \<and> rn_organizationId r = org))
         must) (\<lambda>run.
       if rn_status run \<in> {COMPLETED, FAILED, CANCELLED} then closeLease runId nowMs
       else touchLease runId nowMs None))"

definition ingest ::
  "'z transport_env \<Rightarrow> runtime_identity \<Rightarrow> wire_event \<Rightarrow> int \<Rightarrow> ('z transport_db_scheme, event_ack) op" where
  "ingest env runtime body nowMs =
     (case parseRuntimeEvent (tr_schemas env) body of
        Inl e \<Rightarrow> throw e
      | Inr e \<Rightarrow>
          andThen (leaseOrganization runtime (ev_runId e)) (\<lambda>org.
          tenant org
           (andThen (ownedLease runtime (ev_runId e)) (\<lambda>l.
            andThen (demand (case ev_payload e of PRunStarted sid _ \<Rightarrow> sid = ls_sessionId l | _ \<Rightarrow> True)
               (Refused 409 ''RUNTIME_SESSION_MISMATCH'')) (\<lambda>_.
            andThen (ingestRuntimeEvent (tr_execution env) (tr_schemas env) (ls_organizationId l) body)
              (\<lambda>(event, duplicate).
            andThen (after_event l org (ev_runId e) nowMs) (\<lambda>_.
            ret \<lparr>ek_eventId = ae_id event, ek_sequence = ae_sequence event, ek_duplicate = duplicate\<rparr>)))))))"

section \<open>Governed actions\<close>

text \<open>A unique key that another organization's row already has.\<close>

definition taken_elsewhere :: "string \<Rightarrow> string \<Rightarrow> failure \<Rightarrow> failure" where
  "taken_elsewhere key code e = (if e = Constraint UNIQUE key then Refused 409 code else e)"

definition requestAction ::
  "'z transport_env \<Rightarrow> runtime_identity \<Rightarrow> json \<Rightarrow> ('z transport_db_scheme, decision_view) op" where
  "requestAction env runtime body =
     (case parseRuntimeActionRequest (tr_uuid env) (tr_messageSize env) body of
        Inl e \<Rightarrow> throw e
      | Inr (c, msg) \<Rightarrow>
          let h = gw_digest (tr_gateway env) (action_message_json c msg) in
          andThen (leaseOrganization runtime (co_runId c)) (\<lambda>org.
          attempt
           (tenant org
             (andThen (ownedLease runtime (co_runId c)) (\<lambda>_.
              andThen (select_one ac_requests rq_organizationId
                 (\<lambda>q. rq_id q = rm_requestId msg \<and> rq_organizationId q = org)) (\<lambda>existing.
              case existing of
                Some q \<Rightarrow>
                  andThen (demand (rq_requestHash q = h) (Refused 409 ''RUNTIME_ACTION_CONFLICT'')) (\<lambda>_.
                  ret (storedDecision q))
              | None \<Rightarrow>
                  andThen (runningStep runtime c) (\<lambda>(run, l).
                  decide_action (tr_gateway env) (ri_id runtime) run msg h)))))
           (\<lambda>e. throw (taken_elsewhere ''agent_action_requests_pkey'' ''RUNTIME_ACTION_CONFLICT'' e))))"

text \<open>
  \<open>executeAction\<close>: the plan is one transaction, the connector call outside any (\<open>call\<close> is the
  connector's outcome for a dispatch), the recorded outcome another transaction.
\<close>

definition planExecution ::
  "'z transport_env \<Rightarrow> runtime_identity \<Rightarrow> execute_request \<Rightarrow> ('z transport_db_scheme, execution_plan) op" where
  "planExecution env runtime q =
     (let c = xq_correlation q in
      andThen (leaseOrganization runtime (co_runId c)) (\<lambda>org.
      tenant org
       (andThen (runningStep runtime c) (\<lambda>(run, l).
        andThen now (\<lambda>nowMs.
        prepareExecution (tr_gateway env) run (xq_requestId q) (the (co_stepId c)) nowMs)))))"

definition executeAction ::
  "'z transport_env \<Rightarrow> (pending_dispatch \<Rightarrow> connector_outcome) \<Rightarrow> runtime_identity \<Rightarrow> json \<Rightarrow>
   ('z transport_db_scheme, action_execution) op" where
  "executeAction env call runtime body =
     (case parseRuntimeActionExecuteRequest (tr_uuid env) body of
        Inl e \<Rightarrow> throw e
      | Inr q \<Rightarrow>
          andThen (planExecution env runtime q) (\<lambda>plan.
          case plan of
            Done x \<Rightarrow> ret x
          | Dispatch p \<Rightarrow> completeExecution (tr_gateway env) p (dispatch call p)))"

definition grantAction ::
  "'z transport_env \<Rightarrow> runtime_identity \<Rightarrow> json \<Rightarrow> ('z transport_db_scheme, signed_grant) op" where
  "grantAction env runtime body =
     (case parseRuntimeActionExecuteRequest (tr_uuid env) body of
        Inl e \<Rightarrow> throw e
      | Inr q \<Rightarrow>
          let c = xq_correlation q in
          andThen (leaseOrganization runtime (co_runId c)) (\<lambda>org.
          tenant org
           (andThen (runningStep runtime c) (\<lambda>(run, l).
            andThen now (\<lambda>nowMs.
            issueGrant (tr_gateway env) run (xq_requestId q) (step_of c) (ri_id runtime) nowMs)))))"

section \<open>Model calls\<close>

definition reserveModelTokens ::
  "'z transport_env \<Rightarrow> runtime_identity \<Rightarrow> json \<Rightarrow> ('z transport_db_scheme, reservation) op" where
  "reserveModelTokens env runtime body =
     (case parseRuntimeModelReservationRequest (tr_uuid env) body of
        Inl e \<Rightarrow> throw e
      | Inr q \<Rightarrow>
          andThen (leaseOrganization runtime (co_runId (rr_correlation q))) (\<lambda>org.
          attempt
           (tenant org
             (andThen (runningRun runtime (rr_correlation q)) (\<lambda>run.
              andThen now (\<lambda>nowMs.
              reserve (tr_spending env) run (ri_id runtime) q nowMs))))
           (\<lambda>e. throw (taken_elsewhere ''model_usage_reservations_pkey'' ''MODEL_RESERVATION_CONFLICT'' e))))"

text \<open>Usage may be settled after the run ended, so the lease may be closed.\<close>

definition settleModelTokens ::
  "'z transport_env \<Rightarrow> runtime_identity \<Rightarrow> json \<Rightarrow> ('z transport_db_scheme, unit) op" where
  "settleModelTokens env runtime body =
     (case parseRuntimeModelSettlementRequest (tr_uuid env) body of
        Inl e \<Rightarrow> throw e
      | Inr q \<Rightarrow>
          andThen (leaseOrganization runtime (co_runId (sm_correlation q))) (\<lambda>org.
          tenant org
           (andThen (ownedLease runtime (co_runId (sm_correlation q))) (\<lambda>_.
            andThen (demand (co_organizationId (sm_correlation q) = org)
               (Refused 409 ''RUNTIME_CORRELATION_MISMATCH'')) (\<lambda>_.
            andThen now (\<lambda>nowMs.
            settle (tr_spending env) org (ri_id runtime) q nowMs))))))"

text \<open>The key is resolved outside any transaction.\<close>

definition modelCredential ::
  "'z transport_env \<Rightarrow> runtime_identity \<Rightarrow> json \<Rightarrow> ('z transport_db_scheme, string \<times> string) op" where
  "modelCredential env runtime body =
     (case parseRuntimeModelCredentialRequest (tr_uuid env) body of
        Inl e \<Rightarrow> throw e
      | Inr (c, provider) \<Rightarrow>
          andThen (leaseOrganization runtime (co_runId c)) (\<lambda>org.
          andThen (tenant org (heldRun env runtime c [RUNNING])) (\<lambda>(l, run).
          andThen (tr_modelCredential env org (co_runId c) run provider (ri_id runtime)) (\<lambda>key.
          ret (provider, key)))))"

end
