(* ===== verification/ActionEvolution.thy ===== *)
theory ActionEvolution
  imports ActionGateway
begin

text \<open>
  Lifting facts about the statements of the action tables to the gateway's operations.
  \<open>open_evolution\<close>: relations under which the clock, the entropy and the execution service's tables
  may change freely; every operation of the execution service that the gateway calls then obeys
  them. \<open>action_evolution\<close> adds the statements on the action tables; every operation of the
  policy, reconciliation and gateway services then obeys it.
\<close>

section \<open>Relations that reads obey\<close>

text \<open>The clock and the entropy may move on, and transactions may be opened and closed.\<close>

locale reading = evolution R
  for R :: "'z action_db_scheme \<Rightarrow> 'z action_db_scheme \<Rightarrow> bool" +
  assumes reads_R: "R s (s\<lparr>ss_reads := n\<rparr>)" and drawn_R: "R s (s\<lparr>ss_drawn := n\<rparr>)"
    and scope_R: "ss_scope s = None \<Longrightarrow> R (s\<lparr>ss_scope := Some sc\<rparr>) s' \<Longrightarrow> R s (s'\<lparr>ss_scope := None\<rparr>)"
begin

lemma now_R [bounded]: "relates R now"
  by (auto simp: relates_def intro: reads_R)

lemma uuid_R [bounded]: "relates R randomUUID"
  by (auto simp: relates_def intro: drawn_R)

lemma select_R [bounded]: "relates R (select rows org P)" "relates R (select_one rows org P)"
  by (auto simp: relates_def select_Inr select_one_Inr evolution_refl)

lemma scoped_R [bounded]: "relates R m \<Longrightarrow> relates R (scoped sc m)"
  by (auto simp: relates_def scoped_def split: option.splits scope.splits if_splits sum.splits intro: scope_R)

lemma tenant_R [bounded]: "relates R m \<Longrightarrow> relates R (tenant org m)"
  by (simp add: tenant_def relates_throw scoped_R)

lemma platform_R [bounded]: "relates R m \<Longrightarrow> relates R (platform m)"
  by (simp add: platform_def scoped_R)

lemma inserted_R:
  assumes "\<And>f s. R s (put f s)"
  shows "relates R (insert_row put org check r)"
  using assms by (auto simp: relates_def insert_row_def split: option.splits if_splits)

lemma updated_R:
  assumes "\<And>f s. R s (put f s)"
  shows "relates R (update_rows rows put org trigger P f)"
  using assms by (auto simp: relates_def update_rows_def Let_def split: option.splits list.splits if_splits)

lemma rows_R [bounded]:
  "relates R (runRow org i)" "relates R (stepRow org i j)"
  "relates R (approval_link org j)" "relates R (readableRun a i adm)"
  unfolding runRow_def stepRow_def approval_link_def readableRun_def
  by (intro bounded)+

lemma active_R [bounded]: "relates R (active_connection org p)"
  unfolding active_connection_def by (intro bounded)

lemma authorize_R [bounded]: "relates R (authorize a)"
  unfolding authorize_def by (intro bounded)

lemma asAdmin_R [bounded]: "relates R m \<Longrightarrow> relates R (asAdmin a m)"
  unfolding asAdmin_def by (intro bounded)

end

section \<open>Relations open to the execution tables\<close>

locale open_evolution = reading R
  for R :: "'z action_db_scheme \<Rightarrow> 'z action_db_scheme \<Rightarrow> bool" +
  assumes threads_R: "R s (ex_threads_update f1 s)" and runs_R: "R s (ex_runs_update f2 s)"
    and steps_R: "R s (ex_steps_update f3 s)" and events_R: "R s (ex_events_update f4 s)"
    and artifacts_R: "R s (ex_artifacts_update f5 s)" and approvals_R: "R s (ex_approvals_update f6 s)"
    and audit_R: "R s (ac_audit_update (\<lambda>as. as @ [a]) s)"
begin

lemmas exec_statements_R =
  inserted_R [OF threads_R] inserted_R [OF runs_R] inserted_R [OF steps_R] inserted_R [OF events_R]
  inserted_R [OF artifacts_R] inserted_R [OF approvals_R] updated_R [OF runs_R] updated_R [OF steps_R]
  updated_R [OF approvals_R]

declare exec_statements_R [bounded]

lemma audit_row_R [bounded]: "relates R (audit actor type rtype rid metadata org)"
  unfolding audit_def by (intro bounded) (auto intro!: relatesI audit_R simp: audits.insert_Inr)

lemma exec_rows_R [bounded]:
  "relates R (appendEvent env sc type source actor payload st rt)"
  "relates R (transitionStep org j st')" "relates R (move_run org i to reason)"
  unfolding appendEvent_def transitionStep_def move_run_def set_run_status_def
  by (intro bounded)+

end

section \<open>What the gateway reads\<close>

locale gateway_reads = reading R
  for R :: "'z action_db_scheme \<Rightarrow> 'z action_db_scheme \<Rightarrow> bool" +
  fixes env :: "'z gateway_env"
  assumes manifest_hook_R: "relates R (gw_loadManifest env agentId org employeeId)"
    and bundle_hook_R: "relates R (gw_bundle env bp version)"
begin

lemma given_R [bounded]: "relates R (given v reason)" "relates R (unless_denied c reason)"
  "relates R (needs_url w)"
  unfolding given_def unless_denied_def needs_url_def by (intro bounded)+

lemma proceed_R [bounded]:
  "relates R m \<Longrightarrow> (\<And>x. relates R (f x)) \<Longrightarrow> relates R (proceed m f)"
  unfolding proceed_def by (intro bounded)

lemma governed_R [bounded]: "relates R (governed env run req)"
  unfolding governed_def current_manifest_def pinned_bundle_def
  by (intro bounded manifest_hook_R bundle_hook_R)

lemma action_target_R [bounded]: "relates R (action_target_of env run m tool req)"
  unfolding action_target_of_def connector_target_def runtime_target_def directory_changes_def
    changeSet_def granted_writes_def
  by (intro bounded)

lemma assess_R [bounded]: "relates R (assess env run req)"
  unfolding assess_def policy_outcome_def by (intro bounded)

lemma blocks_R [bounded]: "relates R (blocks org t action d)"
  unfolding blocks_def by (intro bounded)

lemma blocked_verdict_R [bounded]: "relates R (blocked_verdict env run action v)"
  unfolding blocked_verdict_def by (intro bounded)

lemma approval_verdict_R [bounded]: "relates R (approval_verdict q n)"
  unfolding approval_verdict_def by (cases "rq_decision q"; simp only: action_decision.case; intro bounded)

lemma execution_refusal_R [bounded]: "relates R (execution_refusal env run h q current)"
  unfolding execution_refusal_def by (intro bounded)

lemma row_reads_R [bounded]:
  "relates R (requested run i st)" "relates R (executed_row org i)" "relates R (granted_row org i)"
  "relates R (overrides org)" "relates R (reconciliation_row_of org i)" "relates R (policy_outcome org a)"
  unfolding requested_def executed_row_def granted_row_def overrides_def reconciliation_row_of_def
    policy_outcome_def
  by (intro bounded)+

lemma reconciliation_of_R [bounded]: "relates R (reconciliation_of env c)"
  unfolding reconciliation_of_def Let_def by (intro bounded)

lemma listings_R [bounded]:
  "relates R (list_policies a)" "relates R (list_reconciliations env a)" "relates R (listActions a i)"
  unfolding list_policies_def list_reconciliations_def listActions_def action_view_def
  by (intro bounded)+

end

section \<open>The execution service's hooks\<close>

text \<open>What the gateway relies on: the hooks of the services it calls obey the relation too.\<close>

locale gateway_hooks = open_evolution R + gateway_reads R env
  for R :: "'z action_db_scheme \<Rightarrow> 'z action_db_scheme \<Rightarrow> bool" and env :: "'z gateway_env" +
  assumes stopped_hook_R: "en_onRunStopped (gw_execution env) = Some h \<Longrightarrow> relates R (h org runId st)"
    and message_hook_R: "en_conversationMessage (gw_execution env) = Some m \<Longrightarrow> relates R (m org c content)"
    and lease_hook_R: "gw_leaseForCheckout env = Some l \<Longrightarrow> relates R (l request)"
begin

lemma transitionRun_R [bounded]: "relates R (transitionRun (gw_execution env) sc to reason)"
proof (cases "en_onRunStopped (gw_execution env)")
  case (Some h)
  have "relates R (h org i st)" for org i st using Some by (rule stopped_hook_R)
  with Some show ?thesis unfolding transitionRun_def by (auto intro!: bounded)
qed (auto simp: transitionRun_def intro!: bounded)

lemma syncConversation_R [bounded]: "relates R (syncConversation (gw_execution env) sc content)"
proof (cases "en_conversationMessage (gw_execution env)")
  case (Some m)
  have "relates R (m org c content)" for org c content using Some by (rule message_hook_R)
  with Some show ?thesis unfolding syncConversation_def by (auto intro!: bounded split: option.split)
qed (auto simp: syncConversation_def intro!: bounded)

lemma pauseForApproval_R [bounded]: "relates R (pauseForApproval (gw_execution env) org i st apr)"
  unfolding pauseForApproval_def Let_def by (intro bounded)

lemma cancelRun_R [bounded]: "relates R (cancelRun (gw_execution env) org i reason actorId)"
  unfolding cancelRun_def Let_def by (intro bounded)

lemma onApprovalExpired_R [bounded]: "relates R (onApprovalExpired (gw_execution env) org i)"
  unfolding onApprovalExpired_def by (intro bounded)

lemma expireDue_R [bounded]: "relates R (expireDue env nowMs org)"
  unfolding expireDue_def sweep_def expire_approval_def by (intro bounded)

lemma grant_credential_R [bounded]:
  "relates R (grant_credential_for env run i g oper d rt e n)"
proof (cases "gw_leaseForCheckout env")
  case (Some l)
  have "relates R (l request)" for request using Some by (rule lease_hook_R)
  with Some show ?thesis unfolding grant_credential_for_def by (auto intro!: bounded)
qed (auto simp: grant_credential_for_def intro!: bounded)

end

section \<open>The statements on the action tables\<close>

locale action_evolution = gateway_hooks R env
  for R :: "'z action_db_scheme \<Rightarrow> 'z action_db_scheme \<Rightarrow> bool" and env :: "'z gateway_env" +
  assumes request_R: "relates R (insert_row ac_requests_update rq_organizationId request_checks q)"
    and execution_R: "relates R (insert_row ac_executions_update xr_organizationId execution_checks x)"
    and close_R: "relates R (update_rows ac_executions ac_executions_update xr_organizationId
        execution_update_checks P f)"
    and grant_R: "relates R (insert_row ac_grants_update gr_organizationId grant_checks g)"
    and require_R: "relates R (insert_unless ac_reconciliations ac_reconciliations_update rc_organizationId
        reconciliation_valid reconciliation_checks rc_requestId c)"
    and resolve_R: "relates R (update_rows ac_reconciliations ac_reconciliations_update rc_organizationId
        reconciliation_update_checks P' f')"
    and upsert_R: "relates R (upsert_policy p)"
    and clear_R: "relates R (delete_rows ac_policies ac_policies_update po_organizationId (policy_key org action))"
begin

lemmas action_statements_R = request_R execution_R close_R grant_R require_R resolve_R
  upsert_R clear_R

declare action_statements_R [bounded]

lemma require_reconciliation_R [bounded]: "relates R (require_reconciliation i)"
  unfolding require_reconciliation_def by (intro bounded)

lemma decide_action_R [bounded]: "relates R (decide_action env rt run msg h)"
  unfolding decide_action_def record_decision_def request_approval_def by (intro bounded)

lemma interrupt_R [bounded]: "relates R (interrupt env x)"
  unfolding interrupt_def
  by (cases "ix_effect x"; cases "ix_parameters x"; simp only: prod.case effect.case option.case; intro bounded)

lemma reconcileInterrupted_R [bounded]: "relates R (reconcileInterrupted env n)"
  unfolding reconcileInterrupted_def stale_executions_def by (intro bounded)

lemma secret_R [bounded]:
  assumes "relates R m" and "\<And>t. relates R (f t)"
  shows "relates R (case v of SecretFailure e \<Rightarrow> throw e | SecretUnavailable \<Rightarrow> m | Secret t \<Rightarrow> f t)"
  using assms by (cases v) (auto intro: bounded)

lemma prepareExecution_R [bounded]: "relates R (prepareExecution env run i st n)"
  unfolding prepareExecution_def existing_execution_def new_execution_def refuse_execution_def
    commit_dispatch_def
  by (intro bounded)

lemma completeExecution_R [bounded]: "relates R (completeExecution env p outcome)"
  unfolding completeExecution_def by (intro bounded)

lemma issueGrant_R [bounded]: "relates R (issueGrant env run i correlation rt n)"
  unfolding issueGrant_def authorized_grant_def new_grant_def refuse_grant_def Let_def by (intro bounded)

lemma set_policy_R [bounded]: "relates R (set_policy a action raw)"
  unfolding set_policy_def by (intro bounded)

lemma clear_policy_R [bounded]: "relates R (clear_policy a action)"
  unfolding clear_policy_def by (intro bounded)

lemma resolve_reconciliation_R [bounded]: "relates R (resolve_reconciliation env a i raw)"
  unfolding resolve_reconciliation_def by (intro bounded)

end

end
