(* ===== verification/SpendingHistory.thy ===== *)
theory SpendingHistory
  imports ModelSpending ActionEvolution
begin

text \<open>
  The records of model spending over time. The locales \<open>alerting\<close> and \<open>spending_evolution\<close> lift
  facts about the statements of the spending tables to the operations; \<open>spending_history\<close> says
  what every operation keeps: prices and changes are only appended, a reservation is settled and
  an alert acknowledged at most once, and the tables stay well formed.
\<close>

section \<open>Lifting facts about statements\<close>

locale alerting = reading R
  for R :: "'z spending_db_scheme \<Rightarrow> 'z spending_db_scheme \<Rightarrow> bool" +
  fixes env :: "'z spending_env"
  assumes audit_append_R: "R s (ac_audit_update (\<lambda>as. as @ [x]) s)"
    and alert_R: "relates R (insert_unless sp_alerts sp_alerts_update al_organizationId alert_valid alert_checks
        alert_key a)"
    and deliver_R: "se_onAlert env = Some d \<Longrightarrow> relates R (d org al n)"
begin

lemma audit_alert_R [bounded]: "relates R (audit actor type rtype rid metadata org)"
  unfolding audit_def by (intro bounded) (auto intro!: relatesI audit_append_R simp: audits.insert_Inr)

lemma raise_alert_R [bounded]: "relates R (raise_alert env input sc l c t)"
proof (cases "se_onAlert env")
  case None
  then show ?thesis unfolding raise_alert_def Let_def by (auto intro!: bounded alert_R)
next
  case (Some d)
  have "relates R (d org al n)" for org al n using Some by (rule deliver_R)
  with Some show ?thesis
    unfolding raise_alert_def Let_def alert_row_of_def by (auto intro!: bounded alert_R)
qed

lemma check_alerts_R [bounded]: "relates R (check_alerts env input)"
  unfolding check_alerts_def check_limit_def by (intro bounded)

lemma charged_R [bounded]: "relates R (charged org P)" "relates R (budget_of org)"
  "relates R (usage_row_of org i)" "relates R (reserved_price org u)" "relates R (latest_price org provider model)"
  "relates R (current_price org provider model)" "relates R (organization_currency org)"
  "relates R (hasPriceHistory org)" "relates R (alert_row_of org i)"
  unfolding charged_def budget_of_def usage_row_of_def reserved_price_def latest_price_def current_price_def
    organization_currency_def hasPriceHistory_def alert_row_of_def
  by (intro bounded)+

lemma checkAlerts_R [bounded]: "relates R (checkAlerts env org actor period b n)"
  unfolding checkAlerts_def by (intro bounded)

lemma deny_R [bounded]: "relates R (deny_reservation run rt req period sc rem)"
  unfolding deny_reservation_def by (intro bounded)

end

locale spending_evolution = alerting R env
  for R :: "'z spending_db_scheme \<Rightarrow> 'z spending_db_scheme \<Rightarrow> bool" and env :: "'z spending_env" +
  assumes reserve_row_R: "relates R (insert_row sp_reservations_update us_organizationId usage_checks u)"
    and settle_row_R: "relates R (update_rows sp_reservations sp_reservations_update us_organizationId
        usage_update_checks P f)"
    and price_row_R: "relates R (insert_row sp_prices_update mp_organizationId price_checks p)"
    and budget_row_R: "relates R (insert_row sp_budgets_update bg_organizationId budget_checks b)"
    and budget_change_R: "relates R (store_budget a i before n)"
    and acknowledge_row_R: "relates R (update_rows sp_alerts sp_alerts_update al_organizationId
        alert_update_checks P' f')"
    and change_row_R: "relates R (insert_row sp_changes_update ce_organizationId change_checks c)"
begin

lemmas spending_statements_R = reserve_row_R settle_row_R price_row_R budget_row_R budget_change_R
  acknowledge_row_R change_row_R

declare spending_statements_R [bounded]

lemma recordChange_R [bounded]: "relates R (recordChange a action rt rid b a' n)"
  unfolding recordChange_def by (intro bounded)

lemma decide_limits_R [bounded]: "relates R (decide_limits env run rt req h n b p)"
proof -
  have pick: "relates R (case v of (Some f, True) \<Rightarrow> m f | _ \<Rightarrow> m')"
    if "\<And>f. relates R (m f)" "relates R m'" for v and m :: "fit \<Rightarrow> ('z spending_db_scheme, reservation) op" and m'
    using that by (auto split: prod.split option.split bool.split)
  show ?thesis unfolding decide_limits_def Let_def by (intro bounded pick)
qed

lemma reserve_R [bounded]: "relates R (reserve env run rt req n)"
  unfolding reserve_def new_reservation_def Let_def by (intro bounded)

lemma settle_R [bounded]: "relates R (settle env org rt req n)"
  unfolding settle_def by (intro bounded)

lemma acknowledge_R [bounded]: "relates R (acknowledge_alert env a i)"
  unfolding acknowledge_alert_def by (cases i; simp only: json.case; intro bounded)

lemma setBudget_R [bounded]: "relates R (setBudget env a raw)"
  unfolding setBudget_def update_budget_def by (intro bounded)

lemma price_changes_R [bounded]: "relates R (set_price uuid a raw)" "relates R (remove_price uuid a raw)"
  unfolding set_price_def remove_price_def begin_change_def insert_price_def by (intro bounded)+

end

section \<open>What every operation keeps\<close>

definition usage_evolves :: "usage_row \<Rightarrow> usage_row \<Rightarrow> bool" where
  "usage_evolves u u' \<longleftrightarrow> same_reservation u u' \<and> (us_status u = SETTLED \<longrightarrow> u' = u)"

definition alert_evolves :: "alert_row \<Rightarrow> alert_row \<Rightarrow> bool" where
  "alert_evolves a a' \<longleftrightarrow>
     a'\<lparr>al_acknowledgedBy := al_acknowledgedBy a, al_acknowledgedAt := al_acknowledgedAt a\<rparr> = a \<and>
     (al_acknowledgedAt a \<noteq> None \<longrightarrow> a' = a)"

definition spending_kept :: "'z spending_db_scheme \<Rightarrow> 'z spending_db_scheme \<Rightarrow> bool" where
  "spending_kept s s' \<longleftrightarrow>
     prefix (sp_prices s) (sp_prices s') \<and> grows usage_evolves (sp_reservations s) (sp_reservations s') \<and>
     grows alert_evolves (sp_alerts s) (sp_alerts s') \<and> prefix (sp_changes s) (sp_changes s')"

text \<open>The well-formed tables: keys, the checks of the rows, and each reservation's price.\<close>

definition usage_priced :: "price_row list \<Rightarrow> usage_row \<Rightarrow> bool" where
  "usage_priced ps u \<longleftrightarrow> usage_valid u = None \<and>
     (\<forall>i. us_priceId u = Some i \<longrightarrow> (\<exists>p \<in> set ps. mp_id p = i \<and> mp_organizationId p = us_organizationId u))"

definition spending_sound :: "'z spending_db_scheme \<Rightarrow> bool" where
  "spending_sound s \<longleftrightarrow>
     distinct (map bg_organizationId (sp_budgets s)) \<and> distinct (map mp_id (sp_prices s)) \<and>
     distinct (map us_id (sp_reservations s)) \<and> distinct (map alert_key (sp_alerts s)) \<and>
     (\<forall>p \<in> set (sp_prices s). (mp_inputMicros p = None) = (mp_outputMicros p = None) \<and>
        priced (mp_inputMicros p) \<and> priced (mp_outputMicros p)) \<and>
     (\<forall>u \<in> set (sp_reservations s). usage_priced (sp_prices s) u)"

definition spending_history :: "'z spending_db_scheme \<Rightarrow> 'z spending_db_scheme \<Rightarrow> bool" where
  "spending_history s s' \<longleftrightarrow> spending_kept s s' \<and> (spending_sound s \<longrightarrow> spending_sound s')"

text \<open>What other components leave alone.\<close>

definition spending_tables :: "'z spending_db_scheme \<Rightarrow> 'z spending_db_scheme \<Rightarrow> bool" where
  "spending_tables s s' \<longleftrightarrow>
     sp_budgets s' = sp_budgets s \<and> sp_prices s' = sp_prices s \<and> sp_reservations s' = sp_reservations s \<and>
     sp_alerts s' = sp_alerts s \<and> sp_changes s' = sp_changes s"

lemma spending_evolves_refl [simp]: "usage_evolves u u" "alert_evolves a a"
  by (simp_all add: usage_evolves_def same_reservation_def alert_evolves_def)

lemma usage_evolves_trans: "usage_evolves u v \<Longrightarrow> usage_evolves v w \<Longrightarrow> usage_evolves u w"
  by (auto simp: usage_evolves_def same_reservation_def)

lemma alert_evolves_trans: "alert_evolves a b \<Longrightarrow> alert_evolves b c \<Longrightarrow> alert_evolves a c"
  unfolding alert_evolves_def by (cases a; cases b; cases c) auto

lemma alert_evolves_key: "alert_evolves a b \<Longrightarrow> alert_key b = alert_key a"
  unfolding alert_evolves_def alert_key_def by (cases a; cases b) auto

lemma spending_kept_refl [simp]: "spending_kept s s"
  by (simp add: spending_kept_def grows_same)

lemma spending_kept_trans: "spending_kept s t \<Longrightarrow> spending_kept t u \<Longrightarrow> spending_kept s u"
  unfolding spending_kept_def
  by (auto intro: grows_trans [OF _ _ usage_evolves_trans] grows_trans [OF _ _ alert_evolves_trans])

lemma spending_history_refl [simp]: "spending_history s s"
  by (simp add: spending_history_def)

lemma spending_history_trans: "spending_history s t \<Longrightarrow> spending_history t u \<Longrightarrow> spending_history s u"
  by (auto simp: spending_history_def intro: spending_kept_trans)

lemma spending_tables_history: "spending_tables s s' \<Longrightarrow> spending_history s s'"
  by (simp add: spending_tables_def spending_history_def spending_kept_def spending_sound_def grows_same)

lemma spending_tables_trivial [simp]:
  "spending_tables s s"
  "spending_tables s (s\<lparr>ss_reads := n\<rparr>)" "spending_tables s (s\<lparr>ss_drawn := n\<rparr>)" "spending_tables s (s\<lparr>ss_scope := sc\<rparr>)"
  "spending_tables s (ac_audit_update f s)"
  by (simp_all add: spending_tables_def)

lemma spending_history_scope: "spending_history (s\<lparr>ss_scope := a\<rparr>) s' \<Longrightarrow> spending_history s (s'\<lparr>ss_scope := b\<rparr>)"
proof -
  assume "spending_history (s\<lparr>ss_scope := a\<rparr>) s'"
  moreover have "spending_history s (s\<lparr>ss_scope := a\<rparr>)" "spending_history s' (s'\<lparr>ss_scope := b\<rparr>)"
    by (rule spending_tables_history, simp)+
  ultimately show ?thesis by (blast intro: spending_history_trans)
qed

interpretation spending_time: evolution spending_history
  by unfold_locales (simp, rule spending_history_trans)

interpretation spending_kept: reading spending_history
  by (unfold_locales; (erule spending_history_scope | rule spending_tables_history, simp))

section \<open>The statements\<close>

lemma history_alert:
  "relates spending_history (insert_unless sp_alerts sp_alerts_update al_organizationId alert_valid alert_checks alert_key a)"
  by (rule relatesI)
     (auto simp: alerts.insert_unless_Inr spending_history_def spending_kept_def grows_same grows_append
        spending_sound_def split: if_splits)

lemma usage_priced_append: "usage_priced ps u \<Longrightarrow> usage_priced (ps @ qs) u"
  by (auto simp: usage_priced_def)

lemma usage_priced_settled:
  "usage_priced ps u \<Longrightarrow> usage_evolves u u' \<Longrightarrow> usage_valid u' = None \<Longrightarrow> usage_priced ps u'"
  by (simp add: usage_priced_def usage_evolves_def same_reservation_def)

lemma history_reserve_row:
  "relates spending_history (insert_row sp_reservations_update us_organizationId usage_checks u)"
proof (rule relatesI)
  fix s n s'
  assume "insert_row sp_reservations_update us_organizationId usage_checks u s = Inr (n, s')"
  then have "usage_checks s u = None" and s': "s' = sp_reservations_update (\<lambda>us. us @ [u]) s"
    by (auto simp: usages.insert_Inr)
  then have "usage_priced (sp_prices s) u" "us_id u \<notin> us_id ` set (sp_reservations s)"
    by (auto simp: usage_checks_def usage_priced_def split: option.splits)
  with s' show "spending_history s s'"
    by (auto simp: spending_history_def spending_kept_def grows_same grows_append spending_sound_def)
qed

lemma history_settle_row:
  "relates spending_history (update_rows sp_reservations sp_reservations_update us_organizationId
     usage_update_checks P f)"
proof (rule relatesI)
  fix s n s'
  assume "update_rows sp_reservations sp_reservations_update us_organizationId usage_update_checks P f s = Inr (n, s')"
  then obtain sc where s': "s' = sp_reservations_update
      (update_where (\<lambda>u. sees sc (us_organizationId u) \<and> P u) f) s"
    and ok: "\<And>u. u \<in> set (sp_reservations s) \<Longrightarrow> sees sc (us_organizationId u) \<Longrightarrow> P u \<Longrightarrow>
      usage_update_checks s u (f u) = None"
    by (rule usages.updateE) blast
  have evolves: "usage_evolves u (f u)" "usage_valid (f u) = None"
    if "u \<in> set (sp_reservations s)" "sees sc (us_organizationId u) \<and> P u" for u
    using ok [OF that(1)] that(2)
    by (auto simp: usage_update_checks_def usage_evolves_def split: if_splits)
  then have keys: "map us_id (sp_reservations s') = map us_id (sp_reservations s)"
    by (auto simp: s' update_where_def usage_evolves_def same_reservation_def)
  have "usage_priced (sp_prices s) u" if "spending_sound s" "u \<in> set (sp_reservations s')" for u
  proof -
    have old: "usage_priced (sp_prices s) v" if "v \<in> set (sp_reservations s)" for v
      using that \<open>spending_sound s\<close> by (simp add: spending_sound_def)
    from that(2) obtain v where v: "v \<in> set (sp_reservations s)"
      and u: "u = (if sees sc (us_organizationId v) \<and> P v then f v else v)"
      by (auto simp: s' set_update_where)
    show ?thesis
    proof (cases "sees sc (us_organizationId v) \<and> P v")
      case True
      with u usage_priced_settled [OF old [OF v] evolves [OF v]] show ?thesis by simp
    next
      case False
      with u old [OF v] show ?thesis by simp
    qed
  qed
  note rows = this
  have other: "sp_budgets s' = sp_budgets s" "sp_prices s' = sp_prices s" "sp_alerts s' = sp_alerts s"
    "sp_changes s' = sp_changes s"
    by (simp_all add: s')
  have "grows usage_evolves (sp_reservations s) (sp_reservations s')"
    using evolves by (simp add: s' grows_update_where)
  then have "spending_kept s s'" by (simp add: spending_kept_def grows_same other)
  moreover have "spending_sound s'" if sound: "spending_sound s"
  proof -
    have "\<forall>u \<in> set (sp_reservations s'). usage_priced (sp_prices s) u" using rows [OF sound] by blast
    with sound show ?thesis unfolding spending_sound_def keys other by (elim conjE) (intro conjI; assumption)
  qed
  ultimately show "spending_history s s'" by (simp add: spending_history_def)
qed

lemma history_price_row:
  "relates spending_history (insert_row sp_prices_update mp_organizationId price_checks p)"
proof (rule relatesI)
  fix s n s'
  assume "insert_row sp_prices_update mp_organizationId price_checks p s = Inr (n, s')"
  then have "price_checks s p = None" and s': "s' = sp_prices_update (\<lambda>ps. ps @ [p]) s"
    unfolding prices.insert_Inr by blast+
  then have row: "mp_id p \<notin> mp_id ` set (sp_prices s)" "(mp_inputMicros p = None) = (mp_outputMicros p = None)"
    "priced (mp_inputMicros p)" "priced (mp_outputMicros p)"
    by (simp_all add: price_checks_def)
  have "\<forall>u \<in> set (sp_reservations s). usage_priced (sp_prices s @ [p]) u" if "spending_sound s"
    using that usage_priced_append unfolding spending_sound_def by blast
  with row show "spending_history s s'"
    unfolding spending_history_def spending_kept_def spending_sound_def s' by (simp add: grows_same)
qed

lemma history_budget_row:
  "relates spending_history (insert_row sp_budgets_update bg_organizationId budget_checks b)"
  by (rule relatesI)
     (auto simp: budgets.insert_Inr budget_checks_def spending_history_def spending_kept_def grows_same
        spending_sound_def split: if_splits)

lemma history_store_budget: "relates spending_history (store_budget a i before n)"
proof (rule relatesI)
  fix s u s'
  assume run: "store_budget a i before n s = Inr (u, s')"
  show "spending_history s s'"
  proof (cases "bg_version before = 0")
    case True
    with run show ?thesis
      by (auto simp: store_budget_def Let_def intro: relatesD [OF history_budget_row])
  next
    case False
    with run obtain k f P where upd: "update_rows sp_budgets sp_budgets_update bg_organizationId
        (\<lambda>s b b'. budget_valid s b') P f s = Inr (k, s')"
      and same: "\<And>b. bg_organizationId (f b) = bg_organizationId b"
      by (auto simp: store_budget_def Let_def andThen_Inr)
    from upd obtain sc where s': "s' = sp_budgets_update
        (update_where (\<lambda>b. sees sc (bg_organizationId b) \<and> P b) f) s"
      by (rule budgets.updateE) blast
    have "map bg_organizationId (sp_budgets s') = map bg_organizationId (sp_budgets s)"
      by (simp add: s' map_update_where same)
    then show ?thesis
      by (auto simp: spending_history_def spending_kept_def grows_same spending_sound_def s')
  qed
qed

lemma history_acknowledge_row:
  "relates spending_history (update_rows sp_alerts sp_alerts_update al_organizationId alert_update_checks P f)"
proof (rule relatesI)
  fix s n s'
  assume "update_rows sp_alerts sp_alerts_update al_organizationId alert_update_checks P f s = Inr (n, s')"
  then obtain sc where s': "s' = sp_alerts_update
      (update_where (\<lambda>a. sees sc (al_organizationId a) \<and> P a) f) s"
    and ok: "\<And>a. a \<in> set (sp_alerts s) \<Longrightarrow> sees sc (al_organizationId a) \<Longrightarrow> P a \<Longrightarrow>
      alert_update_checks s a (f a) = None"
    by (rule alerts.updateE) blast
  have evolves: "alert_evolves a (f a)" if "a \<in> set (sp_alerts s)" "sees sc (al_organizationId a) \<and> P a" for a
    using ok [OF that(1)] that(2) by (auto simp: alert_update_checks_def alert_evolves_def split: if_splits)
  then have "map alert_key (sp_alerts s') = map alert_key (sp_alerts s)"
    by (auto simp: s' update_where_def alert_evolves_key)
  moreover have "grows alert_evolves (sp_alerts s) (sp_alerts s')"
    using evolves by (simp add: s' grows_update_where)
  ultimately show "spending_history s s'"
    by (auto simp: spending_history_def spending_kept_def grows_same spending_sound_def s')
qed

lemma history_change_row:
  "relates spending_history (insert_row sp_changes_update ce_organizationId change_checks c)"
  by (rule relatesI)
     (auto simp: changes.insert_Inr spending_history_def spending_kept_def grows_same spending_sound_def)

section \<open>The services behind\<close>

text \<open>
  What the service relies on: delivering an alert leaves the spending tables alone and ends in the
  scope it started in.
\<close>

definition spending_apart :: "'z spending_db_scheme \<Rightarrow> 'z spending_db_scheme \<Rightarrow> bool" where
  "spending_apart s s' \<longleftrightarrow> ss_scope s' = ss_scope s \<and> spending_tables s s'"

locale spending_services =
  fixes env :: "'z spending_env"
  assumes deliver_apart: "se_onAlert env = Some d \<Longrightarrow> relates spending_apart (d org al n)"
begin

lemma deliver_within:
  assumes "\<And>s s'. spending_apart s s' \<Longrightarrow> R s s'" and "se_onAlert env = Some d"
  shows "relates R (d org al n)"
  using deliver_apart [OF assms(2), of org al n] assms(1) by (auto simp: relates_def)

end

lemma services_spending_history:
  assumes "spending_services env"
  shows "spending_evolution spending_history env"
  by (intro spending_evolution.intro alerting.intro spending_kept.reading_axioms alerting_axioms.intro
      spending_evolution_axioms.intro history_alert history_reserve_row history_settle_row history_price_row
      history_budget_row history_store_budget history_acknowledge_row history_change_row
      spending_services.deliver_within [OF assms])
     (auto simp: spending_apart_def intro: spending_tables_history)

definition bare_spending :: "(json \<Rightarrow> string) \<Rightarrow> (string \<Rightarrow> bool) \<Rightarrow> 'z spending_env" where
  "bare_spending digest uuid = \<lparr>se_digest = digest, se_uuid = uuid, se_onAlert = None\<rparr>"

lemma bare_spending_services: "spending_services (bare_spending digest uuid)"
  by unfold_locales (simp add: bare_spending_def)

interpretation bare: spending_services "bare_spending digest uuid"
  by (rule bare_spending_services)

interpretation bare_history: spending_evolution spending_history "bare_spending digest uuid"
  by (rule services_spending_history [OF bare_spending_services])

end
