(* ===== verification/ExecutionEffects.thy ===== *)
theory ExecutionEffects
  imports ExecutionService
begin

text \<open>
  What each row statement of the execution service does when it succeeds: the one table it
  changes, the row it adds or the rows it replaces, and the constraints that held.
\<close>

text \<open>Reading the clock and drawing identifiers.\<close>

definition ticked :: "'z session_scheme \<Rightarrow> 'z session_scheme \<Rightarrow> bool" where
  "ticked s s' \<longleftrightarrow> (\<exists>a b. s' = s\<lparr>ss_reads := a, ss_drawn := b\<rparr>)"

lemma ticked_refl [simp]: "ticked s s"
  unfolding ticked_def by (intro exI [of _ "ss_reads s"] exI [of _ "ss_drawn s"]) simp

lemma ticked_reads [simp]: "ticked s (s\<lparr>ss_reads := a\<rparr>)"
  unfolding ticked_def by (intro exI [of _ a] exI [of _ "ss_drawn s"]) simp

lemma ticked_both [simp]: "ticked s (s\<lparr>ss_drawn := b, ss_reads := a\<rparr>)"
  unfolding ticked_def by (intro exI [of _ a] exI [of _ b]) simp

lemma ticked_exec:
  "ticked s s' \<Longrightarrow> exec_frame s s'"
  by (auto simp: ticked_def exec_frame_def)

lemma checks_ticked:
  assumes "exec_frame s s'"
  shows "thread_checks s' t = thread_checks s t" "run_checks s' r = run_checks s r"
    "step_checks s' u = step_checks s u" "event_checks s' e = event_checks s e"
    "artifact_checks s' a = artifact_checks s a"
    "run_update_checks s' r r' = run_update_checks s r r'"
    "step_update_checks s' u u' = step_update_checks s u u'"
    "approvals_run_link s' p p' = approvals_run_link s p p'"
proof -
  note same = assms [unfolded exec_frame_def]
  show "thread_checks s' t = thread_checks s t" by (simp only: thread_checks_def same)
  show "run_checks s' r = run_checks s r" by (simp only: run_checks_def same)
  show "step_checks s' u = step_checks s u" by (simp only: step_checks_def same)
  show "event_checks s' e = event_checks s e" by (simp only: event_checks_def run_scope_check_def same)
  show "artifact_checks s' a = artifact_checks s a"
    by (simp only: artifact_checks_def run_scope_check_def same)
  show "run_update_checks s' r r' = run_update_checks s r r'" by (simp only: run_update_checks_def same)
  show "step_update_checks s' u u' = step_update_checks s u u'" by (simp add: step_update_checks_def)
  show "approvals_run_link s' p p' = approvals_run_link s p p'"
    by (simp only: approvals_run_link_def approvals_run_link_target_def same)
qed

lemmas checks_draw [simp] =
  checks_ticked [OF exec_frame_trivial(2)] checks_ticked [OF exec_frame_trivial(3)]

text \<open>A statement that adds \<open>r\<close> to a table in a transaction that sees \<open>r\<close>'s organization.\<close>

lemma insertThread_effect:
  assumes "insertThread org employeeId agentId conversationId title s = Inr (i, s')"
  obtains t u sc where "ticked s u" "ss_scope s = Some sc" "sees sc org" "thread_checks s t = None"
    "s' = u\<lparr>ex_threads := ex_threads s @ [t]\<rparr>" "th_id t = i" "th_organizationId t = org"
    "th_employeeId t = employeeId" "th_agentId t = agentId" "th_conversationId t = conversationId"
    "th_status t = ThreadACTIVE"
proof -
  let ?u = "s\<lparr>ss_drawn := Suc (ss_drawn s), ss_reads := Suc (ss_reads s)\<rparr>"
  show ?thesis
    using assms
    by (intro that [where u = ?u and sc = "the (ss_scope s)" and t = "last (ex_threads s')"])
       (auto simp: insertThread_def andThen_Inr threads.insert_Inr)
qed

lemma insertRun_effect:
  assumes "insertRun org threadId employeeId agentId mf task profile legacy s = Inr (i, s')"
  obtains r u sc where "ticked s u" "ss_scope s = Some sc" "sees sc org" "run_checks s r = None"
    "s' = u\<lparr>ex_runs := ex_runs s @ [r]\<rparr>" "rn_id r = i" "rn_organizationId r = org"
    "rn_threadId r = threadId" "rn_employeeId r = employeeId" "rn_agentId r = agentId"
    "rn_manifest r = mf" "rn_task r = task" "rn_runtimeProfile r = profile"
    "rn_legacyQaRunId r = legacy" "rn_status r = QUEUED" "rn_statusReason r = None"
    "rn_runtimeSequence r = 0"
proof -
  let ?u = "s\<lparr>ss_drawn := Suc (ss_drawn s), ss_reads := Suc (ss_reads s)\<rparr>"
  show ?thesis
    using assms
    by (intro that [where u = ?u and sc = "the (ss_scope s)" and r = "last (ex_runs s')"])
       (auto simp: insertRun_def andThen_Inr runs.insert_Inr)
qed

lemma insertStep_effect:
  assumes "insertStep scp kind title st detail given s = Inr (i, s')"
  obtains t u sc where "ticked s u" "ss_scope s = Some sc" "sees sc (rs_organizationId scp)"
    "step_checks s t = None" "s' = u\<lparr>ex_steps := ex_steps s @ [t]\<rparr>" "st_id t = i"
    "st_organizationId t = rs_organizationId scp" "st_runId t = rs_runId scp" "st_status t = st"
    "st_sequence t = next_sequence (map st_sequence
        (filter (\<lambda>t. sees sc (st_organizationId t) \<and> st_runId t = rs_runId scp) (ex_steps s)))"
    "given = Some j \<Longrightarrow> i = j" "st_kind t = kind"
proof -
  let ?u = "s\<lparr>ss_drawn := ss_drawn s + (if given = None then 1 else 0), ss_reads := Suc (ss_reads s)\<rparr>"
  show ?thesis
    using assms
    by (intro that [where u = ?u and sc = "the (ss_scope s)" and t = "last (ex_steps s')"])
       (auto simp: insertStep_def andThen_Inr select_Inr steps.insert_Inr
          split: option.splits if_splits)
qed

lemma appendEvent_effect:
  assumes "appendEvent env scp type source actorId payload stepId runtime s = Inr (i, s')"
  obtains e u sc where "ticked s u" "ss_scope s = Some sc" "sees sc (rs_organizationId scp)"
    "event_checks s e = None" "s' = u\<lparr>ex_events := ex_events s @ [e]\<rparr>" "ae_id e = i"
    "ae_organizationId e = rs_organizationId scp" "ae_threadId e = rs_threadId scp"
    "ae_runId e = rs_runId scp" "ae_stepId e = stepId" "ae_type e = type" "ae_source e = source"
    "ae_actorId e = actorId" "ae_payload e = payload"
    "ae_runtimeSequence e = map_option rt_runtimeSequence runtime"
    "ae_sequence e = next_sequence (map ae_sequence
        (filter (\<lambda>e. sees sc (ae_organizationId e) \<and> ae_runId e = rs_runId scp) (ex_events s)))"
    "\<And>rt. runtime = Some rt \<Longrightarrow> i = rt_id rt \<and> ae_payloadHash e = rt_payloadHash rt"
proof -
  let ?u = "s\<lparr>ss_drawn := ss_drawn s + (if runtime = None then 1 else 0), ss_reads := Suc (ss_reads s)\<rparr>"
  show ?thesis
    using assms
    by (intro that [where u = ?u and sc = "the (ss_scope s)" and e = "last (ex_events s')"])
       (auto simp: appendEvent_def andThen_Inr select_Inr events.insert_Inr
          split: option.splits if_splits)
qed

text \<open>The statements that replace rows.\<close>

lemma touch_thread_effect:
  assumes "touch_thread threadId s = Inr (x, s')"
  obtains u sc timestamp where "ticked s u" "ss_scope s = Some sc"
    "s' = u\<lparr>ex_threads := update_where (\<lambda>t. sees sc (th_organizationId t) \<and> th_id t = threadId)
        (\<lambda>t. t\<lparr>th_updatedAt := timestamp\<rparr>) (ex_threads s)\<rparr>"
  using assms
  by (intro that [where u = "s\<lparr>ss_reads := Suc (ss_reads s)\<rparr>" and sc = "the (ss_scope s)"
        and timestamp = "ss_clock s (ss_reads s)"])
     (auto simp: touch_thread_def andThen_Inr threads.update_Inr)

text \<open>The run row as \<open>transitionRun\<close> leaves it.\<close>

definition moved_run :: "run_status \<Rightarrow> string option \<Rightarrow> int \<Rightarrow> run_row \<Rightarrow> run_row" where
  "moved_run to reason timestamp r =
     r\<lparr>rn_status := to, rn_statusReason := reason, rn_updatedAt := timestamp,
        rn_startedAt := (case rn_startedAt r of Some t \<Rightarrow> Some t
          | None \<Rightarrow> if to = RUNNING then Some timestamp else None),
        rn_completedAt := (if to \<in> {COMPLETED, FAILED, CANCELLED} then Some timestamp
          else rn_completedAt r)\<rparr>"

lemma moved_run_simps [simp]:
  "rn_status (moved_run to reason ts r) = to" "rn_statusReason (moved_run to reason ts r) = reason"
  "rn_id (moved_run to reason ts r) = rn_id r"
  "rn_organizationId (moved_run to reason ts r) = rn_organizationId r"
  "rn_threadId (moved_run to reason ts r) = rn_threadId r"
  "rn_employeeId (moved_run to reason ts r) = rn_employeeId r"
  "rn_agentId (moved_run to reason ts r) = rn_agentId r"
  "rn_runtimeSequence (moved_run to reason ts r) = rn_runtimeSequence r"
  by (simp_all add: moved_run_def)

lemma set_run_status_moved:
  "set_run_status org runId to reason timestamp =
     update_rows ex_runs ex_runs_update rn_organizationId run_update_checks
       (\<lambda>r. rn_id r = runId \<and> rn_organizationId r = org) (moved_run to reason timestamp)"
  unfolding set_run_status_def moved_run_def ..

lemma move_run_effect:
  assumes "move_run org runId to reason s = Inr (run, s')"
  obtains u sc timestamp where "ticked s u" "ss_scope s = Some sc"
    "run \<in> set (ex_runs s)" "rn_id run = runId" "rn_organizationId run = org" "sees sc org"
    "rn_status run = to \<or> canTransitionRun (rn_status run) to"
    "s' = u\<lparr>ex_runs := update_where (\<lambda>r. rn_id r = runId \<and> rn_organizationId r = org)
        (moved_run to reason timestamp) (ex_runs s)\<rparr>"
    "\<And>r. r \<in> set (ex_runs s) \<Longrightarrow> rn_id r = runId \<Longrightarrow> rn_organizationId r = org \<Longrightarrow>
       run_update_checks s r (moved_run to reason timestamp r) = None"
proof -
  have same: "(\<lambda>r. sees sc (rn_organizationId r) \<and> rn_id r = runId \<and> rn_organizationId r = org) =
      (\<lambda>r. rn_id r = runId \<and> rn_organizationId r = org)" if "sees sc org" for sc
    using that by auto
  from assms obtain sc where sc: "ss_scope s = Some sc"
    and find: "find (\<lambda>r. sees sc (rn_organizationId r) \<and> rn_id r = runId \<and> rn_organizationId r = org)
        (ex_runs s) = Some run"
    by (auto simp: move_run_def andThen_Inr runRow_Inr)
  from find_Some_set [OF find] have run: "run \<in> set (ex_runs s)" "rn_id run = runId"
    "rn_organizationId run = org" "sees sc org"
    by auto
  show ?thesis
    using assms sc run
    by (intro that [where u = "s\<lparr>ss_reads := Suc (ss_reads s)\<rparr>" and sc = sc
          and timestamp = "ss_clock s (ss_reads s)"])
       (auto simp: move_run_def andThen_Inr runRow_Inr set_run_status_moved runs.update_Inr same)
qed

definition moved_step :: "step_status \<Rightarrow> int \<Rightarrow> step_row \<Rightarrow> step_row" where
  "moved_step to timestamp t =
     t\<lparr>st_status := to, st_completedAt := (if to \<in> set terminalStepStatuses then Some timestamp
       else st_completedAt t)\<rparr>"

lemma moved_step_simps [simp]:
  "st_status (moved_step to ts t) = to" "st_id (moved_step to ts t) = st_id t"
  "st_organizationId (moved_step to ts t) = st_organizationId t"
  "st_runId (moved_step to ts t) = st_runId t" "st_sequence (moved_step to ts t) = st_sequence t"
  "st_kind (moved_step to ts t) = st_kind t"
  by (simp_all add: moved_step_def)

lemma transitionStep_moved:
  "transitionStep org stepId to =
     andThen (select_one ex_steps st_organizationId (\<lambda>t. st_id t = stepId \<and> st_organizationId t = org))
       (\<lambda>row. case row of
          None \<Rightarrow> throw (Refused 404 ''STEP_NOT_FOUND'')
        | Some t \<Rightarrow>
            andThen (demand (canTransitionStep (st_status t) to) (Refused 409 ''ILLEGAL_STEP_TRANSITION'')) (\<lambda>_.
            andThen now (\<lambda>timestamp.
            andThen (update_rows ex_steps ex_steps_update st_organizationId step_update_checks
              (\<lambda>t. st_id t = stepId \<and> st_organizationId t = org) (moved_step to timestamp)) (\<lambda>_. ret ()))))"
  unfolding transitionStep_def moved_step_def ..

lemma transitionStep_effect:
  assumes "transitionStep org stepId to s = Inr (x, s')"
  obtains u sc timestamp t where "ticked s u" "ss_scope s = Some sc"
    "t \<in> set (ex_steps s)" "st_id t = stepId" "st_organizationId t = org" "sees sc org"
    "canTransitionStep (st_status t) to"
    "s' = u\<lparr>ex_steps := update_where (\<lambda>t. st_id t = stepId \<and> st_organizationId t = org)
        (moved_step to timestamp) (ex_steps s)\<rparr>"
proof -
  have same: "(\<lambda>t. sees sc (st_organizationId t) \<and> st_id t = stepId \<and> st_organizationId t = org) =
      (\<lambda>t. st_id t = stepId \<and> st_organizationId t = org)" if "sees sc org" for sc
    using that by auto
  from assms obtain sc t where sc: "ss_scope s = Some sc"
    and find: "find (\<lambda>t. sees sc (st_organizationId t) \<and> st_id t = stepId \<and> st_organizationId t = org)
        (ex_steps s) = Some t"
    by (fastforce simp: transitionStep_def andThen_Inr select_one_Inr split: option.splits)
  from find_Some_set [OF find] have t: "t \<in> set (ex_steps s)" "st_id t = stepId"
    "st_organizationId t = org" "sees sc org"
    by auto
  show ?thesis
    using assms sc find t
    by (intro that [where u = "s\<lparr>ss_reads := Suc (ss_reads s)\<rparr>" and sc = sc
          and timestamp = "ss_clock s (ss_reads s)" and t = t])
       (auto simp: transitionStep_moved andThen_Inr select_one_Inr steps.update_Inr same)
qed

lemma set_runtime_sequence_effect:
  assumes "set_runtime_sequence org runId n s = Inr (x, s')"
  obtains u sc timestamp where "ticked s u" "ss_scope s = Some sc"
    "s' = u\<lparr>ex_runs := update_where
        (\<lambda>r. sees sc (rn_organizationId r) \<and> rn_id r = runId \<and> rn_organizationId r = org)
        (\<lambda>r. r\<lparr>rn_runtimeSequence := n, rn_updatedAt := timestamp\<rparr>) (ex_runs s)\<rparr>"
    "\<And>r. r \<in> set (ex_runs s) \<Longrightarrow> sees sc org \<Longrightarrow> rn_id r = runId \<Longrightarrow> rn_organizationId r = org \<Longrightarrow>
       run_update_checks s r (r\<lparr>rn_runtimeSequence := n, rn_updatedAt := timestamp\<rparr>) = None"
  using assms
  by (intro that [where u = "s\<lparr>ss_reads := Suc (ss_reads s)\<rparr>" and sc = "the (ss_scope s)"
        and timestamp = "ss_clock s (ss_reads s)"])
     (auto simp: set_runtime_sequence_def andThen_Inr runs.update_Inr)

lemma link_effect:
  assumes "update_rows ex_approvals ex_approvals_update ap_organizationId trigger P f s = Inr (n, s')"
  obtains sc where "ss_scope s = Some sc"
    "s' = s\<lparr>ex_approvals := update_where (\<lambda>a. sees sc (ap_organizationId a) \<and> P a) f (ex_approvals s)\<rparr>"
    "\<And>a. a \<in> set (ex_approvals s) \<Longrightarrow> sees sc (ap_organizationId a) \<Longrightarrow> P a \<Longrightarrow>
       sees sc (ap_organizationId (f a))"
  using assms
  by (intro that [where sc = "the (ss_scope s)"]) (auto simp: approvals.update_Inr)

end
