(* ===== verification/ExecutionEvolution.thy ===== *)
theory ExecutionEvolution
  imports ExecutionService
begin

text \<open>
  The contract between \<open>ExecutionService\<close> and what it is constructed with, and the lifting of
  facts about its row statements to its operations. \<open>execution_hooks\<close> is what the service
  relies on: manifests are only read, and what the hooks write lies outside a run's history.
  \<open>execution_evolution\<close> adds a relation between states that every row statement obeys; each
  operation of the service then obeys it, so that history, ledger and tenancy are proved once
  per statement.
\<close>

section \<open>Hooks\<close>

locale execution_hooks =
  fixes env :: "'z exec_env"
  assumes manifest_frame: "relates exec_frame (en_loadManifest env agentId org employeeId)"
    and workflow_frame: "en_resolveWorkflow env = Some f \<Longrightarrow> relates exec_frame (f manifest w)"
    and stopped_frame: "en_onRunStopped env = Some h \<Longrightarrow> relates exec_frame (h org runId st)"
    and artifact_frame: "en_registerArtifact env = Some g \<Longrightarrow> relates exec_frame (g org runId a)"
    and message_frame: "en_conversationMessage env = Some m \<Longrightarrow> relates exec_frame (m org c content)"

begin

text \<open>Mirroring an outcome into the conversation reads two rows and calls the hook.\<close>

lemma syncConversation_frame: "relates exec_frame (syncConversation env sc content)"
proof (cases "en_conversationMessage env")
  case None
  then show ?thesis by (simp add: syncConversation_def frame.relates_ret)
next
  case (Some m)
  have "relates exec_frame (m org c content)" for org c content
    using Some by (rule message_frame)
  with Some show ?thesis
    unfolding syncConversation_def
    by (auto intro!: bounded split: option.split)
qed

lemma stopped_hook_frame:
  "relates exec_frame (whenever c (case en_onRunStopped env of None \<Rightarrow> ret () | Some h \<Rightarrow> h org i to))"
  using stopped_frame by (auto intro!: bounded split: option.split)

end

section \<open>Lifting\<close>

text \<open>Relations that the statements inside a runtime event's handler obey.\<close>

locale execution_quiet = execution_hooks env + evolution R
  for env :: "'z exec_env" and R :: "'z exec_db_scheme \<Rightarrow> 'z exec_db_scheme \<Rightarrow> bool" +
  assumes frame_R: "exec_frame s s' \<Longrightarrow> R s s'"
    and insertStep_R: "relates R (insertStep sc kind title st detail given)"
    and step_R: "relates R (transitionStep org stepId st')"
begin

lemma relates_frame: "relates exec_frame m \<Longrightarrow> relates R m"
  unfolding relates_def by (blast intro: frame_R)

lemmas quiet_statements_R =
  insertStep_R step_R
  frame_statements [THEN relates_frame] frame_reads [THEN relates_frame]

declare quiet_statements_R [bounded]

lemma syncConversation_R [bounded]: "relates R (syncConversation env sc content)"
  by (rule relates_frame [OF syncConversation_frame])

lemma resume_approved_R [bounded]: "relates R (resume_approved org run payload)"
  unfolding resume_approved_def
  by (cases payload; simp only: runtime_payload.case; intro bounded)

lemma apply_step_R [bounded]: "relates R (apply_step org scp stepId payload)"
  unfolding apply_step_def
  by (cases payload; simp only: runtime_payload.case; intro bounded)

lemma accept_event_R [bounded]: "relates R (accept_event run e)"
  unfolding accept_event_def
  by (cases "decideRuntimeEvent (rn_status run) (rn_statusReason run) (ev_type e)")
     (auto intro!: bounded)

lemma sync_outcome_R [bounded]: "relates R (sync_outcome env scp payload)"
  unfolding sync_outcome_def
  by (cases payload; simp only: runtime_payload.case; intro bounded)

lemma register_artifact_R:
  assumes insert: "\<And>row. relates R (insert_row ex_artifacts_update aa_organizationId artifact_checks row)"
  shows "relates R (register_artifact env org run stepId payload)"
proof -
  have hook: "relates R (g o' r a)" if "en_registerArtifact env = Some g" for g o' r a
    using that by (rule relates_frame [OF artifact_frame])
  show ?thesis
    unfolding register_artifact_def
    by (cases payload; cases "en_registerArtifact env"; simp only: runtime_payload.case option.case;
        intro bounded insert hook)
qed

lemma apply_event_R:
  assumes "\<And>row. relates R (insert_row ex_artifacts_update aa_organizationId artifact_checks row)"
  shows "relates R (apply_event env org run e)"
  unfolding apply_event_def
  by (intro bounded register_artifact_R assms)

end

text \<open>Relations that moving a run obeys as well.\<close>

locale execution_moves = execution_quiet env R
  for env :: "'z exec_env" and R :: "'z exec_db_scheme \<Rightarrow> 'z exec_db_scheme \<Rightarrow> bool" +
  assumes move_R: "relates R (move_run org runId to reason)"
begin

declare move_R [bounded]

lemma transitionRun_R [bounded]: "relates R (transitionRun env sc to reason)"
proof (cases "en_onRunStopped env")
  case None
  then show ?thesis unfolding transitionRun_def by (auto intro!: bounded)
next
  case (Some hook)
  have "relates R (hook org runId st)" for org runId st
    using Some by (rule relates_frame [OF stopped_frame])
  with Some show ?thesis unfolding transitionRun_def by (auto intro!: bounded)
qed

end

text \<open>Relations that every row statement but those of a runtime event obeys.\<close>

locale execution_statements = execution_moves env R
  for env :: "'z exec_env" and R :: "'z exec_db_scheme \<Rightarrow> 'z exec_db_scheme \<Rightarrow> bool" +
  assumes scope_R: "ss_scope s = None \<Longrightarrow> R (s\<lparr>ss_scope := Some scp\<rparr>) s' \<Longrightarrow> R s (s'\<lparr>ss_scope := None\<rparr>)"
    and insertThread_R: "relates R (insertThread org employeeId agentId conversationId title)"
    and touch_R: "relates R (touch_thread threadId)"
    and insertRun_R: "relates R (insertRun org threadId employeeId agentId mf task profile legacy)"
    and event_R: "relates R (appendEvent env sc type CONTROL_PLANE actorId payload evStep None)"
    and link_R: "relates R (update_rows ex_approvals ex_approvals_update ap_organizationId
        approvals_run_link (\<lambda>a. ap_id a = approvalId \<and> ap_organizationId a = org)
        (\<lambda>a. a\<lparr>ap_runId := Some runId, ap_stepId := Some stepId\<rparr>))"
begin

lemma tenant_R [bounded]: "relates R m \<Longrightarrow> relates R (tenant org m)"
  by (auto simp: relates_def tenant_def scoped_def split: if_splits option.splits scope.splits sum.splits
      intro: scope_R)

lemmas row_statements_R = insertThread_R touch_R insertRun_R event_R link_R

declare row_statements_R [bounded]

lemma thread_has_active_run_R [bounded]: "relates R (thread_has_active_run threadId)"
  unfolding thread_has_active_run_def by (intro bounded)

lemma conversationThread_R [bounded]: "relates R (conversationThread org employeeId agentId c)"
  unfolding conversationThread_def by (auto intro!: bounded split: option.split)

lemma threadForConversation_R [bounded]: "relates R (threadForConversation org employeeId agentId c t)"
  unfolding threadForConversation_def by (auto intro!: bounded split: option.split)

lemma run_thread_R [bounded]: "relates R (run_thread inp)"
  unfolding run_thread_def
  by (auto intro!: bounded split: option.split list.split)

lemma createRun_R [bounded]: "relates R (createRun env inp)"
  unfolding createRun_def Let_def by (intro bounded)

lemma url_origin_R [bounded]: "relates R (url_origin env url)"
  unfolding url_origin_def by (auto intro!: bounded split: option.split)

lemma legacy_plan_R [bounded]: "relates R (legacy_plan env inp)"
  unfolding legacy_plan_def Let_def by (intro bounded)

lemma recordLegacyQaRun_R [bounded]: "relates R (recordLegacyQaRun env inp)"
proof -
  have "relates R (case p of (sc, origin) \<Rightarrow> f sc origin)"
    if "\<And>sc origin. relates R (f sc origin)" for p and f :: "_ \<Rightarrow> _ \<Rightarrow> ('z exec_db_scheme, 'b) op"
    using that by (cases p) simp
  then show ?thesis
    unfolding recordLegacyQaRun_def Let_def by (auto intro!: bounded)
qed

lemma approval_link_R [bounded]: "relates R (approval_link org approvalId)"
  unfolding approval_link_def by (intro bounded)

lemma waiting_step_R [bounded]: "relates R (waiting_step org runId stepId)"
  unfolding waiting_step_def by (auto intro!: bounded split: option.split)

lemma transition_waiting_R [bounded]: "relates R (transition_waiting org waiting to)"
  unfolding transition_waiting_def by (auto intro!: bounded split: option.split)

lemma release_run_R [bounded]: "relates R (release_run env org run waiting decision actorId)"
  unfolding release_run_def Let_def by (cases decision) (auto intro!: bounded)

lemma onApprovalDecided_R [bounded]: "relates R (onApprovalDecided env org approvalId decision actorId)"
  unfolding onApprovalDecided_def
  by (auto intro!: bounded split: option.split)

lemma pauseForApproval_R [bounded]: "relates R (pauseForApproval env org runId stepId approval)"
  unfolding pauseForApproval_def Let_def by (intro bounded)

lemma cancelRun_R [bounded]: "relates R (cancelRun env org runId reason actorId)"
  unfolding cancelRun_def Let_def
  by (auto intro!: bounded split: option.split)

lemma onApprovalExpired_R [bounded]: "relates R (onApprovalExpired env org approvalId)"
  unfolding onApprovalExpired_def
  by (auto intro!: bounded split: option.split)

lemma readableRun_R [bounded]: "relates R (readableRun actor runId allowAdmin)"
  unfolding readableRun_def by (auto intro!: bounded split: option.split)

lemma cancelOwnRun_R [bounded]: "relates R (cancelOwnRun env actor runId)"
  unfolding cancelOwnRun_def by (intro bounded)

text \<open>
  A relation that the remaining statements of a runtime event obey one by one is obeyed by
  the whole event.
\<close>

lemma new_runtime_event_R:
  assumes insert: "\<And>row. relates R (insert_row ex_artifacts_update aa_organizationId artifact_checks row)"
    and sequence: "\<And>org runId n. relates R (set_runtime_sequence org runId n)"
    and event: "\<And>scp type actorId payload stepId rt.
      relates R (appendEvent env scp type RUNTIME actorId payload stepId rt)"
  shows "relates R (new_runtime_event env org e hash)"
  unfolding new_runtime_event_def Let_def
  by (intro bounded apply_event_R insert sequence event)

end

section \<open>The operations\<close>

locale execution_evolution = execution_statements env R
  for env :: "'z exec_env" and R :: "'z exec_db_scheme \<Rightarrow> 'z exec_db_scheme \<Rightarrow> bool" +
  assumes runtime_R: "relates R (new_runtime_event env org e hash)"
begin

declare runtime_R [bounded]

lemma recordRuntimeEvent_R [bounded]: "relates R (recordRuntimeEvent env org e hash)"
  unfolding recordRuntimeEvent_def by (auto intro!: bounded split: option.split)

lemma ingestRuntimeEvent_R [bounded]: "relates R (ingestRuntimeEvent env sch org w)"
  unfolding ingestRuntimeEvent_def
  by (cases "parseRuntimeEvent sch w") (auto intro!: bounded)

end

end
