(* ===== verification/ExecutionHistory.thy ===== *)
theory ExecutionHistory
  imports ExecutionEffects ExecutionEvolution
begin

text \<open>
  The history of runs: whatever operation runs, events and artifacts are only appended, runs
  and steps keep their identity and move along the transition relations of
  \<open>run-lifecycle.ts\<close>, and a run that ended never changes again.
\<close>

section \<open>The relation\<close>

definition run_evolves :: "run_row \<Rightarrow> run_row \<Rightarrow> bool" where
  "run_evolves r r' \<longleftrightarrow>
     same_run_identity r r' \<and> (isTerminalRun (rn_status r) \<longrightarrow> r' = r) \<and>
     canTransitionRun\<^sup>*\<^sup>* (rn_status r) (rn_status r')"

definition step_evolves :: "step_row \<Rightarrow> step_row \<Rightarrow> bool" where
  "step_evolves t t' \<longleftrightarrow>
     st_id t' = st_id t \<and> st_organizationId t' = st_organizationId t \<and> st_runId t' = st_runId t \<and>
     st_sequence t' = st_sequence t \<and> st_kind t' = st_kind t \<and>
     canTransitionStep\<^sup>*\<^sup>* (st_status t) (st_status t')"

definition keys_unique :: "'z exec_db_scheme \<Rightarrow> bool" where
  "keys_unique s \<longleftrightarrow> distinct (map rn_id (ex_runs s)) \<and> distinct (map st_id (ex_steps s)) \<and>
     distinct (map ae_id (ex_events s))"

definition history :: "'z exec_db_scheme \<Rightarrow> 'z exec_db_scheme \<Rightarrow> bool" where
  "history s s' \<longleftrightarrow>
     (keys_unique s \<longrightarrow>
        keys_unique s' \<and> grows run_evolves (ex_runs s) (ex_runs s') \<and>
        grows step_evolves (ex_steps s) (ex_steps s') \<and> prefix (ex_events s) (ex_events s') \<and>
        prefix (ex_artifacts s) (ex_artifacts s'))"

lemma run_evolves_refl [simp]: "run_evolves r r"
  by (simp add: run_evolves_def same_run_identity_def)

lemma run_evolves_trans: "run_evolves p q \<Longrightarrow> run_evolves q r \<Longrightarrow> run_evolves p r"
  by (auto simp: run_evolves_def same_run_identity_def)

lemma step_evolves_refl [simp]: "step_evolves t t"
  by (simp add: step_evolves_def)

lemma step_evolves_trans: "step_evolves p q \<Longrightarrow> step_evolves q r \<Longrightarrow> step_evolves p r"
  by (auto simp: step_evolves_def)

lemma grows_evolves [simp]: "grows run_evolves rs rs" "grows step_evolves ts ts"
  by (simp_all add: grows_same)

lemma history_trans: "history s t \<Longrightarrow> history t u \<Longrightarrow> history s u"
  unfolding history_def
  by (auto intro: grows_trans [OF _ _ run_evolves_trans] grows_trans [OF _ _ step_evolves_trans])

lemma history_frame: "exec_frame s s' \<Longrightarrow> history s s'"
  by (auto simp: history_def exec_frame_def keys_unique_def)

lemma history_scope: "history (s\<lparr>ss_scope := a\<rparr>) s' \<Longrightarrow> history s (s'\<lparr>ss_scope := b\<rparr>)"
  by (auto simp: history_def keys_unique_def)

interpretation history: evolution history
  by unfold_locales (auto intro: history_trans history_frame)

section \<open>The statements obey it\<close>

lemma ticked_tables:
  assumes "ticked s u"
  shows "ex_threads u = ex_threads s" "ex_runs u = ex_runs s" "ex_steps u = ex_steps s"
    "ex_events u = ex_events s" "ex_artifacts u = ex_artifacts s" "ex_approvals u = ex_approvals s"
    "ss_scope u = ss_scope s"
  using ticked_exec [OF assms] by (simp_all add: exec_frame_def)

lemma history_threads: "ticked s u \<Longrightarrow> s' = u\<lparr>ex_threads := ts\<rparr> \<Longrightarrow> history s s'"
  by (auto simp: history_def keys_unique_def ticked_tables)

lemma history_insertThread: "relates history (insertThread org e a c t)"
  by (rule relatesI) (erule insertThread_effect, auto intro: history_threads)

lemma history_touch: "relates history (touch_thread threadId)"
  by (rule relatesI) (erule touch_thread_effect, auto intro: history_threads)

lemma history_insertRun: "relates history (insertRun org threadId e a mf task profile legacy)"
proof (rule relatesI)
  fix s i s'
  assume "insertRun org threadId e a mf task profile legacy s = Inr (i, s')"
  then obtain r u where "ticked s u" "run_checks s r = None" "s' = u\<lparr>ex_runs := ex_runs s @ [r]\<rparr>"
    by (rule insertRun_effect)
  then show "history s s'"
    by (auto simp: history_def keys_unique_def ticked_tables run_checks_def
        intro: grows_append)
qed

lemma history_insertStep: "relates history (insertStep scp kind title st detail given)"
proof (rule relatesI)
  fix s i s'
  assume "insertStep scp kind title st detail given s = Inr (i, s')"
  then obtain t u where "ticked s u" "step_checks s t = None" "s' = u\<lparr>ex_steps := ex_steps s @ [t]\<rparr>"
    by (rule insertStep_effect)
  then show "history s s'"
    by (auto simp: history_def keys_unique_def ticked_tables step_checks_def
        intro: grows_append)
qed

lemma history_appendEvent: "relates history (appendEvent env scp type source a p st rt)"
proof (rule relatesI)
  fix s i s'
  assume "appendEvent env scp type source a p st rt s = Inr (i, s')"
  then obtain e u where "ticked s u" "event_checks s e = None" "s' = u\<lparr>ex_events := ex_events s @ [e]\<rparr>"
    by (rule appendEvent_effect)
  then show "history s s'"
    by (auto simp: history_def keys_unique_def ticked_tables event_checks_def
       )
qed

text \<open>An UPDATE of one run that keeps its identity and moves it legally.\<close>

lemma history_update_run:
  assumes "ticked s u" and s': "s' = u\<lparr>ex_runs := update_where P f (ex_runs s)\<rparr>"
    and step: "\<And>r. keys_unique s \<Longrightarrow> r \<in> set (ex_runs s) \<Longrightarrow> P r \<Longrightarrow> run_evolves r (f r)"
  shows "history s s'"
proof -
  have "map rn_id (update_where P f (ex_runs s)) = map rn_id (ex_runs s)" if "keys_unique s"
    using step [OF that] by (auto simp: update_where_def run_evolves_def same_run_identity_def)
  with assms show ?thesis
    by (auto simp: history_def keys_unique_def ticked_tables intro: grows_update_where)
qed

lemma history_move: "relates history (move_run org runId to reason)"
proof (rule relatesI)
  fix s run s'
  assume "move_run org runId to reason s = Inr (run, s')"
  then obtain u ts where ticked: "ticked s u"
    and run: "run \<in> set (ex_runs s)" "rn_id run = runId" "rn_organizationId run = org"
      "rn_status run = to \<or> canTransitionRun (rn_status run) to"
    and s': "s' = u\<lparr>ex_runs := update_where (\<lambda>r. rn_id r = runId \<and> rn_organizationId r = org)
        (moved_run to reason ts) (ex_runs s)\<rparr>"
    and checks: "\<And>r. r \<in> set (ex_runs s) \<Longrightarrow> rn_id r = runId \<Longrightarrow> rn_organizationId r = org \<Longrightarrow>
       run_update_checks s r (moved_run to reason ts r) = None"
    by (rule move_run_effect) blast
  show "history s s'"
  proof (rule history_update_run [OF ticked s'])
    fix r
    assume "keys_unique s" and r: "r \<in> set (ex_runs s)" "rn_id r = runId \<and> rn_organizationId r = org"
    with run have "r = run" by (auto simp: keys_unique_def intro: unique_key)
    with run r checks [of r] show "run_evolves r (moved_run to reason ts r)"
      by (auto simp: run_evolves_def run_update_checks_def)
  qed
qed

lemma history_sequence: "relates history (set_runtime_sequence org runId n)"
proof (rule relatesI)
  fix s x s'
  assume "set_runtime_sequence org runId n s = Inr (x, s')"
  then obtain u sc ts where ticked: "ticked s u"
    and s': "s' = u\<lparr>ex_runs := update_where
        (\<lambda>r. sees sc (rn_organizationId r) \<and> rn_id r = runId \<and> rn_organizationId r = org)
        (\<lambda>r. r\<lparr>rn_runtimeSequence := n, rn_updatedAt := ts\<rparr>) (ex_runs s)\<rparr>"
    and checks: "\<And>r. r \<in> set (ex_runs s) \<Longrightarrow> sees sc org \<Longrightarrow> rn_id r = runId \<Longrightarrow>
       rn_organizationId r = org \<Longrightarrow>
       run_update_checks s r (r\<lparr>rn_runtimeSequence := n, rn_updatedAt := ts\<rparr>) = None"
    by (rule set_runtime_sequence_effect) blast
  show "history s s'"
  proof (rule history_update_run [OF ticked s'])
    fix r
    assume "r \<in> set (ex_runs s)"
      and "sees sc (rn_organizationId r) \<and> rn_id r = runId \<and> rn_organizationId r = org"
    with checks [of r] show "run_evolves r (r\<lparr>rn_runtimeSequence := n, rn_updatedAt := ts\<rparr>)"
      by (auto simp: run_evolves_def run_update_checks_def)
  qed
qed

lemma history_step: "relates history (transitionStep org stepId to)"
proof (rule relatesI)
  fix s x s'
  assume "transitionStep org stepId to s = Inr (x, s')"
  then obtain u ts t where ticked: "ticked s u"
    and t: "t \<in> set (ex_steps s)" "st_id t = stepId" "st_organizationId t = org"
      "canTransitionStep (st_status t) to"
    and s': "s' = u\<lparr>ex_steps := update_where (\<lambda>t. st_id t = stepId \<and> st_organizationId t = org)
        (moved_step to ts) (ex_steps s)\<rparr>"
    by (rule transitionStep_effect)
  have "map st_id (ex_steps s') = map st_id (ex_steps s)"
    by (simp add: s' update_where_def)
  moreover have "grows step_evolves (ex_steps s) (ex_steps s')" if "keys_unique s"
  proof -
    have "step_evolves q (moved_step to ts q)"
      if "q \<in> set (ex_steps s)" "st_id q = stepId \<and> st_organizationId q = org" for q
    proof -
      have "q = t" using that t \<open>keys_unique s\<close> by (auto simp: keys_unique_def intro: unique_key)
      with t show ?thesis by (auto simp: step_evolves_def)
    qed
    then show ?thesis by (simp add: s' grows_update_where)
  qed
  ultimately show "history s s'"
    by (auto simp: history_def keys_unique_def s' ticked_tables [OF ticked])
qed

lemma history_link: "relates history (update_rows ex_approvals ex_approvals_update ap_organizationId tr P f)"
  by (rule relatesI) (erule link_effect, auto simp: history_def keys_unique_def)

lemma history_artifact: "relates history (insert_row ex_artifacts_update aa_organizationId artifact_checks a)"
  by (rule relatesI)
     (auto simp: artifacts.insert_Inr history_def keys_unique_def)

text \<open>With hooks that leave the history alone, every operation obeys it.\<close>

lemma history_statements:
  assumes "execution_hooks env"
  shows "execution_statements env history"
  using assms
  by (intro execution_statements.intro execution_moves.intro execution_quiet.intro
        execution_statements_axioms.intro execution_moves_axioms.intro execution_quiet_axioms.intro history.evolution_axioms)
     (auto intro: history_frame history_scope history_insertThread history_touch history_insertRun
        history_insertStep history_appendEvent history_move history_step history_link)

lemma history_evolution:
  assumes "execution_hooks env"
  shows "execution_evolution env history"
proof (intro execution_evolution.intro execution_evolution_axioms.intro)
  show "execution_statements env history" by (rule history_statements [OF assms])
  show "relates history (new_runtime_event env org e hash)" for org e hash
    by (rule execution_statements.new_runtime_event_R [OF history_statements [OF assms]])
       (rule history_artifact history_sequence history_appendEvent)+
qed

end
