(* ===== verification/ExecutionLedger.thy ===== *)
theory ExecutionLedger
  imports ExecutionHistory
begin

text \<open>
  The ledger of a run: its events are numbered 1, 2, ... without a gap, and the events its
  runtime emitted carry the runtime's own numbers 1, 2, ... up to the run's
  \<open>runtime_sequence\<close>, each exactly once.
\<close>

section \<open>The invariant\<close>

definition run_key :: "run_row \<Rightarrow> string \<times> string \<times> string \<times> nat" where
  "run_key r = (rn_id r, rn_organizationId r, rn_threadId r, rn_runtimeSequence r)"

definition events_of :: "string \<Rightarrow> event_row list \<Rightarrow> event_row list" where
  "events_of i evs = filter (\<lambda>e. ae_runId e = i) evs"

definition ledger_rows :: "(string \<times> string \<times> string \<times> nat) list \<Rightarrow> event_row list \<Rightarrow> bool" where
  "ledger_rows keys evs \<longleftrightarrow>
     distinct (map fst keys) \<and> distinct (map ae_id evs) \<and>
     (\<forall>e \<in> set evs. \<exists>n. (ae_runId e, ae_organizationId e, ae_threadId e, n) \<in> set keys) \<and>
     (\<forall>(i, org, t, n) \<in> set keys.
        map ae_sequence (events_of i evs) = [1..<Suc (length (events_of i evs))] \<and>
        List.map_filter ae_runtimeSequence (events_of i evs) = [1..<Suc n])"

definition ledger :: "'z exec_db_scheme \<Rightarrow> bool" where
  "ledger s \<longleftrightarrow> ledger_rows (map run_key (ex_runs s)) (ex_events s)"

definition ledger_kept :: "'z exec_db_scheme \<Rightarrow> 'z exec_db_scheme \<Rightarrow> bool" where
  "ledger_kept s s' \<longleftrightarrow> (ledger s \<longrightarrow> ledger s')"

lemma events_of_append [simp]:
  "events_of i (evs @ [e]) = events_of i evs @ (if ae_runId e = i then [e] else [])"
  by (simp add: events_of_def)

lemma map_filter_snoc [simp]:
  "List.map_filter f (xs @ [x]) = List.map_filter f xs @ (case f x of None \<Rightarrow> [] | Some y \<Rightarrow> [y])"
  by (simp add: List.map_filter_def split: option.splits)

lemma ledger_key_unique:
  "ledger_rows keys evs \<Longrightarrow> (i, a) \<in> set keys \<Longrightarrow> (i, b) \<in> set keys \<Longrightarrow> a = b"
  by (auto simp: ledger_rows_def dest: eq_key_imp_eq_value)

lemma ledger_add_run:
  assumes "ledger_rows keys evs" and "i \<notin> fst ` set keys"
  shows "ledger_rows (keys @ [(i, org, t, 0)]) evs"
proof -
  have "events_of i evs = []"
    using assms by (force simp: ledger_rows_def events_of_def filter_empty_conv)
  then show ?thesis
    using assms by (auto simp: ledger_rows_def List.map_filter_def)
qed

lemma ledger_visible:
  assumes "ledger_rows keys evs" "(i, org, t, n) \<in> set keys" "sees sc org"
  shows "filter (\<lambda>e. sees sc (ae_organizationId e) \<and> ae_runId e = i) evs = events_of i evs"
proof -
  have "sees sc (ae_organizationId e)" if e: "e \<in> set evs" "ae_runId e = i" for e
  proof -
    from assms(1) e obtain m where "(i, ae_organizationId e, ae_threadId e, m) \<in> set keys"
      unfolding ledger_rows_def by blast
    from ledger_key_unique [OF assms(1) this assms(2)] assms(3) show ?thesis by simp
  qed
  then show ?thesis unfolding events_of_def by (auto intro: filter_cong)
qed

lemma ledger_next:
  assumes "ledger_rows keys evs" "(i, org, t, n) \<in> set keys" "sees sc org"
  shows "next_sequence (map ae_sequence
      (filter (\<lambda>e. sees sc (ae_organizationId e) \<and> ae_runId e = i) evs)) = Suc (length (events_of i evs))"
proof -
  have "map ae_sequence (events_of i evs) = [1..<Suc (length (events_of i evs))]"
    using assms(1,2) unfolding ledger_rows_def by blast
  then show ?thesis
    unfolding ledger_visible [OF assms] by (simp only: next_sequence_upt)
qed

lemma ledger_add_event:
  assumes rows: "ledger_rows keys evs" and key: "(i, org, t, n) \<in> set keys"
    and e: "ae_runId e = i" "ae_organizationId e = org" "ae_threadId e = t" "ae_id e \<notin> ae_id ` set evs"
      "ae_sequence e = Suc (length (events_of i evs))" "ae_runtimeSequence e = None"
  shows "ledger_rows keys (evs @ [e])"
  using rows key e unfolding ledger_rows_def by (auto split: if_splits)

lemma ledger_add_runtime_event:
  assumes rows: "ledger_rows keys evs" and key: "(i, org, t, n) \<in> set keys"
    and e: "ae_runId e = i" "ae_organizationId e = org" "ae_threadId e = t" "ae_id e \<notin> ae_id ` set evs"
      "ae_sequence e = Suc (length (events_of i evs))" "ae_runtimeSequence e = Some (Suc n)"
    and keys': "keys' = map (\<lambda>k. if fst k = i then (i, org, t, Suc n) else k) keys"
  shows "ledger_rows keys' (evs @ [e])"
proof -
  have fst': "map fst keys' = map fst keys" by (simp add: keys')
  have other: "k \<in> set keys' \<longleftrightarrow> k \<in> set keys" if "fst k \<noteq> i" for k
    using that by (auto simp: keys')
  have new: "(i, org, t, Suc n) \<in> set keys'" using key by (force simp: keys')
  have only: "k = (i, org, t, Suc n)" if "k \<in> set keys'" "fst k = i" for k
    using that by (auto simp: keys')
  have owned: "\<exists>m. (ae_runId x, ae_organizationId x, ae_threadId x, m) \<in> set keys'"
    if x: "x \<in> set (evs @ [e])" for x
  proof (cases "ae_runId x = i")
    case True
    have "(ae_organizationId x, ae_threadId x) = (org, t)"
    proof (cases "x = e")
      case False
      with x rows obtain m where "(i, ae_organizationId x, ae_threadId x, m) \<in> set keys"
        using True unfolding ledger_rows_def by auto
      from ledger_key_unique [OF rows this key] show ?thesis by simp
    qed (simp add: e)
    with True new show ?thesis by auto
  next
    case False
    with x e have "x \<in> set evs" by auto
    with rows obtain m where "(ae_runId x, ae_organizationId x, ae_threadId x, m) \<in> set keys"
      unfolding ledger_rows_def by blast
    with False other show ?thesis by (metis fst_conv)
  qed
  have numbers: "case k of (j, org', t', m) \<Rightarrow>
      map ae_sequence (events_of j (evs @ [e])) = [1..<Suc (length (events_of j (evs @ [e])))] \<and>
      List.map_filter ae_runtimeSequence (events_of j (evs @ [e])) = [1..<Suc m]"
    if k: "k \<in> set keys'" for k
  proof (cases "fst k = i")
    case True
    with only k have "k = (i, org, t, Suc n)" by blast
    moreover have "map ae_sequence (events_of i evs) = [1..<Suc (length (events_of i evs))]"
      "List.map_filter ae_runtimeSequence (events_of i evs) = [1..<Suc n]"
      using rows key unfolding ledger_rows_def by blast+
    ultimately show ?thesis using e by simp
  next
    case False
    with k other have "k \<in> set keys" by blast
    with rows False e show ?thesis unfolding ledger_rows_def by (cases k) auto
  qed
  show ?thesis
    unfolding ledger_rows_def fst'
    using rows e(4) owned numbers by (auto simp: ledger_rows_def)
qed

section \<open>Statements that leave the ledger alone\<close>

definition keeps_ledger :: "'z exec_db_scheme \<Rightarrow> 'z exec_db_scheme \<Rightarrow> bool" where
  "keeps_ledger s s' \<longleftrightarrow>
     map run_key (ex_runs s') = map run_key (ex_runs s) \<and> ex_events s' = ex_events s \<and>
     ss_scope s' = ss_scope s"

interpretation keeps: evolution keeps_ledger
  by unfold_locales (auto simp: keeps_ledger_def)

lemma keeps_ledger_kept: "keeps_ledger s s' \<Longrightarrow> ledger_kept s s'"
  by (simp add: keeps_ledger_def ledger_kept_def ledger_def)

lemma keeps_frame: "exec_frame s s' \<Longrightarrow> keeps_ledger s s'"
  by (simp add: keeps_ledger_def exec_frame_def)

lemma keeps_insertStep: "relates keeps_ledger (insertStep scp kind title st detail given)"
  by (rule relatesI) (erule insertStep_effect, auto simp: keeps_ledger_def ticked_tables)

lemma keeps_step: "relates keeps_ledger (transitionStep org stepId to)"
  by (rule relatesI) (erule transitionStep_effect, auto simp: keeps_ledger_def ticked_tables)

lemma run_key_moved [simp]: "run_key (moved_run to reason ts r) = run_key r"
  by (simp add: run_key_def)

lemma keeps_move: "relates keeps_ledger (move_run org runId to reason)"
  by (rule relatesI)
     (erule move_run_effect, auto simp: keeps_ledger_def ticked_tables update_where_def)

lemma keeps_artifact: "relates keeps_ledger (insert_row ex_artifacts_update aa_organizationId artifact_checks a)"
  by (rule relatesI) (auto simp: artifacts.insert_Inr keeps_ledger_def)

lemma keeps_threads:
  "relates keeps_ledger (insertThread org e a c t)" "relates keeps_ledger (touch_thread threadId)"
  by (rule relatesI, erule insertThread_effect touch_thread_effect,
      auto simp: keeps_ledger_def ticked_tables)+

lemma keeps_link: "relates keeps_ledger (update_rows ex_approvals ex_approvals_update ap_organizationId tr P f)"
  by (rule relatesI) (erule link_effect, auto simp: keeps_ledger_def)

lemma keeps_quiet:
  assumes "execution_hooks env"
  shows "execution_moves env keeps_ledger"
  using assms
  by (intro execution_moves.intro execution_moves_axioms.intro execution_quiet.intro
        execution_quiet_axioms.intro keeps.evolution_axioms)
     (auto intro: keeps_frame keeps_insertStep keeps_step keeps_move)

section \<open>Statements that write it\<close>

interpretation ledger_kept: evolution ledger_kept
  by unfold_locales (auto simp: ledger_kept_def)

lemma relates_kept: "relates keeps_ledger m \<Longrightarrow> relates ledger_kept m"
  unfolding relates_def by (blast intro: keeps_ledger_kept)

lemma ledger_insertRun: "relates ledger_kept (insertRun org threadId e a mf task profile legacy)"
proof (rule relatesI)
  fix s i s'
  assume "insertRun org threadId e a mf task profile legacy s = Inr (i, s')"
  then obtain r u where "ticked s u" "run_checks s r = None" "rn_runtimeSequence r = 0"
    "s' = u\<lparr>ex_runs := ex_runs s @ [r]\<rparr>"
    by (rule insertRun_effect)
  then show "ledger_kept s s'"
    by (auto simp: ledger_kept_def ledger_def ticked_tables run_key_def run_checks_def image_image
        intro!: ledger_add_run)
qed

lemma ledger_event: "relates ledger_kept (appendEvent env scp type CONTROL_PLANE actorId payload stepId None)"
proof (rule relatesI)
  fix s i s'
  assume "appendEvent env scp type CONTROL_PLANE actorId payload stepId None s = Inr (i, s')"
  then obtain e u sc where ticked: "ticked s u" and sc: "sees sc (rs_organizationId scp)"
    and checks: "event_checks s e = None" and s': "s' = u\<lparr>ex_events := ex_events s @ [e]\<rparr>"
    and e: "ae_organizationId e = rs_organizationId scp" "ae_threadId e = rs_threadId scp"
      "ae_runId e = rs_runId scp" "ae_runtimeSequence e = None"
    and sequence: "ae_sequence e = next_sequence (map ae_sequence
        (filter (\<lambda>e. sees sc (ae_organizationId e) \<and> ae_runId e = rs_runId scp) (ex_events s)))"
    by (rule appendEvent_effect) simp
  from checks e obtain n where key:
    "(rs_runId scp, rs_organizationId scp, rs_threadId scp, n) \<in> set (map run_key (ex_runs s))"
    by (force simp: event_checks_def run_scope_check_def run_key_def)
  show "ledger_kept s s'"
    using checks e sequence
    by (auto simp: ledger_kept_def ledger_def s' ticked_tables [OF ticked] event_checks_def
        ledger_next [OF _ key sc] intro: ledger_add_event [OF _ key])
qed

lemma ledger_kept_scope: "ledger_kept (s\<lparr>ss_scope := a\<rparr>) s' \<Longrightarrow> ledger_kept s (s'\<lparr>ss_scope := b\<rparr>)"
  by (simp add: ledger_kept_def ledger_def)

lemma ledger_statements:
  assumes "execution_hooks env"
  shows "execution_statements env ledger_kept"
  using assms
  by (intro execution_statements.intro execution_moves.intro execution_quiet.intro
        execution_statements_axioms.intro execution_moves_axioms.intro execution_quiet_axioms.intro ledger_kept.evolution_axioms)
     (auto intro: relates_kept keeps_ledger_kept keeps_frame keeps_insertStep keeps_step keeps_move
        keeps_threads keeps_link ledger_insertRun ledger_event ledger_kept_scope)

section \<open>A runtime event\<close>

lemma accept_event_Inr:
  "accept_event run e s = Inr (next', s') \<longleftrightarrow> s' = s \<and>
     rn_threadId run = ev_threadId e \<and> rn_employeeId run = co_employeeId (ev_correlation e) \<and>
     rn_agentId run = co_agentId (ev_correlation e) \<and> ev_sequence e = rn_runtimeSequence run + 1 \<and>
     decideRuntimeEvent (rn_status run) (rn_statusReason run) (ev_type e) = Accepted next'"
  by (auto simp: accept_event_def andThen_Inr split: event_decision.splits)

lemma runRow_state: "runRow org i s = Inr (r, s') \<Longrightarrow> s' = s"
  by (simp add: runRow_Inr)

lemma accept_event_state: "accept_event run e s = Inr (n, s') \<Longrightarrow> s' = s"
  by (simp add: accept_event_Inr)

text \<open>
  The two writes that number an event: the run's counter, then, with the ledger untouched in
  between, the event's own row.
\<close>

lemma ledger_numbered:
  assumes ledger: "ledger s" and run: "run \<in> set (ex_runs s)" "rn_id run = i" "rn_organizationId run = org"
    and scope: "ss_scope s = Some sc" "sees sc org"
    and sequence: "set_runtime_sequence org i (Suc (rn_runtimeSequence run)) s = Inr (x, s1)"
    and between: "keeps_ledger s1 s2"
    and event: "appendEvent env (run_scope_of org run) type source actorId payload stepId
        (Some rt) s2 = Inr (j, s3)" "rt_runtimeSequence rt = Suc (rn_runtimeSequence run)"
  shows "ledger s3"
proof -
  let ?n = "rn_runtimeSequence run"
  let ?keys = "map run_key (ex_runs s)"
  let ?keys' = "map (\<lambda>k. if fst k = i then (i, org, rn_threadId run, Suc ?n) else k) ?keys"
  have rows: "ledger_rows ?keys (ex_events s)" using ledger by (simp add: ledger_def)
  have key: "(i, org, rn_threadId run, ?n) \<in> set ?keys" using run by (force simp: run_key_def)
  have only: "run_key r = (i, org, rn_threadId run, ?n)" if "r \<in> set (ex_runs s)" "rn_id r = i" for r
  proof -
    have "run_key r \<in> set ?keys" using that(1) by simp
    then have "(i, snd (run_key r)) \<in> set ?keys" using that(2) by (simp add: run_key_def)
    from ledger_key_unique [OF rows this key] show ?thesis using that(2) by (simp add: run_key_def)
  qed
  from event(1) obtain e u sc2 where ticked: "ticked s2 u" and sc2: "ss_scope s2 = Some sc2" "sees sc2 org"
    and checks: "event_checks s2 e = None" and s3: "s3 = u\<lparr>ex_events := ex_events s2 @ [e]\<rparr>"
    and e: "ae_organizationId e = org" "ae_threadId e = rn_threadId run" "ae_runId e = i"
      "ae_runtimeSequence e = Some (Suc ?n)"
    and number: "ae_sequence e = next_sequence (map ae_sequence
        (filter (\<lambda>e. sees sc2 (ae_organizationId e) \<and> ae_runId e = i) (ex_events s2)))"
    by (rule appendEvent_effect) (simp add: run_scope_of_def run event(2))
  from sequence scope obtain u' ts where s1: "ticked s u'"
    "s1 = u'\<lparr>ex_runs := update_where
        (\<lambda>r. sees sc (rn_organizationId r) \<and> rn_id r = i \<and> rn_organizationId r = org)
        (\<lambda>r. r\<lparr>rn_runtimeSequence := Suc ?n, rn_updatedAt := ts\<rparr>) (ex_runs s)\<rparr>"
    by (elim set_runtime_sequence_effect) auto
  have "map run_key (ex_runs s1) = ?keys'"
    using only scope by (force simp: s1 update_where_def run_key_def)
  with between s1 have after: "map run_key (ex_runs s2) = ?keys'" "ex_events s2 = ex_events s"
    by (auto simp: keeps_ledger_def ticked_tables)
  have "ledger_rows ?keys' (ex_events s @ [e])"
    using checks e number
    by (intro ledger_add_runtime_event [OF rows key])
       (auto simp: event_checks_def after ledger_next [OF rows key sc2(2)])
  then show ?thesis
    by (simp add: s3 ledger_def ticked_tables [OF ticked] after)
qed

text \<open>A new runtime event, statement by statement.\<close>

lemma new_runtime_event_steps:
  assumes "new_runtime_event env org e hash s = Inr (x, s')"
  obtains run next' s1 s2 s3 s4 i sc row where
    "runRow org (ev_runId e) s = Inr (run, s)" "accept_event run e s = Inr (next', s)"
    "apply_event env org run e s = Inr ((), s1)"
    "set_runtime_sequence org (rn_id run) (ev_sequence e) s1 = Inr ((), s2)"
    "whenever (next' \<noteq> rn_status run)
      (transitionRun env (run_scope_of org run) next' (status_reason (ev_payload e))) s2 = Inr ((), s3)"
    "appendEvent env (run_scope_of org run) (RT (ev_type e)) RUNTIME (Some RUNTIME_ACTOR)
        (history_payload (ev_payload e)) (ev_stepId e)
        (Some \<lparr>rt_id = ev_eventId e, rt_runtimeSequence = ev_sequence e,
           rt_occurredAt = ev_occurredAt e, rt_payloadHash = hash\<rparr>) s3 = Inr (i, s4)"
    "sync_outcome env (run_scope_of org run) (ev_payload e) s4 = Inr ((), s')"
    "ss_scope s' = Some sc"
    "find (\<lambda>x. sees sc (ae_organizationId x) \<and> ae_id x = i) (ex_events s') = Some row"
    "x = mapEvent row"
proof -
  note steps = assms [unfolded new_runtime_event_def Let_def andThen_Inr found_Inr select_one_Inr ret_Inr]
  show ?thesis
    using steps
    apply (elim exE conjE)
    apply (frule runRow_state, frule accept_event_state, clarsimp)
    apply (rule that)
             apply (assumption | rule refl | erule sym)+
    done
qed

lemma ledger_runtime_event:
  assumes hooks: "execution_hooks env"
  shows "relates ledger_kept (new_runtime_event env org e hash)"
proof (rule relatesI)
  fix s x s'
  assume "new_runtime_event env org e hash s = Inr (x, s')"
  then obtain run next' s1 s2 s3 s4 i where
    run: "runRow org (ev_runId e) s = Inr (run, s)"
    and accept: "accept_event run e s = Inr (next', s)"
    and s1: "apply_event env org run e s = Inr ((), s1)"
    and s2: "set_runtime_sequence org (rn_id run) (ev_sequence e) s1 = Inr ((), s2)"
    and s3: "whenever (next' \<noteq> rn_status run)
      (transitionRun env (run_scope_of org run) next' (status_reason (ev_payload e))) s2 = Inr ((), s3)"
    and s4: "appendEvent env (run_scope_of org run) (RT (ev_type e)) RUNTIME (Some RUNTIME_ACTOR)
        (history_payload (ev_payload e)) (ev_stepId e)
        (Some \<lparr>rt_id = ev_eventId e, rt_runtimeSequence = ev_sequence e,
           rt_occurredAt = ev_occurredAt e, rt_payloadHash = hash\<rparr>) s3 = Inr (i, s4)"
    and s5: "sync_outcome env (run_scope_of org run) (ev_payload e) s4 = Inr ((), s')"
    by (rule new_runtime_event_steps)
  note quiet = keeps_quiet [OF hooks]
  have k1: "keeps_ledger s s1"
    using execution_quiet.apply_event_R [OF execution_moves.axioms(1) [OF quiet] keeps_artifact] s1 by (rule relatesD)
  have k3: "keeps_ledger s2 s3"
    using keeps.relates_whenever [OF execution_moves.transitionRun_R [OF quiet]] s3 by (rule relatesD)
  have k5: "keeps_ledger s4 s'"
    using execution_quiet.sync_outcome_R [OF execution_moves.axioms(1) [OF quiet]] s5 by (rule relatesD)
  from run obtain sc where sc: "ss_scope s = Some sc" "sees sc org" and found: "run \<in> set (ex_runs s)"
    "rn_id run = ev_runId e" "rn_organizationId run = org"
    by (auto simp: runRow_Inr dest!: find_Some_set)
  from found k1 obtain r1 where r1: "r1 \<in> set (ex_runs s1)" "run_key r1 = run_key run"
    unfolding keeps_ledger_def by (metis (no_types, lifting) image_iff list.set_map)
  have scope: "run_scope_of org r1 = run_scope_of org run"
    using r1(2) by (simp add: run_key_def run_scope_of_def)
  show "ledger_kept s s'"
    unfolding ledger_kept_def
  proof
    assume "ledger s"
    with k1 have "ledger s1" by (simp add: keeps_ledger_def ledger_def)
    then have "ledger s4"
    proof (rule ledger_numbered)
      show "r1 \<in> set (ex_runs s1)" "rn_id r1 = rn_id run" "rn_organizationId r1 = org"
        "ss_scope s1 = Some sc" "sees sc org"
        using r1 found sc k1 by (auto simp: run_key_def keeps_ledger_def)
      show "set_runtime_sequence org (rn_id run) (Suc (rn_runtimeSequence r1)) s1 = Inr ((), s2)"
        using s2 accept r1(2) by (simp add: accept_event_Inr run_key_def)
      show "keeps_ledger s2 s3" by (rule k3)
      show "appendEvent env (run_scope_of org r1) (RT (ev_type e)) RUNTIME (Some RUNTIME_ACTOR)
        (history_payload (ev_payload e)) (ev_stepId e)
        (Some \<lparr>rt_id = ev_eventId e, rt_runtimeSequence = ev_sequence e,
           rt_occurredAt = ev_occurredAt e, rt_payloadHash = hash\<rparr>) s3 = Inr (i, s4)"
        using s4 by (simp only: scope)
    qed (use accept r1(2) in \<open>simp add: accept_event_Inr run_key_def\<close>)
    with k5 show "ledger s'" by (simp add: keeps_ledger_def ledger_def)
  qed
qed

lemma ledger_evolution:
  assumes "execution_hooks env"
  shows "execution_evolution env ledger_kept"
  using ledger_statements [OF assms] ledger_runtime_event [OF assms]
  by (intro execution_evolution.intro execution_evolution_axioms.intro)

end
