(* ===== verification/ExecutionIntegrity.thy ===== *)
theory ExecutionIntegrity
  imports ExecutionLedger
begin

text \<open>
  Two more facts proved statement by statement: a transaction of one organization leaves the
  rows of every other as they are, and every state keeps at most one active run per thread,
  each run owned like its thread.
\<close>

section \<open>Tenant isolation\<close>

definition foreign_rows ::
  "string \<Rightarrow> 'z exec_db_scheme \<Rightarrow>
   thread_row list \<times> run_row list \<times> step_row list \<times> event_row list \<times> artifact_row list \<times> approval_row list" where
  "foreign_rows t s =
     (filter (\<lambda>r. th_organizationId r \<noteq> t) (ex_threads s),
      filter (\<lambda>r. rn_organizationId r \<noteq> t) (ex_runs s),
      filter (\<lambda>r. st_organizationId r \<noteq> t) (ex_steps s),
      filter (\<lambda>r. ae_organizationId r \<noteq> t) (ex_events s),
      filter (\<lambda>r. aa_organizationId r \<noteq> t) (ex_artifacts s),
      filter (\<lambda>r. ap_organizationId r \<noteq> t) (ex_approvals s))"

definition isolates :: "string \<Rightarrow> 'z exec_db_scheme \<Rightarrow> 'z exec_db_scheme \<Rightarrow> bool" where
  "isolates t s s' \<longleftrightarrow>
     (ss_scope s = Some (Tenant t) \<longrightarrow>
        ss_scope s' = Some (Tenant t) \<and> foreign_rows t s' = foreign_rows t s)"

interpretation isolates: evolution "isolates t"
  by unfold_locales (auto simp: isolates_def)

lemma isolates_frame: "exec_frame s s' \<Longrightarrow> isolates t s s'"
  by (simp add: exec_frame_def isolates_def foreign_rows_def)

lemma isolates_insertThread: "relates (isolates t) (insertThread org e a c title)"
  by (rule relatesI) (erule insertThread_effect, auto simp: isolates_def foreign_rows_def ticked_tables)

lemma isolates_insertRun: "relates (isolates t) (insertRun org threadId e a mf task profile legacy)"
  by (rule relatesI) (erule insertRun_effect, auto simp: isolates_def foreign_rows_def ticked_tables)

lemma isolates_insertStep: "relates (isolates t) (insertStep scp kind title st detail given)"
  by (rule relatesI) (erule insertStep_effect, auto simp: isolates_def foreign_rows_def ticked_tables)

lemma isolates_event: "relates (isolates t) (appendEvent env scp type source a p st rt)"
  by (rule relatesI) (erule appendEvent_effect, auto simp: isolates_def foreign_rows_def ticked_tables)

lemma isolates_artifact:
  "relates (isolates t) (insert_row ex_artifacts_update aa_organizationId artifact_checks a)"
  by (rule relatesI) (auto simp: artifacts.insert_Inr isolates_def foreign_rows_def)

lemma isolates_touch: "relates (isolates t) (touch_thread threadId)"
  by (rule relatesI)
     (erule touch_thread_effect, auto simp: isolates_def foreign_rows_def ticked_tables
        intro!: filter_update_where_other)

lemma isolates_move: "relates (isolates t) (move_run org runId to reason)"
proof (rule relatesI)
  fix s run s'
  assume "move_run org runId to reason s = Inr (run, s')"
  then obtain u sc ts where ticked: "ticked s u" and sc: "ss_scope s = Some sc" "sees sc org"
    and s': "s' = u\<lparr>ex_runs := update_where (\<lambda>r. rn_id r = runId \<and> rn_organizationId r = org)
        (moved_run to reason ts) (ex_runs s)\<rparr>"
    by (rule move_run_effect)
  have "filter (\<lambda>r. rn_organizationId r \<noteq> t) (ex_runs s') = filter (\<lambda>r. rn_organizationId r \<noteq> t) (ex_runs s)"
    if "org = t"
    using that by (auto simp: s' intro!: filter_update_where_other)
  then show "isolates t s s'"
    using sc by (auto simp: isolates_def foreign_rows_def s' ticked_tables [OF ticked])
qed

lemma isolates_step: "relates (isolates t) (transitionStep org stepId to)"
proof (rule relatesI)
  fix s x s'
  assume "transitionStep org stepId to s = Inr (x, s')"
  then obtain u sc ts where ticked: "ticked s u" and sc: "ss_scope s = Some sc" "sees sc org"
    and s': "s' = u\<lparr>ex_steps := update_where (\<lambda>t. st_id t = stepId \<and> st_organizationId t = org)
        (moved_step to ts) (ex_steps s)\<rparr>"
    by (rule transitionStep_effect)
  have "filter (\<lambda>r. st_organizationId r \<noteq> t) (ex_steps s') = filter (\<lambda>r. st_organizationId r \<noteq> t) (ex_steps s)"
    if "org = t"
    using that by (auto simp: s' intro!: filter_update_where_other)
  then show "isolates t s s'"
    using sc by (auto simp: isolates_def foreign_rows_def s' ticked_tables [OF ticked])
qed

lemma isolates_sequence: "relates (isolates t) (set_runtime_sequence org runId n)"
  by (rule relatesI)
     (erule set_runtime_sequence_effect, auto simp: isolates_def foreign_rows_def ticked_tables
        intro!: filter_update_where_other)

lemma isolates_link:
  "relates (isolates t) (update_rows ex_approvals ex_approvals_update ap_organizationId tr P f)"
  by (rule relatesI)
     (erule link_effect, auto simp: isolates_def foreign_rows_def intro!: filter_update_where_other)

lemma isolates_outside: "ss_scope s = None \<Longrightarrow> isolates t s s'"
  by (simp add: isolates_def)

lemma isolates_statements:
  assumes "execution_hooks env"
  shows "execution_statements env (isolates t)"
  using assms
  by (intro execution_statements.intro execution_moves.intro execution_quiet.intro
        execution_statements_axioms.intro execution_moves_axioms.intro execution_quiet_axioms.intro isolates.evolution_axioms)
     (auto intro: isolates_frame isolates_insertThread isolates_touch isolates_insertRun
        isolates_insertStep isolates_event isolates_move isolates_step isolates_link
        isolates_outside)

lemma isolates_evolution:
  assumes "execution_hooks env"
  shows "execution_evolution env (isolates t)"
proof (intro execution_evolution.intro execution_evolution_axioms.intro)
  show "execution_statements env (isolates t)" by (rule isolates_statements [OF assms])
  show "relates (isolates t) (new_runtime_event env org e hash)" for org e hash
    by (rule execution_statements.new_runtime_event_R [OF isolates_statements [OF assms]])
       (rule isolates_artifact isolates_sequence isolates_event)+
qed

text \<open>From inside a tenant scope to the operation that opens it.\<close>

lemma tenant_isolates:
  assumes "relates (isolates org) (tenant org m)" and "tenant org m s = Inr (x, s')"
    and "ss_scope s = None"
  shows "foreign_rows org s' = foreign_rows org s"
proof -
  from assms(2,3) obtain u where u: "m (s\<lparr>ss_scope := Some (Tenant org)\<rparr>) = Inr (x, u)"
    "s' = u\<lparr>ss_scope := None\<rparr>" "org \<noteq> []"
    by (auto simp: tenant_def scoped_def split: if_splits sum.splits)
  then have "tenant org m (s\<lparr>ss_scope := Some (Tenant org)\<rparr>) = Inr (x, u)"
    by (simp add: tenant_def scoped_def)
  with assms(1) have "isolates org (s\<lparr>ss_scope := Some (Tenant org)\<rparr>) u"
    by (rule relatesD)
  with u show ?thesis by (simp add: isolates_def foreign_rows_def)
qed

section \<open>One active run per thread\<close>

definition integrity :: "'z exec_db_scheme \<Rightarrow> bool" where
  "integrity s \<longleftrightarrow>
     distinct (map rn_id (ex_runs s)) \<and>
     (\<forall>r \<in> set (ex_runs s). \<forall>q \<in> set (ex_runs s).
        active_run r \<longrightarrow> active_run q \<longrightarrow> rn_threadId r = rn_threadId q \<longrightarrow>
        rn_organizationId r = rn_organizationId q \<longrightarrow> r = q) \<and>
     (\<forall>r \<in> set (ex_runs s). \<exists>t \<in> set (ex_threads s).
        th_id t = rn_threadId r \<and> th_organizationId t = rn_organizationId r \<and>
        th_employeeId t = rn_employeeId r \<and> th_agentId t = rn_agentId r)"

definition integrity_kept :: "'z exec_db_scheme \<Rightarrow> 'z exec_db_scheme \<Rightarrow> bool" where
  "integrity_kept s s' \<longleftrightarrow> (integrity s \<longrightarrow> integrity s')"

interpretation integrity_kept: evolution integrity_kept
  by unfold_locales (auto simp: integrity_kept_def)

lemma integrity_same:
  "ex_runs s' = ex_runs s \<Longrightarrow> ex_threads s' = ex_threads s \<Longrightarrow> integrity_kept s s'"
  by (simp add: integrity_kept_def integrity_def)

lemma integrity_insertThread: "relates integrity_kept (insertThread org e a c title)"
  by (rule relatesI)
     (erule insertThread_effect, auto simp: integrity_kept_def integrity_def ticked_tables)

lemma integrity_touch: "relates integrity_kept (touch_thread threadId)"
proof (rule relatesI)
  fix s x s'
  assume "touch_thread threadId s = Inr (x, s')"
  then obtain u sc ts where ticked: "ticked s u"
    and s': "s' = u\<lparr>ex_threads := update_where (\<lambda>t. sees sc (th_organizationId t) \<and> th_id t = threadId)
        (\<lambda>t. t\<lparr>th_updatedAt := ts\<rparr>) (ex_threads s)\<rparr>"
    by (rule touch_thread_effect)
  have "\<exists>t' \<in> set (ex_threads s'). th_id t' = th_id t \<and> th_organizationId t' = th_organizationId t \<and>
      th_employeeId t' = th_employeeId t \<and> th_agentId t' = th_agentId t" if "t \<in> set (ex_threads s)" for t
    using that
    by (intro bexI [of _ "if sees sc (th_organizationId t) \<and> th_id t = threadId
          then t\<lparr>th_updatedAt := ts\<rparr> else t"])
       (auto simp: s' set_update_where)
  then show "integrity_kept s s'"
    unfolding integrity_kept_def integrity_def
    by (auto simp: s' ticked_tables [OF ticked]) (metis (no_types, lifting))
qed

lemma integrity_insertRun: "relates integrity_kept (insertRun org threadId e a mf task profile legacy)"
proof (rule relatesI)
  fix s i s'
  assume "insertRun org threadId e a mf task profile legacy s = Inr (i, s')"
  then obtain r u where ticked: "ticked s u" and checks: "run_checks s r = None"
    and s': "s' = u\<lparr>ex_runs := ex_runs s @ [r]\<rparr>" and "rn_status r = QUEUED"
    by (rule insertRun_effect)
  then have "active_run r" by (simp add: active_run_def activeRunStatuses_def)
  with checks show "integrity_kept s s'"
    unfolding integrity_kept_def integrity_def
    by (auto simp: s' ticked_tables [OF ticked] run_checks_def)
qed

text \<open>An UPDATE of the run \<open>i\<close> that the unique index accepted.\<close>

lemma integrity_update_run:
  assumes "ex_threads s' = ex_threads s"
    and s': "ex_runs s' = update_where P f (ex_runs s)"
    and P: "\<And>r. P r \<Longrightarrow> rn_id r = i"
    and f: "\<And>r. r \<in> set (ex_runs s) \<Longrightarrow> P r \<Longrightarrow> run_update_checks s r (f r) = None"
  shows "integrity_kept s s'"
  unfolding integrity_kept_def
proof
  assume s: "integrity s"
  have same: "same_run_identity r (f r)" if "r \<in> set (ex_runs s)" "P r" for r
    using f [OF that] by (simp add: run_update_checks_def)
  have ids: "map rn_id (ex_runs s') = map rn_id (ex_runs s)"
    using same by (auto simp: s' update_where_def same_run_identity_def)
  have member: "r' \<in> set (ex_runs s) \<and> \<not> P r' \<or> (\<exists>r \<in> set (ex_runs s). P r \<and> r' = f r)"
    if "r' \<in> set (ex_runs s')" for r'
    using that by (auto simp: s' set_update_where split: if_splits)
  have hit: "r = q" if "r \<in> set (ex_runs s)" "q \<in> set (ex_runs s)" "P r" "P q" for r q
    using that P s by (metis integrity_def unique_key)
  have alone: "q = r" if "r \<in> set (ex_runs s)" "P r" "active_run (f r)" "q \<in> set (ex_runs s)" "active_run q"
    "rn_threadId q = rn_threadId (f r)" "rn_organizationId q = rn_organizationId (f r)" for r q
  proof -
    from f [OF that(1,2)] that have "rn_id q = rn_id r"
      by (auto simp: run_update_checks_def)
    with that s show ?thesis by (metis integrity_def unique_key)
  qed
  have "r' = q'" if "r' \<in> set (ex_runs s')" "q' \<in> set (ex_runs s')" "active_run r'" "active_run q'"
    "rn_threadId r' = rn_threadId q'" "rn_organizationId r' = rn_organizationId q'" for r' q'
    using member [OF that(1)] member [OF that(2)] that(3-6) s hit alone
    unfolding integrity_def by metis
  moreover have "\<exists>t \<in> set (ex_threads s'). th_id t = rn_threadId r' \<and>
      th_organizationId t = rn_organizationId r' \<and> th_employeeId t = rn_employeeId r' \<and>
      th_agentId t = rn_agentId r'" if "r' \<in> set (ex_runs s')" for r'
    using member [OF that] s same assms(1) unfolding integrity_def same_run_identity_def by metis
  ultimately show "integrity s'"
    using s unfolding integrity_def ids by blast
qed

lemma integrity_move: "relates integrity_kept (move_run org runId to reason)"
proof (rule relatesI)
  fix s run s'
  assume "move_run org runId to reason s = Inr (run, s')"
  then obtain u ts where ticked: "ticked s u"
    and s': "s' = u\<lparr>ex_runs := update_where (\<lambda>r. rn_id r = runId \<and> rn_organizationId r = org)
        (moved_run to reason ts) (ex_runs s)\<rparr>"
    and checks: "\<And>r. r \<in> set (ex_runs s) \<Longrightarrow> rn_id r = runId \<Longrightarrow> rn_organizationId r = org \<Longrightarrow>
       run_update_checks s r (moved_run to reason ts r) = None"
    by (rule move_run_effect) blast
  show "integrity_kept s s'"
    by (rule integrity_update_run [where P = "\<lambda>r. rn_id r = runId \<and> rn_organizationId r = org"
          and f = "moved_run to reason ts" and i = runId])
       (auto simp: s' ticked_tables [OF ticked] checks)
qed

lemma integrity_sequence: "relates integrity_kept (set_runtime_sequence org runId n)"
proof (rule relatesI)
  fix s x s'
  assume "set_runtime_sequence org runId n s = Inr (x, s')"
  then obtain u sc ts where ticked: "ticked s u"
    and s': "s' = u\<lparr>ex_runs := update_where
        (\<lambda>r. sees sc (rn_organizationId r) \<and> rn_id r = runId \<and> rn_organizationId r = org)
        (\<lambda>r. r\<lparr>rn_runtimeSequence := n, rn_updatedAt := ts\<rparr>) (ex_runs s)\<rparr>"
    and checks: "\<And>r. r \<in> set (ex_runs s) \<Longrightarrow> sees sc org \<Longrightarrow> rn_id r = runId \<Longrightarrow>
       rn_organizationId r = org \<Longrightarrow>
       run_update_checks s r (r\<lparr>rn_runtimeSequence := n, rn_updatedAt := ts\<rparr>) = None"
    by (rule set_runtime_sequence_effect) blast
  show "integrity_kept s s'"
    by (rule integrity_update_run [where
          P = "\<lambda>r. sees sc (rn_organizationId r) \<and> rn_id r = runId \<and> rn_organizationId r = org"
          and f = "\<lambda>r. r\<lparr>rn_runtimeSequence := n, rn_updatedAt := ts\<rparr>" and i = runId])
       (auto simp: s' ticked_tables [OF ticked] checks)
qed

lemma integrity_other:
  "relates integrity_kept (insertStep scp kind title st detail given)"
  "relates integrity_kept (appendEvent env scp type source actorId payload stepId rt)"
  "relates integrity_kept (transitionStep org i to)"
  "relates integrity_kept (insert_row ex_artifacts_update aa_organizationId artifact_checks a)"
  "relates integrity_kept (update_rows ex_approvals ex_approvals_update ap_organizationId tr P f)"
  by (rule relatesI, erule insertStep_effect, rule integrity_same, simp_all add: ticked_tables)
     (rule relatesI, erule appendEvent_effect, rule integrity_same, simp_all add: ticked_tables,
      rule relatesI, erule transitionStep_effect, rule integrity_same, simp_all add: ticked_tables,
      rule relatesI, rule integrity_same, auto simp: artifacts.insert_Inr,
      rule relatesI, erule link_effect, rule integrity_same, simp_all)

lemma integrity_frame: "exec_frame s s' \<Longrightarrow> integrity_kept s s'"
  by (auto simp: exec_frame_def intro: integrity_same)

lemma integrity_scope: "integrity_kept (s\<lparr>ss_scope := a\<rparr>) s' \<Longrightarrow> integrity_kept s (s'\<lparr>ss_scope := b\<rparr>)"
  by (simp add: integrity_kept_def integrity_def)

lemma integrity_statements:
  assumes "execution_hooks env"
  shows "execution_statements env integrity_kept"
  using assms
  by (intro execution_statements.intro execution_moves.intro execution_quiet.intro
        execution_statements_axioms.intro execution_moves_axioms.intro execution_quiet_axioms.intro integrity_kept.evolution_axioms)
     (auto intro: integrity_frame integrity_scope integrity_insertThread integrity_touch
        integrity_insertRun integrity_move integrity_other)

lemma integrity_evolution:
  assumes "execution_hooks env"
  shows "execution_evolution env integrity_kept"
proof (intro execution_evolution.intro execution_evolution_axioms.intro)
  show "execution_statements env integrity_kept" by (rule integrity_statements [OF assms])
  show "relates integrity_kept (new_runtime_event env org e hash)" for org e hash
    by (rule execution_statements.new_runtime_event_R [OF integrity_statements [OF assms]])
       (rule integrity_other integrity_sequence)+
qed

end
