(* ===== verification/ExecutionProperties.thy ===== *)
theory ExecutionProperties
  imports ExecutionIntegrity
begin

text \<open>
  The execution service as a transition system: one step per operation that writes, in any
  order and for any organization, and steps of the other components, which write outside the
  history of runs. What holds of every reachable state, and what each operation achieves.
\<close>

section \<open>Steps\<close>

text \<open>What the rest of the control plane may change between two operations of the service.\<close>

definition elsewhere :: "'z exec_db_scheme \<Rightarrow> 'z exec_db_scheme \<Rightarrow> bool" where
  "elsewhere s s' \<longleftrightarrow>
     ss_scope s' = ss_scope s \<and> ex_threads s' = ex_threads s \<and> ex_runs s' = ex_runs s \<and>
     ex_steps s' = ex_steps s \<and> ex_events s' = ex_events s \<and> ex_artifacts s' = ex_artifacts s"

inductive operation ::
  "'z exec_env \<Rightarrow> schemas \<Rightarrow> string \<Rightarrow> 'z exec_db_scheme \<Rightarrow> 'z exec_db_scheme \<Rightarrow> bool"
  for env :: "'z exec_env" and sch :: schemas where
  create: "createRun env inp s = Inr (r, s') \<Longrightarrow> operation env sch (ci_organizationId inp) s s'"
| legacy: "recordLegacyQaRun env q s = Inr (v, s') \<Longrightarrow> operation env sch (lq_organizationId q) s s'"
| decided: "onApprovalDecided env org a d actorId s = Inr (u, s') \<Longrightarrow> operation env sch org s s'"
| paused: "pauseForApproval env org i st apr s = Inr (u, s') \<Longrightarrow> operation env sch org s s'"
| cancelled: "cancelRun env org i reason by s = Inr (c, s') \<Longrightarrow> operation env sch org s s'"
| own_cancelled: "cancelOwnRun env actor i s = Inr (c, s') \<Longrightarrow>
    operation env sch (ac_organizationId actor) s s'"
| expired: "onApprovalExpired env org a s = Inr (u, s') \<Longrightarrow> operation env sch org s s'"
| ingested: "ingestRuntimeEvent env sch org w s = Inr (ev, s') \<Longrightarrow> operation env sch org s s'"

inductive_cases operationE: "operation env sch org s s'"

inductive reachable :: "'z exec_env \<Rightarrow> schemas \<Rightarrow> 'z exec_db_scheme \<Rightarrow> bool"
  for env :: "'z exec_env" and sch :: schemas where
  start: "ss_scope s = None \<Longrightarrow> ex_threads s = [] \<Longrightarrow> ex_runs s = [] \<Longrightarrow> ex_steps s = [] \<Longrightarrow>
    ex_events s = [] \<Longrightarrow> ex_artifacts s = [] \<Longrightarrow> reachable env sch s"
| operates: "reachable env sch s \<Longrightarrow> operation env sch org s s' \<Longrightarrow> reachable env sch s'"
| others: "reachable env sch s \<Longrightarrow> elsewhere s s' \<Longrightarrow> reachable env sch s'"

text \<open>What every statement obeys, every operation obeys.\<close>

lemma operation_evolves:
  assumes "execution_evolution env R" and "operation env sch org s s'"
  shows "R s s'"
  using assms(2)
  by (cases rule: operation.cases)
     (auto dest: relatesD [OF execution_statements.createRun_R [OF execution_evolution.axioms(1) [OF assms(1)]]]
       relatesD [OF execution_statements.recordLegacyQaRun_R [OF execution_evolution.axioms(1) [OF assms(1)]]]
       relatesD [OF execution_statements.onApprovalDecided_R [OF execution_evolution.axioms(1) [OF assms(1)]]]
       relatesD [OF execution_statements.pauseForApproval_R [OF execution_evolution.axioms(1) [OF assms(1)]]]
       relatesD [OF execution_statements.cancelRun_R [OF execution_evolution.axioms(1) [OF assms(1)]]]
       relatesD [OF execution_statements.cancelOwnRun_R [OF execution_evolution.axioms(1) [OF assms(1)]]]
       relatesD [OF execution_statements.onApprovalExpired_R [OF execution_evolution.axioms(1) [OF assms(1)]]]
       relatesD [OF execution_evolution.ingestRuntimeEvent_R [OF assms(1)]])

section \<open>Reachable states\<close>

definition sound :: "'z exec_db_scheme \<Rightarrow> bool" where
  "sound s \<longleftrightarrow> keys_unique s \<and> ledger s \<and> integrity s"

lemma sound_elsewhere: "elsewhere s s' \<Longrightarrow> sound s \<Longrightarrow> sound s'"
  by (simp add: elsewhere_def sound_def keys_unique_def ledger_def integrity_def)

lemma sound_operation:
  assumes hooks: "execution_hooks env" and op: "operation env sch org s s'" and s: "sound s"
  shows "sound s'"
  using operation_evolves [OF history_evolution [OF hooks] op]
    operation_evolves [OF ledger_evolution [OF hooks] op]
    operation_evolves [OF integrity_evolution [OF hooks] op] s
  by (simp add: sound_def history_def ledger_kept_def integrity_kept_def)

lemma reachable_sound:
  assumes "execution_hooks env"
  shows "reachable env sch s \<Longrightarrow> sound s"
proof (induction rule: reachable.induct)
  case (start s)
  then show ?case
    by (simp add: sound_def keys_unique_def ledger_def ledger_rows_def integrity_def)
next
  case (operates s org s')
  then show ?case using sound_operation [OF assms] by blast
next
  case (others s s')
  then show ?case using sound_elsewhere by blast
qed

text \<open>The service as \<open>new ExecutionService(db, loadManifest)\<close> constructs it, without options.\<close>

definition bare_service ::
  "(json \<Rightarrow> string) \<Rightarrow> (string \<Rightarrow> string option) \<Rightarrow> (string \<Rightarrow> int) \<Rightarrow>
   (string \<Rightarrow> string \<Rightarrow> string \<Rightarrow> signed_manifest option) \<Rightarrow> 'z exec_env" where
  "bare_service hash origin instant manifests =
     \<lparr>en_sha256 = hash, en_origin = origin, en_instant = instant,
      en_loadManifest = (\<lambda>a org e. case manifests a org e of
          None \<Rightarrow> throw (Refused 404 ''MANIFEST_NOT_FOUND'') | Some m \<Rightarrow> ret m),
      en_resolveWorkflow = None, en_onRunStopped = None, en_registerArtifact = None,
      en_conversationMessage = None\<rparr>"

lemma bare_hooks: "execution_hooks (bare_service hash origin instant manifests)"
  by unfold_locales
     (auto simp: bare_service_def frame.relates_ret frame.relates_throw split: option.split)

interpretation bare_history:
  execution_evolution "bare_service hash origin instant manifests" history
  by (rule history_evolution [OF bare_hooks])

interpretation bare_ledger:
  execution_evolution "bare_service hash origin instant manifests" ledger_kept
  by (rule ledger_evolution [OF bare_hooks])

interpretation bare_integrity:
  execution_evolution "bare_service hash origin instant manifests" integrity_kept
  by (rule integrity_evolution [OF bare_hooks])

interpretation bare_isolation:
  execution_evolution "bare_service hash origin instant manifests" "isolates t"
  by (rule isolates_evolution [OF bare_hooks])

section \<open>A concrete run\<close>

text \<open>An employee's first run, used to instantiate the theorems.\<close>

definition sample_hash :: string where
  "sample_hash = replicate 64 (CHR ''0'')"

definition sample_manifest :: signed_manifest where
  "sample_manifest =
     \<lparr>mf_subject = \<lparr>mj_apiVersion = V2, mj_manifestId = ''m1'', mj_agentId = ''ag'',
        mj_organizationId = ''o1'', mj_employeeId = ''e1''\<rparr>,
      mf_keyId = ''k'', mf_runtimeProfile = ''sandbox'', mf_workflows = [],
      mf_capabilities = [], mf_modelProvider = ''p'', mf_credentialMode = ''ORGANIZATION_MANAGED'',
      mf_payload = JNull\<rparr>"

definition sample_env :: "'z exec_env" where
  "sample_env = bare_service (\<lambda>_. sample_hash) Some (\<lambda>_. 0) (\<lambda>_ _ _. Some sample_manifest)"

definition sample_start :: exec_db where
  "sample_start =
     \<lparr>ss_scope = None, ss_clock = (\<lambda>n. int n), ss_reads = 0,
      ss_entropy = (\<lambda>n. ''u'' @ replicate n (CHR ''x'')), ss_drawn = 0,
      ex_threads = [], ex_runs = [], ex_steps = [], ex_events = [], ex_artifacts = [],
      ex_approvals = [], ex_objects = []\<rparr>"

definition sample_task :: task_spec where
  "sample_task = \<lparr>ts_objective = ''Check'', ts_workflow = None, ts_workItem = None, ts_inputs = []\<rparr>"

definition sample_input :: create_run_input where
  "sample_input =
     \<lparr>ci_organizationId = ''o1'', ci_employeeId = ''e1'', ci_agentId = ''ag'', ci_title = ''T'',
      ci_task = sample_task, ci_manifest = sample_manifest, ci_threadId = None,
      ci_conversation = None\<rparr>"

definition after :: "(failure + 'a \<times> 's) \<Rightarrow> 's \<Rightarrow> 's" where
  "after res s = (case res of Inl _ \<Rightarrow> s | Inr (_, s') \<Rightarrow> s')"

definition succeeds :: "failure + 'a \<times> 's \<Rightarrow> bool" where
  "succeeds res = (case res of Inl _ \<Rightarrow> False | Inr _ \<Rightarrow> True)"

lemma succeeds_after: "succeeds (m s) \<Longrightarrow> \<exists>x. m s = Inr (x, after (m s) s)"
  by (auto simp: succeeds_def after_def split: sum.splits)

definition sample_created :: exec_db where
  "sample_created = after (createRun sample_env sample_input sample_start) sample_start"

lemma sample_create_ok: "succeeds (createRun (sample_env :: unit exec_env) sample_input sample_start)"
  by code_simp

lemma sample_hooks: "execution_hooks sample_env"
  unfolding sample_env_def by (rule bare_hooks)

definition sample_started_event :: wire_event where
  "sample_started_event = \<lparr>we_protocol = RUNTIME_PROTOCOL_V1, we_eventId = ''v1'', we_runId = ''ux'',
     we_threadId = ''u'', we_stepId = None, we_sequence = 1, we_type = ''run.started'',
     we_occurredAt = ''2026-01-01T00:00:00Z'',
     we_correlation = \<lparr>co_organizationId = ''o1'', co_employeeId = ''e1'', co_agentId = ''ag'',
       co_threadId = ''u'', co_runId = ''ux'', co_stepId = None, co_toolCallId = None,
       co_actionId = None\<rparr>,
     we_payload = JObj [(''runtimeSessionId'', JStr ''s''), (''kernel'', JStr ''native'')]\<rparr>"

definition sample_event_schemas :: schemas where
  "sample_event_schemas = \<lparr>sc_messageSize = (\<lambda>_. 100), sc_envelope = (\<lambda>_. True),
     sc_payload = (\<lambda>t _. case t of RunStarted \<Rightarrow> Some (PRunStarted ''s'' ''native'')
       | RunCompleted \<Rightarrow> Some (PRunCompleted ''done'' []) | _ \<Rightarrow> None)\<rparr>"

definition sample_running :: exec_db where
  "sample_running =
     after (ingestRuntimeEvent sample_env sample_event_schemas ''o1'' sample_started_event sample_created)
       sample_created"

lemma sample_ingest_ok:
  "succeeds (ingestRuntimeEvent sample_env sample_event_schemas ''o1'' sample_started_event sample_created)"
  by code_simp

lemma sample_create_step:
  "operation sample_env sample_event_schemas ''o1'' sample_start sample_created"
proof -
  obtain r where "createRun sample_env sample_input sample_start = Inr (r, sample_created)"
    using succeeds_after [of "createRun sample_env sample_input" sample_start, OF sample_create_ok]
    unfolding sample_created_def by blast
  from operation.create [OF this] show ?thesis by (simp add: sample_input_def)
qed

lemma sample_ingest:
  "\<exists>x. ingestRuntimeEvent sample_env sample_event_schemas ''o1'' sample_started_event sample_created =
     Inr (x, sample_running)"
  using succeeds_after [of "ingestRuntimeEvent sample_env sample_event_schemas ''o1'' sample_started_event"
      sample_created, OF sample_ingest_ok]
  unfolding sample_running_def .

lemma sample_ingest_step:
  "operation sample_env sample_event_schemas ''o1'' sample_created sample_running"
  using sample_ingest by (auto intro: operation.ingested)

lemma sample_start_reachable: "reachable sample_env sample_event_schemas sample_start"
  by (rule reachable.start) (simp_all add: sample_start_def)

lemma sample_created_reachable: "reachable sample_env sample_event_schemas sample_created"
  by (rule reachable.operates [OF sample_start_reachable sample_create_step])

lemma sample_running_reachable: "reachable sample_env sample_event_schemas sample_running"
  by (rule reachable.operates [OF sample_created_reachable sample_ingest_step])

section \<open>Properties of every operation\<close>



text \<open>
  C2. The ledger has no gaps and no duplicates. In every reachable state the events of a run
  are numbered 1, 2, ... in the order they were recorded, and those its runtime emitted are
  exactly numbers 1 to the run's \<open>runtime_sequence\<close> of the runtime's own numbering.
\<close>

theorem run_ledger_is_gapless:
  assumes "execution_hooks env" and "reachable env sch s" and "r \<in> set (ex_runs s)"
  shows "map ae_sequence (events_of (rn_id r) (ex_events s)) =
      [1..<Suc (length (events_of (rn_id r) (ex_events s)))] \<and>
    List.map_filter ae_runtimeSequence (events_of (rn_id r) (ex_events s)) =
      [1..<Suc (rn_runtimeSequence r)]"
  using reachable_sound [OF assms(1,2)] assms(3)
  by (fastforce simp: sound_def ledger_def ledger_rows_def run_key_def)

lemma run_ledger_is_gapless_witness:
  "\<exists>r \<in> set (ex_runs sample_running). rn_runtimeSequence r = 1 \<and>
     map ae_sequence (events_of (rn_id r) (ex_events sample_running)) =
       [1..<Suc (length (events_of (rn_id r) (ex_events sample_running)))] \<and>
     List.map_filter ae_runtimeSequence (events_of (rn_id r) (ex_events sample_running)) = [1..<Suc 1]"
proof -
  have "\<exists>r \<in> set (ex_runs sample_running). rn_runtimeSequence r = 1" by code_simp
  then obtain r where r: "r \<in> set (ex_runs sample_running)" "rn_runtimeSequence r = 1" by blast
  with run_ledger_is_gapless [OF sample_hooks sample_running_reachable r(1)] show ?thesis by auto
qed



end
