(* ===== verification/ActionHistory.thy ===== *)
theory ActionHistory
  imports ActionEvolution ExecutionProperties
begin

text \<open>
  The records of governed actions over time. \<open>records_kept\<close>: requests, grants and audit events
  are only appended, an execution is closed at most once and a reconciliation resolved at most
  once. \<open>action_sound\<close>: the well-formedness of the action tables. Every operation of the policy,
  reconciliation and gateway services obeys both, as do sequences of them (\<open>gateway_steps\<close>).
\<close>

section \<open>What never changes\<close>

definition execution_evolves :: "execution_row \<Rightarrow> execution_row \<Rightarrow> bool" where
  "execution_evolves x x' \<longleftrightarrow>
     xr_requestId x' = xr_requestId x \<and> xr_organizationId x' = xr_organizationId x \<and>
     xr_runId x' = xr_runId x \<and> xr_connectionId x' = xr_connectionId x \<and>
     xr_startedAt x' = xr_startedAt x \<and> (xr_status x \<noteq> DISPATCHING \<longrightarrow> x' = x)"

definition reconciliation_evolves :: "reconciliation_row \<Rightarrow> reconciliation_row \<Rightarrow> bool" where
  "reconciliation_evolves c c' \<longleftrightarrow>
     rc_requestId c' = rc_requestId c \<and> rc_organizationId c' = rc_organizationId c \<and>
     rc_threadId c' = rc_threadId c \<and> rc_runId c' = rc_runId c \<and> rc_action c' = rc_action c \<and>
     rc_payloadDigest c' = rc_payloadDigest c \<and> rc_reason c' = rc_reason c \<and>
     rc_createdAt c' = rc_createdAt c \<and> (rc_state c \<noteq> REQUIRED \<longrightarrow> c' = c)"

definition records_kept :: "'z action_db_scheme \<Rightarrow> 'z action_db_scheme \<Rightarrow> bool" where
  "records_kept s s' \<longleftrightarrow>
     prefix (ac_requests s) (ac_requests s') \<and> grows execution_evolves (ac_executions s) (ac_executions s') \<and>
     prefix (ac_grants s) (ac_grants s') \<and>
     grows reconciliation_evolves (ac_reconciliations s) (ac_reconciliations s') \<and>
     prefix (ac_audit s) (ac_audit s')"

lemma evolves_refl [simp]: "execution_evolves x x" "reconciliation_evolves c c"
  by (simp_all add: execution_evolves_def reconciliation_evolves_def)

lemma execution_evolves_trans: "execution_evolves x y \<Longrightarrow> execution_evolves y z \<Longrightarrow> execution_evolves x z"
  by (auto simp: execution_evolves_def)

lemma reconciliation_evolves_trans:
  "reconciliation_evolves x y \<Longrightarrow> reconciliation_evolves y z \<Longrightarrow> reconciliation_evolves x z"
  by (auto simp: reconciliation_evolves_def)

lemma records_kept_refl [simp]: "records_kept s s"
  by (simp add: records_kept_def grows_same)

lemma records_kept_trans: "records_kept s t \<Longrightarrow> records_kept t u \<Longrightarrow> records_kept s u"
  unfolding records_kept_def
  by (auto intro: grows_trans [OF _ _ execution_evolves_trans] grows_trans [OF _ _ reconciliation_evolves_trans])

section \<open>Well-formed action tables\<close>

definition request_ok :: "action_request \<Rightarrow> bool" where
  "request_ok q \<longleftrightarrow> length (rq_requestHash q) = 64 \<and> (rq_decision q = APPROVAL_REQUIRED) = (rq_approvalId q \<noteq> None)"

definition reconciliation_ok :: "reconciliation_row \<Rightarrow> bool" where
  "reconciliation_ok c \<longleftrightarrow> sha256_hex (rc_payloadDigest c) \<and>
     (rc_state c = REQUIRED) = (rc_resolvedAt c = None) \<and> (rc_resolvedAt c = None) = (rc_resolvedBy c = None)"

definition policy_id :: "policy_row \<Rightarrow> string \<times> string" where
  "policy_id p = (po_organizationId p, po_action p)"

definition action_sound :: "'z action_db_scheme \<Rightarrow> bool" where
  "action_sound s \<longleftrightarrow>
     distinct (map rq_id (ac_requests s)) \<and> distinct (map xr_requestId (ac_executions s)) \<and>
     distinct (map gr_grantId (ac_grants s)) \<and> distinct (map gr_requestId (ac_grants s)) \<and>
     distinct (map rc_requestId (ac_reconciliations s)) \<and> distinct (map policy_id (ac_policies s)) \<and>
     (\<forall>q \<in> set (ac_requests s). request_ok q) \<and>
     (\<forall>x \<in> set (ac_executions s). xr_requestId x \<in> rq_id ` set (ac_requests s)) \<and>
     (\<forall>g \<in> set (ac_grants s). gr_requestId g \<in> rq_id ` set (ac_requests s)) \<and>
     (\<forall>c \<in> set (ac_reconciliations s). reconciliation_ok c \<and> rc_requestId c \<in> xr_requestId ` set (ac_executions s)) \<and>
     (\<forall>p \<in> set (ac_policies s). po_outcome p \<in> {REQUIRE_APPROVAL, DENY})"

definition action_history :: "'z action_db_scheme \<Rightarrow> 'z action_db_scheme \<Rightarrow> bool" where
  "action_history s s' \<longleftrightarrow> records_kept s s' \<and> (action_sound s \<longrightarrow> action_sound s')"

text \<open>What other components leave alone: the rows of runs and actions; they may write audit events.\<close>

definition action_tables :: "'z action_db_scheme \<Rightarrow> 'z action_db_scheme \<Rightarrow> bool" where
  "action_tables s s' \<longleftrightarrow>
     ac_requests s' = ac_requests s \<and> ac_executions s' = ac_executions s \<and> ac_grants s' = ac_grants s \<and>
     ac_reconciliations s' = ac_reconciliations s \<and> ac_policies s' = ac_policies s \<and>
     prefix (ac_audit s) (ac_audit s')"

definition exec_tables :: "'z exec_db_scheme \<Rightarrow> 'z exec_db_scheme \<Rightarrow> bool" where
  "exec_tables s s' \<longleftrightarrow>
     ex_threads s' = ex_threads s \<and> ex_runs s' = ex_runs s \<and> ex_steps s' = ex_steps s \<and>
     ex_events s' = ex_events s \<and> ex_artifacts s' = ex_artifacts s \<and> ex_approvals s' = ex_approvals s"

definition rows_same :: "'z action_db_scheme \<Rightarrow> 'z action_db_scheme \<Rightarrow> bool" where
  "rows_same s s' \<longleftrightarrow> ss_scope s' = ss_scope s \<and> exec_tables s s' \<and> action_tables s s'"

text \<open>Every operation ends in the scope it started in.\<close>

definition scope_same :: "'z action_db_scheme \<Rightarrow> 'z action_db_scheme \<Rightarrow> bool" where
  "scope_same s s' \<longleftrightarrow> ss_scope s' = ss_scope s"

lemma action_tables_history: "action_tables s s' \<Longrightarrow> action_history s s'"
  by (simp add: action_tables_def action_history_def records_kept_def action_sound_def grows_same)

lemma action_history_refl [simp]: "action_history s s"
  by (simp add: action_history_def)

lemma action_history_trans: "action_history s t \<Longrightarrow> action_history t u \<Longrightarrow> action_history s u"
  by (auto simp: action_history_def intro: records_kept_trans)

lemma action_tables_refl [simp]: "action_tables s s"
  by (simp add: action_tables_def)

lemma action_tables_trans: "action_tables s t \<Longrightarrow> action_tables t u \<Longrightarrow> action_tables s u"
  by (auto simp: action_tables_def)

lemma action_tables_trivial [simp]:
  "action_tables s (s\<lparr>ss_reads := n\<rparr>)" "action_tables s (s\<lparr>ss_drawn := n\<rparr>)" "action_tables s (s\<lparr>ss_scope := sc\<rparr>)"
  "action_tables s (ex_threads_update f1 s)" "action_tables s (ex_runs_update f2 s)"
  "action_tables s (ex_steps_update f3 s)" "action_tables s (ex_events_update f4 s)"
  "action_tables s (ex_artifacts_update f5 s)" "action_tables s (ex_approvals_update f6 s)"
  "action_tables s (ac_audit_update (\<lambda>as. as @ [a]) s)"
  by (simp_all add: action_tables_def)

lemma action_tables_scope: "action_tables (s\<lparr>ss_scope := a\<rparr>) s' \<Longrightarrow> action_tables s (s'\<lparr>ss_scope := b\<rparr>)"
  by (simp add: action_tables_def)

lemma action_history_scope: "action_history (s\<lparr>ss_scope := a\<rparr>) s' \<Longrightarrow> action_history s (s'\<lparr>ss_scope := b\<rparr>)"
proof -
  assume "action_history (s\<lparr>ss_scope := a\<rparr>) s'"
  moreover have "action_history s (s\<lparr>ss_scope := a\<rparr>)" "action_history s' (s'\<lparr>ss_scope := b\<rparr>)"
    by (rule action_tables_history, simp)+
  ultimately show ?thesis by (blast intro: action_history_trans)
qed

interpretation kept_time: evolution action_history
  by unfold_locales (simp, rule action_history_trans)

interpretation kept: open_evolution action_history
  by (unfold_locales; (erule action_history_scope | rule action_tables_history, simp))

interpretation tables_time: evolution action_tables
  by unfold_locales (simp, rule action_tables_trans)

interpretation tables: open_evolution action_tables
  by (unfold_locales; (erule action_tables_scope | simp))

interpretation scopes: open_evolution scope_same
  by unfold_locales (auto simp: scope_same_def)

interpretation same: reading rows_same
  by unfold_locales (auto simp: rows_same_def exec_tables_def action_tables_def)

section \<open>The statements on the action tables\<close>

lemma history_request: "relates action_history (insert_row ac_requests_update rq_organizationId request_checks q)"
  by (rule relatesI)
     (auto simp: requests.insert_Inr request_checks_def action_history_def records_kept_def grows_same
        action_sound_def request_ok_def)

lemma history_execution: "relates action_history (insert_row ac_executions_update xr_organizationId execution_checks x)"
  by (rule relatesI)
     (auto simp: executions.insert_Inr execution_checks_def action_history_def records_kept_def grows_same
        grows_append action_sound_def)

lemma history_grant: "relates action_history (insert_row ac_grants_update gr_organizationId grant_checks g)"
  by (rule relatesI)
     (auto simp: grants.insert_Inr grant_checks_def action_history_def records_kept_def grows_same action_sound_def)

lemma history_close:
  "relates action_history (update_rows ac_executions ac_executions_update xr_organizationId
     execution_update_checks P f)"
proof (rule relatesI)
  fix s n s'
  assume "update_rows ac_executions ac_executions_update xr_organizationId execution_update_checks P f s = Inr (n, s')"
  then obtain sc where s': "s' = ac_executions_update
      (update_where (\<lambda>x. sees sc (xr_organizationId x) \<and> P x) f) s"
    and ok: "\<And>x. x \<in> set (ac_executions s) \<Longrightarrow> sees sc (xr_organizationId x) \<Longrightarrow> P x \<Longrightarrow>
      execution_update_checks s x (f x) = None"
    by (rule executions.updateE) blast
  from ok have evolves: "execution_evolves x (f x)"
    if "x \<in> set (ac_executions s)" "sees sc (xr_organizationId x) \<and> P x" for x
    using that by (auto simp: execution_update_checks_def execution_evolves_def)
  then have "map xr_requestId (ac_executions s') = map xr_requestId (ac_executions s)"
    by (auto simp: s' update_where_def execution_evolves_def)
  moreover from this have "xr_requestId ` set (ac_executions s') = xr_requestId ` set (ac_executions s)"
    by (metis set_map)
  moreover have "grows execution_evolves (ac_executions s) (ac_executions s')"
    using evolves by (simp add: s' grows_update_where)
  moreover have "xr_requestId x \<in> rq_id ` set (ac_requests s)"
    if "action_sound s" "x \<in> set (ac_executions s')" for x
    using that evolves by (auto simp: s' set_update_where action_sound_def execution_evolves_def)
  ultimately show "action_history s s'"
    by (auto simp: action_history_def records_kept_def grows_same action_sound_def s')
qed

lemma history_require:
  "relates action_history (insert_unless ac_reconciliations ac_reconciliations_update rc_organizationId
     reconciliation_valid reconciliation_checks rc_requestId c)"
  by (rule relatesI)
     (auto simp: reconciliations.insert_unless_Inr reconciliation_valid_def reconciliation_checks_def
        action_history_def records_kept_def grows_same grows_append action_sound_def reconciliation_ok_def
        split: if_splits)

lemma history_resolve:
  "relates action_history (update_rows ac_reconciliations ac_reconciliations_update rc_organizationId
     reconciliation_update_checks P f)"
proof (rule relatesI)
  fix s n s'
  assume "update_rows ac_reconciliations ac_reconciliations_update rc_organizationId
     reconciliation_update_checks P f s = Inr (n, s')"
  then obtain sc where s': "s' = ac_reconciliations_update
      (update_where (\<lambda>c. sees sc (rc_organizationId c) \<and> P c) f) s"
    and ok: "\<And>c. c \<in> set (ac_reconciliations s) \<Longrightarrow> sees sc (rc_organizationId c) \<Longrightarrow> P c \<Longrightarrow>
      reconciliation_update_checks s c (f c) = None"
    by (rule reconciliations.updateE) blast
  have evolves: "reconciliation_evolves c (f c)" "reconciliation_ok (f c)"
    if "c \<in> set (ac_reconciliations s)" "sees sc (rc_organizationId c) \<and> P c" for c
    using ok [OF that(1)] that(2)
    by (auto simp: reconciliation_update_checks_def reconciliation_evolves_def reconciliation_valid_def
        reconciliation_ok_def)
  then have keys: "map rc_requestId (ac_reconciliations s') = map rc_requestId (ac_reconciliations s)"
    by (auto simp: s' update_where_def reconciliation_evolves_def)
  have grows: "grows reconciliation_evolves (ac_reconciliations s) (ac_reconciliations s')"
    using evolves by (simp add: s' grows_update_where)
  have rows: "reconciliation_ok c \<and> rc_requestId c \<in> xr_requestId ` set (ac_executions s)"
    if sound: "action_sound s" and c: "c \<in> set (ac_reconciliations s')" for c
  proof -
    from c obtain q where q: "q \<in> set (ac_reconciliations s)"
      and c': "c = (if sees sc (rc_organizationId q) \<and> P q then f q else q)"
      by (auto simp: s' set_update_where)
    from sound q have old: "reconciliation_ok q" "rc_requestId q \<in> xr_requestId ` set (ac_executions s)"
      by (auto simp: action_sound_def)
    show ?thesis
    proof (cases "sees sc (rc_organizationId q) \<and> P q")
      case True
      from evolves [OF q this] old c' True show ?thesis by (simp add: reconciliation_evolves_def)
    qed (use c' old in auto)
  qed
  have "records_kept s s'"
    using grows by (simp add: records_kept_def grows_same s')
  moreover have "action_sound s'" if sound: "action_sound s"
  proof -
    have "ac_requests s' = ac_requests s" "ac_executions s' = ac_executions s" "ac_grants s' = ac_grants s"
      "ac_policies s' = ac_policies s"
      by (simp_all add: s')
    with sound keys rows [OF sound] show ?thesis by (simp only: action_sound_def) blast
  qed
  ultimately show "action_history s s'" by (simp add: action_history_def)
qed

lemma history_clear:
  "relates action_history (delete_rows ac_policies ac_policies_update po_organizationId (policy_key org action))"
  by (rule relatesI)
     (auto simp: policies.delete_Inr action_history_def records_kept_def grows_same action_sound_def
        distinct_map_filter)

lemma history_upsert: "relates action_history (upsert_policy p)"
proof (rule relatesI)
  fix s u s'
  assume run: "upsert_policy p s = Inr (u, s')"
  let ?key = "policy_key (po_organizationId p) (po_action p)"
  show "action_history s s'"
  proof (cases "list_ex ?key (ac_policies s)")
    case True
    with run obtain n where "update_rows ac_policies ac_policies_update po_organizationId
        (\<lambda>s q q'. policy_valid s q') ?key
        (\<lambda>q. q\<lparr>po_outcome := po_outcome p, po_reason := po_reason p, po_updatedBy := po_updatedBy p,
           po_updatedAt := po_updatedAt p\<rparr>) s = Inr (n, s')"
      by (auto simp: upsert_policy_def andThen_Inr)
    then obtain sc where s': "s' = ac_policies_update (update_where (\<lambda>q. sees sc (po_organizationId q) \<and> ?key q)
        (\<lambda>q. q\<lparr>po_outcome := po_outcome p, po_reason := po_reason p, po_updatedBy := po_updatedBy p,
           po_updatedAt := po_updatedAt p\<rparr>)) s"
      and ok: "\<And>q. q \<in> set (ac_policies s) \<Longrightarrow> sees sc (po_organizationId q) \<Longrightarrow> ?key q \<Longrightarrow>
         policy_valid s (q\<lparr>po_outcome := po_outcome p, po_reason := po_reason p, po_updatedBy := po_updatedBy p,
           po_updatedAt := po_updatedAt p\<rparr>) = None"
      by (rule policies.updateE) blast
    from ok have ok: "q \<in> set (ac_policies s) \<Longrightarrow> sees sc (po_organizationId q) \<Longrightarrow> ?key q \<Longrightarrow>
         po_outcome p \<in> {REQUIRE_APPROVAL, DENY}" for q
      by (fastforce simp: policy_valid_def)
    have "map policy_id (ac_policies s') = map policy_id (ac_policies s)"
      by (simp add: s' map_update_where policy_id_def)
    moreover have "po_outcome q \<in> {REQUIRE_APPROVAL, DENY}"
      if "action_sound s" "q \<in> set (ac_policies s')" for q
      using that ok by (auto simp: s' set_update_where action_sound_def split: if_splits)
    ultimately show ?thesis
      by (auto simp: action_history_def records_kept_def grows_same action_sound_def s')
  next
    case False
    with run have "insert_row ac_policies_update po_organizationId policy_valid p s = Inr ((), s')"
      by (simp add: upsert_policy_def andThen_def gets_def)
    then have "s' = ac_policies_update (\<lambda>ps. ps @ [p]) s" "po_outcome p \<in> {REQUIRE_APPROVAL, DENY}"
      by (auto simp: policies.insert_Inr policy_valid_def)
    moreover have "policy_id p \<notin> policy_id ` set (ac_policies s)"
      using False by (auto simp: list_ex_iff policy_key_def policy_id_def)
    ultimately show ?thesis
      by (auto simp: action_history_def records_kept_def grows_same action_sound_def)
  qed
qed

section \<open>The services behind the gateway\<close>

text \<open>
  What the gateway relies on: the services it is constructed with leave the rows of runs and of
  actions alone. They may write their own tables and audit events.
\<close>

definition apart :: "'z action_db_scheme \<Rightarrow> 'z action_db_scheme \<Rightarrow> bool" where
  "apart s s' \<longleftrightarrow> exec_frame s s' \<and> action_tables s s'"

lemma apart_trans: "apart s t \<Longrightarrow> apart t u \<Longrightarrow> apart s u"
  by (auto simp: apart_def exec_frame_def action_tables_def)

lemma apart_rows: "apart s s' \<Longrightarrow> rows_same s s'"
  by (simp add: apart_def rows_same_def exec_frame_def exec_tables_def)

lemma apart_history: "apart s s' \<Longrightarrow> action_history s s'"
  by (simp add: apart_def action_tables_history)

locale gateway_services = execution_hooks "gw_execution env"
  for env :: "'z gateway_env" +
  assumes stopped_apart: "en_onRunStopped (gw_execution env) = Some h \<Longrightarrow> relates apart (h org runId st)"
    and message_apart: "en_conversationMessage (gw_execution env) = Some m \<Longrightarrow> relates apart (m org c content)"
    and manifest_apart: "relates apart (gw_loadManifest env agentId org employeeId)"
    and bundle_apart: "relates apart (gw_bundle env bp version)"
    and lease_apart: "gw_leaseForCheckout env = Some l \<Longrightarrow> relates apart (l request)"

lemma relates_apart: "relates apart m \<Longrightarrow> relates rows_same m"
  by (auto simp: relates_def intro: apart_rows)

lemma services_read:
  assumes "gateway_services env"
  shows "gateway_reads rows_same env"
  by (intro gateway_reads.intro gateway_reads_axioms.intro same.reading_axioms relates_apart
      gateway_services.manifest_apart [OF assms] gateway_services.bundle_apart [OF assms])

lemma services_hooks_of:
  fixes R :: "'z action_db_scheme \<Rightarrow> 'z action_db_scheme \<Rightarrow> bool"
  assumes "gateway_services env" and "open_evolution R" and apart: "\<And>s s'. apart s s' \<Longrightarrow> R s s'"
  shows "gateway_hooks R env"
proof -
  have mono: "relates apart m \<Longrightarrow> relates R m" for m :: "('z action_db_scheme, 'b) op"
    using apart by (auto simp: relates_def)
  show ?thesis
    by (intro gateway_hooks.intro gateway_reads.intro gateway_reads_axioms.intro gateway_hooks_axioms.intro
        open_evolution.axioms(1) assms(2) mono
        gateway_services.manifest_apart [OF assms(1)] gateway_services.bundle_apart [OF assms(1)]
        gateway_services.stopped_apart [OF assms(1)] gateway_services.message_apart [OF assms(1)]
        gateway_services.lease_apart [OF assms(1)])
qed

lemma services_hooks:
  assumes "gateway_services env"
  shows "gateway_hooks action_history env" "gateway_hooks action_tables env" "gateway_hooks scope_same env"
  by (intro services_hooks_of assms kept.open_evolution_axioms tables.open_evolution_axioms
      scopes.open_evolution_axioms; simp add: apart_history apart_def scope_same_def exec_frame_def)+

lemma services_evolution:
  assumes "gateway_services env"
  shows "action_evolution action_history env"
  by (intro action_evolution.intro services_hooks(1) [OF assms] action_evolution_axioms.intro
      history_request history_execution history_close history_grant history_require history_resolve
      history_upsert history_clear)

lemma scope_statements:
  "relates scope_same (insert_row ac_requests_update rq_organizationId request_checks q)"
  "relates scope_same (insert_row ac_executions_update xr_organizationId execution_checks x)"
  "relates scope_same (insert_row ac_grants_update gr_organizationId grant_checks g)"
  "relates scope_same (update_rows ac_executions ac_executions_update xr_organizationId tr P f)"
  "relates scope_same (update_rows ac_reconciliations ac_reconciliations_update rc_organizationId tr' P' f')"
  "relates scope_same (insert_unless ac_reconciliations ac_reconciliations_update rc_organizationId v ch k c)"
  "relates scope_same (delete_rows ac_policies ac_policies_update po_organizationId P'')"
  "relates scope_same (upsert_policy p)"
  by (rule relatesI,
      auto simp: requests.insert_Inr executions.insert_Inr grants.insert_Inr executions.update_Inr
        reconciliations.update_Inr reconciliations.insert_unless_Inr policies.delete_Inr upsert_policy_def
        andThen_Inr policies.insert_Inr policies.update_Inr scope_same_def split: if_splits)+

lemma services_scope:
  assumes "gateway_services env"
  shows "action_evolution scope_same env"
  by (intro action_evolution.intro services_hooks(3) [OF assms] action_evolution_axioms.intro scope_statements)

text \<open>The gateway with the plain execution service and services that only look things up.\<close>

definition bare_gateway ::
  "'z action_db_ext exec_env \<Rightarrow> web \<Rightarrow> (json \<Rightarrow> string) \<Rightarrow> (string \<Rightarrow> string) \<Rightarrow>
   (string \<Rightarrow> string \<Rightarrow> string \<Rightarrow> agent_manifest option) \<Rightarrow> (string \<Rightarrow> string \<Rightarrow> blueprint_bundle option) \<Rightarrow>
   (string \<Rightarrow> string \<Rightarrow> secret_result) \<Rightarrow> (grant_payload \<Rightarrow> string) \<Rightarrow> 'z gateway_env" where
  "bare_gateway service wb hash redact manifests bundles secrets sign =
     \<lparr>gw_execution = service, gw_web = wb, gw_digest = hash, gw_redact = redact,
      gw_loadManifest = (\<lambda>a org e. case manifests a org e of
          None \<Rightarrow> throw (Refused 404 ''MANIFEST_NOT_FOUND'') | Some m \<Rightarrow> ret m),
      gw_bundle = (\<lambda>i v. case bundles i v of
          None \<Rightarrow> throw (Refused 404 ''BLUEPRINT_NOT_FOUND'') | Some b \<Rightarrow> ret b),
      gw_resolveSecret = secrets, gw_leaseForCheckout = None, gw_sign = sign,
      gw_dispatchTimeoutMs = None, gw_staleDispatchMs = None\<rparr>"

lemma apart_refl [simp]: "apart s s"
  by (simp add: apart_def action_tables_def)

interpretation apart: evolution apart
  by unfold_locales (auto intro: apart_trans)

lemma bare_gateway_services:
  "gateway_services (bare_gateway (bare_service h o' i ms) wb hash redact manifests bundles secrets sign)"
proof -
  let ?env = "bare_gateway (bare_service h o' i ms) wb hash redact manifests bundles secrets sign"
  have "execution_hooks (gw_execution ?env)"
    using bare_hooks by (simp add: bare_gateway_def)
  then show ?thesis
    by (intro gateway_services.intro gateway_services_axioms.intro)
       (auto simp: bare_gateway_def bare_service_def apart.relates_ret apart.relates_throw split: option.split)
qed

interpretation bare: action_evolution action_history
  "bare_gateway (bare_service h o' i ms) wb hash redact manifests bundles secrets sign"
  by (rule services_evolution [OF bare_gateway_services])

interpretation bare_reads: gateway_reads rows_same
  "bare_gateway (bare_service h o' i ms) wb hash redact manifests bundles secrets sign"
  by (rule services_read [OF bare_gateway_services])

section \<open>Steps\<close>

text \<open>
  Everything that writes action tables, in any order and for any organization, interleaved
  with the rest of the control plane, which leaves those tables alone.
\<close>

inductive gateway_step :: "'z gateway_env \<Rightarrow> 'z action_db_scheme \<Rightarrow> 'z action_db_scheme \<Rightarrow> bool"
  for env :: "'z gateway_env" where
  decided: "decide_action env rt run msg h s = Inr (v, s') \<Longrightarrow> gateway_step env s s'"
| prepared: "prepareExecution env run i st n s = Inr (plan, s') \<Longrightarrow> gateway_step env s s'"
| completed: "completeExecution env p outcome s = Inr (x, s') \<Longrightarrow> gateway_step env s s'"
| interrupted: "reconcileInterrupted env n s = Inr (k, s') \<Longrightarrow> gateway_step env s s'"
| granted: "issueGrant env run i correlation rt n s = Inr (g, s') \<Longrightarrow> gateway_step env s s'"
| swept: "expireDue env n org s = Inr (k, s') \<Longrightarrow> gateway_step env s s'"
| policy_set: "set_policy a action raw s = Inr (p, s') \<Longrightarrow> gateway_step env s s'"
| policy_cleared: "clear_policy a action s = Inr (u, s') \<Longrightarrow> gateway_step env s s'"
| resolved: "resolve_reconciliation env a i raw s = Inr (w, s') \<Longrightarrow> gateway_step env s s'"
| elsewhere: "action_tables s s' \<Longrightarrow> gateway_step env s s'"

inductive_cases gateway_stepE: "gateway_step env s s'"

inductive gateway_steps :: "'z gateway_env \<Rightarrow> 'z action_db_scheme \<Rightarrow> 'z action_db_scheme \<Rightarrow> bool"
  for env :: "'z gateway_env" where
  none: "gateway_steps env s s"
| more: "gateway_steps env s t \<Longrightarrow> gateway_step env t u \<Longrightarrow> gateway_steps env s u"

text \<open>A new installation has no actions.\<close>

definition no_actions :: "'z action_db_scheme \<Rightarrow> bool" where
  "no_actions s \<longleftrightarrow> ac_requests s = [] \<and> ac_executions s = [] \<and> ac_grants s = [] \<and>
     ac_reconciliations s = [] \<and> ac_policies s = [] \<and> ac_audit s = []"

lemma gateway_step_history:
  assumes "gateway_services env" and "gateway_step env s s'"
  shows "action_history s s'"
proof -
  note ev = services_evolution [OF assms(1)]
  from assms(2) show ?thesis
    by (cases rule: gateway_step.cases)
       (auto intro: action_tables_history
          dest: relatesD [OF action_evolution.decide_action_R [OF ev]]
          relatesD [OF action_evolution.prepareExecution_R [OF ev]]
          relatesD [OF action_evolution.completeExecution_R [OF ev]]
          relatesD [OF action_evolution.reconcileInterrupted_R [OF ev]]
          relatesD [OF action_evolution.issueGrant_R [OF ev]]
          relatesD [OF gateway_hooks.expireDue_R [OF services_hooks(1) [OF assms(1)]]]
          relatesD [OF action_evolution.set_policy_R [OF ev]]
          relatesD [OF action_evolution.clear_policy_R [OF ev]]
          relatesD [OF action_evolution.resolve_reconciliation_R [OF ev]])
qed

lemma gateway_steps_history:
  assumes "gateway_services env"
  shows "gateway_steps env s s' \<Longrightarrow> action_history s s'"
  by (induction rule: gateway_steps.induct) (auto intro: action_history_trans gateway_step_history [OF assms])

text \<open>An execution that was recorded stays recorded.\<close>

lemma executed_stay:
  "action_history s t \<Longrightarrow> xr_requestId ` set (ac_executions s) \<subseteq> xr_requestId ` set (ac_executions t)"
  unfolding action_history_def records_kept_def
  by (elim conjE grows_keys) (simp add: execution_evolves_def)

lemma no_actions_sound: "no_actions s \<Longrightarrow> action_sound s"
  by (simp add: no_actions_def action_sound_def)

end
