(* ===== verification/TransportEvolution.thy ===== *)
theory TransportEvolution
  imports RuntimeRequests SpendingHistory ActionHistory
begin

text \<open>
  Lifting facts about the tables of the runtime transport to its operations. \<open>event_evolution\<close> adds
  runtime events to the operations of the execution service that obey an open relation;
  \<open>transport_services\<close> is what the transport relies on: whatever it calls leaves its tables alone,
  but may drop the checkpoints of a run.
\<close>

section \<open>Runtime events\<close>

locale event_evolution = gateway_hooks R env
  for R :: "'z action_db_scheme \<Rightarrow> 'z action_db_scheme \<Rightarrow> bool" and env :: "'z gateway_env" +
  assumes artifact_hook_R: "en_registerArtifact (gw_execution env) = Some g \<Longrightarrow> relates R (g org i a)"
    and run_manifest_R: "relates R (en_loadManifest (gw_execution env) agentId org employeeId)"
    and workflow_hook_R: "en_resolveWorkflow (gw_execution env) = Some f \<Longrightarrow> relates R (f manifest w)"
begin

lemma insertStep_R [bounded]: "relates R (insertStep sc kind title st detail given')"
  unfolding insertStep_def by (intro bounded)

lemma resume_approved_R [bounded]: "relates R (resume_approved org run payload)"
  unfolding resume_approved_def by (cases payload; simp only: runtime_payload.case; intro bounded)

lemma apply_step_R [bounded]: "relates R (apply_step org sc stepId payload)"
  unfolding apply_step_def by (cases payload; simp only: runtime_payload.case; intro bounded)

lemma accept_event_R [bounded]: "relates R (accept_event run e)"
  unfolding accept_event_def
  by (cases "decideRuntimeEvent (rn_status run) (rn_statusReason run) (ev_type e)") (auto intro!: bounded)

lemma sync_outcome_R [bounded]: "relates R (sync_outcome (gw_execution env) sc payload)"
  unfolding sync_outcome_def by (cases payload; simp only: runtime_payload.case; intro bounded)

lemma register_artifact_R [bounded]: "relates R (register_artifact (gw_execution env) org run stepId payload)"
proof -
  have hook: "relates R (g o' r a)" if "en_registerArtifact (gw_execution env) = Some g" for g o' r a
    using that by (rule artifact_hook_R)
  show ?thesis
    unfolding register_artifact_def
    by (cases payload; cases "en_registerArtifact (gw_execution env)"; simp only: runtime_payload.case option.case;
        intro bounded hook)
qed

lemma new_runtime_event_R [bounded]: "relates R (new_runtime_event (gw_execution env) org e h)"
  unfolding new_runtime_event_def apply_event_def set_runtime_sequence_def Let_def by (intro bounded)

lemma ingestRuntimeEvent_R [bounded]: "relates R (ingestRuntimeEvent (gw_execution env) sch org w)"
  unfolding ingestRuntimeEvent_def recordRuntimeEvent_def by (intro bounded)

lemma runBinding_R [bounded]: "relates R (runBinding (gw_execution env) org i)"
  unfolding runBinding_def by (intro bounded run_manifest_R)

lemma openSteps_R [bounded]: "relates R (openSteps org i)"
  unfolding openSteps_def by (intro bounded)

lemma submitted_workflow_R [bounded]: "relates R (submitted_workflow (gw_execution env) run manifest)"
proof (cases "en_resolveWorkflow (gw_execution env)")
  case None
  then show ?thesis
    unfolding submitted_workflow_def
    by (auto intro!: relates_andThen relates_ret relates_demand relates_if split: option.split list.split)
next
  case (Some f)
  then have "relates R (f manifest w)" for w by (rule workflow_hook_R)
  with Some show ?thesis
    unfolding submitted_workflow_def
    by (auto intro!: relates_andThen relates_ret relates_demand relates_if split: option.split list.split)
qed

lemma buildRunSubmitCommand_R [bounded]: "relates R (buildRunSubmitCommand (gw_execution env) org i)"
  unfolding buildRunSubmitCommand_def by (intro bounded run_manifest_R)

end

section \<open>What the rest of the control plane may do\<close>

definition dropped :: "checkpoint_row list \<Rightarrow> checkpoint_row list \<Rightarrow> bool" where
  "dropped cs cs' \<longleftrightarrow> (\<exists>P. cs' = filter (\<lambda>c. P (ck_runId c)) cs)"

definition tp_quiet :: "'z transport_db_scheme \<Rightarrow> 'z transport_db_scheme \<Rightarrow> bool" where
  "tp_quiet s s' \<longleftrightarrow> ss_clock s' = ss_clock s \<and> tp_leases s' = tp_leases s \<and> tp_nonces s' = tp_nonces s \<and>
     dropped (tp_checkpoints s) (tp_checkpoints s')"

lemma dropped_refl [simp]: "dropped cs cs"
  unfolding dropped_def by (rule exI [of _ "\<lambda>_. True"]) simp

lemma dropped_trans: "dropped cs ds \<Longrightarrow> dropped ds es \<Longrightarrow> dropped cs es"
proof -
  assume "dropped cs ds" "dropped ds es"
  then obtain P Q where "ds = filter (\<lambda>c. P (ck_runId c)) cs" "es = filter (\<lambda>c. Q (ck_runId c)) ds"
    unfolding dropped_def by blast
  then have "es = filter (\<lambda>c. (P (ck_runId c) \<and> Q (ck_runId c))) cs" by (simp add: conj_commute)
  then show "dropped cs es" unfolding dropped_def by (intro exI [of _ "\<lambda>i. P i \<and> Q i"])
qed

lemma tp_quiet_trans: "tp_quiet s t \<Longrightarrow> tp_quiet t u \<Longrightarrow> tp_quiet s u"
  by (auto simp: tp_quiet_def intro: dropped_trans)

interpretation quiet_time: evolution tp_quiet
  by unfold_locales (simp add: tp_quiet_def, rule tp_quiet_trans)

interpretation quiet: open_evolution tp_quiet
  by unfold_locales (simp_all add: tp_quiet_def)

text \<open>Dropping the checkpoints of a run that stopped is quiet; it is what the control plane's hook does.\<close>

lemma deleteForRun_dropped:
  assumes "\<And>c. c \<in> set (tp_checkpoints s) \<Longrightarrow> ck_runId c = runId \<Longrightarrow> ck_organizationId c = org"
    and "deleteForRun org runId s = Inr (u, s')" and "ss_scope s = Some sc" "sees sc org"
  shows "tp_quiet s s'"
proof -
  from assms(2) have s': "s' = tp_checkpoints_update
      (filter (\<lambda>c. \<not> (sees sc (ck_organizationId c) \<and> ck_runId c = runId \<and> ck_organizationId c = org))) s"
    using assms(3) by (auto simp: deleteForRun_def andThen_Inr checkpoints.delete_Inr)
  have "filter (\<lambda>c. \<not> (sees sc (ck_organizationId c) \<and> ck_runId c = runId \<and> ck_organizationId c = org)) (tp_checkpoints s) =
      filter (\<lambda>c. ck_runId c \<noteq> runId) (tp_checkpoints s)"
    using assms(1,4) by (intro filter_cong) auto
  then show ?thesis
    unfolding s' tp_quiet_def dropped_def by (auto intro!: exI [of _ "\<lambda>i. i \<noteq> runId"])
qed

text \<open>Every statement on the other tables is quiet.\<close>

lemma quiet_statements:
  fixes s :: "'z transport_db_scheme"
  shows "tp_quiet s (ac_requests_update f1 s)" "tp_quiet s (ac_executions_update f2 s)"
    "tp_quiet s (ac_grants_update f3 s)" "tp_quiet s (ac_reconciliations_update f4 s)"
    "tp_quiet s (ac_policies_update f5 s)" "tp_quiet s (ac_audit_update f6 s)"
    "tp_quiet s (sp_budgets_update f7 s)" "tp_quiet s (sp_prices_update f8 s)"
    "tp_quiet s (sp_reservations_update f9 s)" "tp_quiet s (sp_alerts_update f10 s)" "tp_quiet s (sp_changes_update f11 s)"
  by (simp_all add: tp_quiet_def)

lemma quiet_inserted_unless:
  assumes "\<And>f s. tp_quiet s (put f s)"
  shows "relates tp_quiet (insert_unless rows put org valid check key r)"
  using assms quiet_time.evolution_refl
  by (auto simp: relates_def insert_unless_def andThen_Inr insert_row_def split: option.splits if_splits)

lemma quiet_deleted:
  assumes "\<And>f s. tp_quiet s (put f s)"
  shows "relates tp_quiet (delete_rows rows put org P)"
  using assms by (auto simp: relates_def delete_rows_def Let_def split: option.splits)

lemma quiet_policy:
  fixes p :: policy_row
  shows "relates (tp_quiet :: 'z transport_db_scheme \<Rightarrow> _) (upsert_policy p)"
  unfolding upsert_policy_def
  by (intro bounded quiet_time.relates_gets quiet.inserted_R quiet.updated_R; rule quiet_statements)

lemma quiet_budget:
  fixes before :: model_budget
  shows "relates (tp_quiet :: 'z transport_db_scheme \<Rightarrow> _) (store_budget a i before n)"
  unfolding store_budget_def Let_def
  by (intro bounded quiet.inserted_R quiet.updated_R; rule quiet_statements)

section \<open>What the transport relies on\<close>

locale transport_services =
  fixes env :: "'z transport_env"
  assumes gateway: "gateway_services (tr_gateway env)"
    and spending: "spending_services (tr_spending env)"
    and stopped_quiet: "en_onRunStopped (tr_execution env) = Some h \<Longrightarrow> relates tp_quiet (h org i st)"
    and message_quiet: "en_conversationMessage (tr_execution env) = Some m \<Longrightarrow> relates tp_quiet (m org c content)"
    and artifact_quiet: "en_registerArtifact (tr_execution env) = Some g \<Longrightarrow> relates tp_quiet (g org i a)"
    and run_manifest_quiet: "relates tp_quiet (en_loadManifest (tr_execution env) agentId org employeeId)"
    and workflow_quiet: "en_resolveWorkflow (tr_execution env) = Some f \<Longrightarrow> relates tp_quiet (f manifest w)"
    and manifest_quiet: "relates tp_quiet (gw_loadManifest (tr_gateway env) agentId org employeeId)"
    and bundle_quiet: "relates tp_quiet (gw_bundle (tr_gateway env) bp version)"
    and lease_quiet: "gw_leaseForCheckout (tr_gateway env) = Some l \<Longrightarrow> relates tp_quiet (l request)"
    and deliver_quiet: "se_onAlert (tr_spending env) = Some d \<Longrightarrow> relates tp_quiet (d org al n)"
    and credential_quiet: "relates tp_quiet (tr_modelCredential env org i run provider rt)"
begin

lemma hooks_quiet: "gateway_hooks tp_quiet (tr_gateway env)"
  by (intro gateway_hooks.intro gateway_reads.intro gateway_reads_axioms.intro gateway_hooks_axioms.intro
      quiet.open_evolution_axioms quiet.reading_axioms manifest_quiet bundle_quiet stopped_quiet message_quiet
      lease_quiet)

lemma events_quiet: "event_evolution tp_quiet (tr_gateway env)"
  by (intro event_evolution.intro hooks_quiet event_evolution_axioms.intro artifact_quiet run_manifest_quiet
      workflow_quiet)

lemma actions_quiet: "action_evolution tp_quiet (tr_gateway env)"
  by (intro action_evolution.intro hooks_quiet action_evolution_axioms.intro quiet.inserted_R quiet.updated_R
      quiet_inserted_unless quiet_deleted quiet_policy; rule quiet_statements)

lemma alerts_quiet: "alerting tp_quiet (tr_spending env)"
proof (intro alerting.intro quiet.reading_axioms alerting_axioms.intro)
  show "tp_quiet s (ac_audit_update (\<lambda>as. as @ [x]) s)" for s :: "'z transport_db_scheme" and x
    by (rule quiet_statements)
  show "relates tp_quiet (d org al n)" if "se_onAlert (tr_spending env) = Some d" for d org al n
    using that by (rule deliver_quiet)
qed (intro quiet_inserted_unless quiet_statements)

lemma spending_quiet: "spending_evolution tp_quiet (tr_spending env)"
  by (intro spending_evolution.intro alerts_quiet spending_evolution_axioms.intro quiet.inserted_R quiet.updated_R
      quiet_inserted_unless quiet_budget; rule quiet_statements)

end

end
