(* ===== verification/CredentialHistory.thy ===== *)
theory CredentialHistory
  imports CredentialBroker TransportEvolution
begin

text \<open>
  Repository credentials over time. \<open>credential_history\<close> says what every operation keeps: leases are
  only added and only move forward, connections only get disabled, and the tables stay well formed.
  Then the broker and the connection service as a step relation, interleaved with the rest of the
  control plane, and the laws the broker owes the Action Gateway.
\<close>

section \<open>What never changes\<close>

definition lease_ahead :: "credential_status \<Rightarrow> credential_status \<Rightarrow> bool" where
  "lease_ahead st st' \<longleftrightarrow> st' = st \<or> st = KlISSUED \<or> (st = KlREDEEMED \<and> st' \<noteq> KlISSUED)"

definition credential_evolves :: "credential_lease \<Rightarrow> credential_lease \<Rightarrow> bool" where
  "credential_evolves l l' \<longleftrightarrow> same_credential l l' \<and> lease_ahead (kl_status l) (kl_status l') \<and>
     (kl_status l' = kl_status l \<longrightarrow> l' = l) \<and>
     (kl_redeemedAt l \<noteq> None \<longrightarrow> kl_redeemedAt l' = kl_redeemedAt l \<and> kl_redeemedBy l' = kl_redeemedBy l)"

definition same_source :: "source_connection \<Rightarrow> source_connection \<Rightarrow> bool" where
  "same_source c c' \<longleftrightarrow>
     c'\<lparr>sk_active := sk_active c, sk_version := sk_version c, sk_updatedBy := sk_updatedBy c,
        sk_updatedAt := sk_updatedAt c\<rparr> = c"

definition source_evolves :: "source_connection \<Rightarrow> source_connection \<Rightarrow> bool" where
  "source_evolves c c' \<longleftrightarrow> same_source c c' \<and> (\<not> sk_active c \<longrightarrow> c' = c)"

definition credentials_kept :: "'z credential_db_scheme \<Rightarrow> 'z credential_db_scheme \<Rightarrow> bool" where
  "credentials_kept s s' \<longleftrightarrow>
     grows credential_evolves (kr_leases s) (kr_leases s') \<and>
     grows source_evolves (kr_connections s) (kr_connections s')"

lemma same_credential_fields:
  "same_credential l l' \<Longrightarrow> kl_id l' = kl_id l \<and> kl_organizationId l' = kl_organizationId l \<and>
     kl_connectionId l' = kl_connectionId l \<and> kl_provider l' = kl_provider l \<and> kl_repository l' = kl_repository l \<and>
     kl_grantId l' = kl_grantId l \<and> kl_runId l' = kl_runId l \<and> kl_expiresAt l' = kl_expiresAt l"
  by (cases l; cases l') (simp add: same_credential_def)

lemma same_source_fields:
  "same_source c c' \<Longrightarrow> sk_id c' = sk_id c \<and> sk_organizationId c' = sk_organizationId c \<and>
     sk_provider c' = sk_provider c \<and> sk_gitHost c' = sk_gitHost c \<and> sk_repositories c' = sk_repositories c"
  by (cases c; cases c') (simp add: same_source_def)

lemma same_refl [simp]: "same_credential l l" "same_source c c"
  by (simp_all add: same_credential_def same_source_def)

lemma same_trans:
  "same_credential l m \<Longrightarrow> same_credential m n \<Longrightarrow> same_credential l n"
  "same_source c d \<Longrightarrow> same_source d e \<Longrightarrow> same_source c e"
  by (cases l; cases m; cases n; simp add: same_credential_def) (cases c; cases d; cases e; simp add: same_source_def)

lemma evolves_same [simp]: "credential_evolves l l" "source_evolves c c"
  by (simp_all add: credential_evolves_def source_evolves_def lease_ahead_def)

lemma credential_evolves_trans: "credential_evolves l m \<Longrightarrow> credential_evolves m n \<Longrightarrow> credential_evolves l n"
  unfolding credential_evolves_def lease_ahead_def by (auto intro: same_trans)

lemma source_evolves_trans: "source_evolves c d \<Longrightarrow> source_evolves d e \<Longrightarrow> source_evolves c e"
  unfolding source_evolves_def by (auto intro: same_trans)

lemma kept_refl [simp]: "credentials_kept s s"
  by (simp add: credentials_kept_def grows_same)

lemma kept_trans: "credentials_kept s t \<Longrightarrow> credentials_kept t u \<Longrightarrow> credentials_kept s u"
  unfolding credentials_kept_def
  by (auto intro: grows_trans [OF _ _ credential_evolves_trans] grows_trans [OF _ _ source_evolves_trans])

section \<open>Well-formed tables\<close>

text \<open>An active connection of its organization is the only one of its host.\<close>

definition sources_sound :: "source_connection list \<Rightarrow> bool" where
  "sources_sound cs \<longleftrightarrow> distinct (map sk_id cs) \<and>
     (\<forall>c \<in> set cs. \<forall>d \<in> set cs. sk_active c \<longrightarrow> sk_active d \<longrightarrow> sk_organizationId d = sk_organizationId c \<longrightarrow>
        sk_gitHost d = sk_gitHost c \<longrightarrow> d = c)"

text \<open>A lease is for a repository that its connection allows.\<close>

definition lease_backed :: "source_connection list \<Rightarrow> credential_lease \<Rightarrow> bool" where
  "lease_backed cs l \<longleftrightarrow>
     (\<exists>c \<in> set cs. sk_id c = kl_connectionId l \<and> sk_organizationId c = kl_organizationId l \<and>
        sk_provider c = kl_provider l \<and> kl_repository l \<in> set (sk_repositories c))"

definition credentials_sound :: "'z credential_db_scheme \<Rightarrow> bool" where
  "credentials_sound s \<longleftrightarrow>
     sources_sound (kr_connections s) \<and> distinct (map kl_id (kr_leases s)) \<and> distinct (map kl_grantId (kr_leases s)) \<and>
     (\<forall>l \<in> set (kr_leases s). lease_row_valid l = None \<and> lease_backed (kr_connections s) l)"

definition credential_history :: "'z credential_db_scheme \<Rightarrow> 'z credential_db_scheme \<Rightarrow> bool" where
  "credential_history s s' \<longleftrightarrow> credentials_kept s s' \<and> (credentials_sound s \<longrightarrow> credentials_sound s')"

text \<open>The rest of the control plane leaves both tables alone.\<close>

definition credential_quiet :: "'z credential_db_scheme \<Rightarrow> 'z credential_db_scheme \<Rightarrow> bool" where
  "credential_quiet s s' \<longleftrightarrow> kr_leases s' = kr_leases s \<and> kr_connections s' = kr_connections s"

lemma quiet_history: "credential_quiet s s' \<Longrightarrow> credential_history s s'"
  by (simp add: credential_quiet_def credential_history_def credentials_kept_def credentials_sound_def grows_same)

lemma credential_history_trans: "credential_history s t \<Longrightarrow> credential_history t u \<Longrightarrow> credential_history s u"
  by (auto simp: credential_history_def intro: kept_trans)

lemma credential_history_scope: "credential_history (s\<lparr>ss_scope := a\<rparr>) s' \<Longrightarrow> credential_history s (s'\<lparr>ss_scope := b\<rparr>)"
  by (simp add: credential_history_def credentials_kept_def credentials_sound_def)

interpretation credential_time: evolution credential_history
  by unfold_locales (simp add: credential_history_def, rule credential_history_trans)

interpretation credential_time: open_evolution credential_history
  by (unfold_locales; (erule credential_history_scope | rule quiet_history, simp add: credential_quiet_def))

interpretation credential_still: evolution credential_quiet
  by unfold_locales (simp_all add: credential_quiet_def)

interpretation credential_still: open_evolution credential_quiet
  by unfold_locales (simp_all add: credential_quiet_def)

section \<open>The statements\<close>

lemma lease_backed_grows:
  assumes "grows source_evolves cs cs'" and "lease_backed cs l"
  shows "lease_backed cs' l"
proof -
  from assms(2) obtain c where c: "c \<in> set cs" "sk_id c = kl_connectionId l" "sk_organizationId c = kl_organizationId l"
    "sk_provider c = kl_provider l" "kl_repository l \<in> set (sk_repositories c)"
    unfolding lease_backed_def by blast
  from grows_in [OF assms(1) c(1)] obtain c' where "c' \<in> set cs'" "source_evolves c c'" by blast
  with c show ?thesis
    unfolding lease_backed_def by (auto simp: source_evolves_def dest!: same_source_fields)
qed

lemma lease_update_evolves:
  "credential_update_checks s l l' = None \<Longrightarrow> credential_evolves l l' \<and> lease_row_valid l' = None"
  by (cases "kl_status l")
     (auto simp: credential_update_checks_def credential_evolves_def lease_ahead_def split: if_splits)

lemma history_lease_update:
  "relates credential_history (update_rows kr_leases kr_leases_update kl_organizationId credential_update_checks P f)"
proof (rule relatesI)
  fix s n s'
  assume "update_rows kr_leases kr_leases_update kl_organizationId credential_update_checks P f s = Inr (n, s')"
  then obtain sc where s': "s' = kr_leases_update (update_where (\<lambda>l. sees sc (kl_organizationId l) \<and> P l) f) s"
    and ok: "\<And>l. l \<in> set (kr_leases s) \<Longrightarrow> sees sc (kl_organizationId l) \<Longrightarrow> P l \<Longrightarrow>
      credential_update_checks s l (f l) = None"
    by (rule credentials.updateE) blast
  define g where "g = (\<lambda>l. if sees sc (kl_organizationId l) \<and> P l then f l else l)"
  have rows: "kr_leases s' = map g (kr_leases s)" and others: "kr_connections s' = kr_connections s"
    by (simp_all add: s' update_where_def g_def)
  have evolves: "credential_evolves l (g l)" and valid: "lease_row_valid l = None \<Longrightarrow> lease_row_valid (g l) = None"
    if "l \<in> set (kr_leases s)" for l
    using ok [OF that] lease_update_evolves [of s l "f l"] by (auto simp: g_def)
  then have same: "same_credential l (g l)" if "l \<in> set (kr_leases s)" for l
    using that by (simp add: credential_evolves_def)
  have "map kl_id (kr_leases s') = map kl_id (kr_leases s)" "map kl_grantId (kr_leases s') = map kl_grantId (kr_leases s)"
    using same by (auto simp: rows dest!: same_credential_fields)
  moreover have "lease_backed (kr_connections s) (g l)" if "l \<in> set (kr_leases s)" "lease_backed (kr_connections s) l" for l
    using same_credential_fields [OF same [OF that(1)]] that(2) by (simp add: lease_backed_def)
  ultimately have "credentials_sound s \<longrightarrow> credentials_sound s'"
    using valid by (auto simp: credentials_sound_def others) (auto simp: rows)
  moreover have "grows credential_evolves (kr_leases s) (kr_leases s')"
    using evolves by (simp add: grows_def rows)
  ultimately show "credential_history s s'"
    by (simp add: credential_history_def credentials_kept_def others grows_same)
qed

lemma history_source_insert:
  "relates credential_history (insert_row kr_connections_update sk_organizationId source_checks c)"
proof (rule relatesI)
  fix s u s'
  assume "insert_row kr_connections_update sk_organizationId source_checks c s = Inr (u, s')"
  then have ok: "source_checks s c = None" and s': "s' = kr_connections_update (\<lambda>cs. cs @ [c]) s"
    by (auto simp: sources.insert_Inr)
  have new: "sk_id c \<notin> sk_id ` set (kr_connections s)" and alone: "\<not> active_elsewhere s c"
    using ok by (auto simp: source_checks_def source_keys_def split: option.splits if_splits)
  have grown: "grows source_evolves (kr_connections s) (kr_connections s')"
    by (simp add: s' grows_append)
  have "d = c" if "sk_active c" "sk_active d" "d \<in> set (kr_connections s)" "sk_organizationId d = sk_organizationId c"
      "sk_gitHost d = sk_gitHost c" for d
    using that new alone unfolding active_elsewhere_def image_iff by metis
  then have "sources_sound (kr_connections s) \<longrightarrow> sources_sound (kr_connections s')"
    using new by (auto simp: sources_sound_def s')
  then show "credential_history s s'"
    using grown lease_backed_grows [OF grown]
    by (auto simp: credential_history_def credentials_kept_def credentials_sound_def s' grows_same)
qed

lemma history_source_update:
  "relates credential_history (update_rows kr_connections kr_connections_update sk_organizationId source_update_checks P f)"
proof (rule relatesI)
  fix s n s'
  assume "update_rows kr_connections kr_connections_update sk_organizationId source_update_checks P f s = Inr (n, s')"
  then obtain sc where s': "s' = kr_connections_update (update_where (\<lambda>c. sees sc (sk_organizationId c) \<and> P c) f) s"
    and ok: "\<And>c. c \<in> set (kr_connections s) \<Longrightarrow> sees sc (sk_organizationId c) \<Longrightarrow> P c \<Longrightarrow>
      source_update_checks s c (f c) = None"
    by (rule sources.updateE) blast
  define g where "g = (\<lambda>c. if sees sc (sk_organizationId c) \<and> P c then f c else c)"
  have rows: "kr_connections s' = map g (kr_connections s)"
    by (simp add: s' update_where_def g_def)
  have one: "source_evolves c (f c) \<and> sk_active c" if "source_update_checks s c (f c) = None" for c
    using that unfolding source_update_checks_def source_evolves_def same_source_def by (metis option.distinct(1))
  have evolves: "source_evolves c (g c)" and active: "sk_active (g c) \<Longrightarrow> sk_active c" if "c \<in> set (kr_connections s)" for c
    unfolding g_def using one [OF ok [OF that]] by (simp_all split: if_splits)
  then have fields: "sk_id (g c) = sk_id c" "sk_organizationId (g c) = sk_organizationId c" "sk_gitHost (g c) = sk_gitHost c"
    if "c \<in> set (kr_connections s)" for c
    using that same_source_fields [of c "g c"] unfolding source_evolves_def by blast+
  then have ids: "map sk_id (kr_connections s') = map sk_id (kr_connections s)" by (simp add: rows)
  have alone: "g d = g c" if "sources_sound (kr_connections s)" "c \<in> set (kr_connections s)" "d \<in> set (kr_connections s)"
      "sk_active (g c)" "sk_active (g d)" "sk_organizationId (g d) = sk_organizationId (g c)"
      "sk_gitHost (g d) = sk_gitHost (g c)" for c d
    using that(1) active [OF that(2,4)] active [OF that(3,5)] that(2,3,6,7) fields [OF that(2)] fields [OF that(3)]
    unfolding sources_sound_def by metis
  have "sources_sound (kr_connections s')" if "sources_sound (kr_connections s)"
    using alone [OF that] that unfolding sources_sound_def [of "kr_connections s'"] ids
    by (auto simp: rows) (simp add: sources_sound_def)
  moreover have grown: "grows source_evolves (kr_connections s) (kr_connections s')"
    using evolves by (simp add: grows_def rows)
  ultimately show "credential_history s s'"
    using lease_backed_grows [OF grown]
    by (auto simp: credential_history_def credentials_kept_def credentials_sound_def s' grows_same)
qed

section \<open>Issuing a lease\<close>

lemma allowed_repository_in: "allowed_repository w u c = Some n \<Longrightarrow> n \<in> set (sk_repositories c)"
  by (auto simp: allowed_repository_def split: option.splits dest: find_Some_set)

lemma forRepository_found:
  assumes "forRepository w org url s = Inr (Some (c, n), s')"
  shows "s' = s \<and> c \<in> set (kr_connections s) \<and> sk_organizationId c = org \<and> sk_active c \<and>
    allowed_repository w url c = Some n"
  using assms
  by (auto simp: forRepository_def andThen_Inr map_option_case split: option.splits dest: select_one_found)

lemma forRepository_state: "forRepository w org url s = Inr (found, s') \<Longrightarrow> s' = s"
  by (auto simp: forRepository_def andThen_Inr select_one_Inr split: option.splits)

text \<open>No lease, or one new lease for a repository an active connection allows.\<close>

lemma issue_lease_cases:
  assumes "issue_lease env q url ref s = Inr (k, s')"
  obtains (anonymous) "k = None" "s' = s"
  | (leased) c n i where
      "k = Some \<lparr>gk_leaseId = i, gk_provider = source_name (sk_provider c), gk_gitHost = sk_gitHost c\<rparr>"
      "c \<in> set (kr_connections s)" "sk_organizationId c = rn_organizationId (lr_run q)" "sk_active c"
      "allowed_repository (be_web env) url c = Some n" "lr_nowMs q < lease_expiry env q"
      "credential_checks (s\<lparr>ss_drawn := Suc (ss_drawn s)\<rparr>) (new_credential q c n url ref i (lease_expiry env q)) = None"
      "kr_leases s' = kr_leases s @ [new_credential q c n url ref i (lease_expiry env q)]"
      "kr_connections s' = kr_connections s"
proof -
  from assms obtain found where found: "forRepository (be_web env) (rn_organizationId (lr_run q)) url s = Inr (found, s)"
    and rest: "(case found of None \<Rightarrow> ret None | Some (c, n) \<Rightarrow>
          andThen randomUUID (\<lambda>id'.
          andThen (demand (lr_nowMs q < lease_expiry env q) (Refused 409 ''GRANT_EXPIRED'')) (\<lambda>_.
          andThen (insert_row kr_leases_update kl_organizationId credential_checks
             (new_credential q c n url ref id' (lease_expiry env q))) (\<lambda>_.
          andThen (lease_audit (rn_agentId (lr_run q)) ''credential.lease.issued''
             (new_credential q c n url ref id' (lease_expiry env q))
             [(''connectionId'', JStr (sk_id c)), (''provider'', JStr (source_name (sk_provider c))),
              (''repository'', JStr n), (''ref'', JStr ref), (''grantId'', JStr (lr_grantId q)),
              (''expiresAt'', JNum (lease_expiry env q))]) (\<lambda>_.
          ret (Some \<lparr>gk_leaseId = id', gk_provider = source_name (sk_provider c), gk_gitHost = sk_gitHost c\<rparr>)))))) s
        = Inr (k, s')"
    unfolding issue_lease_def Let_def andThen_Inr [of "forRepository w org u" for w org u]
    using forRepository_state by (elim exE conjE) blast
  show thesis
  proof (cases found)
    case None
    with rest show thesis by (auto intro: anonymous)
  next
    case (Some cn)
    then obtain c n where cn: "found = Some (c, n)" by (cases cn) auto
    define i where "i = ss_entropy s (ss_drawn s)"
    let ?l = "new_credential q c n url ref i (lease_expiry env q)"
    from rest obtain t x where ins: "insert_row kr_leases_update kl_organizationId credential_checks ?l
        (s\<lparr>ss_drawn := Suc (ss_drawn s)\<rparr>) = Inr (x, t)"
      and aud: "\<exists>y. lease_audit (rn_agentId (lr_run q)) ''credential.lease.issued'' ?l
             [(''connectionId'', JStr (sk_id c)), (''provider'', JStr (source_name (sk_provider c))),
              (''repository'', JStr n), (''ref'', JStr ref), (''grantId'', JStr (lr_grantId q)),
              (''expiresAt'', JNum (lease_expiry env q))] t = Inr (y, s')"
      and k: "k = Some \<lparr>gk_leaseId = i, gk_provider = source_name (sk_provider c), gk_gitHost = sk_gitHost c\<rparr>"
      and time: "lr_nowMs q < lease_expiry env q"
      by (auto simp: cn andThen_Inr i_def)
    from aud have "credential_quiet t s'"
      unfolding lease_audit_def by (auto dest: relatesD [OF credential_still.audit_row_R])
    with ins forRepository_found [OF found [unfolded cn]] k time show thesis
      by (intro leased [of i c n]) (auto simp: credentials.insert_Inr credential_quiet_def)
  qed
qed

lemma history_issue: "relates credential_history (issue_lease env q url ref)"
proof (rule relatesI)
  fix s k s'
  assume "issue_lease env q url ref s = Inr (k, s')"
  then show "credential_history s s'"
  proof (cases rule: issue_lease_cases)
    case (leased c n i)
    let ?l = "new_credential q c n url ref i (lease_expiry env q)"
    from leased(7) have fresh: "lease_row_valid ?l = None" "i \<notin> kl_id ` set (kr_leases s)"
      "lr_grantId q \<notin> kl_grantId ` set (kr_leases s)"
      by (auto simp: credential_checks_def new_credential_def split: option.splits)
    moreover have "lease_backed (kr_connections s) ?l"
      using leased(2,3) allowed_repository_in [OF leased(5)]
      unfolding lease_backed_def by (intro bexI [of _ c]) (simp_all add: new_credential_def)
    moreover have "kl_id ?l = i" "kl_grantId ?l = lr_grantId q" by (simp_all add: new_credential_def)
    ultimately show ?thesis
      using leased(8,9)
      by (auto simp: credential_history_def credentials_kept_def credentials_sound_def grows_append grows_same)
  qed (simp add: credential_time.evolution_refl)
qed

section \<open>The operations\<close>

locale credential_evolution = reading R
  for R :: "'z credential_db_scheme \<Rightarrow> 'z credential_db_scheme \<Rightarrow> bool" +
  assumes event_R: "R s (ac_audit_update (\<lambda>as. as @ [a]) s)"
    and lease_update_R: "relates R (update_rows kr_leases kr_leases_update kl_organizationId credential_update_checks P f)"
    and issue_R: "relates R (issue_lease env q url ref)"
    and source_insert_R: "relates R (insert_row kr_connections_update sk_organizationId source_checks c)"
    and source_update_R:
      "relates R (update_rows kr_connections kr_connections_update sk_organizationId source_update_checks P' f')"
begin

declare lease_update_R [bounded] issue_R [bounded] source_insert_R [bounded] source_update_R [bounded]

lemma event_row_R [bounded]: "relates R (audit actor type rtype rid metadata org)"
  unfolding audit_def by (intro bounded) (auto intro!: relatesI event_R simp: audits.insert_Inr)

lemma lease_rows_R [bounded]:
  "relates R (lease_audit actor event l details)" "relates R (transition l m n)" "relates R (lease_row org i)"
  "relates R (get_source org i)" "relates R (forRepository w org url)" "relates R (must row)"
  unfolding lease_audit_def transition_def lease_row_def get_source_def forRepository_def must_def
  by (intro bounded)+

lemma leaseForCheckout_R [bounded]: "relates R (leaseForCheckout env q)"
  unfolding leaseForCheckout_def by (cases "lr_operation q"; simp only: operation.case; intro bounded)

lemma refuse_lease_R [bounded]: "relates R (refuse_lease rt l n code status revoke)"
  unfolding refuse_lease_def by (intro bounded)

lemma use_lease_R [bounded]: "relates R (use_lease env rt g n l)"
  unfolding use_lease_def run_active_def current_source_def lease_of_def by (intro bounded)

lemma redeem_lease_R [bounded]: "relates R (redeem_lease env rt i g n)"
proof -
  have "relates R (case kl_status l of
            KlREVOKED \<Rightarrow> refuse_lease rt l n ''CREDENTIAL_LEASE_REVOKED'' 409 False
          | KlEXPIRED \<Rightarrow> refuse_lease rt l n ''CREDENTIAL_LEASE_EXPIRED'' 409 False
          | KlISSUED \<Rightarrow>
              if kl_expiresAt l \<le> n
              then andThen (transition l ToExpired n) (\<lambda>_. refuse_lease rt l n ''CREDENTIAL_LEASE_EXPIRED'' 409 False)
              else use_lease env rt g n l
          | _ \<Rightarrow> refuse_lease rt l n ''CREDENTIAL_LEASE_ALREADY_USED'' 409 True)" for l
    by (cases "kl_status l"; simp only: credential_status.case; intro bounded)
  then show ?thesis unfolding redeem_lease_def by (intro bounded)
qed

lemma lease_ends_R [bounded]:
  "relates R (revoke_live org i by reason)" "relates R (release_lease rt org rq n)" "relates R (revoke_by_admin a i)"
  "relates R (revoke_leases org runId reason)" "relates R (expire_leases n)" "relates R (lease_organization i)"
  "relates R (list_leases a)"
  unfolding revoke_live_def release_lease_def revoke_by_admin_def revoke_leases_def expire_leases_def
    lease_organization_def list_leases_def
  by (intro bounded)+

lemma sources_R [bounded]:
  "relates R (insert_source a inp url)" "relates R (disable_source a i version)" "relates R (list_sources a)"
  unfolding insert_source_def disable_source_def list_sources_def by (intro bounded)+

lemma create_source_R [bounded]: "relates R (create_source w anywhere a raw)"
  unfolding create_source_def by (intro bounded)

end

interpretation credential_time: credential_evolution credential_history
  by unfold_locales
     (rule credential_time.audit_R history_lease_update history_issue history_source_insert history_source_update)+

end
