(* ===== verification/CredentialSteps.thy ===== *)
theory CredentialSteps
  imports CredentialHistory
begin

text \<open>
  The credential broker beside the rest of the control plane: it keeps the laws that the Action
  Gateway, the execution service and the runtime transport rely on, and with the connection service
  it is a step relation whose every step obeys \<open>credential_history\<close>.
\<close>

section \<open>What the rest of the control plane sees\<close>

text \<open>
  A relation that looks at neither table, nor at the audit log beyond its growth, holds of every
  operation on credentials.
\<close>

locale credential_frame = reading R
  for R :: "'z credential_db_scheme \<Rightarrow> 'z credential_db_scheme \<Rightarrow> bool" +
  assumes logged_R: "R s (ac_audit_update (\<lambda>as. as @ [a]) s)"
    and leases_put_R: "R s (kr_leases_update f s)" and connections_put_R: "R s (kr_connections_update g s)"
begin

lemma log_frame_R: "relates R (audit actor type rtype rid metadata org)"
  unfolding audit_def by (intro bounded) (auto intro!: relatesI logged_R simp: audits.insert_Inr)

lemma issue_frame_R: "relates R (issue_lease env q url ref)"
  unfolding issue_lease_def lease_audit_def forRepository_def Let_def
  by (intro log_frame_R bounded inserted_R leases_put_R)

end

sublocale credential_frame < frame: credential_evolution R
  by unfold_locales (intro logged_R issue_frame_R inserted_R updated_R leases_put_R connections_put_R)+

text \<open>The law the broker owes the Action Gateway: it leaves runs and actions alone.\<close>

interpretation apart: credential_frame apart
  by unfold_locales (auto simp: apart_def exec_frame_def action_tables_def)

interpretation unseen: credential_frame tp_quiet
  by unfold_locales (simp_all add: tp_quiet_def)

text \<open>\<open>onRunStopped\<close> of the control plane (\<open>database.ts\<close>): credentials are revoked, checkpoints dropped.\<close>

fun run_status_name :: "run_status \<Rightarrow> string" where
  "run_status_name QUEUED = ''QUEUED''"
| "run_status_name RUNNING = ''RUNNING''"
| "run_status_name WAITING_FOR_APPROVAL = ''WAITING_FOR_APPROVAL''"
| "run_status_name COMPLETED = ''COMPLETED''"
| "run_status_name FAILED = ''FAILED''"
| "run_status_name CANCELLED = ''CANCELLED''"

definition on_run_stopped :: "string \<Rightarrow> string \<Rightarrow> run_status \<Rightarrow> ('z credential_db_scheme, unit) op" where
  "on_run_stopped org runId st =
     andThen (revoke_leases org runId (''RUN_'' @ run_status_name st)) (\<lambda>_. deleteForRun org runId)"

lemma stopped_apart: "relates apart (on_run_stopped org runId st)"
proof -
  have "relates apart (deleteForRun org runId :: ('z credential_db_scheme, unit) op)"
    by (auto intro!: relatesI simp: deleteForRun_def andThen_Inr checkpoints.delete_Inr apart_def exec_frame_def action_tables_def)
  then show ?thesis unfolding on_run_stopped_def by (intro bounded)
qed

text \<open>The gateway with the broker behind it, and the execution service with that hook.\<close>

definition with_broker :: "broker_env \<Rightarrow> 'z credential_db_ext transport_db_ext spending_db_ext gateway_env \<Rightarrow>
    'z credential_db_ext transport_db_ext spending_db_ext gateway_env" where
  "with_broker be env = env\<lparr>gw_leaseForCheckout := Some (leaseForCheckout be),
     gw_execution := (gw_execution env)\<lparr>en_onRunStopped := Some on_run_stopped\<rparr>\<rparr>"

lemma with_broker_services:
  fixes env :: "'z credential_db_ext transport_db_ext spending_db_ext gateway_env"
  assumes "gateway_services env"
  shows "gateway_services (with_broker be env)"
proof (intro gateway_services.intro gateway_services_axioms.intro execution_hooks.intro)
  note hooks = gateway_services.axioms(1) [OF assms]
  show "relates exec_frame (en_loadManifest (gw_execution (with_broker be env)) a org e)" for a org e
    using execution_hooks.manifest_frame [OF hooks] by (simp add: with_broker_def)
  show "relates exec_frame (f m w)" if "en_resolveWorkflow (gw_execution (with_broker be env)) = Some f" for f m w
    using execution_hooks.workflow_frame [OF hooks] that by (simp add: with_broker_def)
  show "relates apart (h org i st)" if "en_onRunStopped (gw_execution (with_broker be env)) = Some h" for h org i st
    using stopped_apart that by (simp add: with_broker_def)
  then show "relates exec_frame (h org i st)" if "en_onRunStopped (gw_execution (with_broker be env)) = Some h" for h org i st
    using that by (auto simp: relates_def apart_def)
  show "relates exec_frame (g org i a)" if "en_registerArtifact (gw_execution (with_broker be env)) = Some g" for g org i a
    using execution_hooks.artifact_frame [OF hooks] that by (simp add: with_broker_def)
  show "relates exec_frame (m org c content)" if "en_conversationMessage (gw_execution (with_broker be env)) = Some m"
    for m org c content
    using execution_hooks.message_frame [OF hooks] that by (simp add: with_broker_def)
  show "relates apart (m org c content)" if "en_conversationMessage (gw_execution (with_broker be env)) = Some m"
    for m org c content
    using gateway_services.message_apart [OF assms] that by (simp add: with_broker_def)
  show "relates apart (gw_loadManifest (with_broker be env) a org e)" for a org e
    using gateway_services.manifest_apart [OF assms] by (simp add: with_broker_def)
  show "relates apart (gw_bundle (with_broker be env) bp v)" for bp v
    using gateway_services.bundle_apart [OF assms] by (simp add: with_broker_def)
  show "relates apart (l request)" if "gw_leaseForCheckout (with_broker be env) = Some l" for l request
    using apart.frame.leaseForCheckout_R that by (auto simp: with_broker_def)
qed

interpretation wired: gateway_services
  "with_broker be (bare_gateway (bare_service h o' i ms) wb hash redact manifests bundles secrets sign)"
  by (rule with_broker_services [OF bare_gateway_services])

section \<open>Steps\<close>

text \<open>
  Whatever an operation does to the database: \<open>carries\<close> bounds a call by a relation on the broker's
  states, whether it succeeds or fails.
\<close>

definition carries :: "('z credential_db_scheme \<Rightarrow> 'z credential_db_scheme \<Rightarrow> bool) \<Rightarrow> ('z broker, 'a) call \<Rightarrow> bool" where
  "carries R c \<longleftrightarrow> (\<forall>b. R (bk_db b) (bk_db (snd (c b))))"

lemma carriesD: "carries R c \<Longrightarrow> c b = (r, b') \<Longrightarrow> R (bk_db b) (bk_db b')"
  unfolding carries_def by (metis snd_conv)

locale carrying = evolution R
  for R :: "'z credential_db_scheme \<Rightarrow> 'z credential_db_scheme \<Rightarrow> bool"
begin

lemma carries_committed: "relates R m \<Longrightarrow> carries R (committed m)"
  by (auto simp: carries_def committed_def evolution_refl relates_def split: sum.split)

lemma carries_steps:
  "carries R (answer x)" "carries R (fail e)" "carries R (withdraw i)" "carries R (remember i)"
  by (simp_all add: carries_def answer_def fail_def withdraw_def remember_def evolution_refl)

lemma carries_followedBy: "carries R c \<Longrightarrow> (\<And>x. carries R (f x)) \<Longrightarrow> carries R (followedBy c f)"
  unfolding carries_def followedBy_def
  by (auto split: prod.split sum.split intro: evolution_trans) (metis evolution_trans snd_conv)+

lemma carries_finally: "carries R c \<Longrightarrow> carries R d \<Longrightarrow> carries R (finally_do c d)"
  unfolding carries_def finally_do_def
  by (auto split: prod.split sum.split) (metis evolution_trans snd_conv)+

lemma carries_withdraw_all: "carries R (withdraw_all js)"
  by (induction js) (simp_all add: carries_steps carries_followedBy)

lemma carries_cases:
  "carries R c \<Longrightarrow> carries R d \<Longrightarrow> carries R (if p then c else d)"
  "carries R c \<Longrightarrow> (\<And>x. carries R (f x)) \<Longrightarrow> carries R (case v of None \<Rightarrow> c | Some x \<Rightarrow> f x)"
  "(\<And>x. carries R (g x)) \<Longrightarrow> (\<And>y. carries R (h y)) \<Longrightarrow> carries R (case w of Inl x \<Rightarrow> g x | Inr y \<Rightarrow> h y)"
  "(\<And>x y. carries R (k x y)) \<Longrightarrow> carries R (case q of (x, y) \<Rightarrow> k x y)"
  by (auto split: option.split sum.split prod.split)

end

sublocale credential_evolution < calls: carrying R
  by unfold_locales

context credential_evolution
begin

lemmas call_rules = calls.carries_followedBy calls.carries_finally calls.carries_withdraw_all calls.carries_cases
  calls.carries_steps calls.carries_committed

lemma hand_out_carries: "carries R (hand_out env rt org i cl)"
  unfolding hand_out_def revokeLease_def by (intro call_rules bounded)

lemma redeem_carries: "carries R (redeem env rt body)"
  unfolding redeem_def Let_def by (intro call_rules hand_out_carries bounded)

lemma ends_carry:
  "carries R (release env rt body)" "carries R (revoke_credential a i)" "carries R (revokeForRun org runId reason)"
  "carries R expire_credentials"
  unfolding release_def revoke_credential_def revokeForRun_def expire_credentials_def
  by (intro call_rules bounded)+

end

text \<open>
  Everything that writes credentials, in any order, interleaved with the rest of the control plane;
  each operation whatever it was constructed with, and whether it succeeds or fails.
\<close>

inductive credential_step :: "'z broker \<Rightarrow> 'z broker \<Rightarrow> bool" where
  redeems: "redeem env rt body b = (r, b') \<Longrightarrow> credential_step b b'"
| releases: "release env rt body b = (r, b') \<Longrightarrow> credential_step b b'"
| revokes: "revoke_credential a i b = (r, b') \<Longrightarrow> credential_step b b'"
| stops: "revokeForRun org runId reason b = (r, b') \<Longrightarrow> credential_step b b'"
| expires: "expire_credentials b = (r, b') \<Longrightarrow> credential_step b b'"
| issues: "leaseForCheckout env q (bk_db b) = Inr (k, s') \<Longrightarrow> credential_step b (b\<lparr>bk_db := s'\<rparr>)"
| connects: "create_source w anywhere a raw (bk_db b) = Inr (c, s') \<Longrightarrow> credential_step b (b\<lparr>bk_db := s'\<rparr>)"
| disables: "disable_source a i version (bk_db b) = Inr (c, s') \<Longrightarrow> credential_step b (b\<lparr>bk_db := s'\<rparr>)"
| elsewhere: "credential_quiet (bk_db b) s' \<Longrightarrow> credential_step b (b\<lparr>bk_db := s'\<rparr>)"

inductive_cases credential_stepE: "credential_step b b'"

inductive credential_steps :: "'z broker \<Rightarrow> 'z broker \<Rightarrow> bool" where
  none: "credential_steps b b"
| more: "credential_steps b c \<Longrightarrow> credential_step c d \<Longrightarrow> credential_steps b d"

definition credential_reachable :: "'z broker \<Rightarrow> bool" where
  "credential_reachable b \<longleftrightarrow>
     (\<exists>b0. kr_leases (bk_db b0) = [] \<and> kr_connections (bk_db b0) = [] \<and> bk_outstanding b0 = [] \<and> credential_steps b0 b)"

lemma credential_step_history:
  assumes "credential_step b b'"
  shows "credential_history (bk_db b) (bk_db b')"
  using assms
proof cases
  case (redeems env rt body r)
  then show ?thesis using carriesD [OF credential_time.redeem_carries] by blast
next
  case (releases env rt body r)
  then show ?thesis using carriesD [OF credential_time.ends_carry(1)] by blast
next
  case (revokes a i r)
  then show ?thesis using carriesD [OF credential_time.ends_carry(2)] by blast
next
  case (stops org runId reason r)
  then show ?thesis using carriesD [OF credential_time.ends_carry(3)] by blast
next
  case (expires r)
  then show ?thesis using carriesD [OF credential_time.ends_carry(4)] by blast
next
  case (issues env q k s')
  then show ?thesis using relatesD [OF credential_time.leaseForCheckout_R] by simp
next
  case (connects w anywhere a raw c s')
  then show ?thesis using relatesD [OF credential_time.create_source_R] by simp
next
  case (disables a i version c s')
  then show ?thesis using relatesD [OF credential_time.sources_R(2)] by simp
next
  case (elsewhere s')
  then show ?thesis by (simp add: quiet_history)
qed

lemma credential_steps_history:
  "credential_steps b b' \<Longrightarrow> credential_history (bk_db b) (bk_db b')"
  by (induction rule: credential_steps.induct)
     (auto intro: credential_time.evolution_refl credential_history_trans credential_step_history)

lemma credential_steps_trans: "credential_steps b c \<Longrightarrow> credential_steps c d \<Longrightarrow> credential_steps b d"
  by (rotate_tac, induction c d rule: credential_steps.induct) (auto intro: credential_steps.more)

end
