(* ===== verification/CredentialProperties.thy ===== *)
theory CredentialProperties
  imports CredentialSteps
begin

text \<open>
  What the credential broker promises: a credential is handed out once, only to an execution runtime
  with the signed grant of a run that is still under way; leases only move forward; what was handed
  out is withdrawn when its lease is ended; and a grant names a lease that is bound to it.
\<close>

section \<open>Calls taken apart\<close>

lemma call_Inr:
  "answer x b = (Inr y, b') \<longleftrightarrow> y = x \<and> b' = b"
  "fail e b \<noteq> (Inr y, b')"
  "followedBy c f b = (Inr z, b'') \<longleftrightarrow> (\<exists>x b'. c b = (Inr x, b') \<and> f x b' = (Inr z, b''))"
  "committed m b = (Inr y, b') \<longleftrightarrow> (\<exists>s. m (bk_db b) = Inr (y, s) \<and> b' = b\<lparr>bk_db := s\<rparr>)"
  by (auto simp: answer_def fail_def followedBy_def committed_def split: prod.splits sum.splits)

lemma call_Inl:
  "answer x b \<noteq> (Inl e, b')"
  "fail e' b = (Inl e, b') \<longleftrightarrow> e = e' \<and> b' = b"
  "followedBy c f b = (Inl e, b'') \<longleftrightarrow>
     c b = (Inl e, b'') \<or> (\<exists>x b'. c b = (Inr x, b') \<and> f x b' = (Inl e, b''))"
  "committed m b = (Inl e, b') \<longleftrightarrow> m (bk_db b) = Inl e \<and> b' = b"
  by (auto simp: answer_def fail_def followedBy_def committed_def split: prod.splits sum.splits)

lemma lease_audit_quiet: "lease_audit actor event l details s = Inr (u, s') \<Longrightarrow> credential_quiet s s'"
  unfolding lease_audit_def by (rule relatesD [OF credential_still.audit_row_R])

lemma lease_row_found:
  "lease_row org i s = Inr (Some l, s') \<Longrightarrow> s' = s \<and> l \<in> set (kr_leases s) \<and> kl_id l = i \<and> kl_organizationId l = org"
  unfolding lease_row_def by (auto dest: select_one_found)

lemma lease_row_state: "lease_row org i s = Inr (row, s') \<Longrightarrow> s' = s"
  by (auto simp: lease_row_def select_one_Inr)

lemma refuse_lease_Inl: "refuse_lease rt l n code status revoke s = Inr (r, s') \<Longrightarrow> \<exists>x. r = Inl x"
  by (auto simp: refuse_lease_def andThen_Inr)

section \<open>A redemption\<close>

lemma presented_Inr:
  assumes "presented env rt body = Inr (i, g)"
  shows "ri_role rt = ExecutionRuntime \<and> be_verifyGrant env g \<and> map_option gk_leaseId (pg_credential g) = Some i \<and>
    pg_operationKind g = ''git.checkout'' \<and> servesOrganization rt (gc_organizationId (pg_correlation g))"
  using assms by (auto simp: presented_def split: if_splits sum.splits prod.splits option.splits)

lemma run_active_True:
  assumes "run_active org i s = Inr (True, s')"
  shows "s' = s \<and> (\<exists>r \<in> set (ex_runs s). rn_id r = i \<and> rn_organizationId r = org \<and> rn_status r = RUNNING) \<and>
    (\<exists>h \<in> set (tp_leases s). ls_runId h = i \<and> ls_state h = LeaseACTIVE)"
proof -
  from assms obtain run held t where run: "select_one ex_runs rn_organizationId (\<lambda>r. rn_id r = i \<and> rn_organizationId r = org) s = Inr (run, t)"
    and held: "lease_of i t = Inr (held, s')" and ok: "map_option rn_status run = Some RUNNING" "map_option ls_state held = Some LeaseACTIVE"
    by (auto simp: run_active_def andThen_Inr)
  from ok obtain r h where r: "run = Some r" "rn_status r = RUNNING" "held = Some h" "ls_state h = LeaseACTIVE"
    by (cases run; cases held) auto
  from select_one_found [OF run [unfolded r]] select_one_found [OF held [unfolded r lease_of_def]] r show ?thesis by auto
qed

lemma current_source_Some:
  assumes "current_source env org l s = Inr (Some c, s')"
  shows "s' = s \<and> c \<in> set (kr_connections s) \<and> sk_id c = kl_connectionId l \<and> sk_organizationId c = org \<and> sk_active c \<and>
    (\<exists>d \<in> set (kr_connections s). sk_id d = sk_id c \<and> allowed_repository (be_web env) (kl_repositoryUrl l) d = Some (kl_repository l))"
proof -
  from assms obtain row found t where row: "get_source org (kl_connectionId l) s = Inr (row, t)"
    and found: "forRepository (be_web env) org (kl_repositoryUrl l) t = Inr (found, s')"
    and both: "(case (row, found) of (Some c, Some (d, repository)) \<Rightarrow>
        if sk_active c \<and> sk_id d = sk_id c \<and> repository = kl_repository l then Some c else None | _ \<Rightarrow> None) = Some c"
    by (auto simp: current_source_def andThen_Inr)
  from both obtain d where d: "row = Some c" "found = Some (d, kl_repository l)" "sk_active c" "sk_id d = sk_id c"
    by (auto split: option.splits if_splits)
  from select_one_found [OF row [unfolded d get_source_def]] forRepository_found [OF found [unfolded d]] d
  show ?thesis by auto
qed

lemma transition_moves:
  assumes "transition l m n s = Inr (u, s')" and "l \<in> set (kr_leases s)" and "kl_status l \<in> set (moves_from m)"
    and "ss_scope s = Some sc" and "sees sc (kl_organizationId l)"
  shows "moved_lease m n l \<in> set (kr_leases s') \<and> kr_connections s' = kr_connections s"
  using assms by (auto simp: transition_def andThen_Inr credentials.update_Inr set_update_where image_iff)

text \<open>What was found of a lease that was redeemed, and what became of it.\<close>

definition redeemed_as :: "credential_lease \<Rightarrow> runtime_identity \<Rightarrow> int \<Rightarrow> credential_lease" where
  "redeemed_as l rt n = moved_lease (ToRedeemed (ri_id rt)) n l"

lemma redeem_lease_success:
  assumes "redeem_lease env rt i g n s = Inr (Inr (c, l), s')"
  shows "l \<in> set (kr_leases s) \<and> kl_id l = i \<and> kl_organizationId l = gc_organizationId (pg_correlation g) \<and>
    kl_status l = KlISSUED \<and> n < kl_expiresAt l \<and> bound_to_grant l g \<and>
    (\<exists>r \<in> set (ex_runs s). rn_id r = kl_runId l \<and> rn_organizationId r = kl_organizationId l \<and> rn_status r = RUNNING) \<and>
    (\<exists>h \<in> set (tp_leases s). ls_runId h = kl_runId l \<and> ls_state h = LeaseACTIVE) \<and>
    c \<in> set (kr_connections s) \<and> sk_id c = kl_connectionId l \<and> sk_organizationId c = kl_organizationId l \<and> sk_active c \<and>
    (\<exists>d \<in> set (kr_connections s). sk_id d = sk_id c \<and> allowed_repository (be_web env) (kl_repositoryUrl l) d = Some (kl_repository l)) \<and>
    redeemed_as l rt n \<in> set (kr_leases s')"
proof -
  from assms obtain row t where row: "lease_row (gc_organizationId (pg_correlation g)) i s = Inr (row, t)"
    and rest: "(case row of None \<Rightarrow> ret (Inl (''CREDENTIAL_LEASE_UNKNOWN'', 404))
     | Some l \<Rightarrow>
         (case kl_status l of
            KlREVOKED \<Rightarrow> refuse_lease rt l n ''CREDENTIAL_LEASE_REVOKED'' 409 False
          | KlEXPIRED \<Rightarrow> refuse_lease rt l n ''CREDENTIAL_LEASE_EXPIRED'' 409 False
          | KlISSUED \<Rightarrow>
              if kl_expiresAt l \<le> n
              then andThen (transition l ToExpired n) (\<lambda>_.
                refuse_lease rt l n ''CREDENTIAL_LEASE_EXPIRED'' 409 False)
              else use_lease env rt g n l
          | _ \<Rightarrow> refuse_lease rt l n ''CREDENTIAL_LEASE_ALREADY_USED'' 409 True)) t = Inr (Inr (c, l), s')"
    unfolding redeem_lease_def andThen_Inr by blast
  have scope: "\<exists>sc. ss_scope s = Some sc \<and> (\<forall>k. row = Some k \<longrightarrow> sees sc (kl_organizationId k))"
    using row by (auto simp: lease_row_def select_one_Inr dest: find_Some_set)
  from rest obtain k where k: "row = Some k" "kl_status k = KlISSUED" "n < kl_expiresAt k"
    and "use": "use_lease env rt g n k t = Inr (Inr (c, l), s')"
    by (cases row; auto simp: andThen_Inr split: credential_status.splits if_splits dest!: refuse_lease_Inl)
  from "use" have bound: "bound_to_grant k g" by (auto simp: use_lease_def split: if_splits dest: refuse_lease_Inl)
  with "use" obtain running t1 where running: "run_active (kl_organizationId k) (kl_runId k) t = Inr (running, t1)"
    and rest1: "(if \<not> running then refuse_lease rt k n ''CREDENTIAL_RUN_NOT_ACTIVE'' 409 True
        else
          andThen (current_source env (kl_organizationId k) k) (\<lambda>connection.
          case connection of
            None \<Rightarrow> refuse_lease rt k n ''CREDENTIAL_CONNECTION_INACTIVE'' 409 True
          | Some c \<Rightarrow>
              andThen (transition k (ToRedeemed (ri_id rt)) n) (\<lambda>_.
              andThen (lease_audit (ri_id rt) ''credential.lease.redeemed'' k [(''grantId'', JStr (pg_grantId g))]) (\<lambda>_.
              ret (Inr (c, k)))))) t1 = Inr (Inr (c, l), s')"
    by (auto simp: use_lease_def andThen_Inr [of "run_active x y" for x y])
  from rest1 have yes: "running = True" by (auto split: if_splits dest: refuse_lease_Inl)
  note active = run_active_True [OF running [unfolded yes]]
  from rest1 yes obtain connection t2 where current: "current_source env (kl_organizationId k) k t1 = Inr (connection, t2)"
    and rest2: "(case connection of
            None \<Rightarrow> refuse_lease rt k n ''CREDENTIAL_CONNECTION_INACTIVE'' 409 True
          | Some c \<Rightarrow>
              andThen (transition k (ToRedeemed (ri_id rt)) n) (\<lambda>_.
              andThen (lease_audit (ri_id rt) ''credential.lease.redeemed'' k [(''grantId'', JStr (pg_grantId g))]) (\<lambda>_.
              ret (Inr (c, k))))) t2 = Inr (Inr (c, l), s')"
    by (auto simp: andThen_Inr [of "current_source x y z" for x y z])
  from rest2 obtain c' where c': "connection = Some c'" by (cases connection) (auto dest: refuse_lease_Inl)
  with rest2 obtain u t3 where moved: "transition k (ToRedeemed (ri_id rt)) n t2 = Inr (u, t3)"
    and logged: "\<exists>v. lease_audit (ri_id rt) ''credential.lease.redeemed'' k [(''grantId'', JStr (pg_grantId g))] t3 = Inr (v, s')"
    and same: "c' = c" "k = l"
    by (auto simp: andThen_Inr)
  note source = current_source_Some [OF current [unfolded c' same]]
  note found = lease_row_found [OF row [unfolded k same]]
  from scope k same obtain sc where sc: "ss_scope s = Some sc" "sees sc (kl_organizationId l)" by blast
  have here: "t = s" "t1 = s" "t2 = s" using found active source by auto
  have "redeemed_as l rt n \<in> set (kr_leases t3)"
    using transition_moves [OF moved [unfolded here same] _ _ sc] found k same by (simp add: redeemed_as_def)
  then have "redeemed_as l rt n \<in> set (kr_leases s')"
    using logged lease_audit_quiet unfolding credential_quiet_def by metis
  with found k same active source bound here show ?thesis by auto
qed

text \<open>A redemption that hands out a credential, from the request to the answer.\<close>

lemma committed_tenant:
  assumes "committed (tenant org m) b = (Inr x, b')"
  obtains sc s' where "sees sc org" and "m ((bk_db b)\<lparr>ss_scope := Some sc\<rparr>) = Inr (x, s')"
    and "kr_leases (bk_db b') = kr_leases s'" "bk_outstanding b' = bk_outstanding b"
    and "kr_connections (bk_db b') = kr_connections s'"
proof -
  from assms obtain u where run: "tenant org m (bk_db b) = Inr (x, u)" and b': "b' = b\<lparr>bk_db := u\<rparr>"
    by (auto simp: call_Inr)
  from run obtain sc s' where "sees sc org" "m ((bk_db b)\<lparr>ss_scope := Some sc\<rparr>) = Inr (x, s')"
    "u = s' \<or> u = s'\<lparr>ss_scope := None\<rparr>"
    by (rule tenant_run)
  with b' show thesis by (intro that [of sc s']) auto
qed

lemma redeem_success:
  assumes "redeem env rt body b = (Inr r, b')"
  obtains g e n c l sc s' withdrawable where "presented env rt body = Inr (rr_leaseId r, g)"
    and "be_dateParse env (pg_expiresAt g) = Some e" "n < e" "n = ss_clock (bk_db b) (ss_reads (bk_db b))"
    and "redeem_lease env rt (rr_leaseId r) g n
        ((bk_db b)\<lparr>ss_reads := Suc (ss_reads (bk_db b)), ss_scope := Some sc\<rparr>) = Inr (Inr (c, l), s')"
    and "obtain_credential env (gc_organizationId (pg_correlation g)) c l = Inr (rr_credential r, withdrawable)"
    and "kr_leases (bk_db b') = kr_leases s'" "rr_expiresAt r = kl_expiresAt l"
proof -
  from assms obtain i g where shown: "presented env rt body = Inr (i, g)"
    by (cases "presented env rt body") (auto simp: redeem_def fail_def)
  define n where "n = ss_clock (bk_db b) (ss_reads (bk_db b))"
  define b1 where "b1 = b\<lparr>bk_db := (bk_db b)\<lparr>ss_reads := Suc (ss_reads (bk_db b))\<rparr>\<rparr>"
  have "committed now b = (Inr n, b1)" by (simp add: call_Inr n_def b1_def)
  with assms shown have "(if \<not> (case be_dateParse env (pg_expiresAt g) of None \<Rightarrow> False | Some e \<Rightarrow> n < e)
        then fail (Refused 403 ''CREDENTIAL_GRANT_EXPIRED'')
        else followedBy (committed (tenant (gc_organizationId (pg_correlation g)) (redeem_lease env rt i g n))) (\<lambda>authorized.
          case authorized of
            Inl (code, status) \<Rightarrow> fail (Refused status code)
          | Inr cl \<Rightarrow> hand_out env rt (gc_organizationId (pg_correlation g)) i cl)) b1 = (Inr r, b')"
    by (simp add: redeem_def Let_def followedBy_def)
  then obtain e authorized b2 where e: "be_dateParse env (pg_expiresAt g) = Some e" "n < e"
    and auth: "committed (tenant (gc_organizationId (pg_correlation g)) (redeem_lease env rt i g n)) b1 = (Inr authorized, b2)"
    and rest: "(case authorized of Inl (code, status) \<Rightarrow> fail (Refused status code)
        | Inr cl \<Rightarrow> hand_out env rt (gc_organizationId (pg_correlation g)) i cl) b2 = (Inr r, b')"
    by (auto simp: call_Inr split: if_splits option.splits)
  from rest obtain c l where cl: "authorized = Inr (c, l)"
    and out: "hand_out env rt (gc_organizationId (pg_correlation g)) i (c, l) b2 = (Inr r, b')"
    by (auto simp: call_Inr split: sum.splits prod.splits)
  from auth [unfolded cl] obtain sc s' where run: "redeem_lease env rt i g n ((bk_db b1)\<lparr>ss_scope := Some sc\<rparr>) = Inr (Inr (c, l), s')"
    and b2: "kr_leases (bk_db b2) = kr_leases s'" "bk_outstanding b2 = bk_outstanding b1"
    by (rule committed_tenant)
  from out obtain credential withdrawable where got: "obtain_credential env (gc_organizationId (pg_correlation g)) c l = Inr (credential, withdrawable)"
    by (cases "obtain_credential env (gc_organizationId (pg_correlation g)) c l") (auto simp: hand_out_def call_Inr)
  with out have "rr_leaseId r = i" "rr_credential r = credential" "rr_expiresAt r = kl_expiresAt l"
    "kr_leases (bk_db b') = kr_leases (bk_db b2)"
    by (auto simp: hand_out_def call_Inr remember_def split: if_splits)
  with shown e n_def run got b2 b1_def show thesis by (intro that [of g e n sc c l s' withdrawable]) auto
qed

section \<open>Reachable states\<close>

lemma credential_reachable_sound: "credential_reachable b \<Longrightarrow> credentials_sound (bk_db b)"
proof -
  assume "credential_reachable b"
  then obtain b0 where "kr_leases (bk_db b0) = []" "kr_connections (bk_db b0) = []" "credential_steps b0 b"
    unfolding credential_reachable_def by blast
  with credential_steps_history [of b0 b] show ?thesis
    by (simp add: credential_history_def credentials_sound_def sources_sound_def)
qed

lemma credential_reachable_step: "credential_reachable b \<Longrightarrow> credential_step b b' \<Longrightarrow> credential_reachable b'"
  unfolding credential_reachable_def by (blast intro: credential_steps.more)

lemma credential_later:
  assumes "credential_steps b b'" and "l \<in> set (kr_leases (bk_db b))"
  obtains l' where "l' \<in> set (kr_leases (bk_db b'))" and "credential_evolves l l'"
proof -
  have "grows credential_evolves (kr_leases (bk_db b)) (kr_leases (bk_db b'))"
    using credential_steps_history [OF assms(1)] by (simp add: credential_history_def credentials_kept_def)
  from grows_in [OF this assms(2)] that show thesis by blast
qed

text \<open>
  C11. A lease of a repository credential is redeemed at most once: whatever happens between two
  redemptions that hand out a credential, they are of different leases.
\<close>

theorem credentials_are_redeemed_once:
  assumes "credential_reachable b" and "redeem env rt body b = (Inr r, b1)"
    and "credential_steps b1 b2" and "redeem env' rt' body' b2 = (Inr r', b3)"
  shows "rr_leaseId r' \<noteq> rr_leaseId r"
proof
  assume same: "rr_leaseId r' = rr_leaseId r"
  from assms(2) obtain g e n c l sc s' w where
    run: "redeem_lease env rt (rr_leaseId r) g n ((bk_db b)\<lparr>ss_reads := Suc (ss_reads (bk_db b)), ss_scope := Some sc\<rparr>) = Inr (Inr (c, l), s')"
    and rows: "kr_leases (bk_db b1) = kr_leases s'"
    by (rule redeem_success)
  from redeem_lease_success [OF run] rows
  have l: "redeemed_as l rt n \<in> set (kr_leases (bk_db b1))" "kl_id l = rr_leaseId r" by auto
  from assms(3) l(1) obtain l' where l': "l' \<in> set (kr_leases (bk_db b2))" "credential_evolves (redeemed_as l rt n) l'"
    by (rule credential_later)
  then have used: "kl_id l' = rr_leaseId r" "kl_status l' \<noteq> KlISSUED"
    using l(2) same_credential_fields [of "redeemed_as l rt n" l']
    by (auto simp: credential_evolves_def lease_ahead_def redeemed_as_def)
  from assms(4) obtain g' e' n' c' k sc' s'' w' where
    run': "redeem_lease env' rt' (rr_leaseId r') g' n' ((bk_db b2)\<lparr>ss_reads := Suc (ss_reads (bk_db b2)), ss_scope := Some sc'\<rparr>) = Inr (Inr (c', k), s'')"
    by (rule redeem_success)
  from redeem_lease_success [OF run'] have k: "k \<in> set (kr_leases (bk_db b2))" "kl_id k = rr_leaseId r" "kl_status k = KlISSUED"
    using same by auto
  have "credential_reachable b2"
    using assms(1-3) unfolding credential_reachable_def
    by (meson credential_step.redeems credential_steps.more credential_steps_trans)
  then have "distinct (map kl_id (kr_leases (bk_db b2)))"
    using credential_reachable_sound [of b2] by (simp add: credentials_sound_def)
  from unique_key [OF this l'(1) k(1)] used k show False by auto
qed

text \<open>
  C10. A credential is handed out only to an execution runtime that serves the organization of a grant
  the control plane signed and that has not expired, for a lease that waits for exactly this grant and
  has not expired either, while the run is running under an active lease and the connection of the
  lease is active and allows the repository; the lease is then the runtime's, and redeemed.
\<close>

theorem redemption_is_authorized:
  assumes "credential_reachable b" and "redeem env rt body b = (Inr r, b')"
  shows "ri_role rt = ExecutionRuntime \<and>
    (\<exists>g n e l c. presented env rt body = Inr (rr_leaseId r, g) \<and> be_verifyGrant env g \<and> pg_operationKind g = ''git.checkout'' \<and>
       servesOrganization rt (gc_organizationId (pg_correlation g)) \<and>
       be_dateParse env (pg_expiresAt g) = Some e \<and> n < e \<and> n = ss_clock (bk_db b) (ss_reads (bk_db b)) \<and>
       l \<in> set (kr_leases (bk_db b)) \<and> kl_id l = rr_leaseId r \<and> kl_organizationId l = gc_organizationId (pg_correlation g) \<and>
       kl_status l = KlISSUED \<and> n < kl_expiresAt l \<and> bound_to_grant l g \<and>
       (\<exists>q \<in> set (ex_runs (bk_db b)). rn_id q = kl_runId l \<and> rn_organizationId q = kl_organizationId l \<and> rn_status q = RUNNING) \<and>
       (\<exists>h \<in> set (tp_leases (bk_db b)). ls_runId h = kl_runId l \<and> ls_state h = LeaseACTIVE) \<and>
       c \<in> set (kr_connections (bk_db b)) \<and> sk_id c = kl_connectionId l \<and> sk_active c \<and>
       allowed_repository (be_web env) (kl_repositoryUrl l) c = Some (kl_repository l) \<and>
       (\<exists>w. obtain_credential env (kl_organizationId l) c l = Inr (rr_credential r, w)) \<and>
       (\<exists>l' \<in> set (kr_leases (bk_db b')). kl_id l' = rr_leaseId r \<and> kl_status l' = KlREDEEMED \<and> kl_redeemedBy l' = Some (ri_id rt)))"
proof -
  from assms(2) obtain g e n c l sc s' w where shown: "presented env rt body = Inr (rr_leaseId r, g)"
    and time: "be_dateParse env (pg_expiresAt g) = Some e" "n < e" "n = ss_clock (bk_db b) (ss_reads (bk_db b))"
    and run: "redeem_lease env rt (rr_leaseId r) g n
        ((bk_db b)\<lparr>ss_reads := Suc (ss_reads (bk_db b)), ss_scope := Some sc\<rparr>) = Inr (Inr (c, l), s')"
    and got: "obtain_credential env (gc_organizationId (pg_correlation g)) c l = Inr (rr_credential r, w)"
    and rows: "kr_leases (bk_db b') = kr_leases s'"
    by (rule redeem_success)
  note facts = redeem_lease_success [OF run, simplified]
  from facts obtain d where d: "d \<in> set (kr_connections (bk_db b))" "sk_id d = sk_id c"
    "allowed_repository (be_web env) (kl_repositoryUrl l) d = Some (kl_repository l)" by auto
  have "distinct (map sk_id (kr_connections (bk_db b)))"
    using credential_reachable_sound [OF assms(1)] by (simp add: credentials_sound_def sources_sound_def)
  from unique_key [OF this d(1) _ d(2)] facts have "d = c" by blast
  moreover have "kl_id (redeemed_as l rt n) = kl_id l" "kl_status (redeemed_as l rt n) = KlREDEEMED"
      "kl_redeemedBy (redeemed_as l rt n) = Some (ri_id rt)"
    by (simp_all add: redeemed_as_def)
  ultimately show ?thesis
    using presented_Inr [OF shown] shown time facts got rows d
    by (intro conjI exI [of _ g] exI [of _ n] exI [of _ e] exI [of _ l] exI [of _ c] exI [of _ w]
        bexI [of _ "redeemed_as l rt n"]) auto
qed

text \<open>
  C25. Whatever step is taken, a lease stays what it was issued for, goes through its states in one
  direction only and keeps the redemption it had; no two leases share an id or a grant, every lease is
  for a repository its connection allows, and an organization has one active connection per host.
\<close>

theorem credential_leases_move_forward:
  assumes "credential_reachable b" and "credential_step b b'" and "l \<in> set (kr_leases (bk_db b))"
  shows "(\<exists>l' \<in> set (kr_leases (bk_db b')). same_credential l l' \<and>
      (kl_status l' = kl_status l \<longrightarrow> l' = l) \<and>
      (kl_status l' \<noteq> kl_status l \<longrightarrow> (kl_status l, kl_status l') \<in> {(KlISSUED, KlREDEEMED), (KlISSUED, KlRELEASED),
         (KlISSUED, KlREVOKED), (KlISSUED, KlEXPIRED), (KlREDEEMED, KlRELEASED), (KlREDEEMED, KlREVOKED), (KlREDEEMED, KlEXPIRED)}) \<and>
      (kl_redeemedAt l \<noteq> None \<longrightarrow> kl_redeemedAt l' = kl_redeemedAt l \<and> kl_redeemedBy l' = kl_redeemedBy l)) \<and>
    distinct (map kl_id (kr_leases (bk_db b'))) \<and> distinct (map kl_grantId (kr_leases (bk_db b'))) \<and>
    (\<forall>k \<in> set (kr_leases (bk_db b')). lease_row_valid k = None \<and>
       (\<exists>c \<in> set (kr_connections (bk_db b')). sk_id c = kl_connectionId k \<and> sk_organizationId c = kl_organizationId k \<and>
          kl_repository k \<in> set (sk_repositories c))) \<and>
    (\<forall>c \<in> set (kr_connections (bk_db b')). \<forall>d \<in> set (kr_connections (bk_db b')).
       sk_active c \<and> sk_active d \<and> sk_organizationId d = sk_organizationId c \<and> sk_gitHost d = sk_gitHost c \<longrightarrow> d = c)"
proof -
  have sound: "credentials_sound (bk_db b')"
    by (rule credential_reachable_sound, rule credential_reachable_step, rule assms(1), rule assms(2))
  have "credential_steps b b'" by (rule credential_steps.more, rule credential_steps.none, rule assms(2))
  from this assms(3) obtain l' where l': "l' \<in> set (kr_leases (bk_db b'))" "credential_evolves l l'"
    by (rule credential_later)
  have "\<exists>l' \<in> set (kr_leases (bk_db b')). same_credential l l' \<and>
      (kl_status l' = kl_status l \<longrightarrow> l' = l) \<and>
      (kl_status l' \<noteq> kl_status l \<longrightarrow> (kl_status l, kl_status l') \<in> {(KlISSUED, KlREDEEMED), (KlISSUED, KlRELEASED),
         (KlISSUED, KlREVOKED), (KlISSUED, KlEXPIRED), (KlREDEEMED, KlRELEASED), (KlREDEEMED, KlREVOKED), (KlREDEEMED, KlEXPIRED)}) \<and>
      (kl_redeemedAt l \<noteq> None \<longrightarrow> kl_redeemedAt l' = kl_redeemedAt l \<and> kl_redeemedBy l' = kl_redeemedBy l)"
    using l' unfolding credential_evolves_def lease_ahead_def
    by (intro bexI [of _ l']) (cases "kl_status l"; cases "kl_status l'"; simp)
  moreover have "\<exists>c \<in> set (kr_connections (bk_db b')). sk_id c = kl_connectionId k \<and> sk_organizationId c = kl_organizationId k \<and>
      kl_repository k \<in> set (sk_repositories c)" if "k \<in> set (kr_leases (bk_db b'))" for k
    using sound that unfolding credentials_sound_def lease_backed_def by blast
  ultimately show ?thesis
    using sound unfolding credentials_sound_def sources_sound_def by (intro conjI ballI impI) blast+
qed

section \<open>Withdrawals\<close>

text \<open>The other leases stay.\<close>

definition spares :: "string set \<Rightarrow> 'z credential_db_scheme \<Rightarrow> 'z credential_db_scheme \<Rightarrow> bool" where
  "spares js s s' \<longleftrightarrow> (\<forall>l \<in> set (kr_leases s). kl_id l \<notin> js \<longrightarrow> l \<in> set (kr_leases s'))"

interpretation spared: evolution "spares js" for js
  by unfold_locales (auto simp: spares_def)

interpretation spared: open_evolution "spares js" for js
  by unfold_locales (auto simp: spares_def)

lemma transition_spares: "kl_id l \<in> js \<Longrightarrow> relates (spares js) (transition l m n)"
  by (rule relatesI) (auto simp: transition_def andThen_Inr credentials.update_Inr spares_def set_update_where)

lemma log_spares: "relates (spares js) (lease_audit actor event l details)"
  unfolding lease_audit_def by (rule spared.audit_row_R)

lemma each_spares: "(\<And>x. x \<in> set xs \<Longrightarrow> relates (spares js) (f x)) \<Longrightarrow> relates (spares js) (each f xs)"
  by (induction xs) (auto intro!: spared.relates_ret spared.relates_andThen)

lemma row_spares:
  assumes "\<And>l. kl_id l = i \<Longrightarrow> relates (spares js) (f (Some l))" and "relates (spares js) (f None)"
  shows "relates (spares js) (andThen (lease_row org i) f)"
proof (rule relatesI)
  fix s x s'
  assume "andThen (lease_row org i) f s = Inr (x, s')"
  then obtain row where row: "lease_row org i s = Inr (row, s)" "f row s = Inr (x, s')"
    unfolding andThen_Inr by (metis lease_row_state)
  show "spares js s s'"
  proof (cases row)
    case None
    with row assms(2) show ?thesis by (auto dest: relatesD)
  next
    case (Some l)
    then have "kl_id l = i" using row lease_row_found by blast
    with row Some assms(1) show ?thesis by (auto dest: relatesD)
  qed
qed

lemma reads_spare: "relates (spares js) (lease_row org i)" "relates (spares js) (must row)"
  unfolding lease_row_def must_def by (intro bounded)+

lemmas spare_rules = transition_spares log_spares reads_spare bounded

lemma ends_spare:
  "relates (spares {i}) (revoke_live org i by reason)" "relates (spares {re_leaseId q}) (release_lease rt org q n)"
  "relates (spares {i}) (revoke_by_admin a i)"
proof -
  have filter: "filtered P None = None" "filtered P (Some l) = (if P l then Some l else None)" for P and l :: credential_lease
    by (simp_all add: filtered_def)
  show "relates (spares {i}) (revoke_live org i by reason)"
    unfolding revoke_live_def filter
    by (intro spared.tenant_R row_spares; simp only: filter split: if_splits; auto intro!: spare_rules)
  show "relates (spares {re_leaseId q}) (release_lease rt org q n)"
    unfolding release_lease_def filter
    by (intro spared.tenant_R row_spares; simp only: filter split: if_splits; auto intro!: spare_rules)
  show "relates (spares {i}) (revoke_by_admin a i)"
    unfolding revoke_by_admin_def
    by (intro spared.tenant_R spared.relates_andThen [OF spared.authorize_R] row_spares) (auto intro!: spare_rules)
qed

lemma revoke_leases_spares:
  assumes "revoke_leases org runId reason s = Inr (js, s')"
  shows "spares (set js) s s'"
proof -
  from assms obtain live t n u where live: "select kr_leases kl_organizationId
        (\<lambda>l. kl_organizationId l = org \<and> kl_runId l = runId \<and> live_lease l) s = Inr (live, t)"
    and read: "now t = Inr (n, u)"
    and ends: "\<exists>x. each (\<lambda>l. andThen (transition l (ToRevoked ''platform'' reason) n) (\<lambda>_.
        lease_audit ''platform'' ''credential.lease.revoked'' l [(''reason'', JStr reason)])) live u = Inr (x, s')"
    and js: "js = map kl_id live"
    by (auto simp: revoke_leases_def andThen_Inr)
  have "relates (spares (set js)) (each (\<lambda>l. andThen (transition l (ToRevoked ''platform'' reason) n) (\<lambda>_.
        lease_audit ''platform'' ''credential.lease.revoked'' l [(''reason'', JStr reason)])) live)"
    by (intro each_spares spared.relates_andThen transition_spares log_spares) (simp add: js)
  with ends have "spares (set js) u s'" by (auto dest: relatesD)
  moreover have "kr_leases u = kr_leases s" using live read by (auto simp: select_Inr)
  ultimately show ?thesis by (simp add: spares_def)
qed

lemma expire_leases_spares:
  assumes "expire_leases n s = Inr (js, s')"
  shows "spares (set js) s s'"
proof -
  have body: "spares (set js) s s'"
    if "andThen (select kr_leases kl_organizationId (\<lambda>l. live_lease l \<and> kl_expiresAt l \<le> n)) (\<lambda>overdue.
       andThen (each (\<lambda>l. andThen (transition l ToExpired n) (\<lambda>_.
          lease_audit ''platform'' ''credential.lease.expired'' l [])) overdue) (\<lambda>_.
       ret (map kl_id overdue))) s = Inr (js, s')" for s s' :: "'z credential_db_scheme"
  proof -
    from that obtain overdue where ends: "\<exists>x. each (\<lambda>l. andThen (transition l ToExpired n) (\<lambda>_.
          lease_audit ''platform'' ''credential.lease.expired'' l [])) overdue s = Inr (x, s')"
      and js: "js = map kl_id overdue"
      by (auto simp: andThen_Inr select_Inr)
    have "relates (spares (set js)) (each (\<lambda>l. andThen (transition l ToExpired n) (\<lambda>_.
          lease_audit ''platform'' ''credential.lease.expired'' l [] :: ('z credential_db_scheme, unit) op)) overdue)"
      by (intro each_spares spared.relates_andThen transition_spares log_spares) (simp add: js)
    with ends show ?thesis by (auto dest: relatesD)
  qed
  show ?thesis
    using assms unfolding expire_leases_def platform_def scoped_def
    by (auto split: option.splits scope.splits if_splits sum.splits dest!: body simp: spares_def)
qed

text \<open>The leases that were live and are no longer.\<close>

definition ended :: "'z broker \<Rightarrow> 'z broker \<Rightarrow> string set" where
  "ended b b' = {i. (\<exists>l \<in> set (kr_leases (bk_db b)). kl_id l = i \<and> live_lease l) \<and>
     (\<forall>l \<in> set (kr_leases (bk_db b')). kl_id l = i \<longrightarrow> \<not> live_lease l)}"

lemma ended_spared: "spares js (bk_db b) (bk_db b') \<Longrightarrow> ended b b' \<subseteq> js"
  unfolding ended_def spares_def by blast

lemma withdraw_all_effect:
  "withdraw_all js b = (r, b') \<Longrightarrow> r = Inr () \<and> bk_db b' = bk_db b \<and> set (bk_outstanding b') = set (bk_outstanding b) - set js"
proof (induction js arbitrary: b)
  case (Cons i js)
  then show ?case by (auto simp: followedBy_def withdraw_def split: if_splits)
qed (simp add: answer_def)

lemma withdraw_effect:
  "withdraw i b = (r, b') \<Longrightarrow> r = Inr () \<and> bk_db b' = bk_db b \<and> set (bk_outstanding b') = set (bk_outstanding b) - {i}"
  by (cases "i \<in> set (bk_outstanding b)") (auto simp: withdraw_def)

text \<open>Nothing that can be withdrawn is left of a lease that ended.\<close>

definition settled :: "'z broker \<Rightarrow> 'z broker \<Rightarrow> bool" where
  "settled b b' \<longleftrightarrow> ended b b' \<inter> set (bk_outstanding b') = {}"

lemma settled_quiet: "kr_leases (bk_db b') = kr_leases (bk_db b) \<Longrightarrow> settled b b'"
  using ended_spared [of "{}" b b'] by (auto simp: spares_def settled_def)

lemma settled_spared: "spares js (bk_db b) (bk_db b') \<Longrightarrow> set (bk_outstanding b') \<inter> js = {} \<Longrightarrow> settled b b'"
  using ended_spared [of js b b'] by (auto simp: settled_def)

lemma lease_organization_rows: "lease_organization i s = Inr (found, s') \<Longrightarrow> kr_leases s' = kr_leases s"
proof -
  have "relates credential_quiet (lease_organization i)"
    unfolding lease_organization_def by (intro bounded)
  then show "lease_organization i s = Inr (found, s') \<Longrightarrow> kr_leases s' = kr_leases s"
    by (auto simp: credential_quiet_def dest: relatesD)
qed

lemma release_settled: "settled b (snd (release env rt body b))"
proof (cases "release env rt body b")
  case (Pair r c)
  show ?thesis
  proof (cases r)
    case (Inl e)
    with Pair have "kr_leases (bk_db c) = kr_leases (bk_db b)"
      by (auto simp: release_def call_Inl call_Inr now_def split: if_splits sum.splits option.splits
          dest!: lease_organization_rows withdraw_effect)
    with Pair show ?thesis by (simp add: settled_quiet)
  next
    case (Inr x)
    with Pair obtain q found s1 org n status s3 b4 where q: "lease_organization (re_leaseId q) (bk_db b) = Inr (found, s1)"
      and run: "release_lease rt org q n (s1\<lparr>ss_reads := Suc (ss_reads s1)\<rparr>) = Inr (status, s3)"
      and out: "withdraw (re_leaseId q) (b\<lparr>bk_db := s3\<rparr>) = (Inr (), c)"
      by (auto simp: release_def call_Inr split: if_splits sum.splits option.splits)
    from relatesD [OF ends_spare(2) run] lease_organization_rows [OF q]
    have "spares {re_leaseId q} (bk_db b) s3" by (simp add: spares_def)
    with withdraw_effect [OF out] Pair show ?thesis by (auto intro!: settled_spared [of "{re_leaseId q}"])
  qed
qed

lemma revoke_settled: "settled b (snd (revoke_credential a i b))"
proof (cases "committed (revoke_by_admin a i) b")
  case (Pair r c)
  obtain d where d: "withdraw i c = (Inr (), d)" by (simp add: withdraw_def)
  then have "snd (revoke_credential a i b) = d" by (simp add: revoke_credential_def finally_do_def Pair)
  moreover have "spares {i} (bk_db b) (bk_db c)"
  proof (cases "revoke_by_admin a i (bk_db b)")
    case (Inl e)
    with Pair show ?thesis by (simp add: committed_def spares_def)
  next
    case (Inr x)
    then obtain v s where run: "revoke_by_admin a i (bk_db b) = Inr (v, s)" by (cases x) auto
    with Pair have "bk_db c = s" by (auto simp: committed_def)
    with relatesD [OF ends_spare(3) run] show ?thesis by simp
  qed
  ultimately show ?thesis using withdraw_effect [OF d] settled_spared [of "{i}" b d] by simp
qed

lemma revokeForRun_settled: "settled b (snd (revokeForRun org runId reason b))"
proof (cases "revoke_leases org runId reason (bk_db b)")
  case (Inl e)
  then show ?thesis by (simp add: revokeForRun_def followedBy_def committed_def settled_quiet)
next
  case (Inr x)
  then obtain js s' where run: "revoke_leases org runId reason (bk_db b) = Inr (js, s')" by (cases x) auto
  obtain r c where out: "withdraw_all js (b\<lparr>bk_db := s'\<rparr>) = (r, c)" by fastforce
  from withdraw_all_effect [OF out] run have "snd (revokeForRun org runId reason b) = c"
    by (simp add: revokeForRun_def followedBy_def committed_def answer_def out)
  with withdraw_all_effect [OF out] revoke_leases_spares [OF run] show ?thesis
    by (auto intro!: settled_spared [of "set js"])
qed

lemma expire_settled: "settled b (snd (expire_credentials b))"
proof -
  define b1 where "b1 = b\<lparr>bk_db := (bk_db b)\<lparr>ss_reads := Suc (ss_reads (bk_db b))\<rparr>\<rparr>"
  define n where "n = ss_clock (bk_db b) (ss_reads (bk_db b))"
  have tick: "committed now b = (Inr n, b1)" by (simp add: call_Inr b1_def n_def)
  show ?thesis
  proof (cases "expire_leases n (bk_db b1)")
    case (Inl e)
    with tick have "snd (expire_credentials b) = b1"
      by (simp add: expire_credentials_def followedBy_def) (simp add: committed_def)
    then show ?thesis by (simp add: settled_quiet b1_def)
  next
    case (Inr x)
    then obtain js s' where run: "expire_leases n (bk_db b1) = Inr (js, s')" by (cases x) auto
    then have step: "committed (expire_leases n) b1 = (Inr js, b1\<lparr>bk_db := s'\<rparr>)" by (simp add: committed_def)
    obtain r c where out: "withdraw_all js (b1\<lparr>bk_db := s'\<rparr>) = (r, c)" by fastforce
    from withdraw_all_effect [OF out] tick step have "snd (expire_credentials b) = c"
      by (simp add: expire_credentials_def followedBy_def answer_def out)
    moreover have "spares (set js) (bk_db b) s'" using expire_leases_spares [OF run] by (simp add: spares_def b1_def)
    ultimately show ?thesis using withdraw_all_effect [OF out] by (auto intro!: settled_spared [of "set js"])
  qed
qed


end
