(* ===== verification/ActionEffects.thy ===== *)
theory ActionEffects
  imports ActionHistory
begin

text \<open>
  What a successful call of the gateway consists of: the steps of an assessment, of a commitment
  to dispatch, of a recorded decision and of an issued grant, as elimination rules.
\<close>

section \<open>Assessments\<close>

lemma proceed_allowed:
  "proceed m f s = Inr (Inr y, s'') \<longleftrightarrow> (\<exists>x s'. m s = Inr (Inr x, s') \<and> f x s' = Inr (Inr y, s''))"
proof
  assume "proceed m f s = Inr (Inr y, s'')"
  then obtain w t where "m s = Inr (w, t)"
    and rest: "(case w of Inl reason \<Rightarrow> ret (Inl reason) | Inr x \<Rightarrow> f x) t = Inr (Inr y, s'')"
    by (auto simp: proceed_def andThen_Inr)
  moreover from rest obtain x where "w = Inr x" by (cases w) auto
  ultimately show "\<exists>x s'. m s = Inr (Inr x, s') \<and> f x s' = Inr (Inr y, s'')" by auto
next
  assume "\<exists>x s'. m s = Inr (Inr x, s') \<and> f x s' = Inr (Inr y, s'')"
  then show "proceed m f s = Inr (Inr y, s'')" by (auto simp: proceed_def andThen_Inr)
qed

lemma given_allowed [simp]:
  "given v reason s = Inr (Inr x, s') \<longleftrightarrow> v = Some x \<and> s' = s"
  "unless_denied ok reason s = Inr (Inr u, s') \<longleftrightarrow> ok \<and> s' = s"
  "needs_url w s = Inr (y, s') \<longleftrightarrow> w = Some y \<and> s' = s"
  by (auto simp: given_def unless_denied_def needs_url_def split: option.splits)

lemma assess_cases:
  assumes "assess env run req s = Inr (a, s')"
  obtains reason where "a = deny reason"
  | m tool granted target override t1 t2 where
      "governed env run req s = Inr (Inr (m, tool, granted), t1)"
      "action_target_of env run m tool req t1 = Inr (Inr target, t2)"
      "policy_outcome (rn_organizationId run) (sq_action req) t2 = Inr (override, s')"
      "a = verdict_of (sq_action req) target
         (policy_of run (sq_action req) granted override (tg_resource target))"
proof -
  from assms obtain v where v: "proceed (governed env run req) (\<lambda>(m, tool, manifestOutcome).
       proceed (action_target_of env run m tool req) (\<lambda>target.
       andThen (policy_outcome (rn_organizationId run) (sq_action req)) (\<lambda>organizationOutcome.
       ret (Inr (verdict_of (sq_action req) target
         (policy_of run (sq_action req) manifestOutcome organizationOutcome (tg_resource target))))))) s = Inr (v, s')"
    and a: "a = (case v of Inl reason \<Rightarrow> deny reason | Inr a \<Rightarrow> a)"
    by (auto simp: assess_def andThen_Inr)
  show ?thesis
  proof (cases v)
    case (Inl reason)
    with a show ?thesis by (intro that(1)) simp
  next
    case (Inr b)
    with v a show ?thesis
      by (auto simp: proceed_allowed andThen_Inr intro: that(2))
  qed
qed

text \<open>What the target of a connector action and of a runtime action consist of.\<close>

lemma connector_target_of:
  assumes "action_target_of env run m tool req s = Inr (Inr target, s')" and "controlPlaneAction (sq_action req) = Some h"
  obtains v c where "sq_parameters req = Some v" "tg_parameters target = Some v"
    and "tg_connection target = Some c" "cn_organizationId c = rn_organizationId run" "cn_active c"
    and "tg_execution target = None"
proof -
  have found: "cn_organizationId c = rn_organizationId run \<and> cn_active c"
    if active: "active_connection (rn_organizationId run) p t = Inr (Some c, t')" for p t c t'
  proof -
    from active [unfolded active_connection_def] obtain sc u where
      "select_one ac_connections cn_organizationId
         (\<lambda>c. cn_organizationId c = rn_organizationId run \<and> cn_provider c = p \<and> cn_active c)
         (t\<lparr>ss_scope := Some sc\<rparr>) = Inr (Some c, u)"
      by (rule tenant_run)
    from select_one_found [OF this] show ?thesis by simp
  qed
  from assms show ?thesis
    by (auto simp: action_target_of_def connector_target_def proceed_allowed andThen_Inr dest!: found intro: that)
qed

lemma runtime_target_of:
  assumes "action_target_of env run m tool req s = Inr (Inr target, s')"
    and "controlPlaneAction (sq_action req) = None" "executionAction (sq_action req) = Some x"
  obtains v oper where "sq_parameters req = Some v" "tg_parameters target = Some v"
    and "parseExecutionOperation (gw_web env) v = Some oper" "operation_kind oper \<in> set (xa_operations x)"
    and "tg_connection target = None"
    and "tg_execution target = Some \<lparr>xt_policy = x, xt_operation = oper, xt_isolation = am_isolation m,
          xt_timeoutMs = td_timeoutMs tool\<rparr>"
    and "map_option sr_inScope (tg_resource target) = Some (xa_inScope (gw_web env) x oper (am_configuration m))"
  using assms
  by (auto simp: action_target_of_def runtime_target_def proceed_allowed andThen_Inr intro: that split: prod.splits)

text \<open>What a verdict other than a denial means.\<close>

lemma policy_denials:
  "pd_outcome (policy_of run action granted (Some DENY) r) = DENY"
  "\<not> sr_inScope r' \<Longrightarrow> pd_outcome (policy_of run action granted override (Some r')) = DENY"
  by (simp_all add: policy_of_def evaluateActionPolicy_outcome strictest_max)

section \<open>Dispatches\<close>

lemma refuse_no_dispatch: "refuse_execution run h i n code message s \<noteq> Inr (Dispatch p, s')"
  by (auto simp: refuse_execution_def andThen_Inr)

lemma existing_no_dispatch: "existing_execution env run q h n x s \<noteq> Inr (Dispatch p, s')"
  by (auto simp: existing_execution_def andThen_Inr found_Inr split: if_splits option.splits)

text \<open>What stands between a call and its commitment to dispatch.\<close>

lemma dispatch_steps:
  assumes "prepareExecution env run i st n s = Inr (Dispatch p, s')"
  obtains sc u k t q h t1 approval current t2 c v t3 secret t4 where
    "sees sc (rn_organizationId run)"
    and "expireDue env n (Some (rn_organizationId run)) (s\<lparr>ss_scope := Some sc\<rparr>) = Inr (k, t)"
    and "requested run i st t = Inr (q, t)" and "controlPlaneAction (rq_action q) = Some h"
    and "approval_verdict q n t = Inr (Inr approval, t1)"
    and "assess env run (request_again q) t1 = Inr (current, t2)"
    and "execution_refusal env run h q current t2 = Inr (Inr (c, v), t3)"
    and "gw_resolveSecret env (rn_organizationId run) (cn_secretRef c) = Secret secret"
    and "commit_dispatch env run h q n c v secret t3 = Inr (Dispatch p, t4)"
    and "s' = t4 \<or> s' = t4\<lparr>ss_scope := None\<rparr>"
proof -
  from assms obtain sc u where sc: "sees sc (rn_organizationId run)" "s' = u \<or> s' = u\<lparr>ss_scope := None\<rparr>"
    and body: "andThen (expireDue env n (Some (rn_organizationId run))) (\<lambda>_.
       andThen (requested run i st) (\<lambda>q.
       case controlPlaneAction (rq_action q) of
         None \<Rightarrow> throw (Refused 409 ''ACTION_NOT_EXECUTABLE'')
       | Some h \<Rightarrow>
           andThen (executed_row (rn_organizationId run) i) (\<lambda>row.
           case row of
             Some x \<Rightarrow> existing_execution env run q h n x
           | None \<Rightarrow> new_execution env run q h n))) (s\<lparr>ss_scope := Some sc\<rparr>) = Inr (Dispatch p, u)"
    unfolding prepareExecution_def by (rule tenant_run)
  from body obtain k t q t' h where expired: "expireDue env n (Some (rn_organizationId run)) (s\<lparr>ss_scope := Some sc\<rparr>) = Inr (k, t)"
    and q: "requested run i st t = Inr (q, t')" and h: "controlPlaneAction (rq_action q) = Some h"
    and new: "new_execution env run q h n t' = Inr (Dispatch p, u)"
    by (auto simp: andThen_Inr found_Inr executed_row_def select_one_Inr existing_no_dispatch split: option.splits)
  from q have "t' = t"
    by (auto simp: requested_def andThen_Inr select_one_Inr found_Inr)
  from new obtain verdict t1 where verdict: "approval_verdict q n t' = Inr (verdict, t1)"
    and rest: "(case verdict of
       Inl (code, message) \<Rightarrow> refuse_execution run h (rq_id q) n code message
     | Inr _ \<Rightarrow>
         andThen (assess env run (request_again q)) (\<lambda>current.
         andThen (execution_refusal env run h q current) (\<lambda>refusal.
         case refusal of
           Inl (code, message) \<Rightarrow> refuse_execution run h (rq_id q) n code message
         | Inr (c, v) \<Rightarrow>
             (case gw_resolveSecret env (rn_organizationId run) (cn_secretRef c) of
                SecretFailure e \<Rightarrow> throw e
              | SecretUnavailable \<Rightarrow>
                  refuse_execution run h (rq_id q) n ''SECRET_UNRESOLVED''
                    ''The connection credential is unavailable.''
              | Secret secret \<Rightarrow> commit_dispatch env run h q n c v secret)))) t1 = Inr (Dispatch p, u)"
    by (auto simp: new_execution_def andThen_Inr)
  then obtain approval current t2 refusal t3 where approval: "verdict = Inr approval"
    and "assess env run (request_again q) t1 = Inr (current, t2)"
    and refusal: "execution_refusal env run h q current t2 = Inr (refusal, t3)"
    and final: "(case refusal of
           Inl (code, message) \<Rightarrow> refuse_execution run h (rq_id q) n code message
         | Inr (c, v) \<Rightarrow>
             (case gw_resolveSecret env (rn_organizationId run) (cn_secretRef c) of
                SecretFailure e \<Rightarrow> throw e
              | SecretUnavailable \<Rightarrow>
                  refuse_execution run h (rq_id q) n ''SECRET_UNRESOLVED''
                    ''The connection credential is unavailable.''
              | Secret secret \<Rightarrow> commit_dispatch env run h q n c v secret)) t3 = Inr (Dispatch p, u)"
    by (cases verdict) (auto simp: andThen_Inr refuse_no_dispatch)
  moreover from final obtain c v secret where "refusal = Inr (c, v)"
    "gw_resolveSecret env (rn_organizationId run) (cn_secretRef c) = Secret secret"
    "commit_dispatch env run h q n c v secret t3 = Inr (Dispatch p, u)"
    by (cases refusal) (auto simp: refuse_no_dispatch split: secret_result.splits)
  moreover note verdict
  ultimately show ?thesis using that sc expired q h \<open>t' = t\<close> by blast
qed

lemma requested_found:
  "requested run i st t = Inr (q, t') \<Longrightarrow>
     t' = t \<and> q \<in> set (ac_requests t) \<and> rq_id q = i \<and> rq_organizationId q = rn_organizationId run \<and>
     rq_runId q = rn_id run \<and> rq_stepId q = st"
  unfolding requested_def andThen_Inr found_Inr demand_Inr ret_Inr
  by (elim exE conjE) (auto dest!: select_one_found)

section \<open>Reads\<close>

text \<open>What an open reconciliation blocks.\<close>

definition unreconciled :: "'z action_db_scheme \<Rightarrow> string \<Rightarrow> string \<Rightarrow> string \<Rightarrow> string \<Rightarrow> bool" where
  "unreconciled s org threadId action d \<longleftrightarrow>
     (\<exists>c \<in> set (ac_reconciliations s). rc_organizationId c = org \<and> rc_action c = action \<and>
        rc_state c = REQUIRED \<and> (rc_threadId c = threadId \<or> rc_payloadDigest c = d))"

lemma blocks_Inr:
  assumes "blocks org t action d s = Inr (b, s')" and "ss_scope s = Some sc" and "sees sc org"
  shows "s' = s \<and> b = unreconciled s org t action d"
  using assms
  by (auto simp: blocks_def andThen_Inr select_one_Inr unreconciled_def find_None_iff not_None_eq [symmetric]
      simp del: not_None_eq)

text \<open>What an approval allows, read in a scope that sees it.\<close>

definition approved :: "'z exec_db_scheme \<Rightarrow> action_request \<Rightarrow> int \<Rightarrow> bool" where
  "approved s q n \<longleftrightarrow> rq_decision q = ALLOWED \<or>
     rq_decision q = APPROVAL_REQUIRED \<and>
       (\<exists>a \<in> set (ex_approvals s). Some (ap_id a) = rq_approvalId q \<and> ap_organizationId a = rq_organizationId q \<and>
          ap_status a = ApAPPROVED \<and> (\<forall>e. ap_expiresAt a = Some e \<longrightarrow> n < e))"

lemma approval_verdict_granted:
  assumes "approval_verdict q n s = Inr (Inr expiry, s')"
  shows "s' = s \<and> approved s q n \<and> (\<forall>e. expiry = Some e \<longrightarrow> n < e)"
proof (cases "rq_decision q")
  case APPROVAL_REQUIRED
  with assms obtain row where found: "select_one ex_approvals ap_organizationId
      (\<lambda>a. Some (ap_id a) = rq_approvalId q \<and> ap_organizationId a = rq_organizationId q) s = Inr (row, s')"
    and verdict: "Inr expiry = (case row of
         None \<Rightarrow> Inl (''APPROVAL_NOT_GRANTED'', ''The action has not been approved.'')
       | Some a \<Rightarrow>
           if ap_status a = ApEXPIRED \<or> (case ap_expiresAt a of None \<Rightarrow> False | Some e \<Rightarrow> e \<le> n)
           then Inl (''APPROVAL_EXPIRED'', ''The approval expired before execution.'')
           else if ap_status a \<noteq> ApAPPROVED
           then Inl (''APPROVAL_NOT_GRANTED'', ''The action has not been approved.'')
           else Inr (ap_expiresAt a))"
    by (auto simp: approval_verdict_def andThen_Inr)
  from verdict obtain a where row: "row = Some a" by (cases row) auto
  with verdict have ok: "ap_status a = ApAPPROVED" "\<not> (case ap_expiresAt a of None \<Rightarrow> False | Some e \<Rightarrow> e \<le> n)"
    and expiry: "expiry = ap_expiresAt a"
    by (auto split: if_splits)
  note found = found [unfolded row]
  from select_one_found [OF found] ok APPROVAL_REQUIRED expiry show ?thesis
    by (auto simp: approved_def split: option.splits intro!: bexI [of _ a])
qed (use assms in \<open>auto simp: approval_verdict_def approved_def\<close>)

text \<open>A reading keeps the rows and the scope.\<close>

lemma reading_rows:
  assumes "gateway_services env"
  shows "approval_verdict q n s = Inr (v, s') \<Longrightarrow> rows_same s s'"
    and "assess env run req s = Inr (a, s') \<Longrightarrow> rows_same s s'"
    and "execution_refusal env run h q a s = Inr (w, s') \<Longrightarrow> rows_same s s'"
    and "blocked_verdict env run action a s = Inr (b, s') \<Longrightarrow> rows_same s s'"
    and "governed env run req s = Inr (g, s') \<Longrightarrow> rows_same s s'"
    and "action_target_of env run m tool req s = Inr (tg, s') \<Longrightarrow> rows_same s s'"
  by (erule relatesD [rotated], rule gateway_reads.approval_verdict_R gateway_reads.assess_R
      gateway_reads.execution_refusal_R gateway_reads.blocked_verdict_R gateway_reads.governed_R
      gateway_reads.action_target_R, rule services_read [OF assms])+

lemma rows_same_trans: "rows_same s t \<Longrightarrow> rows_same t u \<Longrightarrow> rows_same s u"
  by (rule same.evolution_trans)

lemma rows_same_reads:
  assumes "rows_same s s'"
  shows "approved s' q n = approved s q n" "unreconciled s' org t action d = unreconciled s org t action d"
    "ss_scope s' = ss_scope s" "ac_requests s' = ac_requests s" "ac_policies s' = ac_policies s"
    "ex_approvals s' = ex_approvals s" "ex_runs s' = ex_runs s" "ac_grants s' = ac_grants s"
    "ac_executions s' = ac_executions s" "ac_reconciliations s' = ac_reconciliations s"
  using assms by (simp_all add: rows_same_def exec_tables_def action_tables_def approved_def unreconciled_def)

lemma expire_keeps:
  assumes "gateway_services env" and "expireDue env n org s = Inr (k, s')"
  shows "ss_scope s' = ss_scope s" "ac_requests s' = ac_requests s" "ac_policies s' = ac_policies s"
    "ac_grants s' = ac_grants s" "ac_executions s' = ac_executions s"
    "ac_reconciliations s' = ac_reconciliations s"
  using relatesD [OF gateway_hooks.expireDue_R [OF services_hooks(2) [OF assms(1)]] assms(2)]
    relatesD [OF gateway_hooks.expireDue_R [OF services_hooks(3) [OF assms(1)]] assms(2)]
  by (simp_all add: action_tables_def scope_same_def)

text \<open>A verdict that is not a denial rests on the manifest, the connection, the scope and the override.\<close>

lemma verdict_parts [simp]:
  "at_outcome (verdict_of action target p) = pd_outcome p" "at_handler (verdict_of action target p) = controlPlaneAction action"
  "at_parameters (verdict_of action target p) = tg_parameters target"
  "at_connection (verdict_of action target p) = tg_connection target"
  "at_changes (verdict_of action target p) = tg_changes target"
  "at_execution (verdict_of action target p) = tg_execution target"
  "at_policy (verdict_of action target p) = Some p"
  by (simp_all add: verdict_of_def)

lemma deny_parts [simp]:
  "at_outcome (deny reason) = DENY" "at_parameters (deny reason) = None" "at_execution (deny reason) = None"
  "at_handler (deny reason) = None" "at_policy (deny reason) = None" "at_reason (deny reason) = reason"
  by (simp_all add: deny_def)

lemma assess_connector:
  assumes "assess env run req s = Inr (a, s')" and "controlPlaneAction (sq_action req) = Some h"
    and "at_outcome a \<noteq> DENY"
  obtains v c where "sq_parameters req = Some v" "at_parameters a = Some v" "at_connection a = Some c"
    "cn_organizationId c = rn_organizationId run" "cn_active c" "at_handler a = Some h" "at_execution a = None"
  using assms(1)
proof (cases rule: assess_cases)
  case (1 reason)
  with assms(3) show ?thesis by simp
next
  case (2 m tool granted target override t1 t2)
  from 2(2) assms(2) show ?thesis
    by (rule connector_target_of) (use 2(4) assms(2) that in auto)
qed

section \<open>The end of a dispatch\<close>

lemma refusal_passed:
  assumes "execution_refusal env run h q current s = Inr (Inr (c, v), s')"
    and "ss_scope s = Some sc" "sees sc (rn_organizationId run)"
  shows "at_outcome current \<noteq> DENY \<and> at_connection current = Some c \<and> at_parameters current = Some v \<and>
    map_option ch_digest (rq_changeSet q) = map_option ch_digest (at_changes current) \<and>
    (at_outcome current = REQUIRE_APPROVAL \<longrightarrow> rq_decision q \<noteq> ALLOWED) \<and>
    (ca_effect h = WriteEffect \<longrightarrow>
       \<not> unreconciled s (rn_organizationId run) (rn_threadId run) (ca_action h) (gw_digest env v))"
proof -
  note split = option.splits if_splits
  from assms(1) have "at_outcome current \<noteq> DENY" "at_connection current = Some c" "at_parameters current = Some v"
    "map_option ch_digest (rq_changeSet q) = map_option ch_digest (at_changes current)"
    "at_outcome current = REQUIRE_APPROVAL \<longrightarrow> rq_decision q \<noteq> ALLOWED"
    and blocked: "(if ca_effect h = WriteEffect
       then blocks (rn_organizationId run) (rn_threadId run) (ca_action h) (gw_digest env v) else ret False) s =
       Inr (False, s')"
    by (auto simp: execution_refusal_def andThen_Inr split: split)
  moreover have "\<not> unreconciled s (rn_organizationId run) (rn_threadId run) (ca_action h) (gw_digest env v)"
    if "ca_effect h = WriteEffect"
    using blocked that blocks_Inr [OF _ assms(2,3)] by fastforce
  ultimately show ?thesis by blast
qed

lemma commit_dispatch_Inr:
  assumes "commit_dispatch env run h q n c v secret s = Inr (Dispatch p, s')"
  shows "dp_requestId p = rq_id q \<and> dp_organizationId p = rn_organizationId run \<and> dp_runId p = rn_id run \<and>
    dp_action p = ca_action h \<and> dp_handler p = h \<and> dp_parameters p = v \<and> dp_connection p = c \<and>
    dp_changes p = rq_changeSet q \<and> dp_payloadDigest p = gw_digest env v \<and>
    (\<exists>x. s' = ac_executions_update (\<lambda>xs. xs @ [x]) s \<and> xr_requestId x = rq_id q \<and> xr_status x = DISPATCHING \<and>
       xr_organizationId x = rn_organizationId run)"
  using assms by (auto simp: commit_dispatch_def andThen_Inr executions.insert_Inr)

section \<open>Decisions\<close>

lemma audit_rows:
  assumes "audit actor ev rt i m org s = Inr (u, s')"
  shows "action_tables s s'" "exec_tables s s'" "ss_scope s' = ss_scope s"
proof -
  from assms show "action_tables s s'" by (rule relatesD [OF tables.audit_row_R])
  from assms obtain sc w where w: "s' = w \<or> s' = w\<lparr>ss_scope := None\<rparr>"
    and body: "andThen randomUUID (\<lambda>id'. andThen now (\<lambda>timestamp.
       insert_row ac_audit_update au_organizationId audit_checks
         \<lparr>au_id = id', au_organizationId = org, au_actorId = actor, au_eventType = ev,
          au_resourceType = rt, au_resourceId = i, au_metadata = m,
          au_createdAt = timestamp\<rparr>)) (s\<lparr>ss_scope := Some sc\<rparr>) = Inr (u, w)"
    unfolding audit_def by (rule tenant_run)
  from body have "exec_tables s w" by (auto simp: andThen_Inr audits.insert_Inr exec_tables_def)
  with w show "exec_tables s s'" by (auto simp: exec_tables_def)
  from assms show "ss_scope s' = ss_scope s"
    using relatesD [OF scopes.audit_row_R] by (simp add: scope_same_def)
qed

lemma request_approval_tables:
  assumes "gateway_services env" and "request_approval env run msg verdict i now' s = Inr (u, s')"
  shows "action_tables s s' \<and> ss_scope s' = ss_scope s"
proof -
  have "relates action_tables (request_approval env run msg verdict i now')"
    "relates scope_same (request_approval env run msg verdict i now')"
    unfolding request_approval_def
    by (intro bounded gateway_hooks.pauseForApproval_R services_hooks [OF assms(1)])+
  with assms(2) show ?thesis by (auto simp: relates_def scope_same_def)
qed

text \<open>A recorded decision: assessed, checked against open reconciliations, then stored.\<close>

lemma decide_steps:
  assumes services: "gateway_services env" and decide: "decide_action env rt run msg h s = Inr (v, s')"
  obtains sc a t1 verdict t2 now' approvalId t3 t4 where
    "sees sc (rn_organizationId run)"
    and "assess env run (request_of msg) (s\<lparr>ss_scope := Some sc\<rparr>) = Inr (a, t1)"
    and "blocked_verdict env run (rm_action msg) a t1 = Inr (verdict, t2)"
    and "(approvalId = None) = (at_outcome verdict \<noteq> REQUIRE_APPROVAL)"
    and "rows_same (s\<lparr>ss_scope := Some sc\<rparr>) t3"
    and "(case approvalId of None \<Rightarrow> ret () | Some i \<Rightarrow> request_approval env run msg verdict i now') t3 = Inr ((), t4)"
    and "ac_requests s' = ac_requests s @ [request_row rt run msg h verdict approvalId now']"
    and "request_checks t4 (request_row rt run msg h verdict approvalId now') = None"
    and "v = storedDecision (request_row rt run msg h verdict approvalId now')"
    and "exec_tables t4 s'" and "ac_executions s' = ac_executions s" and "ac_reconciliations s' = ac_reconciliations s"
proof -
  from decide obtain sc u where sc: "sees sc (rn_organizationId run)" and s': "s' = u \<or> s' = u\<lparr>ss_scope := None\<rparr>"
    and body: "andThen (assess env run (request_of msg)) (\<lambda>assessed.
       andThen (blocked_verdict env run (rm_action msg) assessed) (\<lambda>verdict.
       record_decision env rt run msg h verdict)) (s\<lparr>ss_scope := Some sc\<rparr>) = Inr (v, u)"
    unfolding decide_action_def by (rule tenant_run)
  then obtain a t1 verdict t2 where assessed: "assess env run (request_of msg) (s\<lparr>ss_scope := Some sc\<rparr>) = Inr (a, t1)"
    and blocked: "blocked_verdict env run (rm_action msg) a t1 = Inr (verdict, t2)"
    and recorded: "record_decision env rt run msg h verdict t2 = Inr (v, u)"
    by (auto simp: andThen_Inr)
  from recorded obtain now' approvalId t3 t4 t5 t6 q where
    clock: "now t2 = Inr (now', t2\<lparr>ss_reads := Suc (ss_reads t2)\<rparr>)"
    and uuid: "(if at_outcome verdict = REQUIRE_APPROVAL
              then andThen randomUUID (\<lambda>i. ret (Some i)) else ret None) (t2\<lparr>ss_reads := Suc (ss_reads t2)\<rparr>) = Inr (approvalId, t3)"
    and appr: "(case approvalId of None \<Rightarrow> ret () | Some i \<Rightarrow> request_approval env run msg verdict i now') t3 = Inr ((), t4)"
    and ins: "insert_row ac_requests_update rq_organizationId request_checks
        (request_row rt run msg h verdict approvalId now') t4 = Inr ((), t5)"
    and aud: "audit (rn_agentId run) (decision_event (decision_of (at_outcome verdict))) ''agent_run''
        (rn_id run) (decision_metadata rt msg verdict approvalId) (rn_organizationId run) t5 = Inr ((), t6)"
    and found: "select_one ac_requests rq_organizationId
        (\<lambda>q. rq_id q = rm_requestId msg \<and> rq_organizationId q = rn_organizationId run) t6 = Inr (Some q, u)"
    and v: "v = storedDecision q"
    unfolding record_decision_def andThen_Inr found_Inr ret_Inr
    by (elim exE conjE) (auto dest: select_one_found)
  let ?q = "request_row rt run msg h verdict approvalId now'"
  have r2: "rows_same (s\<lparr>ss_scope := Some sc\<rparr>) t2"
    by (rule rows_same_trans [OF reading_rows(2) [OF services assessed] reading_rows(4) [OF services blocked]])
  have r3: "rows_same t2 t3" and none: "(approvalId = None) = (at_outcome verdict \<noteq> REQUIRE_APPROVAL)"
    using uuid by (auto simp: andThen_Inr rows_same_def exec_tables_def action_tables_def split: if_splits)
  have a4: "action_tables t3 t4" "ss_scope t4 = ss_scope t3"
    using appr request_approval_tables [OF services] by (auto split: option.splits)
  from ins have t5: "t5 = ac_requests_update (\<lambda>qs. qs @ [?q]) t4" and checks: "request_checks t4 ?q = None"
    by (auto simp: requests.insert_Inr)
  note a6 = audit_rows [OF aud]
  from select_one_found [OF found] have q: "u = t6" "q \<in> set (ac_requests t6)" "rq_id q = rm_requestId msg"
    by auto
  have reqs: "ac_requests t6 = ac_requests s @ [?q]"
    using r2 r3 a4 a6 t5 by (auto simp: rows_same_def action_tables_def)
  have "rq_id ?q = rm_requestId msg" by (simp add: request_row_def)
  moreover have "rq_id ?q \<notin> rq_id ` set (ac_requests t4)"
    using checks by (simp add: request_checks_def)
  ultimately have "q = ?q"
    using q a6 t5 by (auto simp: action_tables_def image_iff)
  moreover have "exec_tables t4 s'" using a6 t5 s' q by (auto simp: exec_tables_def)
  moreover have "ac_requests s' = ac_requests s @ [?q]" using reqs s' q by auto
  moreover have "ac_executions s' = ac_executions s" "ac_reconciliations s' = ac_reconciliations s"
    using r2 r3 a4 a6 t5 s' q by (auto simp: rows_same_def action_tables_def)
  moreover have "rows_same (s\<lparr>ss_scope := Some sc\<rparr>) t3" by (rule rows_same_trans [OF r2 r3])
  ultimately show ?thesis
    using that [OF sc assessed blocked none _ appr] checks v by blast
qed

lemma storedDecision_row [simp]:
  "dv_decision (storedDecision (request_row rt run msg h verdict a n)) = decision_of (at_outcome verdict)"
  by (simp add: storedDecision_def request_row_def)

lemma blocked_verdict_Inr:
  assumes "blocked_verdict env run action a s = Inr (b, s')" and "ss_scope s = Some sc" "sees sc (rn_organizationId run)"
  shows "b = a \<or> at_outcome b = DENY"
    and "at_parameters a = Some v \<Longrightarrow> map_option ca_effect (at_handler a) = Some WriteEffect \<Longrightarrow>
      unreconciled s (rn_organizationId run) (rn_threadId run) action (gw_digest env v) \<Longrightarrow> at_outcome b = DENY"
proof -
  let ?u = "\<lambda>v. unreconciled s (rn_organizationId run) (rn_threadId run) action (gw_digest env v)"
  have "b = a \<and> (\<forall>v. at_parameters a = Some v \<longrightarrow> map_option ca_effect (at_handler a) = Some WriteEffect \<longrightarrow>
      at_outcome a \<noteq> DENY \<longrightarrow> \<not> ?u v) \<or> at_outcome b = DENY"
  proof (cases "at_parameters a")
    case None
    with assms(1) show ?thesis by (simp add: blocked_verdict_def)
  next
    case (Some v)
    show ?thesis
    proof (cases "at_outcome a \<noteq> DENY \<and> map_option ca_effect (at_handler a) = Some WriteEffect")
      case True
      with assms(1) Some obtain blocked u where
        "blocks (rn_organizationId run) (rn_threadId run) action (gw_digest env v) s = Inr (blocked, u)"
        and b: "b = (if blocked then a\<lparr>at_outcome := DENY, at_reason := ''ACTION_RECONCILIATION_REQUIRED'', at_policy := None\<rparr> else a)"
        by (auto simp: blocked_verdict_def andThen_Inr)
      with blocks_Inr [OF _ assms(2,3)] have "blocked = ?u v" by blast
      with b Some show ?thesis by auto
    next
      case False
      with assms(1) Some have "b = a"
        by (simp only: blocked_verdict_def option.case if_not_P if_False ret_Inr)
      with False Some show ?thesis by auto
    qed
  qed
  then show "b = a \<or> at_outcome b = DENY"
    and "at_parameters a = Some v \<Longrightarrow> map_option ca_effect (at_handler a) = Some WriteEffect \<Longrightarrow> ?u v \<Longrightarrow> at_outcome b = DENY"
    by blast+
qed

text \<open>With an open reconciliation, a write is denied.\<close>

lemma decision_blocked:
  assumes services: "gateway_services env"
    and decide: "decide_action env rt run msg h s = Inr (v, s')"
    and writes: "controlPlaneAction (rm_action msg) = Some ha" "ca_effect ha = WriteEffect"
    and payload: "rm_parameters msg = Some w"
    and blocked: "unreconciled s (rn_organizationId run) (rn_threadId run) (rm_action msg) (gw_digest env w)"
  shows "dv_decision v = DENIED \<and>
    (\<exists>q. ac_requests s' = ac_requests s @ [q] \<and> rq_decision q = DENIED \<and> rq_parameters q = None \<and> rq_changeSet q = None)"
proof -
  from decide_steps [OF services decide] obtain sc a t1 verdict t2 n ai where
    sc: "sees sc (rn_organizationId run)"
    and assessed: "assess env run (request_of msg) (s\<lparr>ss_scope := Some sc\<rparr>) = Inr (a, t1)"
    and blocks: "blocked_verdict env run (rm_action msg) a t1 = Inr (verdict, t2)"
    and rows: "ac_requests s' = ac_requests s @ [request_row rt run msg h verdict ai n]"
    and v: "v = storedDecision (request_row rt run msg h verdict ai n)"
    by metis
  note r1 = reading_rows(2) [OF services assessed]
  have scope: "ss_scope t1 = Some sc" using rows_same_reads(3) [OF r1] by simp
  have open': "unreconciled t1 (rn_organizationId run) (rn_threadId run) (rm_action msg) (gw_digest env w)"
    using rows_same_reads(2) [OF r1] blocked by (simp add: unreconciled_def)
  have again: "controlPlaneAction (sq_action (request_of msg)) = Some ha" "sq_parameters (request_of msg) = Some w"
    using writes payload by (simp_all add: request_of_def)
  have "at_outcome verdict = DENY"
  proof (cases "at_outcome a = DENY")
    case True
    with blocked_verdict_Inr(1) [OF blocks scope sc] show ?thesis by auto
  next
    case False
    from assess_connector [OF assessed again(1) False] again(2)
    have "at_parameters a = Some w" "at_handler a = Some ha" by (metis option.inject)+
    with blocked_verdict_Inr(2) [OF blocks scope sc _ _ open'] writes(2) show ?thesis by simp
  qed
  with rows v show ?thesis by (simp add: request_row_def storedDecision_def)
qed

section \<open>Outcomes\<close>

lemma require_Inr:
  assumes "require_reconciliation i s = Inr (u, s')" and "ss_scope s = Some sc" and "sees sc (ri_organizationId i)"
    and "r \<in> set (ex_runs s)" "rn_id r = ri_runId i" "rn_organizationId r = ri_organizationId i" "keys_unique s"
    and fresh: "ri_requestId i \<notin> rc_requestId ` set (ac_reconciliations s)"
  shows "\<exists>c \<in> set (ac_reconciliations s'). rc_requestId c = ri_requestId i \<and> rc_organizationId c = ri_organizationId i \<and>
    rc_threadId c = rn_threadId r \<and> rc_action c = ri_action i \<and> rc_payloadDigest c = ri_payloadDigest i \<and>
    rc_state c = REQUIRED"
    and "ac_executions s' = ac_executions s"
proof -
  let ?mine = "\<lambda>q. rn_id q = ri_runId i \<and> rn_organizationId q = ri_organizationId i"
  have only: "q = r" if "q \<in> set (ex_runs s)" "?mine q" for q
    using that assms(4-7) by (auto simp: keys_unique_def intro: unique_key)
  have found: "find (\<lambda>q. sees sc (rn_organizationId q) \<and> ?mine q) (ex_runs s) = Some r"
  proof (cases "find (\<lambda>q. sees sc (rn_organizationId q) \<and> ?mine q) (ex_runs s)")
    case None
    with assms(3-6) show ?thesis by (auto simp: find_None_iff)
  next
    case (Some q)
    from find_Some_set [OF this] only show ?thesis using Some by simp
  qed
  let ?c = "\<lambda>t. \<lparr>rc_requestId = ri_requestId i, rc_organizationId = ri_organizationId i,
             rc_threadId = rn_threadId r, rc_runId = ri_runId i, rc_action = ri_action i,
             rc_payloadDigest = ri_payloadDigest i, rc_reason = ri_reason i, rc_state = REQUIRED,
             rc_createdAt = t, rc_resolvedBy = None, rc_resolvedAt = None, rc_note = None\<rparr>"
  from assms(1,2) found obtain t n w where
    ins: "insert_unless ac_reconciliations ac_reconciliations_update rc_organizationId
       reconciliation_valid reconciliation_checks rc_requestId (?c t) (s\<lparr>ss_reads := Suc (ss_reads s)\<rparr>) = Inr (n, w)"
    and final: "whenever (n = 1)
           (audit (ri_agentId i) ''action.reconciliation.required'' ''agent_run'' (ri_runId i)
              (JObj [(''action'', JStr (ri_action i)), (''requestId'', JStr (ri_requestId i)),
                     (''reason'', JStr (reason_name (ri_reason i)))]) (ri_organizationId i)) w = Inr (u, s')"
    by (auto simp: require_reconciliation_def andThen_Inr select_one_Inr)
  from ins fresh have w: "ac_reconciliations w = ac_reconciliations s @ [?c t]" "ac_executions w = ac_executions s"
    by (auto simp: reconciliations.insert_unless_Inr)
  from final have same: "action_tables w s'"
    by (auto simp: whenever_Inr dest: audit_rows(1) split: if_splits)
  from w same show "\<exists>c \<in> set (ac_reconciliations s'). rc_requestId c = ri_requestId i \<and> rc_organizationId c = ri_organizationId i \<and>
    rc_threadId c = rn_threadId r \<and> rc_action c = ri_action i \<and> rc_payloadDigest c = ri_payloadDigest i \<and>
    rc_state c = REQUIRED"
    by (intro bexI [of _ "?c t"]) (simp_all add: action_tables_def)
  from w same show "ac_executions s' = ac_executions s" by (simp add: action_tables_def)
qed

text \<open>An UPDATE of the one open execution of a request closes exactly it.\<close>

definition open_execution :: "string \<Rightarrow> string \<Rightarrow> execution_row \<Rightarrow> bool" where
  "open_execution i org x \<longleftrightarrow> xr_requestId x = i \<and> xr_organizationId x = org \<and> xr_status x = DISPATCHING"

lemma one_open_execution:
  assumes "action_sound s" and "y \<in> set (ac_executions s)" "open_execution i org y" and "sees sc org"
  shows "filter (\<lambda>x. sees sc (xr_organizationId x) \<and> open_execution i org x) (ac_executions s) = [y]"
proof -
  have distinct: "distinct (map xr_requestId (ac_executions s))" using assms(1) by (simp add: action_sound_def)
  obtain xs zs where split: "ac_executions s = xs @ y # zs" using assms(2) by (auto dest: split_list)
  have "\<not> open_execution i org x" if "x \<in> set xs \<union> set zs" for x
    using distinct assms(3) that by (auto simp: split open_execution_def image_iff)
  then show ?thesis using assms(3,4) by (auto simp: split open_execution_def)
qed

lemma complete_closes:
  assumes complete: "completeExecution env p outcome s = Inr (x, s')"
    and sound: "action_sound s" and y: "y \<in> set (ac_executions s)"
    and y': "open_execution (dp_requestId p) (dp_organizationId p) y"
  obtains sc u w t where "sees sc (dp_organizationId p)" and "ss_scope u = Some sc" and "x = outcome"
    and "ac_executions u = map (\<lambda>q. if q = y then q\<lparr>xr_status := (if xo_succeeded outcome then SUCCEEDED else ExFAILED),
             xr_result := xo_result outcome, xr_errorCode := map_option er_code (xo_error outcome),
             xr_completedAt := Some t\<rparr> else q) (ac_executions s)"
    and "exec_tables s u" and "ac_reconciliations u = ac_reconciliations s"
    and "whenever (ca_effect (dp_handler p) = WriteEffect \<and>
             map_option er_code (xo_error outcome) = Some ''CONNECTOR_OUTCOME_UNKNOWN'')
           (require_reconciliation
              \<lparr>ri_organizationId = dp_organizationId p, ri_requestId = dp_requestId p, ri_runId = dp_runId p,
               ri_agentId = dp_agentId p, ri_action = dp_action p, ri_payloadDigest = dp_payloadDigest p,
               ri_reason = OUTCOME_UNKNOWN\<rparr>) u = Inr ((), w)"
    and "action_tables w s'"
proof -
  let ?P = "\<lambda>q. xr_requestId q = dp_requestId p \<and> xr_organizationId q = dp_organizationId p \<and> xr_status q = DISPATCHING"
  let ?f = "\<lambda>t q. q\<lparr>xr_status := (if xo_succeeded outcome then SUCCEEDED else ExFAILED),
             xr_result := xo_result outcome, xr_errorCode := map_option er_code (xo_error outcome),
             xr_completedAt := Some t\<rparr>"
  let ?req = "whenever (ca_effect (dp_handler p) = WriteEffect \<and>
             map_option er_code (xo_error outcome) = Some ''CONNECTOR_OUTCOME_UNKNOWN'')
           (require_reconciliation
              \<lparr>ri_organizationId = dp_organizationId p, ri_requestId = dp_requestId p, ri_runId = dp_runId p,
               ri_agentId = dp_agentId p, ri_action = dp_action p, ri_payloadDigest = dp_payloadDigest p,
               ri_reason = OUTCOME_UNKNOWN\<rparr>)"
  let ?aud = "audit (dp_agentId p) (if xo_succeeded outcome then ''action.executed'' else ''action.execution.failed'')
            ''agent_run'' (dp_runId p) (completion_metadata p outcome) (dp_organizationId p)"
  from complete obtain sc v where sc: "sees sc (dp_organizationId p)" and s': "s' = v \<or> s' = v\<lparr>ss_scope := None\<rparr>"
    and body: "andThen now (\<lambda>timestamp.
       andThen (update_rows ac_executions ac_executions_update xr_organizationId execution_update_checks ?P (?f timestamp)) (\<lambda>recorded.
       if recorded \<noteq> 1
       then andThen (executed_row (dp_organizationId p) (dp_requestId p)) (\<lambda>row.
              case row of None \<Rightarrow> throw (Raised ''TypeError'') | Some x \<Rightarrow> ret (storedExecution x))
       else andThen ?req (\<lambda>_. andThen ?aud (\<lambda>_. ret outcome)))) (s\<lparr>ss_scope := Some sc\<rparr>) = Inr (x, v)"
    unfolding completeExecution_def by (rule tenant_run)
  let ?s = "s\<lparr>ss_scope := Some sc, ss_reads := Suc (ss_reads s)\<rparr>"
  from body obtain t n u where
    upd: "update_rows ac_executions ac_executions_update xr_organizationId execution_update_checks ?P (?f t) ?s = Inr (n, u)"
    and rest: "(if n \<noteq> 1
       then andThen (executed_row (dp_organizationId p) (dp_requestId p)) (\<lambda>row.
              case row of None \<Rightarrow> throw (Raised ''TypeError'') | Some x \<Rightarrow> ret (storedExecution x))
       else andThen ?req (\<lambda>_. andThen ?aud (\<lambda>_. ret outcome))) u = Inr (x, v)"
    by (auto simp: andThen_Inr)
  have one: "filter (\<lambda>q. sees sc (xr_organizationId q) \<and> ?P q) (ac_executions s) = [y]"
    using one_open_execution [OF sound y y' sc] by (simp add: open_execution_def)
  from upd one have n: "n = 1" and u: "u = ac_executions_update (update_where (\<lambda>q. sees sc (xr_organizationId q) \<and> ?P q) (?f t)) ?s"
    by (auto simp: executions.update_Inr)
  have hit: "(sees sc (xr_organizationId q) \<and> ?P q) = (q = y)" if "q \<in> set (ac_executions s)" for q
  proof -
    have "q \<in> set (filter (\<lambda>q. sees sc (xr_organizationId q) \<and> ?P q) (ac_executions s)) \<longleftrightarrow> q = y"
      unfolding one by simp
    with that show ?thesis by auto
  qed
  have "ac_executions u = map (\<lambda>q. if q = y then ?f t q else q) (ac_executions s)"
    unfolding u by (simp add: update_where_def hit cong: map_cong)
  moreover from rest n obtain w v' where w: "?req u = Inr ((), w)" and aud: "?aud w = Inr ((), v)" and "x = outcome"
    by (auto simp: andThen_Inr)
  moreover have "action_tables w s'" using audit_rows(1) [OF aud] s' by (auto simp: action_tables_def)
  moreover have "exec_tables s u" "ac_reconciliations u = ac_reconciliations s" "ss_scope u = Some sc"
    by (simp_all add: u exec_tables_def)
  ultimately show ?thesis using that sc by blast
qed

section \<open>Overrides\<close>

lemma override_denies:
  assumes services: "gateway_services env" and sound: "distinct (map policy_id (ac_policies s))"
    and po: "po \<in> set (ac_policies s)" "po_outcome po = DENY" "po_organizationId po = rn_organizationId run"
      "po_action po = sq_action req"
    and assessed: "assess env run req s = Inr (a, s')" and scope: "ss_scope s = Some sc" "sees sc (rn_organizationId run)"
  shows "at_outcome a = DENY"
  using assessed
proof (cases rule: assess_cases)
  case (2 m tool granted target override t1 t2)
  have same: "rows_same s t2"
    by (rule rows_same_trans [OF reading_rows(5) [OF services 2(1)] reading_rows(6) [OF services 2(2)]])
  from 2(3) obtain sc' u where "sees sc' (rn_organizationId run)"
    and found: "andThen (select_one ac_policies po_organizationId (policy_key (rn_organizationId run) (sq_action req)))
      (\<lambda>row. ret (map_option po_outcome row)) (t2\<lparr>ss_scope := Some sc'\<rparr>) = Inr (override, u)"
    unfolding policy_outcome_def by (rule tenant_run)
  then have override: "override = map_option po_outcome
      (find (\<lambda>p. sees sc' (po_organizationId p) \<and> policy_key (rn_organizationId run) (sq_action req) p) (ac_policies s))"
    using rows_same_reads(5) [OF same] by (auto simp: andThen_Inr select_one_Inr)
  have "find (\<lambda>p. sees sc' (po_organizationId p) \<and> policy_key (rn_organizationId run) (sq_action req) p) (ac_policies s) = Some po"
  proof (cases "find (\<lambda>p. sees sc' (po_organizationId p) \<and> policy_key (rn_organizationId run) (sq_action req) p) (ac_policies s)")
    case None
    with po \<open>sees sc' (rn_organizationId run)\<close> show ?thesis by (auto simp: find_None_iff policy_key_def)
  next
    case (Some q)
    from find_Some_set [OF this] have "q \<in> set (ac_policies s)" "policy_id q = policy_id po"
      using po by (auto simp: policy_key_def policy_id_def)
    with sound po(1) have "q = po" by (auto intro: unique_key)
    with Some show ?thesis by simp
  qed
  with override po(2) 2(4) show ?thesis by (simp add: policy_denials)
qed simp

end
