(* ===== verification/ActionSamples.thy ===== *)
theory ActionSamples
  imports ActionEffects
begin

text \<open>
  A concrete organization with one running run, a Jira connection and a manifest that governs
  two actions: the states at which the theorems about governed actions are instantiated.
\<close>

section \<open>The organization\<close>

definition issue_tool :: tool_definition where
  "issue_tool = \<lparr>td_id = ''issues'', td_version = ''1'', td_governedActions = [''jira.issue.create'', ''jira.read'', ''repository.read''],
     td_timeoutMs = 5000\<rparr>"

definition issue_bundle :: blueprint_bundle where
  "issue_bundle = \<lparr>bb_tools = [issue_tool], bb_digest = ''d1''\<rparr>"

definition issue_manifest :: agent_manifest where
  "issue_manifest =
     \<lparr>mf_subject = mf_subject sample_manifest, mf_keyId = ''k'', mf_runtimeProfile = ''sandbox'', mf_workflows = [],
      mf_capabilities = [(''jira.issue.create'', REQUIRE_APPROVAL), (''jira.read'', ALLOW), (''repository.read'', ALLOW)],
      mf_modelProvider = ''p'', mf_credentialMode = ''ORGANIZATION_MANAGED'', mf_payload = JNull,
      am_tools = [''issues''], am_blueprintId = ''bp'', am_blueprintVersion = ''1'',
      am_blueprintDigest = Some ''d1'',
      am_connectors = [(''jira'', [''issueTracker.read'', ''issueTracker.write''])],
      am_configuration = [], am_isolation = Sandboxed\<rparr>"

definition sample_gateway :: "unit gateway_env" where
  "sample_gateway =
     bare_gateway (bare_service (\<lambda>_. sample_hash) Some (\<lambda>_. 0) (\<lambda>_ _ _. Some sample_manifest)) sample_web
       (\<lambda>_. sample_hash) (\<lambda>t. t) (\<lambda>_ _ _. Some issue_manifest) (\<lambda>_ _. Some issue_bundle)
       (\<lambda>_ _. Secret ''token'') (\<lambda>_. ''signature'')"

lemma sample_gateway_services: "gateway_services sample_gateway"
  unfolding sample_gateway_def by (rule bare_gateway_services)

definition busy_run :: run_row where
  "busy_run = \<lparr>rn_id = ''r1'', rn_organizationId = ''o1'', rn_threadId = ''t1'', rn_employeeId = ''e1'',
     rn_agentId = ''ag'', rn_manifest = Some \<lparr>mr_manifestId = ''m1'', mr_apiVersion = V2, mr_keyId = ''k''\<rparr>,
     rn_task = sample_task, rn_runtimeProfile = ''sandbox'', rn_status = RUNNING, rn_statusReason = None,
     rn_legacyQaRunId = None, rn_createdAt = 0, rn_updatedAt = 0, rn_startedAt = Some 0,
     rn_completedAt = None, rn_runtimeSequence = 0\<rparr>"

definition busy_step :: step_row where
  "busy_step = \<lparr>st_id = ''s1'', st_organizationId = ''o1'', st_runId = ''r1'', st_sequence = 1, st_kind = ACTION,
     st_title = ''Act'', st_status = StepRUNNING, st_detail = JNull, st_createdAt = 0, st_startedAt = Some 0,
     st_completedAt = None\<rparr>"

definition jira_connection :: connection_row where
  "jira_connection = \<lparr>cn_id = ''c1'', cn_organizationId = ''o1'', cn_provider = Jira, cn_name = ''Jira'',
     cn_baseUrl = ''https://jira'', cn_secretRef = ''ref'',
     cn_settings = \<lparr>cs_authEmail = None, cs_allowedProjects = [''AB''], cs_allowedRepositories = None\<rparr>,
     cn_active = True, cn_version = 1, cn_createdAt = 0, cn_updatedAt = 0\<rparr>"

definition sample_busy :: action_db where
  "sample_busy =
     \<lparr>ss_scope = None, ss_clock = (\<lambda>n. int n), ss_reads = 0,
      ss_entropy = (\<lambda>n. ''u'' @ replicate n (CHR ''x'')), ss_drawn = 0,
      ex_threads = [\<lparr>th_id = ''t1'', th_organizationId = ''o1'', th_employeeId = ''e1'', th_agentId = ''ag'',
        th_conversationId = None, th_title = ''T'', th_status = ThreadACTIVE, th_createdAt = 0, th_updatedAt = 0\<rparr>],
      ex_runs = [busy_run], ex_steps = [busy_step], ex_events = [], ex_artifacts = [],
      ex_approvals = [], ex_objects = [], ac_requests = [], ac_executions = [], ac_grants = [],
      ac_reconciliations = [], ac_policies = [], ac_connections = [jira_connection], ac_audit = [],
      ac_employees = [\<lparr>em_id = ''adm'', em_organizationId = ''o1'', em_userId = ''u1'', em_active = True\<rparr>],
      ac_memberships = [\<lparr>mb_organizationId = ''o1'', mb_userId = ''u1'', mb_employeeId = ''adm'', mb_role = ADMIN,
        mb_active = True\<rparr>],
      ac_activeUsers = [''u1''], ac_activeOrganizations = [''o1'']\<rparr>"

definition sample_admin :: actor where
  "sample_admin = \<lparr>ac_id = ''adm'', ac_organizationId = ''o1'', ac_role = ADMIN\<rparr>"

section \<open>Asking for a write\<close>

definition issue_parameters :: json where
  "issue_parameters = JObj [(''projectKey'', JStr ''AB''), (''summary'', JStr ''S''),
     (''description'', JStr ''D''), (''issueType'', JStr ''Task'')]"

definition busy_correlation :: step_correlation where
  "busy_correlation = \<lparr>gc_organizationId = ''o1'', gc_employeeId = ''e1'', gc_agentId = ''ag'', gc_threadId = ''t1'',
     gc_runId = ''r1'', gc_stepId = ''s1'', gc_toolCallId = ''tc''\<rparr>"

definition issue_message :: action_message where
  "issue_message = \<lparr>rm_requestId = ''q1'', rm_correlation = busy_correlation, rm_action = ''jira.issue.create'',
     rm_toolId = ''issues'', rm_toolVersion = ''1'', rm_inputDigest = sample_hash, rm_summary = ''Create'',
     rm_parameters = Some issue_parameters\<rparr>"

definition sample_asked :: action_db where
  "sample_asked = after (decide_action sample_gateway ''rt'' busy_run issue_message sample_hash sample_busy) sample_busy"

lemma asks: "\<exists>v. decide_action sample_gateway ''rt'' busy_run issue_message sample_hash sample_busy = Inr (v, sample_asked)"
proof -
  have "succeeds (decide_action sample_gateway ''rt'' busy_run issue_message sample_hash sample_busy)"
    by code_simp
  from succeeds_after [of "decide_action sample_gateway ''rt'' busy_run issue_message sample_hash", OF this]
  show ?thesis unfolding sample_asked_def .
qed

text \<open>The approval was granted and the run resumed.\<close>

definition sample_approved :: action_db where
  "sample_approved = sample_asked\<lparr>
     ex_runs := [busy_run], ex_steps := [busy_step],
     ex_approvals := map (\<lambda>a. a\<lparr>ap_status := ApAPPROVED\<rparr>) (ex_approvals sample_asked)\<rparr>"

definition sample_dispatched :: action_db where
  "sample_dispatched = after (prepareExecution sample_gateway busy_run ''q1'' ''s1'' 100 sample_approved) sample_approved"

definition is_dispatch :: "failure + execution_plan \<times> 's \<Rightarrow> bool" where
  "is_dispatch res = (case res of Inr (Dispatch p, s) \<Rightarrow> True | _ \<Rightarrow> False)"

lemma is_dispatch_after: "is_dispatch (m s) \<Longrightarrow> \<exists>p. m s = Inr (Dispatch p, after (m s) s)"
  by (auto simp: is_dispatch_def after_def split: sum.splits execution_plan.splits)

lemma dispatches:
  "\<exists>p. prepareExecution sample_gateway busy_run ''q1'' ''s1'' 100 sample_approved = Inr (Dispatch p, sample_dispatched)"
proof -
  have "is_dispatch (prepareExecution sample_gateway busy_run ''q1'' ''s1'' 100 sample_approved)"
    by code_simp
  from is_dispatch_after [of "prepareExecution sample_gateway busy_run ''q1'' ''s1'' 100", OF this]
  show ?thesis unfolding sample_dispatched_def .
qed

section \<open>A write whose outcome stays unknown\<close>

definition issue_dispatch :: pending_dispatch where
  "issue_dispatch = \<lparr>dp_requestId = ''q1'', dp_organizationId = ''o1'', dp_runId = ''r1'', dp_agentId = ''ag'',
     dp_action = ''jira.issue.create'', dp_handler = JiraIssueCreate, dp_parameters = issue_parameters,
     dp_connection = jira_connection, dp_secret = ''token'', dp_changes = None, dp_payloadDigest = sample_hash\<rparr>"

definition timed_out :: action_execution where
  "timed_out = dispatch (\<lambda>_. UnexpectedError) issue_dispatch"

definition sample_unknown :: action_db where
  "sample_unknown = after (completeExecution sample_gateway issue_dispatch timed_out sample_dispatched) sample_dispatched"

lemma completes:
  "\<exists>x. completeExecution sample_gateway issue_dispatch timed_out sample_dispatched = Inr (x, sample_unknown)"
proof -
  have "succeeds (completeExecution sample_gateway issue_dispatch timed_out sample_dispatched)"
    by code_simp
  from succeeds_after [of "completeExecution sample_gateway issue_dispatch timed_out", OF this]
  show ?thesis unfolding sample_unknown_def .
qed

lemma sample_sound: "action_sound sample_dispatched" "keys_unique sample_dispatched"
proof -
  have "no_actions sample_busy" by code_simp
  then have "action_sound sample_busy" by (rule no_actions_sound)
  moreover have "action_history sample_busy sample_asked"
    using asks by (auto intro: gateway_step_history [OF sample_gateway_services gateway_step.decided])
  moreover have "action_history sample_asked sample_approved"
    by (rule action_tables_history) (simp add: sample_approved_def action_tables_def)
  moreover have "action_history sample_approved sample_dispatched"
    using dispatches by (auto intro: gateway_step_history [OF sample_gateway_services gateway_step.prepared])
  ultimately show "action_sound sample_dispatched" by (simp add: action_history_def)
  show "keys_unique sample_dispatched" unfolding keys_unique_def by (intro conjI; code_simp)
qed

definition again_message :: action_message where
  "again_message = issue_message\<lparr>rm_requestId := ''q2''\<rparr>"

definition sample_denied :: action_db where
  "sample_denied = after (decide_action sample_gateway ''rt'' busy_run again_message sample_hash sample_unknown) sample_unknown"

lemma asks_again:
  "\<exists>v. decide_action sample_gateway ''rt'' busy_run again_message sample_hash sample_unknown = Inr (v, sample_denied)"
proof -
  have "succeeds (decide_action sample_gateway ''rt'' busy_run again_message sample_hash sample_unknown)"
    by code_simp
  from succeeds_after [of "decide_action sample_gateway ''rt'' busy_run again_message sample_hash", OF this]
  show ?thesis unfolding sample_denied_def .
qed

lemma sample_blocked:
  "unreconciled sample_unknown (rn_organizationId busy_run) (rn_threadId busy_run) (rm_action again_message)
     (gw_digest sample_gateway issue_parameters)"
  by code_simp

section \<open>A granted read\<close>

definition read_message :: action_message where
  "read_message = \<lparr>rm_requestId = ''q3'', rm_correlation = busy_correlation, rm_action = ''repository.read'',
     rm_toolId = ''issues'', rm_toolVersion = ''1'', rm_inputDigest = sample_hash, rm_summary = ''Read'',
     rm_parameters = Some (operation_json (FileRead ''a''))\<rparr>"

definition sample_reading :: action_db where
  "sample_reading = after (decide_action sample_gateway ''rt'' busy_run read_message sample_hash sample_busy) sample_busy"

definition sample_granted :: action_db where
  "sample_granted = after (issueGrant sample_gateway busy_run ''q3'' busy_correlation ''rt'' 100 sample_reading) sample_reading"

lemma asks_to_read:
  "\<exists>v. decide_action sample_gateway ''rt'' busy_run read_message sample_hash sample_busy = Inr (v, sample_reading)"
proof -
  have "succeeds (decide_action sample_gateway ''rt'' busy_run read_message sample_hash sample_busy)"
    by code_simp
  from succeeds_after [of "decide_action sample_gateway ''rt'' busy_run read_message sample_hash", OF this]
  show ?thesis unfolding sample_reading_def .
qed

lemma grants:
  "\<exists>g. issueGrant sample_gateway busy_run ''q3'' busy_correlation ''rt'' 100 sample_reading = Inr (g, sample_granted)"
proof -
  have "succeeds (issueGrant sample_gateway busy_run ''q3'' busy_correlation ''rt'' 100 sample_reading)"
    by code_simp
  from succeeds_after [of "issueGrant sample_gateway busy_run ''q3'' busy_correlation ''rt'' 100", OF this]
  show ?thesis unfolding sample_granted_def .
qed

lemma grants_again:
  "\<exists>g u. issueGrant sample_gateway busy_run ''q3'' busy_correlation ''rt'' 200 sample_granted = Inr (g, u)"
proof -
  have "succeeds (issueGrant sample_gateway busy_run ''q3'' busy_correlation ''rt'' 200 sample_granted)"
    by code_simp
  from succeeds_after [of "issueGrant sample_gateway busy_run ''q3'' busy_correlation ''rt'' 200", OF this]
  show ?thesis by blast
qed

end
