(* ===== verification/ExecutionBehaviour.thy ===== *)
theory ExecutionBehaviour
  imports ExecutionProperties
begin

text \<open>
  What single operations of the execution service achieve: tenant isolation, redelivery of
  runtime events, the release of a waiting run by a human decision, cancellation, and who may
  read a run.
\<close>

section \<open>Operations open one tenant scope\<close>

text \<open>
  \<open>opens org m\<close>: run outside a transaction, \<open>m\<close> does what it does inside a tenant transaction
  of \<open>org\<close>, whose scope is gone afterwards.
\<close>

definition opens :: "string \<Rightarrow> ('z session_scheme, 'a) op \<Rightarrow> bool" where
  "opens org m \<longleftrightarrow>
     (\<forall>s x s'. ss_scope s = None \<longrightarrow> m s = Inr (x, s') \<longrightarrow>
        (\<exists>u. m (s\<lparr>ss_scope := Some (Tenant org)\<rparr>) = Inr (x, u) \<and> s' = u\<lparr>ss_scope := None\<rparr>))"

lemma opens_tenant: "opens org (tenant org m)"
  by (auto simp: opens_def tenant_def scoped_def split: if_splits sum.splits)

lemma opens_demand: "opens org f \<Longrightarrow> opens org (andThen (demand c e) (\<lambda>_. f))"
  by (auto simp: opens_def andThen_def demand_def ret_def throw_def)

lemma opens_attempt: "opens org f \<Longrightarrow> opens org (attempt f (\<lambda>e. throw (h e)))"
  by (fastforce simp: opens_def attempt_Inr)

lemma opens_throw: "opens org (throw e)"
  by (simp add: opens_def)

lemma opens_operations:
  "opens (ci_organizationId inp) (createRun env inp)"
  "opens (lq_organizationId q) (recordLegacyQaRun env q)"
  "opens org (onApprovalDecided env org a d actorId)"
  "opens org (pauseForApproval env org i st apr)"
  "opens org (cancelRun env org i reason by')"
  "opens (ac_organizationId actor) (cancelOwnRun env actor i)"
  "opens org (onApprovalExpired env org a)"
  "opens org (ingestRuntimeEvent env sch org w)"
  unfolding createRun_def recordLegacyQaRun_def onApprovalDecided_def pauseForApproval_def
    cancelRun_def cancelOwnRun_def onApprovalExpired_def ingestRuntimeEvent_def Let_def
  by (auto intro!: opens_tenant opens_demand opens_attempt opens_throw split: sum.split)

lemma opens_isolates:
  assumes "opens org m" and "relates (isolates org) m" and "m s = Inr (x, s')" and "ss_scope s = None"
  shows "foreign_rows org s' = foreign_rows org s"
proof -
  from assms obtain u where u: "m (s\<lparr>ss_scope := Some (Tenant org)\<rparr>) = Inr (x, u)"
    "s' = u\<lparr>ss_scope := None\<rparr>"
    unfolding opens_def by blast
  have "isolates org (s\<lparr>ss_scope := Some (Tenant org)\<rparr>) u"
    using assms(2) u(1) by (rule relatesD)
  with u show ?thesis by (simp add: isolates_def foreign_rows_def)
qed

lemma operation_isolates:
  assumes hooks: "execution_hooks env" and op: "operation env sch org s s'" and "ss_scope s = None"
  shows "foreign_rows org s' = foreign_rows org s"
proof -
  note evo = isolates_evolution [OF hooks]
  note st = execution_evolution.axioms(1) [OF evo]
  show ?thesis
    using op
    by (cases rule: operation.cases)
       (auto intro: assms(3)
          opens_isolates [OF opens_operations(1) execution_statements.createRun_R [OF st]]
          opens_isolates [OF opens_operations(2) execution_statements.recordLegacyQaRun_R [OF st]]
          opens_isolates [OF opens_operations(3) execution_statements.onApprovalDecided_R [OF st]]
          opens_isolates [OF opens_operations(4) execution_statements.pauseForApproval_R [OF st]]
          opens_isolates [OF opens_operations(5) execution_statements.cancelRun_R [OF st]]
          opens_isolates [OF opens_operations(6) execution_statements.cancelOwnRun_R [OF st]]
          opens_isolates [OF opens_operations(7) execution_statements.onApprovalExpired_R [OF st]]
          opens_isolates [OF opens_operations(8) execution_evolution.ingestRuntimeEvent_R [OF evo]])
qed

text \<open>
  C4. Tenant isolation. An operation for one organization, run as its own transaction,
  changes no thread, run, step, event, artifact or approval of any other organization.
\<close>

theorem operations_isolate_tenants:
  assumes "execution_hooks env" and "operation env sch org s s'" and "ss_scope s = None"
  shows "foreign_rows org s' = foreign_rows org s"
  using assms by (rule operation_isolates)

lemma operations_isolate_tenants_witness:
  "foreign_rows ''o1'' sample_created = foreign_rows ''o1'' sample_start"
  by (rule operations_isolate_tenants [OF sample_hooks sample_create_step])
     (simp add: sample_start_def)

section \<open>Redelivery of runtime events\<close>

lemma find_in_appended:
  "find P xs = None \<Longrightarrow> find P (xs @ ys) = find P ys"
  by (induction xs) (auto split: if_splits)

lemma find_None_all: "(\<And>x. x \<in> set xs \<Longrightarrow> \<not> P x) \<Longrightarrow> find P xs = None"
  by (auto simp: find_None_iff)

text \<open>A recorded event is found again, by its identifier, with the hash it was recorded with.\<close>

lemma new_event_recorded:
  assumes hooks: "execution_hooks env"
    and new: "new_runtime_event env org e hash s = Inr (x, s')" and scope: "ss_scope s = Some (Tenant org)"
  shows "ss_scope s' = Some (Tenant org) \<and>
    (\<exists>row. find (\<lambda>x. sees (Tenant org) (ae_organizationId x) \<and> ae_id x = ev_eventId e \<and>
         ae_organizationId x = org) (ex_events s') = Some row \<and>
       ae_payloadHash row = hash \<and> mapEvent row = x)"
proof -
  from new obtain run next' s1 s2 s3 s4 i sc' row where
    s1: "apply_event env org run e s = Inr ((), s1)"
    and s2: "set_runtime_sequence org (rn_id run) (ev_sequence e) s1 = Inr ((), s2)"
    and s3: "whenever (next' \<noteq> rn_status run)
      (transitionRun env (run_scope_of org run) next' (status_reason (ev_payload e))) s2 = Inr ((), s3)"
    and s4: "appendEvent env (run_scope_of org run) (RT (ev_type e)) RUNTIME (Some RUNTIME_ACTOR)
        (history_payload (ev_payload e)) (ev_stepId e)
        (Some \<lparr>rt_id = ev_eventId e, rt_runtimeSequence = ev_sequence e,
           rt_occurredAt = ev_occurredAt e, rt_payloadHash = hash\<rparr>) s3 = Inr (i, s4)"
    and s5: "sync_outcome env (run_scope_of org run) (ev_payload e) s4 = Inr ((), s')"
    and row: "ss_scope s' = Some sc'"
      "find (\<lambda>x. sees sc' (ae_organizationId x) \<and> ae_id x = i) (ex_events s') = Some row"
      "x = mapEvent row"
    by (rule new_runtime_event_steps)
  note quiet = keeps_quiet [OF hooks]
  have k1: "keeps_ledger s s1"
    using execution_quiet.apply_event_R [OF execution_moves.axioms(1) [OF quiet] keeps_artifact] s1
    by (rule relatesD)
  have k3: "keeps_ledger s2 s3"
    using keeps.relates_whenever [OF execution_moves.transitionRun_R [OF quiet]] s3 by (rule relatesD)
  have k5: "keeps_ledger s4 s'"
    using execution_quiet.sync_outcome_R [OF execution_moves.axioms(1) [OF quiet]] s5 by (rule relatesD)
  have scope2: "ss_scope s2 = ss_scope s1"
    using s2 by (elim set_runtime_sequence_effect) (simp add: ticked_tables)
  from s4 obtain a w sc where ticked: "ticked s3 w" and checks: "event_checks s3 a = None"
    and s4': "s4 = w\<lparr>ex_events := ex_events s3 @ [a]\<rparr>"
    and a: "ae_id a = ev_eventId e" "ae_organizationId a = org" "ae_payloadHash a = hash" "i = ev_eventId e"
    by (rule appendEvent_effect) (auto simp: run_scope_of_def)
  have fresh: "ae_id x \<noteq> ev_eventId e" if "x \<in> set (ex_events s3)" for x
  proof -
    have "ae_id a \<notin> ae_id ` set (ex_events s3)" using checks by (simp add: event_checks_def)
    then show ?thesis using that a(1) by (metis imageI)
  qed
  have scope': "ss_scope s' = Some (Tenant org)"
    using k1 k3 k5 scope2 scope by (simp add: keeps_ledger_def s4' ticked_tables [OF ticked])
  have events: "ex_events s' = ex_events s3 @ [a]"
    using k5 by (simp add: keeps_ledger_def s4')
  have "find (\<lambda>x. sees (Tenant org) (ae_organizationId x) \<and> ae_id x = ev_eventId e \<and>
        ae_organizationId x = org) (ex_events s') = Some a"
    unfolding events using a fresh by (subst find_in_appended) (auto intro!: find_None_all)
  moreover have "row = a"
    using row(2) unfolding events using a fresh scope' row(1)
    by (subst (asm) find_in_appended) (auto intro!: find_None_all)
  ultimately show ?thesis using scope' a row(3) by blast
qed

lemma recordRuntimeEvent_again:
  assumes hooks: "execution_hooks env"
    and first: "recordRuntimeEvent env org e hash s = Inr ((x, dup), s')"
    and scope: "ss_scope s = Some (Tenant org)"
  shows "recordRuntimeEvent env org e hash s' = Inr ((x, True), s') \<and> ss_scope s' = Some (Tenant org)"
proof (cases "find (\<lambda>x. sees (Tenant org) (ae_organizationId x) \<and> ae_id x = ev_eventId e \<and>
     ae_organizationId x = org) (ex_events s)")
  case None
  with first scope have "new_runtime_event env org e hash s = Inr (x, s')"
    by (auto simp: recordRuntimeEvent_def andThen_Inr select_one_Inr split: option.splits)
  from new_event_recorded [OF hooks this scope] show ?thesis
    by (auto simp: recordRuntimeEvent_def andThen_Inr select_one_Inr)
next
  case (Some row)
  with first scope show ?thesis
    by (auto simp: recordRuntimeEvent_def andThen_Inr select_one_Inr split: option.splits)
qed

text \<open>
  C29. Delivery is idempotent. An event that was recorded, now or before, can be delivered
  again: the control plane answers with the same recorded event, marked as a duplicate, and
  changes nothing.
\<close>

theorem redelivery_changes_nothing:
  assumes "execution_hooks env" and "ss_scope s = None"
    and "ingestRuntimeEvent env sch org w s = Inr ((x, dup), s')"
  shows "ingestRuntimeEvent env sch org w s' = Inr ((x, True), s')"
proof -
  from assms(3) obtain e where parse: "parseRuntimeEvent sch w = Inr e"
    and org: "co_organizationId (ev_correlation e) = org"
    and recorded: "tenant org (recordRuntimeEvent env org e (payloadHash env e)) s = Inr ((x, dup), s')"
    by (auto simp: ingestRuntimeEvent_def andThen_Inr attempt_Inr split: sum.splits)
  from recorded assms(2) obtain u where u: "org \<noteq> []" "s' = u\<lparr>ss_scope := None\<rparr>"
    "recordRuntimeEvent env org e (payloadHash env e) (s\<lparr>ss_scope := Some (Tenant org)\<rparr>) = Inr ((x, dup), u)"
    by (auto simp: tenant_def scoped_def split: if_splits sum.splits)
  from recordRuntimeEvent_again [OF assms(1) u(3)]
  have again: "recordRuntimeEvent env org e (payloadHash env e) u = Inr ((x, True), u)"
    and "ss_scope u = Some (Tenant org)"
    by simp_all
  then have "u\<lparr>ss_scope := Some (Tenant org)\<rparr> = u" by simp
  with again u have "tenant org (recordRuntimeEvent env org e (payloadHash env e)) s' = Inr ((x, True), s')"
    by (simp add: tenant_def scoped_def)
  then show ?thesis
    using parse org
    by (simp add: ingestRuntimeEvent_def andThen_def demand_def ret_def attempt_def)
qed

lemma redelivery_changes_nothing_witness:
  "\<exists>x. ingestRuntimeEvent sample_env sample_event_schemas ''o1'' sample_started_event sample_running =
     Inr ((x, True), sample_running)"
proof -
  obtain x dup where "ingestRuntimeEvent sample_env sample_event_schemas ''o1'' sample_started_event
      sample_created = Inr ((x, dup), sample_running)"
    using sample_ingest by fastforce
  moreover have "ss_scope sample_created = None"
    by code_simp
  ultimately have "ingestRuntimeEvent sample_env sample_event_schemas ''o1'' sample_started_event
      sample_running = Inr ((x, True), sample_running)"
    using redelivery_changes_nothing [OF sample_hooks] by blast
  then show ?thesis ..
qed

section \<open>Human decisions\<close>

text \<open>A statement or handler that leaves the table of runs alone.\<close>

definition same_runs :: "'z exec_db_scheme \<Rightarrow> 'z exec_db_scheme \<Rightarrow> bool" where
  "same_runs s s' \<longleftrightarrow> ex_runs s' = ex_runs s"

interpretation same_runs: evolution same_runs
  by unfold_locales (auto simp: same_runs_def)

lemma same_runs_quiet:
  assumes "execution_hooks env"
  shows "execution_quiet env same_runs"
proof -
  have "relates same_runs (insertStep scp kind title st detail given)" for scp kind title st detail given
    by (rule relatesI) (erule insertStep_effect, simp add: same_runs_def ticked_tables)
  moreover have "relates same_runs (transitionStep org i to)" for org i to
    by (rule relatesI) (erule transitionStep_effect, simp add: same_runs_def ticked_tables)
  ultimately show ?thesis
    using assms
    by (intro execution_quiet.intro execution_quiet_axioms.intro same_runs.evolution_axioms)
       (auto simp: same_runs_def exec_frame_def)
qed

lemma same_runs_event: "relates same_runs (appendEvent env scp type source a p st rt)"
  by (rule relatesI) (erule appendEvent_effect, simp add: same_runs_def ticked_tables)

lemma same_runs_artifact: "relates same_runs (insert_row ex_artifacts_update aa_organizationId artifact_checks a)"
  by (rule relatesI) (auto simp: artifacts.insert_Inr same_runs_def)

text \<open>What \<open>transitionRun\<close> does to the table of runs.\<close>

lemma transitionRun_runs:
  assumes hooks: "execution_hooks env" and "transitionRun env scp to reason s = Inr (u, s')"
  obtains ts where "ex_runs s' = update_where
      (\<lambda>r. rn_id r = rs_runId scp \<and> rn_organizationId r = rs_organizationId scp)
      (moved_run to reason ts) (ex_runs s)"
proof -
  from assms(2) obtain run t where t: "move_run (rs_organizationId scp) (rs_runId scp) to reason s = Inr (run, t)"
    and hook: "whenever (rn_status run \<noteq> to \<and> to \<in> {COMPLETED, FAILED, CANCELLED})
       (case en_onRunStopped env of None \<Rightarrow> ret ()
        | Some hook \<Rightarrow> hook (rs_organizationId scp) (rs_runId scp) to) t = Inr (u, s')"
    by (auto simp: transitionRun_def andThen_Inr)
  from execution_hooks.stopped_hook_frame [OF hooks] hook have "exec_frame t s'" by (rule relatesD)
  then have "ex_runs s' = ex_runs t" by (simp add: exec_frame_def)
  with t that show ?thesis
    by (elim move_run_effect) (auto simp: ticked_tables)
qed

lemma release_run_runs:
  fixes env :: "'z exec_env"
  assumes hooks: "execution_hooks env" and "release_run env org run waiting d actorId s = Inr (u, s')"
  obtains ts where "ex_runs s' = update_where (\<lambda>r. rn_id r = rn_id run \<and> rn_organizationId r = org)
      (moved_run (if d = APPROVED then QUEUED else CANCELLED)
         (Some (if d = APPROVED then APPROVAL_GRANTED else APPROVAL_REJECTED)) ts) (ex_runs s)"
proof -
  have step: "relates (same_runs :: 'z exec_db_scheme \<Rightarrow> _) (transition_waiting org waiting to)" for to
    using execution_quiet.quiet_statements_R(2) [OF same_runs_quiet [OF hooks]]
    by (auto simp: transition_waiting_def same_runs.relates_ret split: option.split)
  from assms(2) obtain s1 s2 where
    s1: "transition_waiting org waiting (if d = APPROVED then StepPENDING else StepCANCELLED) s = Inr ((), s1)"
    and s2: "transitionRun env (run_scope_of org run) (if d = APPROVED then QUEUED else CANCELLED)
         (Some (if d = APPROVED then APPROVAL_GRANTED else APPROVAL_REJECTED)) s1 = Inr ((), s2)"
    and s': "same_runs s2 s'"
    by (cases d) (auto simp: release_run_def Let_def andThen_Inr same_runs_def
        dest: relatesD [OF same_runs_event])
  have "ex_runs s1 = ex_runs s" using relatesD [OF step s1] by (simp add: same_runs_def)
  moreover from transitionRun_runs [OF hooks s2] obtain ts where
    "ex_runs s2 = update_where (\<lambda>r. rn_id r = rn_id run \<and> rn_organizationId r = org)
      (moved_run (if d = APPROVED then QUEUED else CANCELLED)
         (Some (if d = APPROVED then APPROVAL_GRANTED else APPROVAL_REJECTED)) ts) (ex_runs s1)"
    by (auto simp: run_scope_of_def)
  ultimately show ?thesis using s' by (intro that [of ts]) (simp add: same_runs_def)
qed

text \<open>The run an approval is linked to, as the decision finds it.\<close>

lemma onApprovalDecided_cases:
  fixes env :: "'z exec_env"
  assumes hooks: "execution_hooks env" and scope: "ss_scope s = None"
    and decide: "onApprovalDecided env org approvalId d actorId s = Inr ((), s')"
    and approval: "find (\<lambda>a. ap_organizationId a = org \<and> ap_id a = approvalId) (ex_approvals s) = Some a"
      "ap_runId a = Some runId"
  obtains run where "run \<in> set (ex_runs s)" "rn_id run = runId" "rn_organizationId run = org"
    "rn_status run \<noteq> WAITING_FOR_APPROVAL \<Longrightarrow> ex_runs s' = ex_runs s"
    "rn_status run = WAITING_FOR_APPROVAL \<Longrightarrow> \<exists>ts. ex_runs s' = update_where
      (\<lambda>r. rn_id r = runId \<and> rn_organizationId r = org)
      (moved_run (if d = APPROVED then QUEUED else CANCELLED)
         (Some (if d = APPROVED then APPROVAL_GRANTED else APPROVAL_REJECTED)) ts) (ex_runs s)"
proof -
  let ?s = "s\<lparr>ss_scope := Some (Tenant org)\<rparr>"
  have link: "approval_link org approvalId ?s = Inr (link, t) \<Longrightarrow> link = Some (runId, ap_stepId a) \<and> t = ?s"
    for link t
  proof -
    have "find (\<lambda>a. ap_organizationId a = org \<and> ap_id a = approvalId \<and> ap_organizationId a = org)
        (ex_approvals s) = find (\<lambda>a. ap_organizationId a = org \<and> ap_id a = approvalId) (ex_approvals s)"
      by (rule arg_cong2 [where f = find]) auto
    then show "approval_link org approvalId ?s = Inr (link, t) \<Longrightarrow> link = Some (runId, ap_stepId a) \<and> t = ?s"
      using approval by (auto simp: approval_link_def andThen_Inr select_one_Inr)
  qed
  from decide scope obtain link t u where "s' = u\<lparr>ss_scope := None\<rparr>"
    and "approval_link org approvalId ?s = Inr (link, t)"
    and rest: "(case link of None \<Rightarrow> ret ()
       | Some (runId, stepId) \<Rightarrow>
           andThen (runRow org runId) (\<lambda>run.
           andThen (appendEvent env (run_scope_of org run)
              (CP (if d = APPROVED then ApprovalApproved else ApprovalRejected)) CONTROL_PLANE
              (Some actorId) (JObj [(''approvalId'', JStr approvalId), (''decidedBy'', JStr actorId)])
              stepId None) (\<lambda>_.
           if rn_status run \<noteq> WAITING_FOR_APPROVAL then ret ()
           else andThen (waiting_step org (rn_id run) stepId) (\<lambda>waiting.
                release_run env org run waiting d actorId)))) t = Inr ((), u)"
    by (auto simp: onApprovalDecided_def tenant_def scoped_def andThen_Inr split: if_splits sum.splits)
  with link obtain run i s1 where s': "s' = u\<lparr>ss_scope := None\<rparr>"
    and run: "runRow org runId ?s = Inr (run, ?s)"
    and event: "appendEvent env (run_scope_of org run)
              (CP (if d = APPROVED then ApprovalApproved else ApprovalRejected)) CONTROL_PLANE
              (Some actorId) (JObj [(''approvalId'', JStr approvalId), (''decidedBy'', JStr actorId)])
              (ap_stepId a) None ?s = Inr (i, s1)"
    and final: "(if rn_status run \<noteq> WAITING_FOR_APPROVAL then ret ()
           else andThen (waiting_step org (rn_id run) (ap_stepId a)) (\<lambda>waiting.
                release_run env org run waiting d actorId)) s1 = Inr ((), u)"
    by (fastforce simp: andThen_Inr runRow_Inr)
  have same: "ex_runs s1 = ex_runs s"
    using relatesD [OF same_runs_event event] by (simp add: same_runs_def)
  have wait: "ex_runs t = ex_runs s1" if "waiting_step org (rn_id run) st s1 = Inr (w, t)" for st w t
    using that by (auto simp: waiting_step_def andThen_Inr stepRow_Inr split: option.splits)
  from runRow_found [OF run] have found: "run \<in> set (ex_runs s)" "rn_id run = runId"
    "rn_organizationId run = org"
    by simp_all
  show ?thesis
  proof (rule that [OF found])
    assume "rn_status run \<noteq> WAITING_FOR_APPROVAL"
    with final same show "ex_runs s' = ex_runs s" by (simp add: s')
  next
    assume "rn_status run = WAITING_FOR_APPROVAL"
    with final obtain w t where w: "waiting_step org (rn_id run) (ap_stepId a) s1 = Inr (w, t)"
      and release: "release_run env org run w d actorId t = Inr ((), u)"
      by (auto simp: andThen_Inr)
    show "\<exists>ts. ex_runs s' = update_where (\<lambda>r. rn_id r = runId \<and> rn_organizationId r = org)
      (moved_run (if d = APPROVED then QUEUED else CANCELLED)
         (Some (if d = APPROVED then APPROVAL_GRANTED else APPROVAL_REJECTED)) ts) (ex_runs s)"
      by (rule release_run_runs [OF hooks release]) (use found wait [OF w] same s' in auto)
  qed
qed

text \<open>
  C30. A decision takes effect exactly on the run it paused. If the approval's run is waiting,
  approval re-queues it marked \<open>APPROVAL_GRANTED\<close> and rejection cancels it with
  \<open>APPROVAL_REJECTED\<close>; if it is no longer waiting, no run changes. Other runs never change.
\<close>

theorem decision_releases_waiting_run:
  assumes "execution_hooks env" and "sound s" and "ss_scope s = None"
    and "onApprovalDecided env org approvalId d actorId s = Inr ((), s')"
    and "find (\<lambda>a. ap_organizationId a = org \<and> ap_id a = approvalId) (ex_approvals s) = Some a"
    and "ap_runId a = Some runId"
  shows "\<exists>run \<in> set (ex_runs s). rn_id run = runId \<and> rn_organizationId run = org \<and>
    (if rn_status run = WAITING_FOR_APPROVAL
     then \<exists>ts. ex_runs s' = map (\<lambda>r. if r = run then moved_run
            (case d of APPROVED \<Rightarrow> QUEUED | REJECTED \<Rightarrow> CANCELLED)
            (Some (case d of APPROVED \<Rightarrow> APPROVAL_GRANTED | REJECTED \<Rightarrow> APPROVAL_REJECTED)) ts r
          else r) (ex_runs s)
     else ex_runs s' = ex_runs s)"
proof -
  from onApprovalDecided_cases [OF assms(1,3,4,5,6)] obtain run where
    run: "run \<in> set (ex_runs s)" "rn_id run = runId" "rn_organizationId run = org"
    and idle: "rn_status run \<noteq> WAITING_FOR_APPROVAL \<Longrightarrow> ex_runs s' = ex_runs s"
    and waiting: "rn_status run = WAITING_FOR_APPROVAL \<Longrightarrow> \<exists>ts. ex_runs s' = update_where
      (\<lambda>r. rn_id r = runId \<and> rn_organizationId r = org)
      (moved_run (if d = APPROVED then QUEUED else CANCELLED)
         (Some (if d = APPROVED then APPROVAL_GRANTED else APPROVAL_REJECTED)) ts) (ex_runs s)"
    by blast
  have only: "(rn_id r = runId \<and> rn_organizationId r = org) = (r = run)" if "r \<in> set (ex_runs s)" for r
    using that run assms(2) unique_key [of rn_id "ex_runs s" r run]
    by (auto simp: sound_def keys_unique_def)
  show ?thesis
  proof (rule bexI [OF _ run(1)], cases "rn_status run = WAITING_FOR_APPROVAL")
    case True
    with waiting only run show "rn_id run = runId \<and> rn_organizationId run = org \<and>
      (if rn_status run = WAITING_FOR_APPROVAL
       then \<exists>ts. ex_runs s' = map (\<lambda>r. if r = run then moved_run
            (case d of APPROVED \<Rightarrow> QUEUED | REJECTED \<Rightarrow> CANCELLED)
            (Some (case d of APPROVED \<Rightarrow> APPROVAL_GRANTED | REJECTED \<Rightarrow> APPROVAL_REJECTED)) ts r
          else r) (ex_runs s)
       else ex_runs s' = ex_runs s)"
      by (cases d) (auto simp: update_where_def)
  qed (use idle run in auto)
qed

definition sample_waiting :: exec_db where
  "sample_waiting = sample_running\<lparr>
     ex_runs := map (\<lambda>r. r\<lparr>rn_status := WAITING_FOR_APPROVAL,
       rn_statusReason := Some ''APPROVAL_REQUIRED''\<rparr>) (ex_runs sample_running),
     ex_approvals := [\<lparr>ap_id = ''ap1'', ap_organizationId = ''o1'', ap_requestedBy = ''e1'',
       ap_action = ''jira.issue.create'', ap_resourceType = ''issue'', ap_resourceId = ''X-1'',
       ap_risk = MEDIUM, ap_summary = ''Create'', ap_status = ApAPPROVED, ap_decidedBy = Some ''mgr'',
       ap_decidedAt = Some 5, ap_createdAt = 4, ap_runId = Some ''ux'', ap_stepId = None,
       ap_expiresAt = None\<rparr>]\<rparr>"

lemma sample_waiting_sound: "sound sample_waiting"
proof -
  have "map run_key (ex_runs sample_waiting) = map run_key (ex_runs sample_running)"
    "ex_events sample_waiting = ex_events sample_running"
    by (simp_all add: sample_waiting_def run_key_def)
  then have "ledger sample_waiting"
    using reachable_sound [OF sample_hooks sample_running_reachable]
    by (simp add: sound_def ledger_def)
  moreover have "keys_unique sample_waiting" "integrity sample_waiting"
    unfolding keys_unique_def integrity_def by (intro conjI; code_simp)+
  ultimately show ?thesis by (simp add: sound_def)
qed

definition sample_released :: exec_db where
  "sample_released =
     after (onApprovalDecided sample_env ''o1'' ''ap1'' APPROVED ''mgr'' sample_waiting) sample_waiting"

lemma sample_decided:
  "onApprovalDecided sample_env ''o1'' ''ap1'' APPROVED ''mgr'' sample_waiting = Inr ((), sample_released)"
proof -
  have "succeeds (onApprovalDecided sample_env ''o1'' ''ap1'' APPROVED ''mgr'' sample_waiting)"
    by code_simp
  from succeeds_after [of "onApprovalDecided sample_env ''o1'' ''ap1'' APPROVED ''mgr''", OF this]
  show ?thesis unfolding sample_released_def by auto
qed

lemma decision_releases_waiting_run_witness:
  "\<exists>run \<in> set (ex_runs sample_waiting). \<exists>ts. ex_runs sample_released =
     map (\<lambda>r. if r = run then moved_run QUEUED (Some APPROVAL_GRANTED) ts r else r)
       (ex_runs sample_waiting)"
proof -
  have none: "ss_scope sample_waiting = None" by code_simp
  have waiting: "\<forall>r \<in> set (ex_runs sample_waiting). rn_status r = WAITING_FOR_APPROVAL" by code_simp
  obtain a where a: "find (\<lambda>a. ap_organizationId a = ''o1'' \<and> ap_id a = ''ap1'') (ex_approvals sample_waiting) = Some a"
    "ap_runId a = Some ''ux''"
    by (simp add: sample_waiting_def)
  from decision_releases_waiting_run [OF sample_hooks sample_waiting_sound none sample_decided a]
  obtain run where run: "run \<in> set (ex_runs sample_waiting)"
    and released: "if rn_status run = WAITING_FOR_APPROVAL
     then \<exists>ts. ex_runs sample_released = map (\<lambda>r. if r = run then moved_run
            (case APPROVED of APPROVED \<Rightarrow> QUEUED | REJECTED \<Rightarrow> CANCELLED)
            (Some (case APPROVED of APPROVED \<Rightarrow> APPROVAL_GRANTED | REJECTED \<Rightarrow> APPROVAL_REJECTED)) ts r
          else r) (ex_runs sample_waiting)
     else ex_runs sample_released = ex_runs sample_waiting"
    by blast
  from waiting run have "rn_status run = WAITING_FOR_APPROVAL" by blast
  with released obtain ts where "ex_runs sample_released = map (\<lambda>r. if r = run
      then moved_run QUEUED (Some APPROVAL_GRANTED) ts r else r) (ex_runs sample_waiting)"
    by (simp only: approval_decision.case if_True simp_thms) blast
  with run show ?thesis by blast
qed

section \<open>Cancellation\<close>

lemma each_cancel:
  "each (\<lambda>t. transitionStep org (st_id t) StepCANCELLED) ts s = Inr (u, s') \<Longrightarrow>
     ex_runs s' = ex_runs s \<and> ss_scope s' = ss_scope s \<and>
     (\<forall>t' \<in> set (ex_steps s'). st_status t' \<noteq> StepCANCELLED \<longrightarrow>
        t' \<in> set (ex_steps s) \<and> (st_organizationId t' = org \<longrightarrow> st_id t' \<notin> st_id ` set ts))"
proof (induction ts arbitrary: s)
  case Nil
  then show ?case by simp
next
  case (Cons t ts)
  then obtain s1 where s1: "transitionStep org (st_id t) StepCANCELLED s = Inr ((), s1)"
    and rest: "each (\<lambda>t. transitionStep org (st_id t) StepCANCELLED) ts s1 = Inr (u, s')"
    by (auto simp: andThen_Inr)
  from s1 obtain w ts' where "ticked s w"
    "s1 = w\<lparr>ex_steps := update_where (\<lambda>q. st_id q = st_id t \<and> st_organizationId q = org)
        (moved_step StepCANCELLED ts') (ex_steps s)\<rparr>"
    by (rule transitionStep_effect)
  then have "ex_runs s1 = ex_runs s" "ss_scope s1 = ss_scope s"
    "\<And>q. q \<in> set (ex_steps s1) \<Longrightarrow> st_status q \<noteq> StepCANCELLED \<Longrightarrow>
       q \<in> set (ex_steps s) \<and> (st_organizationId q = org \<longrightarrow> st_id q \<noteq> st_id t)"
    by (auto simp: ticked_tables set_update_where split: if_splits)
  with Cons.IH [OF rest] show ?case by auto
qed

lemma same_steps_run:
  assumes "execution_hooks env" and "transitionRun env scp to reason s = Inr (u, s')"
  shows "ex_steps s' = ex_steps s"
proof -
  from assms(2) obtain run t where t: "move_run (rs_organizationId scp) (rs_runId scp) to reason s = Inr (run, t)"
    and hook: "whenever (rn_status run \<noteq> to \<and> to \<in> {COMPLETED, FAILED, CANCELLED})
       (case en_onRunStopped env of None \<Rightarrow> ret ()
        | Some hook \<Rightarrow> hook (rs_organizationId scp) (rs_runId scp) to) t = Inr (u, s')"
    by (auto simp: transitionRun_def andThen_Inr)
  from execution_hooks.stopped_hook_frame [OF assms(1)] hook have "exec_frame t s'" by (rule relatesD)
  with t show ?thesis
    by (elim move_run_effect) (auto simp: ticked_tables exec_frame_def)
qed

lemma same_steps_event:
  "appendEvent env scp type source a p st rt s = Inr (i, s') \<Longrightarrow> ex_steps s' = ex_steps s"
  by (erule appendEvent_effect) (simp add: ticked_tables)

text \<open>The statements of a cancellation, in their order.\<close>

lemma cancelRun_steps:
  fixes env :: "'z exec_env"
  assumes hooks: "execution_hooks env" and scope: "ss_scope s = None"
    and cancel: "cancelRun env org runId reason actorId s = Inr (run, s')"
  obtains scp s1 s2 s3 i s4 sc r opened where
    "rs_organizationId scp = org" "rs_runId scp = runId"
    "opened = filter (\<lambda>t. st_organizationId t = org \<and> st_runId t = runId \<and> open_step (st_status t)) (ex_steps s)"
    "each (\<lambda>t. transitionStep org (st_id t) StepCANCELLED) (sort_key st_sequence opened)
       (s\<lparr>ss_scope := Some (Tenant org)\<rparr>) = Inr ((), s1)"
    "transitionRun env scp CANCELLED (Some reason) s1 = Inr ((), s2)"
    "appendEvent env scp (RT RunCancelled) CONTROL_PLANE actorId (JObj [(''reason'', JStr reason)])
       None None s2 = Inr (i, s3)"
    "exec_frame s3 s4"
    "find (\<lambda>r. sees sc (rn_organizationId r) \<and> rn_id r = runId \<and> rn_organizationId r = org) (ex_runs s4) = Some r"
    "run = mapRun r" "s' = s4\<lparr>ss_scope := None\<rparr>"
proof -
  note sync = relatesD [OF execution_hooks.syncConversation_frame [OF hooks]]
  have opened: "filter (\<lambda>t. st_organizationId t = org \<and> st_runId t = runId \<and> st_organizationId t = org \<and>
      open_step (st_status t)) (ex_steps s) =
    filter (\<lambda>t. st_organizationId t = org \<and> st_runId t = runId \<and> open_step (st_status t)) (ex_steps s)"
    by (rule filter_cong) auto
  from cancel [unfolded cancelRun_def tenant_Inr [OF scope] andThen_Inr runRow_Inr select_Inr
      select_one_Inr demand_Inr found_Inr ret_Inr Let_def]
  show ?thesis
    apply (elim exE conjE)
    apply (hypsubst)
    apply (rule that)
    apply simp_all
     apply (rule filter_cong, auto) []
    apply (erule sync)
    done
qed

text \<open>
  C31. Cancelling ends a run completely: afterwards the run is \<open>CANCELLED\<close> for the given reason,
  the caller gets exactly that run, and none of its steps is open.
\<close>

theorem cancelled_runs_are_closed:
  fixes env :: "'z exec_env"
  assumes "execution_hooks env" and "ss_scope s = None"
    and "cancelRun env org runId reason actorId s = Inr (run, s')"
  shows "rn_id run = runId \<and> rn_status run = CANCELLED \<and> rn_statusReason run = Some reason \<and>
    run \<in> mapRun ` set (ex_runs s') \<and>
    (\<forall>t \<in> set (ex_steps s'). st_runId t = runId \<and> st_organizationId t = org \<longrightarrow> \<not> open_step (st_status t))"
proof -
  obtain scp s1 s2 s3 i s4 sc r opened where scp: "rs_organizationId scp = org" "rs_runId scp = runId"
    and opened: "opened = filter (\<lambda>t. st_organizationId t = org \<and> st_runId t = runId \<and> open_step (st_status t)) (ex_steps s)"
    and closed: "each (\<lambda>t. transitionStep org (st_id t) StepCANCELLED) (sort_key st_sequence opened)
       (s\<lparr>ss_scope := Some (Tenant org)\<rparr>) = Inr ((), s1)"
    and moved: "transitionRun env scp CANCELLED (Some reason) s1 = Inr ((), s2)"
    and event: "appendEvent env scp (RT RunCancelled) CONTROL_PLANE actorId (JObj [(''reason'', JStr reason)])
       None None s2 = Inr (i, s3)"
    and frame: "exec_frame s3 s4"
    and found: "find (\<lambda>r. sees sc (rn_organizationId r) \<and> rn_id r = runId \<and> rn_organizationId r = org) (ex_runs s4) = Some r"
    and s': "run = mapRun r" "s' = s4\<lparr>ss_scope := None\<rparr>"
    by (rule cancelRun_steps [OF assms(1,2,3)])
  from transitionRun_runs [OF assms(1) moved] scp obtain ts where
    "ex_runs s2 = update_where (\<lambda>r. rn_id r = runId \<and> rn_organizationId r = org)
      (moved_run CANCELLED (Some reason) ts) (ex_runs s1)"
    by auto
  moreover have "ex_runs s3 = ex_runs s2"
    using relatesD [OF same_runs_event event] by (simp add: same_runs_def)
  moreover have "ex_runs s4 = ex_runs s3" using frame unfolding exec_frame_def by (elim conjE)
  ultimately have runs: "ex_runs s4 = update_where (\<lambda>r. rn_id r = runId \<and> rn_organizationId r = org)
      (moved_run CANCELLED (Some reason) ts) (ex_runs s1)"
    by simp
  from find_Some_set [OF found] have r: "r \<in> set (ex_runs s4)" "rn_id r = runId" "rn_organizationId r = org"
    by auto
  from r(1) obtain q where q: "r = (if rn_id q = runId \<and> rn_organizationId q = org
      then moved_run CANCELLED (Some reason) ts q else q)"
    unfolding runs set_update_where by (elim imageE)
  have cancelled: "rn_status r = CANCELLED" "rn_statusReason r = Some reason"
  proof -
    have "rn_id q = runId \<and> rn_organizationId q = org"
      using r(2,3) unfolding q by (cases "rn_id q = runId \<and> rn_organizationId q = org") simp_all
    then show "rn_status r = CANCELLED" "rn_statusReason r = Some reason"
      unfolding q by simp_all
  qed
  have steps: "ex_steps s4 = ex_steps s1"
    using same_steps_run [OF assms(1) moved] same_steps_event [OF event] frame by (simp add: exec_frame_def)
  have "\<not> open_step (st_status t)"
    if t: "t \<in> set (ex_steps s')" "st_runId t = runId" "st_organizationId t = org" for t
  proof
    assume "open_step (st_status t)"
    then have "st_status t \<noteq> StepCANCELLED" by (auto simp: open_step_def)
    with each_cancel [OF closed] t steps have "t \<in> set (ex_steps s)" "st_id t \<notin> st_id ` set opened"
      by (auto simp: s')
    with \<open>open_step (st_status t)\<close> t show False by (auto simp: opened)
  qed
  moreover have "run \<in> mapRun ` set (ex_runs s')" using r by (simp add: s')
  ultimately show ?thesis using r cancelled by (simp add: s' mapRun_def agent_run.truncate_def)
qed

lemma cancelled_runs_are_closed_witness:
  "\<exists>run s'. cancelRun sample_env ''o1'' ''ux'' ''STOP'' None sample_running = Inr (run, s') \<and>
     rn_status run = CANCELLED \<and> run \<in> mapRun ` set (ex_runs s')"
proof -
  have "succeeds (cancelRun sample_env ''o1'' ''ux'' ''STOP'' None sample_running)"
    by code_simp
  from succeeds_after [of "cancelRun sample_env ''o1'' ''ux'' ''STOP'' None", OF this]
  obtain run s' where cancel: "cancelRun sample_env ''o1'' ''ux'' ''STOP'' None sample_running = Inr (run, s')"
    by blast
  have "ss_scope sample_running = None" by code_simp
  from cancelled_runs_are_closed [OF sample_hooks this cancel]
  have "rn_status run = CANCELLED" "run \<in> mapRun ` set (ex_runs s')" by blast+
  with cancel show ?thesis by blast
qed

end
