(* ===== verification/ActionBehaviour.thy ===== *)
theory ActionBehaviour
  imports ActionSamples ExecutionBehaviour
begin

text \<open>
  What single calls of the Action Gateway achieve: the bounds of a grant and its redelivery, the
  pause that a required approval causes, the reach of an organization's denial, the errors of a
  resolution, and the closing of dispatches that a stopped control plane left open.
\<close>

section \<open>Grants\<close>

lemma new_grant_Inr:
  assumes services: "gateway_services env"
    and new: "new_grant env run q correlation rt n expiresAt x v s = Inr (g, s')"
  obtains hosts credential grantId sig row where "xa_hosts (gw_web env) (xt_policy x) (xt_operation x) = Some hosts"
    and "g = \<lparr>sg_payload = \<lparr>gp_grantId = grantId, gp_requestId = rq_id q, gp_action = rq_action q,
        gp_correlation = correlation, gp_operationKind = operation_kind (xt_operation x),
        gp_operationDigest = gw_digest env v, gp_isolation = xt_isolation x, gp_limits = grant_limits x hosts,
        gp_credential = credential, gp_issuedAt = n, gp_expiresAt = expiresAt\<rparr>, sg_signature = sig\<rparr>"
    and "gr_requestId row = rq_id q" "gr_signedGrant row = g" "gr_organizationId row = rn_organizationId run"
      "gr_expiresAt row = expiresAt"
    and "ac_grants s' = ac_grants s @ [row]" "rq_id q \<notin> gr_requestId ` set (ac_grants s)"
proof -
  define payload where "payload hosts grantId credential =
       \<lparr>gp_grantId = grantId, gp_requestId = rq_id q, gp_action = rq_action q, gp_correlation = correlation,
        gp_operationKind = operation_kind (xt_operation x), gp_operationDigest = gw_digest env v,
        gp_isolation = xt_isolation x, gp_limits = grant_limits x hosts, gp_credential = credential,
        gp_issuedAt = n, gp_expiresAt = expiresAt\<rparr>" for hosts grantId credential
  define signed where "signed p = \<lparr>sg_payload = p, sg_signature = gw_sign env p\<rparr>" for p
  define row where "row p grantId =
        \<lparr>gr_grantId = grantId, gr_requestId = rq_id q, gr_organizationId = rn_organizationId run,
         gr_runId = rn_id run, gr_operationKind = gp_operationKind p, gr_signedGrant = signed p,
         gr_issuedAt = n, gr_expiresAt = expiresAt\<rparr>" for p grantId
  from new obtain hosts grantId s1 credential s2 s3 m w1 w2 where
    hosts: "xa_hosts (gw_web env) (xt_policy x) (xt_operation x) = Some hosts"
    and uuid: "randomUUID s = Inr (grantId, s1)"
    and cred: "grant_credential_for env run (rq_id q) grantId (xt_operation x) (gw_digest env v) rt expiresAt n s1 = Inr (credential, s2)"
    and ins: "insert_row ac_grants_update gr_organizationId grant_checks (row (payload hosts grantId credential) grantId) s2 = Inr (w1, s3)"
    and aud: "audit (rn_agentId run) ''action.grant.issued'' ''agent_run'' (rn_id run) m (rn_organizationId run) s3 = Inr (w2, s')"
    and g: "g = signed (payload hosts grantId credential)"
    unfolding new_grant_def Let_def andThen_Inr given_allowed ret_Inr payload_def [symmetric] signed_def [symmetric]
      row_def [symmetric]
    by blast
  have "action_tables s s1" using uuid by (auto simp: action_tables_def)
  moreover have "action_tables s1 s2"
    by (rule relatesD [OF gateway_hooks.grant_credential_R [OF services_hooks(2) [OF services]] cred])
  moreover note audit_rows(1) [OF aud]
  moreover have "ac_grants s3 = ac_grants s2 @ [row (payload hosts grantId credential) grantId]"
    "gr_requestId (row (payload hosts grantId credential) grantId) \<notin> gr_requestId ` set (ac_grants s2)"
    using ins by (auto simp: grants.insert_Inr grant_checks_def)
  ultimately show ?thesis
    using that [OF hosts g [unfolded signed_def payload_def], of "row (payload hosts grantId credential) grantId"]
    by (simp add: action_tables_def row_def g signed_def payload_def)
qed

text \<open>A grant is the one already issued, or newly authorized.\<close>

lemma grant_cases:
  assumes services: "gateway_services env"
    and issue: "issueGrant env run i correlation rt n s = Inr (g, s')"
  obtains (reused) row where "row \<in> set (ac_grants s)" "gr_requestId row = i" "gr_signedGrant row = g"
      "n < gr_expiresAt row" "ac_grants s' = ac_grants s"
  | (fresh) sc q t expiry current t2 x v t3 where
      "sees sc (rn_organizationId run)" "ss_scope t = Some sc" "ac_policies t = ac_policies s" "ac_requests t = ac_requests s"
      "ac_grants t = ac_grants s" "q \<in> set (ac_requests s)" "rq_id q = i" "rq_organizationId q = rn_organizationId run"
      "rq_runId q = rn_id run" "rq_stepId q = gc_stepId correlation"
      "approval_verdict q n t = Inr (Inr expiry, t)" "assess env run (request_again q) t = Inr (current, t2)"
      "at_outcome current \<noteq> DENY" "at_execution current = Some x" "at_parameters current = Some v"
      "new_grant env run q correlation rt n (grant_expiry n expiry) x v t2 = Inr (g, t3)"
      "s' = t3 \<or> s' = t3\<lparr>ss_scope := None\<rparr>"
proof -
  from issue obtain sc u where sc: "sees sc (rn_organizationId run)" and s': "s' = u \<or> s' = u\<lparr>ss_scope := None\<rparr>"
    and body: "andThen (expireDue env n (Some (rn_organizationId run))) (\<lambda>_.
       andThen (requested run i (gc_stepId correlation)) (\<lambda>q.
       andThen (demand (executionAction (rq_action q) \<noteq> None) (Refused 409 ''ACTION_NOT_GRANTABLE'')) (\<lambda>_.
       andThen (granted_row (rn_organizationId run) i) (\<lambda>row.
       case row of
         Some g \<Rightarrow>
           andThen (demand (gr_expiresAt g > n) (Refused 409 ''GRANT_EXPIRED'')) (\<lambda>_. ret (gr_signedGrant g))
       | None \<Rightarrow> authorized_grant env run q correlation rt n)))) (s\<lparr>ss_scope := Some sc\<rparr>) = Inr (g, u)"
    unfolding issueGrant_def by (rule tenant_run)
  from body obtain k t q t' row t'' where
    expired: "expireDue env n (Some (rn_organizationId run)) (s\<lparr>ss_scope := Some sc\<rparr>) = Inr (k, t)"
    and q: "requested run i (gc_stepId correlation) t = Inr (q, t')"
    and row: "granted_row (rn_organizationId run) i t' = Inr (row, t'')"
    and rest: "(case row of
         Some g \<Rightarrow>
           andThen (demand (gr_expiresAt g > n) (Refused 409 ''GRANT_EXPIRED'')) (\<lambda>_. ret (gr_signedGrant g))
       | None \<Rightarrow> authorized_grant env run q correlation rt n) t'' = Inr (g, u)"
    unfolding andThen_Inr demand_Inr by blast
  note expired = expire_keeps [OF services expired]
  note q = requested_found [OF q]
  have t'': "t'' = t'" using row by (auto simp: granted_row_def select_one_Inr)
  show ?thesis
  proof (cases row)
    case (Some r)
    from row [unfolded Some granted_row_def] have "r \<in> set (ac_grants t')" "gr_requestId r = i"
      by (auto dest: select_one_found)
    with rest Some expired q t'' s' show ?thesis
      by (intro reused [of r]) (auto simp: andThen_Inr)
  next
    case None
    with rest have auth: "authorized_grant env run q correlation rt n t = Inr (g, u)" using t'' q by simp
    then obtain verdict t1 where verdict: "approval_verdict q n t = Inr (verdict, t1)"
      and after: "(case verdict of
       Inl (code, _) \<Rightarrow> refuse_grant code 403
     | Inr approvalExpiry \<Rightarrow>
         andThen (assess env run (request_again q)) (\<lambda>current.
         if at_outcome current = DENY then refuse_grant ''POLICY_DENIED'' 403
         else if at_outcome current = REQUIRE_APPROVAL \<and> rq_decision q = ALLOWED
         then refuse_grant ''APPROVAL_REQUIRED'' 409
         else case (at_execution current, at_parameters current) of
           (Some x, Some v) \<Rightarrow>
             new_grant env run q correlation rt n (grant_expiry n approvalExpiry) x v
         | _ \<Rightarrow> refuse_grant ''PARAMETERS_REQUIRED'' 409)) t1 = Inr (g, u)"
      by (auto simp: authorized_grant_def andThen_Inr)
    from after obtain expiry where v: "verdict = Inr expiry" by (cases verdict) (auto simp: refuse_grant_def)
    with verdict approval_verdict_granted have t1: "t1 = t" by blast
    from after v t1 obtain current t2 where assessed: "assess env run (request_again q) t = Inr (current, t2)"
      and final: "(if at_outcome current = DENY then refuse_grant ''POLICY_DENIED'' 403
         else if at_outcome current = REQUIRE_APPROVAL \<and> rq_decision q = ALLOWED
         then refuse_grant ''APPROVAL_REQUIRED'' 409
         else case (at_execution current, at_parameters current) of
           (Some x, Some v) \<Rightarrow>
             new_grant env run q correlation rt n (grant_expiry n expiry) x v
         | _ \<Rightarrow> refuse_grant ''PARAMETERS_REQUIRED'' 409) t2 = Inr (g, u)"
      by (auto simp: andThen_Inr)
    from final obtain x v where "at_outcome current \<noteq> DENY" "at_execution current = Some x" "at_parameters current = Some v"
      "new_grant env run q correlation rt n (grant_expiry n expiry) x v t2 = Inr (g, u)"
      by (cases "at_execution current"; cases "at_parameters current") (auto simp: refuse_grant_def split: if_splits)
    with assessed verdict v t1 expired q s' sc show ?thesis
      by (intro fresh [of sc t q expiry current t2 x v u]) auto
  qed
qed

lemma granted_operation:
  assumes "assess env run (request_again q) s = Inr (current, s')" and "at_outcome current \<noteq> DENY"
    and "at_execution current = Some x" "at_parameters current = Some v"
  shows "rq_parameters q = Some v \<and> parseExecutionOperation (gw_web env) v = Some (xt_operation x) \<and>
    executionAction (rq_action q) = Some (xt_policy x) \<and> operation_kind (xt_operation x) \<in> set (xa_operations (xt_policy x))"
  using assms(1)
proof (cases rule: assess_cases)
  case (1 reason)
  with assms(2) show ?thesis by simp
next
  case (2 m tool granted target override t1 t2)
  have req: "sq_action (request_again q) = rq_action q" "sq_parameters (request_again q) = rq_parameters q"
    by (simp_all add: request_again_def)
  have none: "controlPlaneAction (rq_action q) = None"
  proof (rule ccontr)
    assume "controlPlaneAction (rq_action q) \<noteq> None"
    then obtain h where "controlPlaneAction (sq_action (request_again q)) = Some h" by (auto simp: req)
    from connector_target_of [OF 2(2) this] have "tg_execution target = None" by blast
    with assms(3) 2(4) show False by simp
  qed
  obtain a where a: "executionAction (rq_action q) = Some a"
    using 2(2,4) assms(3) none by (auto simp: action_target_of_def req no_target_def split: option.splits)
  from runtime_target_of [OF 2(2), unfolded req, OF none a] obtain v' oper where
    "rq_parameters q = Some v'" "tg_parameters target = Some v'" "parseExecutionOperation (gw_web env) v' = Some oper"
    "operation_kind oper \<in> set (xa_operations a)"
    "tg_execution target = Some \<lparr>xt_policy = a, xt_operation = oper, xt_isolation = am_isolation m,
          xt_timeoutMs = td_timeoutMs tool\<rparr>"
    by metis
  moreover have "tg_parameters target = Some v" "tg_execution target = Some x"
    using assms(3,4) 2(4) by simp_all
  ultimately show ?thesis using a by auto
qed



text \<open>
  A request has one grant. However often a runtime asks again, and whatever happened in
  between, it gets the very grant that was issued first or none.
\<close>

theorem grants_are_issued_once:
  assumes services: "gateway_services env" and sound: "action_sound s"
    and first: "issueGrant env run i correlation rt n s = Inr (g, s')" and later: "gateway_steps env s' t"
    and again: "issueGrant env run' i correlation' rt' n' t = Inr (g', t')"
  shows "g' = g"
proof -
  have history: "action_history s s'" "action_history s' t"
    using gateway_step_history [OF services gateway_step.granted [OF first]] gateway_steps_history [OF services later] .
  then have "action_sound t" "prefix (ac_grants s') (ac_grants t)"
    using sound by (simp_all add: action_history_def records_kept_def)
  then have unique: "distinct (map gr_requestId (ac_grants t))" and keep: "set (ac_grants s') \<subseteq> set (ac_grants t)"
    by (simp_all add: action_sound_def set_mono_prefix)
  have "\<exists>row \<in> set (ac_grants s'). gr_requestId row = i \<and> gr_signedGrant row = g"
    using services first
  proof (cases rule: grant_cases)
    case (reused row)
    then show ?thesis by auto
  next
    case (fresh sc q t expiry current t2 x v t3)
    from new_grant_Inr [OF services fresh(16)] obtain row where "gr_requestId row = rq_id q" "gr_signedGrant row = g"
      "ac_grants t3 = ac_grants t2 @ [row]"
      by metis
    with fresh(7,17) show ?thesis by auto
  qed
  with keep obtain row where row: "row \<in> set (ac_grants t)" "gr_requestId row = i" "gr_signedGrant row = g" by blast
  show ?thesis
    using services again
  proof (cases rule: grant_cases)
    case (reused r)
    with unique row have "r = row" by (auto intro: unique_key)
    with reused row show ?thesis by simp
  next
    case (fresh sc q u expiry current t2 x v t3)
    from new_grant_Inr [OF services fresh(16)] have "rq_id q \<notin> gr_requestId ` set (ac_grants t2)" by metis
    moreover have "ac_grants t2 = ac_grants t"
      using rows_same_reads(8) [OF reading_rows(2) [OF services fresh(12)]] fresh(5) by simp
    ultimately show ?thesis using row fresh(7) by auto
  qed
qed

lemma grants_are_issued_once_witness:
  "\<exists>g u. issueGrant sample_gateway busy_run ''q3'' busy_correlation ''rt'' 100 sample_reading = Inr (g, sample_granted) \<and>
     issueGrant sample_gateway busy_run ''q3'' busy_correlation ''rt'' 200 sample_granted = Inr (g, u)"
proof -
  have "no_actions sample_busy" by code_simp
  then have "action_sound sample_reading"
    using asks_to_read gateway_step_history [OF sample_gateway_services gateway_step.decided]
    by (auto simp: action_history_def dest: no_actions_sound)
  with grants grants_again grants_are_issued_once [OF sample_gateway_services _ _ gateway_steps.none]
  show ?thesis by metis
qed

section \<open>An organization's denial\<close>

text \<open>An override that denies decides every assessment of its action, whoever asks for it.\<close>

lemma assessed_denied:
  assumes services: "gateway_services env" and sound: "action_sound s"
    and po: "po \<in> set (ac_policies s)" "po_outcome po = DENY" "po_organizationId po = rn_organizationId run"
    and "assess env run req t = Inr (a, t')" "ac_policies t = ac_policies s" "ss_scope t = Some sc"
    and "sees sc (rn_organizationId run)" "sq_action req = po_action po"
  shows "at_outcome a = DENY"
proof -
  have "distinct (map policy_id (ac_policies s))" using sound by (simp add: action_sound_def)
  then show ?thesis
    by (intro override_denies [OF services _ _ po(2,3) _ assms(6,8,9)]) (use po assms(7,10) in simp_all)
qed

lemma denied_decision:
  assumes services: "gateway_services env" and sound: "action_sound s"
    and po: "po \<in> set (ac_policies s)" "po_outcome po = DENY" "po_organizationId po = rn_organizationId run"
    and decide: "decide_action env rt run msg h s = Inr (v, s')" and act: "rm_action msg = po_action po"
  shows "dv_decision v = DENIED"
proof -
  from decide_steps [OF services decide] obtain sc a t1 verdict t2 now' ai where
    sc: "sees sc (rn_organizationId run)"
    and assessed: "assess env run (request_of msg) (s\<lparr>ss_scope := Some sc\<rparr>) = Inr (a, t1)"
    and blocks: "blocked_verdict env run (rm_action msg) a t1 = Inr (verdict, t2)"
    and v: "v = storedDecision (request_row rt run msg h verdict ai now')"
    by metis
  have "at_outcome a = DENY"
    by (rule assessed_denied [OF services sound po assessed _ _ sc]) (simp_all add: request_of_def act)
  moreover have "ss_scope t1 = Some sc"
    using rows_same_reads(3) [OF reading_rows(2) [OF services assessed]] by simp
  ultimately show ?thesis using blocked_verdict_Inr(1) [OF blocks _ sc] v by auto
qed

lemma denied_dispatch:
  assumes services: "gateway_services env" and sound: "action_sound s"
    and po: "po \<in> set (ac_policies s)" "po_outcome po = DENY" "po_organizationId po = rn_organizationId run"
    and prepared: "prepareExecution env run i st n s = Inr (Dispatch p, s')"
  shows "dp_action p \<noteq> po_action po"
proof
  assume same: "dp_action p = po_action po"
  from prepared obtain sc u k t q h t1 approval current t2 c v t3 secret t4 where
    sc: "sees sc (rn_organizationId run)"
    and expired: "expireDue env n (Some (rn_organizationId run)) (s\<lparr>ss_scope := Some sc\<rparr>) = Inr (k, t)"
    and verdict: "approval_verdict q n t = Inr (Inr approval, t1)"
    and assessed: "assess env run (request_again q) t1 = Inr (current, t2)"
    and refusal: "execution_refusal env run h q current t2 = Inr (Inr (c, v), t3)"
    and "requested run i st t = Inr (q, t)" and h: "controlPlaneAction (rq_action q) = Some h"
    and commit: "commit_dispatch env run h q n c v secret t3 = Inr (Dispatch p, t4)"
    and "s' = t4 \<or> s' = t4\<lparr>ss_scope := None\<rparr>"
    by (rule dispatch_steps)
  note expired = expire_keeps [OF services expired]
  have t1: "t1 = t" using approval_verdict_granted [OF verdict] by blast
  have "at_outcome current = DENY"
    by (rule assessed_denied [OF services sound po assessed _ _ sc])
       (use expired t1 same commit_dispatch_Inr [OF commit] controlPlaneAction_name [OF h] in
         \<open>simp_all add: request_again_def\<close>)
  with refusal show False by (simp add: execution_refusal_def)
qed

lemma denied_grant:
  assumes services: "gateway_services env" and sound: "action_sound s"
    and po: "po \<in> set (ac_policies s)" "po_outcome po = DENY" "po_organizationId po = rn_organizationId run"
    and issued: "issueGrant env run i correlation rt n s = Inr (g, s')" and new: "i \<notin> gr_requestId ` set (ac_grants s)"
  shows "gp_action (sg_payload g) \<noteq> po_action po"
  using services issued
proof (cases rule: grant_cases)
  case (reused row)
  with new show ?thesis by auto
next
  case (fresh sc q t expiry current t2 x v t3)
  have "gp_action (sg_payload g) = rq_action q"
    using new_grant_Inr [OF services fresh(16)] by (metis grant_payload.select_convs(3) signed_grant.select_convs(1))
  moreover have "at_outcome current = DENY" if "rq_action q = po_action po"
    by (rule assessed_denied [OF services sound po fresh(12,3,2,1)]) (simp add: request_again_def that)
  ultimately show ?thesis using fresh(13) by auto
qed

text \<open>
  C26. An organization's \<open>DENY\<close> takes effect at once and everywhere: once the override is stored,
  requests for the action are denied, and requests that were already allowed or approved are
  neither dispatched nor granted.
\<close>

theorem organization_denial_is_immediate:
  assumes services: "gateway_services env" and sound: "action_sound s"
    and po: "po \<in> set (ac_policies s)" "po_outcome po = DENY" "po_organizationId po = rn_organizationId run"
  shows "(decide_action env rt run msg h s = Inr (v, s1) \<and> rm_action msg = po_action po \<longrightarrow> dv_decision v = DENIED) \<and>
    (prepareExecution env run i st n s = Inr (Dispatch p, s2) \<longrightarrow> dp_action p \<noteq> po_action po) \<and>
    (issueGrant env run i correlation rt n s = Inr (g, s3) \<and> i \<notin> gr_requestId ` set (ac_grants s) \<longrightarrow>
       gp_action (sg_payload g) \<noteq> po_action po)"
  using denied_decision [OF services sound po] denied_dispatch [OF services sound po] denied_grant [OF services sound po] by blast

definition sample_tightened :: action_db where
  "sample_tightened = after (set_policy sample_admin ''jira.issue.create''
     (JObj [(''outcome'', JStr ''DENY''), (''reason'', JStr ''Frozen'')]) sample_busy) sample_busy"

lemma organization_denial_is_immediate_witness:
  "\<exists>v t. decide_action sample_gateway ''rt'' busy_run issue_message sample_hash sample_tightened = Inr (v, t) \<and>
     dv_decision v = DENIED"
proof -
  have "succeeds (set_policy sample_admin ''jira.issue.create''
     (JObj [(''outcome'', JStr ''DENY''), (''reason'', JStr ''Frozen'')]) sample_busy)"
    by code_simp
  from succeeds_after [of "set_policy sample_admin ''jira.issue.create''
     (JObj [(''outcome'', JStr ''DENY''), (''reason'', JStr ''Frozen'')])", OF this]
  obtain p where set': "set_policy sample_admin ''jira.issue.create''
     (JObj [(''outcome'', JStr ''DENY''), (''reason'', JStr ''Frozen'')]) sample_busy = Inr (p, sample_tightened)"
    unfolding sample_tightened_def by blast
  have "no_actions sample_busy" by code_simp
  then have sound: "action_sound sample_tightened"
    using gateway_step_history [OF sample_gateway_services gateway_step.policy_set [OF set']]
    by (auto simp: action_history_def dest: no_actions_sound)
  have "list_ex (\<lambda>po. po_outcome po = DENY \<and> po_organizationId po = rn_organizationId busy_run \<and>
      po_action po = rm_action issue_message) (ac_policies sample_tightened)"
    by code_simp
  then obtain po where po: "po \<in> set (ac_policies sample_tightened)" "po_outcome po = DENY"
    "po_organizationId po = rn_organizationId busy_run" "rm_action issue_message = po_action po"
    by (auto simp: list_ex_iff)
  have "succeeds (decide_action sample_gateway ''rt'' busy_run issue_message sample_hash sample_tightened)"
    by code_simp
  from succeeds_after [of "decide_action sample_gateway ''rt'' busy_run issue_message sample_hash", OF this]
  obtain v t where v: "decide_action sample_gateway ''rt'' busy_run issue_message sample_hash sample_tightened = Inr (v, t)"
    by blast
  with organization_denial_is_immediate [OF sample_gateway_services sound po(1,2,3)] po(4) show ?thesis by blast
qed

section \<open>The pause that an approval needs\<close>

definition same_approvals :: "'z exec_db_scheme \<Rightarrow> 'z exec_db_scheme \<Rightarrow> bool" where
  "same_approvals s s' \<longleftrightarrow> ex_approvals s' = ex_approvals s"

interpretation same_approvals: evolution same_approvals
  by unfold_locales (auto simp: same_approvals_def)

lemma same_approvals_moves:
  assumes "execution_hooks env"
  shows "execution_moves env same_approvals"
proof -
  have "relates same_approvals (insertStep scp kind title st detail given)" for scp kind title st detail given
    by (rule relatesI) (erule insertStep_effect, simp add: same_approvals_def ticked_tables)
  moreover have "relates same_approvals (transitionStep org i to)" for org i to
    by (rule relatesI) (erule transitionStep_effect, simp add: same_approvals_def ticked_tables)
  moreover have "relates same_approvals (move_run org i to reason)" for org i to reason
    by (rule relatesI) (erule move_run_effect, simp add: same_approvals_def ticked_tables)
  ultimately show ?thesis
    using assms
    by (intro execution_moves.intro execution_quiet.intro execution_quiet_axioms.intro
        execution_moves_axioms.intro same_approvals.evolution_axioms)
       (auto simp: same_approvals_def exec_frame_def)
qed

lemma same_approvals_event: "relates same_approvals (appendEvent env scp type source a p st rt)"
  by (rule relatesI) (erule appendEvent_effect, simp add: same_approvals_def ticked_tables)

lemma pause_effect:
  assumes hooks: "execution_hooks env" and pause: "pauseForApproval env org runId stepId apr s = Inr (u, s')"
  obtains ts where "ex_runs s' = update_where (\<lambda>r. rn_id r = runId \<and> rn_organizationId r = org)
      (moved_run WAITING_FOR_APPROVAL (Some ''APPROVAL_REQUIRED'') ts) (ex_runs s)"
    and "\<exists>r \<in> set (ex_runs s). rn_id r = runId \<and> rn_organizationId r = org \<and> rn_status r = RUNNING"
    and "ex_approvals s' = ex_approvals s"
proof -
  note moves = same_approvals_moves [OF hooks]
  note quiet = same_runs_quiet [OF hooks]
  from pause obtain sc v where s': "s' = v \<or> s' = v\<lparr>ss_scope := None\<rparr>"
    and body: "andThen (runRow org runId) (\<lambda>run.
       andThen (demand (rn_status run = RUNNING) (Refused 409 ''RUN_NOT_RUNNING'')) (\<lambda>_.
       let sc = \<lparr>rs_organizationId = org, rs_threadId = rn_threadId run, rs_runId = runId\<rparr> in
       andThen (stepRow org runId stepId) (\<lambda>step.
       andThen (transitionStep org (st_id step) StepWAITING_FOR_APPROVAL) (\<lambda>_.
       andThen (appendEvent env sc (CP ApprovalRequested) CONTROL_PLANE (Some (rn_agentId run))
          (JObj [(''approvalId'', JStr (aq_id apr)), (''action'', JStr (aq_action apr)),
                 (''risk'', JStr (risk_name (aq_risk apr))), (''summary'', JStr (aq_summary apr))])
          (Some (st_id step)) None) (\<lambda>_.
       andThen (transitionRun env sc WAITING_FOR_APPROVAL (Some ''APPROVAL_REQUIRED'')) (\<lambda>_.
       andThen (appendEvent env sc (RT RunPaused) CONTROL_PLANE None
          (JObj [(''reason'', JStr ''APPROVAL_REQUIRED''), (''approvalId'', JStr (aq_id apr))])
          None None) (\<lambda>_.
       syncConversation env sc
         (''Waiting for approval '' @ take 8 (aq_id apr) @ '': '' @ aq_summary apr)))))))) (s\<lparr>ss_scope := Some sc\<rparr>) = Inr (u, v)"
    unfolding pauseForApproval_def by (rule tenant_run)
  from body obtain run step s1 e1 p1 s2 s3 e2 p2 s4 m w1 w2 w3 w4 w5 w6 w7 scp t0 t1 where
    run: "runRow org runId (s\<lparr>ss_scope := Some sc\<rparr>) = Inr (run, t0)" "rn_status run = RUNNING"
    and scp: "rs_runId scp = runId" "rs_organizationId scp = org"
    and step: "stepRow org runId stepId t0 = Inr (step, t1)"
    and s1: "transitionStep org (st_id step) StepWAITING_FOR_APPROVAL t1 = Inr (w1, s1)"
    and s2: "appendEvent env scp (CP ApprovalRequested) CONTROL_PLANE (Some (rn_agentId run)) p1 (Some (st_id step)) None s1 = Inr (w2, s2)"
    and s3: "transitionRun env scp WAITING_FOR_APPROVAL (Some ''APPROVAL_REQUIRED'') s2 = Inr (w3, s3)"
    and s4: "appendEvent env scp (RT RunPaused) CONTROL_PLANE None p2 None None s3 = Inr (w4, s4)"
    and s5: "syncConversation env scp m s4 = Inr (w5, v)"
    unfolding andThen_Inr demand_Inr Let_def by force
  have t: "t0 = s\<lparr>ss_scope := Some sc\<rparr>" "t1 = t0"
    using runRow_found [OF run(1)] step by (auto simp: stepRow_Inr)
  note r = runRow_found [OF run(1)]
  have "same_runs t1 s1" by (rule relatesD [OF execution_quiet.step_R [OF quiet] s1])
  moreover have "same_runs s1 s2" by (rule relatesD [OF same_runs_event s2])
  moreover have "same_runs s3 s4" by (rule relatesD [OF same_runs_event s4])
  moreover have "same_runs s4 v" by (rule relatesD [OF execution_quiet.syncConversation_R [OF quiet] s5])
  moreover from transitionRun_runs [OF hooks s3] obtain ts where
    "ex_runs s3 = update_where (\<lambda>r. rn_id r = runId \<and> rn_organizationId r = org)
      (moved_run WAITING_FOR_APPROVAL (Some ''APPROVAL_REQUIRED'') ts) (ex_runs s2)"
    unfolding scp by blast
  ultimately have runs: "ex_runs v = update_where (\<lambda>r. rn_id r = runId \<and> rn_organizationId r = org)
      (moved_run WAITING_FOR_APPROVAL (Some ''APPROVAL_REQUIRED'') ts) (ex_runs s)"
    by (simp add: same_runs_def t)
  have "same_approvals t1 s1" "same_approvals s1 s2" "same_approvals s2 s3" "same_approvals s3 s4" "same_approvals s4 v"
    using relatesD [OF execution_quiet.step_R [OF execution_moves.axioms(1) [OF moves]] s1] relatesD [OF same_approvals_event s2]
      relatesD [OF execution_moves.transitionRun_R [OF moves] s3] relatesD [OF same_approvals_event s4]
      relatesD [OF execution_quiet.syncConversation_R [OF execution_moves.axioms(1) [OF moves]] s5] .
  then have "ex_approvals v = ex_approvals s" by (simp add: same_approvals_def t)
  moreover have "\<exists>r \<in> set (ex_runs s). rn_id r = runId \<and> rn_organizationId r = org \<and> rn_status r = RUNNING"
    using r run(2) by auto
  moreover have "ex_runs s' = ex_runs v" "ex_approvals s' = ex_approvals v" using s' by auto
  ultimately show ?thesis using runs by (intro that [of ts]) simp_all
qed

text \<open>An approval stays open for between an hour and a day.\<close>

lemma approval_ttl_bounds:
  assumes "at_outcome (verdict_of action target (evaluateActionPolicy ctx)) = REQUIRE_APPROVAL"
  shows "3600 \<le> approval_ttl (verdict_of action target (evaluateActionPolicy ctx))"
    "approval_ttl (verdict_of action target (evaluateActionPolicy ctx)) \<le> 86400"
proof -
  have "\<exists>oc rk r. evaluateActionPolicy ctx = decide oc rk r"
    by (auto simp: evaluateActionPolicy_def Let_def split: option.splits prod.splits)
  then obtain oc rk r where d: "evaluateActionPolicy ctx = decide oc rk r" by blast
  with assms have "oc = REQUIRE_APPROVAL" by simp
  with d have "approval_ttl (verdict_of action target (evaluateActionPolicy ctx)) = approvalTtlSeconds rk"
    by (simp add: approval_ttl_def decide_conditions List.map_filter_def)
  then show "3600 \<le> approval_ttl (verdict_of action target (evaluateActionPolicy ctx))"
    "approval_ttl (verdict_of action target (evaluateActionPolicy ctx)) \<le> 86400"
    by (cases rk; simp)+
qed

text \<open>The approval that a request asks for, and what asking for it does to the run.\<close>

definition asked_approval ::
  "run_row \<Rightarrow> action_message \<Rightarrow> assessment \<Rightarrow> string \<Rightarrow> int \<Rightarrow> approval_row" where
  "asked_approval run msg verdict i nowMs =
     \<lparr>ap_id = i, ap_organizationId = rn_organizationId run, ap_requestedBy = rn_employeeId run,
      ap_action = rm_action msg,
      ap_resourceType = (case at_resource verdict of None \<Rightarrow> ''agent_run'' | Some r \<Rightarrow> fst r),
      ap_resourceId = (case at_resource verdict of None \<Rightarrow> rn_id run | Some r \<Rightarrow> snd r),
      ap_risk = at_risk verdict, ap_summary = request_summary verdict msg, ap_status = ApPENDING,
      ap_decidedBy = None, ap_decidedAt = None, ap_createdAt = nowMs, ap_runId = Some (rn_id run),
      ap_stepId = Some (gc_stepId (rm_correlation msg)),
      ap_expiresAt = Some (nowMs + approval_ttl verdict * 1000)\<rparr>"

lemma asked_approval_pauses:
  assumes hooks: "execution_hooks (gw_execution env)" and keys: "distinct (map rn_id (ex_runs t))"
    and asked: "request_approval env run msg verdict i nowMs t = Inr ((), t')"
  obtains r ts where "ex_approvals t' = ex_approvals t @ [asked_approval run msg verdict i nowMs]"
    "r \<in> set (ex_runs t)" "rn_id r = rn_id run" "rn_organizationId r = rn_organizationId run" "rn_status r = RUNNING"
    "ex_runs t' = map (\<lambda>q. if q = r then moved_run WAITING_FOR_APPROVAL (Some ''APPROVAL_REQUIRED'') ts q else q) (ex_runs t)"
proof -
  let ?u = "ex_approvals_update (\<lambda>as. as @ [asked_approval run msg verdict i nowMs]) t"
  from asked have pause: "pauseForApproval (gw_execution env) (rn_organizationId run) (rn_id run) (gc_stepId (rm_correlation msg))
       \<lparr>aq_id = i, aq_action = rm_action msg, aq_risk = at_risk verdict,
        aq_summary = request_summary verdict msg\<rparr> ?u = Inr ((), t')"
    by (auto simp: request_approval_def asked_approval_def andThen_Inr approvals.insert_Inr)
  obtain ts where
    runs: "ex_runs t' = update_where (\<lambda>r. rn_id r = rn_id run \<and> rn_organizationId r = rn_organizationId run)
       (moved_run WAITING_FOR_APPROVAL (Some ''APPROVAL_REQUIRED'') ts) (ex_runs ?u)"
    and running: "\<exists>r \<in> set (ex_runs ?u). rn_id r = rn_id run \<and> rn_organizationId r = rn_organizationId run \<and> rn_status r = RUNNING"
    and apprs: "ex_approvals t' = ex_approvals ?u"
    by (rule pause_effect [OF hooks pause])
  from running obtain r where r: "r \<in> set (ex_runs t)" "rn_id r = rn_id run"
    "rn_organizationId r = rn_organizationId run" "rn_status r = RUNNING" by auto
  have only: "(rn_id q = rn_id run \<and> rn_organizationId q = rn_organizationId run) = (q = r)" if "q \<in> set (ex_runs t)" for q
    using that r unique_key [OF keys, of q r] by auto
  have "ex_runs t' = map (\<lambda>q. if q = r then moved_run WAITING_FOR_APPROVAL (Some ''APPROVAL_REQUIRED'') ts q else q) (ex_runs t)"
    using runs only by (simp add: update_where_def cong: map_cong)
  with that apprs r show thesis by simp
qed

lemma required_verdict_ttl:
  assumes services: "gateway_services env" and sc: "sees sc (rn_organizationId run)"
    and assessed: "assess env run q (s\<lparr>ss_scope := Some sc\<rparr>) = Inr (a, t1)"
    and blocks: "blocked_verdict env run act a t1 = Inr (verdict, t2)" and required: "at_outcome verdict = REQUIRE_APPROVAL"
  shows "3600 \<le> approval_ttl verdict" "approval_ttl verdict \<le> 86400"
proof -
  have a: "verdict = a" using required blocked_verdict_Inr(1) [OF blocks _ sc]
      rows_same_reads(3) [OF reading_rows(2) [OF services assessed]] by auto
  have "3600 \<le> approval_ttl verdict \<and> approval_ttl verdict \<le> 86400"
    using assessed
  proof (cases rule: assess_cases)
    case (1 reason)
    with required a show ?thesis by simp
  next
    case (2 m tool granted target override u1 u2)
    from approval_ttl_bounds [OF required [unfolded a 2(4) policy_of_def]] show ?thesis
      unfolding a 2(4) policy_of_def by simp
  qed
  then show "3600 \<le> approval_ttl verdict" "approval_ttl verdict \<le> 86400" by simp_all
qed



section \<open>Resolving a reconciliation\<close>

text \<open>
  A resolution fails in exactly the ways the API documents, and changes nothing then: for a
  malformed body, for anyone but an active administrator of the organization, for a request
  without a reconciliation, and for one that has been resolved before.
\<close>

theorem resolution_errors:
  assumes "ss_scope s = None" and "ac_organizationId a \<noteq> []"
  shows "(parse_resolution raw = None \<longrightarrow> resolve_reconciliation env a i raw s = Inl (Raised ''ZodError'')) \<and>
    (parse_resolution raw \<noteq> None \<and> \<not> active_admin s a \<longrightarrow>
       resolve_reconciliation env a i raw s = Inl (Refused 403 ''ORGANIZATION_ADMIN_REQUIRED'')) \<and>
    (parse_resolution raw \<noteq> None \<and> active_admin s a \<and> find (\<lambda>c. rc_requestId c = i \<and> rc_organizationId c = ac_organizationId a) (ac_reconciliations s) = None \<longrightarrow>
       resolve_reconciliation env a i raw s = Inl (Refused 404 ''RECONCILIATION_NOT_FOUND'')) \<and>
    (\<forall>c. parse_resolution raw \<noteq> None \<and> active_admin s a \<and> find (\<lambda>c. rc_requestId c = i \<and> rc_organizationId c = ac_organizationId a) (ac_reconciliations s) = Some c \<and> rc_state c \<noteq> REQUIRED \<longrightarrow>
       resolve_reconciliation env a i raw s = Inl (Refused 409 ''RECONCILIATION_RESOLVED''))"
proof -
  define mine where "mine c \<longleftrightarrow> rc_requestId c = i \<and> rc_organizationId c = ac_organizationId a" for c :: reconciliation_row
  let ?s = "s\<lparr>ss_scope := Some (Tenant (ac_organizationId a))\<rparr>"
  have admin: "active_admin ?s a = active_admin s a" by (simp add: active_admin_def)
  have authorized: "authorize a ?s = (if active_admin s a then Inr ((), ?s) else Inl (Refused 403 ''ORGANIZATION_ADMIN_REQUIRED''))"
    using assms(2) admin by (simp add: authorize_def tenant_def scoped_def andThen_def gets_def demand_def throw_def ret_def)
  have row: "reconciliation_row_of (ac_organizationId a) i ?s = Inr (find mine (ac_reconciliations s), ?s)"
  proof -
    have "(\<lambda>c. sees (Tenant (ac_organizationId a)) (rc_organizationId c) \<and> rc_requestId c = i \<and> rc_organizationId c = ac_organizationId a) = mine"
      by (auto simp: mine_def)
    then show ?thesis by (simp add: reconciliation_row_of_def select_one_Inr)
  qed
  have found: "find (\<lambda>c. rc_requestId c = i \<and> rc_organizationId c = ac_organizationId a) (ac_reconciliations s) =
      find mine (ac_reconciliations s)"
    by (simp add: mine_def [abs_def])
  show ?thesis
  proof (cases "parse_resolution raw")
    case None
    then show ?thesis by (simp add: resolve_reconciliation_def throw_def)
  next
    case (Some r)
    obtain resolution note' where r: "r = (resolution, note')" by fastforce
    show ?thesis
      unfolding found using Some assms(1,2)
      by (cases "find mine (ac_reconciliations s)")
         (auto simp: r resolve_reconciliation_def asAdmin_def tenant_def scoped_def andThen_def authorized row
            throw_def demand_def)
  qed
qed

lemma resolution_errors_witness:
  "resolve_reconciliation sample_gateway sample_admin ''q9''
     (JObj [(''resolution'', JStr ''APPLIED'')]) sample_unknown = Inl (Refused 404 ''RECONCILIATION_NOT_FOUND'') \<and>
   resolve_reconciliation sample_gateway sample_admin ''q1'' JNull sample_unknown = Inl (Raised ''ZodError'')"
proof -
  have "ss_scope sample_unknown = None" "ac_organizationId sample_admin \<noteq> []" by code_simp+
  note errors = resolution_errors [OF this, where env = sample_gateway]
  have "parse_resolution (JObj [(''resolution'', JStr ''APPLIED'')]) \<noteq> None" "parse_resolution JNull = None"
    "active_admin sample_unknown sample_admin"
    "find (\<lambda>c. rc_requestId c = ''q9'' \<and> rc_organizationId c = ac_organizationId sample_admin) (ac_reconciliations sample_unknown) = None"
    by code_simp+
  with errors [where raw = "JObj [(''resolution'', JStr ''APPLIED'')]" and i = "''q9''"]
    errors [where raw = JNull and i = "''q1''"] show ?thesis by blast
qed

section \<open>Dispatches a stopped control plane left open\<close>

lemma require_keeps_executions:
  "require_reconciliation i s = Inr (u, s') \<Longrightarrow> ac_executions s' = ac_executions s"
  by (auto simp: require_reconciliation_def andThen_Inr select_one_Inr whenever_Inr
      reconciliations.insert_unless_Inr action_tables_def split: option.splits if_splits dest!: audit_rows(1))

definition interrupted_row :: "int \<Rightarrow> execution_row \<Rightarrow> execution_row" where
  "interrupted_row t q = q\<lparr>xr_status := ExFAILED, xr_errorCode := Some ''DISPATCH_INTERRUPTED'', xr_completedAt := Some t\<rparr>"

lemma interrupt_executions:
  assumes "interrupt env x s = Inr (b, s')"
  obtains sc t where "ss_scope s = Some sc" and "ac_executions s' =
     update_where (\<lambda>q. sees sc (xr_organizationId q) \<and> open_execution (ix_requestId x) (ix_organizationId x) q)
       (interrupted_row t) (ac_executions s)"
proof -
  let ?P = "\<lambda>q. xr_requestId q = ix_requestId x \<and> xr_organizationId q = ix_organizationId x \<and> xr_status q = DISPATCHING"
  from assms obtain t n u where
    upd: "update_rows ac_executions ac_executions_update xr_organizationId execution_update_checks ?P
        (\<lambda>q. q\<lparr>xr_status := ExFAILED, xr_errorCode := Some ''DISPATCH_INTERRUPTED'', xr_completedAt := Some t\<rparr>)
        (s\<lparr>ss_reads := Suc (ss_reads s)\<rparr>) = Inr (n, u)"
    and rest: "ac_executions s' = ac_executions u"
    unfolding interrupt_def
    by (cases "ix_effect x"; cases "ix_parameters x")
       (auto simp: andThen_Inr action_tables_def split: if_splits dest!: audit_rows(1) require_keeps_executions)
  from upd obtain sc where "ss_scope s = Some sc" "ac_executions u =
     update_where (\<lambda>q. sees sc (xr_organizationId q) \<and> ?P q)
       (\<lambda>q. q\<lparr>xr_status := ExFAILED, xr_errorCode := Some ''DISPATCH_INTERRUPTED'', xr_completedAt := Some t\<rparr>) (ac_executions s)"
    by (rule executions.updateE) simp
  with rest show ?thesis
    by (intro that [of sc t]) (simp_all add: open_execution_def interrupted_row_def [abs_def])
qed

lemma evolved_from:
  "list_all2 E xs ys \<Longrightarrow> y \<in> set ys \<Longrightarrow> \<exists>x \<in> set xs. E x y"
  by (induction rule: list_all2_induct) auto

lemma interrupts_close:
  assumes services: "gateway_services env"
  shows "gather (interrupt env) xs s = Inr (bs, s') \<Longrightarrow> ss_scope s = Some Platform \<Longrightarrow>
    list_all2 execution_evolves (ac_executions s) (ac_executions s') \<and>
    (\<forall>x \<in> set xs. \<forall>q \<in> set (ac_executions s'). \<not> open_execution (ix_requestId x) (ix_organizationId x) q)"
proof (induction xs arbitrary: s bs)
  case Nil
  then show ?case by (simp add: list.rel_refl)
next
  case (Cons x xs)
  from Cons.prems obtain b s1 bs' where first: "interrupt env x s = Inr (b, s1)"
    and others: "gather (interrupt env) xs s1 = Inr (bs', s')"
    by (auto simp: andThen_Inr)
  have "scope_same s s1"
    by (rule relatesD [OF action_evolution.interrupt_R [OF services_scope [OF services]] first])
  then have scope: "ss_scope s1 = Some Platform" using Cons.prems(2) by (simp add: scope_same_def)
  from interrupt_executions [OF first] Cons.prems(2) obtain t where s1: "ac_executions s1 =
     update_where (open_execution (ix_requestId x) (ix_organizationId x)) (interrupted_row t) (ac_executions s)"
    by auto
  have evolves: "list_all2 execution_evolves (ac_executions s) (ac_executions s1)"
    unfolding s1 update_where_def
    by (auto simp: list_all2_conv_all_nth execution_evolves_def interrupted_row_def open_execution_def)
  from Cons.IH [OF others scope] have rest: "list_all2 execution_evolves (ac_executions s1) (ac_executions s')"
    and closed: "\<forall>x \<in> set xs. \<forall>q \<in> set (ac_executions s'). \<not> open_execution (ix_requestId x) (ix_organizationId x) q"
    by auto
  have "\<not> open_execution (ix_requestId x) (ix_organizationId x) q" if q: "q \<in> set (ac_executions s')" for q
  proof
    assume "open_execution (ix_requestId x) (ix_organizationId x) q"
    moreover from rest q obtain p where p: "p \<in> set (ac_executions s1)" "execution_evolves p q"
      by (blast dest: evolved_from)
    ultimately have "open_execution (ix_requestId x) (ix_organizationId x) p"
      by (cases "xr_status p") (auto simp: open_execution_def execution_evolves_def)
    with p(1) show False
      unfolding s1 by (auto simp: set_update_where open_execution_def interrupted_row_def split: if_splits)
  qed
  with closed list_all2_trans [OF execution_evolves_trans evolves rest] show ?case by auto
qed

definition stale :: "'z gateway_env \<Rightarrow> int \<Rightarrow> execution_row \<Rightarrow> bool" where
  "stale env n x \<longleftrightarrow> xr_status x = DISPATCHING \<and> xr_startedAt x < n - staleDispatchMs env"


definition sample_closed :: action_db where
  "sample_closed = after (reconcileInterrupted sample_gateway 100000 sample_dispatched) sample_dispatched"


end
