(* ===== verification/CheckoutGrants.thy ===== *)
theory CheckoutGrants
  imports CredentialProperties ActionBehaviour
begin

text \<open>
  The Action Gateway with the credential broker behind it: a grant of a checkout that names a lease
  names one that was issued for exactly this grant, and that this grant can redeem.
\<close>

section \<open>The lease of a new grant\<close>

lemma new_grant_lease:
  fixes genv :: "'z credential_db_ext transport_db_ext spending_db_ext gateway_env"
  assumes "new_grant genv run q correlation rt n expiresAt x v s = Inr (g, s')"
  obtains sa sb where
    "grant_credential_for genv run (rq_id q) (gp_grantId (sg_payload g)) (xt_operation x) (gw_digest genv v) rt expiresAt n sa
       = Inr (gp_credential (sg_payload g), sb)"
    and "kr_leases s' = kr_leases sb" "kr_connections s' = kr_connections sb"
    and "gp_requestId (sg_payload g) = rq_id q" "gp_operationKind (sg_payload g) = operation_kind (xt_operation x)"
    and "gp_operationDigest (sg_payload g) = gw_digest genv v" "gp_expiresAt (sg_payload g) = expiresAt"
proof -
  from assms obtain sa sb sc grantId credential grant where
    cred: "grant_credential_for genv run (rq_id q) grantId (xt_operation x) (gw_digest genv v) rt expiresAt n sa = Inr (credential, sb)"
    and g: "sg_payload g = gp_credential_update (\<lambda>_. credential) (sg_payload g)" "gp_grantId (sg_payload g) = grantId"
      "gp_requestId (sg_payload g) = rq_id q" "gp_operationKind (sg_payload g) = operation_kind (xt_operation x)"
      "gp_operationDigest (sg_payload g) = gw_digest genv v" "gp_expiresAt (sg_payload g) = expiresAt"
    and ins: "\<exists>u. insert_row ac_grants_update gr_organizationId grant_checks grant sb = Inr (u, sc)"
    and aud: "\<exists>u m. audit (rn_agentId run) ''action.grant.issued'' ''agent_run'' (rn_id run) m (rn_organizationId run) sc = Inr (u, s')"
    unfolding new_grant_def Let_def andThen_Inr by fastforce
  have "credential_quiet sb sc"
    using ins by (auto simp: grants.insert_Inr credential_quiet_def)
  moreover have "credential_quiet sc s'"
    using aud relatesD [OF credential_still.audit_row_R] by blast
  ultimately have "kr_leases s' = kr_leases sb" "kr_connections s' = kr_connections sb"
    by (simp_all add: credential_quiet_def)
  moreover have "gp_credential (sg_payload g) = credential" using g(1) by (metis grant_payload.select_convs(9) grant_payload.surjective grant_payload.update_convs(9))
  ultimately show thesis using cred g by (intro that [of sa sb]) auto
qed

lemma granted_lease:
  assumes "gw_leaseForCheckout genv = Some (leaseForCheckout env)"
    and "grant_credential_for genv run requestId grantId oper digest rt expiresAt n s = Inr (Some k, s')"
  obtains url ref path c name where "oper = GitCheckout url ref path"
    and "kr_leases s' = kr_leases s @ [new_credential
        \<lparr>lr_run = run, lr_requestId = requestId, lr_grantId = grantId, lr_operation = oper, lr_operationDigest = digest,
         lr_runtimeId = rt, lr_grantExpiresAt = expiresAt, lr_nowMs = n\<rparr> c name url ref (gk_leaseId k)
        (min (n + (case be_ttlMs env of None \<Rightarrow> DEFAULT_LEASE_TTL_MS | Some t \<Rightarrow> t)) expiresAt)]"
    and "n < min (n + (case be_ttlMs env of None \<Rightarrow> DEFAULT_LEASE_TTL_MS | Some t \<Rightarrow> t)) expiresAt"
    and "c \<in> set (kr_connections s')" "sk_organizationId c = rn_organizationId run" "sk_active c"
    and "sk_gitHost c = gk_gitHost k" "allowed_repository (be_web env) url c = Some name"
proof -
  define q where "q = \<lparr>lr_run = run, lr_requestId = requestId, lr_grantId = grantId, lr_operation = oper,
      lr_operationDigest = digest, lr_runtimeId = rt, lr_grantExpiresAt = expiresAt, lr_nowMs = n\<rparr>"
  from assms have "leaseForCheckout env q s = Inr (Some k, s')"
    by (auto simp: grant_credential_for_def q_def split: if_splits)
  then obtain url ref path where oper: "oper = GitCheckout url ref path" and run: "issue_lease env q url ref s = Inr (Some k, s')"
    by (cases oper) (auto simp: leaseForCheckout_def q_def)
  from run show thesis
  proof (cases rule: issue_lease_cases)
    case (leased c name i)
    with oper show thesis
      by (intro that [of url ref path c name]) (auto simp: lease_expiry_def q_def)
  qed simp
qed

text \<open>
  C23. A newly issued grant that names a credential lease is the grant of a checkout, and that lease
  waits to be redeemed: for this grant, request, operation, run, employee and agent, until the grant
  expires at the latest, through an active connection of the organization that allows the repository.
\<close>

theorem checkout_grants_carry_their_lease:
  fixes genv :: "'z credential_db_ext transport_db_ext spending_db_ext gateway_env"
  assumes "gateway_services genv" and "gw_leaseForCheckout genv = Some (leaseForCheckout env)"
    and "issueGrant genv run i correlation rt n s = Inr (g, s')" and "i \<notin> gr_requestId ` set (ac_grants s)"
    and "gp_credential (sg_payload g) = Some k"
  shows "gp_operationKind (sg_payload g) = ''git.checkout'' \<and>
    (\<exists>l \<in> set (kr_leases s'). kl_id l = gk_leaseId k \<and> kl_status l = KlISSUED \<and>
       kl_organizationId l = rn_organizationId run \<and> kl_grantId l = gp_grantId (sg_payload g) \<and>
       kl_requestId l = gp_requestId (sg_payload g) \<and> kl_operationDigest l = gp_operationDigest (sg_payload g) \<and>
       kl_runId l = rn_id run \<and> kl_employeeId l = rn_employeeId run \<and> kl_agentId l = rn_agentId run \<and>
       n < kl_expiresAt l \<and> kl_expiresAt l \<le> gp_expiresAt (sg_payload g) \<and>
       (\<exists>c \<in> set (kr_connections s'). sk_active c \<and> sk_id c = kl_connectionId l \<and> sk_organizationId c = kl_organizationId l \<and>
          sk_gitHost c = gk_gitHost k \<and> allowed_repository (be_web env) (kl_repositoryUrl l) c = Some (kl_repository l)))"
  using assms(1,3)
proof (cases rule: grant_cases)
  case (reused row)
  with assms(4) show ?thesis by auto
next
  case (fresh sc q t expiry current t2 x v t3)
  from fresh(16) obtain sa sb where
    cred: "grant_credential_for genv run (rq_id q) (gp_grantId (sg_payload g)) (xt_operation x) (gw_digest genv v) rt
        (grant_expiry n expiry) n sa = Inr (gp_credential (sg_payload g), sb)"
    and rows: "kr_leases t3 = kr_leases sb" "kr_connections t3 = kr_connections sb"
    and fields: "gp_requestId (sg_payload g) = rq_id q" "gp_operationKind (sg_payload g) = operation_kind (xt_operation x)"
      "gp_operationDigest (sg_payload g) = gw_digest genv v" "gp_expiresAt (sg_payload g) = grant_expiry n expiry"
    by (rule new_grant_lease)
  have same: "kr_leases s' = kr_leases t3" "kr_connections s' = kr_connections t3"
    using fresh(17) by auto
  from cred assms(5) have "grant_credential_for genv run (rq_id q) (gp_grantId (sg_payload g)) (xt_operation x) (gw_digest genv v) rt
      (grant_expiry n expiry) n sa = Inr (Some k, sb)"
    by simp
  from assms(2) this obtain url ref path c name where oper: "xt_operation x = GitCheckout url ref path"
    and leases: "kr_leases sb = kr_leases sa @ [new_credential
        \<lparr>lr_run = run, lr_requestId = rq_id q, lr_grantId = gp_grantId (sg_payload g), lr_operation = xt_operation x,
         lr_operationDigest = gw_digest genv v, lr_runtimeId = rt, lr_grantExpiresAt = grant_expiry n expiry, lr_nowMs = n\<rparr>
        c name url ref (gk_leaseId k)
        (min (n + (case be_ttlMs env of None \<Rightarrow> DEFAULT_LEASE_TTL_MS | Some t \<Rightarrow> t)) (grant_expiry n expiry))]"
      (is "_ = _ @ [?l]")
    and live: "n < min (n + (case be_ttlMs env of None \<Rightarrow> DEFAULT_LEASE_TTL_MS | Some t \<Rightarrow> t)) (grant_expiry n expiry)"
    and conn: "c \<in> set (kr_connections sb)" "sk_organizationId c = rn_organizationId run" "sk_active c"
      "sk_gitHost c = gk_gitHost k" "allowed_repository (be_web env) url c = Some name"
    by (rule granted_lease)
  have mem: "?l \<in> set (kr_leases s')" unfolding same rows leases by simp
  have c: "c \<in> set (kr_connections s')" unfolding same rows by (rule conn(1))
  have kind: "gp_operationKind (sg_payload g) = ''git.checkout''" by (simp add: fields oper)
  have via: "\<exists>c \<in> set (kr_connections s'). sk_active c \<and> sk_id c = kl_connectionId ?l \<and>
      sk_organizationId c = kl_organizationId ?l \<and> sk_gitHost c = gk_gitHost k \<and>
      allowed_repository (be_web env) (kl_repositoryUrl ?l) c = Some (kl_repository ?l)"
    using c conn(2-5) by (intro bexI [of _ c]) (simp_all add: new_credential_def)
  have bound: "n < kl_expiresAt ?l \<and> kl_expiresAt ?l \<le> gp_expiresAt (sg_payload g)"
    using live by (simp add: new_credential_def fields)
  show ?thesis
    by (intro conjI kind bexI [OF _ mem] via bound [THEN conjunct1] bound [THEN conjunct2])
      (simp_all add: new_credential_def fields)
qed

end
