(* ===== verification/TransportHistory.thy ===== *)
theory TransportHistory
  imports TransportEvolution
begin

text \<open>
  Leases, checkpoints and nonces over time. \<open>lease_moves\<close> says how a lease may change at a time,
  \<open>lease_sound\<close> and \<open>checkpoints_sound\<close> what holds of the tables, \<open>transport_kept\<close> that an operation
  keeps all of it; \<open>leases_end\<close> is the part of it that only closes leases, on which a loop over leases
  it has read can rely.
\<close>

section \<open>Leases\<close>

definition tenure :: "lease_row \<Rightarrow> string \<times> string \<times> nat" where
  "tenure l = (ls_runtimeId l, ls_sessionId l, ls_recoveries l)"

definition same_lease :: "lease_row \<Rightarrow> lease_row \<Rightarrow> bool" where
  "same_lease l l' \<longleftrightarrow> ls_runId l' = ls_runId l \<and> ls_organizationId l' = ls_organizationId l \<and>
     ls_claimedAt l' = ls_claimedAt l"

definition lease_moves :: "int \<Rightarrow> lease_row \<Rightarrow> lease_row \<Rightarrow> bool" where
  "lease_moves n l l' \<longleftrightarrow> same_lease l l' \<and> (ls_state l = LeaseCLOSED \<longrightarrow> l' = l) \<and>
     (ls_expiresAt l' = ls_expiresAt l \<or> ls_expiresAt l' = n + RUNTIME_LEASE_MS) \<and>
     (tenure l' \<noteq> tenure l \<longrightarrow> ls_expiresAt l < n) \<and> ls_recoveries l \<le> ls_recoveries l'"

definition lease_ends :: "lease_row \<Rightarrow> lease_row \<Rightarrow> bool" where
  "lease_ends l l' \<longleftrightarrow> same_lease l l' \<and> tenure l' = tenure l \<and> ls_expiresAt l' = ls_expiresAt l \<and>
     (ls_state l = LeaseCLOSED \<longrightarrow> l' = l)"

definition leases_sound :: "lease_row list \<Rightarrow> bool" where
  "leases_sound ls \<longleftrightarrow> distinct (map ls_runId ls) \<and> distinct (map ls_sessionId ls) \<and>
     (\<forall>l \<in> set ls. ls_recoveries l \<le> MAX_RUN_RECOVERIES)"

lemma lease_moves_refl [simp]: "lease_moves n l l"
  by (simp add: lease_moves_def same_lease_def)

lemma lease_ends_refl [simp]: "lease_ends l l"
  by (simp add: lease_ends_def same_lease_def)

lemma lease_moves_trans: "lease_moves n l m \<Longrightarrow> lease_moves n m k \<Longrightarrow> lease_moves n l k"
  unfolding lease_moves_def same_lease_def RUNTIME_LEASE_MS_def by auto

lemma lease_ends_trans: "lease_ends l m \<Longrightarrow> lease_ends m k \<Longrightarrow> lease_ends l k"
  unfolding lease_ends_def same_lease_def by auto

lemma lease_ends_moves: "lease_ends l m \<Longrightarrow> lease_moves n l m"
  unfolding lease_ends_def lease_moves_def tenure_def by auto

section \<open>Checkpoints\<close>

text \<open>A run has no checkpoint, its first, or the last two; all in one organization.\<close>

definition run_checkpoints :: "checkpoint_row list \<Rightarrow> string \<Rightarrow> checkpoint_row list" where
  "run_checkpoints cs i = filter (\<lambda>c. ck_runId c = i) cs"

definition run_sound :: "checkpoint_row list \<Rightarrow> bool" where
  "run_sound cs \<longleftrightarrow> (\<exists>org. \<forall>c \<in> set cs. ck_organizationId c = org) \<and>
     (cs = [] \<or> map ck_version cs = [1] \<or> (\<exists>v. map ck_version cs = [Suc v, Suc (Suc v)]))"

definition checkpoints_sound :: "checkpoint_row list \<Rightarrow> bool" where
  "checkpoints_sound cs \<longleftrightarrow> (\<forall>i. run_sound (run_checkpoints cs i))"

lemma run_sound_Nil [simp]: "run_sound []"
  by (simp add: run_sound_def)

lemma run_checkpoints_drop:
  "run_checkpoints (filter (\<lambda>c. P (ck_runId c)) cs) i = (if P i then run_checkpoints cs i else [])"
  unfolding run_checkpoints_def by (induction cs) auto

lemma checkpoints_sound_dropped: "dropped cs cs' \<Longrightarrow> checkpoints_sound cs \<Longrightarrow> checkpoints_sound cs'"
  unfolding dropped_def checkpoints_sound_def by (force simp: run_checkpoints_drop)

section \<open>Nonces\<close>

text \<open>A nonce is kept until some reading of the clock has passed its expiry.\<close>

definition nonces_kept :: "(nat \<Rightarrow> int) \<Rightarrow> nonce_row list \<Rightarrow> nonce_row list \<Rightarrow> bool" where
  "nonces_kept clock ns ns' \<longleftrightarrow> (\<forall>m \<in> set ns. m \<in> set ns' \<or> (\<exists>k. nn_expiresAt m < clock k))"

section \<open>What is kept\<close>

definition transport_sound :: "'z transport_db_scheme \<Rightarrow> bool" where
  "transport_sound s \<longleftrightarrow> leases_sound (tp_leases s) \<and> checkpoints_sound (tp_checkpoints s)"

definition transport_kept :: "int \<Rightarrow> 'z transport_db_scheme \<Rightarrow> 'z transport_db_scheme \<Rightarrow> bool" where
  "transport_kept n s s' \<longleftrightarrow> (transport_sound s \<longrightarrow> transport_sound s' \<and> ss_clock s' = ss_clock s \<and>
     grows (lease_moves n) (tp_leases s) (tp_leases s') \<and> nonces_kept (ss_clock s) (tp_nonces s) (tp_nonces s'))"

definition leases_end :: "'z transport_db_scheme \<Rightarrow> 'z transport_db_scheme \<Rightarrow> bool" where
  "leases_end s s' \<longleftrightarrow> ss_clock s' = ss_clock s \<and> length (tp_leases s') = length (tp_leases s) \<and>
     grows lease_ends (tp_leases s) (tp_leases s') \<and>
     dropped (tp_checkpoints s) (tp_checkpoints s') \<and> tp_nonces s' = tp_nonces s"

lemma transport_kept_refl [simp]: "transport_kept n s s"
  by (simp add: transport_kept_def nonces_kept_def grows_same)

lemma transport_kept_trans: "transport_kept n s t \<Longrightarrow> transport_kept n t u \<Longrightarrow> transport_kept n s u"
  unfolding transport_kept_def nonces_kept_def by (auto intro: grows_trans lease_moves_trans)

lemma leases_end_refl [simp]: "leases_end s s"
  by (simp add: leases_end_def grows_same)

lemma leases_end_trans: "leases_end s t \<Longrightarrow> leases_end t u \<Longrightarrow> leases_end s u"
  unfolding leases_end_def by (auto intro: grows_trans lease_ends_trans dropped_trans)

lemma map_ends:
  assumes "grows lease_ends ls ls'" "length ls' = length ls" and "\<And>l l'. lease_ends l l' \<Longrightarrow> k l' = k l"
  shows "map k ls' = map k ls"
  using assms by (intro nth_equalityI) (auto simp: grows_def)

lemma leases_end_sound:
  assumes "leases_end s0 s"
  shows "leases_sound (tp_leases s) \<longleftrightarrow> leases_sound (tp_leases s0)"
proof -
  have g: "grows lease_ends (tp_leases s0) (tp_leases s)" and len: "length (tp_leases s) = length (tp_leases s0)"
    using assms by (simp_all add: leases_end_def)
  have same: "map ls_runId (tp_leases s) = map ls_runId (tp_leases s0)"
    "map ls_sessionId (tp_leases s) = map ls_sessionId (tp_leases s0)"
    "map ls_recoveries (tp_leases s) = map ls_recoveries (tp_leases s0)"
    by (rule map_ends [OF g len], simp add: lease_ends_def same_lease_def tenure_def)+
  have few: "(\<forall>l \<in> set ls. ls_recoveries l \<le> MAX_RUN_RECOVERIES) \<longleftrightarrow>
      list_all (\<lambda>k. k \<le> MAX_RUN_RECOVERIES) (map ls_recoveries ls)" for ls
    by (simp add: list_all_iff)
  show ?thesis
    unfolding leases_sound_def few same ..
qed

lemma leases_end_kept:
  assumes "leases_end s s'"
  shows "transport_kept n s s'"
proof -
  have "grows (lease_moves n) (tp_leases s) (tp_leases s')"
    using assms by (auto simp: leases_end_def grows_def intro: lease_ends_moves)
  then show ?thesis
    using assms checkpoints_sound_dropped leases_end_sound [OF assms]
    by (auto simp: transport_kept_def transport_sound_def leases_end_def nonces_kept_def)
qed

lemma quiet_ends: "tp_quiet s s' \<Longrightarrow> leases_end s s'"
  by (simp add: tp_quiet_def leases_end_def grows_same)

lemma quiet_kept: "tp_quiet s s' \<Longrightarrow> transport_kept n s s'"
  by (intro leases_end_kept quiet_ends)

interpretation ends_time: evolution leases_end
  by unfold_locales (simp, rule leases_end_trans)

interpretation ends: open_evolution leases_end
  by unfold_locales (auto simp: leases_end_def grows_same)

interpretation kept_time: evolution "transport_kept n" for n
  by unfold_locales (simp, rule transport_kept_trans)

interpretation kept: open_evolution "transport_kept n" for n
  by unfold_locales (auto simp: transport_kept_def transport_sound_def nonces_kept_def grows_same)

section \<open>Operations that end leases\<close>

text \<open>\<open>must\<close> and the reads of the transport obey every relation that reads obey.\<close>

locale lease_closing = event_evolution R "tr_gateway env"
  for R :: "'z transport_db_scheme \<Rightarrow> 'z transport_db_scheme \<Rightarrow> bool" and env :: "'z transport_env" +
  assumes close_R [bounded]: "relates R (closeLease i n)"
begin

lemma must_R [bounded]: "relates R (must v)"
  unfolding must_def by (intro bounded)

lemma lease_reads_R [bounded]:
  "relates R (commandBase org i)" "relates R (lease_of i)" "relates R (respond i c)"
  "relates R (ownedLease rt i)" "relates R (leased_runs P)" "relates R (stale_leases n)"
  "relates R (granted_approval org i)" "relates R (checkpoint_exists i)"
  unfolding commandBase_def lease_of_def respond_def ownedLease_def leased_runs_def stale_leases_def
    granted_approval_def checkpoint_exists_def must_def
  by (intro bounded)+

lemma lease_organization_R [bounded]: "relates R (leaseOrganization rt i)"
  unfolding leaseOrganization_def by (intro bounded)

lemma resume_command_R [bounded]: "relates R (resume_command org i a)"
  unfolding resume_command_def by (intro bounded)

lemma recovery_command_R [bounded]: "relates R (recovery_command env org i a)"
  unfolding recovery_command_def by (intro bounded)

lemma refused_R: "relates R m \<Longrightarrow> relates R (case e of Refused h c \<Rightarrow> m | _ \<Rightarrow> throw e)"
  by (cases e) (auto intro: bounded)

lemma manifest_holds_R [bounded]: "relates R (manifest_holds env org i)"
  unfolding manifest_holds_def by (intro bounded refused_R)

lemma abandon_R [bounded]: "relates R (abandon env org i code n)"
  unfolding abandon_def by (intro bounded)

lemma reap_R [bounded]: "relates R (reap env n item)"
  unfolding reap_def Let_def by (intro bounded)

lemma reapAbandoned_R [bounded]: "relates R (reapAbandoned env n)"
  unfolding reapAbandoned_def by (intro bounded)

lemma submitCommand_R [bounded]: "relates R (submitCommand env org i n)"
  unfolding submitCommand_def by (intro bounded)

lemma serve_ended_R [bounded]: "relates R (serve_ended n held)"
  unfolding serve_ended_def Let_def by (intro bounded)

lemma held_R [bounded]:
  "relates R (heldRun env rt c sts)" "relates R (runningRun rt c)" "relates R (running_step org i st)"
  "relates R (bound_step org i st)" "relates R (bound_approval org i apr)"
  "relates R (latest_checkpoint org i)" "relates R (read_checkpoint sha org i)"
  unfolding heldRun_def runningRun_def running_step_def bound_step_def bound_approval_def
    latest_checkpoint_def read_checkpoint_def must_def
  by (intro bounded)+

lemma runningStep_R [bounded]: "relates R (runningStep rt c)"
  unfolding runningStep_def by (intro bounded)

lemma authorizeStep_R [bounded]: "relates R (authorizeStep rt c)"
  unfolding authorizeStep_def by (intro bounded)

lemma loads_R [bounded]: "relates R (loadCheckpoint env rt body)"
  unfolding loadCheckpoint_def readCheckpoint_def by (intro bounded)

end

section \<open>The statements on leases\<close>

lemma close_ends: "relates leases_end (closeLease i n)"
proof (rule relatesI)
  fix s x and s' :: "'z transport_db_scheme"
  assume "closeLease i n s = Inr (x, s')"
  then obtain k where "update_rows tp_leases tp_leases_update ls_organizationId lease_update_checks
      (\<lambda>l. ls_runId l = i \<and> ls_state l = LeaseACTIVE)
      (\<lambda>l. l\<lparr>ls_state := LeaseCLOSED, ls_closedAt := Some n, ls_heartbeatAt := n\<rparr>) s = Inr (k, s')"
    by (auto simp: closeLease_def andThen_Inr)
  then obtain sc where s': "s' = tp_leases_update (update_where
      (\<lambda>l. sees sc (ls_organizationId l) \<and> ls_runId l = i \<and> ls_state l = LeaseACTIVE)
      (\<lambda>l. l\<lparr>ls_state := LeaseCLOSED, ls_closedAt := Some n, ls_heartbeatAt := n\<rparr>)) s"
    by (rule leases.updateE) blast
  show "leases_end s s'"
    unfolding s' leases_end_def
    by (auto intro!: grows_update_where simp: lease_ends_def same_lease_def tenure_def)
qed

text \<open>An update of one run's lease that keeps to \<open>lease_moves\<close> is kept.\<close>

lemma lease_updated_sound:
  assumes sound: "leases_sound ls"
    and one: "\<And>l. l \<in> set ls \<Longrightarrow> P l \<Longrightarrow> ls_runId l = i \<and> ls_runId (f l) = i \<and> ls_recoveries (f l) \<le> MAX_RUN_RECOVERIES \<and>
      \<not> (\<exists>q \<in> set ls. ls_sessionId q = ls_sessionId (f l) \<and> ls_runId q \<noteq> i)"
  shows "leases_sound (update_where P f ls)"
proof -
  define g where "g l = (if P l then f l else l)" for l
  have runs: "map ls_runId (update_where P f ls) = map ls_runId ls"
    using one by (simp add: update_where_def)
  have same: "l = m" if "l \<in> set ls" "m \<in> set ls" "ls_runId l = ls_runId m" for l m
    using sound that by (intro unique_key [of ls_runId ls]) (simp_all add: leases_sound_def)
  have sessions: "l = m" if "l \<in> set ls" "m \<in> set ls" "ls_sessionId l = ls_sessionId m" for l m
    using sound that by (intro unique_key [of ls_sessionId ls]) (simp_all add: leases_sound_def)
  have "inj_on (\<lambda>l. ls_sessionId (g l)) (set ls)"
  proof (rule inj_onI)
    fix l m
    assume lm: "l \<in> set ls" "m \<in> set ls" and eq: "ls_sessionId (g l) = ls_sessionId (g m)"
    consider "P l \<and> P m" | "P l \<and> \<not> P m" | "\<not> P l \<and> P m" | "\<not> P l \<and> \<not> P m" by blast
    then show "l = m"
    proof cases
      case 1
      with one lm have "ls_runId l = ls_runId m" by metis
      with same lm show ?thesis by blast
    next
      case 2
      with eq have "ls_sessionId m = ls_sessionId (f l)" by (simp add: g_def)
      with one [of l] 2 lm have "ls_runId m = i" "ls_runId l = i" by blast+
      with same lm show ?thesis by metis
    next
      case 3
      with eq have "ls_sessionId l = ls_sessionId (f m)" by (simp add: g_def)
      with one [of m] 3 lm have "ls_runId l = i" "ls_runId m = i" by blast+
      with same lm show ?thesis by metis
    next
      case 4
      with eq sessions lm show ?thesis by (simp add: g_def)
    qed
  qed
  moreover have "distinct ls"
    using sound by (auto simp: leases_sound_def distinct_map)
  ultimately have "distinct (map ls_sessionId (update_where P f ls))"
    by (simp add: update_where_def distinct_map g_def comp_def inj_on_def)
  with sound one show ?thesis
    unfolding leases_sound_def runs by (auto simp: set_update_where)
qed

lemma lease_updated:
  fixes s :: "'z transport_db_scheme"
  assumes run: "update_rows tp_leases tp_leases_update ls_organizationId lease_update_checks P f s = Inr (k, s')"
    and one: "\<And>l. P l \<Longrightarrow> ls_runId l = i"
    and moves: "\<And>l. leases_sound (tp_leases s) \<Longrightarrow> l \<in> set (tp_leases s) \<Longrightarrow> P l \<Longrightarrow>
      ls_state l = LeaseACTIVE \<Longrightarrow> same_lease l (f l) \<Longrightarrow>
      lease_moves n l (f l) \<and> ls_recoveries (f l) \<le> MAX_RUN_RECOVERIES"
  shows "transport_kept n s s'"
proof -
  obtain sc where s': "s' = tp_leases_update (update_where (\<lambda>l. sees sc (ls_organizationId l) \<and> P l) f) s"
    and ok: "\<And>l. l \<in> set (tp_leases s) \<Longrightarrow> sees sc (ls_organizationId l) \<Longrightarrow> P l \<Longrightarrow> lease_update_checks s l (f l) = None"
    using run by (rule leases.updateE) blast
  have checked: "ls_state l = LeaseACTIVE" "same_lease l (f l)"
      "\<not> (\<exists>q \<in> set (tp_leases s). ls_sessionId q = ls_sessionId (f l) \<and> ls_runId q \<noteq> ls_runId l)"
    if "l \<in> set (tp_leases s)" "sees sc (ls_organizationId l)" "P l" for l
    using ok [OF that] by (simp_all add: lease_update_checks_def same_lease_def)
  have "leases_sound (update_where (\<lambda>l. sees sc (ls_organizationId l) \<and> P l) f (tp_leases s)) \<and>
      grows (lease_moves n) (tp_leases s) (update_where (\<lambda>l. sees sc (ls_organizationId l) \<and> P l) f (tp_leases s))"
    if sound: "leases_sound (tp_leases s)"
  proof
    show "leases_sound (update_where (\<lambda>l. sees sc (ls_organizationId l) \<and> P l) f (tp_leases s))"
      using sound
    proof (rule lease_updated_sound [where i = i])
      fix l
      assume l: "l \<in> set (tp_leases s)" "sees sc (ls_organizationId l) \<and> P l"
      with checked [of l] one [of l] moves [OF sound, of l]
      show "ls_runId l = i \<and> ls_runId (f l) = i \<and> ls_recoveries (f l) \<le> MAX_RUN_RECOVERIES \<and>
          \<not> (\<exists>q \<in> set (tp_leases s). ls_sessionId q = ls_sessionId (f l) \<and> ls_runId q \<noteq> i)"
        by (simp add: same_lease_def)
    qed
    show "grows (lease_moves n) (tp_leases s) (update_where (\<lambda>l. sees sc (ls_organizationId l) \<and> P l) f (tp_leases s))"
      using checked moves [OF sound] by (intro grows_update_where) auto
  qed
  then show ?thesis
    by (simp add: transport_kept_def transport_sound_def nonces_kept_def s')
qed

text \<open>Extending a lease is kept.\<close>

lemma touch_kept: "relates (transport_kept n) (touchLease i n c)"
  unfolding touchLease_def relates_def andThen_Inr
  by (auto elim!: lease_updated [where i = i] simp: lease_moves_def tenure_def leases_sound_def)

lemma keep_alive_kept: "relates (transport_kept n) (keep_alive rt n i)"
  unfolding keep_alive_def relates_def andThen_Inr
  by (auto elim!: lease_updated [where i = i] simp: lease_moves_def tenure_def leases_sound_def)

lemma at_most_one_row:
  "distinct (map k xs) \<Longrightarrow> (\<And>x. P x \<Longrightarrow> k x = i) \<Longrightarrow> length (filter P xs) \<le> 1"
proof (induction xs)
  case (Cons x xs)
  show ?case
  proof (cases "P x")
    case True
    with Cons.prems have "\<forall>y \<in> set xs. \<not> P y" by force
    then show ?thesis by (simp add: filter_empty_conv [THEN iffD2])
  qed (use Cons in auto)
qed simp

text \<open>A row of a state in which only leases were closed since.\<close>

lemma leases_end_row:
  assumes "leases_end s0 s" and "leases_sound (tp_leases s0)"
    and "l \<in> set (tp_leases s0)" "q \<in> set (tp_leases s)" "ls_runId q = ls_runId l"
  shows "lease_ends l q"
proof -
  obtain i where i: "i < length (tp_leases s0)" "q = tp_leases s ! i" "lease_ends (tp_leases s0 ! i) q"
    using assms(1,4) by (auto simp: leases_end_def grows_def in_set_conv_nth)
  then have "ls_runId (tp_leases s0 ! i) = ls_runId l"
    using assms(5) by (simp add: lease_ends_def same_lease_def)
  then have "tp_leases s0 ! i = l"
    using assms(2,3) i(1) by (intro unique_key [of ls_runId "tp_leases s0"]) (auto simp: leases_sound_def)
  with i show ?thesis by simp
qed

section \<open>Attempts on leases already read\<close>

text \<open>
  \<open>tries n s0 m\<close>: run after nothing but closing leases since \<open>s0\<close>, \<open>m\<close> keeps the transport's tables,
  and where it comes to no result it only closed leases either.
\<close>

definition tries :: "int \<Rightarrow> 'z transport_db_scheme \<Rightarrow> ('z transport_db_scheme, 'a option) op \<Rightarrow> bool" where
  "tries n s0 m \<longleftrightarrow> (\<forall>s y s'. leases_end s0 s \<longrightarrow> m s = Inr (y, s') \<longrightarrow>
     transport_kept n s s' \<and> (y = None \<longrightarrow> leases_end s s'))"

lemma tries_ret: "tries n s0 (ret y)"
  by (simp add: tries_def)

lemma tries_ends: "relates leases_end m \<Longrightarrow> tries n s0 m"
  unfolding tries_def relates_def by (blast intro: leases_end_kept)

lemma tries_andThen:
  assumes "relates leases_end m" and "\<And>x. tries n s0 (f x)"
  shows "tries n s0 (andThen m f)"
  unfolding tries_def andThen_Inr
proof (intro allI impI, elim exE conjE)
  fix s y s' x t
  assume "leases_end s0 s" "m s = Inr (x, t)" and run: "f x t = Inr (y, s')"
  then have t: "leases_end s t" "leases_end s0 t"
    using assms(1) by (auto simp: relates_def intro: leases_end_trans)
  with assms(2) run have "transport_kept n t s' \<and> (y = None \<longrightarrow> leases_end t s')"
    unfolding tries_def by blast
  then show "transport_kept n s s' \<and> (y = None \<longrightarrow> leases_end s s')"
    using t by (meson leases_end_kept leases_end_trans transport_kept_trans)
qed

lemma tries_if: "(c \<Longrightarrow> tries n s0 m) \<Longrightarrow> (\<not> c \<Longrightarrow> tries n s0 k) \<Longrightarrow> tries n s0 (if c then m else k)"
  by simp

lemma tries_option:
  "(v = None \<Longrightarrow> tries n s0 m) \<Longrightarrow> (\<And>x. v = Some x \<Longrightarrow> tries n s0 (f x)) \<Longrightarrow>
   tries n s0 (case v of None \<Rightarrow> m | Some x \<Rightarrow> f x)"
  by (cases v) auto

text \<open>An attempt that has written leases has a result.\<close>

lemma tries_some:
  assumes "relates (transport_kept n) m" and "\<And>s x s'. m s = Inr (x, s') \<Longrightarrow> x \<noteq> None"
  shows "tries n s0 m"
  using assms unfolding tries_def relates_def by blast

lemma tries_first_of_each:
  assumes "\<And>x. x \<in> set xs \<Longrightarrow> tries n s0 (f x)"
  shows "tries n s0 (first_of_each f xs)"
  using assms
proof (induction xs)
  case (Cons x xs)
  have loop: "tries n s0 (first_of_each f xs)" and first: "tries n s0 (f x)" using Cons by auto
  show ?case
    unfolding tries_def first_of_each.simps andThen_Inr
  proof (intro allI impI, elim exE conjE)
    fix s y s' z t
    assume s: "leases_end s0 s" "f x s = Inr (z, t)"
      and run: "(case z of None \<Rightarrow> first_of_each f xs | Some r \<Rightarrow> ret (Some r)) t = Inr (y, s')"
    have t: "transport_kept n s t" "z = None \<Longrightarrow> leases_end s t"
      using first s unfolding tries_def by blast+
    show "transport_kept n s s' \<and> (y = None \<longrightarrow> leases_end s s')"
    proof (cases z)
      case None
      with t(2) s(1) have "leases_end s0 t" by (blast intro: leases_end_trans)
      with loop run None have "transport_kept n t s' \<and> (y = None \<longrightarrow> leases_end t s')"
        unfolding tries_def by simp
      with t None show ?thesis by (meson leases_end_trans transport_kept_trans)
    qed (use run t in auto)
  qed
qed (simp add: tries_ret)

end
