(* ===== verification/TransportSteps.thy ===== *)
theory TransportSteps
  imports TransportHistory
begin

text \<open>
  Every operation of the runtime transport keeps its tables: the statements that give a lease to
  another runtime, the loops that look for a run to hand out, checkpoints and nonces; then the
  transport as a step relation.
\<close>

section \<open>Services the transport relies on\<close>

lemma relates_mono: "relates R m \<Longrightarrow> (\<And>s s'. R s s' \<Longrightarrow> Q s s') \<Longrightarrow> relates Q m"
  by (auto simp: relates_def)

context transport_services
begin

lemma events_within:
  assumes "open_evolution R" and within: "\<And>s s' :: 'z transport_db_scheme. tp_quiet s s' \<Longrightarrow> R s s'"
  shows "event_evolution R (tr_gateway env)"
proof -
  have mono: "relates R m" if "relates tp_quiet m" for m :: "('z transport_db_scheme, 'a) op"
    using that within by (rule relates_mono)
  have reads: "gateway_reads R (tr_gateway env)"
    by (intro gateway_reads.intro gateway_reads_axioms.intro open_evolution.axioms(1) [OF assms(1)] mono
        manifest_quiet bundle_quiet)
  have hooks: "gateway_hooks R (tr_gateway env)"
  proof (intro gateway_hooks.intro assms(1) reads gateway_hooks_axioms.intro)
    show "relates R (h org i st)" if "en_onRunStopped (tr_execution env) = Some h" for h org i st
      using stopped_quiet [OF that] by (rule mono)
    show "relates R (m org c content)" if "en_conversationMessage (tr_execution env) = Some m" for m org c content
      using message_quiet [OF that] by (rule mono)
    show "relates R (l request)" if "gw_leaseForCheckout (tr_gateway env) = Some l" for l request
      using lease_quiet [OF that] by (rule mono)
  qed
  show ?thesis
  proof (intro event_evolution.intro hooks event_evolution_axioms.intro)
    show "relates R (g org i a)" if "en_registerArtifact (tr_execution env) = Some g" for g org i a
      using artifact_quiet [OF that] by (rule mono)
    show "relates R (en_loadManifest (tr_execution env) agentId org employeeId)" for agentId org employeeId
      using run_manifest_quiet by (rule mono)
    show "relates R (f manifest w)" if "en_resolveWorkflow (tr_execution env) = Some f" for f manifest w
      using workflow_quiet [OF that] by (rule mono)
  qed
qed

end

sublocale transport_services < ending: lease_closing leases_end env
  by (intro lease_closing.intro events_within ends.open_evolution_axioms quiet_ends lease_closing_axioms.intro
      close_ends)

sublocale transport_services < keeping: lease_closing "transport_kept n" env for n
  by (intro lease_closing.intro events_within kept.open_evolution_axioms quiet_kept lease_closing_axioms.intro
      relates_mono [OF close_ends] leases_end_kept)

section \<open>Taking a lease over\<close>

lemma leased_runs_Inr:
  "leased_runs P s = Inr (pairs, s') \<Longrightarrow>
     s' = s \<and> (\<forall>(l, r) \<in> set pairs. l \<in> set (tp_leases s) \<and> r \<in> set (ex_runs s) \<and> rn_id r = ls_runId l \<and>
       rn_organizationId r = ls_organizationId l \<and> P l r)"
  by (auto simp: leased_runs_def andThen_Inr select_Inr List.map_filter_def split: option.splits if_splits
      dest!: find_Some_set)

text \<open>
  A lease is moved only if its session is still the one that was read; then nothing but closing
  happened to it, so its recoveries are those that were read.
\<close>

lemma move_kept:
  fixes s :: "'z transport_db_scheme"
  assumes snapshot: "leases_end s0 s" "transport_sound s0" "l \<in> set (tp_leases s0)"
    and few: "running \<longrightarrow> ls_recoveries l < MAX_RUN_RECOVERIES"
    and run: "move_lease rt l running sid c n s = Inr (k, s')"
  shows "transport_kept n s s' \<and> (k \<noteq> 1 \<longrightarrow> s' = s)"
proof
  have row: "lease_ends l q" if "q \<in> set (tp_leases s)" "ls_runId q = ls_runId l" for q
    using snapshot that by (intro leases_end_row [of s0 s]) (simp_all add: transport_sound_def)
  show "transport_kept n s s'"
    using run unfolding move_lease_def
  proof (rule lease_updated [where i = "ls_runId l"])
    fix q
    assume sound: "leases_sound (tp_leases s)" and q: "q \<in> set (tp_leases s)"
      and P: "ls_runId q = ls_runId l \<and> ls_state q = LeaseACTIVE \<and> ls_sessionId q = ls_sessionId l \<and> ls_expiresAt q < n"
    from q P have "ls_recoveries q = ls_recoveries l"
      using row by (auto simp: lease_ends_def tenure_def)
    with few sound q have "ls_recoveries q + (if running then 1 else 0) \<le> MAX_RUN_RECOVERIES"
      by (auto simp: leases_sound_def)
    with P show "lease_moves n q (q\<lparr>ls_runtimeId := ri_id rt, ls_sessionId := sid, ls_lastCommand := Some c,
        ls_heartbeatAt := n, ls_expiresAt := n + RUNTIME_LEASE_MS,
        ls_recoveries := ls_recoveries q + (if running then 1 else 0)\<rparr>) \<and>
        ls_recoveries (q\<lparr>ls_runtimeId := ri_id rt, ls_sessionId := sid, ls_lastCommand := Some c,
        ls_heartbeatAt := n, ls_expiresAt := n + RUNTIME_LEASE_MS,
        ls_recoveries := ls_recoveries q + (if running then 1 else 0)\<rparr>) \<le> MAX_RUN_RECOVERIES"
      by (auto simp: lease_moves_def same_lease_def)
  qed auto
  have "distinct (map ls_runId (tp_leases s))"
    using snapshot leases_end_sound by (auto simp: transport_sound_def leases_sound_def)
  then have "length (filter (\<lambda>q. sees sc (ls_organizationId q) \<and> ls_runId q = ls_runId l \<and> ls_state q = LeaseACTIVE \<and>
      ls_sessionId q = ls_sessionId l \<and> ls_expiresAt q < n) (tp_leases s)) \<le> 1" for sc
    by (rule at_most_one_row) simp
  then have "k \<le> 1"
    using run unfolding move_lease_def leases.update_Inr by auto
  moreover have "s' = s" if "k = 0"
    using run that unfolding move_lease_def leases.update_Inr
    by (auto simp: filter_empty_conv update_where_none)
  ultimately show "k \<noteq> 1 \<longrightarrow> s' = s" by auto
qed

text \<open>A claimed run's lease: a lapsed one moves, a new one has a run and a session of its own.\<close>

lemma lease_added:
  fixes s :: "'z transport_db_scheme"
  assumes "insert_row tp_leases_update ls_organizationId lease_checks l s = Inr (u, s')" and "ls_recoveries l = 0"
  shows "transport_kept n s s'"
proof -
  have s': "s' = tp_leases_update (\<lambda>ls. ls @ [l]) s" and ok: "lease_checks s l = None"
    using assms(1) by (auto simp: leases.insert_Inr)
  then show ?thesis
    using assms(2)
    by (auto simp: transport_kept_def transport_sound_def leases_sound_def lease_checks_def nonces_kept_def
        intro!: grows_append)
qed

lemma lease_run_kept:
  fixes s :: "'z transport_db_scheme"
  assumes snapshot: "leases_end s0 s" "transport_sound s0"
    and lapsed: "leased \<longrightarrow> (\<exists>l \<in> set (tp_leases s0). ls_runId l = rn_id r \<and> ls_expiresAt l < n)"
    and run: "lease_run rt r leased sid n s = Inr (u, s')"
  shows "transport_kept n s s'"
proof (cases leased)
  case True
  with lapsed obtain l where l: "l \<in> set (tp_leases s0)" "ls_runId l = rn_id r" "ls_expiresAt l < n" by blast
  have expired: "ls_expiresAt q < n" if "q \<in> set (tp_leases s)" "ls_runId q = rn_id r" for q
    using snapshot l that leases_end_row [of s0 s l q] by (simp add: transport_sound_def lease_ends_def)
  from run True obtain k where "update_rows tp_leases tp_leases_update ls_organizationId lease_update_checks
      (\<lambda>l. ls_runId l = rn_id r \<and> ls_state l = LeaseACTIVE)
      (\<lambda>l. l\<lparr>ls_runtimeId := ri_id rt, ls_sessionId := sid, ls_lastCommand := Some ''run.submit'',
         ls_heartbeatAt := n, ls_expiresAt := n + RUNTIME_LEASE_MS\<rparr>) s = Inr (k, s')"
    by (auto simp: lease_run_def andThen_Inr)
  then show ?thesis
    by (rule lease_updated [where i = "rn_id r"])
       (auto simp: lease_moves_def same_lease_def leases_sound_def dest: expired)
next
  case False
  with run show ?thesis
    by (intro lease_added [where l = "new_lease rt r sid n"]) (simp_all add: lease_run_def new_lease_def)
qed

section \<open>Looking for a run to hand out\<close>

context transport_services
begin

lemma takeOver_tries:
  assumes "transport_sound s0" and "fst held \<in> set (tp_leases s0)"
  shows "tries n s0 (takeOver env rt n held)"
proof -
  define l where "l = fst held"
  have move: "tries n s0 (andThen (move_lease rt l running sid c n) (\<lambda>moved. if moved \<noteq> 1 then ret None else k))"
    if few: "running \<longrightarrow> ls_recoveries l < MAX_RUN_RECOVERIES" and k: "relates (transport_kept n) k"
      "\<And>s x s'. k s = Inr (x, s') \<Longrightarrow> x \<noteq> None"
    for running sid c and k :: "('z transport_db_scheme, claim_response option) op"
    unfolding tries_def andThen_Inr
  proof (intro allI impI, elim exE conjE)
    fix s y s' m t
    assume s: "leases_end s0 s" and moved: "move_lease rt l running sid c n s = Inr (m, t)"
      and run: "(if m \<noteq> 1 then ret None else k) t = Inr (y, s')"
    have t: "transport_kept n s t \<and> (m \<noteq> 1 \<longrightarrow> t = s)"
      using s assms few moved unfolding l_def by (rule move_kept)
    show "transport_kept n s s' \<and> (y = None \<longrightarrow> leases_end s s')"
    proof (cases "m = 1")
      case True
      with run have "k t = Inr (y, s')" by simp
      then have "transport_kept n t s'" "y \<noteq> None"
        using relatesD [OF k(1)] k(2) by blast+
      with t show ?thesis using transport_kept_trans by blast
    qed (use run t in auto)
  qed
  show ?thesis
    unfolding takeOver_def Let_def l_def [symmetric]
    by (intro move tries_andThen tries_if ending.lease_reads_R ending.abandon_R ending.manifest_holds_R
        ends.uuid_R tries_ret keeping.relates_andThen keeping.audit_row_R keeping.recovery_command_R keeping.relates_ret
        ends_time.relates_if ends_time.relates_ret)
       (auto simp: andThen_Inr)
qed

lemma serve_held_tries:
  assumes "transport_sound s0" and "fst held \<in> set (tp_leases s0)"
  shows "tries n s0 (serve_held env rt n held)"
proof -
  have touched: "tries n s0 (andThen (touchLease i n c) (\<lambda>_. andThen m (\<lambda>r. ret (Some r))))"
    if "relates (transport_kept n) m" for i c and m :: "('z transport_db_scheme, claim_response) op"
    using that
    by (intro tries_some keeping.relates_andThen touch_kept keeping.relates_ret) (auto simp: andThen_Inr)
  have released: "tries n s0 (serve_released n redeliver l)" for redeliver l
    unfolding serve_released_def
    by (intro touched tries_andThen tries_if tries_option ending.lease_reads_R tries_ret keeping.resume_command_R)
  have submitted: "tries n s0 (serve_submitted env n l)" for l
    unfolding serve_submitted_def
    by (intro touched tries_andThen tries_option ending.submitCommand_R tries_ret keeping.lease_reads_R)
  show ?thesis
    unfolding serve_held_def Let_def
    by (intro tries_if tries_ret released submitted takeOver_tries assms tries_ends ending.serve_ended_R)
qed

lemma claimAbandoned_kept: "relates (transport_kept n) (claimAbandoned env rt n)"
proof (rule relatesI)
  fix s y s'
  assume "claimAbandoned env rt n s = Inr (y, s')"
  then obtain pairs where "leased_runs (\<lambda>l r. lease_lapsed n l r \<and> may_run rt r) s = Inr (pairs, s)"
    and run: "first_of_each (takeOver env rt n) (take 20 (sort_key (\<lambda>x. ls_expiresAt (fst x)) pairs)) s = Inr (y, s')"
    by (auto simp: claimAbandoned_def andThen_Inr dest: leased_runs_Inr)
  then have "\<forall>x \<in> set (take 20 (sort_key (\<lambda>x. ls_expiresAt (fst x)) pairs)). fst x \<in> set (tp_leases s)"
    by (auto dest!: leased_runs_Inr in_set_takeD)
  then have "tries n s (first_of_each (takeOver env rt n) (take 20 (sort_key (\<lambda>x. ls_expiresAt (fst x)) pairs)))"
    if "transport_sound s"
    using that by (intro tries_first_of_each takeOver_tries) auto
  with run show "transport_kept n s s'"
    unfolding tries_def by (metis leases_end_refl transport_kept_def)
qed

lemma claim_run_tries:
  assumes "transport_sound s0"
    and "snd candidate \<longrightarrow> (\<exists>l \<in> set (tp_leases s0). ls_runId l = rn_id (fst candidate) \<and> ls_expiresAt l < n)"
  shows "tries n s0 (claim_run env rt n candidate)"
proof -
  have lease: "tries n s0 (andThen (lease_run rt (fst candidate) (snd candidate) sid n) (\<lambda>_. k))"
    if k: "relates (transport_kept n) k" "\<And>s x s'. k s = Inr (x, s') \<Longrightarrow> x \<noteq> None"
    for sid and k :: "('z transport_db_scheme, claim_response option) op"
    unfolding tries_def andThen_Inr
  proof (intro allI impI, elim exE conjE)
    fix s y s' u t
    assume s: "leases_end s0 s" and leased: "lease_run rt (fst candidate) (snd candidate) sid n s = Inr (u, t)"
      and run: "k t = Inr (y, s')"
    have "transport_kept n s t"
      using s assms leased by (rule lease_run_kept)
    moreover have "transport_kept n t s'" "y \<noteq> None"
      using relatesD [OF k(1)] k(2) run by blast+
    ultimately show "transport_kept n s s' \<and> (y = None \<longrightarrow> leases_end s s')"
      using transport_kept_trans by blast
  qed
  show ?thesis
    unfolding claim_run_def Let_def
    by (intro lease tries_andThen tries_option tries_ret ending.submitCommand_R ends.uuid_R
        keeping.relates_andThen keeping.audit_row_R keeping.relates_ret)
       (auto simp: andThen_Inr)
qed

lemma claimQueued_kept: "relates (transport_kept n) (claimQueued env rt n)"
proof (rule relatesI)
  fix s y s'
  define queue where "queue ls rs = map (\<lambda>r. (r, find (\<lambda>l. ls_runId l = rn_id r) ls \<noteq> None))
      (take 20 (sort_key rn_createdAt (filter (\<lambda>r. claimable rt n (find (\<lambda>l. ls_runId l = rn_id r) ls) r) rs)))" for ls rs
  assume "claimQueued env rt n s = Inr (y, s')"
  then have "andThen (select ex_runs rn_organizationId (\<lambda>_. True)) (\<lambda>rs.
      andThen (select tp_leases ls_organizationId (\<lambda>_. True)) (\<lambda>ls. first_of_each (claim_run env rt n) (queue ls rs))) s
    = Inr (y, s')"
    by (simp only: claimQueued_def Let_def queue_def)
  then obtain rs sc where
    run: "first_of_each (claim_run env rt n) (queue (filter (\<lambda>l. sees sc (ls_organizationId l)) (tp_leases s)) rs) s = Inr (y, s')"
    by (auto simp: andThen_Inr select_Inr)
  have "tries n s (first_of_each (claim_run env rt n) (queue ls rs))"
    if "transport_sound s" and ls: "set ls \<subseteq> set (tp_leases s)" for ls
  proof (intro tries_first_of_each claim_run_tries that(1) impI)
    fix c
    assume c: "c \<in> set (queue ls rs)" "snd c"
    then obtain l where l: "find (\<lambda>l. ls_runId l = rn_id (fst c)) ls = Some l"
      and "claimable rt n (Some l) (fst c)"
      by (auto simp: queue_def dest!: in_set_takeD)
    then have "ls_expiresAt l < n" by (simp add: claimable_def)
    with find_Some_set [OF l] ls show "\<exists>l \<in> set (tp_leases s). ls_runId l = rn_id (fst c) \<and> ls_expiresAt l < n"
      by auto
  qed
  then have "tries n s (first_of_each (claim_run env rt n) (queue (filter (\<lambda>l. sees sc (ls_organizationId l)) (tp_leases s)) rs))"
    if "transport_sound s"
    using that by auto
  with run show "transport_kept n s s'"
    unfolding tries_def by (metis leases_end_refl transport_kept_def)
qed

lemma next_command_kept: "relates (transport_kept n) (next_command env rt n)"
proof -
  have held: "relates (transport_kept n) (andThen (leased_runs P) (\<lambda>held.
      first_of_each (serve_held env rt n) (sort_key (\<lambda>x. ls_claimedAt (fst x)) held)))" for P
  proof (rule relatesI)
    fix s y s'
    assume "andThen (leased_runs P) (\<lambda>held.
      first_of_each (serve_held env rt n) (sort_key (\<lambda>x. ls_claimedAt (fst x)) held)) s = Inr (y, s')"
    then obtain pairs where "leased_runs P s = Inr (pairs, s)"
      and run: "first_of_each (serve_held env rt n) (sort_key (\<lambda>x. ls_claimedAt (fst x)) pairs) s = Inr (y, s')"
      by (auto simp: andThen_Inr dest: leased_runs_Inr)
    then have "tries n s (first_of_each (serve_held env rt n) (sort_key (\<lambda>x. ls_claimedAt (fst x)) pairs))"
      if "transport_sound s"
      using that by (intro tries_first_of_each serve_held_tries) (auto dest!: leased_runs_Inr)
    with run show "transport_kept n s s'"
      unfolding tries_def by (metis leases_end_refl transport_kept_def)
  qed
  have assoc: "andThen m (\<lambda>x. andThen (f x) g) = andThen (andThen m f) g" for m f g
    by (auto simp: andThen_def fun_eq_iff split: sum.split)
  show ?thesis
    unfolding next_command_def assoc
    by (intro keeping.platform_R keeping.relates_andThen held keeping.relates_option keeping.relates_ret
        claimAbandoned_kept claimQueued_kept)
qed

lemma claim_kept: "relates (transport_kept n) (claim env rt n)"
  unfolding claim_def
  by (intro keeping.relates_andThen keeping.expireDue_R keeping.reapAbandoned_R next_command_kept)

end

section \<open>Checkpoints and nonces\<close>

text \<open>A stored checkpoint is the next one of its run, and of the earlier ones the last stays.\<close>

lemma run_checkpoints_append:
  "run_checkpoints (cs @ [c]) i = run_checkpoints cs i @ (if ck_runId c = i then [c] else [])"
  by (simp add: run_checkpoints_def)

lemma latest_in:
  assumes "latest k rows = Some r"
  shows "r \<in> set rows"
proof -
  have "fold (\<lambda>r best. case best of None \<Rightarrow> Some r | Some b \<Rightarrow> if k b \<le> k r then Some r else Some b) rows b = Some r \<Longrightarrow>
      r \<in> set rows \<or> b = Some r" for b
    by (induction rows arbitrary: b) (fastforce split: option.splits if_splits)+
  with assms show ?thesis unfolding latest_def by blast
qed

lemma next_run_sound:
  assumes sound: "run_sound old" and new: "ck_version c = next_sequence (map ck_version old)"
    and org: "ck_organizationId c = org" "old \<noteq> [] \<longrightarrow> (\<exists>q \<in> set old. ck_organizationId q = org)"
  shows "run_sound (filter (\<lambda>q. \<not> (ck_organizationId q = org \<and> ck_version q < ck_version c - 1)) (old @ [c]))"
proof -
  have orgs: "\<forall>q \<in> set (old @ [c]). ck_organizationId q = org"
  proof -
    obtain o' where "\<forall>q \<in> set old. ck_organizationId q = o'" using sound unfolding run_sound_def by blast
    with org show ?thesis by fastforce
  qed
  then have same: "filter (\<lambda>q. \<not> (ck_organizationId q = org \<and> ck_version q < ck_version c - 1)) (old @ [c]) =
      filter ((\<lambda>v. \<not> v < ck_version c - 1) \<circ> ck_version) (old @ [c])"
    by (intro filter_cong) auto
  have versions: "map ck_version (filter ((\<lambda>v. \<not> v < ck_version c - 1) \<circ> ck_version) (old @ [c])) =
      filter (\<lambda>v. \<not> v < ck_version c - 1) (map ck_version old @ [ck_version c])"
    by (simp add: filter_map)
  consider "old = []" | "map ck_version old = [1]" | v where "map ck_version old = [Suc v, Suc (Suc v)]"
    using sound unfolding run_sound_def by (elim conjE disjE exE) (simp, metis, metis)
  then have "map ck_version (filter ((\<lambda>v. \<not> v < ck_version c - 1) \<circ> ck_version) (old @ [c])) = [1] \<or>
      (\<exists>v. map ck_version (filter ((\<lambda>v. \<not> v < ck_version c - 1) \<circ> ck_version) (old @ [c])) = [Suc v, Suc (Suc v)])"
    unfolding versions by cases (use new in \<open>simp_all add: next_sequence_def\<close>)
  then show ?thesis
    unfolding run_sound_def same using orgs by auto
qed

lemma append_checkpointE:
  assumes "append_checkpoint org th rt q m s = Inr (u, s')"
  obtains sc where "ss_scope s = Some sc" "sees sc org" "checkpoint_checks s (checkpoint_of org th rt q m) = None"
    and "sv_version q = (case latest (\<lambda>c. int (ck_version c)) (filter (\<lambda>c. sees sc (ck_organizationId c) \<and>
        ck_runId c = co_runId (sv_correlation q) \<and> ck_organizationId c = org) (tp_checkpoints s)) of
        None \<Rightarrow> 0 | Some c \<Rightarrow> ck_version c) + 1"
    and "s' = tp_checkpoints_update (\<lambda>_. filter (\<lambda>c. \<not> (ck_runId c = co_runId (sv_correlation q) \<and>
        ck_organizationId c = org \<and> ck_version c < sv_version q - 1))
        (tp_checkpoints s @ [checkpoint_of org th rt q m])) s"
proof -
  define c where "c = checkpoint_of org th rt q m"
  obtain row s1 s2 k where "latest_checkpoint org (co_runId (sv_correlation q)) s = Inr (row, s1)"
    and version: "sv_version q = (case row of None \<Rightarrow> 0 | Some c \<Rightarrow> ck_version c) + 1"
    and added: "attempt (insert_row tp_checkpoints_update ck_organizationId checkpoint_checks c)
      (\<lambda>e. throw (version_conflict e)) s1 = Inr ((), s2)"
    and dropped: "delete_rows tp_checkpoints tp_checkpoints_update ck_organizationId
      (\<lambda>c. ck_runId c = co_runId (sv_correlation q) \<and> ck_organizationId c = org \<and> ck_version c < sv_version q - 1) s2 =
      Inr (k, s')"
    using assms unfolding append_checkpoint_def Let_def andThen_Inr demand_Inr ret_Inr c_def [symmetric] by auto
  moreover from this(1) obtain sc where "ss_scope s = Some sc" "s1 = s"
    "row = latest (\<lambda>c. int (ck_version c)) (filter (\<lambda>c. sees sc (ck_organizationId c) \<and>
        ck_runId c = co_runId (sv_correlation q) \<and> ck_organizationId c = org) (tp_checkpoints s))"
    by (auto simp: latest_checkpoint_def andThen_Inr select_Inr)
  moreover from this have "sees sc org" "checkpoint_checks s c = None" "s2 = tp_checkpoints_update (\<lambda>cs. cs @ [c]) s"
    using added by (auto simp: attempt_Inr checkpoints.insert_Inr c_def checkpoint_of_def)
  moreover from this have "s' = tp_checkpoints_update (filter (\<lambda>c. \<not> (ck_runId c = co_runId (sv_correlation q) \<and>
        ck_organizationId c = org \<and> ck_version c < sv_version q - 1))) s2"
    using dropped \<open>ss_scope s = Some sc\<close>
    by (auto simp: checkpoints.delete_Inr intro!: arg_cong [where f = "\<lambda>f. tp_checkpoints_update f s2" for s2]
        filter_cong)
  ultimately show ?thesis
    by (intro that [of sc]) (simp_all add: c_def)
qed

lemma append_checkpoint_kept: "relates (transport_kept n) (append_checkpoint org th rt q m)"
proof (rule relatesI)
  fix s u s'
  define i where "i = co_runId (sv_correlation q)"
  define c where "c = checkpoint_of org th rt q m"
  have c: "ck_runId c = i" "ck_organizationId c = org" "ck_version c = sv_version q"
    by (simp_all add: c_def checkpoint_of_def i_def)
  assume "append_checkpoint org th rt q m s = Inr (u, s')"
  then obtain sc where checks: "checkpoint_checks s c = None"
    and "sv_version q = (case latest (\<lambda>c. int (ck_version c)) (filter (\<lambda>c. sees sc (ck_organizationId c) \<and>
        ck_runId c = i \<and> ck_organizationId c = org) (tp_checkpoints s)) of None \<Rightarrow> 0 | Some c \<Rightarrow> ck_version c) + 1"
    and "s' = tp_checkpoints_update (\<lambda>_. filter (\<lambda>p. \<not> (ck_runId p = i \<and> ck_organizationId p = org \<and>
        ck_version p < sv_version q - 1)) (tp_checkpoints s @ [c])) s"
    unfolding i_def c_def by (rule append_checkpointE)
  note version = this(2) [folded c(3)] and s' = this(3) [folded c(3)]
  define old where "old = run_checkpoints (tp_checkpoints s) i"
  have new: "ck_version c = next_sequence (map ck_version old)"
    using checks c by (simp add: checkpoint_checks_def versions_of_def run_checkpoints_def old_def)
  have org: "\<exists>p \<in> set old. ck_organizationId p = org" if "old \<noteq> []" "run_sound old"
  proof (cases "latest (\<lambda>c. int (ck_version c)) (filter (\<lambda>c. sees sc (ck_organizationId c) \<and>
        ck_runId c = i \<and> ck_organizationId c = org) (tp_checkpoints s))")
    case None
    with version new have one: "next_sequence (map ck_version old) = 1" by simp
    from that(2) consider "old = []" | "map ck_version old = [1]" | v where "map ck_version old = [Suc v, Suc (Suc v)]"
      unfolding run_sound_def by (elim conjE disjE exE) (simp, metis, metis)
    then show ?thesis using one that(1) by cases (simp_all add: next_sequence_def)
  next
    case (Some p)
    from latest_in [OF this] show ?thesis by (auto simp: old_def run_checkpoints_def)
  qed
  have "run_sound (run_checkpoints (tp_checkpoints s') j)" if sound: "checkpoints_sound (tp_checkpoints s)" for j
  proof (cases "j = i")
    case True
    have "run_checkpoints (tp_checkpoints s') i =
        filter (\<lambda>p. \<not> (ck_organizationId p = org \<and> ck_version p < ck_version c - 1)) (old @ [c])"
      unfolding s' run_checkpoints_def old_def using c
      by (auto simp: filter_filter intro!: filter_cong)
    moreover have "run_sound old" using sound by (simp add: checkpoints_sound_def old_def)
    then have "run_sound (filter (\<lambda>p. \<not> (ck_organizationId p = org \<and> ck_version p < ck_version c - 1)) (old @ [c]))"
      using new c(2) org by (intro next_run_sound) auto
    ultimately show ?thesis unfolding True by (simp only:)
  next
    case False
    then have "run_checkpoints (tp_checkpoints s') j = run_checkpoints (tp_checkpoints s) j"
      using c by (simp add: s' run_checkpoints_def filter_filter) (intro filter_cong refl, auto)
    with sound show ?thesis by (simp add: checkpoints_sound_def)
  qed
  then show "transport_kept n s s'"
    by (auto simp: s' transport_kept_def transport_sound_def nonces_kept_def grows_same checkpoints_sound_def)
qed

text \<open>Purging removes only nonces whose expiry the clock has passed.\<close>

lemma consumeNonce_kept: "relates (transport_kept n) (consumeNonce i nonce e)"
  unfolding consumeNonce_def
proof (rule kept.platform_R, rule relatesI)
  fix s x s'
  assume "andThen now (\<lambda>nowMs.
      andThen (delete_rows tp_nonces tp_nonces_update nonce_owner (\<lambda>n. nn_expiresAt n < nowMs)) (\<lambda>_.
      andThen (insert_unless tp_nonces tp_nonces_update nonce_owner (\<lambda>_. None) (\<lambda>_ _. None) nonce_key
        \<lparr>nn_runtimeId = i, nn_nonce = nonce, nn_expiresAt = e\<rparr>) (\<lambda>changes. ret (changes = 1)))) s = Inr (x, s')"
  then obtain ns where "tp_leases s' = tp_leases s" "tp_checkpoints s' = tp_checkpoints s" "ss_clock s' = ss_clock s"
    and "tp_nonces s' = ns"
    and "\<forall>m \<in> set (tp_nonces s). m \<in> set ns \<or> nn_expiresAt m < ss_clock s (ss_reads s)"
    by (auto simp: andThen_Inr nonces.delete_Inr nonces.insert_unless_Inr Let_def split: if_splits)
  then show "transport_kept n s s'"
    by (auto simp: transport_kept_def transport_sound_def nonces_kept_def grows_same)
qed

section \<open>The operations of the transport\<close>

context transport_services
begin

lemma quiet_in: "relates tp_quiet m \<Longrightarrow> relates (transport_kept n) m"
  by (erule relates_mono) (rule quiet_kept)

lemma calls_kept:
  "relates (transport_kept n) (decide_action (tr_gateway env) rt run msg h)"
  "relates (transport_kept n) (prepareExecution (tr_gateway env) run i st m)"
  "relates (transport_kept n) (completeExecution (tr_gateway env) p outcome)"
  "relates (transport_kept n) (issueGrant (tr_gateway env) run i sc rt m)"
  "relates (transport_kept n) (reserve (tr_spending env) run rt rv m)"
  "relates (transport_kept n) (settle (tr_spending env) org rt sv m)"
  "relates (transport_kept n) (tr_modelCredential env org i rb provider rt)"
  by (intro quiet_in action_evolution.decide_action_R [OF actions_quiet]
      action_evolution.prepareExecution_R [OF actions_quiet] action_evolution.completeExecution_R [OF actions_quiet]
      action_evolution.issueGrant_R [OF actions_quiet] spending_evolution.reserve_R [OF spending_quiet]
      spending_evolution.settle_R [OF spending_quiet] credential_quiet)+

lemma heartbeat_kept: "relates (transport_kept n) (heartbeat env rt body n)"
proof -
  have "relates (transport_kept n) (platform (andThen (gather (keep_alive rt n) ids) (\<lambda>alive. ret (f alive))))"
    for ids f
    by (intro kept.platform_R kept_time.relates_andThen kept_time.relates_gather keep_alive_kept kept_time.relates_ret)
  then show ?thesis
    unfolding heartbeat_def Let_def by (intro keeping.relates_sum keeping.relates_throw)
qed

lemma storeCheckpoint_kept: "relates (transport_kept n) (storeCheckpoint env rt q n)"
  unfolding storeCheckpoint_def Let_def
  by (intro keeping.relates_andThen keeping.lease_organization_R keeping.tenant_R keeping.relates_prod keeping.held_R
      keeping.relates_demand append_checkpoint_kept touch_kept keeping.relates_ret)

lemma saveCheckpoint_kept: "relates (transport_kept n) (saveCheckpoint env rt body n)"
  unfolding saveCheckpoint_def by (intro keeping.relates_sum keeping.relates_throw storeCheckpoint_kept)

lemma ingest_kept: "relates (transport_kept n) (ingest env rt body n)"
  unfolding ingest_def after_event_def
  by (intro keeping.relates_sum keeping.relates_throw keeping.relates_andThen keeping.lease_organization_R
      keeping.tenant_R keeping.lease_reads_R keeping.relates_demand keeping.ingestRuntimeEvent_R keeping.relates_prod
      keeping.relates_whenever keeping.select_R keeping.must_R keeping.relates_if keeping.close_R touch_kept
      keeping.relates_ret)

lemma governed_kept:
  "relates (transport_kept n) (requestAction env rt body)"
  "relates (transport_kept n) (planExecution env rt q)"
  "relates (transport_kept n) (grantAction env rt body)"
  unfolding requestAction_def planExecution_def grantAction_def Let_def
  by (intro keeping.relates_sum keeping.relates_throw keeping.relates_prod keeping.relates_andThen
      keeping.lease_organization_R keeping.tenant_R keeping.relates_attempt keeping.lease_reads_R keeping.select_R
      keeping.relates_option keeping.relates_demand keeping.relates_ret keeping.runningStep_R keeping.now_R calls_kept)+

lemma executeAction_kept: "relates (transport_kept n) (executeAction env call rt body)"
proof -
  have "relates (transport_kept n) (case plan of Done x \<Rightarrow> ret x
      | Dispatch p \<Rightarrow> completeExecution (tr_gateway env) p (dispatch call p))" for plan
    by (cases plan) (simp_all add: keeping.relates_ret calls_kept)
  then show ?thesis
    unfolding executeAction_def
    by (intro keeping.relates_sum keeping.relates_throw keeping.relates_andThen governed_kept)
qed

lemma model_calls_kept:
  "relates (transport_kept n) (reserveModelTokens env rt body)"
  "relates (transport_kept n) (settleModelTokens env rt body)"
  "relates (transport_kept n) (modelCredential env rt body)"
  unfolding reserveModelTokens_def settleModelTokens_def modelCredential_def
  by (intro keeping.relates_sum keeping.relates_throw keeping.relates_prod keeping.relates_andThen
      keeping.lease_organization_R keeping.tenant_R keeping.relates_attempt keeping.held_R keeping.lease_reads_R
      keeping.relates_demand keeping.relates_ret keeping.now_R calls_kept)+

lemma authenticate_kept: "relates (transport_kept n) (authenticateRuntimeRequest cy reg q m)"
  unfolding authenticateRuntimeRequest_def
  by (intro kept_time.relates_option kept_time.relates_prod kept_time.relates_throw kept_time.relates_andThen
      consumeNonce_kept kept_time.relates_demand kept_time.relates_ret)

end

section \<open>The transport as a step relation\<close>

text \<open>
  One request of a runtime or one sweep at time \<open>n\<close>; \<open>elsewhere\<close> is any other operation of the control
  plane. \<open>claim\<close> is three transactions, each a step.
\<close>

inductive transport_step ::
  "'z transport_env \<Rightarrow> int \<Rightarrow> 'z transport_db_scheme \<Rightarrow> 'z transport_db_scheme \<Rightarrow> bool" for env n where
  sweeps: "expireDue (tr_gateway env) n None s = Inr (k, s') \<Longrightarrow> transport_step env n s s'"
| reaps: "reapAbandoned env n s = Inr (m, s') \<Longrightarrow> transport_step env n s s'"
| hands_out: "next_command env rt n s = Inr (c, s') \<Longrightarrow> transport_step env n s s'"
| beats: "heartbeat env rt body n s = Inr (b, s') \<Longrightarrow> transport_step env n s s'"
| saves: "saveCheckpoint env rt body n s = Inr (v, s') \<Longrightarrow> transport_step env n s s'"
| loads: "loadCheckpoint env rt body s = Inr (p, s') \<Longrightarrow> transport_step env n s s'"
| ingests: "ingest env rt event n s = Inr (a, s') \<Longrightarrow> transport_step env n s s'"
| requests: "requestAction env rt body s = Inr (d, s') \<Longrightarrow> transport_step env n s s'"
| plans: "planExecution env rt q s = Inr (x, s') \<Longrightarrow> transport_step env n s s'"
| completes: "completeExecution (tr_gateway env) p outcome s = Inr (y, s') \<Longrightarrow> transport_step env n s s'"
| issues: "grantAction env rt body s = Inr (g, s') \<Longrightarrow> transport_step env n s s'"
| reserves: "reserveModelTokens env rt body s = Inr (r, s') \<Longrightarrow> transport_step env n s s'"
| settles: "settleModelTokens env rt body s = Inr (u, s') \<Longrightarrow> transport_step env n s s'"
| resolves: "modelCredential env rt body s = Inr (h, s') \<Longrightarrow> transport_step env n s s'"
| authorizes: "authorizeStep rt c s = Inr (i, s') \<Longrightarrow> transport_step env n s s'"
| authenticates: "authenticateRuntimeRequest cy reg request t s = Inr (who, s') \<Longrightarrow> transport_step env n s s'"
| elsewhere: "tp_quiet s s' \<Longrightarrow> transport_step env n s s'"

inductive_cases transport_stepE: "transport_step env n s s'"

text \<open>Steps at any times, and the states they lead to from one without leases and checkpoints.\<close>

inductive transport_steps :: "'z transport_env \<Rightarrow> 'z transport_db_scheme \<Rightarrow> 'z transport_db_scheme \<Rightarrow> bool" for env where
  none: "transport_steps env s s"
| more: "transport_steps env s t \<Longrightarrow> transport_step env n t u \<Longrightarrow> transport_steps env s u"

definition transport_reachable :: "'z transport_env \<Rightarrow> 'z transport_db_scheme \<Rightarrow> bool" where
  "transport_reachable env s \<longleftrightarrow> (\<exists>s0. tp_leases s0 = [] \<and> tp_checkpoints s0 = [] \<and> transport_steps env s0 s)"

context transport_services
begin

lemmas steps_kept =
  next_command_kept heartbeat_kept saveCheckpoint_kept ingest_kept governed_kept calls_kept model_calls_kept
  authenticate_kept keeping.reapAbandoned_R keeping.loads_R keeping.authorizeStep_R keeping.expireDue_R

lemma transport_step_kept:
  assumes "transport_step env n s s'"
  shows "transport_kept n s s'"
  using assms by cases (erule relatesD [rotated], rule steps_kept | rule quiet_kept)+

end

end
