(* ===== verification/TransportProperties.thy ===== *)
theory TransportProperties
  imports TransportSteps
begin

text \<open>
  What holds of the runtime transport in every state it reaches: leases move only when they have
  lapsed, its tables stay well formed, only the holder of a lease acts on a run, a signed request is
  used once, and a stored checkpoint is read back.
\<close>

section \<open>Many steps\<close>

context transport_services
begin

lemma transport_steps_kept:
  assumes "transport_steps env s s'" and "transport_sound s"
  shows "transport_sound s' \<and> ss_clock s' = ss_clock s \<and> nonces_kept (ss_clock s) (tp_nonces s) (tp_nonces s')"
  using assms
proof induction
  case (more s t n u)
  from transport_step_kept [OF more(2)] more(3) [OF more(4)]
  have "transport_sound u \<and> ss_clock u = ss_clock t \<and> nonces_kept (ss_clock t) (tp_nonces t) (tp_nonces u)"
    by (simp add: transport_kept_def)
  with more(3) [OF more(4)] show ?case unfolding nonces_kept_def by metis
qed (simp add: nonces_kept_def)

lemma served_sound: "transport_reachable env s \<Longrightarrow> transport_sound s"
  unfolding transport_reachable_def
  by (auto dest!: transport_steps_kept simp: transport_sound_def leases_sound_def checkpoints_sound_def run_checkpoints_def)

end

section \<open>Leases and checkpoints\<close>

text \<open>
  C5. A lease stays at its run; once closed it never changes, and its runtime, its session and its
  count of recoveries change only when it had expired.
\<close>

theorem leases_change_hands_when_lapsed:
  assumes "transport_services env" and "transport_reachable env s" and "transport_step env n s s'"
    and "l \<in> set (tp_leases s)"
  shows "\<exists>l' \<in> set (tp_leases s'). ls_runId l' = ls_runId l \<and> ls_organizationId l' = ls_organizationId l \<and>
    (ls_state l = LeaseCLOSED \<longrightarrow> l' = l) \<and> ls_recoveries l \<le> ls_recoveries l' \<and>
    ((ls_runtimeId l', ls_sessionId l', ls_recoveries l') \<noteq> (ls_runtimeId l, ls_sessionId l, ls_recoveries l) \<longrightarrow>
       ls_state l = LeaseACTIVE \<and> ls_expiresAt l < n)"
proof -
  have "grows (lease_moves n) (tp_leases s) (tp_leases s')"
    using transport_services.transport_step_kept [OF assms(1,3)] transport_services.served_sound [OF assms(1,2)]
    by (simp add: transport_kept_def)
  from grows_in [OF this assms(4)] obtain l' where "l' \<in> set (tp_leases s')" "lease_moves n l l'" by blast
  then show ?thesis
    by (intro bexI [of _ l']) (cases "ls_state l"; auto simp: lease_moves_def same_lease_def tenure_def)+
qed


section \<open>Only the holder acts\<close>

definition holds :: "runtime_identity \<Rightarrow> 'z transport_db_scheme \<Rightarrow> string \<Rightarrow> bool" where
  "holds rt s i \<longleftrightarrow> (\<exists>l \<in> set (tp_leases s). ls_runId l = i \<and> ls_runtimeId l = ri_id rt \<and>
     servesOrganization rt (ls_organizationId l))"

lemma leaseOrganization_refused:
  assumes "ss_scope s = None" and "\<not> holds rt s i"
  shows "leaseOrganization rt i s = Inl (Refused 403 ''RUNTIME_LEASE_REQUIRED'')"
proof -
  have "filtered (\<lambda>l. ls_runtimeId l = ri_id rt \<and> servesOrganization rt (ls_organizationId l))
      (find (\<lambda>l. ls_runId l = i) (tp_leases s)) = None"
    using assms(2) by (cases "find (\<lambda>l. ls_runId l = i) (tp_leases s)")
      (auto simp: holds_def filtered_def dest!: find_Some_set)
  then show ?thesis
    using assms(1)
    by (simp add: leaseOrganization_def platform_def scoped_def ownedLease_def lease_of_def andThen_def
        select_one_def select_def ret_def throw_def find_filter split: list.split option.split)
qed

lemma refused_first: "m s = Inl e \<Longrightarrow> andThen m f s = Inl e"
  by (simp add: andThen_def)

text \<open>
  C6. A request about a run whose lease the runtime does not hold is refused with 403 before anything
  else of it is looked at, whatever it asks for.
\<close>

theorem only_the_holder_acts:
  assumes "ss_scope s = None" and "\<not> holds rt s runId"
  shows "(\<forall>event e. parseRuntimeEvent (tr_schemas env) event = Inr e \<and> ev_runId e = runId \<longrightarrow>
        ingest env rt event n s = Inl (Refused 403 ''RUNTIME_LEASE_REQUIRED'')) \<and>
    (\<forall>body q. parseRuntimeCheckpointSaveRequest (tr_uuid env) body = Inr q \<and> co_runId (sv_correlation q) = runId \<longrightarrow>
        saveCheckpoint env rt body n s = Inl (Refused 403 ''RUNTIME_LEASE_REQUIRED'')) \<and>
    (\<forall>body c. parseRuntimeCheckpointLoadRequest (tr_uuid env) body = Inr c \<and> co_runId c = runId \<longrightarrow>
        loadCheckpoint env rt body s = Inl (Refused 403 ''RUNTIME_LEASE_REQUIRED'')) \<and>
    (\<forall>body c msg. parseRuntimeActionRequest (tr_uuid env) (tr_messageSize env) body = Inr (c, msg) \<and> co_runId c = runId \<longrightarrow>
        requestAction env rt body s = Inl (Refused 403 ''RUNTIME_LEASE_REQUIRED'')) \<and>
    (\<forall>body q. parseRuntimeActionExecuteRequest (tr_uuid env) body = Inr q \<and> co_runId (xq_correlation q) = runId \<longrightarrow>
        executeAction env call rt body s = Inl (Refused 403 ''RUNTIME_LEASE_REQUIRED'') \<and>
        grantAction env rt body s = Inl (Refused 403 ''RUNTIME_LEASE_REQUIRED'')) \<and>
    (\<forall>body q. parseRuntimeModelReservationRequest (tr_uuid env) body = Inr q \<and> co_runId (rr_correlation q) = runId \<longrightarrow>
        reserveModelTokens env rt body s = Inl (Refused 403 ''RUNTIME_LEASE_REQUIRED'')) \<and>
    (\<forall>body q. parseRuntimeModelSettlementRequest (tr_uuid env) body = Inr q \<and> co_runId (sm_correlation q) = runId \<longrightarrow>
        settleModelTokens env rt body s = Inl (Refused 403 ''RUNTIME_LEASE_REQUIRED'')) \<and>
    (\<forall>body c provider. parseRuntimeModelCredentialRequest (tr_uuid env) body = Inr (c, provider) \<and> co_runId c = runId \<longrightarrow>
        modelCredential env rt body s = Inl (Refused 403 ''RUNTIME_LEASE_REQUIRED'')) \<and>
    (\<forall>c. co_runId c = runId \<longrightarrow> authorizeStep rt c s = Inl (Refused 403 ''RUNTIME_LEASE_REQUIRED''))"
proof -
  have refused: "andThen (leaseOrganization rt runId) f s = Inl (Refused 403 ''RUNTIME_LEASE_REQUIRED'')"
    for f :: "string \<Rightarrow> ('a transport_db_scheme, 'b) op"
    by (rule refused_first, rule leaseOrganization_refused, rule assms(1), rule assms(2))
  show ?thesis
    by (intro conjI allI impI; (elim conjE)?)
       (simp_all add: ingest_def saveCheckpoint_def storeCheckpoint_def loadCheckpoint_def readCheckpoint_def
          requestAction_def executeAction_def planExecution_def grantAction_def reserveModelTokens_def
          settleModelTokens_def modelCredential_def authorizeStep_def Let_def refused refused_first)
qed

section \<open>Signed requests\<close>

lemma authenticate_Inr:
  assumes "ss_scope s = None" and "authenticateRuntimeRequest cy reg q t s = Inr (i, s')"
    and "verified_request cy reg q t = Some (i', issuedAt, nonce)"
  shows "i = i' \<and> (\<exists>m \<in> set (tp_nonces s'). nonce_key m = (ri_id i, nonce) \<and> nn_expiresAt m = issuedAt + RUNTIME_REQUEST_MAX_SKEW_MS) \<and>
    (\<forall>m \<in> set (tp_nonces s). nonce_key m = (ri_id i, nonce) \<longrightarrow> (\<exists>k. nn_expiresAt m < ss_clock s k))"
  using assms
  by (auto simp: authenticateRuntimeRequest_def andThen_Inr consumeNonce_Inr Let_def nonce_key_def image_iff
      split: if_splits)

lemma authenticated_registered:
  assumes "authenticateRuntimeRequest cy reg q t s = Inr (i, s')"
  shows "i \<in> set reg"
proof -
  from assms obtain issuedAt nonce where "verified_request cy reg q t = Some (i, issuedAt, nonce)"
    by (auto simp: authenticateRuntimeRequest_def andThen_Inr split: option.splits)
  then show ?thesis by (auto dest: verified_request_Some)
qed


section \<open>Reading a checkpoint back\<close>

lemma latest_last:
  assumes "\<And>r. r \<in> set rows \<Longrightarrow> k r \<le> k x"
  shows "latest k (rows @ [x]) = Some x"
proof -
  define best where "best = latest k rows"
  have "latest k (rows @ [x]) = (case best of None \<Rightarrow> Some x | Some b \<Rightarrow> if k b \<le> k x then Some x else Some b)"
    by (simp add: best_def latest_def)
  moreover have "k b \<le> k x" if "best = Some b" for b
    using that latest_in [of k rows b] assms by (simp add: best_def)
  ultimately show ?thesis by (cases best) simp_all
qed

lemma next_sequence_less: "v \<in> set vs \<Longrightarrow> v < next_sequence vs"
  unfolding next_sequence_def by (induction vs) auto

text \<open>
  C35. A checkpoint that was stored, whose body has the digest that was sent with it, is what is read
  next, with its version, binding and body.
\<close>

theorem checkpoint_round_trip:
  assumes "append_checkpoint org threadId runtimeId q m s = Inr (u, s')" and "sha (sv_body q) = sv_sha256 q"
  shows "read_checkpoint sha org (co_runId (sv_correlation q)) s' =
    Inr (Some \<lparr>cp_runId = co_runId (sv_correlation q), cp_version = sv_version q, cp_binding = sv_binding q,
      cp_sha256 = sv_sha256 q, cp_body = sv_body q\<rparr>, s')"
proof -
  define i where "i = co_runId (sv_correlation q)"
  define c where "c = checkpoint_of org threadId runtimeId q m"
  have c: "ck_runId c = i" "ck_organizationId c = org" "ck_version c = sv_version q" "ck_body c = sv_body q"
    "ck_sha256 c = sv_sha256 q" "ck_bytes c = utf8_length (sv_body q)" "ck_binding c = sv_binding q"
    by (simp_all add: c_def checkpoint_of_def i_def)
  from assms(1) obtain sc where sc: "ss_scope s = Some sc" "sees sc org" and checks: "checkpoint_checks s c = None"
    and s': "s' = tp_checkpoints_update (\<lambda>_. filter (\<lambda>p. \<not> (ck_runId p = i \<and> ck_organizationId p = org \<and>
        ck_version p < sv_version q - 1)) (tp_checkpoints s @ [c])) s"
    unfolding i_def c_def by (rule append_checkpointE)
  define older where "older = filter (\<lambda>p. sees sc (ck_organizationId p) \<and> ck_runId p = i \<and> ck_organizationId p = org)
      (filter (\<lambda>p. \<not> (ck_runId p = i \<and> ck_organizationId p = org \<and> ck_version p < sv_version q - 1)) (tp_checkpoints s))"
  have "ck_version c = next_sequence (versions_of s i)"
    using checks c by (simp add: checkpoint_checks_def)
  then have "ck_version p \<le> ck_version c" if "p \<in> set older" for p
    using that next_sequence_less [of "ck_version p" "versions_of s i"]
    by (auto simp: older_def versions_of_def intro: less_imp_le)
  then have "latest (\<lambda>p. int (ck_version p)) (older @ [c]) = Some c"
    by (intro latest_last) simp
  moreover have "filter (\<lambda>p. sees sc (ck_organizationId p) \<and> ck_runId p = i \<and> ck_organizationId p = org) (tp_checkpoints s') =
      older @ [c]"
    using sc c by (simp add: s' older_def)
  ultimately have "latest_checkpoint org i s' = Inr (Some c, s')"
    using sc by (simp add: latest_checkpoint_def andThen_def select_def s' ret_def)
  then show ?thesis
    using assms(2) c unfolding i_def [symmetric]
    by (simp add: read_checkpoint_def andThen_def demand_def ret_def)
qed

end
