(* ===== verification/SpendingProperties.thy ===== *)
theory SpendingProperties
  imports SpendingHistory
begin

text \<open>
  Correctness of model spending: what a reservation found and did (\<open>reserve_cases\<close>), limits that no
  granted call exceeds, retries that change nothing, settlements at the price reserved under,
  currencies that never mix, and alerts raised exactly once.
\<close>

section \<open>Reads\<close>

definition budget_at :: "'z spending_db_scheme \<Rightarrow> string \<Rightarrow> model_budget" where
  "budget_at s org = mapBudget (find (\<lambda>b. bg_organizationId b = org) (sp_budgets s))"

definition price_at :: "'z spending_db_scheme \<Rightarrow> string \<Rightarrow> string \<Rightarrow> string \<Rightarrow> price option" where
  "price_at s org provider model =
     (case rev (filter (\<lambda>p. mp_organizationId p = org \<and> mp_provider p = provider \<and> mp_model p = model) (sp_prices s)) of
        [] \<Rightarrow> None
      | p # _ \<Rightarrow> if mp_inputMicros p = None then None else Some (price_of_row p))"

definition usages_at :: "'z spending_db_scheme \<Rightarrow> string \<Rightarrow> (usage_row \<Rightarrow> bool) \<Rightarrow> usage_row list" where
  "usages_at s org P = filter (\<lambda>u. us_organizationId u = org \<and> P u) (sp_reservations s)"

definition charged_at :: "'z spending_db_scheme \<Rightarrow> string \<Rightarrow> (usage_row \<Rightarrow> bool) \<Rightarrow> int \<times> int" where
  "charged_at s org P = (total charged_tokens (usages_at s org P), total charged_cost (usages_at s org P))"

lemma seen_rows:
  "sees sc org \<Longrightarrow> (\<lambda>r. sees sc (f r) \<and> f r = org \<and> P r) = (\<lambda>r. f r = org \<and> P r)"
  "sees sc org \<Longrightarrow> (\<lambda>r. sees sc (f r) \<and> f r = org) = (\<lambda>r. f r = org)"
  "sees sc org \<Longrightarrow> (\<lambda>r. sees sc (f r) \<and> P r \<and> f r = org) = (\<lambda>r. P r \<and> f r = org)"
  by auto

lemma budget_of_Inr:
  assumes scope: "ss_scope s = Some sc" and sees: "sees sc org"
  shows "budget_of org s = Inr (b, s') \<longleftrightarrow> b = budget_at s org \<and> s' = s"
  using scope by (auto simp: budget_of_def andThen_Inr select_one_Inr seen_rows [OF sees] budget_at_def)

lemma charged_Inr:
  assumes scope: "ss_scope s = Some sc" and sees: "sees sc org"
  shows "charged org P s = Inr (c, s') \<longleftrightarrow> c = charged_at s org P \<and> s' = s"
  using scope by (auto simp: charged_def andThen_Inr select_Inr seen_rows [OF sees] charged_at_def usages_at_def)

lemma current_price_Inr:
  assumes scope: "ss_scope s = Some sc" and sees: "sees sc org"
  shows "current_price org provider model s = Inr (p, s') \<longleftrightarrow> p = price_at s org provider model \<and> s' = s"
  using scope
  by (auto simp: current_price_def latest_price_def andThen_Inr select_Inr seen_rows [OF sees] price_at_def
      split: list.splits)

lemma organization_currency_Inr:
  assumes scope: "ss_scope s = Some sc" and sees: "sees sc org"
  shows "organization_currency org s = Inr (c, s') \<longleftrightarrow> c = bg_currency (budget_at s org) \<and> s' = s"
  using scope
  by (auto simp: organization_currency_def andThen_Inr select_one_Inr seen_rows [OF sees] budget_at_def mapBudget_def
      model_budget.truncate_def split: option.splits)

lemma usage_row_of_Inr:
  assumes scope: "ss_scope s = Some sc" and sees: "sees sc org"
  shows "usage_row_of org i s = Inr (row, s') \<longleftrightarrow>
     row = find (\<lambda>u. us_id u = i \<and> us_organizationId u = org) (sp_reservations s) \<and> s' = s"
  using scope by (auto simp: usage_row_of_def select_one_Inr seen_rows [OF sees])

lemma reserved_price_Inr:
  assumes scope: "ss_scope s = Some sc" and sees: "sees sc org"
  shows "reserved_price org u s = Inr (p, s') \<longleftrightarrow>
     s' = s \<and> (case us_priceId u of
        None \<Rightarrow> p = None
      | Some i \<Rightarrow> \<exists>r. find (\<lambda>p. mp_organizationId p = org \<and> mp_id p = i) (sp_prices s) = Some r \<and> p = Some (price_of_row r))"
  using scope
  by (auto simp: reserved_price_def andThen_Inr select_one_Inr seen_rows [OF sees] split: option.splits)

text \<open>What checking alerts and denying a call leave alone.\<close>

definition ledger_same :: "'z spending_db_scheme \<Rightarrow> 'z spending_db_scheme \<Rightarrow> bool" where
  "ledger_same s s' \<longleftrightarrow> ss_scope s' = ss_scope s \<and> sp_budgets s' = sp_budgets s \<and> sp_prices s' = sp_prices s \<and>
     sp_reservations s' = sp_reservations s"

interpretation ledger: reading ledger_same
  by unfold_locales (auto simp: ledger_same_def)

lemma services_ledger:
  assumes "spending_services env"
  shows "alerting ledger_same env"
  by (intro alerting.intro ledger.reading_axioms alerting_axioms.intro
      spending_services.deliver_within [OF assms])
     (auto simp: ledger_same_def spending_apart_def spending_tables_def relates_def alerts.insert_unless_Inr
        split: if_splits)

lemma ledger_same_reads:
  assumes "ledger_same s s'"
  shows "budget_at s' org = budget_at s org" "price_at s' org p m = price_at s org p m"
    "charged_at s' org P = charged_at s org P" "usages_at s' org P = usages_at s org P"
  using assms by (simp_all add: ledger_same_def budget_at_def price_at_def charged_at_def usages_at_def)

section \<open>What a reservation found and did\<close>

definition refused_output :: "reservation_request \<Rightarrow> fit list \<Rightarrow> bool" where
  "refused_output req fits \<longleftrightarrow>
     granted_output (rr_maxOutputTokens req) fits < min MIN_OUTPUT_TOKENS (rr_maxOutputTokens req)"

lemma refused_has_limit: "refused_output req fits \<Longrightarrow> tightest fits \<noteq> None"
  by (cases "tightest fits") (auto simp: refused_output_def granted_output_def)

lemma andThen_known: "m s = Inr (x, t) \<Longrightarrow> andThen m f s = f x t"
  by (simp add: andThen_def)

lemma decide_limits_run:
  assumes "ss_scope s = Some sc" "sees sc (rn_organizationId run)"
  shows "decide_limits env run rt req h n b p s =
    (let org = rn_organizationId run; period = periodOf n;
         month = charged_at s org (\<lambda>u. us_period u = period);
         fits = fits_of b p month (charged_at s org (\<lambda>u. us_runId u = rn_id run)) (rr_estimatedInputTokens req);
         granted = granted_output (rr_maxOutputTokens req) fits in
      (case (tightest fits, granted < min MIN_OUTPUT_TOKENS (rr_maxOutputTokens req)) of
        (Some f, True) \<Rightarrow>
          andThen (deny_reservation run rt req period (Some (ft_scope f)) (Some (ft_remaining f))) (\<lambda>denial.
          andThen (case monthly_alert (ft_scope f) of
             None \<Rightarrow> ret ()
           | Some reached \<Rightarrow> check_alerts env
               \<lparr>ak_organizationId = org, ak_actorId = rt, ak_period = period, ak_budget = b,
                ak_charged = month, ak_reached = Some reached, ak_nowMs = n\<rparr>) (\<lambda>_.
          ret denial))
      | _ \<Rightarrow>
          andThen (insert_row sp_reservations_update us_organizationId usage_checks
             (usage_of run rt req h period p granted n)) (\<lambda>_.
          andThen (checkAlerts env org rt period b n) (\<lambda>_.
          ret (ReservationAllowed (rr_reservationId req) granted)))) s)"
proof -
  have "charged (rn_organizationId run) P s = Inr (charged_at s (rn_organizationId run) P, s)" for P
    by (simp only: charged_Inr [OF assms] simp_thms)
  then show ?thesis
    unfolding decide_limits_def Let_def by (simp only: andThen_known)
qed

lemma decide_limits_cases:
  assumes services: "spending_services env"
    and scope: "ss_scope s = Some sc" "sees sc (rn_organizationId run)"
    and run: "decide_limits env run rt req h n b p s = Inr (r, s')"
  defines "fits \<equiv> fits_of b p (charged_at s (rn_organizationId run) (\<lambda>u. us_period u = periodOf n))
    (charged_at s (rn_organizationId run) (\<lambda>u. us_runId u = rn_id run)) (rr_estimatedInputTokens req)"
  obtains (denied) f where "refused_output req fits" "tightest fits = Some f"
      "r = ReservationDenied (rr_reservationId req) (REASONS (Some (ft_scope f)))" "ledger_same s s'"
  | (granted) t where "\<not> refused_output req fits"
      "r = ReservationAllowed (rr_reservationId req) (granted_output (rr_maxOutputTokens req) fits)"
      "usage_checks s (usage_of run rt req h (periodOf n) p (granted_output (rr_maxOutputTokens req) fits) n) = None"
      "t = sp_reservations_update (\<lambda>us. us @ [usage_of run rt req h (periodOf n) p
         (granted_output (rr_maxOutputTokens req) fits) n]) s"
      "checkAlerts env (rn_organizationId run) rt (periodOf n) b n t = Inr ((), s')" "ledger_same t s'"
proof (cases "refused_output req fits")
  case True
  then obtain f where f: "tightest fits = Some f" using refused_has_limit by blast
  let ?month = "charged_at s (rn_organizationId run) (\<lambda>u. us_period u = periodOf n)"
  from run [unfolded decide_limits_run [OF scope]] obtain u where
    deny: "deny_reservation run rt req (periodOf n) (Some (ft_scope f)) (Some (ft_remaining f)) s = Inr (r, u)"
    and check: "(case monthly_alert (ft_scope f) of None \<Rightarrow> ret () | Some reached \<Rightarrow> check_alerts env
         \<lparr>ak_organizationId = rn_organizationId run, ak_actorId = rt, ak_period = periodOf n, ak_budget = b,
          ak_charged = ?month, ak_reached = Some reached, ak_nowMs = n\<rparr>) u = Inr ((), s')"
    using f True unfolding fits_def refused_output_def Let_def
    by (auto simp: andThen_Inr)
  note bounds = alerting.deny_R [OF services_ledger [OF services]]
    alerting.check_alerts_R [OF services_ledger [OF services]]
  have "ledger_same s u" by (rule relatesD [OF bounds(1) deny])
  moreover have "ledger_same u s'"
    using check by (cases "monthly_alert (ft_scope f)") (auto simp: ledger_same_def dest: relatesD [OF bounds(2)])
  ultimately have "ledger_same s s'" by (simp add: ledger_same_def)
  moreover have "r = ReservationDenied (rr_reservationId req) (REASONS (Some (ft_scope f)))"
    using deny by (auto simp: deny_reservation_def andThen_Inr)
  ultimately show ?thesis using True f by (intro denied)
next
  case False
  let ?g = "granted_output (rr_maxOutputTokens req) fits"
  have small: "\<not> ?g < min MIN_OUTPUT_TOKENS (rr_maxOutputTokens req)"
    using False by (simp add: refused_output_def)
  from run [unfolded decide_limits_run [OF scope]] have "andThen (insert_row sp_reservations_update us_organizationId usage_checks
        (usage_of run rt req h (periodOf n) p ?g n)) (\<lambda>_.
      andThen (checkAlerts env (rn_organizationId run) rt (periodOf n) b n) (\<lambda>_.
      ret (ReservationAllowed (rr_reservationId req) ?g))) s = Inr (r, s')"
    using small unfolding fits_def Let_def by (simp del: min_less_iff_conj split: option.splits)
  then obtain t where
    ins: "insert_row sp_reservations_update us_organizationId usage_checks
        (usage_of run rt req h (periodOf n) p ?g n) s = Inr ((), t)"
    and check: "checkAlerts env (rn_organizationId run) rt (periodOf n) b n t = Inr ((), s')"
    and r: "r = ReservationAllowed (rr_reservationId req) ?g"
    by (auto simp: andThen_Inr)
  have "ledger_same t s'"
    by (rule relatesD [OF alerting.checkAlerts_R [OF services_ledger [OF services]] check])
  with ins check r False show ?thesis by (intro granted) (auto simp: usages.insert_Inr)
qed

definition requested_usage ::
  "'z spending_env \<Rightarrow> 'z spending_db_scheme \<Rightarrow> run_row \<Rightarrow> string \<Rightarrow> reservation_request \<Rightarrow> int \<Rightarrow> int \<Rightarrow> usage_row" where
  "requested_usage env s run rt req granted n =
     usage_of run rt req (se_digest env (reservation_json req)) (periodOf n)
       (price_at s (rn_organizationId run) (rr_provider req) (rr_model req)) granted n"

definition fits_at :: "'z spending_db_scheme \<Rightarrow> run_row \<Rightarrow> reservation_request \<Rightarrow> int \<Rightarrow> fit list" where
  "fits_at s run req n = fits_of (budget_at s (rn_organizationId run))
     (price_at s (rn_organizationId run) (rr_provider req) (rr_model req))
     (charged_at s (rn_organizationId run) (\<lambda>u. us_period u = periodOf n))
     (charged_at s (rn_organizationId run) (\<lambda>u. us_runId u = rn_id run)) (rr_estimatedInputTokens req)"

lemma reserve_cases:
  assumes services: "spending_services env"
    and scope: "ss_scope s = Some sc" "sees sc (rn_organizationId run)"
    and run: "reserve env run rt req n s = Inr (r, s')"
  obtains (known) u where
      "find (\<lambda>u. us_id u = rr_reservationId req \<and> us_organizationId u = rn_organizationId run) (sp_reservations s) = Some u"
      "us_requestHash u = se_digest env (reservation_json req)"
      "r = ReservationAllowed (rr_reservationId req) (us_maxOutputTokens u)" "s' = s"
  | (denied) reason where "r = ReservationDenied (rr_reservationId req) reason" "ledger_same s s'"
  | (granted) t g where
      "find (\<lambda>u. us_id u = rr_reservationId req \<and> us_organizationId u = rn_organizationId run) (sp_reservations s) = None"
      "cost_limited (budget_at s (rn_organizationId run)) \<Longrightarrow>
         map_option pz_currency (price_at s (rn_organizationId run) (rr_provider req) (rr_model req)) =
         Some (bg_currency (budget_at s (rn_organizationId run)))"
      "g = granted_output (rr_maxOutputTokens req) (fits_at s run req n)" "\<not> refused_output req (fits_at s run req n)"
      "r = ReservationAllowed (rr_reservationId req) g"
      "usage_checks s (requested_usage env s run rt req g n) = None"
      "t = sp_reservations_update (\<lambda>us. us @ [requested_usage env s run rt req g n]) s"
      "checkAlerts env (rn_organizationId run) rt (periodOf n) (budget_at s (rn_organizationId run)) n t = Inr ((), s')"
      "ledger_same t s'"
proof -
  let ?org = "rn_organizationId run" and ?h = "se_digest env (reservation_json req)"
  let ?b = "budget_at s ?org" and ?p = "price_at s ?org (rr_provider req) (rr_model req)"
  let ?row = "find (\<lambda>u. us_id u = rr_reservationId req \<and> us_organizationId u = ?org) (sp_reservations s)"
  from run have step: "(case ?row of
        Some u \<Rightarrow> andThen (demand (us_requestHash u = ?h) (Refused 409 ''MODEL_RESERVATION_CONFLICT'')) (\<lambda>_.
            ret (ReservationAllowed (rr_reservationId req) (us_maxOutputTokens u)))
      | None \<Rightarrow> new_reservation env run rt req ?h n) s = Inr (r, s')"
    unfolding reserve_def Let_def andThen_Inr usage_row_of_Inr [OF scope] by blast
  show ?thesis
  proof (cases ?row)
    case (Some u)
    with step show ?thesis by (intro known [of u]) (auto simp: andThen_Inr)
  next
    case None
    with step have new: "(if cost_limited ?b \<and> map_option pz_currency ?p \<noteq> Some (bg_currency ?b)
        then deny_reservation run rt req (periodOf n) None None
        else decide_limits env run rt req ?h n ?b ?p) s = Inr (r, s')"
      unfolding new_reservation_def Let_def
      by (simp add: andThen_Inr budget_of_Inr [OF scope] current_price_Inr [OF scope])
    show ?thesis
    proof (cases "cost_limited ?b \<and> map_option pz_currency ?p \<noteq> Some (bg_currency ?b)")
      case True
      with new have deny: "deny_reservation run rt req (periodOf n) None None s = Inr (r, s')" by simp
      then have "r = ReservationDenied (rr_reservationId req) (REASONS None)"
        by (auto simp: deny_reservation_def andThen_Inr)
      then show ?thesis
        using relatesD [OF alerting.deny_R [OF services_ledger [OF services]] deny] by (rule denied)
    next
      case False
      from new have limits: "decide_limits env run rt req ?h n ?b ?p s = Inr (r, s')"
        unfolding if_not_P [OF False] .
      from services scope this show ?thesis
      proof (cases rule: decide_limits_cases)
        case (denied f)
        then show ?thesis by (intro that(2))
      next
        case (granted t)
        note facts = granted [folded fits_at_def requested_usage_def]
        show ?thesis
          by (rule that(3) [OF None _ refl facts(1,2,3,4,5,6)]) (use False in blast)
      qed
    qed
  qed
qed

section \<open>No granted call exceeds a limit\<close>

definition within :: "int option \<Rightarrow> int \<Rightarrow> bool" where
  "within cap used \<longleftrightarrow> (case cap of None \<Rightarrow> True | Some c \<Rightarrow> used \<le> c)"

lemma granted_output_le:
  assumes "f \<in> set fits"
  shows "Bounded (granted_output m fits) \<le> ft_output f"
proof (cases "sort_key ft_output fits")
  case Nil
  then have "fits = []" by (metis length_sort length_0_conv)
  with assms show ?thesis by simp
next
  case (Cons g gs)
  have "sorted (map ft_output (g # gs))" and "f \<in> set (g # gs)"
    using assms sorted_sort_key [of ft_output fits] set_sort [of ft_output fits] by (simp_all add: Cons)
  then have "ft_output g \<le> ft_output f" by auto
  moreover have "Bounded (granted_output m fits) \<le> ft_output g"
    by (cases "ft_output g") (simp_all add: granted_output_def tightest_def Cons)
  ultimately show ?thesis by order
qed

lemma granted_output_max: "granted_output m fits \<le> m"
  by (auto simp: granted_output_def split: option.splits quantity.splits)

lemma total_append [simp]: "total f (us @ [u]) = total f us + f u"
  by (simp add: total_def)

lemma fresh_charges [simp]:
  "charged_tokens (usage_of run rt req h per p g n) = rr_estimatedInputTokens req + g"
  "charged_cost (usage_of run rt req h per p g n) =
     (case p of None \<Rightarrow> 0 | Some pz \<Rightarrow> costMicros pz (rr_estimatedInputTokens req) g)"
  by (simp_all add: charged_tokens_def charged_cost_def usage_of_def amount_def split: option.split)

lemma charged_grows:
  assumes "ledger_same (sp_reservations_update (\<lambda>us. us @ [u]) s) s'" "us_organizationId u = org" "P u"
  shows "charged_at s' org P =
    (fst (charged_at s org P) + charged_tokens u, snd (charged_at s org P) + charged_cost u)"
  using assms by (simp add: ledger_same_def charged_at_def usages_at_def)

lemma price_at_row:
  assumes "price_at s org provider model = Some pz"
  obtains p where "p \<in> set (sp_prices s)" "pz = price_of_row p" "mp_organizationId p = org" "mp_inputMicros p \<noteq> None"
proof -
  let ?ps = "filter (\<lambda>p. mp_organizationId p = org \<and> mp_provider p = provider \<and> mp_model p = model) (sp_prices s)"
  from assms obtain p ps where p: "rev ?ps = p # ps" "pz = price_of_row p" "mp_inputMicros p \<noteq> None"
    by (cases "rev ?ps") (auto simp: price_at_def split: if_splits)
  have "p \<in> set (rev ?ps)" unfolding p(1) by simp
  then have "p \<in> set ?ps" by (simp only: set_rev)
  then have "p \<in> set (sp_prices s)" "mp_organizationId p = org" by simp_all
  with p(2,3) show ?thesis by (intro that)
qed

lemma price_at_nonneg:
  assumes "spending_sound s" and "price_at s org provider model = Some pz"
  shows "0 \<le> pz_inputMicros pz" "0 \<le> pz_outputMicros pz"
proof -
  from assms(2) obtain p where "p \<in> set (sp_prices s)" "pz = price_of_row p"
    by (rule price_at_row)
  then have "priced (mp_inputMicros p)" "priced (mp_outputMicros p)"
    using assms(1) by (simp_all add: spending_sound_def)
  then show "0 \<le> pz_inputMicros pz" "0 \<le> pz_outputMicros pz"
    by (simp_all add: \<open>pz = price_of_row p\<close> price_of_row_def priced_def split: option.splits)
qed

text \<open>What a limit that was considered leaves for the output that was granted.\<close>

lemma tokens_fit:
  assumes "set (token_fit scp cap used est) \<subseteq> set (fits_at s run req n)"
    and "\<And>f. f \<in> set (fits_at s run req n) \<Longrightarrow> Bounded g \<le> ft_output f"
  shows "within cap (used + (est + g))"
  using assms by (fastforce simp: token_fit_def within_def split: option.splits)

lemma cost_fits:
  assumes sound: "spending_sound s" and priced: "cap \<noteq> None \<Longrightarrow> price_at s org pr md \<noteq> None"
    and fit: "set (cost_fit scp cap used est (price_at s org pr md)) \<subseteq> set (fits_at s run req n)"
    and bound: "\<And>f. f \<in> set (fits_at s run req n) \<Longrightarrow> Bounded g \<le> ft_output f"
    and asked: "0 \<le> est" "0 \<le> g"
  shows "within cap (used + (case price_at s org pr md of None \<Rightarrow> 0 | Some pz \<Rightarrow> costMicros pz est g))"
proof (cases cap)
  case (Some c)
  with priced obtain pz where pz: "price_at s org pr md = Some pz" by auto
  with fit Some have "Bounded g \<le> maxOutputWithin pz (c - used) est"
    using bound by (fastforce simp: cost_fit_def)
  then have "costMicros pz est g \<le> c - used"
    using maxOutputWithin_le price_at_nonneg [OF sound pz] asked by blast
  with Some pz show ?thesis by (simp add: within_def)
qed (simp add: within_def)

text \<open>
  C20. No granted call exceeds a limit. When a call is newly granted, its reservation is recorded and
  what is then charged, counting reservations at their full size, is within the organization's
  monthly token and cost limits and the run's: whatever was charged before, and exactly to the
  last micro. The grant is never more than was asked for and never uselessly small.
\<close>

theorem reservations_fit_every_limit:
  assumes services: "spending_services env" and sound: "spending_sound s"
    and scope: "ss_scope s = Some sc" "sees sc (rn_organizationId run)"
    and reserved: "reserve env run rt req n s = Inr (ReservationAllowed i g, s')"
    and new: "\<not> (\<exists>u \<in> set (sp_reservations s). us_id u = rr_reservationId req \<and> us_organizationId u = rn_organizationId run)"
    and asked: "0 \<le> rr_estimatedInputTokens req" "1 \<le> rr_maxOutputTokens req"
  shows "(\<exists>u. sp_reservations s' = sp_reservations s @ [u] \<and> us_id u = i \<and> us_runId u = rn_id run \<and> us_maxOutputTokens u = g) \<and>
    min MIN_OUTPUT_TOKENS (rr_maxOutputTokens req) \<le> g \<and> g \<le> rr_maxOutputTokens req \<and>
    within (bg_monthlyTokenLimit (budget_at s' (rn_organizationId run)))
      (fst (charged_at s' (rn_organizationId run) (\<lambda>u. us_period u = periodOf n))) \<and>
    within (bg_runTokenLimit (budget_at s' (rn_organizationId run)))
      (fst (charged_at s' (rn_organizationId run) (\<lambda>u. us_runId u = rn_id run))) \<and>
    within (bg_monthlyCostLimitMicros (budget_at s' (rn_organizationId run)))
      (snd (charged_at s' (rn_organizationId run) (\<lambda>u. us_period u = periodOf n))) \<and>
    within (bg_runCostLimitMicros (budget_at s' (rn_organizationId run)))
      (snd (charged_at s' (rn_organizationId run) (\<lambda>u. us_runId u = rn_id run)))"
  using services scope reserved
proof (cases rule: reserve_cases)
  case (known u)
  with new show ?thesis using find_Some_set [OF known(1)] by auto
next
  case (denied reason)
  then show ?thesis by simp
next
  case (granted t g')
  let ?org = "rn_organizationId run" and ?u = "requested_usage env s run rt req g n"
  let ?p = "price_at s ?org (rr_provider req) (rr_model req)" and ?est = "rr_estimatedInputTokens req"
  have g: "g' = g" "i = rr_reservationId req" using granted(5) by simp_all
  note same = granted(9) [unfolded granted(7) g]
  have budget: "budget_at s' ?org = budget_at s ?org"
    using same by (simp add: ledger_same_def budget_at_def)
  have row: "us_organizationId ?u = ?org" "us_period ?u = periodOf n" "us_runId ?u = rn_id run"
    "us_id ?u = rr_reservationId req" "us_maxOutputTokens ?u = g"
    by (simp_all add: requested_usage_def usage_of_def)
  have charges: "charged_tokens ?u = ?est + g"
    "charged_cost ?u = (case ?p of None \<Rightarrow> 0 | Some pz \<Rightarrow> costMicros pz ?est g)"
    by (simp_all add: requested_usage_def)
  have month: "charged_at s' ?org (\<lambda>u. us_period u = periodOf n) =
      (fst (charged_at s ?org (\<lambda>u. us_period u = periodOf n)) + charged_tokens ?u,
       snd (charged_at s ?org (\<lambda>u. us_period u = periodOf n)) + charged_cost ?u)"
    by (rule charged_grows [OF same row(1)]) (rule row(2))
  have own: "charged_at s' ?org (\<lambda>u. us_runId u = rn_id run) =
      (fst (charged_at s ?org (\<lambda>u. us_runId u = rn_id run)) + charged_tokens ?u,
       snd (charged_at s ?org (\<lambda>u. us_runId u = rn_id run)) + charged_cost ?u)"
    by (rule charged_grows [OF same row(1)]) (rule row(3))
  have bound: "Bounded g \<le> ft_output f" if "f \<in> set (fits_at s run req n)" for f
    using granted_output_le [OF that] granted(3) g by simp
  have least: "min MIN_OUTPUT_TOKENS (rr_maxOutputTokens req) \<le> g" "g \<le> rr_maxOutputTokens req"
    using granted(3,4) g granted_output_max by (auto simp: refused_output_def)
  then have pos: "0 \<le> g" using asked(2) by (simp add: MIN_OUTPUT_TOKENS_def)
  have tokens: "within cap (used + (?est + g))"
    if "set (token_fit scp cap used ?est) \<subseteq> set (fits_at s run req n)" for scp cap used
    by (rule tokens_fit [OF that bound])
  have cost: "within cap (used + charged_cost ?u)"
    if "set (cost_fit scp cap used ?est ?p) \<subseteq> set (fits_at s run req n)"
      and "cap \<noteq> None \<Longrightarrow> cost_limited (budget_at s ?org)" for scp cap used
    unfolding charges by (rule cost_fits [OF sound _ that(1) bound asked(1) pos]) (use granted(2) that(2) in auto)
  have members:
    "set (token_fit LimitMONTHLY (bg_monthlyTokenLimit (budget_at s ?org)) (fst (charged_at s ?org (\<lambda>u. us_period u = periodOf n))) ?est) \<subseteq> set (fits_at s run req n)"
    "set (token_fit LimitRUN (bg_runTokenLimit (budget_at s ?org)) (fst (charged_at s ?org (\<lambda>u. us_runId u = rn_id run))) ?est) \<subseteq> set (fits_at s run req n)"
    "set (cost_fit LimitMONTHLY_COST (bg_monthlyCostLimitMicros (budget_at s ?org)) (snd (charged_at s ?org (\<lambda>u. us_period u = periodOf n))) ?est ?p) \<subseteq> set (fits_at s run req n)"
    "set (cost_fit LimitRUN_COST (bg_runCostLimitMicros (budget_at s ?org)) (snd (charged_at s ?org (\<lambda>u. us_runId u = rn_id run))) ?est ?p) \<subseteq> set (fits_at s run req n)"
    by (auto simp: fits_at_def fits_of_def)
  have recorded: "sp_reservations s' = sp_reservations s @ [?u]"
    using same by (simp add: ledger_same_def)
  show ?thesis
    unfolding budget month own fst_conv snd_conv charges(1)
    using least recorded row g tokens [OF members(1)] tokens [OF members(2)]
      cost [OF members(3)] cost [OF members(4)]
    by (auto simp: cost_limited_def)
qed

end
