(* ===== verification/SpendingBehaviour.thy ===== *)
theory SpendingBehaviour
  imports SpendingProperties
begin

text \<open>
  Model spending over time: sequences of operations (\<open>spending_step\<close>), what a settlement found and
  did (\<open>settle_cases\<close>), and the theorems about retries, prices, currencies and alerts.
\<close>

section \<open>Sequences of operations\<close>

text \<open>
  One operation of the service, each its own transaction; \<open>other\<close> is any operation of another
  component, which leaves the spending tables alone.
\<close>

inductive spending_step :: "'z spending_env \<Rightarrow> 'z spending_db_scheme \<Rightarrow> 'z spending_db_scheme \<Rightarrow> bool"
  for env where
  reserved: "tenant (rn_organizationId run) (reserve env run rt req n) s = Inr (r, s') \<Longrightarrow> spending_step env s s'"
| settled: "tenant org (settle env org rt sreq n) s = Inr (u, s') \<Longrightarrow> spending_step env s s'"
| budget_set: "setBudget env a raw s = Inr (b, s') \<Longrightarrow> spending_step env s s'"
| price_set: "set_price (se_uuid env) a raw s = Inr (p, s') \<Longrightarrow> spending_step env s s'"
| price_removed: "remove_price (se_uuid env) a raw s = Inr (u, s') \<Longrightarrow> spending_step env s s'"
| acknowledged: "acknowledge_alert env a i s = Inr (al, s') \<Longrightarrow> spending_step env s s'"
| other: "spending_tables s s' \<Longrightarrow> spending_step env s s'"

inductive_cases spending_stepE: "spending_step env s s'"

abbreviation spending_steps :: "'z spending_env \<Rightarrow> 'z spending_db_scheme \<Rightarrow> 'z spending_db_scheme \<Rightarrow> bool" where
  "spending_steps env \<equiv> (spending_step env)\<^sup>*\<^sup>*"

lemma spending_step_history:
  assumes services: "spending_services env" and "spending_step env s s'"
  shows "spending_history s s'"
proof -
  note ev = services_spending_history [OF services]
  note bound = spending_kept.tenant_R [OF spending_evolution.reserve_R [OF ev]]
    spending_kept.tenant_R [OF spending_evolution.settle_R [OF ev]]
    spending_evolution.setBudget_R [OF ev] spending_evolution.price_changes_R [OF ev]
    spending_evolution.acknowledge_R [OF ev]
  from assms(2) show ?thesis
    by cases (auto intro: spending_tables_history dest: bound [THEN relatesD])
qed

lemma spending_steps_history:
  assumes "spending_services env" and "spending_steps env s t"
  shows "spending_history s t"
  using assms(2)
  by induction (auto intro: spending_history_trans spending_step_history [OF assms(1)])

section \<open>What a settlement found and did\<close>

lemma settle_cases:
  assumes services: "spending_services env" and scope: "ss_scope s = Some sc" "sees sc org"
    and run: "settle env org rt req n s = Inr (u', s')"
  obtains (repeated) u where
      "find (\<lambda>u. us_id u = sm_reservationId req \<and> us_organizationId u = org) (sp_reservations s) = Some u"
      "us_status u = SETTLED" "s' = s"
  | (first) u p t where
      "find (\<lambda>u. us_id u = sm_reservationId req \<and> us_organizationId u = org) (sp_reservations s) = Some u"
      "us_runId u = co_runId (sm_correlation req)" "us_runtimeId u = rt" "us_status u = RESERVED"
      "case us_priceId u of None \<Rightarrow> p = None
        | Some i \<Rightarrow> \<exists>r. find (\<lambda>p. mp_organizationId p = org \<and> mp_id p = i) (sp_prices s) = Some r \<and> p = Some (price_of_row r)"
      "t = sp_reservations_update (update_where (\<lambda>q. us_id q = sm_reservationId req \<and> us_organizationId q = org \<and>
          us_status q = RESERVED) (settled_row req p n)) s"
      "checkAlerts env org rt (us_period u) (budget_at t org) n t = Inr ((), s')" "ledger_same t s'"
proof -
  let ?row = "find (\<lambda>u. us_id u = sm_reservationId req \<and> us_organizationId u = org) (sp_reservations s)"
  from run obtain u where row: "?row = Some u" "us_runId u = co_runId (sm_correlation req)" "us_runtimeId u = rt"
    and rest: "(if us_status u = SETTLED
         then demand (us_inputTokens u = Some (sm_inputTokens req) \<and> us_outputTokens u = Some (sm_outputTokens req))
                (Refused 409 ''MODEL_RESERVATION_SETTLED'')
         else
           andThen (reserved_price org u) (\<lambda>p.
           andThen (update_rows sp_reservations sp_reservations_update us_organizationId usage_update_checks
              (\<lambda>q. us_id q = sm_reservationId req \<and> us_organizationId q = org \<and> us_status q = RESERVED)
              (settled_row req p n)) (\<lambda>_.
           andThen (budget_of org) (\<lambda>budget.
           checkAlerts env org rt (us_period u) budget n)))) s = Inr (u', s')"
    unfolding settle_def andThen_Inr usage_row_of_Inr [OF scope] by (auto simp: found_Inr)
  show ?thesis
  proof (cases "us_status u = SETTLED")
    case True
    with rest row show ?thesis by (intro repeated) auto
  next
    case False
    with rest obtain p k t where price: "reserved_price org u s = Inr (p, s)"
      and upd: "update_rows sp_reservations sp_reservations_update us_organizationId usage_update_checks
          (\<lambda>q. us_id q = sm_reservationId req \<and> us_organizationId q = org \<and> us_status q = RESERVED)
          (settled_row req p n) s = Inr (k, t)"
      and more: "andThen (budget_of org) (\<lambda>budget. checkAlerts env org rt (us_period u) budget n) t = Inr ((), s')"
      by (auto simp: andThen_Inr reserved_price_Inr [OF scope])
    from upd have t: "t = sp_reservations_update (update_where (\<lambda>q. us_id q = sm_reservationId req \<and>
        us_organizationId q = org \<and> us_status q = RESERVED) (settled_row req p n)) s"
      using scope(1) by (auto simp: usages.update_Inr update_where_def scope(2) intro!: arg_cong2 [where f = sp_reservations_update])
    then have "ss_scope t = Some sc" using scope(1) by simp
    with more have check: "checkAlerts env org rt (us_period u) (budget_at t org) n t = Inr ((), s')"
      by (auto simp: andThen_Inr budget_of_Inr [OF _ scope(2)])
    have "us_status u = RESERVED" using False by (cases "us_status u") auto
    moreover have "case us_priceId u of None \<Rightarrow> p = None
        | Some i \<Rightarrow> \<exists>r. find (\<lambda>p. mp_organizationId p = org \<and> mp_id p = i) (sp_prices s) = Some r \<and> p = Some (price_of_row r)"
      using price by (simp add: reserved_price_Inr [OF scope])
    ultimately show ?thesis
      using row t check relatesD [OF alerting.checkAlerts_R [OF services_ledger [OF services]] check]
      by (intro first)
  qed
qed

section \<open>Retries\<close>

lemma tenant_scope:
  assumes "tenant org m s = Inr (x, s')"
  obtains sc t where "sees sc org" "m (s\<lparr>ss_scope := Some sc\<rparr>) = Inr (x, t)" "spending_tables t s'"
  using assms by (rule tenant_run) (auto intro: that)

lemma find_unique_key:
  assumes "distinct (map k xs)" "x \<in> set xs" "P x" and "\<And>y. P y \<Longrightarrow> k y = k x"
  shows "find P xs = Some x"
proof (cases "find P xs")
  case None
  with assms(2,3) show ?thesis unfolding find_None_iff by blast
next
  case (Some y)
  note y = find_Some_set [OF this]
  have "y = x" by (rule unique_key [OF assms(1) _ assms(2)]) (use y assms(4) in auto)
  with Some show ?thesis by simp
qed

text \<open>A granted reservation is in the table, with the request's hash and the amount granted.\<close>

lemma reservation_recorded:
  assumes services: "spending_services env"
    and reserved: "tenant (rn_organizationId run) (reserve env run rt req n) s = Inr (ReservationAllowed i g, s')"
  obtains u where "u \<in> set (sp_reservations s')" "us_id u = rr_reservationId req"
    "us_organizationId u = rn_organizationId run" "us_requestHash u = se_digest env (reservation_json req)"
    "us_maxOutputTokens u = g" "i = rr_reservationId req"
proof -
  from reserved obtain sc t where sc: "sees sc (rn_organizationId run)"
    and run: "reserve env run rt req n (s\<lparr>ss_scope := Some sc\<rparr>) = Inr (ReservationAllowed i g, t)"
    and t: "spending_tables t s'"
    by (rule tenant_scope)
  have "ss_scope (s\<lparr>ss_scope := Some sc\<rparr>) = Some sc" by simp
  from services this sc run show ?thesis
  proof (cases rule: reserve_cases)
    case (known u)
    with find_Some_set [OF known(1)] t show ?thesis
      by (intro that [of u]) (auto simp: spending_tables_def)
  next
    case (denied reason)
    then show ?thesis by simp
  next
    case (granted t' g')
    then have "sp_reservations s' = sp_reservations s @ [requested_usage env (s\<lparr>ss_scope := Some sc\<rparr>) run rt req g n]"
      using t by (simp add: ledger_same_def spending_tables_def)
    with granted(5) show ?thesis
      by (intro that [of "requested_usage env (s\<lparr>ss_scope := Some sc\<rparr>) run rt req g n"])
         (simp_all add: requested_usage_def usage_of_def)
  qed
qed

text \<open>
  A retried reservation is harmless. Once a call was granted, the same request is answered with
  the same grant at any later time, after any other operations, and changes nothing.
\<close>

theorem reservations_are_idempotent:
  assumes services: "spending_services env" and sound: "spending_sound s"
    and reserved: "tenant (rn_organizationId run) (reserve env run rt req n) s = Inr (ReservationAllowed i g, s')"
    and later: "spending_steps env s' t" "ss_scope t = None"
    and again: "rn_organizationId run' = rn_organizationId run"
  shows "tenant (rn_organizationId run') (reserve env run' rt' req n') t = Inr (ReservationAllowed i g, t)"
proof -
  let ?org = "rn_organizationId run"
  from services reserved obtain u where u: "u \<in> set (sp_reservations s')" "us_id u = rr_reservationId req"
    "us_organizationId u = ?org" "us_requestHash u = se_digest env (reservation_json req)"
    "us_maxOutputTokens u = g" "i = rr_reservationId req"
    by (rule reservation_recorded)
  have history: "spending_history s s'" "spending_history s' t"
    using spending_step_history [OF services spending_step.reserved [OF reserved]]
      spending_steps_history [OF services later(1)] .
  then have "spending_sound t" and "grows usage_evolves (sp_reservations s') (sp_reservations t)"
    using sound by (simp_all add: spending_history_def spending_kept_def)
  then obtain v where v: "v \<in> set (sp_reservations t)" "usage_evolves u v"
    and distinct: "distinct (map us_id (sp_reservations t))"
    using grows_in u(1) by (metis spending_sound_def)
  then have same: "us_id v = rr_reservationId req" "us_organizationId v = ?org"
    "us_requestHash v = se_digest env (reservation_json req)" "us_maxOutputTokens v = g"
    using u by (simp_all add: usage_evolves_def same_reservation_def)
  have "find (\<lambda>u. us_id u = rr_reservationId req \<and> us_organizationId u = ?org) (sp_reservations t) = Some v"
    by (rule find_unique_key [OF distinct v(1)]) (simp_all add: same)
  then have "usage_row_of ?org (rr_reservationId req) (t\<lparr>ss_scope := Some (Tenant ?org)\<rparr>) =
      Inr (Some v, t\<lparr>ss_scope := Some (Tenant ?org)\<rparr>)"
    by (subst usage_row_of_Inr [where sc = "Tenant ?org"]) simp_all
  then have "reserve env run' rt' req n' (t\<lparr>ss_scope := Some (Tenant ?org)\<rparr>) =
      Inr (ReservationAllowed i g, t\<lparr>ss_scope := Some (Tenant ?org)\<rparr>)"
    by (simp add: reserve_def Let_def again andThen_known same demand_def ret_def u(6))
  moreover have "?org \<noteq> []" using reserved by (auto simp: tenant_def)
  moreover have "t\<lparr>ss_scope := None\<rparr> = t" using later(2) by simp
  ultimately show ?thesis
    using later(2) by (simp add: tenant_Inr again)
qed

section \<open>Settlement at the price reserved under\<close>

text \<open>A newly granted reservation records the price it was made at, and that price is found again later.\<close>

lemma granted_at_price:
  assumes services: "spending_services env"
    and reserved: "tenant (rn_organizationId run) (reserve env run rt req n) s = Inr (ReservationAllowed i g, s')"
    and new: "\<not> (\<exists>u \<in> set (sp_reservations s). us_id u = rr_reservationId req \<and> us_organizationId u = rn_organizationId run)"
  obtains u where "u \<in> set (sp_reservations s')" "us_id u = i" "us_organizationId u = rn_organizationId run"
    "us_priceId u = map_option pz_id (price_at s (rn_organizationId run) (rr_provider req) (rr_model req))"
proof -
  from reserved obtain sc w where sc: "sees sc (rn_organizationId run)"
    and run: "reserve env run rt req n (s\<lparr>ss_scope := Some sc\<rparr>) = Inr (ReservationAllowed i g, w)"
    and w: "spending_tables w s'"
    by (rule tenant_scope)
  have scope: "ss_scope (s\<lparr>ss_scope := Some sc\<rparr>) = Some sc" by simp
  from services scope sc run show thesis
  proof (cases rule: reserve_cases)
    case (known u)
    with new find_Some_set [OF known(1)] show thesis by auto
  next
    case (denied reason)
    then show thesis by simp
  next
    case (granted t' g')
    let ?u = "requested_usage env (s\<lparr>ss_scope := Some sc\<rparr>) run rt req g n"
    have "sp_reservations s' = sp_reservations s @ [?u]"
      using granted w by (simp add: ledger_same_def spending_tables_def)
    then show thesis
      using granted(5) by (intro that [of ?u]) (simp_all add: requested_usage_def usage_of_def price_at_def)
  qed
qed

lemma price_found_again:
  assumes later: "prefix (sp_prices s) (sp_prices t)" and keys: "distinct (map mp_id (sp_prices t))"
    and found: "case map_option pz_id (price_at s org pr md) of None \<Rightarrow> p = None
      | Some i \<Rightarrow> \<exists>r. find (\<lambda>p. mp_organizationId p = org \<and> mp_id p = i) (sp_prices t) = Some r \<and> p = Some (price_of_row r)"
  shows "p = price_at s org pr md"
proof (cases "price_at s org pr md")
  case (Some pz)
  then obtain r where r: "r \<in> set (sp_prices s)" "pz = price_of_row r" "mp_organizationId r = org"
    by (rule price_at_row)
  then have "r \<in> set (sp_prices t)" using later set_mono_prefix by blast
  then have "find (\<lambda>p. mp_organizationId p = org \<and> mp_id p = pz_id pz) (sp_prices t) = Some r"
    by (rule find_unique_key [OF keys]) (simp_all add: r price_of_row_def)
  with found Some r(2) show ?thesis by simp
next
  case None
  with found show ?thesis by simp
qed

text \<open>
  C21. A call costs what it was reserved at. Whatever happened to the price book or the budget in
  between, the first settlement of a granted call records the reported usage and, when the call
  was made at a price, exactly that usage's cost at the price current when it was reserved.
\<close>

theorem settlements_keep_the_price:
  assumes services: "spending_services env" and sound: "spending_sound s"
    and reserved: "tenant (rn_organizationId run) (reserve env run rt req n) s = Inr (ReservationAllowed i g, s')"
    and new: "\<not> (\<exists>u \<in> set (sp_reservations s). us_id u = rr_reservationId req \<and> us_organizationId u = rn_organizationId run)"
    and later: "spending_steps env s' t"
    and unsettled: "\<exists>u \<in> set (sp_reservations t). us_id u = i \<and> us_status u = RESERVED"
    and settled: "tenant (rn_organizationId run) (settle env (rn_organizationId run) rt' sreq m) t = Inr (x, t')"
    and same: "sm_reservationId sreq = i"
  shows "\<exists>u \<in> set (sp_reservations t'). us_id u = i \<and> us_status u = SETTLED \<and>
    us_inputTokens u = Some (sm_inputTokens sreq) \<and> us_outputTokens u = Some (sm_outputTokens sreq) \<and>
    us_cost u = map_option (\<lambda>pz. costMicros pz (sm_inputTokens sreq) (sm_outputTokens sreq))
      (price_at s (rn_organizationId run) (rr_provider req) (rr_model req))"
proof -
  let ?org = "rn_organizationId run"
  let ?p = "price_at s ?org (rr_provider req) (rr_model req)"
  have history: "spending_history s s'" "spending_history s' t"
    using spending_step_history [OF services spending_step.reserved [OF reserved]]
      spending_steps_history [OF services later] .
  then have sound': "spending_sound t"
    and kept: "prefix (sp_prices s) (sp_prices t)" "grows usage_evolves (sp_reservations s') (sp_reservations t)"
    using sound by (auto simp: spending_history_def spending_kept_def intro: prefix_order.trans)
  obtain u where u: "u \<in> set (sp_reservations s')" "us_id u = i" "us_organizationId u = ?org"
    "us_priceId u = map_option pz_id ?p"
    by (rule granted_at_price [OF services reserved new])
  with kept(2) obtain v where v: "v \<in> set (sp_reservations t)" "usage_evolves u v" by (blast dest: grows_in)
  then have v': "us_id v = i" "us_organizationId v = ?org" "us_priceId v = map_option pz_id ?p"
    using u by (simp_all add: usage_evolves_def same_reservation_def)
  have keys: "distinct (map us_id (sp_reservations t))" "distinct (map mp_id (sp_prices t))"
    using sound' by (simp_all add: spending_sound_def)
  have open_row: "us_status v = RESERVED"
    using unsettled v v' unique_key [OF keys(1)] by metis
  from settled obtain sc' w' where sc': "sees sc' ?org"
    and settle: "settle env ?org rt' sreq m (t\<lparr>ss_scope := Some sc'\<rparr>) = Inr (x, w')"
    and w': "spending_tables w' t'"
    by (rule tenant_scope)
  have scope': "ss_scope (t\<lparr>ss_scope := Some sc'\<rparr>) = Some sc'" by simp
  have found: "find (\<lambda>u. us_id u = sm_reservationId sreq \<and> us_organizationId u = ?org) (sp_reservations t) = Some v"
    by (rule find_unique_key [OF keys(1) v(1)]) (simp_all add: v' same)
  from services scope' sc' settle show ?thesis
  proof (cases rule: settle_cases)
    case (repeated q)
    with found open_row show ?thesis by simp
  next
    case (first q p z)
    then have q: "q = v" using found by simp
    have p: "p = ?p"
      by (rule price_found_again [OF kept(1) keys(2)]) (use first(5) q v' in \<open>cases ?p; simp\<close>)
    have "settled_row sreq p m v \<in> set (sp_reservations t')"
      using first(6,8) w' v v' open_row
      by (auto simp: ledger_same_def spending_tables_def set_update_where same image_iff)
    then show ?thesis
      by (rule rev_bexI) (simp add: settled_row_def v' p)
  qed
qed

end
