(* ===== verification/SpendingInvariants.thy ===== *)
theory SpendingInvariants
  imports SpendingBehaviour
begin

text \<open>
  Two facts about every state model spending reaches: all money of an organization is in one
  currency, and every reached threshold has its one alert.
\<close>

section \<open>Currencies\<close>

definition currency_sound :: "'z spending_db_scheme \<Rightarrow> bool" where
  "currency_sound s \<longleftrightarrow>
     (\<forall>p \<in> set (sp_prices s). mp_currency p = bg_currency (budget_at s (mp_organizationId p))) \<and>
     (\<forall>u \<in> set (sp_reservations s). us_priceId u \<noteq> None \<longrightarrow>
        us_currency u = Some (bg_currency (budget_at s (us_organizationId u))))"

definition money_kept :: "'z spending_db_scheme \<Rightarrow> 'z spending_db_scheme \<Rightarrow> bool" where
  "money_kept s s' \<longleftrightarrow> spending_history s s' \<and> (spending_sound s \<and> currency_sound s \<longrightarrow> currency_sound s')"

lemma money_kept_refl [simp]: "money_kept s s"
  by (simp add: money_kept_def)

lemma money_kept_trans: "money_kept s t \<Longrightarrow> money_kept t u \<Longrightarrow> money_kept s u"
  by (auto simp: money_kept_def spending_history_def intro: spending_kept_trans)

lemma budget_at_same: "sp_budgets s' = sp_budgets s \<Longrightarrow> budget_at s' = budget_at s"
  by (simp add: budget_at_def fun_eq_iff)

lemma money_kept_tables:
  assumes "spending_tables s s'"
  shows "money_kept s s'"
proof -
  have "budget_at s' = budget_at s" by (rule budget_at_same) (use assms in \<open>simp add: spending_tables_def\<close>)
  moreover have "sp_prices s' = sp_prices s" "sp_reservations s' = sp_reservations s"
    using assms by (simp_all add: spending_tables_def)
  ultimately show ?thesis
    using spending_tables_history [OF assms] by (simp add: money_kept_def currency_sound_def)
qed

lemma money_kept_scope: "money_kept (s\<lparr>ss_scope := a\<rparr>) s' \<Longrightarrow> money_kept s (s'\<lparr>ss_scope := b\<rparr>)"
  by (rule money_kept_trans [OF money_kept_tables money_kept_trans [OF _ money_kept_tables]])
     (simp_all add: spending_tables_def)

interpretation money_time: evolution money_kept
  by unfold_locales (simp, rule money_kept_trans)

interpretation money: reading money_kept
  by (unfold_locales; (erule money_kept_scope | rule money_kept_tables, simp))

text \<open>A write that leaves budgets and prices alone, and the prices of its reservations.\<close>

lemma money_keptI:
  assumes "relates spending_history m"
    and "\<And>s x s'. m s = Inr (x, s') \<Longrightarrow> sp_budgets s' = sp_budgets s \<and> sp_prices s' = sp_prices s \<and>
      (\<forall>u' \<in> set (sp_reservations s'). \<exists>u \<in> set (sp_reservations s). same_reservation u u')"
  shows "relates money_kept m"
proof (rule relatesI)
  fix s x s'
  assume run: "m s = Inr (x, s')"
  then have same: "budget_at s' = budget_at s" "sp_prices s' = sp_prices s"
    and rows: "\<And>u'. u' \<in> set (sp_reservations s') \<Longrightarrow> \<exists>u \<in> set (sp_reservations s). same_reservation u u'"
    using assms(2) by (auto intro: budget_at_same)
  have "currency_sound s'" if "currency_sound s"
    using that rows unfolding currency_sound_def same same_reservation_def by metis
  with relatesD [OF assms(1) run] show "money_kept s s'" by (simp add: money_kept_def)
qed

lemma same_reservation_refl [simp]: "same_reservation u u"
  by (simp add: same_reservation_def)

lemma money_alert:
  "relates money_kept (insert_unless sp_alerts sp_alerts_update al_organizationId alert_valid alert_checks alert_key a)"
  by (rule money_keptI [OF history_alert]) (force simp: alerts.insert_unless_Inr split: if_splits)

lemma money_statements [bounded]:
  "relates money_kept (update_rows sp_alerts sp_alerts_update al_organizationId alert_update_checks P f)"
  "relates money_kept (insert_row sp_changes_update ce_organizationId change_checks c)"
  by (rule money_keptI [OF history_acknowledge_row], force simp: alerts.update_Inr)
     (rule money_keptI [OF history_change_row], force simp: changes.insert_Inr)

lemma money_settle_row [bounded]:
  "relates money_kept (update_rows sp_reservations sp_reservations_update us_organizationId usage_update_checks P f)"
proof (rule money_keptI [OF history_settle_row])
  fix s n s'
  assume "update_rows sp_reservations sp_reservations_update us_organizationId usage_update_checks P f s = Inr (n, s')"
  then obtain sc where s': "s' = sp_reservations_update
      (update_where (\<lambda>u. sees sc (us_organizationId u) \<and> P u) f) s"
    and ok: "\<And>u. u \<in> set (sp_reservations s) \<Longrightarrow> sees sc (us_organizationId u) \<Longrightarrow> P u \<Longrightarrow>
      usage_update_checks s u (f u) = None"
    by (rule usages.updateE) blast
  have "same_reservation u (if sees sc (us_organizationId u) \<and> P u then f u else u)"
    if "u \<in> set (sp_reservations s)" for u
    using ok [OF that] by (auto simp: usage_update_checks_def split: if_splits)
  then have "\<forall>u' \<in> set (sp_reservations s'). \<exists>u \<in> set (sp_reservations s). same_reservation u u'"
  proof (intro ballI)
    fix u'
    assume rows: "\<And>u. u \<in> set (sp_reservations s) \<Longrightarrow>
        same_reservation u (if sees sc (us_organizationId u) \<and> P u then f u else u)"
      and "u' \<in> set (sp_reservations s')"
    then obtain u where "u \<in> set (sp_reservations s)" "u' = (if sees sc (us_organizationId u) \<and> P u then f u else u)"
      unfolding s' by (auto simp: set_update_where)
    with rows show "\<exists>u \<in> set (sp_reservations s). same_reservation u u'" by metis
  qed
  then show "sp_budgets s' = sp_budgets s \<and> sp_prices s' = sp_prices s \<and>
      (\<forall>u' \<in> set (sp_reservations s'). \<exists>u \<in> set (sp_reservations s). same_reservation u u')"
    by (simp add: s')
qed

lemma services_money:
  assumes "spending_services env"
  shows "alerting money_kept env"
  by (intro alerting.intro money.reading_axioms alerting_axioms.intro money_alert
      spending_services.deliver_within [OF assms])
     (auto simp: spending_apart_def intro: money_kept_tables)

lemma money_reads [bounded]:
  "relates money_kept (latest_price org provider model)" "relates money_kept (alert_row_of org i)"
  "relates money_kept (usage_row_of org i)" "relates money_kept (reserved_price org u)"
  "relates money_kept (budget_of org)" "relates money_kept (recordChange a action rt rid b a' n)"
  "relates money_kept (begin_change org provider model e)"
  unfolding latest_price_def alert_row_of_def usage_row_of_def reserved_price_def budget_of_def
    recordChange_def begin_change_def
  by (intro bounded)+

text \<open>A new price is in the organization's currency; only a visible organization's price is written.\<close>

lemma money_insert_price [bounded]: "relates money_kept (insert_price a provider model amounts old n)"
proof (rule relatesI)
  fix s x s'
  assume run: "insert_price a provider model amounts old n s = Inr (x, s')"
  let ?org = "ac_organizationId a"
  from run obtain c u row where read: "organization_currency ?org u = Inr (c, u)"
    and u: "u = s\<lparr>ss_drawn := Suc (ss_drawn s)\<rparr>"
    and ins: "insert_row sp_prices_update mp_organizationId price_checks row u = Inr ((), s')"
    and row: "mp_organizationId row = ?org" "mp_currency row = c"
    by (auto simp: insert_price_def andThen_Inr organization_currency_def select_one_Inr)
  from ins row obtain sc where sc: "ss_scope u = Some sc" "sees sc ?org"
    and s': "s' = sp_prices_update (\<lambda>ps. ps @ [row]) u"
    by (auto simp: prices.insert_Inr)
  have c: "c = bg_currency (budget_at s ?org)"
    using read unfolding organization_currency_Inr [OF sc] by (simp add: u budget_at_def)
  have "spending_history s u" using u by (simp add: spending_tables_history)
  moreover have "spending_history u s'" by (rule relatesD [OF history_price_row ins])
  moreover have "currency_sound s'" if "currency_sound s"
  proof -
    have "budget_at s' = budget_at s" by (rule budget_at_same) (simp add: s' u)
    with that row c show ?thesis by (simp add: currency_sound_def s' u)
  qed
  ultimately show "money_kept s s'" by (auto simp: money_kept_def intro: spending_history_trans)
qed

lemma money_prices: "relates money_kept (set_price uuid a raw)" "relates money_kept (remove_price uuid a raw)"
  unfolding set_price_def remove_price_def by (intro bounded)+

lemma money_acknowledge: "relates money_kept (acknowledge_alert env a i)"
  unfolding acknowledge_alert_def by (cases i; simp only: json.case; intro bounded)

lemma money_settle:
  assumes "spending_services env"
  shows "relates money_kept (settle env org rt req n)"
  unfolding settle_def by (intro bounded alerting.checkAlerts_R [OF services_money [OF assms]])

lemma find_append: "find P (xs @ ys) = (case find P xs of None \<Rightarrow> find P ys | Some x \<Rightarrow> Some x)"
  by (induction xs) auto

text \<open>
  A budget changes its currency only while the organization has no price, and then no reservation
  of it has one either.
\<close>

lemma stored_budget:
  assumes store: "store_budget a i (budget_at s (ac_organizationId a)) n s = Inr (u, s')"
    and scope: "ss_scope s = Some sc" "sees sc (ac_organizationId a)"
    and version: "bg_version (budget_at s (ac_organizationId a)) = bi_version i"
    and keys: "distinct (map bg_organizationId (sp_budgets s))"
  shows "bg_currency (budget_at s' (ac_organizationId a)) =
      given_or (bi_currency i) (bg_currency (budget_at s (ac_organizationId a)))"
    and "org \<noteq> ac_organizationId a \<Longrightarrow> budget_at s' org = budget_at s org"
    and "sp_prices s' = sp_prices s" "sp_reservations s' = sp_reservations s"
proof -
  let ?org = "ac_organizationId a"
  let ?row = "changed_budget a i (budget_at s ?org) n"
  have row: "bg_organizationId ?row = ?org" "bg_currency ?row = given_or (bi_currency i) (bg_currency (budget_at s ?org))"
    by (simp_all add: changed_budget_def)
  have "bg_currency (budget_at s' ?org) = bg_currency ?row \<and> (org \<noteq> ?org \<longrightarrow> budget_at s' org = budget_at s org) \<and>
      sp_prices s' = sp_prices s \<and> sp_reservations s' = sp_reservations s"
  proof (cases "bg_version (budget_at s ?org) = 0")
    case True
    with store have "insert_row sp_budgets_update bg_organizationId budget_checks ?row s = Inr ((), s')"
      by (simp add: store_budget_def Let_def)
    then have s': "s' = sp_budgets_update (\<lambda>bs. bs @ [?row]) s" and "?org \<notin> bg_organizationId ` set (sp_budgets s)"
      using row by (auto simp: budgets.insert_Inr budget_checks_def split: if_splits)
    then have none: "find (\<lambda>b. bg_organizationId b = ?org) (sp_budgets s) = None"
      unfolding find_None_iff by (metis image_eqI)
    then have "budget_at s' ?org = model_budget.truncate ?row"
      using row by (simp add: budget_at_def s' find_append mapBudget_def)
    moreover have "budget_at s' org = budget_at s org" if "org \<noteq> ?org"
      using that row by (simp add: budget_at_def s' find_append split: option.split)
    ultimately show ?thesis by (simp add: s' model_budget.truncate_def)
  next
    case False
    then obtain b where b: "find (\<lambda>b. bg_organizationId b = ?org) (sp_budgets s) = Some b"
      by (cases "find (\<lambda>b. bg_organizationId b = ?org) (sp_budgets s)") (simp_all add: budget_at_def mapBudget_def)
    define f where "f b = ?row\<lparr>bg_version := bg_version b + 1, bg_organizationId := bg_organizationId b\<rparr>" for b :: budget_row
    have "bg_version b = bi_version i" using version b by (simp add: budget_at_def mapBudget_def model_budget.truncate_def)
    from store False obtain k where "update_rows sp_budgets sp_budgets_update bg_organizationId (\<lambda>s b b'. budget_valid s b')
        (\<lambda>b. bg_organizationId b = ?org \<and> bg_version b = bi_version i) f s = Inr (k, s')"
      unfolding store_budget_def Let_def f_def by (auto simp: andThen_Inr)
    then have s': "s' = sp_budgets_update (update_where (\<lambda>b. bg_organizationId b = ?org \<and> bg_version b = bi_version i) f) s"
      using scope by (auto simp: budgets.update_Inr update_where_def intro!: arg_cong2 [where f = sp_budgets_update])
    have keep: "bg_organizationId (if bg_organizationId b = ?org \<and> bg_version b = bi_version i then f b else b) = bg_organizationId b" for b
      by (simp add: f_def)
    have "find (\<lambda>b. bg_organizationId b = o') (sp_budgets s') =
        map_option (\<lambda>b. if bg_organizationId b = ?org \<and> bg_version b = bi_version i then f b else b)
          (find (\<lambda>b. bg_organizationId b = o') (sp_budgets s))" for o'
      unfolding s' update_where_def by simp (rule find_map_stable, simp add: keep)
    note found = this
    have "budget_at s' ?org = model_budget.truncate (f b)"
      using found [of ?org] b find_Some_set [OF b] \<open>bg_version b = bi_version i\<close> by (simp add: budget_at_def mapBudget_def)
    moreover have "budget_at s' org = budget_at s org" if "org \<noteq> ?org"
    proof (cases "find (\<lambda>b. bg_organizationId b = org) (sp_budgets s)")
      case None
      with found [of org] show ?thesis by (simp add: budget_at_def)
    next
      case (Some q)
      with found [of org] find_Some_set [OF Some] that show ?thesis by (simp add: budget_at_def)
    qed
    ultimately show ?thesis by (simp add: s' model_budget.truncate_def f_def)
  qed
  then show "bg_currency (budget_at s' ?org) = given_or (bi_currency i) (bg_currency (budget_at s ?org))"
    and "org \<noteq> ?org \<Longrightarrow> budget_at s' org = budget_at s org"
    and "sp_prices s' = sp_prices s" "sp_reservations s' = sp_reservations s"
    by (simp_all add: row)
qed

lemma currency_reserve:
  assumes services: "spending_services env"
    and run: "tenant (rn_organizationId run) (reserve env run rt req n) s = Inr (r, s')"
    and sound: "currency_sound s" and sp: "spending_sound s"
  shows "currency_sound s'"
proof -
  let ?org = "rn_organizationId run"
  from run obtain sc t where sc: "sees sc ?org"
    and run: "reserve env run rt req n (s\<lparr>ss_scope := Some sc\<rparr>) = Inr (r, t)" and t: "spending_tables t s'"
    by (rule tenant_scope)
  have "ss_scope (s\<lparr>ss_scope := Some sc\<rparr>) = Some sc" by simp
  from services this sc run show ?thesis
  proof (cases rule: reserve_cases)
    case (known u)
    then have "spending_tables s t" by (simp add: spending_tables_def)
    with t have "money_kept s s'" by (meson money_kept_tables money_kept_trans)
    with sound sp show ?thesis by (simp add: money_kept_def)
  next
    case (denied reason)
    with t have "sp_budgets s' = sp_budgets s" "sp_prices s' = sp_prices s" "sp_reservations s' = sp_reservations s"
      by (simp_all add: ledger_same_def spending_tables_def)
    with sound budget_at_same [of s' s] show ?thesis by (simp add: currency_sound_def)
  next
    case (granted t' g)
    define u where "u = requested_usage env (s\<lparr>ss_scope := Some sc\<rparr>) run rt req g n"
    have res: "sp_reservations s' = sp_reservations s @ [u]" and same: "budget_at s' = budget_at s" "sp_prices s' = sp_prices s"
      using granted(7,9) t by (simp_all add: u_def ledger_same_def spending_tables_def budget_at_def fun_eq_iff)
    have "us_currency u = Some (bg_currency (budget_at s ?org))" if "us_priceId u \<noteq> None"
    proof -
      from that obtain pz where pz: "price_at s ?org (rr_provider req) (rr_model req) = Some pz"
        and cur: "us_currency u = Some (pz_currency pz)"
        by (auto simp: u_def requested_usage_def usage_of_def price_at_def)
      from pz obtain p where "p \<in> set (sp_prices s)" "pz = price_of_row p" "mp_organizationId p = ?org"
        by (rule price_at_row)
      with sound cur show ?thesis by (auto simp: currency_sound_def price_of_row_def)
    qed
    moreover have "us_organizationId u = ?org" by (simp add: u_def requested_usage_def usage_of_def)
    ultimately show ?thesis
      using sound unfolding currency_sound_def same res by auto
  qed
qed

lemma money_update_budget [bounded]: "relates money_kept (update_budget a i)"
proof (rule relatesI)
  fix s x s'
  assume run: "update_budget a i s = Inr (x, s')"
  let ?org = "ac_organizationId a" and ?t = "s\<lparr>ss_reads := Suc (ss_reads s)\<rparr>"
  have bound: "relates spending_history (update_budget a i)"
    unfolding update_budget_def budget_of_def hasPriceHistory_def by (intro bounded history_store_budget)
  note history = relatesD [OF bound run]
  from run obtain before s1 fixed s2 where r1: "budget_of ?org s = Inr (before, s1)"
    and version: "bg_version before = bi_version i"
    and r2: "(if given_or (bi_currency i) (bg_currency before) = bg_currency before then ret False
       else hasPriceHistory ?org) s1 = Inr (fixed, s2)" and free: "\<not> fixed"
    and st: "store_budget a i before (ss_clock s2 (ss_reads s2)) (s2\<lparr>ss_reads := Suc (ss_reads s2)\<rparr>) = Inr ((), s')"
    by (auto simp: update_budget_def andThen_Inr)
  have s1: "s1 = s" using r1 by (auto simp: budget_of_def andThen_Inr select_one_Inr)
  then have s2: "s2 = s" using r2 by (auto simp: hasPriceHistory_def andThen_Inr select_one_Inr split: if_splits)
  note read = r1 [unfolded s1] and store = st [unfolded s2]
  have asked: "given_or (bi_currency i) (bg_currency before) = bg_currency before \<or> hasPriceHistory ?org s = Inr (False, s)"
    using r2 free unfolding s1 s2 by (auto split: if_splits)
  from read obtain sc where scope: "ss_scope s = Some sc" by (auto simp: budget_of_def andThen_Inr select_one_Inr)
  have sees: "sees sc ?org"
  proof (rule ccontr)
    assume unseen: "\<not> sees sc ?org"
    then have "bg_version before = 0"
      using read scope by (auto simp: budget_of_def andThen_Inr select_one_Inr find_None_iff mapBudget_def
          split: option.splits dest: find_Some_set)
    with store unseen scope show False
      by (auto simp: store_budget_def Let_def budgets.insert_Inr changed_budget_def)
  qed
  have before: "before = budget_at ?t ?org"
    using read budget_of_Inr [OF scope sees] by (simp add: budget_at_def)
  have "currency_sound s'" if sound: "spending_sound s" "currency_sound s"
  proof -
    have t: "budget_at ?t = budget_at s" by (rule budget_at_same) simp
    note stored = stored_budget [OF store [unfolded before] _ sees version [unfolded before], simplified, OF scope]
    have keys: "distinct (map bg_organizationId (sp_budgets s))" using sound(1) by (simp add: spending_sound_def)
    have cases: "bg_currency (budget_at s' ?org) = bg_currency (budget_at s ?org) \<or>
        (\<forall>p \<in> set (sp_prices s). mp_organizationId p \<noteq> ?org)"
    proof (cases "given_or (bi_currency i) (bg_currency before) = bg_currency before")
      case True
      with stored(1) [OF keys] show ?thesis by (simp add: before t)
    next
      case False
      with asked scope have "find (\<lambda>p. sees sc (mp_organizationId p) \<and> mp_organizationId p = ?org) (sp_prices s) = None"
        by (auto simp: hasPriceHistory_def andThen_Inr select_one_Inr)
      with sees show ?thesis unfolding seen_rows(2) [OF sees] find_None_iff by blast
    qed
    have other: "budget_at s' org = budget_at s org" if "org \<noteq> ?org" for org
      using stored(2) [OF keys that] by (simp add: t)
    have rows: "sp_prices s' = sp_prices s" "sp_reservations s' = sp_reservations s"
      using stored(3,4) [OF keys] by simp_all
    have own: "bg_currency (budget_at s' org) = bg_currency (budget_at s org)"
      if "\<exists>p \<in> set (sp_prices s). mp_organizationId p = org" for org
      using that cases other by metis
    have priced: "\<exists>p \<in> set (sp_prices s). mp_organizationId p = us_organizationId u"
      if "u \<in> set (sp_reservations s)" "us_priceId u \<noteq> None" for u
      using that sound(1) unfolding spending_sound_def usage_priced_def by fastforce
    show ?thesis
      using sound(2) own priced unfolding currency_sound_def rows by metis
  qed
  with history show "money_kept s s'" by (simp add: money_kept_def)
qed

lemma money_setBudget:
  assumes "spending_services env"
  shows "relates money_kept (setBudget env a raw)"
  unfolding setBudget_def by (intro bounded alerting.checkAlerts_R [OF services_money [OF assms]])

lemma spending_step_money:
  assumes services: "spending_services env" and step: "spending_step env s s'"
  shows "money_kept s s'"
  using step
proof cases
  case (reserved run rt req n r)
  with currency_reserve [OF services this] spending_step_history [OF services step] show ?thesis
    by (auto simp: money_kept_def)
qed (auto intro: money_kept_tables
    dest: relatesD [OF money.tenant_R [OF money_settle [OF services]]] relatesD [OF money_setBudget [OF services]]
      relatesD [OF money_prices(1)] relatesD [OF money_prices(2)] relatesD [OF money_acknowledge])

definition no_spending :: "'z spending_db_scheme \<Rightarrow> bool" where
  "no_spending s \<longleftrightarrow> sp_budgets s = [] \<and> sp_prices s = [] \<and> sp_reservations s = [] \<and> sp_alerts s = []"

text \<open>
  C22. Money never mixes currencies. In every state the service reaches from an empty book, every
  price of an organization, and the cost of every call made at a price, is in the currency of the
  organization's budget, so that limits and totals add up one currency.
\<close>

theorem currencies_never_mix:
  assumes services: "spending_services env" and start: "no_spending s" and steps: "spending_steps env s t"
  shows "(\<forall>p \<in> set (sp_prices t). mp_currency p = bg_currency (budget_at t (mp_organizationId p))) \<and>
    (\<forall>u \<in> set (sp_reservations t). us_priceId u \<noteq> None \<longrightarrow>
       us_currency u = Some (bg_currency (budget_at t (us_organizationId u))))"
proof -
  have "spending_sound s" "currency_sound s"
    using start by (simp_all add: no_spending_def spending_sound_def currency_sound_def)
  moreover from steps have "money_kept s t"
    by induction (auto intro: money_kept_trans spending_step_money [OF services])
  ultimately show ?thesis by (simp add: money_kept_def currency_sound_def)
qed

section \<open>Alerts\<close>

definition alert_limit :: "model_budget \<Rightarrow> alert_scope \<Rightarrow> int option" where
  "alert_limit b sc = (case sc of MONTHLY_TOKENS \<Rightarrow> bg_monthlyTokenLimit b | MONTHLY_COST \<Rightarrow> bg_monthlyCostLimitMicros b)"

definition alert_charge :: "int \<times> int \<Rightarrow> alert_scope \<Rightarrow> int" where
  "alert_charge c sc = (case sc of MONTHLY_TOKENS \<Rightarrow> fst c | MONTHLY_COST \<Rightarrow> snd c)"

definition alert_keys :: "'z spending_db_scheme \<Rightarrow> (string \<times> string \<times> alert_scope \<times> int) set" where
  "alert_keys s = alert_key ` set (sp_alerts s)"

lemma alert_keys_grow: "spending_history s s' \<Longrightarrow> alert_keys s \<subseteq> alert_keys s'"
  unfolding alert_keys_def spending_history_def spending_kept_def
  using grows_keys [of alert_evolves "sp_alerts s" "sp_alerts s'" alert_key] alert_evolves_key by blast

lemma raise_alert_key:
  assumes services: "spending_services env"
    and run: "raise_alert env input sc l c t s = Inr (x, s')"
  shows "(ak_organizationId input, ak_period input, sc, t) \<in> alert_keys s'"
proof -
  let ?rest = "\<lambda>i changes. whenever (changes = 1)
       (andThen (audit (ak_actorId input) ''model.budget.alert'' ''model_budget_alert'' i
           (JObj [(''period'', JStr (ak_period input)), (''scope'', JStr (scope_name sc)),
                  (''thresholdPercent'', JNum t), (''limit'', JNum l), (''charged'', JNum c),
                  (''currency'', text_or_null (if sc = MONTHLY_COST then Some (bg_currency (ak_budget input)) else None))])
           (ak_organizationId input)) (\<lambda>_.
        case se_onAlert env of
          None \<Rightarrow> ret ()
        | Some deliver \<Rightarrow>
            andThen (alert_row_of (ak_organizationId input) i) (\<lambda>row.
            case row of
              None \<Rightarrow> throw (Raised ''TypeError'')
            | Some a \<Rightarrow> deliver (ak_organizationId input) (mapAlert a) (ak_nowMs input))))"
  from run obtain i changes row u v where
    ins: "insert_unless sp_alerts sp_alerts_update al_organizationId alert_valid alert_checks alert_key row u = Inr (changes, v)"
    and key: "alert_key row = (ak_organizationId input, ak_period input, sc, t)"
    and rest: "?rest i changes v = Inr (x, s')"
    by (auto simp: raise_alert_def Let_def andThen_Inr alert_key_def)
  have ev: "alerting spending_history env"
    using services_spending_history [OF services] by (rule spending_evolution.axioms(1))
  have "relates spending_history (d org al n)" if "se_onAlert env = Some d" for d org al n
    using that by (rule alerting.deliver_R [OF ev])
  then have "relates spending_history (?rest i changes)"
    by (cases "se_onAlert env")
       (auto intro!: bounded alerting.audit_alert_R [OF ev] alerting.charged_R(9) [OF ev])
  then have "spending_history v s'" using rest by (rule relatesD)
  moreover have "alert_key row \<in> alert_keys v"
    using ins by (auto simp: alerts.insert_unless_Inr alert_keys_def split: if_splits)
  ultimately show ?thesis using alert_keys_grow key by (metis subsetD)
qed

lemma check_limit_key:
  assumes services: "spending_services env"
    and run: "check_limit env input sc (Some l) c s = Inr (x, s')"
    and reached: "t \<in> insert LIMIT_REACHED (set (bg_alertThresholds (ak_budget input)))" "t * l \<le> c * 100"
  shows "(ak_organizationId input, ak_period input, sc, t) \<in> alert_keys s'"
proof -
  have ev: "alerting spending_history env"
    using services_spending_history [OF services] by (rule spending_evolution.axioms(1))
  have "t \<in> set (reached_thresholds input sc l c)" using reached by (auto simp: reached_thresholds_def)
  moreover have "\<forall>t \<in> set ts. (ak_organizationId input, ak_period input, sc, t) \<in> alert_keys s'"
    if "each (raise_alert env input sc l c) ts s = Inr (x, s')" for ts
    using that
  proof (induction ts arbitrary: s)
    case (Cons t ts)
    then obtain u where first: "raise_alert env input sc l c t s = Inr ((), u)"
      and others: "each (raise_alert env input sc l c) ts u = Inr (x, s')"
      by (auto simp: andThen_Inr)
    have "relates spending_history (each (raise_alert env input sc l c) ts)"
      by (intro bounded alerting.raise_alert_R [OF ev])
    then have "alert_keys u \<subseteq> alert_keys s'" using others by (intro alert_keys_grow) (rule relatesD)
    with raise_alert_key [OF services first] Cons.IH [OF others] show ?case by auto
  qed simp
  ultimately show ?thesis using run by (simp add: check_limit_def)
qed

definition alerted :: "'z spending_db_scheme \<Rightarrow> string \<Rightarrow> string \<Rightarrow> bool" where
  "alerted s org period \<longleftrightarrow>
     (\<forall>sc l t. alert_limit (budget_at s org) sc = Some l \<longrightarrow>
        t \<in> insert LIMIT_REACHED (set (bg_alertThresholds (budget_at s org))) \<longrightarrow>
        t * l \<le> alert_charge (charged_at s org (\<lambda>u. us_period u = period)) sc * 100 \<longrightarrow>
        (org, period, sc, t) \<in> alert_keys s)"

lemma checkAlerts_alerted:
  assumes services: "spending_services env"
    and scope: "ss_scope s = Some sc" "sees sc org"
    and run: "checkAlerts env org actor period (budget_at s org) n s = Inr (x, s')"
  shows "alerted s' org period"
proof -
  let ?b = "budget_at s org" and ?c = "charged_at s org (\<lambda>u. us_period u = period)"
  let ?input = "\<lparr>ak_organizationId = org, ak_actorId = actor, ak_period = period, ak_budget = ?b,
      ak_charged = ?c, ak_reached = None, ak_nowMs = n\<rparr>"
  have ev: "alerting spending_history env"
    using services_spending_history [OF services] by (rule spending_evolution.axioms(1))
  have same: "ledger_same s s'"
    by (rule relatesD [OF alerting.checkAlerts_R [OF services_ledger [OF services]] run])
  show ?thesis
  proof (cases "bg_monthlyTokenLimit ?b = None \<and> bg_monthlyCostLimitMicros ?b = None")
    case True
    then show ?thesis
      by (simp add: alerted_def ledger_same_reads [OF same] alert_limit_def split: alert_scope.split)
  next
    case False
    with run have "andThen (charged org (\<lambda>u. us_period u = period)) (\<lambda>used. check_alerts env
         \<lparr>ak_organizationId = org, ak_actorId = actor, ak_period = period, ak_budget = ?b,
          ak_charged = used, ak_reached = None, ak_nowMs = n\<rparr>) s = Inr (x, s')"
      unfolding checkAlerts_def whenever_def by (simp only: if_True not_False_eq_True simp_thms)
    then obtain c where "charged org (\<lambda>u. us_period u = period) s = Inr (c, s)" and
      "check_alerts env \<lparr>ak_organizationId = org, ak_actorId = actor, ak_period = period, ak_budget = ?b,
          ak_charged = c, ak_reached = None, ak_nowMs = n\<rparr> s = Inr (x, s')"
      unfolding andThen_Inr using charged_Inr [OF scope] by metis
    then have "check_alerts env ?input s = Inr (x, s')" using charged_Inr [OF scope] by metis
    then obtain u where tokens: "check_limit env ?input MONTHLY_TOKENS (bg_monthlyTokenLimit ?b) (fst ?c) s = Inr ((), u)"
      and cost: "check_limit env ?input MONTHLY_COST (bg_monthlyCostLimitMicros ?b) (snd ?c) u = Inr (x, s')"
      by (auto simp: check_alerts_def andThen_Inr)
    have "relates spending_history (check_limit env ?input MONTHLY_COST (bg_monthlyCostLimitMicros ?b) (snd ?c))"
      unfolding check_limit_def by (intro bounded alerting.raise_alert_R [OF ev])
    then have grow: "alert_keys u \<subseteq> alert_keys s'" using cost by (intro alert_keys_grow) (rule relatesD)
    show ?thesis
      unfolding alerted_def ledger_same_reads [OF same]
    proof (intro allI impI)
      fix sc' l t
      assume limit: "alert_limit ?b sc' = Some l"
        and t: "t \<in> insert LIMIT_REACHED (set (bg_alertThresholds ?b))" "t * l \<le> alert_charge ?c sc' * 100"
      show "(org, period, sc', t) \<in> alert_keys s'"
      proof (cases sc')
        case MONTHLY_TOKENS
        with limit tokens have "check_limit env ?input MONTHLY_TOKENS (Some l) (fst ?c) s = Inr ((), u)"
          by (simp add: alert_limit_def)
        from check_limit_key [OF services this, of t] t MONTHLY_TOKENS grow show ?thesis
          by (auto simp: alert_charge_def)
      next
        case MONTHLY_COST
        with limit cost have "check_limit env ?input MONTHLY_COST (Some l) (snd ?c) u = Inr (x, s')"
          by (simp add: alert_limit_def)
        from check_limit_key [OF services this, of t] t MONTHLY_COST show ?thesis
          by (simp add: alert_charge_def)
      qed
    qed
  qed
qed

lemma alerted_tables: "spending_tables t s' \<Longrightarrow> alerted s' = alerted t"
  by (simp add: fun_eq_iff alerted_def alert_keys_def spending_tables_def budget_at_def charged_at_def usages_at_def)

lemma alerted_once:
  assumes "spending_sound s" and "alerted s org period"
    and "alert_limit (budget_at s org) sc = Some l"
    and "t \<in> insert LIMIT_REACHED (set (bg_alertThresholds (budget_at s org)))"
    and "t * l \<le> alert_charge (charged_at s org (\<lambda>u. us_period u = period)) sc * 100"
  shows "\<exists>!a. a \<in> set (sp_alerts s) \<and> alert_key a = (org, period, sc, t)"
proof -
  have "(org, period, sc, t) \<in> alert_keys s" using assms(2-) unfolding alerted_def by blast
  then obtain a where "a \<in> set (sp_alerts s)" "alert_key a = (org, period, sc, t)"
    unfolding alert_keys_def by force
  moreover have "distinct (map alert_key (sp_alerts s))" using assms(1) by (simp add: spending_sound_def)
  ultimately show ?thesis using unique_key [of alert_key] by (intro ex1I [of _ a]) metis+
qed

text \<open>
  Every reached threshold has its alert, once. Right after a call was newly granted or settled,
  each monthly limit of which the charged usage has reached a configured percentage, or all, has
  exactly one alert for that month and percentage.
\<close>

theorem reached_thresholds_are_alerted:
  assumes services: "spending_services env" and sound: "spending_sound s"
    and charge: "(\<exists>run rt req n i g. org = rn_organizationId run \<and> period = periodOf n \<and>
        tenant org (reserve env run rt req n) s = Inr (ReservationAllowed i g, s') \<and>
        \<not> (\<exists>u \<in> set (sp_reservations s). us_id u = rr_reservationId req \<and> us_organizationId u = org)) \<or>
      (\<exists>rt req n. tenant org (settle env org rt req n) s = Inr (x, s') \<and>
        (\<exists>u \<in> set (sp_reservations s). us_id u = sm_reservationId req \<and> us_period u = period \<and> us_status u = RESERVED))"
    and limit: "alert_limit (budget_at s' org) sc = Some l"
    and reached: "t \<in> insert LIMIT_REACHED (set (bg_alertThresholds (budget_at s' org)))"
      "t * l \<le> alert_charge (charged_at s' org (\<lambda>u. us_period u = period)) sc * 100"
  shows "\<exists>!a. a \<in> set (sp_alerts s') \<and> alert_key a = (org, period, sc, t)"
  using charge
proof (elim disjE exE conjE)
  fix run rt req n i g
  assume org: "org = rn_organizationId run" and period: "period = periodOf n"
    and run: "tenant org (reserve env run rt req n) s = Inr (ReservationAllowed i g, s')"
    and new: "\<not> (\<exists>u \<in> set (sp_reservations s). us_id u = rr_reservationId req \<and> us_organizationId u = org)"
  have sound': "spending_sound s'"
    using spending_step_history [OF services spending_step.reserved [OF run [unfolded org]]] sound
    by (simp add: spending_history_def)
  from run obtain c w where c: "sees c (rn_organizationId run)"
    and inner: "reserve env run rt req n (s\<lparr>ss_scope := Some c\<rparr>) = Inr (ReservationAllowed i g, w)"
    and w: "spending_tables w s'"
    unfolding org by (rule tenant_scope)
  have "ss_scope (s\<lparr>ss_scope := Some c\<rparr>) = Some c" by simp
  from services this c inner have "alerted w org period"
  proof (cases rule: reserve_cases)
    case (known u)
    with new find_Some_set [OF known(1)] show ?thesis by (auto simp: org)
  next
    case (denied reason)
    then show ?thesis by simp
  next
    case (granted z g')
    have "budget_at (s\<lparr>ss_scope := Some c\<rparr>) org = budget_at z org" by (simp add: granted(7) budget_at_def)
    with granted(7,8) c show ?thesis
      unfolding org period by (intro checkAlerts_alerted [OF services _ c]) simp_all
  qed
  with w have "alerted s' org period" by (simp add: alerted_tables)
  from alerted_once [OF sound' this limit reached] show ?thesis .
next
  fix rt req n
  assume run: "tenant org (settle env org rt req n) s = Inr (x, s')"
    and "\<exists>u \<in> set (sp_reservations s). us_id u = sm_reservationId req \<and> us_period u = period \<and> us_status u = RESERVED"
  then obtain v where v: "v \<in> set (sp_reservations s)" "us_id v = sm_reservationId req" "us_period v = period"
    "us_status v = RESERVED" by blast
  have sound': "spending_sound s'"
    using spending_step_history [OF services spending_step.settled [OF run]] sound
    by (simp add: spending_history_def)
  from run obtain c w where c: "sees c org"
    and inner: "settle env org rt req n (s\<lparr>ss_scope := Some c\<rparr>) = Inr (x, w)" and w: "spending_tables w s'"
    by (rule tenant_scope)
  have keys: "distinct (map us_id (sp_reservations s))" using sound by (simp add: spending_sound_def)
  have same: "u = v" if "find (\<lambda>u. us_id u = sm_reservationId req \<and> us_organizationId u = org) (sp_reservations s) = Some u" for u
    using find_Some_set [OF that] v unique_key [OF keys] by metis
  have "ss_scope (s\<lparr>ss_scope := Some c\<rparr>) = Some c" by simp
  from services this c inner have "alerted w org period"
  proof (cases rule: settle_cases)
    case (repeated u)
    with same v(4) show ?thesis by simp
  next
    case (first u p z)
    then have "us_period u = period" using same v(3) by simp
    with first(6,7) c show ?thesis by (intro checkAlerts_alerted [OF services _ c]) simp_all
  qed
  with w have "alerted s' org period" by (simp add: alerted_tables)
  from alerted_once [OF sound' this limit reached] show ?thesis .
qed

end
