(* ===== verification/SpendingSamples.thy ===== *)
theory SpendingSamples
  imports SpendingInvariants ActionSamples
begin

text \<open>
  An organization with a monthly limit of tokens and of money, a price and a running run: the
  theorems about model spending at concrete states.
\<close>

definition sample_spending_env :: "unit spending_env" where
  "sample_spending_env = bare_spending (\<lambda>_. sample_hash) (\<lambda>t. t \<noteq> [])"

lemma sample_spending_services: "spending_services sample_spending_env"
  unfolding sample_spending_env_def by (rule bare_spending_services)

definition sample_book :: spending_db where
  "sample_book = action_db.extend sample_busy
     \<lparr>sp_budgets = [\<lparr>bg_monthlyTokenLimit = Some 100000, bg_runTokenLimit = None, bg_currency = ''USD'',
        bg_monthlyCostLimitMicros = Some 50000, bg_runCostLimitMicros = None, bg_alertThresholds = [80],
        bg_version = 1, bg_updatedBy = Some ''adm'', bg_updatedAt = Some 0, bg_organizationId = ''o1''\<rparr>],
      sp_prices = [\<lparr>mp_id = ''p1'', mp_organizationId = ''o1'', mp_provider = ''p'', mp_model = ''m'',
        mp_currency = ''USD'', mp_inputMicros = Some 3000000, mp_outputMicros = Some 15000000,
        mp_supersedes = None, mp_setBy = ''adm'', mp_setAt = 0\<rparr>],
      sp_reservations = [], sp_alerts = [], sp_changes = []\<rparr>"

definition run_correlation :: correlation where
  "run_correlation = \<lparr>co_organizationId = ''o1'', co_employeeId = ''e1'', co_agentId = ''ag'', co_threadId = ''t1'',
     co_runId = ''r1'', co_stepId = None, co_toolCallId = None, co_actionId = None\<rparr>"

definition call_request :: reservation_request where
  "call_request = \<lparr>rr_reservationId = ''v1'', rr_correlation = run_correlation, rr_provider = ''p'', rr_model = ''m'',
     rr_estimatedInputTokens = 1000, rr_maxOutputTokens = 4000\<rparr>"

definition sample_reserved :: spending_db where
  "sample_reserved = after (tenant ''o1'' (reserve sample_spending_env busy_run ''rt'' call_request 0) sample_book) sample_book"

definition allows :: "int \<Rightarrow> failure + reservation \<times> 's \<Rightarrow> bool" where
  "allows g res = (case res of Inr (ReservationAllowed i n, s) \<Rightarrow> n = g \<and> i = ''v1'' | _ \<Rightarrow> False)"

lemma allows_after: "allows g (m s) \<Longrightarrow> m s = Inr (ReservationAllowed ''v1'' g, after (m s) s)"
  by (auto simp: allows_def after_def split: sum.splits reservation.splits)

lemma reserves:
  "tenant ''o1'' (reserve sample_spending_env busy_run ''rt'' call_request 0) sample_book =
     Inr (ReservationAllowed ''v1'' 3133, sample_reserved)"
proof -
  have "allows 3133 (tenant ''o1'' (reserve sample_spending_env busy_run ''rt'' call_request 0) sample_book)"
    by code_simp
  from allows_after [of 3133 "tenant ''o1'' (reserve sample_spending_env busy_run ''rt'' call_request 0)", OF this]
  show ?thesis unfolding sample_reserved_def .
qed

lemma sample_book_sound: "spending_sound sample_book"
proof -
  have "distinct (map bg_organizationId (sp_budgets sample_book))" "distinct (map mp_id (sp_prices sample_book))"
    "sp_reservations sample_book = []" "sp_alerts sample_book = []"
    "\<forall>p \<in> set (sp_prices sample_book). (mp_inputMicros p = None) = (mp_outputMicros p = None) \<and>
        priced (mp_inputMicros p) \<and> priced (mp_outputMicros p)"
    by code_simp+
  then show ?thesis unfolding spending_sound_def by simp
qed

lemma busy_run_org: "rn_organizationId busy_run = ''o1''"
  by (simp add: busy_run_def)

text \<open>The same call inside the open transaction.\<close>

lemma reservations_fit_every_limit_witness:
  "\<exists>u (s' :: spending_db). sp_reservations s' = sp_reservations sample_book @ [u] \<and> us_maxOutputTokens u = 3133 \<and>
     within (bg_monthlyCostLimitMicros (budget_at s' ''o1'')) (snd (charged_at s' ''o1'' (\<lambda>u. us_period u = periodOf 0)))"
proof -
  let ?s = "sample_book\<lparr>ss_scope := Some (Tenant ''o1'')\<rparr>"
  let ?m = "reserve sample_spending_env busy_run ''rt'' call_request 0"
  have "allows 3133 (?m ?s)" by code_simp
  from allows_after [of 3133 ?m, OF this]
  have run: "?m ?s = Inr (ReservationAllowed ''v1'' 3133, after (?m ?s) ?s)" .
  have sound: "spending_sound ?s"
    using sample_book_sound by (simp add: spending_sound_def)
  have scope: "ss_scope ?s = Some (Tenant ''o1'')" "sees (Tenant ''o1'') (rn_organizationId busy_run)"
    by (simp_all add: busy_run_org)
  have new: "\<not> (\<exists>u \<in> set (sp_reservations ?s). us_id u = rr_reservationId call_request \<and>
      us_organizationId u = rn_organizationId busy_run)"
    by (simp add: sample_book_def action_db.extend_def)
  have asked: "0 \<le> rr_estimatedInputTokens call_request" "1 \<le> rr_maxOutputTokens call_request"
    by (simp_all add: call_request_def)
  have same: "sp_reservations ?s = sp_reservations sample_book" by simp
  from reservations_fit_every_limit [OF sample_spending_services sound scope run new asked,
    unfolded busy_run_org same]
  obtain u where "sp_reservations (after (?m ?s) ?s) = sp_reservations sample_book @ [u]" "us_maxOutputTokens u = 3133"
    "within (bg_monthlyCostLimitMicros (budget_at (after (?m ?s) ?s) ''o1''))
      (snd (charged_at (after (?m ?s) ?s) ''o1'' (\<lambda>u. us_period u = periodOf 0)))"
    by (elim conjE exE)
  then show ?thesis by (intro exI [of _ u] exI [of _ "after (?m ?s) ?s"] conjI)
qed

lemma reservations_are_idempotent_witness:
  "tenant ''o1'' (reserve sample_spending_env busy_run ''rt2'' call_request 5) sample_reserved =
     Inr (ReservationAllowed ''v1'' 3133, sample_reserved)"
proof -
  have "ss_scope sample_reserved = None" by code_simp
  from reservations_are_idempotent [OF sample_spending_services sample_book_sound reserves [folded busy_run_org]
    rtranclp.rtrancl_refl this refl]
  show ?thesis by (simp add: busy_run_org)
qed

definition call_settlement :: settlement_request where
  "call_settlement = \<lparr>sm_reservationId = ''v1'', sm_correlation = run_correlation, sm_inputTokens = 1000, sm_outputTokens = 2000\<rparr>"

definition sample_settled :: spending_db where
  "sample_settled = after (tenant ''o1'' (settle sample_spending_env ''o1'' ''rt'' call_settlement 9) sample_reserved) sample_reserved"

lemma settles:
  "\<exists>x. tenant ''o1'' (settle sample_spending_env ''o1'' ''rt'' call_settlement 9) sample_reserved = Inr (x, sample_settled)"
proof -
  have "succeeds (tenant ''o1'' (settle sample_spending_env ''o1'' ''rt'' call_settlement 9) sample_reserved)"
    by code_simp
  from succeeds_after [of "tenant ''o1'' (settle sample_spending_env ''o1'' ''rt'' call_settlement 9)", OF this]
  show ?thesis unfolding sample_settled_def .
qed

lemma settlements_keep_the_price_witness:
  "\<exists>u \<in> set (sp_reservations sample_settled). us_id u = ''v1'' \<and> us_status u = SETTLED \<and> us_cost u = Some 33000"
proof -
  obtain x where settled: "tenant ''o1'' (settle sample_spending_env ''o1'' ''rt'' call_settlement 9) sample_reserved = Inr (x, sample_settled)"
    using settles by blast
  have "\<not> (\<exists>u \<in> set (sp_reservations sample_book). us_id u = rr_reservationId call_request \<and>
      us_organizationId u = rn_organizationId busy_run)"
    by (simp add: sample_book_def action_db.extend_def)
  moreover have "list_ex (\<lambda>u. us_id u = ''v1'' \<and> us_status u = RESERVED) (sp_reservations sample_reserved)" by code_simp
  then have "\<exists>u \<in> set (sp_reservations sample_reserved). us_id u = ''v1'' \<and> us_status u = RESERVED"
    by (simp add: list_ex_iff)
  moreover have "sm_reservationId call_settlement = ''v1''" by (simp add: call_settlement_def)
  moreover have price: "map_option (\<lambda>pz. costMicros pz (sm_inputTokens call_settlement) (sm_outputTokens call_settlement))
      (price_at sample_book ''o1'' (rr_provider call_request) (rr_model call_request)) = Some 33000"
    by code_simp
  ultimately have "\<exists>u \<in> set (sp_reservations sample_settled). us_id u = ''v1'' \<and> us_status u = SETTLED \<and>
      us_cost u = map_option (\<lambda>pz. costMicros pz (sm_inputTokens call_settlement) (sm_outputTokens call_settlement))
        (price_at sample_book ''o1'' (rr_provider call_request) (rr_model call_request))"
    using settlements_keep_the_price [OF sample_spending_services sample_book_sound reserves [folded busy_run_org] _
        rtranclp.rtrancl_refl _ settled [folded busy_run_org]]
    by (simp add: busy_run_org) blast
  then show ?thesis unfolding price .
qed

lemma reached_thresholds_are_alerted_witness:
  "\<exists>!a. a \<in> set (sp_alerts sample_reserved) \<and> alert_key a = (''o1'', ''1970-01'', MONTHLY_COST, 80)"
proof (rule reached_thresholds_are_alerted [OF sample_spending_services sample_book_sound])
  have "periodOf 0 = ''1970-01''" by code_simp
  moreover have "\<not> (\<exists>u \<in> set (sp_reservations sample_book). us_id u = rr_reservationId call_request \<and> us_organizationId u = ''o1'')"
    by (simp add: sample_book_def action_db.extend_def)
  ultimately show "(\<exists>run rt req n i g. ''o1'' = rn_organizationId run \<and> ''1970-01'' = periodOf n \<and>
        tenant ''o1'' (reserve sample_spending_env run rt req n) sample_book = Inr (ReservationAllowed i g, sample_reserved) \<and>
        \<not> (\<exists>u \<in> set (sp_reservations sample_book). us_id u = rr_reservationId req \<and> us_organizationId u = ''o1'')) \<or>
      (\<exists>rt req n. tenant ''o1'' (settle sample_spending_env ''o1'' rt req n) sample_book = Inr ((), sample_reserved) \<and>
        (\<exists>u \<in> set (sp_reservations sample_book). us_id u = sm_reservationId req \<and> us_period u = ''1970-01'' \<and> us_status u = RESERVED))"
    using reserves busy_run_org by metis
  show "alert_limit (budget_at sample_reserved ''o1'') MONTHLY_COST = Some 50000" by code_simp
  show "(80::int) \<in> insert LIMIT_REACHED (set (bg_alertThresholds (budget_at sample_reserved ''o1'')))" by code_simp
  show "80 * 50000 \<le> alert_charge (charged_at sample_reserved ''o1'' (\<lambda>u. us_period u = ''1970-01'')) MONTHLY_COST * 100"
    by code_simp
qed

definition empty_book :: spending_db where
  "empty_book = action_db.extend sample_busy
     \<lparr>sp_budgets = [], sp_prices = [], sp_reservations = [], sp_alerts = [], sp_changes = []\<rparr>"

definition price_body :: json where
  "price_body = JObj [(''provider'', JStr ''p''), (''model'', JStr ''m''), (''inputMicrosPerMillionTokens'', JNum 3000000),
     (''outputMicrosPerMillionTokens'', JNum 15000000), (''expectedPriceId'', JNull)]"

definition sample_priced :: spending_db where
  "sample_priced = after (set_price (se_uuid sample_spending_env) sample_admin price_body empty_book) empty_book"

lemma currencies_never_mix_witness:
  "\<exists>p \<in> set (sp_prices sample_priced). mp_currency p = bg_currency (budget_at sample_priced ''o1'')"
proof -
  have "succeeds (set_price (se_uuid sample_spending_env) sample_admin price_body empty_book)" by code_simp
  from succeeds_after [of "set_price (se_uuid sample_spending_env) sample_admin price_body", OF this]
  obtain p where "set_price (se_uuid sample_spending_env) sample_admin price_body empty_book = Inr (p, sample_priced)"
    unfolding sample_priced_def by blast
  then have "spending_steps sample_spending_env empty_book sample_priced"
    by (blast intro: spending_step.price_set)
  moreover have "no_spending empty_book" by (simp add: no_spending_def empty_book_def action_db.extend_def)
  ultimately have "\<forall>p \<in> set (sp_prices sample_priced). mp_currency p = bg_currency (budget_at sample_priced (mp_organizationId p))"
    using currencies_never_mix [OF sample_spending_services] by blast
  moreover have "list_ex (\<lambda>p. mp_organizationId p = ''o1'') (sp_prices sample_priced)" by code_simp
  then obtain p where "p \<in> set (sp_prices sample_priced)" "mp_organizationId p = ''o1''"
    by (auto simp: list_ex_iff)
  ultimately show ?thesis by metis
qed

end
