(* ===== verification/TransportSamples.thy ===== *)
theory TransportSamples
  imports TransportProperties SpendingSamples
begin

text \<open>
  A queued run and two runtimes that may serve it: the theorems about the runtime transport at
  concrete states.
\<close>

section \<open>The control plane\<close>

definition transport_gateway :: "'z gateway_env" where
  "transport_gateway =
     bare_gateway (bare_service (\<lambda>_. sample_hash) Some (\<lambda>_. 0) (\<lambda>_ _ _. Some sample_manifest)) sample_web
       (\<lambda>_. sample_hash) (\<lambda>t. t) (\<lambda>_ _ _. Some issue_manifest) (\<lambda>_ _. Some issue_bundle)
       (\<lambda>_ _. Secret ''token'') (\<lambda>_. ''signature'')"

definition sample_transport :: "unit transport_env" where
  "sample_transport =
     \<lparr>tr_gateway = transport_gateway, tr_spending = bare_spending (\<lambda>_. sample_hash) (\<lambda>t. t \<noteq> []),
      tr_schemas = \<lparr>sc_messageSize = (\<lambda>_. 0), sc_envelope = (\<lambda>_. True), sc_payload = (\<lambda>_ _. None)\<rparr>,
      tr_uuid = (\<lambda>t. t \<noteq> []), tr_messageSize = (\<lambda>_. 0), tr_sha256 = (\<lambda>_. sample_hash),
      tr_modelCredential = (\<lambda>_ _ _ _ _. ret ''key'')\<rparr>"

lemma sample_transport_services: "transport_services sample_transport"
  unfolding sample_transport_def transport_gateway_def
  by (intro transport_services.intro)
     (simp_all add: bare_gateway_services bare_spending_services,
      simp_all add: bare_gateway_def bare_service_def bare_spending_def quiet_time.relates_ret)

interpretation sample: transport_services sample_transport
  by (rule sample_transport_services)

definition runtime_one :: runtime_identity where
  "runtime_one = \<lparr>ri_id = ''rt1'', ri_publicKey = ''k1'', ri_organizations = Everyone,
     ri_runtimeProfiles = [''sandbox''], ri_role = AgentRuntime\<rparr>"

definition runtime_two :: runtime_identity where
  "runtime_two = runtime_one\<lparr>ri_id := ''rt2'', ri_publicKey := ''k2''\<rparr>"

definition queued_run :: run_row where
  "queued_run = busy_run\<lparr>rn_status := QUEUED, rn_startedAt := None\<rparr>"

definition sample_queue :: transport_db where
  "sample_queue = spending_db.extend (sample_book\<lparr>ex_runs := [queued_run], ex_steps := []\<rparr>)
     \<lparr>tp_leases = [], tp_checkpoints = [], tp_nonces = []\<rparr>"

definition sample_claimed :: transport_db where
  "sample_claimed = after (next_command sample_transport runtime_one 100 sample_queue) sample_queue"

definition sample_lapsed :: int where
  "sample_lapsed = 101 + RUNTIME_LEASE_MS"

definition sample_moved :: transport_db where
  "sample_moved = after (next_command sample_transport runtime_two sample_lapsed sample_claimed) sample_claimed"

lemma claims:
  "\<exists>c. next_command sample_transport runtime_one 100 sample_queue = Inr (c, sample_claimed)"
proof -
  have "succeeds (next_command sample_transport runtime_one 100 sample_queue)" by code_simp
  from succeeds_after [of "next_command sample_transport runtime_one 100", OF this]
  show ?thesis unfolding sample_claimed_def .
qed

lemma moves:
  "\<exists>c. next_command sample_transport runtime_two sample_lapsed sample_claimed = Inr (c, sample_moved)"
proof -
  have "succeeds (next_command sample_transport runtime_two sample_lapsed sample_claimed)" by code_simp
  from succeeds_after [of "next_command sample_transport runtime_two sample_lapsed", OF this]
  show ?thesis unfolding sample_moved_def .
qed

lemma sample_claimed_reachable: "transport_reachable sample_transport sample_claimed"
proof -
  have "transport_steps sample_transport sample_queue sample_claimed"
    using claims by (auto intro: transport_steps.more [OF transport_steps.none] transport_step.hands_out)
  then show ?thesis
    unfolding transport_reachable_def
    by (intro exI [of _ sample_queue]) (simp add: sample_queue_def spending_db.extend_def)
qed

lemma leases_change_hands_when_lapsed_witness:
  "list_ex (\<lambda>l. ls_runtimeId l = ''rt1'') (tp_leases sample_claimed) \<and>
   list_ex (\<lambda>l. ls_runtimeId l = ''rt2'' \<and> ls_runId l = ''r1'') (tp_leases sample_moved) \<and>
   list_all (\<lambda>l. ls_expiresAt l < sample_lapsed) (tp_leases sample_claimed)"
  unfolding list_all_iff [of _ "tp_leases sample_claimed"]
proof (intro conjI ballI)
  show "list_ex (\<lambda>l. ls_runtimeId l = ''rt1'') (tp_leases sample_claimed)" by code_simp
  show "list_ex (\<lambda>l. ls_runtimeId l = ''rt2'' \<and> ls_runId l = ''r1'') (tp_leases sample_moved)" by code_simp
  fix l
  assume l: "l \<in> set (tp_leases sample_claimed)"
  have step: "transport_step sample_transport sample_lapsed sample_claimed sample_moved"
    using moves by (auto intro: transport_step.hands_out)
  have "list_all (\<lambda>l. ls_runtimeId l = ''rt2'') (tp_leases sample_moved)" by code_simp
  moreover have "list_all (\<lambda>l. ls_runtimeId l = ''rt1'') (tp_leases sample_claimed)" by code_simp
  ultimately show "ls_expiresAt l < sample_lapsed"
    using leases_change_hands_when_lapsed [OF sample_transport_services sample_claimed_reachable step l] l
    by (auto simp: list_all_iff)
qed


section \<open>A runtime without the lease\<close>

definition load_body :: json where
  "load_body = JObj [(''protocol'', JStr RUNTIME_PROTOCOL_V1),
     (''correlation'', JObj [(''organizationId'', JStr ''o1''), (''employeeId'', JStr ''e1''), (''agentId'', JStr ''ag''),
        (''threadId'', JStr ''t1''), (''runId'', JStr ''r1'')])]"

lemma only_the_holder_acts_witness:
  "loadCheckpoint sample_transport runtime_two load_body sample_claimed = Inl (Refused 403 ''RUNTIME_LEASE_REQUIRED'')"
proof -
  have scope: "ss_scope sample_claimed = None" by code_simp
  have "list_all (\<lambda>l. ls_runtimeId l \<noteq> ri_id runtime_two) (tp_leases sample_claimed)" by code_simp
  then have other: "\<not> holds runtime_two sample_claimed ''r1''" by (auto simp: holds_def list_all_iff)
  have "parseRuntimeCheckpointLoadRequest (tr_uuid sample_transport) load_body = Inr run_correlation \<and>
      co_runId run_correlation = ''r1''"
    by code_simp
  with only_the_holder_acts [OF scope other, THEN conjunct2, THEN conjunct2, THEN conjunct1]
  show ?thesis by blast
qed

section \<open>A signed request\<close>

definition sample_crypto :: crypto where
  "sample_crypto = \<lparr>cy_publicKey = (\<lambda>k. Some (''ed25519'', k)), cy_verify = (\<lambda>_ _ _. True), cy_sha256 = (\<lambda>_. sample_hash),
     cy_dateParse = (\<lambda>_. Some 0)\<rparr>"

definition sample_request :: signed_request where
  "sample_request = \<lparr>sr_method = ''post'', sr_path = ''/claim'', sr_runtimeId = Some ''rt1'',
     sr_timestamp = Some ''1970-01-01T00:00:00Z'', sr_nonce = Some (replicate 36 (CHR ''a'')),
     sr_signature = Some ''AA=='', sr_body = ''{}''\<rparr>"

text \<open>A clock that passes the end of the window between two readings.\<close>

definition sample_window :: transport_db where
  "sample_window = sample_queue\<lparr>ss_clock := (\<lambda>n. if n = 0 then 0 else RUNTIME_REQUEST_MAX_SKEW_MS + 1)\<rparr>"

definition sample_authenticated :: transport_db where
  "sample_authenticated = after (authenticateRuntimeRequest sample_crypto [runtime_one] sample_request 0 sample_window) sample_window"

text \<open>
  The window ends between the time a request is checked against and the time nonces are purged with:
  the very same request is accepted twice within its window.
\<close>

lemma same_request_accepted_twice:
  "succeeds (authenticateRuntimeRequest sample_crypto [runtime_one] sample_request 0 sample_window) \<and>
   succeeds (authenticateRuntimeRequest sample_crypto [runtime_one] sample_request RUNTIME_REQUEST_MAX_SKEW_MS sample_authenticated)"
  by code_simp


section \<open>A checkpoint\<close>

definition sample_save :: checkpoint_save where
  "sample_save = \<lparr>sv_correlation = run_correlation, sv_sessionId = ''u'', sv_version = 1,
     sv_binding = \<lparr>cb_manifestId = ''m1'', cb_manifestDigest = sample_hash, cb_workflow = None, cb_stepId = None,
       cb_approvalId = None, cb_kernelId = ''kernel'', cb_runtimeSequence = 0\<rparr>,
     sv_sha256 = sample_hash, sv_body = ''{}''\<rparr>"

definition sample_tenant :: transport_db where
  "sample_tenant = sample_claimed\<lparr>ss_scope := Some (Tenant ''o1'')\<rparr>"

lemma checkpoint_round_trip_witness:
  "\<exists>s. (\<exists>u. append_checkpoint ''o1'' ''t1'' ''rt1'' sample_save 0 sample_tenant = Inr (u, s)) \<and>
     (\<exists>cp. read_checkpoint (\<lambda>_. sample_hash) ''o1'' (co_runId run_correlation) s = Inr (Some cp, s) \<and> cp_body cp = ''{}'')"
proof -
  have "succeeds (append_checkpoint ''o1'' ''t1'' ''rt1'' sample_save 0 sample_tenant)" by code_simp
  from succeeds_after [of "append_checkpoint ''o1'' ''t1'' ''rt1'' sample_save 0", OF this]
  obtain u s where run: "append_checkpoint ''o1'' ''t1'' ''rt1'' sample_save 0 sample_tenant = Inr (u, s)" by blast
  have "(\<lambda>_. sample_hash) (sv_body sample_save) = sv_sha256 sample_save" by (simp add: sample_save_def)
  from checkpoint_round_trip [OF run this]
  have "read_checkpoint (\<lambda>_. sample_hash) ''o1'' (co_runId run_correlation) s = Inr (Some
      \<lparr>cp_runId = co_runId run_correlation, cp_version = sv_version sample_save, cp_binding = sv_binding sample_save,
        cp_sha256 = sv_sha256 sample_save, cp_body = ''{}''\<rparr>, s)"
    by (simp only: sample_save_def checkpoint_save.simps)
  with run show ?thesis by (intro exI [of _ s] conjI exI) (assumption | simp)+
qed

end
