(* ===== verification/CredentialSamples.thy ===== *)
theory CredentialSamples
  imports CheckoutGrants TransportSamples
begin

text \<open>
  A GitHub App connection, a running run that may check out a repository, and an execution runtime:
  the theorems about repository credentials at concrete states.
\<close>

section \<open>A connection\<close>

definition checkout_url :: string where
  "checkout_url = ''https://git.example/o/r''"

definition checkout :: operation where
  "checkout = GitCheckout checkout_url ''main'' ''repo''"

definition checkout_request :: action_request where
  "checkout_request = \<lparr>rq_id = ''q4'', rq_organizationId = ''o1'', rq_runId = ''r1'', rq_stepId = ''s1'', rq_runtimeId = ''rt1'',
     rq_action = ''repository.read'', rq_toolId = ''issues'', rq_requestHash = sample_hash, rq_decision = ALLOWED,
     rq_risk = LOW, rq_reason = ''POLICY_ALLOWED'', rq_approvalId = None, rq_createdAt = 0,
     rq_parameters = Some (operation_json checkout), rq_policyId = None, rq_policyVersion = None, rq_changeSet = None\<rparr>"

definition held_lease :: lease_row where
  "held_lease = \<lparr>ls_runId = ''r1'', ls_organizationId = ''o1'', ls_sessionId = ''ss'', ls_runtimeId = ''rt1'',
     ls_state = LeaseACTIVE, ls_lastCommand = None, ls_claimedAt = 0, ls_heartbeatAt = 0, ls_expiresAt = 100000,
     ls_closedAt = None, ls_recoveries = 0\<rparr>"

definition sample_desk :: credential_db where
  "sample_desk = transport_db.extend (sample_queue\<lparr>ex_runs := [busy_run], ex_steps := [busy_step],
       ac_requests := [checkout_request], tp_leases := [held_lease]\<rparr>)
     \<lparr>kr_connections = [], kr_leases = []\<rparr>"

definition connection_body :: json where
  "connection_body = JObj [(''provider'', JStr ''github''), (''name'', JStr ''Code''), (''gitHost'', JStr ''git.example''),
     (''apiBaseUrl'', JStr ''https://api.git.example/v3/''), (''credentialMode'', JStr ''github_app''),
     (''secretRef'', JStr ''secret://app''), (''appId'', JStr ''1''), (''installationId'', JStr ''2''),
     (''allowedRepositories'', JArr [JStr ''o/r''])]"

definition sample_source :: source_connection where
  "sample_source = \<lparr>sk_id = ''u'', sk_organizationId = ''o1'', sk_provider = SourceGitHub, sk_name = ''Code'',
     sk_gitHost = ''git.example'', sk_apiBaseUrl = ''https://api.git.example/v3'', sk_mode = GitHubApp,
     sk_secretRef = ''secret://app'', sk_appId = Some ''1'', sk_installationId = Some ''2'', sk_repositories = [''o/r''],
     sk_active = True, sk_version = 1, sk_createdBy = ''adm'', sk_createdAt = 0, sk_updatedBy = ''adm'', sk_updatedAt = 0\<rparr>"

definition sample_connected :: credential_db where
  "sample_connected = sample_desk\<lparr>kr_connections := [sample_source]\<rparr>"

text \<open>The operation succeeds and leaves the connections and leases of a state.\<close>

definition leaves :: "failure + 'a \<times> credential_db \<Rightarrow> credential_db \<Rightarrow> bool" where
  "leaves res s = (case res of Inl _ \<Rightarrow> False
     | Inr (_, t) \<Rightarrow> kr_connections t = kr_connections s \<and> kr_leases t = kr_leases s)"

lemma leaves_quiet: "leaves res s \<Longrightarrow> \<exists>x t. res = Inr (x, t) \<and> credential_quiet t s"
  by (auto simp: leaves_def credential_quiet_def split: sum.splits)

lemma connects: "leaves (create_source sample_web False sample_admin connection_body sample_desk) sample_connected"
  by code_simp

text \<open>What the connection service takes for a public host: its check sees neither brackets nor \<open>localhost\<close>.\<close>

lemma local_hosts_pass: "public_host False ''[::1]'' \<and> public_host False ''localhost'' \<and> \<not> public_host False ''127.0.0.1''"
  by code_simp

section \<open>A lease\<close>

definition minted_token :: json where
  "minted_token = JObj [(''token'', JStr (replicate 20 (CHR ''t''))), (''permissions'', JObj [(''contents'', JStr ''read'')]),
     (''repositories'', JArr [JObj [(''full_name'', JStr ''O/R'')]])]"

definition sample_broker :: broker_env where
  "sample_broker = \<lparr>be_web = sample_web, be_uuid = (\<lambda>t. t \<noteq> []), be_datetime = (\<lambda>t. t \<noteq> []), be_dateParse = (\<lambda>_. Some 600000),
     be_verifyGrant = (\<lambda>g. pg_signature g = ''AA==''), be_secret = (\<lambda>_ _. Some ''key''),
     be_issuers = default_issuers \<lparr>ga_jwt = (\<lambda>_ _. Some ''jwt''), ga_mint = (\<lambda>_ _ _ _. MintAnswer minted_token)\<rparr>,
     be_ttlMs = None\<rparr>"

definition lease_question :: lease_request where
  "lease_question = \<lparr>lr_run = busy_run, lr_requestId = ''q4'', lr_grantId = ''g1'', lr_operation = checkout,
     lr_operationDigest = sample_hash, lr_runtimeId = ''rt1'', lr_grantExpiresAt = 600000, lr_nowMs = 0\<rparr>"

definition in_tenant :: "credential_db \<Rightarrow> credential_db" where
  "in_tenant s = s\<lparr>ss_scope := Some (Tenant ''o1'')\<rparr>"

definition lease_for :: "string \<Rightarrow> string \<Rightarrow> credential_lease" where
  "lease_for i grantId = new_credential (lease_question\<lparr>lr_grantId := grantId\<rparr>) sample_source ''o/r'' checkout_url ''main'' i 300000"

definition sample_leased :: credential_db where
  "sample_leased = sample_connected\<lparr>kr_leases := [lease_for ''u'' ''g1'']\<rparr>"

lemma leases: "leaves (leaseForCheckout sample_broker lease_question (in_tenant sample_connected)) sample_leased"
  by code_simp

definition broker_of :: "credential_db \<Rightarrow> unit broker" where
  "broker_of s = \<lparr>bk_outstanding = [], bk_withdrawn = [], bk_db = s\<rparr>"

definition waiting :: "unit broker" where
  "waiting = broker_of sample_leased"

text \<open>A lease issued in a transaction of its own; what is not a credential is as the rest of the platform left it.\<close>

lemma issuing_steps:
  assumes "leaves (leaseForCheckout sample_broker q (in_tenant (bk_db b))) s"
  shows "credential_steps b (b\<lparr>bk_db := s\<rparr>)"
proof -
  from leaves_quiet [OF assms] obtain k t
    where t: "leaseForCheckout sample_broker q (in_tenant (bk_db b)) = Inr (k, t)" "credential_quiet t s" by blast
  have "credential_step b (b\<lparr>bk_db := in_tenant (bk_db b)\<rparr>)"
    by (rule credential_step.elsewhere) (simp add: credential_quiet_def in_tenant_def)
  moreover have "credential_step (b\<lparr>bk_db := in_tenant (bk_db b)\<rparr>) (b\<lparr>bk_db := t\<rparr>)"
    using credential_step.issues [of sample_broker q "b\<lparr>bk_db := in_tenant (bk_db b)\<rparr>"] t by simp
  moreover have "credential_step (b\<lparr>bk_db := t\<rparr>) (b\<lparr>bk_db := s\<rparr>)"
    using credential_step.elsewhere [of "b\<lparr>bk_db := t\<rparr>" s] t by simp
  ultimately show ?thesis by (meson credential_steps.intros)
qed

lemma waiting_reachable: "credential_reachable waiting"
proof -
  from leaves_quiet [OF connects] obtain c t
    where t: "create_source sample_web False sample_admin connection_body sample_desk = Inr (c, t)"
      "credential_quiet t sample_connected" by blast
  have "credential_step (broker_of sample_desk) (broker_of t)"
    using t credential_step.connects [of sample_web False sample_admin connection_body "broker_of sample_desk"]
    by (auto simp: broker_of_def)
  moreover have "credential_step (broker_of t) (broker_of sample_connected)"
    using t credential_step.elsewhere [of "broker_of t" sample_connected] by (simp add: broker_of_def)
  moreover have "credential_steps (broker_of sample_connected) waiting"
    using leases issuing_steps [of lease_question "broker_of sample_connected"] by (simp add: broker_of_def waiting_def)
  ultimately have "credential_steps (broker_of sample_desk) waiting"
    by (meson credential_steps.intros credential_steps_trans)
  then show ?thesis
    unfolding credential_reachable_def
    by (intro exI [of _ "broker_of sample_desk"]) (simp add: broker_of_def sample_desk_def transport_db.extend_def)
qed

section \<open>A redemption\<close>

definition executor :: runtime_identity where
  "executor = runtime_one\<lparr>ri_id := ''ex1'', ri_role := ExecutionRuntime\<rparr>"

definition grant_body :: "string \<Rightarrow> string \<Rightarrow> json" where
  "grant_body grantId leaseId = JObj [(''leaseId'', JStr leaseId), (''grant'', JObj [
     (''payload'', JObj [(''kind'', JStr EXECUTION_GRANT_KIND), (''grantId'', JStr grantId), (''requestId'', JStr ''q4''),
        (''action'', JStr ''repository.read''),
        (''correlation'', JObj [(''organizationId'', JStr ''o1''), (''employeeId'', JStr ''e1''), (''agentId'', JStr ''ag''),
           (''threadId'', JStr ''t1''), (''runId'', JStr ''r1''), (''stepId'', JStr ''s1''), (''toolCallId'', JStr ''tc'')]),
        (''operationKind'', JStr ''git.checkout''), (''operationDigest'', JStr sample_hash), (''isolation'', JStr ''sandboxed''),
        (''limits'', JObj [(''timeoutMs'', JNum 5000), (''cpuMillis'', JNum 1000), (''memoryMb'', JNum 512),
           (''maxProcesses'', JNum 64),
           (''network'', JObj [(''mode'', JStr ''ALLOW_LIST''), (''allowedHosts'', JArr [JStr ''git.example''])])]),
        (''credential'', JObj [(''leaseId'', JStr leaseId), (''provider'', JStr ''github''), (''gitHost'', JStr ''git.example'')]),
        (''issuedAt'', JStr ''1970-01-01T00:00:00Z''), (''expiresAt'', JStr ''1970-01-01T00:10:00Z'')]),
     (''signature'', JStr ''AA==''), (''algorithm'', JStr ''Ed25519''), (''keyId'', JStr sample_hash)])]"

definition redeem_body :: json where
  "redeem_body = grant_body ''g1'' ''u''"

definition redeemed :: "unit broker" where
  "redeemed = snd (redeem sample_broker executor redeem_body waiting)"

definition taken :: credential_lease where
  "taken = redeemed_as (lease_for ''u'' ''g1'') executor 0"

definition hands_out :: "(failure + redeem_response) \<times> unit broker \<Rightarrow> string list \<Rightarrow> credential_lease list \<Rightarrow> bool" where
  "hands_out res out ls = (case res of (Inl _, _) \<Rightarrow> False
     | (Inr _, b) \<Rightarrow> bk_outstanding b = out \<and> bk_withdrawn b = [] \<and> kr_connections (bk_db b) = [sample_source] \<and>
         kr_leases (bk_db b) = ls)"

lemma hands_out_Inr: "hands_out res out ls \<Longrightarrow> (\<exists>x. res = (Inr x, snd res)) \<and>
    bk_outstanding (snd res) = out \<and> bk_withdrawn (snd res) = [] \<and>
    kr_connections (bk_db (snd res)) = [sample_source] \<and> kr_leases (bk_db (snd res)) = ls"
  by (cases res) (auto simp: hands_out_def split: sum.splits)

lemma redemption: "hands_out (redeem sample_broker executor redeem_body waiting) [''u''] [taken]"
  by code_simp

lemmas redeemed_facts = hands_out_Inr [OF redemption, folded redeemed_def]

lemma redeems: "\<exists>r. redeem sample_broker executor redeem_body waiting = (Inr r, redeemed)"
  using redeemed_facts by blast

lemma redemption_is_authorized_witness:
  "list_ex (\<lambda>l. kl_status l = KlREDEEMED \<and> kl_redeemedBy l = Some ''ex1'') (kr_leases (bk_db redeemed))"
proof -
  obtain r where r: "redeem sample_broker executor redeem_body waiting = (Inr r, redeemed)" using redeems by blast
  have "ri_id executor = ''ex1''" by (simp add: executor_def)
  with redemption_is_authorized [OF waiting_reachable r] show ?thesis by (auto simp: list_ex_iff)
qed

lemma credential_leases_move_forward_witness:
  "kr_leases (bk_db waiting) \<noteq> [] \<and> distinct (map kl_grantId (kr_leases (bk_db redeemed)))"
proof
  show filled: "kr_leases (bk_db waiting) \<noteq> []" by (simp add: waiting_def broker_of_def sample_leased_def)
  then obtain l where l: "l \<in> set (kr_leases (bk_db waiting))" by (meson hd_in_set)
  from redeems have "credential_step waiting redeemed" by (auto intro: credential_step.redeems)
  from credential_leases_move_forward [OF waiting_reachable this l]
  show "distinct (map kl_grantId (kr_leases (bk_db redeemed)))" by blast
qed

text \<open>Another lease, of another grant, redeemed later.\<close>

definition sample_taken :: credential_db where
  "sample_taken = sample_leased\<lparr>kr_leases := [taken]\<rparr>"

definition waiting_again :: "unit broker" where
  "waiting_again = \<lparr>bk_outstanding = [''u''], bk_withdrawn = [],
     bk_db = (sample_taken\<lparr>kr_leases := [taken, lease_for ''ux'' ''g2''], ss_drawn := 2\<rparr>)\<rparr>"

definition again_body :: json where
  "again_body = grant_body ''g2'' ''ux''"

lemma leases_again:
  "leaves (leaseForCheckout sample_broker (lease_question\<lparr>lr_grantId := ''g2''\<rparr>) (in_tenant (sample_taken\<lparr>ss_drawn := 1\<rparr>)))
     (bk_db waiting_again)"
  by code_simp

lemma waits_again: "credential_steps redeemed waiting_again"
proof -
  let ?b = "redeemed\<lparr>bk_db := sample_taken\<lparr>ss_drawn := 1\<rparr>\<rparr>"
  have "credential_quiet (bk_db redeemed) (sample_taken\<lparr>ss_drawn := 1\<rparr>)"
    using redeemed_facts by (simp add: credential_quiet_def sample_taken_def sample_leased_def sample_connected_def)
  then have "credential_step redeemed ?b" by (rule credential_step.elsewhere)
  moreover have "credential_steps ?b (?b\<lparr>bk_db := bk_db waiting_again\<rparr>)"
    using leases_again by (intro issuing_steps) simp
  moreover have "?b\<lparr>bk_db := bk_db waiting_again\<rparr> = waiting_again"
    using redeemed_facts by (simp add: waiting_again_def)
  ultimately show ?thesis by (metis credential_steps.intros credential_steps_trans)
qed

lemma redemption_again:
  "hands_out (redeem sample_broker executor again_body waiting_again) [''ux'', ''u'']
     [taken, redeemed_as (lease_for ''ux'' ''g2'') executor 0]"
  by code_simp

lemma credentials_are_redeemed_once_witness:
  "\<exists>r r'. redeem sample_broker executor redeem_body waiting = (Inr r, redeemed) \<and>
     fst (redeem sample_broker executor again_body waiting_again) = Inr r' \<and> rr_leaseId r' \<noteq> rr_leaseId r"
proof -
  obtain r where r: "redeem sample_broker executor redeem_body waiting = (Inr r, redeemed)" using redeems by blast
  obtain r' where r': "redeem sample_broker executor again_body waiting_again =
      (Inr r', snd (redeem sample_broker executor again_body waiting_again))"
    using hands_out_Inr [OF redemption_again] by blast
  from credentials_are_redeemed_once [OF waiting_reachable r waits_again r'] r r'
  show ?thesis by (metis fst_conv)
qed

text \<open>
  A second redemption of a lease is refused and revokes the lease, but the credential it handed out
  stays outstanding: nothing was withdrawn.
\<close>

lemma replay_revokes_without_withdrawing:
  "(case redeem sample_broker executor redeem_body (waiting_again\<lparr>bk_db := sample_taken\<rparr>) of (r, b) \<Rightarrow>
      r = Inl (Refused 409 ''CREDENTIAL_LEASE_ALREADY_USED'') \<and> map kl_status (kr_leases (bk_db b)) = [KlREVOKED] \<and>
      bk_outstanding b = [''u''] \<and> bk_withdrawn b = [])"
  by code_simp

text \<open>Whoever is not an administrator cannot revoke the lease, but the credential is withdrawn all the same.\<close>

lemma strangers_withdraw:
  "(case revoke_credential (sample_admin\<lparr>ac_id := ''nobody''\<rparr>) ''u'' (waiting_again\<lparr>bk_db := sample_taken\<rparr>) of (r, b) \<Rightarrow>
      r \<noteq> Inr (mapLease (hd (kr_leases (bk_db b)))) \<and> map kl_status (kr_leases (bk_db b)) = [KlREDEEMED] \<and>
      bk_withdrawn b = [''u''])"
  by code_simp

section \<open>A granted checkout\<close>

definition checkout_gateway :: "unit credential_db_ext transport_db_ext spending_db_ext gateway_env" where
  "checkout_gateway = with_broker sample_broker
     (bare_gateway (bare_service (\<lambda>_. sample_hash) Some (\<lambda>_. 0) (\<lambda>_ _ _. Some sample_manifest)) sample_web
       (\<lambda>_. sample_hash) (\<lambda>t. t)
       (\<lambda>_ _ _. Some (issue_manifest\<lparr>am_configuration := [(''repositoryUrl'', ConfigText checkout_url)]\<rparr>))
       (\<lambda>_ _. Some issue_bundle) (\<lambda>_ _. Secret ''token'') (\<lambda>_. ''signature''))"

lemma checkout_gateway_services: "gateway_services checkout_gateway"
  unfolding checkout_gateway_def by (rule wired.gateway_services_axioms)

definition names_lease :: "failure + signed_grant \<times> 's \<Rightarrow> bool" where
  "names_lease res = (case res of Inl _ \<Rightarrow> False | Inr (g, _) \<Rightarrow> gp_credential (sg_payload g) \<noteq> None)"

lemma names_lease_Inr: "names_lease res \<Longrightarrow> \<exists>g k s. res = Inr (g, s) \<and> gp_credential (sg_payload g) = Some k"
  by (auto simp: names_lease_def split: sum.splits)

lemma checkout_grants_carry_their_lease_witness:
  "\<exists>g k s. issueGrant checkout_gateway busy_run ''q4'' busy_correlation ''rt'' 100 sample_connected = Inr (g, s) \<and>
     gp_credential (sg_payload g) = Some k \<and> gp_operationKind (sg_payload g) = ''git.checkout'' \<and>
     (\<exists>l. l \<in> set (kr_leases s) \<and> kl_id l = gk_leaseId k \<and> kl_status l = KlISSUED)"
proof -
  have "names_lease (issueGrant checkout_gateway busy_run ''q4'' busy_correlation ''rt'' 100 sample_connected)"
    by code_simp
  from names_lease_Inr [OF this] obtain g k s where
    g: "issueGrant checkout_gateway busy_run ''q4'' busy_correlation ''rt'' 100 sample_connected = Inr (g, s)"
    and k: "gp_credential (sg_payload g) = Some k" by blast
  have broker: "gw_leaseForCheckout checkout_gateway = Some (leaseForCheckout sample_broker)"
    by (simp add: checkout_gateway_def with_broker_def)
  have new: "''q4'' \<notin> gr_requestId ` set (ac_grants sample_connected)" by code_simp
  from checkout_grants_carry_their_lease [OF checkout_gateway_services broker g new k] g k
  show ?thesis by blast
qed

end
