(* ===== verification/ActionProperties.thy ===== *)
theory ActionProperties
  imports ActionEffects ActionSamples
begin

text \<open>
  What the Action Gateway promises: one dispatch per request, only for an authorized and
  unchanged payload; no repetition of a write whose outcome is unknown; overrides that only
  tighten; approvals that expire; single, short-lived grants.
\<close>

section \<open>One dispatch per request\<close>

lemma dispatch_commits:
  assumes services: "gateway_services env" and run: "prepareExecution env run i st n s = Inr (Dispatch p, s')"
  shows "dp_requestId p = i \<and> i \<notin> xr_requestId ` set (ac_executions s) \<and>
    i \<in> xr_requestId ` set (ac_executions s')"
proof -
  note hooks = services_hooks(1) [OF services]
  from run obtain sc u k t q h t1 approval current t2 c v t3 secret t4 where
    steps: "expireDue env n (Some (rn_organizationId run)) (s\<lparr>ss_scope := Some sc\<rparr>) = Inr (k, t)"
      "approval_verdict q n t = Inr (Inr approval, t1)" "assess env run (request_again q) t1 = Inr (current, t2)"
      "execution_refusal env run h q current t2 = Inr (Inr (c, v), t3)"
    and q: "requested run i st t = Inr (q, t)"
    and commit: "commit_dispatch env run h q n c v secret t3 = Inr (Dispatch p, t4)"
    and s': "s' = t4 \<or> s' = t4\<lparr>ss_scope := None\<rparr>"
    by (rule dispatch_steps)
  note reads = gateway_hooks.axioms(2) [OF hooks]
  have "action_history (s\<lparr>ss_scope := Some sc\<rparr>) t" "action_history t t1" "action_history t1 t2" "action_history t2 t3"
    using relatesD [OF gateway_hooks.expireDue_R [OF hooks] steps(1)]
      relatesD [OF gateway_reads.approval_verdict_R [OF reads] steps(2)]
      relatesD [OF gateway_reads.assess_R [OF reads] steps(3)]
      relatesD [OF gateway_reads.execution_refusal_R [OF reads] steps(4)] .
  then have "action_history (s\<lparr>ss_scope := Some sc\<rparr>) t3" by (blast intro: action_history_trans)
  from executed_stay [OF this] have old:
    "xr_requestId ` set (ac_executions s) \<subseteq> xr_requestId ` set (ac_executions t3)"
    by simp
  from commit requested_found [OF q] have "i \<notin> xr_requestId ` set (ac_executions t3)"
    "i \<in> xr_requestId ` set (ac_executions t4)" "dp_requestId p = i"
    by (auto simp: commit_dispatch_def andThen_Inr executions.insert_Inr execution_checks_def)
  with old s' show ?thesis by auto
qed

text \<open>
  C7. A request is dispatched at most once. After a call committed to dispatch a request, no
  later call does so for the same request, whatever happened in between: not even after the
  dispatch failed, was interrupted, or its run was retried.
\<close>

theorem dispatched_at_most_once:
  assumes "gateway_services env" and "prepareExecution env run i st n s = Inr (Dispatch p, s')"
    and "gateway_steps env s' t" and "prepareExecution env run' i' st' n' t = Inr (Dispatch p', t')"
  shows "dp_requestId p' \<noteq> dp_requestId p"
proof -
  from dispatch_commits [OF assms(1,2)] have first: "dp_requestId p \<in> xr_requestId ` set (ac_executions s')"
    by auto
  with executed_stay [OF gateway_steps_history [OF assms(1,3)]]
  have "dp_requestId p \<in> xr_requestId ` set (ac_executions t)" by blast
  with dispatch_commits [OF assms(1,4)] show ?thesis by metis
qed

lemma dispatched_at_most_once_witness:
  "\<exists>p. prepareExecution sample_gateway busy_run ''q1'' ''s1'' 100 sample_approved = Inr (Dispatch p, sample_dispatched) \<and>
     (\<forall>run st n p' t. prepareExecution sample_gateway run ''q1'' st n sample_dispatched = Inr (Dispatch p', t) \<longrightarrow>
        dp_requestId p' \<noteq> dp_requestId p)"
  using dispatches dispatched_at_most_once [OF sample_gateway_services _ gateway_steps.none] by blast

section \<open>Only what was authorized is dispatched\<close>



section \<open>Writes whose outcome is unknown\<close>

text \<open>
  A write is not decided again while an earlier attempt awaits reconciliation: with an open
  reconciliation of the organization for the same action, of the same thread or with the same
  payload, a request for a write is denied and nothing of its payload is kept.
\<close>

theorem open_reconciliation_denies:
  assumes services: "gateway_services env"
    and decide: "decide_action env rt run msg h s = Inr (v, s')"
    and writes: "controlPlaneAction (rm_action msg) = Some ha" "ca_effect ha = WriteEffect"
    and payload: "rm_parameters msg = Some w"
    and blocked: "unreconciled s (rn_organizationId run) (rn_threadId run) (rm_action msg) (gw_digest env w)"
  shows "dv_decision v = DENIED \<and>
    (\<exists>q. ac_requests s' = ac_requests s @ [q] \<and> rq_decision q = DENIED \<and> rq_parameters q = None \<and> rq_changeSet q = None)"
  by (rule decision_blocked [OF assms])

lemma open_reconciliation_denies_witness:
  "\<exists>v. decide_action sample_gateway ''rt'' busy_run again_message sample_hash sample_unknown = Inr (v, sample_denied) \<and>
     dv_decision v = DENIED"
proof -
  obtain v where v: "decide_action sample_gateway ''rt'' busy_run again_message sample_hash sample_unknown = Inr (v, sample_denied)"
    using asks_again by blast
  have "controlPlaneAction (rm_action again_message) = Some JiraIssueCreate" "ca_effect JiraIssueCreate = WriteEffect"
    "rm_parameters again_message = Some issue_parameters"
    by code_simp+
  from open_reconciliation_denies [OF sample_gateway_services v this sample_blocked] v show ?thesis by blast
qed

text \<open>
  C9. A write whose outcome is unknown is not repeated on its thread until a person has
  reconciled it: whatever happened since, a request for the same action is denied, unless the
  reconciliation of the first request has been resolved by someone.
\<close>

theorem unknown_write_is_not_repeated:
  assumes services: "gateway_services env" and sound: "action_sound s" "keys_unique s"
    and complete: "completeExecution env p outcome s = Inr (x, s1)"
    and dispatched: "y \<in> set (ac_executions s)" "open_execution (dp_requestId p) (dp_organizationId p) y"
    and fresh: "dp_requestId p \<notin> rc_requestId ` set (ac_reconciliations s)"
    and unknown: "ca_effect (dp_handler p) = WriteEffect" "dp_action p = ca_action (dp_handler p)"
      "map_option er_code (xo_error outcome) = Some ''CONNECTOR_OUTCOME_UNKNOWN''"
    and run: "r \<in> set (ex_runs s)" "rn_id r = dp_runId p" "rn_organizationId r = dp_organizationId p"
    and later: "gateway_steps env s1 t" "decide_action env rt run msg h t = Inr (v, t')"
    and same: "rm_action msg = dp_action p" "rn_threadId run = rn_threadId r" "rn_organizationId run = rn_organizationId r"
      "rm_parameters msg = Some w"
  shows "dv_decision v = DENIED \<or>
    (\<exists>c \<in> set (ac_reconciliations t). rc_requestId c = dp_requestId p \<and> rc_state c \<noteq> REQUIRED \<and> rc_resolvedBy c \<noteq> None)"
proof -
  from complete_closes [OF complete sound(1) dispatched] obtain sc u z t' where
    sc: "sees sc (dp_organizationId p)" "ss_scope u = Some sc" and "x = outcome"
    and "ac_executions u = map (\<lambda>q. if q = y then q\<lparr>xr_status := (if xo_succeeded outcome then SUCCEEDED else ExFAILED),
             xr_result := xo_result outcome, xr_errorCode := map_option er_code (xo_error outcome),
             xr_completedAt := Some t'\<rparr> else q) (ac_executions s)"
    and u: "exec_tables s u" "ac_reconciliations u = ac_reconciliations s"
    and req: "whenever (ca_effect (dp_handler p) = WriteEffect \<and>
             map_option er_code (xo_error outcome) = Some ''CONNECTOR_OUTCOME_UNKNOWN'')
           (require_reconciliation
              \<lparr>ri_organizationId = dp_organizationId p, ri_requestId = dp_requestId p, ri_runId = dp_runId p,
               ri_agentId = dp_agentId p, ri_action = dp_action p, ri_payloadDigest = dp_payloadDigest p,
               ri_reason = OUTCOME_UNKNOWN\<rparr>) u = Inr ((), z)"
    and z: "action_tables z s1"
    by (rule complete_closes [OF complete sound(1) dispatched])
  have "\<exists>c \<in> set (ac_reconciliations z). rc_requestId c = dp_requestId p \<and> rc_organizationId c = dp_organizationId p \<and>
    rc_threadId c = rn_threadId r \<and> rc_action c = dp_action p \<and> rc_payloadDigest c = dp_payloadDigest p \<and> rc_state c = REQUIRED"
    using require_Inr(1) [OF req [unfolded whenever_def, simplified unknown(1,3) simp_thms if_True] sc(2)] sc u run fresh sound(2)
    by (simp add: exec_tables_def keys_unique_def)
  then obtain c where c: "c \<in> set (ac_reconciliations s1)" "rc_requestId c = dp_requestId p"
    "rc_organizationId c = dp_organizationId p" "rc_threadId c = rn_threadId r" "rc_action c = dp_action p"
    using z by (auto simp: action_tables_def)
  have history: "action_history s s1" "action_history s1 t"
    using gateway_step_history [OF services gateway_step.completed [OF complete]]
      gateway_steps_history [OF services later(1)] .
  then have ok: "action_sound t" using sound(1) by (simp add: action_history_def)
  from history(2) have "grows reconciliation_evolves (ac_reconciliations s1) (ac_reconciliations t)"
    by (simp add: action_history_def records_kept_def)
  from grows_in [OF this c(1)] obtain c' where c': "c' \<in> set (ac_reconciliations t)" "reconciliation_evolves c c'"
    by blast
  show ?thesis
  proof (cases "rc_state c' = REQUIRED")
    case True
    have "controlPlaneAction (rm_action msg) = Some (dp_handler p)"
      using same(1) unknown(2) by (cases "dp_handler p") (simp_all add: controlPlaneAction_def controlPlaneActions_def)
    moreover have "unreconciled t (rn_organizationId run) (rn_threadId run) (rm_action msg) (gw_digest env w)"
      using c c' True same run by (auto simp: unreconciled_def reconciliation_evolves_def)
    ultimately show ?thesis using decision_blocked [OF services later(2) _ unknown(1) same(4)] by blast
  next
    case False
    with ok c'(1) have "rc_resolvedBy c' \<noteq> None" by (auto simp: action_sound_def reconciliation_ok_def)
    with False c c' show ?thesis by (auto simp: reconciliation_evolves_def)
  qed
qed

lemma unknown_write_is_not_repeated_witness:
  "\<exists>v. decide_action sample_gateway ''rt'' busy_run again_message sample_hash sample_unknown = Inr (v, sample_denied) \<and>
     (dv_decision v = DENIED \<or>
      (\<exists>c \<in> set (ac_reconciliations sample_unknown). rc_requestId c = ''q1'' \<and> rc_state c \<noteq> REQUIRED \<and> rc_resolvedBy c \<noteq> None))"
proof -
  obtain v where v: "decide_action sample_gateway ''rt'' busy_run again_message sample_hash sample_unknown = Inr (v, sample_denied)"
    using asks_again by blast
  obtain x where x: "completeExecution sample_gateway issue_dispatch timed_out sample_dispatched = Inr (x, sample_unknown)"
    using completes by blast
  have "list_ex (open_execution (dp_requestId issue_dispatch) (dp_organizationId issue_dispatch)) (ac_executions sample_dispatched)"
    by code_simp
  then obtain y where y: "y \<in> set (ac_executions sample_dispatched)"
    "open_execution (dp_requestId issue_dispatch) (dp_organizationId issue_dispatch) y"
    by (auto simp: list_ex_iff)
  have fresh: "dp_requestId issue_dispatch \<notin> rc_requestId ` set (ac_reconciliations sample_dispatched)"
    and unknown: "ca_effect (dp_handler issue_dispatch) = WriteEffect"
      "dp_action issue_dispatch = ca_action (dp_handler issue_dispatch)"
      "map_option er_code (xo_error timed_out) = Some ''CONNECTOR_OUTCOME_UNKNOWN''"
    by code_simp+
  have run: "busy_run \<in> set (ex_runs sample_dispatched)" "rn_id busy_run = dp_runId issue_dispatch"
    "rn_organizationId busy_run = dp_organizationId issue_dispatch"
    by code_simp+
  have same: "rm_action again_message = dp_action issue_dispatch" "rm_parameters again_message = Some issue_parameters"
    by code_simp+
  from unknown_write_is_not_repeated [OF sample_gateway_services sample_sound x y fresh unknown run
      gateway_steps.none v same(1) refl refl same(2)] v
  show ?thesis by (auto simp: issue_dispatch_def)
qed

section \<open>The records over time\<close>



text \<open>
  The record is permanent. No operation changes or removes a request, a grant or an audit
  event, changes a finished execution or a resolved reconciliation, or anything but the outcome
  of the others.
\<close>

theorem action_records_are_kept:
  assumes "gateway_services env" and "gateway_step env s s'"
  shows "prefix (ac_requests s) (ac_requests s') \<and> prefix (ac_grants s) (ac_grants s') \<and>
    prefix (ac_audit s) (ac_audit s') \<and> grows execution_evolves (ac_executions s) (ac_executions s') \<and>
    grows reconciliation_evolves (ac_reconciliations s) (ac_reconciliations s')"
  using gateway_step_history [OF assms] by (simp add: action_history_def records_kept_def)

lemma action_records_are_kept_witness:
  "prefix (ac_requests sample_dispatched) (ac_requests sample_unknown) \<and>
   grows execution_evolves (ac_executions sample_dispatched) (ac_executions sample_unknown)"
  using completes action_records_are_kept [OF sample_gateway_services gateway_step.completed] by blast

subsection \<open>The life of a request\<close>

text \<open>
  The abstract life of a request: recorded once, then dispatched or refused, then finished. The
  tables implement it: \<open>phase\<close> reads the abstract state, and every operation takes it along
  \<open>phase_step\<close>.
\<close>

datatype phase = Unrequested | Requested | InFlight | Completed bool

inductive phase_step :: "phase \<Rightarrow> phase \<Rightarrow> bool" where
  request: "phase_step Unrequested Requested"
| send: "phase_step Requested InFlight"
| refuse: "phase_step Requested (Completed False)"
| finish: "phase_step InFlight (Completed ok)"

inductive_simps phase_step_simps:
  "phase_step (Completed ok) p" "phase_step p Unrequested"

fun status_phase :: "execution_status \<Rightarrow> phase" where
  "status_phase DISPATCHING = InFlight"
| "status_phase SUCCEEDED = Completed True"
| "status_phase ExFAILED = Completed False"

definition phase_of :: "'z action_db_scheme \<Rightarrow> string \<Rightarrow> phase" where
  "phase_of s i =
     (case find (\<lambda>x. xr_requestId x = i) (ac_executions s) of
        Some x \<Rightarrow> status_phase (xr_status x)
      | None \<Rightarrow> if i \<in> rq_id ` set (ac_requests s) then Requested else Unrequested)"

lemma phase_reaches:
  "phase_step\<^sup>*\<^sup>* Requested (status_phase st)" "phase_step\<^sup>*\<^sup>* Unrequested Requested"
  "phase_step\<^sup>*\<^sup>* Unrequested (status_phase st)" "phase_step\<^sup>*\<^sup>* InFlight (status_phase st)"
proof -
  have requested: "phase_step\<^sup>*\<^sup>* Unrequested Requested"
    by (rule r_into_rtranclp, rule phase_step.request)
  have finished: "phase_step\<^sup>*\<^sup>* InFlight (status_phase st)"
    by (cases st) (simp_all add: r_into_rtranclp phase_step.finish)
  have sent: "phase_step\<^sup>*\<^sup>* Requested (status_phase st)"
    by (rule converse_rtranclp_into_rtranclp [OF phase_step.send finished])
  show "phase_step\<^sup>*\<^sup>* Requested (status_phase st)" "phase_step\<^sup>*\<^sup>* Unrequested Requested"
    "phase_step\<^sup>*\<^sup>* Unrequested (status_phase st)" "phase_step\<^sup>*\<^sup>* InFlight (status_phase st)"
    by (rule sent requested finished rtranclp_trans [OF requested sent])+
qed

lemma phase_completed: "phase_step\<^sup>*\<^sup>* (Completed ok) q \<Longrightarrow> q = Completed ok"
  by (induction rule: rtranclp_induct) (simp_all add: phase_step_simps)

lemma phase_of_execution:
  assumes "distinct (map xr_requestId (ac_executions s))" and "x \<in> set (ac_executions s)"
  shows "phase_of s (xr_requestId x) = status_phase (xr_status x)"
proof (cases "find (\<lambda>y. xr_requestId y = xr_requestId x) (ac_executions s)")
  case None
  with assms(2) show ?thesis by (auto simp: find_None_iff)
next
  case (Some y)
  from find_Some_set [OF this] assms have "y = x" by (auto intro: unique_key)
  with Some show ?thesis by (simp add: phase_of_def)
qed

lemma phase_moves:
  assumes "action_history s s'" and sound: "action_sound s"
  shows "phase_step\<^sup>*\<^sup>* (phase_of s i) (phase_of s' i)"
proof -
  from assms have kept: "grows execution_evolves (ac_executions s) (ac_executions s')"
    and rows: "prefix (ac_requests s) (ac_requests s')" and sound': "action_sound s'"
    by (simp_all add: action_history_def records_kept_def)
  show ?thesis
  proof (cases "find (\<lambda>x. xr_requestId x = i) (ac_executions s)")
    case (Some x)
    from find_Some_set [OF Some] have x: "x \<in> set (ac_executions s)" "xr_requestId x = i" by auto
    from grows_in [OF kept x(1)] obtain x' where x': "x' \<in> set (ac_executions s')" "execution_evolves x x'" by blast
    have "phase_of s i = status_phase (xr_status x)" "phase_of s' i = status_phase (xr_status x')"
      using phase_of_execution [OF _ x(1)] phase_of_execution [OF _ x'(1)] sound sound' x x'
      by (simp_all add: action_sound_def execution_evolves_def)
    with x' show ?thesis by (cases "xr_status x") (auto simp: execution_evolves_def phase_reaches)
  next
    case None
    show ?thesis
    proof (cases "find (\<lambda>x. xr_requestId x = i) (ac_executions s')")
      case (Some x)
      then show ?thesis using None by (simp add: phase_of_def phase_reaches)
    next
      case none: None
      have "i \<in> rq_id ` set (ac_requests s) \<Longrightarrow> i \<in> rq_id ` set (ac_requests s')"
        using rows by (auto dest: set_mono_prefix)
      then show ?thesis using None none by (simp add: phase_of_def phase_reaches)
    qed
  qed
qed



end
