(* ===== verification/Spec2Isabelle.thy ===== *)
theory Spec2Isabelle
  imports KernelSamples CredentialSamples TransportSamples SpendingSamples ExecutionProperties ExecutionBehaviour ExecutionOperations
    ActionProperties ActionBehaviour
begin

text \<open>
  A verification development for the employee agent platform: the control plane that keeps the record of
  agents' work and decides what they may do (\<open>apps/control-plane-api\<close>, with the contracts it shares in
  \<open>packages/contracts\<close> and the policy of \<open>packages/policy-engine\<close>), and the kernel of the agent runtime that
  does the work (\<open>apps/agent-runtime\<close>). All paths are below \<open>src/\<close>.

  \<^bold>\<open>The program.\<close> An employee gives an agent a task, which is a run of a thread. An agent runtime claims the
  run under a lease, asks a model what to do and reports what happens as events; every governed action it
  wants to take is decided by the control plane, from its policy, the overrides of the organization, and a
  human where one is required. An allowed action is executed by the control plane through a connector, or
  by an execution runtime that is given a signed grant; a checkout redeems a repository credential with
  that grant. Every call of a model is reserved against the budgets of the organization and settled
  afterwards. A runtime checkpoints its run, so that another one can take it over.

  The parts below are in the order in which they build on each other. \<open>ExecutionService\<close> is given the
  policy and the approvals of \<open>ActionGateway\<close> as hooks and the gateway uses the runs of the execution
  service; the runtime transport calls both, the spending service and the credential broker; the gateway
  calls the broker when it issues a grant of a checkout, and a stopped run ends its leases.

  \<^bold>\<open>Foundations.\<close>
  \<^item> \<open>Prelude\<close>: errors as values, state with errors (\<open>op\<close>), and the principles the component proofs use.
    \<open>relates\<close> is a relation between the states before and after; the locale \<open>evolution\<close> holds the laws of a
    relation that is kept by every combinator, so that a fact of the statements of a table is a fact of the
    operations.
  \<^item> \<open>PolicyEngine\<close>: \<open>packages/policy-engine/src/index.ts\<close>, with the strictest decision as a reference
    definition.
  \<^item> \<open>RunLifecycle\<close>: \<open>contracts/src/run-lifecycle.ts\<close>, the state machines of runs and steps.
  \<^item> \<open>PgStore\<close>: \<open>control-plane-api/src/db/pg-store.ts\<close>. The statements of a table (\<open>insert_row\<close>, \<open>update_rows\<close>)
    check its constraints, visibility is the row-level security of the scope, a transaction that throws
    changes nothing and is retried at most twelve times on a serialization failure. The locale \<open>table\<close> is
    interpreted on every table below.
  \<^item> \<open>WebText\<close>, \<open>RuntimeProtocol\<close>: text, URLs and JSON as JavaScript and the schemas read them; the events of
    \<open>contracts/src/runtime/v1\<close> with their schema.

  \<^bold>\<open>Runs.\<close> \<open>ExecutionStore\<close> has the tables of threads, runs, steps, events, artifacts and approvals with the
  constraints and triggers of \<open>db/migrations/0001-baseline.ts\<close>; \<open>ExecutionService\<close> every operation of
  \<open>execution/execution-service.ts\<close> that writes. \<open>ExecutionEvolution\<close> is the contract with the hooks,
  \<open>ExecutionEffects\<close> says what the statements do, \<open>ExecutionHistory\<close>, \<open>ExecutionLedger\<close> and
  \<open>ExecutionIntegrity\<close> are invariants statement by statement, \<open>ExecutionProperties\<close> the transition system of
  all operations with its reachable states, \<open>ExecutionBehaviour\<close> what single operations achieve.

  \<^bold>\<open>Actions.\<close> \<open>ExecutionOperations\<close> are the operations of the execution runtime and their schema
  (\<open>contracts/src/execution-runtime/v1\<close>, \<open>actions/execution-actions.ts\<close>); \<open>ActionRegistry\<close> the actions of
  \<open>actions/action-registry.ts\<close>; \<open>ActionStore\<close> the tables of requests, executions, grants, reconciliations,
  overrides and the audit log; \<open>ActionPolicies\<close> \<open>action-policy-service.ts\<close> and \<open>action-reconciliation.ts\<close>;
  \<open>ActionGateway\<close> \<open>action-gateway.ts\<close>. \<open>ActionEvolution\<close> lifts facts of the tables to its operations (the
  locales \<open>reading\<close>, \<open>open_evolution\<close>, \<open>gateway_hooks\<close> and \<open>action_evolution\<close>), \<open>ActionHistory\<close> has the records
  over time and the refinement of an abstract life of a request, \<open>ActionEffects\<close> the steps of a successful
  call, \<open>ActionProperties\<close> and \<open>ActionBehaviour\<close> the promises of the gateway.

  \<^bold>\<open>Model spending.\<close> \<open>SpendingStore\<close> (\<open>db/migrations/0002\<close> to \<open>0004\<close>), \<open>ModelPrices\<close> (\<open>spending/model-prices.ts\<close>,
  exact costs in micros), \<open>ModelSpending\<close> (\<open>model-spending-service.ts\<close> and \<open>model-budget-alerts.ts\<close>);
  \<open>SpendingHistory\<close>, \<open>SpendingProperties\<close>, \<open>SpendingBehaviour\<close> and \<open>SpendingInvariants\<close> hold the records over
  time, what a reservation found and did, and the invariants of currencies and alerts.

  \<^bold>\<open>Runtime transport.\<close> \<open>TransportMessages\<close> (\<open>contracts/src/runtime/v1/transport.ts\<close> and \<open>schemas.ts\<close>),
  \<open>TransportStore\<close> (leases, checkpoints and nonces, \<open>runtime/run-checkpoints.ts\<close>), \<open>RuntimeIdentity\<close>
  (\<open>runtime/runtime-identity.ts\<close> and the authentication of signed requests), \<open>RuntimeTransport\<close> (claims and
  leases of \<open>runtime/runtime-transport-service.ts\<close>) and \<open>RuntimeRequests\<close> (its other requests).
  \<open>TransportEvolution\<close>, \<open>TransportHistory\<close> and \<open>TransportSteps\<close> make it a transition system,
  \<open>TransportProperties\<close> has what holds of it.

  \<^bold>\<open>Repository credentials.\<close> \<open>SourceControl\<close> (\<open>credentials/source-control.ts\<close>, \<open>source-control-connections.ts\<close>
  and \<open>db/migrations/0011-repository-credentials.ts\<close>), \<open>CredentialBroker\<close> (\<open>credential-broker.ts\<close> and
  \<open>credential-issuers.ts\<close>). \<open>CredentialHistory\<close> and \<open>CredentialSteps\<close> show that the broker keeps the laws the
  rest relies on: the interpretation \<open>wired\<close> discharges the hooks of the gateway with the broker itself.
  \<open>CredentialProperties\<close> has its promises and \<open>CheckoutGrants\<close> the gateway and the broker together.

  \<^bold>\<open>The kernel of the agent runtime.\<close> \<open>AgentKernel\<close> is \<open>kernel/native-kernel.ts\<close> with \<open>errors.ts\<close> and the
  interfaces of tools, models and kernels. What a kernel does is a history of effects; the control plane,
  the model, the tools, the clock and the identifiers are functions of the history so far, so they may
  answer anything and fail at any point. \<open>KernelHistory\<close> has the triples \<open>obeys\<close> of a law by which every
  effect is judged from what precedes it and the law of the native kernel, \<open>KernelTurns\<close> and \<open>KernelSteps\<close>
  its turns and steps, \<open>KernelProperties\<close> what follows.

  \<^bold>\<open>Samples.\<close> \<open>ActionSamples\<close>, \<open>SpendingSamples\<close>, \<open>TransportSamples\<close>, \<open>CredentialSamples\<close> and \<open>KernelSamples\<close>
  are concrete states, environments and runs; each theorem with hypotheses is applied there.

  \<^bold>\<open>Conventions.\<close> Times are integers of milliseconds; text is a list of characters with codes below 256;
  JavaScript numbers are exact integers, which they are in the ranges the schemas allow. SHA-256 of
  canonical JSON, the parsing of URLs, the acceptance of \<open>z.uuid()\<close>, \<open>z.url()\<close> and dates, fresh identifiers, keys
  and signatures are parameters. Transactions are atomic and run one after the other, which is what
  SERIALIZABLE isolation with the retry of \<open>pg-store.ts\<close> gives; advisory locks are not needed then.
  Telemetry, tracing and what runs after a commit are left out, except where a withdrawal of credentials
  is the point. The laws of hooks are named hypotheses (\<open>gateway_services\<close>, \<open>spending_services\<close>,
  \<open>transport_services\<close>, and the locales of \<open>ExecutionEvolution\<close>): they say which tables a hook leaves alone;
  the instances \<open>bare_*\<close>, \<open>sample\<close> and \<open>wired\<close> satisfy them.

  \<^bold>\<open>Termination.\<close> There is no fuel. The retry of a transaction counts down its twelve attempts, the loops over
  claims and recoveries run over the rows found before, the kernel's loop over the turns that are left and
  the calls of a turn.

  \<^bold>\<open>What modelling showed.\<close> The findings of the manifest: the audit event of a refused grant is rolled back
  with it; a replayed redemption ends a lease without withdrawing its credential; a refused revocation
  withdraws one; a nonce can be purged while its request is still accepted; local hosts pass as API hosts.

  \<^bold>\<open>Not modelled.\<close> Reading: the queries and views that answer lists and pages and change nothing, except
  those other operations decide from. The HTTP layer (\<open>app.ts\<close>, routes, \<open>auth.ts\<close>), the user interfaces
  (\<open>control-plane-web\<close>, \<open>employee-desktop\<close>, \<open>packages/web-auth\<close>), telemetry, the rendering of dashboards and
  alerts (\<open>packages/operations\<close>), the readiness assessment and the static catalog data. Cryptography and
  clients of other services (\<open>secrets\<close>, \<open>manifest-signing.ts\<close>, connectors, model providers, the transport
  client). The execution runtime, which drives processes, files and containers; the host of the agent
  runtime, which wires the kernel to HTTP. Artifacts' object storage, webhooks, the organization's members
  and structure, quality evaluations, model credentials, and the import of legacy data are further
  components of the control plane; the sections above use of them only what they read.
\<close>

end
